(* ===== verification/Prelude.thy ===== *)
theory Prelude
  imports Main "HOL-Library.Word" "HOL-Library.State_Monad"
begin

text \<open>
  Shared vocabulary of the development: machine integers, the trace of hardware and kernel
  events every driver produces, the primitive port, memory and user-copy operations over that
  trace, and the generic lemmas on bits, lists and loops the component theories use.

  A driver talks to the outside only through port and memory-mapped I/O, through the kernel
  services it calls and through the copies from and to user space.  Each of these is an
  event.  The values the outside answers with are a parameter: the record \<open>env\<close> holds, for
  every kind of question, a function of the history so far.  The state \<open>io\<close> carries the
  environment (no operation ever changes it) and the history, newest event first; each
  driver extends this record with its own variables.
\<close>

unbundle bit_operations_syntax

section \<open>Machine integers\<close>

type_synonym u8 = "8 word"
type_synonym u16 = "16 word"
type_synonym u32 = "32 word"
type_synonym port = nat

section \<open>Events and environments\<close>

datatype io_event =
    In_b port u8
  | Out_b u8 port
  | In_w port u16
  | Out_w u16 port
  | Read_l nat u32
  | Write_l u32 nat
  | To_user "int list"
  | Kernel_call string "int list" int
  | Undefined string

record env =
  env_b :: "io_event list \<Rightarrow> port \<Rightarrow> u8"
  env_w :: "io_event list \<Rightarrow> port \<Rightarrow> u16"
  env_l :: "io_event list \<Rightarrow> nat \<Rightarrow> u32"
  env_k :: "io_event list \<Rightarrow> string \<Rightarrow> int list \<Rightarrow> int"

record io =
  ienv :: env
  ihist :: "io_event list"

type_synonym ('x, 'a) io_m = "('x io_scheme, 'a) state"

abbreviation ret :: "'a \<Rightarrow> ('s, 'a) state" where
  "ret \<equiv> State_Monad.return"

definition gets :: "('s \<Rightarrow> 'a) \<Rightarrow> ('s, 'a) state" where
  "gets f = State (\<lambda>s. (f s, s))"

definition modify :: "('s \<Rightarrow> 's) \<Rightarrow> ('s, unit) state" where
  "modify f = State (\<lambda>s. ((), f s))"

definition whenM :: "bool \<Rightarrow> ('s, unit) state \<Rightarrow> ('s, unit) state" where
  "whenM b m = (if b then m else ret ())"

definition emit :: "io_event \<Rightarrow> ('x, unit) io_m" where
  "emit e = modify (\<lambda>s. s\<lparr>ihist := e # ihist s\<rparr>)"

subsection \<open>Port and memory-mapped I/O\<close>

definition inb :: "port \<Rightarrow> ('x, u8) io_m" where
  "inb p = State (\<lambda>s. let v = env_b (ienv s) (ihist s) p in (v, s\<lparr>ihist := In_b p v # ihist s\<rparr>))"

definition outb :: "u8 \<Rightarrow> port \<Rightarrow> ('x, unit) io_m" where
  "outb v p = emit (Out_b v p)"

definition inw :: "port \<Rightarrow> ('x, u16) io_m" where
  "inw p = State (\<lambda>s. let v = env_w (ienv s) (ihist s) p in (v, s\<lparr>ihist := In_w p v # ihist s\<rparr>))"

definition outw :: "u16 \<Rightarrow> port \<Rightarrow> ('x, unit) io_m" where
  "outw v p = emit (Out_w v p)"

definition readl :: "nat \<Rightarrow> ('x, u32) io_m" where
  "readl a = State (\<lambda>s. let v = env_l (ienv s) (ihist s) a in (v, s\<lparr>ihist := Read_l a v # ihist s\<rparr>))"

definition writel :: "u32 \<Rightarrow> nat \<Rightarrow> ('x, unit) io_m" where
  "writel v a = emit (Write_l v a)"

subsection \<open>Kernel services, undefined behaviour, user copies\<close>

text \<open>
  A call of a kernel service records its name, its arguments and the answer of the
  environment.  \<open>undefined_c\<close> records that the C code does something the language leaves
  undefined (an index outside its array, a shift by a negative amount, a division by zero);
  nothing is claimed about what a run does after such an event.
\<close>

definition kcall :: "string \<Rightarrow> int list \<Rightarrow> ('x, int) io_m" where
  "kcall f as = State (\<lambda>s. let r = env_k (ienv s) (ihist s) f as in
     (r, s\<lparr>ihist := Kernel_call f as r # ihist s\<rparr>))"

definition knote :: "string \<Rightarrow> int list \<Rightarrow> ('x, unit) io_m" where
  "knote f as = do { _ \<leftarrow> kcall f as; ret () }"

definition undefined_c :: "string \<Rightarrow> ('x, unit) io_m" where
  "undefined_c w = emit (Undefined w)"

text \<open>
  The user argument of a system call: \<open>ua_left\<close> bytes of the copy in fail, \<open>ua_in\<close> is what
  the local variable holds after the copy in, \<open>ua_out\<close> bytes of a copy out fail.
\<close>

record 'a uarg =
  ua_left :: nat
  ua_in :: 'a
  ua_out :: nat

definition copy_to_user :: "'a uarg \<Rightarrow> int list \<Rightarrow> ('x, nat) io_m" where
  "copy_to_user u vs = do { whenM (ua_out u = 0) (emit (To_user vs)); ret (ua_out u) }"

definition put_user :: "'a uarg \<Rightarrow> int \<Rightarrow> ('x, int) io_m" where
  "put_user u v = do { n \<leftarrow> copy_to_user u [v]; ret (if n = 0 then 0 else -14) }"

subsection \<open>Error numbers\<close>

abbreviation "EPERM \<equiv> 1 :: int"
abbreviation "EIO \<equiv> 5 :: int"
abbreviation "ENXIO \<equiv> 6 :: int"
abbreviation "EAGAIN \<equiv> 11 :: int"
abbreviation "ENOMEM \<equiv> 12 :: int"
abbreviation "EFAULT \<equiv> 14 :: int"
abbreviation "EBUSY \<equiv> 16 :: int"
abbreviation "ENODEV \<equiv> 19 :: int"
abbreviation "EINVAL \<equiv> 22 :: int"
abbreviation "ENOTTY \<equiv> 25 :: int"
abbreviation "ERESTARTSYS \<equiv> 512 :: int"
abbreviation "ENOIOCTLCMD \<equiv> 515 :: int"

section \<open>Running the primitives\<close>

lemma run_gets [simp]: "run_state (gets f) s = (f s, s)"
  by (simp add: gets_def)

lemma run_modify [simp]: "run_state (modify f) s = ((), f s)"
  by (simp add: modify_def)

lemma run_emit [simp]: "run_state (emit e) s = ((), s\<lparr>ihist := e # ihist s\<rparr>)"
  by (simp add: emit_def)

lemma run_whenM [simp]:
  "run_state (whenM b m) s = (if b then run_state m s else ((), s))"
  by (simp add: whenM_def)

lemma run_inb [simp]: "run_state (inb p) s =
   (env_b (ienv s) (ihist s) p, s\<lparr>ihist := In_b p (env_b (ienv s) (ihist s) p) # ihist s\<rparr>)"
  by (simp add: inb_def Let_def)

lemma run_outb [simp]: "run_state (outb v p) s = ((), s\<lparr>ihist := Out_b v p # ihist s\<rparr>)"
  by (simp add: outb_def)

lemma run_inw [simp]: "run_state (inw p) s =
   (env_w (ienv s) (ihist s) p, s\<lparr>ihist := In_w p (env_w (ienv s) (ihist s) p) # ihist s\<rparr>)"
  by (simp add: inw_def Let_def)

lemma run_outw [simp]: "run_state (outw v p) s = ((), s\<lparr>ihist := Out_w v p # ihist s\<rparr>)"
  by (simp add: outw_def)

lemma run_readl [simp]: "run_state (readl p) s =
   (env_l (ienv s) (ihist s) p, s\<lparr>ihist := Read_l p (env_l (ienv s) (ihist s) p) # ihist s\<rparr>)"
  by (simp add: readl_def Let_def)

lemma run_writel [simp]: "run_state (writel v p) s = ((), s\<lparr>ihist := Write_l v p # ihist s\<rparr>)"
  by (simp add: writel_def)

lemma run_kcall [simp]: "run_state (kcall f as) s =
   (env_k (ienv s) (ihist s) f as,
    s\<lparr>ihist := Kernel_call f as (env_k (ienv s) (ihist s) f as) # ihist s\<rparr>)"
  by (simp add: kcall_def Let_def)

lemma run_knote [simp]: "run_state (knote f as) s =
   ((), s\<lparr>ihist := Kernel_call f as (env_k (ienv s) (ihist s) f as) # ihist s\<rparr>)"
  by (simp add: knote_def)

lemma run_undefined_c [simp]:
  "run_state (undefined_c w) s = ((), s\<lparr>ihist := Undefined w # ihist s\<rparr>)"
  by (simp add: undefined_c_def)

lemma run_copy_to_user [simp]: "run_state (copy_to_user u vs) s =
   (ua_out u, if ua_out u = 0 then s\<lparr>ihist := To_user vs # ihist s\<rparr> else s)"
  by (simp add: copy_to_user_def)

lemma run_put_user [simp]: "run_state (put_user u v) s =
   (if ua_out u = 0 then (0, s\<lparr>ihist := To_user [v] # ihist s\<rparr>) else (-14, s))"
  by (simp add: put_user_def)

section \<open>Observations of a history\<close>

fun outputs :: "io_event list \<Rightarrow> (port \<times> u8) list" where
  "outputs [] = []"
| "outputs (Out_b v p # h) = outputs h @ [(p, v)]"
| "outputs (_ # h) = outputs h"

fun last_out :: "(port \<Rightarrow> u8) \<Rightarrow> io_event list \<Rightarrow> port \<Rightarrow> u8" where
  "last_out d [] p = d p"
| "last_out d (Out_b v q # h) p = (if q = p then v else last_out d h p)"
| "last_out d (_ # h) p = last_out d h p"

fun is_undefined :: "io_event \<Rightarrow> bool" where
  "is_undefined (Undefined _) = True"
| "is_undefined _ = False"

definition defined_run :: "'x io_scheme \<Rightarrow> bool" where
  "defined_run s = (\<forall>e \<in> set (ihist s). \<not> is_undefined e)"

lemma outputs_append [simp]: "outputs (h2 @ h1) = outputs h1 @ outputs h2"
  by (induction h2 rule: outputs.induct) simp_all

lemma last_out_fun_upd [simp]: "last_out d (Out_b v q # h) = (last_out d h)(q := v)"
  by (simp add: fun_eq_iff)

lemma last_out_skip [simp]:
  "last_out d (In_b q v # h) = last_out d h"
  "last_out d (Read_l a w # h) = last_out d h"
  "last_out d (To_user vs # h) = last_out d h"
  "last_out d (Kernel_call f as r # h) = last_out d h"
  "last_out d (Undefined u # h) = last_out d h"
  by (simp_all add: fun_eq_iff)

text \<open>
  A latching port reads back the byte last written to it: the behaviour the GPIO registers
  of the supported boards document for output lines.
\<close>

definition latching :: "(port \<Rightarrow> u8) \<Rightarrow> env \<Rightarrow> bool" where
  "latching d e = (env_b e = last_out d)"

definition latch_env :: "(port \<Rightarrow> u8) \<Rightarrow> env" where
  "latch_env d = \<lparr>env_b = last_out d, env_w = (\<lambda>_ _. 0), env_l = (\<lambda>_ _. 0), env_k = (\<lambda>_ _ _. 0)\<rparr>"

lemma latching_latch_env [simp]: "latching d (latch_env d)"
  by (simp add: latching_def latch_env_def)

text \<open>One port alone that reads back what was last written to it.\<close>

definition latches :: "(port \<Rightarrow> u8) \<Rightarrow> port \<Rightarrow> env \<Rightarrow> bool" where
  "latches d a e \<longleftrightarrow> (\<forall>h. env_b e h a = last_out d h a)"

section \<open>Operations that only do input and output\<close>

text \<open>
  \<open>only_io m\<close>: a run of \<open>m\<close> changes no variable of the driver, extends the history, and does
  nothing undefined.  The rules in \<open>io_rules\<close> follow the structure of \<open>m\<close>.
\<close>

definition only_io :: "('x, 'a) io_m \<Rightarrow> bool" where
  "only_io m \<longleftrightarrow> (\<forall>s. \<exists>h. snd (run_state m s) = s\<lparr>ihist := h @ ihist s\<rparr> \<and>
     (\<forall>e \<in> set h. \<not> is_undefined e))"

named_theorems io_rules \<open>structural rules for \<open>only_io\<close>\<close>

lemma only_ioI: "(\<And>s. \<exists>h. snd (run_state m s) = s\<lparr>ihist := h @ ihist s\<rparr> \<and>
    (\<forall>e \<in> set h. \<not> is_undefined e)) \<Longrightarrow> only_io m"
  by (simp add: only_io_def)

lemma only_ioE:
  assumes "only_io m"
  obtains h where "snd (run_state m s) = s\<lparr>ihist := h @ ihist s\<rparr>" "\<forall>e \<in> set h. \<not> is_undefined e"
  using assms unfolding only_io_def by blast

lemma only_io_bind [io_rules]:
  assumes "only_io m" "\<And>x. only_io (f x)"
  shows "only_io (State_Monad.bind m f)"
proof (rule only_ioI)
  fix s
  obtain h1 where h1: "snd (run_state m s) = s\<lparr>ihist := h1 @ ihist s\<rparr>" "\<forall>e \<in> set h1. \<not> is_undefined e"
    using assms(1) by (rule only_ioE)
  obtain h2 where h2: "snd (run_state (f (fst (run_state m s))) (snd (run_state m s)))
      = (snd (run_state m s))\<lparr>ihist := h2 @ ihist (snd (run_state m s))\<rparr>" "\<forall>e \<in> set h2. \<not> is_undefined e"
    using assms(2) by (rule only_ioE)
  show "\<exists>h. snd (run_state (State_Monad.bind m f) s) = s\<lparr>ihist := h @ ihist s\<rparr> \<and>
      (\<forall>e \<in> set h. \<not> is_undefined e)"
    using h1 h2 by (intro exI [of _ "h2 @ h1"]) (auto simp: case_prod_beta)
qed

lemma only_io_none: "(\<And>s. snd (run_state m s) = s) \<Longrightarrow> only_io m"
  by (rule only_ioI, rule exI [of _ "[]"]) simp

lemma only_io_one: "(\<And>s. snd (run_state m s) = s\<lparr>ihist := f s # ihist s\<rparr>) \<Longrightarrow>
    (\<And>s. \<not> is_undefined (f s)) \<Longrightarrow> only_io m"
  by (rule only_ioI, rule_tac x = "[f s]" in exI) simp

lemma only_io_pure [io_rules]: "only_io (ret x)" "only_io (gets g)"
  by (rule only_io_none; simp)+

lemma only_io_inb [io_rules]: "only_io (inb p)"
  by (rule only_io_one [of _ "\<lambda>s. In_b p (env_b (ienv s) (ihist s) p)"]) simp_all

lemma only_io_outb [io_rules]: "only_io (outb v p)"
  by (rule only_io_one [of _ "\<lambda>_. Out_b v p"]) simp_all

lemma only_io_inw [io_rules]: "only_io (inw p)"
  by (rule only_io_one [of _ "\<lambda>s. In_w p (env_w (ienv s) (ihist s) p)"]) simp_all

lemma only_io_outw [io_rules]: "only_io (outw u p)"
  by (rule only_io_one [of _ "\<lambda>_. Out_w u p"]) simp_all

lemma only_io_readl [io_rules]: "only_io (readl a)"
  by (rule only_io_one [of _ "\<lambda>s. Read_l a (env_l (ienv s) (ihist s) a)"]) simp_all

lemma only_io_writel [io_rules]: "only_io (writel w a)"
  by (rule only_io_one [of _ "\<lambda>_. Write_l w a"]) simp_all

lemma only_io_kernel [io_rules]: "only_io (kcall f as)" "only_io (knote f as)"
  by (rule only_io_one [of _ "\<lambda>s. Kernel_call f as (env_k (ienv s) (ihist s) f as)"]; simp)+

lemma only_io_copy [io_rules]: "only_io (copy_to_user ua vs)" "only_io (put_user ua v)"
proof -
  show "only_io (copy_to_user ua vs)"
    by (cases "ua_out ua = 0"; rule only_io_one [of _ "\<lambda>_. To_user vs"] only_io_none; simp; fail)
  show "only_io (put_user ua v)"
    by (cases "ua_out ua = 0"; rule only_io_one [of _ "\<lambda>_. To_user [v]"] only_io_none; simp; fail)
qed

lemma only_io_whenM [io_rules]: "only_io m \<Longrightarrow> only_io (whenM b m)"
  by (auto simp: whenM_def intro: io_rules)

lemma only_io_branch [io_rules]:
  "only_io m \<Longrightarrow> only_io n \<Longrightarrow> only_io (if b then m else n)"
  "only_io n \<Longrightarrow> (\<And>y. only_io (f y)) \<Longrightarrow> only_io (case x of None \<Rightarrow> n | Some y \<Rightarrow> f y)"
  "(\<And>a b. only_io (g a b)) \<Longrightarrow> only_io (case pr of (a, b) \<Rightarrow> g a b)"
  by (auto split: option.splits prod.splits)

section \<open>Invariants of operations\<close>

text \<open>\<open>preserves P m\<close>: a run of \<open>m\<close> from a state with \<open>P\<close> ends in one.\<close>

definition preserves :: "('s \<Rightarrow> bool) \<Rightarrow> ('s, 'a) state \<Rightarrow> bool" where
  "preserves P m \<longleftrightarrow> (\<forall>s. P s \<longrightarrow> P (snd (run_state m s)))"

lemma preservesI: "(\<And>s. P s \<Longrightarrow> P (snd (run_state m s))) \<Longrightarrow> preserves P m"
  by (simp add: preserves_def)

lemma preservesD: "preserves P m \<Longrightarrow> P s \<Longrightarrow> P (snd (run_state m s))"
  by (simp add: preserves_def)

lemma preserves_structure:
  "preserves P (ret x)" "preserves P (gets g)"
  "preserves P m \<Longrightarrow> (\<And>y. preserves P (f y)) \<Longrightarrow> preserves P (State_Monad.bind m f)"
  "preserves P n \<Longrightarrow> preserves P (whenM b n)"
  "preserves P k \<Longrightarrow> preserves P l \<Longrightarrow> preserves P (if b then k else l)"
  "(\<And>a c. preserves P (h a c)) \<Longrightarrow> preserves P (case pr of (a, c) \<Rightarrow> h a c)"
  "preserves P q \<Longrightarrow> (\<And>y. preserves P (g' y)) \<Longrightarrow> preserves P (case ob of None \<Rightarrow> q | Some y \<Rightarrow> g' y)"
  by (auto simp: preserves_def whenM_def case_prod_beta split: option.splits)

section \<open>Bits of a register\<close>

text \<open>
  The C updates \<open>x |= 1 << n\<close> and \<open>x &= ~(1 << n)\<close> are the library's \<open>set_bit n x\<close> and
  \<open>unset_bit n x\<close>; a bit beyond the width of the register is lost by both, as the store to
  the narrower C variable loses it.
\<close>

named_theorems bit_reg \<open>bit-level reading of register updates\<close>

lemma u8_eq_iff: "(v :: u8) = w \<longleftrightarrow> (\<forall>n < 8. bit v n \<longleftrightarrow> bit w n)"
  by (auto simp: bit_eq_iff dest: bit_imp_le_length)

lemma bit_set_bit8 [bit_reg]: "bit (set_bit n (w :: u8)) m \<longleftrightarrow> bit w m \<or> m = n \<and> n < 8"
  by (auto simp: bit_simps possible_bit_def)

lemma bit_unset_bit8 [bit_reg]: "bit (unset_bit n (w :: u8)) m \<longleftrightarrow> bit w m \<and> m \<noteq> n"
  by (auto simp: bit_simps possible_bit_def dest: bit_imp_le_length)

text \<open>Masks of one line, as the drivers write them.\<close>

lemma mask_values: "(0x7f :: u8) = - 129" "(0xbf :: u8) = - 65" "(0xdf :: u8) = - 33"
    "(0xef :: u8) = - 17" "(0xf7 :: u8) = - 9" "(0xfb :: u8) = - 5" "(0xfd :: u8) = - 3" "(0xfe :: u8) = - 2"
  by code_simp+

lemma line_masks:
  "w OR 0x80 = set_bit 7 (w :: u8)" "w OR 0x40 = set_bit 6 w" "w OR 0x20 = set_bit 5 w"
  "w OR 0x10 = set_bit 4 w" "w OR 0x08 = set_bit 3 w" "w OR 0x04 = set_bit 2 w"
  "w OR 0x02 = set_bit 1 w" "w OR 0x01 = set_bit 0 w"
  "w AND - 129 = unset_bit 7 w" "w AND - 65 = unset_bit 6 w" "w AND - 33 = unset_bit 5 w"
  "w AND - 17 = unset_bit 4 w" "w AND - 9 = unset_bit 3 w" "w AND - 5 = unset_bit 2 w"
  "w AND - 3 = unset_bit 1 w" "w AND - 2 = unset_bit 0 w"
  by (simp_all add: set_bit_def unset_bit_def)

definition write_line :: "bool \<Rightarrow> nat \<Rightarrow> u8 \<Rightarrow> u8" where
  "write_line b n w = (if b then set_bit n w else unset_bit n w)"

lemma bit_write_line [bit_reg]:
  "n < 8 \<Longrightarrow> bit (write_line b n w) m \<longleftrightarrow> (if m = n then b else bit w m)"
  by (auto simp: write_line_def bit_reg)

end
