(* ===== verification/Interfaces.thy ===== *)
theory Interfaces
  imports Prelude
begin

text \<open>
  The interfaces between the drivers and what they drive, stated as locales.

  \<open>register_file\<close> is the contract of a device whose registers a driver reads and writes one
  at a time: \<open>peek s k\<close> is the content of register \<open>k\<close> in state \<open>s\<close>, a read returns it and
  disturbs nothing, a write changes that register only.  \<open>line_bank\<close> extends it to 8-bit
  registers whose bits are individual lines.  The Super I/O configuration space, the latching
  GPIO ports and the enhanced registers of the MUST serial chip are interpretations.

  \<open>fifo\<close> is the contract of a bounded queue, interpreted on the transmit ring of the serial
  driver.  \<open>stream_device\<close> is the contract of a transmitter, interpreted on the calls of the three
  serial drivers.
\<close>

section \<open>Register files\<close>

definition rmw :: "('k \<Rightarrow> ('s, 'v) state) \<Rightarrow> ('k \<Rightarrow> 'v \<Rightarrow> ('s, unit) state)
    \<Rightarrow> 'k \<Rightarrow> ('v \<Rightarrow> 'v) \<Rightarrow> ('s, unit) state" where
  "rmw rd wr k f = do { v \<leftarrow> rd k; wr k (f v) }"

locale register_file =
  fixes rd :: "'k \<Rightarrow> ('s, 'v) state"
    and wr :: "'k \<Rightarrow> 'v \<Rightarrow> ('s, unit) state"
    and peek :: "'s \<Rightarrow> 'k \<Rightarrow> 'v"
    and valid :: "'k \<Rightarrow> bool"
    and inv :: "'s \<Rightarrow> bool"
  assumes rd_value: "inv s \<Longrightarrow> valid k \<Longrightarrow> fst (run_state (rd k) s) = peek s k"
    and rd_frame: "inv s \<Longrightarrow> valid k \<Longrightarrow> valid j \<Longrightarrow> peek (snd (run_state (rd k) s)) j = peek s j"
    and wr_peek: "inv s \<Longrightarrow> valid k \<Longrightarrow> valid j \<Longrightarrow>
      peek (snd (run_state (wr k v) s)) j = (if j = k then v else peek s j)"
    and rd_inv: "inv s \<Longrightarrow> valid k \<Longrightarrow> inv (snd (run_state (rd k) s))"
    and wr_inv: "inv s \<Longrightarrow> valid k \<Longrightarrow> inv (snd (run_state (wr k v) s))"
begin

lemmas reg_simps = rd_value rd_frame wr_peek rd_inv wr_inv

lemma read_after_write:
  "inv s \<Longrightarrow> valid k \<Longrightarrow> fst (run_state (rd k) (snd (run_state (wr k v) s))) = v"
  by (simp add: reg_simps)

lemma rmw_inv: "inv s \<Longrightarrow> valid k \<Longrightarrow> inv (snd (run_state (rmw rd wr k f) s))"
  by (simp add: rmw_def case_prod_beta reg_simps)

lemma rmw_peek:
  "inv s \<Longrightarrow> valid k \<Longrightarrow> valid j \<Longrightarrow>
   peek (snd (run_state (rmw rd wr k f) s)) j = (if j = k then f (peek s k) else peek s j)"
  by (simp add: rmw_def case_prod_beta reg_simps)

lemma rmw_commute:
  assumes "inv s" "valid k" "valid k'" "k \<noteq> k'" "valid j"
  shows "peek (snd (run_state (rmw rd wr k f) (snd (run_state (rmw rd wr k' g) s)))) j
       = peek (snd (run_state (rmw rd wr k' g) (snd (run_state (rmw rd wr k f) s)))) j"
  using assms by (simp add: rmw_peek rmw_inv)

end

locale line_bank = register_file rd wr peek valid inv
  for rd :: "'k \<Rightarrow> ('s, u8) state" and wr :: "'k \<Rightarrow> u8 \<Rightarrow> ('s, unit) state"
    and peek :: "'s \<Rightarrow> 'k \<Rightarrow> u8" and valid :: "'k \<Rightarrow> bool" and inv :: "'s \<Rightarrow> bool"
begin

lemma set_line:
  assumes "inv s" "valid k" "valid j" "n < 8"
  shows "bit (peek (snd (run_state (rmw rd wr k (write_line b n)) s)) j) m
       = (if j = k \<and> m = n then b else bit (peek s j) m)"
  using assms by (auto simp: rmw_peek bit_write_line)

end

section \<open>Bounded queues\<close>

locale fifo =
  fixes put :: "'a \<Rightarrow> 'q \<Rightarrow> 'q"
    and take_front :: "'q \<Rightarrow> 'a \<times> 'q"
    and contents :: "'q \<Rightarrow> 'a list"
    and capacity :: "'q \<Rightarrow> nat"
    and inv :: "'q \<Rightarrow> bool"
  assumes put_contents: "inv q \<Longrightarrow> length (contents q) < capacity q \<Longrightarrow>
      contents (put x q) = contents q @ [x]"
    and put_inv: "inv q \<Longrightarrow> length (contents q) < capacity q \<Longrightarrow> inv (put x q)"
    and put_capacity: "capacity (put x q) = capacity q"
    and take_value: "inv q \<Longrightarrow> contents q \<noteq> [] \<Longrightarrow> fst (take_front q) = hd (contents q)"
    and take_contents: "inv q \<Longrightarrow> contents q \<noteq> [] \<Longrightarrow>
      contents (snd (take_front q)) = tl (contents q)"
    and take_inv: "inv q \<Longrightarrow> contents q \<noteq> [] \<Longrightarrow> inv (snd (take_front q))"
    and take_capacity: "capacity (snd (take_front q)) = capacity q"
begin

lemma put_all:
  "inv q \<Longrightarrow> length (contents q) + length xs \<le> capacity q \<Longrightarrow>
   inv (fold put xs q) \<and> contents (fold put xs q) = contents q @ xs"
proof (induction xs arbitrary: q)
  case (Cons x xs)
  have "inv (put x q)" "contents (put x q) = contents q @ [x]"
    using Cons.prems by (auto intro: put_inv put_contents)
  with Cons.IH [of "put x q"] Cons.prems show ?case
    by (simp add: put_capacity)
qed simp

lemma put_then_take:
  assumes "inv q" "contents q = []" "0 < capacity q"
  shows "fst (take_front (put x q)) = x" "contents (snd (take_front (put x q))) = []"
  using assms by (simp_all add: put_contents put_inv take_value take_contents)

end

section \<open>Streams\<close>

text \<open>
  A transmitter seen from outside: each call accepts some elements and may move some of those
  waiting to the wire.  A provider shows it for one call; that no sequence of calls loses,
  repeats or reorders anything then follows once for all.
\<close>

fun run_calls :: "('c \<Rightarrow> ('s, 'b list) state) \<Rightarrow> 'c list \<Rightarrow> ('s, 'b list) state" where
  "run_calls call [] = ret []"
| "run_calls call (c # cs) = do { a \<leftarrow> call c; b \<leftarrow> run_calls call cs; ret (a @ b) }"

locale stream_device =
  fixes call :: "'c \<Rightarrow> ('s, 'b list) state"
    and waiting :: "'s \<Rightarrow> 'b list"
    and wire :: "'s \<Rightarrow> 'b list"
    and ready :: "'s \<Rightarrow> bool"
  assumes call_ready: "ready s \<Longrightarrow> ready (snd (run_state (call c) s))"
    and call_stream: "ready s \<Longrightarrow> \<exists>sent. wire (snd (run_state (call c) s)) = wire s @ sent \<and>
      sent @ waiting (snd (run_state (call c) s)) = waiting s @ fst (run_state (call c) s)"
begin

lemma run_ready: "ready s \<Longrightarrow> ready (snd (run_state (run_calls call cs) s))"
  by (induction cs arbitrary: s) (simp_all add: case_prod_beta call_ready)

lemma stream:
  "ready s \<Longrightarrow> \<exists>sent. wire (snd (run_state (run_calls call cs) s)) = wire s @ sent \<and>
    sent @ waiting (snd (run_state (run_calls call cs) s)) = waiting s @ fst (run_state (run_calls call cs) s)"
proof (induction cs arbitrary: s)
  case (Cons c cs)
  let ?t = "snd (run_state (call c) s)"
  obtain x where x: "wire ?t = wire s @ x" "x @ waiting ?t = waiting s @ fst (run_state (call c) s)"
    using call_stream [OF Cons.prems] by blast
  let ?u = "snd (run_state (run_calls call cs) ?t)"
  obtain y where y: "wire ?u = wire ?t @ y" "y @ waiting ?u = waiting ?t @ fst (run_state (run_calls call cs) ?t)"
    using Cons.IH [OF call_ready [OF Cons.prems]] by blast
  have "(x @ y) @ waiting ?u = (x @ waiting ?t) @ fst (run_state (run_calls call cs) ?t)"
    using y(2) by simp
  also have "\<dots> = waiting s @ fst (run_state (call c) s) @ fst (run_state (run_calls call cs) ?t)"
    using x(2) by simp
  finally show ?case
    using x(1) y(1) by (intro exI [of _ "x @ y"]) (simp add: case_prod_beta)
qed simp

end

section \<open>Latching ports\<close>

text \<open>
  Port I/O on latching output ports is a bank of lines: a read of a port returns the byte
  last written to it, and reading changes nothing.
\<close>

interpretation latch: line_bank inb "\<lambda>p v. outb v p" "\<lambda>s. last_out d (ihist s)"
    "\<lambda>_. True" "\<lambda>s. latching d (ienv s)" for d
  by unfold_locales (auto simp: latching_def)

end
