(* ===== verification/Superio.thy ===== *)
theory Superio
  imports Interfaces
begin

text \<open>
  The Super I/O access module, \<open>modules/moxa_v2100_superio/moxa_v2100_superio.c\<close>: the
  configuration space of the chip is reached through an index port (0x2e) and a data port
  (0x2f), after an unlocking key, one logical device at a time.

  The second part models what the chip documents about that protocol (\<open>sio_step\<close>: the key
  opens the space, the index port selects a register, index 7 selects the logical device, the
  data port reads and writes the selected register).  It is the parameter that stands for the
  hardware, used to interpret \<open>register_file\<close> on \<open>superio_read\<close> and \<open>superio_write\<close>.
\<close>

section \<open>The driver\<close>

abbreviation "HW_VENDOR_ID_H \<equiv> 0x87 :: u8"
abbreviation "HW_VENDOR_ID_L \<equiv> 0x83 :: u8"
abbreviation "SUPERIO_PORT \<equiv> 0x2e :: port"
abbreviation "CHIP_ID_BYTE1 \<equiv> 0x20 :: u8"
abbreviation "CHIP_ID_BYTE2 \<equiv> 0x21 :: u8"
abbreviation "LOGIC_DEVICE_NUMBER \<equiv> 0x07 :: u8"
abbreviation "GPIO_CONFIG_REG \<equiv> 0x07 :: u8"

definition superio_get_reg :: "u8 \<Rightarrow> ('x, u8) io_m" where
  "superio_get_reg val = do { outb val SUPERIO_PORT; inb (SUPERIO_PORT + 1) }"

definition superio_select_dev :: "u8 \<Rightarrow> u8 \<Rightarrow> ('x, unit) io_m" where
  "superio_select_dev val index = do { outb index SUPERIO_PORT; outb val (SUPERIO_PORT + 1) }"

definition superio_init :: "('x, unit) io_m" where
  "superio_init = do {
     outb 0x87 SUPERIO_PORT;
     outb 0x01 SUPERIO_PORT;
     outb 0x55 SUPERIO_PORT;
     outb 0x55 SUPERIO_PORT }"

definition superio_release :: "('x, unit) io_m" where
  "superio_release = do { outb 0x02 SUPERIO_PORT; outb 0x02 SUPERIO_PORT }"

definition superio_read :: "u8 \<Rightarrow> u8 \<Rightarrow> u8 \<Rightarrow> ('x, u8) io_m" where
  "superio_read logic_dev index port_num = do {
     superio_init;
     superio_select_dev port_num logic_dev;
     outb index SUPERIO_PORT;
     val \<leftarrow> inb (SUPERIO_PORT + 1);
     superio_release;
     ret val }"

definition superio_write :: "u8 \<Rightarrow> u8 \<Rightarrow> u8 \<Rightarrow> u8 \<Rightarrow> ('x, unit) io_m" where
  "superio_write logic_dev index port_num val = do {
     superio_init;
     superio_select_dev port_num logic_dev;
     outb index SUPERIO_PORT;
     outb val (SUPERIO_PORT + 1);
     superio_release }"

definition superio_verify_vendor :: "('x, int) io_m" where
  "superio_verify_vendor = do {
     superio_init;
     superio_select_dev LOGIC_DEVICE_NUMBER GPIO_CONFIG_REG;
     chip_id_h \<leftarrow> superio_get_reg CHIP_ID_BYTE1;
     chip_id_l \<leftarrow> superio_get_reg CHIP_ID_BYTE2;
     if chip_id_h = HW_VENDOR_ID_H \<and> chip_id_l = HW_VENDOR_ID_L then ret 0 else ret 1 }"

text \<open>\<open>request_region\<close> answers a non-null pointer, here a non-zero number, on success.\<close>

definition superio_module_init :: "('x, int) io_m" where
  "superio_module_init = do {
     bad \<leftarrow> superio_verify_vendor;
     if bad \<noteq> 0 then ret (-ENODEV)
     else do {
       r \<leftarrow> kcall ''request_region'' [int SUPERIO_PORT, 2];
       if r = 0 then ret (-EBUSY) else ret 0 } }"

definition superio_module_cleanup :: "('x, unit) io_m" where
  "superio_module_cleanup = knote ''release_region'' [int SUPERIO_PORT, 2]"

section \<open>The chip\<close>

text \<open>
  \<open>sio_key\<close> counts the accepted bytes of the key (4: the configuration space is open).
  Registers below 0x30 are shared by all logical devices.
\<close>

record sio_chip =
  sio_key :: nat
  sio_idx :: u8
  sio_ldn :: u8
  sio_regs :: "u8 \<times> u8 \<Rightarrow> u8"

definition sio_slot :: "u8 \<Rightarrow> u8 \<Rightarrow> u8 \<times> u8" where
  "sio_slot l i = (if i < 0x30 then 0 else l, i)"

definition sio_out :: "u8 \<Rightarrow> port \<Rightarrow> sio_chip \<Rightarrow> sio_chip" where
  "sio_out v p c =
    (if p = 0x2e then
       (if sio_key c = 4 then c\<lparr>sio_idx := v\<rparr>
        else if v = [0x87, 0x01, 0x55, 0x55] ! sio_key c then c\<lparr>sio_key := Suc (sio_key c)\<rparr>
        else c\<lparr>sio_key := (if v = 0x87 then 1 else 0)\<rparr>)
     else if p = 0x2f \<and> sio_key c = 4 then
       (if sio_idx c = 0x07 then c\<lparr>sio_ldn := v\<rparr>
        else if sio_idx c = 0x02 then (if bit v 1 then c\<lparr>sio_key := 0\<rparr> else c)
        else c\<lparr>sio_regs := (sio_regs c)(sio_slot (sio_ldn c) (sio_idx c) := v)\<rparr>)
     else c)"

fun sio_step :: "io_event \<Rightarrow> sio_chip \<Rightarrow> sio_chip" where
  "sio_step (Out_b v p) c = sio_out v p c"
| "sio_step _ c = c"

definition sio_after :: "(u8 \<times> u8 \<Rightarrow> u8) \<Rightarrow> io_event list \<Rightarrow> sio_chip" where
  "sio_after r h = foldr sio_step h \<lparr>sio_key = 0, sio_idx = 0, sio_ldn = 0, sio_regs = r\<rparr>"

definition sio_in :: "sio_chip \<Rightarrow> port \<Rightarrow> u8" where
  "sio_in c p = (if p = 0x2f \<and> sio_key c = 4
     then (if sio_idx c = 0x07 then sio_ldn c else sio_regs c (sio_slot (sio_ldn c) (sio_idx c)))
     else 0xff)"

definition sio_env :: "(u8 \<times> u8 \<Rightarrow> u8) \<Rightarrow> env" where
  "sio_env r = \<lparr>env_b = (\<lambda>h p. sio_in (sio_after r h) p),
     env_w = (\<lambda>_ _. 0), env_l = (\<lambda>_ _. 0), env_k = (\<lambda>_ _ _. 0)\<rparr>"

definition has_sio :: "(u8 \<times> u8 \<Rightarrow> u8) \<Rightarrow> 'x io_scheme \<Rightarrow> bool" where
  "has_sio r s = (\<forall>h. env_b (ienv s) h 0x2f = sio_in (sio_after r h) 0x2f)"

definition sio_valid :: "u8 \<times> u8 \<Rightarrow> bool" where
  "sio_valid k = (0x30 \<le> snd k)"

definition sio_peek :: "(u8 \<times> u8 \<Rightarrow> u8) \<Rightarrow> 'x io_scheme \<Rightarrow> u8 \<times> u8 \<Rightarrow> u8" where
  "sio_peek r s k = sio_regs (sio_after r (ihist s)) k"

subsection \<open>The protocol reaches the register it names\<close>

lemma sio_after_Cons [simp]: "sio_after r (e # h) = sio_step e (sio_after r h)"
  by (simp add: sio_after_def)

lemma sio_key_le4: "sio_key (sio_after r h) \<le> 4"
proof (induction h)
  case Nil
  then show ?case by (simp add: sio_after_def)
next
  case (Cons e h)
  then show ?case by (cases e) (auto simp: sio_out_def)
qed

text \<open>After the unlocking key the configuration space is open, whatever was written before.\<close>

lemma sio_unlock:
  assumes "sio_key c \<le> 4"
  shows "\<exists>i. sio_out 0x55 0x2e (sio_out 0x55 0x2e (sio_out 0x01 0x2e (sio_out 0x87 0x2e c)))
    = c\<lparr>sio_key := 4, sio_idx := i\<rparr>"
proof -
  obtain k i l r where c: "c = \<lparr>sio_key = k, sio_idx = i, sio_ldn = l, sio_regs = r\<rparr>"
    by (cases c)
  have "k = 0 \<or> k = 1 \<or> k = 2 \<or> k = 3 \<or> k = 4"
    using assms c by auto
  then show ?thesis
    unfolding c
    by (elim disjE) (simp_all add: sio_out_def)
qed

lemma run_superio_write: "run_state (superio_write ld ix pn v) s = ((), s\<lparr>ihist :=
    [Out_b 0x02 0x2e, Out_b 0x02 0x2e, Out_b v 0x2f, Out_b ix 0x2e, Out_b pn 0x2f, Out_b ld 0x2e,
     Out_b 0x55 0x2e, Out_b 0x55 0x2e, Out_b 0x01 0x2e, Out_b 0x87 0x2e] @ ihist s\<rparr>)"
  by (simp add: superio_write_def superio_init_def superio_select_dev_def superio_release_def)

lemma run_superio_read: "run_state (superio_read ld ix pn) s =
   (let h = [Out_b ix 0x2e, Out_b pn 0x2f, Out_b ld 0x2e,
       Out_b 0x55 0x2e, Out_b 0x55 0x2e, Out_b 0x01 0x2e, Out_b 0x87 0x2e] @ ihist s;
      v = env_b (ienv s) h 0x2f
    in (v, s\<lparr>ihist := [Out_b 0x02 0x2e, Out_b 0x02 0x2e, In_b 0x2f v] @ h\<rparr>))"
  by (simp add: superio_read_def superio_init_def superio_select_dev_def superio_release_def Let_def)

lemma sio_write_regs:
  assumes "0x30 \<le> ix"
  shows "sio_regs (sio_after r (ihist (snd (run_state (superio_write 0x07 ix pn v) s))))
       = (sio_regs (sio_after r (ihist s)))((pn, ix) := v)"
proof -
  obtain i where i: "sio_out 0x55 0x2e (sio_out 0x55 0x2e (sio_out 0x01 0x2e (sio_out 0x87 0x2e
      (sio_after r (ihist s))))) = (sio_after r (ihist s))\<lparr>sio_key := 4, sio_idx := i\<rparr>"
    using sio_unlock [OF sio_key_le4] by blast
  have "ix \<noteq> 7" "ix \<noteq> 2" "\<not> ix < 0x30"
    using assms by auto
  then show ?thesis
    by (simp add: run_superio_write i) (simp add: sio_out_def sio_slot_def)
qed

lemma sio_read_value:
  assumes "0x30 \<le> ix" "has_sio r s"
  shows "fst (run_state (superio_read 0x07 ix pn) s) = sio_regs (sio_after r (ihist s)) (pn, ix)"
    and "sio_regs (sio_after r (ihist (snd (run_state (superio_read 0x07 ix pn) s))))
       = sio_regs (sio_after r (ihist s))"
proof -
  obtain i where i: "sio_out 0x55 0x2e (sio_out 0x55 0x2e (sio_out 0x01 0x2e (sio_out 0x87 0x2e
      (sio_after r (ihist s))))) = (sio_after r (ihist s))\<lparr>sio_key := 4, sio_idx := i\<rparr>"
    using sio_unlock [OF sio_key_le4] by blast
  have "ix \<noteq> 7" "ix \<noteq> 2" "\<not> ix < 0x30"
    using assms by auto
  then show "fst (run_state (superio_read 0x07 ix pn) s) = sio_regs (sio_after r (ihist s)) (pn, ix)"
    using assms(2)
    by (simp add: run_superio_read i has_sio_def Let_def) (simp add: sio_out_def sio_slot_def sio_in_def)
  show "sio_regs (sio_after r (ihist (snd (run_state (superio_read 0x07 ix pn) s))))
       = sio_regs (sio_after r (ihist s))"
    using \<open>ix \<noteq> 7\<close> \<open>ix \<noteq> 2\<close>
    by (simp add: run_superio_read i Let_def) (simp add: sio_out_def)
qed

lemma has_sio_write [simp]:
  "has_sio r (snd (run_state (superio_write ld ix pn v) s)) = has_sio r s"
  by (simp add: run_superio_write has_sio_def)

lemma has_sio_read [simp]:
  "has_sio r (snd (run_state (superio_read ld ix pn) s)) = has_sio r s"
  by (simp add: run_superio_read has_sio_def Let_def)

interpretation sio: line_bank "\<lambda>k. superio_read LOGIC_DEVICE_NUMBER (snd k) (fst k)"
    "\<lambda>k v. superio_write LOGIC_DEVICE_NUMBER (snd k) (fst k) v"
    "sio_peek r" sio_valid "has_sio r" for r
  by unfold_locales (auto simp: sio_peek_def sio_valid_def sio_write_regs sio_read_value)


lemma sio_peek_write:
  "has_sio r s \<Longrightarrow> 0x30 \<le> ix \<Longrightarrow> 0x30 \<le> snd k \<Longrightarrow>
   sio_peek r (snd (run_state (superio_write 0x07 ix pn v) s)) k
     = (if k = (pn, ix) then v else sio_peek r s k)"
  using sio.wr_peek [of r s "(pn, ix)" k v] by (simp add: sio_valid_def)

lemma sio_peek_read:
  "has_sio r s \<Longrightarrow> 0x30 \<le> ix \<Longrightarrow>
   fst (run_state (superio_read 0x07 ix pn) s) = sio_peek r s (pn, ix)"
  using sio.rd_value [of r s "(pn, ix)"] by (simp add: sio_valid_def)

lemma sio_peek_after_read:
  "has_sio r s \<Longrightarrow> 0x30 \<le> ix \<Longrightarrow> 0x30 \<le> snd k \<Longrightarrow>
   sio_peek r (snd (run_state (superio_read 0x07 ix pn) s)) k = sio_peek r s k"
  using sio.rd_frame [of r s "(pn, ix)" k] by (simp add: sio_valid_def)

lemmas sio_access = sio_peek_write sio_peek_read sio_peek_after_read

end
