(* ===== verification/Watchdog.thy ===== *)
theory Watchdog
  imports Superio
begin

text \<open>
  The watchdog driver, \<open>modules/moxa_v2100_wdt/moxa_v2100_wdt.c\<close>: a character device over the
  Super I/O watchdog registers.  \<open>wdt\<close> holds the file-scope variables of the driver; the two
  flags of \<open>wdt_status\<close> are bits 0 and 1 of the C word.  The debug-only proc entry is not
  modelled.
\<close>

section \<open>Constants and state\<close>

abbreviation "DEFAULT_WATCHDOG_TIME \<equiv> 60 :: u32"
abbreviation "WATCHDOG_MIN_TIME \<equiv> 2 :: int"
abbreviation "WATCHDOG_MAX_TIME \<equiv> 255 :: int"
abbreviation "IT8783F_WDT_CONF \<equiv> 0x72 :: u8"
abbreviation "IT8783F_WDT_WTV_0_7 \<equiv> 0x73 :: u8"
abbreviation "IT8783F_WTVS \<equiv> 0x80 :: u8"
abbreviation "IT8783F_WOKE \<equiv> 0x40 :: u8"
abbreviation "IT8783F_WTVES \<equiv> 0x20 :: u8"
abbreviation "IT8783F_WOPE \<equiv> 0x10 :: u8"
abbreviation "WDT_IN_USE \<equiv> 0 :: nat"
abbreviation "WDT_OK_TO_CLOSE \<equiv> 1 :: nat"
abbreviation "WATCHDOG_MINOR \<equiv> 130 :: int"
abbreviation "WDIOS_DISABLECARD \<equiv> 1 :: int"
abbreviation "WDIOS_ENABLECARD \<equiv> 2 :: int"
abbreviation "SYS_DOWN \<equiv> 1 :: int"
abbreviation "SYS_HALT \<equiv> 2 :: int"

record wdt = io +
  wdt_status :: "64 word"
  wdt_timeout :: u32
  wdt_nowayout :: int

type_synonym 'a wdt_m = "(wdt, 'a) state"

datatype wdt_cmd = WDIOC_GETSUPPORT | WDIOC_GETSTATUS | WDIOC_GETBOOTSTATUS | WDIOC_SETOPTIONS
  | WDIOC_KEEPALIVE | WDIOC_SETTIMEOUT | WDIOC_GETTIMEOUT | WDIOC_other

section \<open>Operations\<close>

definition moxawdt_ack :: "unit wdt_m" where
  "moxawdt_ack = do {
     t \<leftarrow> gets wdt_timeout;
     superio_write LOGIC_DEVICE_NUMBER IT8783F_WDT_WTV_0_7 GPIO_CONFIG_REG (ucast t) }"

definition moxawdt_enable :: "unit wdt_m" where
  "moxawdt_enable = do {
     reg_val \<leftarrow> superio_read LOGIC_DEVICE_NUMBER IT8783F_WDT_CONF GPIO_CONFIG_REG;
     let reg_val = reg_val AND NOT IT8783F_WTVES;
     superio_write LOGIC_DEVICE_NUMBER IT8783F_WDT_CONF GPIO_CONFIG_REG
       (reg_val OR IT8783F_WOKE OR IT8783F_WTVS OR IT8783F_WOPE);
     t \<leftarrow> gets wdt_timeout;
     superio_write LOGIC_DEVICE_NUMBER IT8783F_WDT_WTV_0_7 GPIO_CONFIG_REG (ucast t) }"

definition moxawdt_disable :: "unit wdt_m" where
  "moxawdt_disable =
     superio_write LOGIC_DEVICE_NUMBER IT8783F_WDT_WTV_0_7 GPIO_CONFIG_REG 0"

definition set_status :: "nat \<Rightarrow> unit wdt_m" where
  "set_status n = modify (\<lambda>s. s\<lparr>wdt_status := set_bit n (wdt_status s)\<rparr>)"

definition clear_status :: "nat \<Rightarrow> unit wdt_m" where
  "clear_status n = modify (\<lambda>s. s\<lparr>wdt_status := unset_bit n (wdt_status s)\<rparr>)"

definition test_status :: "nat \<Rightarrow> bool wdt_m" where
  "test_status n = gets (\<lambda>s. bit (wdt_status s) n)"

definition moxawdt_open :: "int \<Rightarrow> int wdt_m" where
  "moxawdt_open minor =
    (if minor \<noteq> WATCHDOG_MINOR then ret (-ENODEV)
     else do {
       busy \<leftarrow> test_status WDT_IN_USE;
       set_status WDT_IN_USE;
       if busy then ret (-EBUSY)
       else do {
         clear_status WDT_OK_TO_CLOSE;
         moxawdt_enable;
         ret 0 } })"

definition moxawdt_release :: "int wdt_m" where
  "moxawdt_release = do {
     ok \<leftarrow> test_status WDT_OK_TO_CLOSE;
     whenM ok moxawdt_disable;
     clear_status WDT_IN_USE;
     clear_status WDT_OK_TO_CLOSE;
     ret 0 }"

text \<open>
  \<open>WDIOC_SETTIMEOUT\<close> falls through to \<open>WDIOC_GETTIMEOUT\<close>.  The identity structure copied out by
  \<open>WDIOC_GETSUPPORT\<close> is represented by its options word (magic close, set timeout, keepalive).
\<close>

definition moxawdt_gettimeout :: "int uarg \<Rightarrow> int wdt_m" where
  "moxawdt_gettimeout arg = do { t \<leftarrow> gets wdt_timeout; put_user arg (sint t) }"

definition moxawdt_ioctl :: "wdt_cmd \<Rightarrow> int uarg \<Rightarrow> int wdt_m" where
  "moxawdt_ioctl ioc_cmd arg = (case ioc_cmd of
     WDIOC_GETSUPPORT \<Rightarrow> do {
       n \<leftarrow> copy_to_user arg [0x8180];
       ret (if n \<noteq> 0 then -EFAULT else 0) }
   | WDIOC_GETSTATUS \<Rightarrow> put_user arg 1
   | WDIOC_GETBOOTSTATUS \<Rightarrow> put_user arg 0
   | WDIOC_SETOPTIONS \<Rightarrow>
       (if ua_left arg \<noteq> 0 then ret (-EFAULT)
        else do {
          let new_options = ua_in arg;
          whenM (new_options AND WDIOS_DISABLECARD \<noteq> 0) moxawdt_disable;
          whenM (new_options AND WDIOS_ENABLECARD \<noteq> 0) moxawdt_enable;
          ret (if new_options AND WDIOS_DISABLECARD \<noteq> 0 \<or> new_options AND WDIOS_ENABLECARD \<noteq> 0
               then 0 else -ENOTTY) })
   | WDIOC_KEEPALIVE \<Rightarrow> do { moxawdt_ack; ret 0 }
   | WDIOC_SETTIMEOUT \<Rightarrow>
       (if ua_left arg \<noteq> 0 then ret (-EFAULT)
        else if ua_in arg \<le> WATCHDOG_MIN_TIME \<or> ua_in arg > WATCHDOG_MAX_TIME then ret (-EINVAL)
        else do {
          modify (\<lambda>s. s\<lparr>wdt_timeout := word_of_int (ua_in arg)\<rparr>);
          moxawdt_ack;
          moxawdt_gettimeout arg })
   | WDIOC_GETTIMEOUT \<Rightarrow> moxawdt_gettimeout arg
   | WDIOC_other \<Rightarrow> ret (-ENOTTY))"

text \<open>The user buffer of a write: \<open>None\<close> is a byte whose \<open>get_user\<close> fails.\<close>

fun scan_magic :: "char option list \<Rightarrow> bool wdt_m" where
  "scan_magic [] = ret True"
| "scan_magic (None # buf) = ret False"
| "scan_magic (Some c # buf) = do {
     whenM (c = CHR ''V'') (set_status WDT_OK_TO_CLOSE);
     scan_magic buf }"

definition moxawdt_write :: "char option list \<Rightarrow> int wdt_m" where
  "moxawdt_write buf =
    (if length buf \<noteq> 0 then do {
       nwo \<leftarrow> gets wdt_nowayout;
       ok \<leftarrow> (if nwo = 0 then do { clear_status WDT_OK_TO_CLOSE; scan_magic buf } else ret True);
       if \<not> ok then ret (-EFAULT)
       else do { moxawdt_ack; ret (int (length buf)) } }
     else ret (int (length buf)))"

definition wdt_notify_sys :: "int \<Rightarrow> int wdt_m" where
  "wdt_notify_sys code = do {
     whenM (code = SYS_DOWN \<or> code = SYS_HALT) moxawdt_disable;
     ret 0 }"

definition moxawdt_init :: "int wdt_m" where
  "moxawdt_init = do {
     r \<leftarrow> kcall ''register_reboot_notifier'' [];
     if r \<noteq> 0 then ret r
     else do {
       t \<leftarrow> gets wdt_timeout;
       if uint t \<le> WATCHDOG_MIN_TIME \<or> uint t > WATCHDOG_MAX_TIME then ret r
       else do {
         r \<leftarrow> kcall ''misc_register'' [WATCHDOG_MINOR];
         if r \<noteq> 0 then do { knote ''unregister_reboot_notifier'' []; ret r }
         else ret 0 } } }"

definition moxawdt_exit :: "unit wdt_m" where
  "moxawdt_exit = do {
     knote ''unregister_reboot_notifier'' [];
     knote ''misc_deregister'' [WATCHDOG_MINOR] }"


section \<open>Frames\<close>

lemma wdt_frame [simp]:
  "wdt_status (snd (run_state (superio_write ld ix pn v) s)) = wdt_status s"
  "wdt_timeout (snd (run_state (superio_write ld ix pn v) s)) = wdt_timeout s"
  "wdt_nowayout (snd (run_state (superio_write ld ix pn v) s)) = wdt_nowayout s"
  "wdt_status (snd (run_state (superio_read ld ix pn) s)) = wdt_status s"
  "wdt_timeout (snd (run_state (superio_read ld ix pn) s)) = wdt_timeout s"
  "wdt_nowayout (snd (run_state (superio_read ld ix pn) s)) = wdt_nowayout s"
  by (simp_all add: run_superio_write run_superio_read Let_def)

lemma wdt_sio_frame [simp]:
  "sio_peek r (s\<lparr>wdt_status := a\<rparr>) = sio_peek r s"
  "sio_peek r (s\<lparr>wdt_timeout := b\<rparr>) = sio_peek r s"
  "has_sio r (s\<lparr>wdt_status := a\<rparr>) = has_sio r s"
  "has_sio r (s\<lparr>wdt_timeout := b\<rparr>) = has_sio r s"
  "sio_peek r (s\<lparr>ihist := To_user vs # ihist s\<rparr>) = sio_peek r s"
  "has_sio r (s\<lparr>ihist := h\<rparr>) = has_sio r s"
  by (simp_all add: sio_peek_def has_sio_def fun_eq_iff)

lemma unit_fst [simp]: "(fst x :: unit) = ()"
  by simp

abbreviation "wdt_conf r s \<equiv> sio_peek r s (GPIO_CONFIG_REG, IT8783F_WDT_CONF)"
abbreviation "wdt_count r s \<equiv> sio_peek r s (GPIO_CONFIG_REG, IT8783F_WDT_WTV_0_7)"

definition conf_armed :: "u8 \<Rightarrow> bool" where
  "conf_armed w = (w AND (IT8783F_WTVS OR IT8783F_WOKE OR IT8783F_WTVES OR IT8783F_WOPE)
     = IT8783F_WTVS OR IT8783F_WOKE OR IT8783F_WOPE)"

lemma conf_armed_enable: "conf_armed (w AND NOT IT8783F_WTVES OR IT8783F_WOKE OR IT8783F_WTVS OR IT8783F_WOPE)"
proof -
  have "bit ((w AND NOT 0x20 OR 0x40 OR 0x80 OR 0x10) AND 0xF0) n \<longleftrightarrow> bit (0xD0::u8) n" if "n < 8" for n
    using that by (auto simp: bit_simps less_Suc_eq numeral_eq_Suc)
  then show ?thesis
    by (simp add: conf_armed_def u8_eq_iff)
qed

lemmas conf_armed_enable' [simp] = conf_armed_enable [simplified]

section \<open>Effect of the operations on the chip\<close>

lemma ack_effect [simp]:
  "has_sio r (snd (run_state moxawdt_ack s)) = has_sio r s"
  "wdt_timeout (snd (run_state moxawdt_ack s)) = wdt_timeout s"
  "wdt_status (snd (run_state moxawdt_ack s)) = wdt_status s"
  "has_sio r s \<Longrightarrow> wdt_count r (snd (run_state moxawdt_ack s)) = ucast (wdt_timeout s)"
  "has_sio r s \<Longrightarrow> wdt_conf r (snd (run_state moxawdt_ack s)) = wdt_conf r s"
  by (simp_all add: moxawdt_ack_def sio_access)

lemma disable_effect [simp]:
  "has_sio r (snd (run_state moxawdt_disable s)) = has_sio r s"
  "wdt_timeout (snd (run_state moxawdt_disable s)) = wdt_timeout s"
  "wdt_status (snd (run_state moxawdt_disable s)) = wdt_status s"
  "has_sio r s \<Longrightarrow> wdt_count r (snd (run_state moxawdt_disable s)) = 0"
  "has_sio r s \<Longrightarrow> wdt_conf r (snd (run_state moxawdt_disable s)) = wdt_conf r s"
  by (simp_all add: moxawdt_disable_def sio_access)

lemma enable_effect [simp]:
  "has_sio r (snd (run_state moxawdt_enable s)) = has_sio r s"
  "wdt_timeout (snd (run_state moxawdt_enable s)) = wdt_timeout s"
  "wdt_status (snd (run_state moxawdt_enable s)) = wdt_status s"
  "has_sio r s \<Longrightarrow> wdt_count r (snd (run_state moxawdt_enable s)) = ucast (wdt_timeout s)"
  "has_sio r s \<Longrightarrow> conf_armed (wdt_conf r (snd (run_state moxawdt_enable s)))"
  by (simp_all add: moxawdt_enable_def sio_access case_prod_beta Let_def conf_armed_enable)

lemma enable_keeps_others:
  "has_sio r s \<Longrightarrow> 0x30 \<le> snd k \<Longrightarrow> k \<noteq> (7, 0x72) \<Longrightarrow> k \<noteq> (7, 0x73) \<Longrightarrow>
   sio_peek r (snd (run_state moxawdt_enable s)) k = sio_peek r s k"
  by (simp add: moxawdt_enable_def sio_access case_prod_beta Let_def)

lemma status_ops [simp]:
  "run_state (set_status n) s = ((), s\<lparr>wdt_status := set_bit n (wdt_status s)\<rparr>)"
  "run_state (clear_status n) s = ((), s\<lparr>wdt_status := unset_bit n (wdt_status s)\<rparr>)"
  "run_state (test_status n) s = (bit (wdt_status s) n, s)"
  by (simp_all add: set_status_def clear_status_def test_status_def)

lemma scan_magic_effect:
  "snd (run_state (scan_magic buf) s) =
     s\<lparr>wdt_status := (if Some (CHR ''V'') \<in> set (takeWhile (\<lambda>x. x \<noteq> None) buf)
       then set_bit WDT_OK_TO_CLOSE (wdt_status s) else wdt_status s)\<rparr>"
  "fst (run_state (scan_magic buf) s) = (None \<notin> set buf)"
proof (induction buf arbitrary: s rule: scan_magic.induct)
  case (3 c buf)
  { case 1
    have *: "set_bit n (set_bit n w) = set_bit n w" for n and w :: "64 word"
      by (auto simp: bit_eq_iff bit_simps)
    show ?case using 3 by (auto simp: *)
  next
    case 2
    show ?case using 3 by auto
  }
qed simp_all

lemma scan_magic_whole:
  "None \<notin> set buf \<Longrightarrow> snd (run_state (scan_magic buf) s) =
     s\<lparr>wdt_status := (if Some (CHR ''V'') \<in> set buf
       then set_bit WDT_OK_TO_CLOSE (wdt_status s) else wdt_status s)\<rparr>"
proof -
  assume "None \<notin> set buf"
  then have "takeWhile (\<lambda>x. x \<noteq> None) buf = buf"
    unfolding takeWhile_eq_all_conv by metis
  then show ?thesis
    by (simp only: scan_magic_effect(1))
qed

section \<open>The device as a state machine\<close>

text \<open>
  The steps of the driver.  The kernel runs the file operations only on a file that is open;
  the reboot notifier may run at any time.
\<close>

inductive wdt_step :: "wdt \<Rightarrow> wdt \<Rightarrow> bool" where
  step_open: "wdt_step s (snd (run_state (moxawdt_open m) s))"
| step_release: "bit (wdt_status s) WDT_IN_USE \<Longrightarrow> wdt_step s (snd (run_state moxawdt_release s))"
| step_write: "bit (wdt_status s) WDT_IN_USE \<Longrightarrow> wdt_step s (snd (run_state (moxawdt_write buf) s))"
| step_ioctl: "bit (wdt_status s) WDT_IN_USE \<Longrightarrow> wdt_step s (snd (run_state (moxawdt_ioctl c arg) s))"
| step_notify: "wdt_step s (snd (run_state (wdt_notify_sys code) s))"

inductive_cases wdt_stepE: "wdt_step s s'"

inductive wdt_reach :: "wdt \<Rightarrow> wdt \<Rightarrow> bool" where
  reach_init: "wdt_reach s0 s0"
| reach_step: "wdt_reach s0 s \<Longrightarrow> wdt_step s s' \<Longrightarrow> wdt_reach s0 s'"

definition wdt_inv :: "(u8 \<times> u8 \<Rightarrow> u8) \<Rightarrow> wdt \<Rightarrow> bool" where
  "wdt_inv r s \<longleftrightarrow> has_sio r s \<and> 2 < uint (wdt_timeout s) \<and> uint (wdt_timeout s) \<le> 255 \<and>
     (wdt_count r s = 0 \<or> wdt_count r s = ucast (wdt_timeout s) \<and> conf_armed (wdt_conf r s)) \<and>
     (bit (wdt_status s) WDT_IN_USE \<longrightarrow> conf_armed (wdt_conf r s))"

lemma uint_timeout: "2 < t \<Longrightarrow> t \<le> 255 \<Longrightarrow> uint (word_of_int t :: u32) = t"
  by (simp add: uint_word_of_int take_bit_int_eq_self_iff)

lemma bit0_unset1 [simp]:
  "bit (unset_bit (Suc 0) w) 0 = bit (w :: 64 word) 0"
  "bit (set_bit (Suc 0) w) 0 = bit (w :: 64 word) 0"
  "bit (set_bit 0 (w :: 64 word)) 0"
  "\<not> bit (unset_bit 0 (w :: 64 word)) 0"
  "bit (set_bit (Suc 0) (w :: 64 word)) (Suc 0)"
  "\<not> bit (unset_bit (Suc 0) (w :: 64 word)) (Suc 0)"
  by (simp_all add: bit_simps)

lemma inv_open: "wdt_inv r s \<Longrightarrow> wdt_inv r (snd (run_state (moxawdt_open m) s))"
  by (auto simp: wdt_inv_def moxawdt_open_def case_prod_beta)

lemma inv_release: "wdt_inv r s \<Longrightarrow> wdt_inv r (snd (run_state moxawdt_release s))"
  by (auto simp: wdt_inv_def moxawdt_release_def case_prod_beta)

lemma inv_write:
  "wdt_inv r s \<Longrightarrow> bit (wdt_status s) WDT_IN_USE \<Longrightarrow> wdt_inv r (snd (run_state (moxawdt_write buf) s))"
  by (auto simp: wdt_inv_def moxawdt_write_def case_prod_beta scan_magic_effect)

lemma inv_ioctl:
  "wdt_inv r s \<Longrightarrow> bit (wdt_status s) WDT_IN_USE \<Longrightarrow> wdt_inv r (snd (run_state (moxawdt_ioctl c arg) s))"
  by (cases c) (auto simp: wdt_inv_def moxawdt_ioctl_def moxawdt_gettimeout_def case_prod_beta
    Let_def uint_timeout)

lemma inv_notify: "wdt_inv r s \<Longrightarrow> wdt_inv r (snd (run_state (wdt_notify_sys code) s))"
  by (auto simp: wdt_inv_def wdt_notify_sys_def case_prod_beta)

lemma wdt_step_inv: "wdt_step s s' \<Longrightarrow> wdt_inv r s \<Longrightarrow> wdt_inv r s'"
  by (erule wdt_stepE) (simp_all add: inv_open inv_release inv_write inv_ioctl inv_notify)

lemma wdt_reach_inv: "wdt_reach s0 s \<Longrightarrow> wdt_inv r s0 \<Longrightarrow> wdt_inv r s"
  by (induction rule: wdt_reach.induct) (auto intro: wdt_step_inv)


section \<open>Properties\<close>

definition wdt_example :: wdt where
  "wdt_example = \<lparr>ienv = sio_env (\<lambda>_. 0), ihist = [], wdt_status = 0, wdt_timeout = 60,
     wdt_nowayout = 0\<rparr>"

lemma wdt_example_simps [simp]:
  "has_sio (\<lambda>_. 0) wdt_example" "wdt_status wdt_example = 0" "wdt_timeout wdt_example = 60"
  "wdt_nowayout wdt_example = 0" "wdt_count (\<lambda>_. 0) wdt_example = 0"
  by (simp_all add: wdt_example_def has_sio_def sio_env_def sio_peek_def sio_after_def)

text \<open>
  C9. In every state the driver can reach from a start with the timeout in range and the
  counter stopped, the hardware counter is either stopped or holds the whole configured
  timeout, between 3 and 255 seconds (the cast to a byte loses nothing), counted in seconds
  and with both reset outputs enabled.
\<close>

theorem wdt_counter_safe:
  assumes "wdt_reach s0 s" "has_sio r s0" "2 < uint (wdt_timeout s0)" "uint (wdt_timeout s0) \<le> 255"
    and "wdt_count r s0 = 0" "wdt_status s0 = 0"
  shows "wdt_count r s = 0 \<or>
    uint (wdt_count r s) = uint (wdt_timeout s) \<and> 2 < uint (wdt_timeout s) \<and>
    uint (wdt_timeout s) \<le> 255 \<and> conf_armed (wdt_conf r s)"
proof -
  have "wdt_inv r s0"
    using assms by (simp add: wdt_inv_def)
  then have "wdt_inv r s"
    using assms(1) by (rule wdt_reach_inv [rotated])
  then show ?thesis
    by (auto simp: wdt_inv_def unsigned_ucast_eq take_bit_int_eq_self_iff)
qed

lemma wdt_counter_safe_witness:
  "wdt_count (\<lambda>_. 0) (snd (run_state (moxawdt_open 130) wdt_example)) = 0 \<or>
   uint (wdt_count (\<lambda>_. 0) (snd (run_state (moxawdt_open 130) wdt_example)))
     = uint (wdt_timeout (snd (run_state (moxawdt_open 130) wdt_example))) \<and>
   2 < uint (wdt_timeout (snd (run_state (moxawdt_open 130) wdt_example))) \<and>
   uint (wdt_timeout (snd (run_state (moxawdt_open 130) wdt_example))) \<le> 255 \<and>
   conf_armed (wdt_conf (\<lambda>_. 0) (snd (run_state (moxawdt_open 130) wdt_example)))"
  by (rule wdt_counter_safe [where ?s0.0 = wdt_example])
    (auto intro: reach_step reach_init step_open)

text \<open>
  Magic close: after a write that reaches the driver whole and a close, the timer is
  stopped exactly when one of the bytes written is a V; otherwise it keeps running from the
  full timeout.  Either way the device is free again.
\<close>

theorem wdt_magic_close:
  assumes "has_sio r s" "wdt_nowayout s = 0" "buf \<noteq> []" "None \<notin> set buf"
    and "t = snd (run_state moxawdt_release (snd (run_state (moxawdt_write buf) s)))"
  shows "wdt_count r t = (if Some (CHR ''V'') \<in> set buf then 0 else ucast (wdt_timeout s)) \<and>
    \<not> bit (wdt_status t) WDT_IN_USE"
  using assms
  by (simp add: moxawdt_write_def moxawdt_release_def case_prod_beta scan_magic_whole scan_magic_effect(2))

lemma wdt_magic_close_witness:
  "wdt_count (\<lambda>_. 0) (snd (run_state moxawdt_release
     (snd (run_state (moxawdt_write [Some (CHR ''a''), Some (CHR ''V'')]) wdt_example)))) = 0"
  using wdt_magic_close [of "\<lambda>_. 0" wdt_example "[Some (CHR ''a''), Some (CHR ''V'')]", OF _ _ _ _ refl]
  by simp

text \<open>
  Opening: on a free device the open arms the timer with the configured timeout and
  leaves every other register of the chip as it was; on a busy device it fails with EBUSY
  and touches neither the chip nor the flags.
\<close>

theorem wdt_open_effect:
  assumes "has_sio r s" "(e, t) = run_state (moxawdt_open WATCHDOG_MINOR) s"
  shows "if bit (wdt_status s) WDT_IN_USE
    then e = -EBUSY \<and> t = s
    else e = 0 \<and> bit (wdt_status t) WDT_IN_USE \<and> conf_armed (wdt_conf r t) \<and>
      wdt_count r t = ucast (wdt_timeout s) \<and>
      (\<forall>k. 0x30 \<le> snd k \<and> k \<noteq> (7, 0x72) \<and> k \<noteq> (7, 0x73) \<longrightarrow> sio_peek r t k = sio_peek r s k)"
proof (cases "bit (wdt_status s) WDT_IN_USE")
  case True
  then have "set_bit 0 (wdt_status s) = wdt_status s"
    by (intro bit_word_eqI) (auto simp: bit_simps)
  with True assms(2) show ?thesis
    by (simp add: moxawdt_open_def)
next
  case False
  with assms show ?thesis
    by (auto simp: moxawdt_open_def case_prod_beta enable_keeps_others)
qed

lemma wdt_open_effect_witness:
  "wdt_count (\<lambda>_. 0) (snd (run_state (moxawdt_open 130) wdt_example)) = 60"
  using wdt_open_effect [of "\<lambda>_. 0" wdt_example, OF _ prod.collapse]
  by simp

text \<open>
  The timeout request on all its branches: a value of 2 seconds or less, or above 255, is
  refused without a change (the parameter description admits 2); a value in range is
  stored, reloaded into the counter and reported back.
\<close>

theorem wdt_settimeout_effect:
  assumes "has_sio r s" "(e, t) = run_state (moxawdt_ioctl WDIOC_SETTIMEOUT arg) s"
  shows "if ua_left arg \<noteq> 0 then e = -EFAULT \<and> t = s
    else if ua_in arg \<le> 2 \<or> 255 < ua_in arg then e = -EINVAL \<and> t = s
    else wdt_timeout t = word_of_int (ua_in arg) \<and> wdt_count r t = word_of_int (ua_in arg) \<and>
      (if ua_out arg = 0 then e = 0 \<and> hd (ihist t) = To_user [ua_in arg] else e = -EFAULT)"
proof (cases "ua_left arg \<noteq> 0 \<or> ua_in arg \<le> 2 \<or> 255 < ua_in arg")
  case True
  with assms(2) show ?thesis
    by (auto simp: moxawdt_ioctl_def)
next
  case False
  then have "sint (word_of_int (ua_in arg) :: u32) = ua_in arg"
    by (simp add: signed_of_int signed_take_bit_int_eq_self)
  moreover have "ucast (word_of_int (ua_in arg) :: u32) = (word_of_int (ua_in arg) :: u8)"
    using False by (simp add: unsigned_of_int take_bit_int_eq_self)
  ultimately show ?thesis
    using False assms
    by (auto simp: moxawdt_ioctl_def moxawdt_gettimeout_def case_prod_beta)
qed

lemma wdt_settimeout_effect_witness:
  "wdt_timeout (snd (run_state (moxawdt_ioctl WDIOC_SETTIMEOUT \<lparr>ua_left = 0, ua_in = 9, ua_out = 0\<rparr>)
     wdt_example)) = 9"
  using wdt_settimeout_effect [of "\<lambda>_. 0" wdt_example, OF _ prod.collapse,
    of "\<lparr>ua_left = 0, ua_in = 9, ua_out = 0\<rparr>"]
  by simp

end
