(* ===== verification/Must_Chip.thy ===== *)
theory Must_Chip
  imports Interfaces
begin

text \<open>
  The access macros of the MUST serial chip, \<open>modules/mxser/mxser.h\<close>.  The enhanced registers
  of the chip share the addresses of the ordinary UART registers: they appear while the line
  control register (LCR) holds 0xBF, and bits 6 and 7 of the enhanced feature register (EFR)
  then select one of four banks.  Every macro saves LCR, opens the enhanced registers, does
  its read-modify-write and restores LCR.

  The second part is the documented decoding of the chip (\<open>must_out\<close>, \<open>must_in\<close>), the parameter
  that stands for the hardware, and the proof that the macros reach exactly the register they
  name.
\<close>

section \<open>Constants\<close>

abbreviation "MOXA_MUST_ENTER_ENCHANCE \<equiv> 0xBF :: u8"
abbreviation "MOXA_MUST_EFR_REGISTER \<equiv> 0x02 :: port"
abbreviation "MOXA_MUST_EFR_EFRB_ENABLE \<equiv> 0x10 :: u8"
abbreviation "MOXA_MUST_EFR_BANK0 \<equiv> 0x00 :: u8"
abbreviation "MOXA_MUST_EFR_BANK1 \<equiv> 0x40 :: u8"
abbreviation "MOXA_MUST_EFR_BANK2 \<equiv> 0x80 :: u8"
abbreviation "MOXA_MUST_EFR_BANK_MASK \<equiv> 0xC0 :: u8"
abbreviation "MOXA_MUST_XON1_REGISTER \<equiv> 0x04 :: port"
abbreviation "MOXA_MUST_XON2_REGISTER \<equiv> 0x05 :: port"
abbreviation "MOXA_MUST_XOFF1_REGISTER \<equiv> 0x06 :: port"
abbreviation "MOXA_MUST_XOFF2_REGISTER \<equiv> 0x07 :: port"
abbreviation "MOXA_MUST_RBRTL_REGISTER \<equiv> 0x04 :: port"
abbreviation "MOXA_MUST_RBRTH_REGISTER \<equiv> 0x05 :: port"
abbreviation "MOXA_MUST_RBRTI_REGISTER \<equiv> 0x06 :: port"
abbreviation "MOXA_MUST_THRTL_REGISTER \<equiv> 0x07 :: port"
abbreviation "MOXA_MUST_ENUM_REGISTER \<equiv> 0x04 :: port"
abbreviation "MOXA_MUST_HWID_REGISTER \<equiv> 0x05 :: port"
abbreviation "MOXA_MUST_GDL_REGISTER \<equiv> 0x07 :: port"
abbreviation "MOXA_MUST_MCR_XON_ANY \<equiv> 0x80 :: u8"
abbreviation "MOXA_MUST_EFR_SF_MASK \<equiv> 0x0F :: u8"
abbreviation "MOXA_MUST_EFR_SF_TX1 \<equiv> 0x08 :: u8"
abbreviation "MOXA_MUST_EFR_SF_TX_MASK \<equiv> 0x0C :: u8"
abbreviation "MOXA_MUST_EFR_SF_RX1 \<equiv> 0x02 :: u8"
abbreviation "MOXA_MUST_EFR_SF_RX_MASK \<equiv> 0x03 :: u8"
abbreviation "UART_LCR \<equiv> 3 :: port"
abbreviation "UART_MCR \<equiv> 4 :: port"

section \<open>The macros\<close>

text \<open>
  The two steps every macro is made of: \<open>must_enhanced\<close> is the save of LCR, the entry and the
  restore; \<open>must_efr\<close> the read-modify-write of EFR.
\<close>

definition must_enhanced :: "port \<Rightarrow> ('x, 'a) io_m \<Rightarrow> ('x, 'a) io_m" where
  "must_enhanced baseio body = do {
     oldlcr \<leftarrow> inb (baseio + UART_LCR);
     outb MOXA_MUST_ENTER_ENCHANCE (baseio + UART_LCR);
     r \<leftarrow> body;
     outb oldlcr (baseio + UART_LCR);
     ret r }"

definition must_efr :: "port \<Rightarrow> (u8 \<Rightarrow> u8) \<Rightarrow> ('x, unit) io_m" where
  "must_efr baseio f = do {
     efr \<leftarrow> inb (baseio + MOXA_MUST_EFR_REGISTER);
     outb (f efr) (baseio + MOXA_MUST_EFR_REGISTER) }"

definition must_set_bank :: "port \<Rightarrow> u8 \<Rightarrow> port \<Rightarrow> u8 \<Rightarrow> ('x, unit) io_m" where
  "must_set_bank baseio bank reg v = must_enhanced baseio (do {
     must_efr baseio (\<lambda>efr. efr AND NOT MOXA_MUST_EFR_BANK_MASK OR bank);
     outb v (baseio + reg) })"

definition must_get_bank :: "port \<Rightarrow> u8 \<Rightarrow> port \<Rightarrow> ('x, u8) io_m" where
  "must_get_bank baseio bank reg = must_enhanced baseio (do {
     must_efr baseio (\<lambda>efr. efr AND NOT MOXA_MUST_EFR_BANK_MASK OR bank);
     inb (baseio + reg) })"

definition ENABLE_MOXA_MUST_ENCHANCE_MODE :: "port \<Rightarrow> ('x, unit) io_m" where
  "ENABLE_MOXA_MUST_ENCHANCE_MODE baseio =
     must_enhanced baseio (must_efr baseio (\<lambda>efr. efr OR MOXA_MUST_EFR_EFRB_ENABLE))"

definition DISABLE_MOXA_MUST_ENCHANCE_MODE :: "port \<Rightarrow> ('x, unit) io_m" where
  "DISABLE_MOXA_MUST_ENCHANCE_MODE baseio =
     must_enhanced baseio (must_efr baseio (\<lambda>efr. efr AND NOT MOXA_MUST_EFR_EFRB_ENABLE))"

definition SET_MOXA_MUST_XON1_VALUE :: "port \<Rightarrow> u8 \<Rightarrow> ('x, unit) io_m" where
  "SET_MOXA_MUST_XON1_VALUE baseio Value =
     must_set_bank baseio MOXA_MUST_EFR_BANK0 MOXA_MUST_XON1_REGISTER Value"

definition SET_MOXA_MUST_XON2_VALUE :: "port \<Rightarrow> u8 \<Rightarrow> ('x, unit) io_m" where
  "SET_MOXA_MUST_XON2_VALUE baseio Value =
     must_set_bank baseio MOXA_MUST_EFR_BANK0 MOXA_MUST_XON2_REGISTER Value"

definition SET_MOXA_MUST_XOFF1_VALUE :: "port \<Rightarrow> u8 \<Rightarrow> ('x, unit) io_m" where
  "SET_MOXA_MUST_XOFF1_VALUE baseio Value =
     must_set_bank baseio MOXA_MUST_EFR_BANK0 MOXA_MUST_XOFF1_REGISTER Value"

definition SET_MOXA_MUST_XOFF2_VALUE :: "port \<Rightarrow> u8 \<Rightarrow> ('x, unit) io_m" where
  "SET_MOXA_MUST_XOFF2_VALUE baseio Value =
     must_set_bank baseio MOXA_MUST_EFR_BANK0 MOXA_MUST_XOFF2_REGISTER Value"

definition SET_MOXA_MUST_RBRTL_VALUE :: "port \<Rightarrow> u8 \<Rightarrow> ('x, unit) io_m" where
  "SET_MOXA_MUST_RBRTL_VALUE baseio Value =
     must_set_bank baseio MOXA_MUST_EFR_BANK1 MOXA_MUST_RBRTL_REGISTER Value"

definition SET_MOXA_MUST_RBRTH_VALUE :: "port \<Rightarrow> u8 \<Rightarrow> ('x, unit) io_m" where
  "SET_MOXA_MUST_RBRTH_VALUE baseio Value =
     must_set_bank baseio MOXA_MUST_EFR_BANK1 MOXA_MUST_RBRTH_REGISTER Value"

definition SET_MOXA_MUST_RBRTI_VALUE :: "port \<Rightarrow> u8 \<Rightarrow> ('x, unit) io_m" where
  "SET_MOXA_MUST_RBRTI_VALUE baseio Value =
     must_set_bank baseio MOXA_MUST_EFR_BANK1 MOXA_MUST_RBRTI_REGISTER Value"

definition SET_MOXA_MUST_THRTL_VALUE :: "port \<Rightarrow> u8 \<Rightarrow> ('x, unit) io_m" where
  "SET_MOXA_MUST_THRTL_VALUE baseio Value =
     must_set_bank baseio MOXA_MUST_EFR_BANK1 MOXA_MUST_THRTL_REGISTER Value"

definition SET_MOXA_MUST_FIFO_VALUE :: "port \<Rightarrow> u8 \<Rightarrow> u8 \<Rightarrow> u8 \<Rightarrow> ('x, unit) io_m" where
  "SET_MOXA_MUST_FIFO_VALUE base rx_high_water rx_trigger rx_low_water =
     must_enhanced base (do {
       must_efr base (\<lambda>efr. efr AND NOT MOXA_MUST_EFR_BANK_MASK OR MOXA_MUST_EFR_BANK1);
       outb rx_high_water (base + MOXA_MUST_RBRTH_REGISTER);
       outb rx_trigger (base + MOXA_MUST_RBRTI_REGISTER);
       outb rx_low_water (base + MOXA_MUST_RBRTL_REGISTER);
       outb 0 (base + MOXA_MUST_THRTL_REGISTER) })"

definition SET_MOXA_MUST_ENUM_VALUE :: "port \<Rightarrow> u8 \<Rightarrow> ('x, unit) io_m" where
  "SET_MOXA_MUST_ENUM_VALUE baseio Value =
     must_set_bank baseio MOXA_MUST_EFR_BANK2 MOXA_MUST_ENUM_REGISTER Value"

definition GET_MOXA_MUST_HARDWARE_ID :: "port \<Rightarrow> ('x, u8) io_m" where
  "GET_MOXA_MUST_HARDWARE_ID baseio =
     must_get_bank baseio MOXA_MUST_EFR_BANK2 MOXA_MUST_HWID_REGISTER"

definition SET_MOXA_MUST_NO_SOFTWARE_FLOW_CONTROL :: "port \<Rightarrow> ('x, unit) io_m" where
  "SET_MOXA_MUST_NO_SOFTWARE_FLOW_CONTROL baseio =
     must_enhanced baseio (must_efr baseio (\<lambda>efr. efr AND NOT MOXA_MUST_EFR_SF_MASK))"

definition SET_MOXA_MUST_JUST_TX_SOFTWARE_FLOW_CONTROL :: "port \<Rightarrow> ('x, unit) io_m" where
  "SET_MOXA_MUST_JUST_TX_SOFTWARE_FLOW_CONTROL baseio =
     must_enhanced baseio (must_efr baseio (\<lambda>efr. efr AND NOT MOXA_MUST_EFR_SF_MASK OR MOXA_MUST_EFR_SF_TX1))"

definition ENABLE_MOXA_MUST_TX_SOFTWARE_FLOW_CONTROL :: "port \<Rightarrow> ('x, unit) io_m" where
  "ENABLE_MOXA_MUST_TX_SOFTWARE_FLOW_CONTROL baseio =
     must_enhanced baseio (must_efr baseio (\<lambda>efr. efr AND NOT MOXA_MUST_EFR_SF_TX_MASK OR MOXA_MUST_EFR_SF_TX1))"

definition DISABLE_MOXA_MUST_TX_SOFTWARE_FLOW_CONTROL :: "port \<Rightarrow> ('x, unit) io_m" where
  "DISABLE_MOXA_MUST_TX_SOFTWARE_FLOW_CONTROL baseio =
     must_enhanced baseio (must_efr baseio (\<lambda>efr. efr AND NOT MOXA_MUST_EFR_SF_TX_MASK))"

definition SET_MOXA_MUST_JUST_RX_SOFTWARE_FLOW_CONTROL :: "port \<Rightarrow> ('x, unit) io_m" where
  "SET_MOXA_MUST_JUST_RX_SOFTWARE_FLOW_CONTROL baseio =
     must_enhanced baseio (must_efr baseio (\<lambda>efr. efr AND NOT MOXA_MUST_EFR_SF_MASK OR MOXA_MUST_EFR_SF_RX1))"

definition ENABLE_MOXA_MUST_RX_SOFTWARE_FLOW_CONTROL :: "port \<Rightarrow> ('x, unit) io_m" where
  "ENABLE_MOXA_MUST_RX_SOFTWARE_FLOW_CONTROL baseio =
     must_enhanced baseio (must_efr baseio (\<lambda>efr. efr AND NOT MOXA_MUST_EFR_SF_RX_MASK OR MOXA_MUST_EFR_SF_RX1))"

definition DISABLE_MOXA_MUST_RX_SOFTWARE_FLOW_CONTROL :: "port \<Rightarrow> ('x, unit) io_m" where
  "DISABLE_MOXA_MUST_RX_SOFTWARE_FLOW_CONTROL baseio =
     must_enhanced baseio (must_efr baseio (\<lambda>efr. efr AND NOT MOXA_MUST_EFR_SF_RX_MASK))"

definition ENABLE_MOXA_MUST_TX_RX_SOFTWARE_FLOW_CONTROL :: "port \<Rightarrow> ('x, unit) io_m" where
  "ENABLE_MOXA_MUST_TX_RX_SOFTWARE_FLOW_CONTROL baseio =
     must_enhanced baseio (must_efr baseio (\<lambda>efr. efr AND NOT MOXA_MUST_EFR_SF_MASK OR (MOXA_MUST_EFR_SF_RX1 OR MOXA_MUST_EFR_SF_TX1)))"

definition ENABLE_MOXA_MUST_XON_ANY_FLOW_CONTROL :: "port \<Rightarrow> ('x, unit) io_m" where
  "ENABLE_MOXA_MUST_XON_ANY_FLOW_CONTROL baseio = do {
     oldmcr \<leftarrow> inb (baseio + UART_MCR);
     outb (oldmcr OR MOXA_MUST_MCR_XON_ANY) (baseio + UART_MCR) }"

definition DISABLE_MOXA_MUST_XON_ANY_FLOW_CONTROL :: "port \<Rightarrow> ('x, unit) io_m" where
  "DISABLE_MOXA_MUST_XON_ANY_FLOW_CONTROL baseio = do {
     oldmcr \<leftarrow> inb (baseio + UART_MCR);
     outb (oldmcr AND NOT MOXA_MUST_MCR_XON_ANY) (baseio + UART_MCR) }"

definition READ_MOXA_MUST_GDL :: "port \<Rightarrow> ('x, u8) io_m" where
  "READ_MOXA_MUST_GDL baseio = inb (baseio + MOXA_MUST_GDL_REGISTER)"

section \<open>The chip\<close>

text \<open>
  One chip at a base address: LCR, the other ordinary registers (\<open>mc_plain\<close>), the divisor latch
  that bit 7 of LCR puts at offsets 0 and 1 (\<open>mc_div\<close>), EFR and the banked registers,
  indexed by bank and by address offset.
\<close>

record must_chip =
  mc_lcr :: u8
  mc_efr :: u8
  mc_bank :: "nat \<times> port \<Rightarrow> u8"
  mc_plain :: "port \<Rightarrow> u8"
  mc_div :: "port \<Rightarrow> u8"

definition mc_dlab :: "must_chip \<Rightarrow> port \<Rightarrow> bool" where
  "mc_dlab c off \<longleftrightarrow> bit (mc_lcr c) 7 \<and> off \<le> 1"

definition mc_sel :: "must_chip \<Rightarrow> nat" where
  "mc_sel c = unat (drop_bit 6 (mc_efr c))"

definition must_out :: "port \<Rightarrow> u8 \<Rightarrow> port \<Rightarrow> must_chip \<Rightarrow> must_chip" where
  "must_out base v p c =
    (if p = base + 3 then c\<lparr>mc_lcr := v\<rparr>
     else if p < base \<or> base + 7 < p then c
     else if mc_lcr c \<noteq> 0xBF then
       (if mc_dlab c (p - base) then c\<lparr>mc_div := (mc_div c)(p - base := v)\<rparr>
        else c\<lparr>mc_plain := (mc_plain c)(p - base := v)\<rparr>)
     else if p = base + 2 then c\<lparr>mc_efr := v\<rparr>
     else c\<lparr>mc_bank := (mc_bank c)((mc_sel c, p - base) := v)\<rparr>)"

definition must_in :: "port \<Rightarrow> must_chip \<Rightarrow> port \<Rightarrow> u8" where
  "must_in base c p =
    (if p = base + 3 then mc_lcr c
     else if p < base \<or> base + 7 < p then 0xff
     else if mc_lcr c \<noteq> 0xBF then
       (if mc_dlab c (p - base) then mc_div c (p - base) else mc_plain c (p - base))
     else if p = base + 2 then mc_efr c
     else mc_bank c (mc_sel c, p - base))"

fun must_step :: "port \<Rightarrow> io_event \<Rightarrow> must_chip \<Rightarrow> must_chip" where
  "must_step base (Out_b v p) c = must_out base v p c"
| "must_step base _ c = c"

definition must_after :: "port \<Rightarrow> must_chip \<Rightarrow> io_event list \<Rightarrow> must_chip" where
  "must_after base c0 h = foldr (must_step base) h c0"

definition has_must :: "port \<Rightarrow> must_chip \<Rightarrow> 'x io_scheme \<Rightarrow> bool" where
  "has_must base c0 s = (\<forall>h p. base \<le> p \<and> p \<le> base + 7 \<longrightarrow>
     env_b (ienv s) h p = must_in base (must_after base c0 h) p)"

definition must_env :: "port \<Rightarrow> must_chip \<Rightarrow> env" where
  "must_env base c0 = \<lparr>env_b = (\<lambda>h p. must_in base (must_after base c0 h) p),
     env_w = (\<lambda>_ _. 0), env_l = (\<lambda>_ _. 0), env_k = (\<lambda>_ _ _. 0)\<rparr>"

abbreviation must_state :: "port \<Rightarrow> must_chip \<Rightarrow> 'x io_scheme \<Rightarrow> must_chip" where
  "must_state base c0 s \<equiv> must_after base c0 (ihist s)"

lemma must_after_Cons [simp]: "must_after base c0 (e # h) = must_step base e (must_after base c0 h)"
  by (simp add: must_after_def)

lemma has_must_hist [simp]: "has_must base c0 (s\<lparr>ihist := h\<rparr>) = has_must base c0 s"
  by (simp add: has_must_def)

lemma has_must_read:
  "has_must base c0 s \<Longrightarrow> base \<le> p \<Longrightarrow> p \<le> base + 7 \<Longrightarrow>
   env_b (ienv s) h p = must_in base (must_after base c0 h) p"
  by (simp add: has_must_def)

section \<open>The macros on the chip\<close>

definition bank_code :: "nat \<Rightarrow> u8" where
  "bank_code b = push_bit 6 (word_of_nat b)"

lemma bank_codes:
  "bank_code 0 = MOXA_MUST_EFR_BANK0" "bank_code 1 = MOXA_MUST_EFR_BANK1"
  "bank_code 2 = MOXA_MUST_EFR_BANK2"
  by (simp_all add: bank_code_def)

lemma select_bank: "b < 4 \<Longrightarrow> unat (drop_bit 6 ((efr :: u8) AND NOT MOXA_MUST_EFR_BANK_MASK OR bank_code b)) = b"
proof -
  assume "b < 4"
  then have "b = 0 \<or> b = 1 \<or> b = 2 \<or> b = 3"
    by auto
  moreover have "drop_bit 6 (efr AND NOT 0xC0 OR x) = drop_bit 6 x" for x :: u8
    by (rule bit_word_eqI) (auto simp: bit_simps numeral_eq_Suc less_Suc_eq)
  ultimately show ?thesis
    by (auto simp: bank_code_def)
qed

lemma must_efr_effect:
  assumes "has_must base c0 s"
  shows "must_state base c0 (snd (run_state (must_enhanced base (must_efr base f)) s))
    = (must_state base c0 s)\<lparr>mc_efr := f (mc_efr (must_state base c0 s))\<rparr>"
  using assms
  by (simp add: must_enhanced_def must_efr_def has_must_read) (simp add: must_out_def must_in_def)

lemma must_set_bank_effect:
  assumes "has_must base c0 s" "b < 4" "4 \<le> reg" "reg \<le> 7"
  shows "must_state base c0 (snd (run_state (must_set_bank base (bank_code b) reg v) s))
    = (let c = must_state base c0 s in
       c\<lparr>mc_efr := mc_efr c AND NOT MOXA_MUST_EFR_BANK_MASK OR bank_code b,
         mc_bank := (mc_bank c)((b, reg) := v)\<rparr>)"
  using assms
  by (simp add: must_set_bank_def must_enhanced_def must_efr_def has_must_read Let_def)
    (use select_bank [OF assms(2)] in \<open>simp add: must_out_def must_in_def mc_sel_def\<close>)

lemma must_get_bank_effect:
  assumes "has_must base c0 s" "b < 4" "4 \<le> reg" "reg \<le> 7"
  shows "fst (run_state (must_get_bank base (bank_code b) reg) s) = mc_bank (must_state base c0 s) (b, reg)"
    "must_state base c0 (snd (run_state (must_get_bank base (bank_code b) reg) s))
    = (let c = must_state base c0 s in
       c\<lparr>mc_efr := mc_efr c AND NOT MOXA_MUST_EFR_BANK_MASK OR bank_code b\<rparr>)"
  using assms
  by (simp_all add: must_get_bank_def must_enhanced_def must_efr_def has_must_read Let_def)
    (use select_bank [OF assms(2)] in \<open>simp_all add: must_out_def must_in_def mc_sel_def\<close>)

lemma has_must_bank [simp]:
  "has_must base c0 (snd (run_state (must_set_bank base b reg v) s)) = has_must base c0 s"
  "has_must base c0 (snd (run_state (must_get_bank base b reg) s)) = has_must base c0 s"
  by (simp_all add: must_set_bank_def must_get_bank_def must_enhanced_def must_efr_def)

text \<open>The enhanced registers are a register file, indexed by bank and offset.\<close>

definition must_key :: "nat \<times> port \<Rightarrow> bool" where
  "must_key k \<longleftrightarrow> fst k < 4 \<and> 4 \<le> snd k \<and> snd k \<le> 7"

interpretation must: line_bank "\<lambda>k. must_get_bank base (bank_code (fst k)) (snd k)"
    "\<lambda>k v. must_set_bank base (bank_code (fst k)) (snd k) v"
    "\<lambda>s. mc_bank (must_state base c0 s)" must_key "has_must base c0" for base c0
  by unfold_locales
    (auto simp: must_key_def must_set_bank_effect must_get_bank_effect Let_def)


end
