(* ===== verification/Mxser_State.thy ===== *)
theory Mxser_State
  imports Must_Chip
begin

text \<open>
  The state of one port of the multiport serial driver, \<open>modules/mxser/mxser.c\<close>: the C
  structure \<open>mxser_struct\<close> (fields \<open>i_...\<close>), the fields the driver uses of the attached
  \<open>tty_struct\<close> (fields \<open>t_...\<close>) and the port's slots of the driver's global arrays
  (fields \<open>g_...\<close>).  The structures nested in the C code are records here too.

  The tty attached to a port is \<open>i_t\<close>; \<open>i_has_tty\<close> says that \<open>info->tty\<close> is not null and
  \<open>i_has_buf\<close> that \<open>info->xmit_buf\<close> is not null.  The transmit page is a function of the byte
  offset, of which the offsets from 0 to 4095 exist.

  The branches of the conditional compilation are those of a kernel from 3.9 on.
  Spinlocks are not modelled: an operation runs without interleaving.  C \<open>int\<close> variables that
  count are \<open>int\<close>; registers, flag words and statistics are words of their C width.
\<close>

section \<open>Constants\<close>

abbreviation "SERIAL_XMIT_SIZE \<equiv> 4096 :: int"
abbreviation "WAKEUP_CHARS \<equiv> 256 :: int"
abbreviation "HZ \<equiv> 250 :: int"
abbreviation "MXSER_EVENT_TXLOW \<equiv> 1 :: nat"
abbreviation "MXSER_EVENT_HANGUP \<equiv> 2 :: nat"
abbreviation "MOXA_OTHER_UART \<equiv> 0 :: int"
abbreviation "MOXA_MUST_MU150_HWID \<equiv> 1 :: int"
abbreviation "MOXA_MUST_MU860_HWID \<equiv> 2 :: int"
abbreviation "PORT_UNKNOWN \<equiv> 0 :: int"
abbreviation "PORT_8250 \<equiv> 1 :: int"
abbreviation "PORT_16450 \<equiv> 2 :: int"
abbreviation "PORT_16550A \<equiv> 4 :: int"

abbreviation "UART_RX \<equiv> 0 :: port"
abbreviation "UART_TX \<equiv> 0 :: port"
abbreviation "UART_DLL \<equiv> 0 :: port"
abbreviation "UART_DLM \<equiv> 1 :: port"
abbreviation "UART_IER \<equiv> 1 :: port"
abbreviation "UART_IIR \<equiv> 2 :: port"
abbreviation "UART_FCR \<equiv> 2 :: port"
abbreviation "UART_LSR \<equiv> 5 :: port"
abbreviation "UART_MSR \<equiv> 6 :: port"

abbreviation "UART_IER_RDI \<equiv> 0x01 :: u32"
abbreviation "UART_IER_THRI \<equiv> 0x02 :: u32"
abbreviation "UART_IER_RLSI \<equiv> 0x04 :: u32"
abbreviation "UART_IER_MSI \<equiv> 0x08 :: u32"
abbreviation "MOXA_MUST_IER_EGDAI \<equiv> 0x10 :: u32"
abbreviation "MOXA_MUST_RECV_ISR \<equiv> 0x11 :: u32"
abbreviation "UART_IIR_NO_INT \<equiv> 0x01 :: u8"
abbreviation "MOXA_MUST_IIR_MASK \<equiv> 0x3E :: u8"
abbreviation "MOXA_MUST_IIR_GDA \<equiv> 0x1C :: u8"
abbreviation "MOXA_MUST_IIR_RDA \<equiv> 0x04 :: u8"
abbreviation "MOXA_MUST_IIR_RTO \<equiv> 0x0C :: u8"
abbreviation "MOXA_MUST_IIR_LSR \<equiv> 0x06 :: u8"
abbreviation "UART_LSR_DR \<equiv> 0x01 :: u32"
abbreviation "UART_LSR_OE \<equiv> 0x02 :: u32"
abbreviation "UART_LSR_PE \<equiv> 0x04 :: u32"
abbreviation "UART_LSR_FE \<equiv> 0x08 :: u32"
abbreviation "UART_LSR_BI \<equiv> 0x10 :: u32"
abbreviation "UART_LSR_THRE \<equiv> 0x20 :: u32"
abbreviation "UART_LSR_TEMT \<equiv> 0x40 :: u32"
abbreviation "MOXA_MUST_LSR_RERR \<equiv> 0x80 :: u32"
abbreviation "UART_LSR_SPECIAL \<equiv> 0x1E :: u32"
abbreviation "UART_MSR_DCTS \<equiv> 0x01 :: u32"
abbreviation "UART_MSR_DDSR \<equiv> 0x02 :: u32"
abbreviation "UART_MSR_TERI \<equiv> 0x04 :: u32"
abbreviation "UART_MSR_DDCD \<equiv> 0x08 :: u32"
abbreviation "UART_MSR_ANY_DELTA \<equiv> 0x0F :: u32"
abbreviation "UART_MSR_CTS \<equiv> 0x10 :: u32"
abbreviation "UART_MSR_DSR \<equiv> 0x20 :: u32"
abbreviation "UART_MSR_RI \<equiv> 0x40 :: u32"
abbreviation "UART_MSR_DCD \<equiv> 0x80 :: u32"
abbreviation "UART_MCR_DTR \<equiv> 0x01 :: u32"
abbreviation "UART_MCR_RTS \<equiv> 0x02 :: u32"
abbreviation "UART_MCR_AFE \<equiv> 0x20 :: u32"
abbreviation "UART_FCR_ENABLE_FIFO \<equiv> 0x01 :: u8"
abbreviation "UART_FCR_CLEAR_RCVR \<equiv> 0x02 :: u8"
abbreviation "UART_FCR_CLEAR_XMIT \<equiv> 0x04 :: u8"
abbreviation "MOXA_MUST_FCR_GDA_MODE_ENABLE \<equiv> 0x20 :: u8"
abbreviation "UART_FCR_TRIGGER_1 \<equiv> 0x00 :: u8"
abbreviation "UART_FCR_TRIGGER_4 \<equiv> 0x40 :: u8"
abbreviation "UART_FCR_TRIGGER_8 \<equiv> 0x80 :: u8"
abbreviation "UART_FCR_TRIGGER_14 \<equiv> 0xC0 :: u8"
abbreviation "UART_LCR_WLEN8 \<equiv> 0x03 :: u8"
abbreviation "UART_LCR_PARITY \<equiv> 0x08 :: u8"
abbreviation "UART_LCR_EPAR \<equiv> 0x10 :: u8"
abbreviation "UART_LCR_SPAR \<equiv> 0x20 :: u8"
abbreviation "UART_LCR_SBC \<equiv> 0x40 :: u8"
abbreviation "UART_LCR_DLAB \<equiv> 0x80 :: u8"

abbreviation "NPPI_NOTIFY_PARITY \<equiv> 0x01 :: u8"
abbreviation "NPPI_NOTIFY_FRAMING \<equiv> 0x02 :: u8"
abbreviation "NPPI_NOTIFY_HW_OVERRUN \<equiv> 0x04 :: u8"
abbreviation "NPPI_NOTIFY_BREAK \<equiv> 0x10 :: u8"

text \<open>Flag bits of \<open>flags\<close>, of the tty flags and of termios, as in the kernel headers.\<close>

abbreviation "ASYNC_SAK \<equiv> 0x00000004 :: u32"
abbreviation "ASYNC_SPD_HI \<equiv> 0x00000010 :: u32"
abbreviation "ASYNC_SPD_VHI \<equiv> 0x00000020 :: u32"
abbreviation "ASYNC_SPD_CUST \<equiv> 0x00000030 :: u32"
abbreviation "ASYNC_SPD_SHI \<equiv> 0x00001000 :: u32"
abbreviation "ASYNC_SPD_WARP \<equiv> 0x00001010 :: u32"
abbreviation "ASYNC_SPD_MASK \<equiv> 0x00001030 :: u32"
abbreviation "ASYNC_FLAGS \<equiv> 0x0000FFFF :: u32"
abbreviation "ASYNC_USR_MASK \<equiv> 0x00003430 :: u32"
abbreviation "ASYNC_HUP_NOTIFY \<equiv> 0x00000001 :: u32"
abbreviation "ASYNC_CALLOUT_NOHUP \<equiv> 0x00000400 :: u32"
abbreviation "ASYNC_INITIALIZED \<equiv> 0x80000000 :: u32"
abbreviation "ASYNC_NORMAL_ACTIVE \<equiv> 0x20000000 :: u32"
abbreviation "ASYNC_CALLOUT_ACTIVE \<equiv> 0 :: u32"
abbreviation "ASYNC_CLOSING \<equiv> 0x08000000 :: u32"
abbreviation "ASYNC_CTS_FLOW \<equiv> 0x04000000 :: u32"
abbreviation "ASYNC_CHECK_CD \<equiv> 0x02000000 :: u32"
abbreviation "ASYNC_SHARE_IRQ \<equiv> 0x01000000 :: u32"
abbreviation "ASYNC_CLOSING_WAIT_NONE \<equiv> 65535 :: int"
abbreviation "TTY_THROTTLED \<equiv> 0 :: nat"
abbreviation "TTY_IO_ERROR \<equiv> 1 :: nat"
abbreviation "TTY_DO_WRITE_WAKEUP \<equiv> 5 :: nat"

abbreviation "IGNBRK \<equiv> 0x001 :: u32"
abbreviation "BRKINT \<equiv> 0x002 :: u32"
abbreviation "IGNPAR \<equiv> 0x004 :: u32"
abbreviation "PARMRK \<equiv> 0x008 :: u32"
abbreviation "INPCK \<equiv> 0x010 :: u32"
abbreviation "IXON \<equiv> 0x400 :: u32"
abbreviation "IXOFF \<equiv> 0x1000 :: u32"
abbreviation "CBAUD_CBAUDEX \<equiv> 0x100F :: u32"
abbreviation "CSIZE \<equiv> 0x030 :: u32"
abbreviation "CSTOPB \<equiv> 0x040 :: u32"
abbreviation "PARENB \<equiv> 0x100 :: u32"
abbreviation "PARODD \<equiv> 0x200 :: u32"
abbreviation "HUPCL \<equiv> 0x400 :: u32"
abbreviation "CLOCAL \<equiv> 0x800 :: u32"
abbreviation "CMSPAR \<equiv> 0x40000000 :: u32"
abbreviation "CRTSCTS \<equiv> 0x80000000 :: u32"

section \<open>The port\<close>

record ktermios =
  c_iflag :: u32
  c_cflag :: u32
  c_start :: u8
  c_stop :: u8

record async_icount =
  ic_cts :: u32
  ic_dsr :: u32
  ic_rng :: u32
  ic_dcd :: u32
  ic_rx :: u32
  ic_tx :: u32
  ic_frame :: u32
  ic_overrun :: u32
  ic_parity :: u32
  ic_brk :: u32
  ic_buf_overrun :: u32

record mxser_mon =
  mon_rxcnt :: "64 word"
  mon_txcnt :: "64 word"
  mon_up_rxcnt :: "64 word"
  mon_up_txcnt :: "64 word"
  mon_modem_status :: u32
  mon_hold_reason :: u8

record tty =
  t_stopped :: bool
  t_hw_stopped :: bool
  t_closing :: bool
  t_flags :: "64 word"
  t_count :: int
  t_receive_room :: int
  t_low_latency :: int
  t_termios :: ktermios

record mxport = io +
  i_port :: nat
  i_base :: port
  i_irq :: int
  i_vector :: port
  i_vectormask :: u32
  i_rx_high_water :: int
  i_rx_trigger :: int
  i_rx_low_water :: int
  i_baud_base :: int
  i_flags :: u32
  i_type :: int
  i_has_tty :: bool
  i_t :: tty
  i_read_status_mask :: u32
  i_ignore_status_mask :: u32
  i_xmit_fifo_size :: int
  i_custom_divisor :: int
  i_x_char :: u32
  i_close_delay :: int
  i_closing_wait :: int
  i_IER :: u32
  i_MCR :: u32
  i_event :: "64 word"
  i_count :: int
  i_blocked_open :: int
  i_has_buf :: bool
  i_xmit_buf :: "int \<Rightarrow> u8"
  i_xmit_head :: int
  i_xmit_tail :: int
  i_xmit_cnt :: int
  i_normal_termios :: ktermios
  i_icount :: async_icount
  i_timeout :: int
  i_IsMoxaMustChipFlag :: int
  i_MaxCanSetBaudRate :: int
  i_opmode_ioaddr :: port
  i_stop_rx :: u8
  i_ldisc_stop_rx :: u8
  i_realbaud :: int
  i_mon_data :: mxser_mon
  i_err_shadow :: u8
  i_speed :: int
  i_custom_baud_rate :: int
  g_txcnt :: "64 word"
  g_rxcnt :: "64 word"
  g_msr :: u8
  g_set_baud_method :: int

type_synonym 'a mx_m = "(mxport, 'a) state"


section \<open>Steps shared by the operations\<close>

text \<open>A field of \<open>info->tty\<close> is read through a pointer that may be null.\<close>

definition deref_tty :: "unit mx_m" where
  "deref_tty = do { b \<leftarrow> gets i_has_tty; whenM (\<not> b) (undefined_c ''info->tty is null'') }"

definition set_IER :: "(u32 \<Rightarrow> u32) \<Rightarrow> unit mx_m" where
  "set_IER f = modify (\<lambda>s. s\<lparr>i_IER := f (i_IER s)\<rparr>)"

definition set_MCR :: "(u32 \<Rightarrow> u32) \<Rightarrow> unit mx_m" where
  "set_MCR f = modify (\<lambda>s. s\<lparr>i_MCR := f (i_MCR s)\<rparr>)"

definition out_IER :: "unit mx_m" where
  "out_IER = do { s \<leftarrow> gets id; outb (ucast (i_IER s)) (i_base s + UART_IER) }"

definition out_MCR :: "unit mx_m" where
  "out_MCR = do { s \<leftarrow> gets id; outb (ucast (i_MCR s)) (i_base s + UART_MCR) }"

definition port_in :: "port \<Rightarrow> u8 mx_m" where
  "port_in off = do { b \<leftarrow> gets i_base; inb (b + off) }"

definition port_out :: "u8 \<Rightarrow> port \<Rightarrow> unit mx_m" where
  "port_out v off = do { b \<leftarrow> gets i_base; outb v (b + off) }"

text \<open>Clear and set the transmit interrupt enable, so that the chip raises it anew.\<close>

definition kick_thri :: "unit mx_m" where
  "kick_thri = do {
     set_IER (\<lambda>x. x AND NOT UART_IER_THRI);
     out_IER;
     set_IER (\<lambda>x. x OR UART_IER_THRI);
     out_IER }"

definition stop_thri :: "unit mx_m" where
  "stop_thri = do { set_IER (\<lambda>x. x AND NOT UART_IER_THRI); out_IER }"

definition set_event :: "nat \<Rightarrow> unit mx_m" where
  "set_event n = modify (\<lambda>s. s\<lparr>i_event := set_bit n (i_event s)\<rparr>)"

definition MXQ_TASK :: "unit mx_m" where
  "MXQ_TASK = knote ''schedule_work'' []"

definition set_t :: "(tty \<Rightarrow> tty) \<Rightarrow> unit mx_m" where
  "set_t f = modify (\<lambda>s. s\<lparr>i_t := f (i_t s)\<rparr>)"

lemma run_steps [simp]:
  "run_state (set_IER f) s = ((), s\<lparr>i_IER := f (i_IER s)\<rparr>)"
  "run_state (set_MCR g) s = ((), s\<lparr>i_MCR := g (i_MCR s)\<rparr>)"
  "run_state out_IER s = ((), s\<lparr>ihist := Out_b (ucast (i_IER s)) (i_base s + 1) # ihist s\<rparr>)"
  "run_state out_MCR s = ((), s\<lparr>ihist := Out_b (ucast (i_MCR s)) (i_base s + 4) # ihist s\<rparr>)"
  "run_state (port_out v off) s = ((), s\<lparr>ihist := Out_b v (i_base s + off) # ihist s\<rparr>)"
  "run_state (port_in off) s = (env_b (ienv s) (ihist s) (i_base s + off),
     s\<lparr>ihist := In_b (i_base s + off) (env_b (ienv s) (ihist s) (i_base s + off)) # ihist s\<rparr>)"
  "run_state (set_event n) s = ((), s\<lparr>i_event := set_bit n (i_event s)\<rparr>)"
  "run_state (set_t h) s = ((), s\<lparr>i_t := h (i_t s)\<rparr>)"
  "run_state MXQ_TASK s = ((), s\<lparr>ihist := Kernel_call ''schedule_work'' []
     (env_k (ienv s) (ihist s) ''schedule_work'' []) # ihist s\<rparr>)"
  by (simp_all add: set_IER_def set_MCR_def out_IER_def out_MCR_def port_in_def port_out_def
    set_event_def set_t_def MXQ_TASK_def)

lemma run_deref_tty [simp]: "i_has_tty s \<Longrightarrow> run_state deref_tty s = ((), s)"
  by (simp add: deref_tty_def)

lemma run_kick_thri [simp]: "run_state kick_thri s =
   ((), s\<lparr>i_IER := i_IER s AND NOT UART_IER_THRI OR UART_IER_THRI,
     ihist := [Out_b (ucast (i_IER s AND NOT UART_IER_THRI OR UART_IER_THRI)) (i_base s + 1),
       Out_b (ucast (i_IER s AND NOT UART_IER_THRI)) (i_base s + 1)] @ ihist s\<rparr>)"
  by (simp add: kick_thri_def)

lemma run_stop_thri [simp]: "run_state stop_thri s =
   ((), s\<lparr>i_IER := i_IER s AND NOT UART_IER_THRI,
     ihist := Out_b (ucast (i_IER s AND NOT UART_IER_THRI)) (i_base s + 1) # ihist s\<rparr>)"
  by (simp add: stop_thri_def)

end
