(* ===== verification/Mxser_Tx.thy ===== *)
theory Mxser_Tx
  imports Mxser_State
begin

text \<open>
  The transmit side of a port (\<open>modules/mxser/mxser.c\<close>): the ring buffer \<open>xmit_buf\<close> with its
  head, tail and count, the tty operations that fill it and the interrupt-time routine that
  drains it into the UART.

  \<open>tx_queue\<close> reads the ring as the list of the bytes waiting to be sent.  The lemmas show that
  filling appends to that list, draining removes its front and \<open>ring_inv\<close> is kept, and
  interpret the bounded queue contract \<open>fifo\<close> on the driver's own steps.
\<close>

section \<open>Operations\<close>

definition buf_store :: "(int \<Rightarrow> u8) \<Rightarrow> int \<Rightarrow> u8 list \<Rightarrow> int \<Rightarrow> u8" where
  "buf_store buf off bs i = (if off \<le> i \<and> i < off + int (length bs) then bs ! nat (i - off) else buf i)"

function mxser_write_loop :: "u8 list \<Rightarrow> int \<Rightarrow> mxport \<Rightarrow> int \<times> mxport" where
  "mxser_write_loop buf tot s =
    (let c = min (int (length buf))
        (min (SERIAL_XMIT_SIZE - i_xmit_cnt s - 1) (SERIAL_XMIT_SIZE - i_xmit_head s))
     in if c \<le> 0 then (tot, s)
        else mxser_write_loop (drop (nat c) buf) (tot + c)
          (s\<lparr>i_xmit_buf := buf_store (i_xmit_buf s) (i_xmit_head s) (take (nat c) buf),
             i_xmit_head := (i_xmit_head s + c) AND (SERIAL_XMIT_SIZE - 1),
             i_xmit_cnt := i_xmit_cnt s + c\<rparr>))"
  by auto
termination
  by (relation "measure (\<lambda>(buf, tot, s). length buf)") auto

declare mxser_write_loop.simps [simp del]

definition may_kick :: "mxport \<Rightarrow> bool" where
  "may_kick s \<longleftrightarrow> \<not> t_hw_stopped (i_t s) \<or> i_type s = PORT_16550A \<or> i_IsMoxaMustChipFlag s \<noteq> 0"

definition mxser_write :: "u8 list \<Rightarrow> int mx_m" where
  "mxser_write buf = do {
     hb \<leftarrow> gets i_has_buf;
     if \<not> hb then ret 0
     else do {
       tot \<leftarrow> State (mxser_write_loop buf 0);
       s \<leftarrow> gets id;
       whenM (i_xmit_cnt s \<noteq> 0 \<and> \<not> t_stopped (i_t s) \<and> may_kick s) kick_thri;
       ret tot } }"

definition put_ring :: "u8 \<Rightarrow> unit mx_m" where
  "put_ring ch = modify (\<lambda>s. s\<lparr>i_xmit_buf := (i_xmit_buf s)(i_xmit_head s := ch),
     i_xmit_head := (i_xmit_head s + 1) AND (SERIAL_XMIT_SIZE - 1),
     i_xmit_cnt := i_xmit_cnt s + 1\<rparr>)"

definition mxser_put_char :: "u8 \<Rightarrow> int mx_m" where
  "mxser_put_char ch = do {
     s \<leftarrow> gets id;
     if \<not> i_has_buf s then ret 0
     else if i_xmit_cnt s \<ge> SERIAL_XMIT_SIZE - 1 then ret 0
     else do {
       put_ring ch;
       s \<leftarrow> gets id;
       whenM (\<not> t_stopped (i_t s) \<and> may_kick s) kick_thri;
       ret 1 } }"

definition mxser_flush_chars :: "unit mx_m" where
  "mxser_flush_chars = do {
     s \<leftarrow> gets id;
     if i_xmit_cnt s \<le> 0 \<or> t_stopped (i_t s) \<or> \<not> i_has_buf s \<or> \<not> may_kick s then ret ()
     else kick_thri }"

definition mxser_write_room :: "int mx_m" where
  "mxser_write_room = do {
     n \<leftarrow> gets (\<lambda>s. SERIAL_XMIT_SIZE - i_xmit_cnt s - 1);
     ret (if n < 0 then 0 else n) }"

definition mxser_chars_in_buffer :: "int mx_m" where
  "mxser_chars_in_buffer = do {
     len \<leftarrow> gets i_xmit_cnt;
     lsr \<leftarrow> port_in UART_LSR;
     ret (if ucast lsr AND UART_LSR_THRE = 0 then len + 1 else len) }"

definition clear_ring :: "unit mx_m" where
  "clear_ring = modify (\<lambda>s. s\<lparr>i_xmit_cnt := 0, i_xmit_head := 0, i_xmit_tail := 0\<rparr>)"

definition mxser_flush_buffer :: "unit mx_m" where
  "mxser_flush_buffer = do {
     clear_ring;
     fcr \<leftarrow> port_in UART_FCR;
     port_out (fcr OR UART_FCR_CLEAR_RCVR OR UART_FCR_CLEAR_XMIT) UART_FCR;
     port_out fcr UART_FCR;
     knote ''wake_up_interruptible(write_wait)'' [];
     wake \<leftarrow> kcall ''ldisc_has_write_wakeup'' [];
     f \<leftarrow> gets (\<lambda>s. t_flags (i_t s));
     whenM (bit f TTY_DO_WRITE_WAKEUP \<and> wake \<noteq> 0) (knote ''tty_wakeup'' []) }"

text \<open>One step of the drain loop: take the byte at the tail.\<close>

definition take_ring :: "u8 mx_m" where
  "take_ring = do {
     s \<leftarrow> gets id;
     modify (\<lambda>s. s\<lparr>i_xmit_tail := (i_xmit_tail s + 1) AND (SERIAL_XMIT_SIZE - 1),
       i_xmit_cnt := i_xmit_cnt s - 1\<rparr>);
     ret (i_xmit_buf s (i_xmit_tail s)) }"

function tx_loop :: "int \<Rightarrow> unit mx_m" where
  "tx_loop count = do {
     b \<leftarrow> take_ring;
     port_out b UART_TX;
     cnt \<leftarrow> gets i_xmit_cnt;
     if cnt \<le> 0 then ret ()
     else if count - 1 > 0 then tx_loop (count - 1)
     else ret () }"
  by auto
termination
  by (relation "measure nat") auto

declare tx_loop.simps [simp del]

definition count_tx :: "int \<Rightarrow> unit mx_m" where
  "count_tx n = modify (\<lambda>s. s\<lparr>g_txcnt := g_txcnt s + word_of_int n,
     i_mon_data := (i_mon_data s)\<lparr>mon_txcnt := mon_txcnt (i_mon_data s) + word_of_int n,
       mon_up_txcnt := mon_up_txcnt (i_mon_data s) + word_of_int n\<rparr>,
     i_icount := (i_icount s)\<lparr>ic_tx := ic_tx (i_icount s) + word_of_int n\<rparr>\<rparr>)"

definition signal_txlow :: "unit mx_m" where
  "signal_txlow = do {
     cnt \<leftarrow> gets i_xmit_cnt;
     whenM (cnt < WAKEUP_CHARS) (do { set_event MXSER_EVENT_TXLOW; MXQ_TASK }) }"

definition mxser_transmit_chars :: "unit mx_m" where
  "mxser_transmit_chars = do {
     s \<leftarrow> gets id;
     if i_x_char s \<noteq> 0 then do {
       port_out (ucast (i_x_char s)) UART_TX;
       modify (\<lambda>s. s\<lparr>i_x_char := 0\<rparr>);
       count_tx 1 }
     else if \<not> i_has_buf s then ret ()
     else if i_xmit_cnt s = 0 then signal_txlow
     else do {
       deref_tty;
       if t_stopped (i_t s) \<or> \<not> may_kick s then stop_thri
       else do {
         tx_loop (i_xmit_fifo_size s);
         left \<leftarrow> gets i_xmit_cnt;
         count_tx (i_xmit_cnt s - left);
         signal_txlow } } }"

definition mxser_stop :: "unit mx_m" where
  "mxser_stop = do {
     ier \<leftarrow> gets i_IER;
     whenM (ier AND UART_IER_THRI \<noteq> 0) stop_thri }"

definition mxser_start :: "unit mx_m" where
  "mxser_start = do {
     s \<leftarrow> gets id;
     whenM (i_xmit_cnt s \<noteq> 0 \<and> i_has_buf s) kick_thri }"

section \<open>The ring as a queue\<close>

definition ring_inv :: "mxport \<Rightarrow> bool" where
  "ring_inv s \<longleftrightarrow> 0 \<le> i_xmit_tail s \<and> i_xmit_tail s < SERIAL_XMIT_SIZE \<and>
     0 \<le> i_xmit_cnt s \<and> i_xmit_cnt s \<le> SERIAL_XMIT_SIZE - 1 \<and>
     i_xmit_head s = (i_xmit_tail s + i_xmit_cnt s) mod SERIAL_XMIT_SIZE"

definition tx_queue :: "mxport \<Rightarrow> u8 list" where
  "tx_queue s = map (\<lambda>k. i_xmit_buf s ((i_xmit_tail s + int k) mod SERIAL_XMIT_SIZE))
     [0..<nat (i_xmit_cnt s)]"

lemma and_ring [simp]: "(x :: int) AND 4095 = x mod 4096"
  using take_bit_eq_mask [of 12 x] by (simp add: mask_eq_exp_minus_1 take_bit_eq_mod)

lemma length_tx_queue [simp]: "length (tx_queue s) = nat (i_xmit_cnt s)"
  by (simp add: tx_queue_def)

lemma tx_queue_cong:
  "i_xmit_buf s = i_xmit_buf t \<Longrightarrow> i_xmit_tail s = i_xmit_tail t \<Longrightarrow> i_xmit_cnt s = i_xmit_cnt t \<Longrightarrow>
   tx_queue s = tx_queue t"
  by (simp add: tx_queue_def)

lemma tx_queue_nth:
  "k < nat (i_xmit_cnt s) \<Longrightarrow> tx_queue s ! k = i_xmit_buf s ((i_xmit_tail s + int k) mod SERIAL_XMIT_SIZE)"
  by (simp add: tx_queue_def)

text \<open>Distinct queue positions are distinct offsets of the page.\<close>

lemma ring_offset_inj:
  assumes "(t + int j) mod 4096 = (t + int k) mod 4096" "j < 4096" "k < 4096"
  shows "j = k"
proof -
  have "(4096 :: int) dvd (t + int j) - (t + int k)"
    using assms(1) by (simp only: mod_eq_dvd_iff)
  then have "(4096 :: int) dvd int j - int k"
    by simp
  then show ?thesis
    using dvd_imp_le_int [of "int j - int k" 4096] assms(2,3) by (cases "int j - int k = 0") auto
qed

lemma store_block:
  fixes s :: mxport
  assumes inv: "ring_inv s" and c: "0 \<le> c" "c \<le> SERIAL_XMIT_SIZE - i_xmit_cnt s - 1"
    "c \<le> SERIAL_XMIT_SIZE - i_xmit_head s" and len: "length bs = nat c"
  defines "t \<equiv> s\<lparr>i_xmit_buf := buf_store (i_xmit_buf s) (i_xmit_head s) bs,
     i_xmit_head := (i_xmit_head s + c) mod SERIAL_XMIT_SIZE, i_xmit_cnt := i_xmit_cnt s + c\<rparr>"
  shows "ring_inv t" "tx_queue t = tx_queue s @ bs"
proof -
  show "ring_inv t"
    using inv c by (auto simp: ring_inv_def t_def mod_simps ac_simps)
  have inv': "0 \<le> i_xmit_cnt s" "i_xmit_cnt s \<le> 4095" "0 \<le> i_xmit_tail s" "i_xmit_tail s < 4096"
    and hd: "i_xmit_head s = (i_xmit_tail s + i_xmit_cnt s) mod 4096"
    using inv by (auto simp: ring_inv_def)
  have head_plus: "i_xmit_head s + d = (i_xmit_tail s + (i_xmit_cnt s + d)) mod 4096"
    if "0 \<le> d" "i_xmit_head s + d < 4096" for d
  proof -
    have "0 \<le> i_xmit_head s" using hd by simp
    then have "i_xmit_head s + d = (i_xmit_head s + d) mod 4096"
      using that by simp
    also have "\<dots> = (i_xmit_tail s + (i_xmit_cnt s + d)) mod 4096"
      unfolding hd by (simp only: mod_simps ac_simps)
    finally show ?thesis .
  qed
  show "tx_queue t = tx_queue s @ bs"
  proof (rule nth_equalityI)
    show "length (tx_queue t) = length (tx_queue s @ bs)"
      using inv' c len by (simp add: t_def nat_add_distrib)
    fix k assume "k < length (tx_queue t)"
    then have k: "int k < i_xmit_cnt s + c"
      by (simp add: t_def)
    show "tx_queue t ! k = (tx_queue s @ bs) ! k"
    proof (cases "int k < i_xmit_cnt s")
      case True
      let ?o = "(i_xmit_tail s + int k) mod 4096"
      have "?o \<notin> {i_xmit_head s..<i_xmit_head s + c}"
      proof
        assume "?o \<in> {i_xmit_head s..<i_xmit_head s + c}"
        then obtain d where d: "?o = i_xmit_head s + d" "0 \<le> d" "d < c"
          by (auto intro: that [of "?o - i_xmit_head s"])
        have "?o = (i_xmit_tail s + (i_xmit_cnt s + d)) mod 4096"
          using head_plus [of d] d c(3) by simp
        then have "?o = (i_xmit_tail s + int (nat (i_xmit_cnt s + d))) mod 4096"
          using inv' d by simp
        from ring_offset_inj [OF this] True d c(2) inv' show False
          by auto
      qed
      then show ?thesis
        using True inv' len c k
        by (simp add: tx_queue_nth nth_append t_def buf_store_def not_le not_less)
           (auto simp: tx_queue_nth)
    next
      case False
      let ?d = "int k - i_xmit_cnt s"
      have "(i_xmit_tail s + int k) mod 4096 = i_xmit_head s + ?d"
        using False k c(3) head_plus [of ?d] by simp
      then show ?thesis
        using False inv' len c k
        by (simp add: tx_queue_nth nth_append t_def buf_store_def nat_diff_distrib zless_nat_eq_int_zless)
    qed
  qed
qed


lemma ring_inv_cong:
  "i_xmit_head s = i_xmit_head t \<Longrightarrow> i_xmit_tail s = i_xmit_tail t \<Longrightarrow> i_xmit_cnt s = i_xmit_cnt t \<Longrightarrow>
   ring_inv s = ring_inv t"
  by (simp add: ring_inv_def)

lemma ring_frame [simp]:
  "tx_queue (s\<lparr>ihist := h\<rparr>) = tx_queue s" "tx_queue (s\<lparr>i_IER := x\<rparr>) = tx_queue s"
  "tx_queue (s\<lparr>i_event := e\<rparr>) = tx_queue s" "tx_queue (s\<lparr>i_x_char := c\<rparr>) = tx_queue s"
  "tx_queue (s\<lparr>g_txcnt := n\<rparr>) = tx_queue s" "tx_queue (s\<lparr>i_mon_data := m\<rparr>) = tx_queue s"
  "tx_queue (s\<lparr>i_icount := ic\<rparr>) = tx_queue s"
  "ring_inv (s\<lparr>ihist := h\<rparr>) = ring_inv s" "ring_inv (s\<lparr>i_IER := x\<rparr>) = ring_inv s"
  "ring_inv (s\<lparr>i_event := e\<rparr>) = ring_inv s" "ring_inv (s\<lparr>i_x_char := c\<rparr>) = ring_inv s"
  "ring_inv (s\<lparr>g_txcnt := n\<rparr>) = ring_inv s" "ring_inv (s\<lparr>i_mon_data := m\<rparr>) = ring_inv s"
  "ring_inv (s\<lparr>i_icount := ic\<rparr>) = ring_inv s"
  by (simp_all add: tx_queue_def ring_inv_def)

lemma put_ring_effect:
  assumes "ring_inv s" "i_xmit_cnt s < 4095"
  shows "ring_inv (snd (run_state (put_ring ch) s))"
    "tx_queue (snd (run_state (put_ring ch) s)) = tx_queue s @ [ch]"
proof -
  have hd: "i_xmit_head s < 4096"
    using assms(1) by (auto simp: ring_inv_def)
  have st: "buf_store (i_xmit_buf s) (i_xmit_head s) [ch] = (i_xmit_buf s)(i_xmit_head s := ch)"
    by (auto simp: buf_store_def fun_eq_iff)
  have eq: "snd (run_state (put_ring ch) s) =
    s\<lparr>i_xmit_buf := buf_store (i_xmit_buf s) (i_xmit_head s) [ch],
      i_xmit_head := (i_xmit_head s + 1) mod 4096, i_xmit_cnt := i_xmit_cnt s + 1\<rparr>"
    by (simp add: put_ring_def st)
  show "ring_inv (snd (run_state (put_ring ch) s))"
    "tx_queue (snd (run_state (put_ring ch) s)) = tx_queue s @ [ch]"
    unfolding eq using store_block [OF assms(1), of 1 "[ch]"] assms(2) hd by simp_all
qed

lemma take_ring_effect:
  assumes inv: "ring_inv s" and ne: "tx_queue s \<noteq> []"
  shows "fst (run_state take_ring s) = hd (tx_queue s)"
    "tx_queue (snd (run_state take_ring s)) = tl (tx_queue s)"
    "ring_inv (snd (run_state take_ring s))"
proof -
  have pos: "0 < i_xmit_cnt s"
    using ne by (simp add: tx_queue_def)
  have tl: "0 \<le> i_xmit_tail s" "i_xmit_tail s < 4096"
    using inv by (auto simp: ring_inv_def)
  show "fst (run_state take_ring s) = hd (tx_queue s)"
    using pos tl ne by (simp add: take_ring_def hd_conv_nth tx_queue_nth)
  show "tx_queue (snd (run_state take_ring s)) = tl (tx_queue s)"
    by (rule nth_equalityI)
      (auto simp: take_ring_def tx_queue_nth nth_tl mod_simps ac_simps nat_diff_distrib')
  show "ring_inv (snd (run_state take_ring s))"
    using inv pos by (auto simp: take_ring_def ring_inv_def mod_simps)
qed

interpretation ring: fifo "\<lambda>ch s. snd (run_state (put_ring ch) s)" "run_state take_ring" tx_queue
    "\<lambda>_. 4095" ring_inv
proof unfold_locales
  fix q x assume "ring_inv q" "length (tx_queue q) < 4095"
  then have "i_xmit_cnt q < 4095"
    by auto
  then show "tx_queue (snd (run_state (put_ring x) q)) = tx_queue q @ [x]"
    "ring_inv (snd (run_state (put_ring x) q))"
    using put_ring_effect \<open>ring_inv q\<close> by auto
qed (simp_all add: take_ring_effect)

section \<open>Filling\<close>

lemma write_loop_effect:
  assumes "ring_inv s"
  shows "ring_inv (snd (mxser_write_loop buf t s)) \<and>
    tx_queue (snd (mxser_write_loop buf t s)) =
      tx_queue s @ take (nat (4095 - i_xmit_cnt s)) buf \<and>
    fst (mxser_write_loop buf t s) = t + min (int (length buf)) (4095 - i_xmit_cnt s)"
  using assms
proof (induction buf t s rule: mxser_write_loop.induct)
  case (1 buf t s)
  define c where "c = min (int (length buf))
    (min (SERIAL_XMIT_SIZE - i_xmit_cnt s - 1) (SERIAL_XMIT_SIZE - i_xmit_head s))"
  have room: "0 \<le> i_xmit_cnt s" "i_xmit_cnt s \<le> 4095" "0 \<le> i_xmit_head s" "i_xmit_head s < 4096"
    using 1(2) by (auto simp: ring_inv_def)
  show ?case
  proof (cases "c \<le> 0")
    case True
    then have "mxser_write_loop buf t s = (t, s)"
      by (subst mxser_write_loop.simps) (simp add: c_def Let_def)
    then show ?thesis
      using 1(2) True room by (auto simp: c_def min_def split: if_splits)
  next
    case False
    define s' where "s' = s\<lparr>i_xmit_buf := buf_store (i_xmit_buf s) (i_xmit_head s) (take (nat c) buf),
      i_xmit_head := (i_xmit_head s + c) AND (SERIAL_XMIT_SIZE - 1), i_xmit_cnt := i_xmit_cnt s + c\<rparr>"
    have step: "mxser_write_loop buf t s = mxser_write_loop (drop (nat c) buf) (t + c) s'"
      using False by (subst mxser_write_loop.simps) (simp add: c_def Let_def s'_def)
    have c0: "0 < c"
      using False by simp
    have c: "c \<le> int (length buf)" "c \<le> SERIAL_XMIT_SIZE - i_xmit_cnt s - 1"
        "c \<le> SERIAL_XMIT_SIZE - i_xmit_head s"
      unfolding c_def by (simp_all only: min.cobounded1 min_le_iff_disj order_refl simp_thms)
    have "length (take (nat c) buf) = nat c"
      using c(1) c0 by simp
    then have blk: "ring_inv s'" "tx_queue s' = tx_queue s @ take (nat c) buf"
      using store_block [OF 1(2) less_imp_le [OF c0] c(2,3)] by (simp_all add: s'_def)
    have cnt': "i_xmit_cnt s' = i_xmit_cnt s + c"
      by (simp add: s'_def)
    have "take (nat c) buf @ take (nat (4095 - (i_xmit_cnt s + c))) (drop (nat c) buf)
        = take (nat (4095 - i_xmit_cnt s)) buf"
      using c c0 by (simp add: take_add [symmetric] nat_add_distrib [symmetric])
    moreover have "t + c + min (int (length buf - nat c)) (4095 - (i_xmit_cnt s + c))
        = t + min (int (length buf)) (4095 - i_xmit_cnt s)"
      using c c0 by (simp add: min_def)
    moreover note 1(1) [OF c_def False blk(1) [unfolded s'_def], folded s'_def, unfolded blk(2) cnt']
    ultimately show ?thesis
      unfolding step by (simp only: append_assoc length_drop)
  qed
qed

lemma write_loop_shape:
  "\<exists>b h c. snd (mxser_write_loop buf t s) = s\<lparr>i_xmit_buf := b, i_xmit_head := h, i_xmit_cnt := c\<rparr>"
proof (induction buf t s rule: mxser_write_loop.induct)
  case (1 buf t s)
  define c where "c = min (int (length buf))
    (min (SERIAL_XMIT_SIZE - i_xmit_cnt s - 1) (SERIAL_XMIT_SIZE - i_xmit_head s))"
  show ?case
  proof (cases "c \<le> 0")
    case True
    have "s = s\<lparr>i_xmit_buf := i_xmit_buf s, i_xmit_head := i_xmit_head s, i_xmit_cnt := i_xmit_cnt s\<rparr>"
      by simp
    with True show ?thesis
      by (subst mxser_write_loop.simps) (simp only: Let_def c_def [symmetric] if_True snd_conv, blast)
  next
    case False
    obtain b h k where "snd (mxser_write_loop (drop (nat c) buf) (t + c)
      (s\<lparr>i_xmit_buf := buf_store (i_xmit_buf s) (i_xmit_head s) (take (nat c) buf),
         i_xmit_head := (i_xmit_head s + c) AND (SERIAL_XMIT_SIZE - 1), i_xmit_cnt := i_xmit_cnt s + c\<rparr>))
      = s\<lparr>i_xmit_buf := b, i_xmit_head := h, i_xmit_cnt := k\<rparr>"
      using 1 [OF c_def False] by auto
    with False show ?thesis
      by (subst mxser_write_loop.simps) (simp only: Let_def c_def [symmetric] if_False, blast)
  qed
qed

lemma write_loop_frame [simp]:
  fixes s buf t
  defines "u \<equiv> snd (mxser_write_loop buf t s)"
  shows "ihist u = ihist s" "ienv u = ienv s" "i_base u = i_base s" "i_has_buf u = i_has_buf s"
    "i_has_tty u = i_has_tty s" "i_x_char u = i_x_char s" "i_t u = i_t s" "i_IER u = i_IER s"
proof -
  obtain b h c where u: "u = s\<lparr>i_xmit_buf := b, i_xmit_head := h, i_xmit_cnt := c\<rparr>"
    using write_loop_shape [of buf t s] unfolding u_def by blast
  show "ihist u = ihist s" "ienv u = ienv s" "i_base u = i_base s" "i_has_buf u = i_has_buf s"
    "i_has_tty u = i_has_tty s" "i_x_char u = i_x_char s" "i_t u = i_t s" "i_IER u = i_IER s"
    by (simp_all add: u)
qed

section \<open>Draining\<close>

text \<open>The bytes a history has handed to the transmit register of a port.\<close>

definition uart_bytes :: "port \<Rightarrow> io_event list \<Rightarrow> u8 list" where
  "uart_bytes base h = map snd (filter (\<lambda>(p, v). p = base + UART_TX) (outputs h))"

lemma uart_bytes_simps [simp]:
  "uart_bytes base (Out_b v p # h) = uart_bytes base h @ (if p = base then [v] else [])"
  "uart_bytes base (In_b p v # h) = uart_bytes base h"
  "uart_bytes base (Kernel_call f as r # h) = uart_bytes base h"
  "uart_bytes base (To_user vs # h) = uart_bytes base h"
  "uart_bytes base (Undefined u # h) = uart_bytes base h"
  by (simp_all add: uart_bytes_def)

definition sent_per_irq :: "mxport \<Rightarrow> nat" where
  "sent_per_irq s = nat (min (max 1 (i_xmit_fifo_size s)) (i_xmit_cnt s))"

lemma run_take_ring: "run_state take_ring s = (i_xmit_buf s (i_xmit_tail s),
    s\<lparr>i_xmit_tail := (i_xmit_tail s + 1) mod 4096, i_xmit_cnt := i_xmit_cnt s - 1\<rparr>)"
  by (simp add: take_ring_def)

lemma take_ring_explicit:
  assumes "ring_inv s" "0 < i_xmit_cnt s"
  shows "\<exists>b t. tx_queue s = b # tx_queue t \<and> ring_inv t \<and> b = i_xmit_buf s (i_xmit_tail s) \<and>
    t = s\<lparr>i_xmit_tail := (i_xmit_tail s + 1) mod 4096, i_xmit_cnt := i_xmit_cnt s - 1\<rparr>"
proof -
  have ne: "tx_queue s \<noteq> []"
    using assms(2) by (simp add: tx_queue_def)
  show ?thesis
    using take_ring_effect [OF assms(1) ne] ne unfolding run_take_ring
    by (metis fst_conv list.collapse snd_conv)
qed

definition drained :: "nat \<Rightarrow> mxport \<Rightarrow> mxport \<Rightarrow> bool" where
  "drained k s t \<longleftrightarrow> ring_inv t \<and> tx_queue t = drop k (tx_queue s) \<and>
     uart_bytes (i_base s) (ihist t) = uart_bytes (i_base s) (ihist s) @ take k (tx_queue s) \<and>
     i_xmit_cnt t = i_xmit_cnt s - int k \<and> i_base t = i_base s \<and> ienv t = ienv s \<and>
     i_has_buf t = i_has_buf s \<and> i_has_tty t = i_has_tty s \<and> i_x_char t = i_x_char s \<and>
     g_txcnt t = g_txcnt s"

lemma tx_loop_effect:
  assumes "ring_inv s" "0 < i_xmit_cnt s"
  shows "drained (nat (min (max 1 n) (i_xmit_cnt s))) s (snd (run_state (tx_loop n) s))"
  using assms
proof (induction n arbitrary: s rule: tx_loop.induct)
  case (1 n)
  obtain b s1 where b: "tx_queue s = b # tx_queue s1" "ring_inv s1" "b = i_xmit_buf s (i_xmit_tail s)"
    and s1: "s1 = s\<lparr>i_xmit_tail := (i_xmit_tail s + 1) mod 4096, i_xmit_cnt := i_xmit_cnt s - 1\<rparr>"
    using take_ring_explicit [OF 1(2,3)] by blast
  define s2 where "s2 = s1\<lparr>ihist := Out_b b (i_base s) # ihist s\<rparr>"
  have step: "run_state (tx_loop n) s =
      (if i_xmit_cnt s2 \<le> 0 \<or> n - 1 \<le> 0 then ((), s2) else run_state (tx_loop (n - 1)) s2)"
    by (subst tx_loop.simps) (simp add: run_take_ring s2_def s1 b(3))
  have s2: "ring_inv s2" "tx_queue s = b # tx_queue s2" "i_xmit_cnt s2 = i_xmit_cnt s - 1"
    "uart_bytes (i_base s) (ihist s2) = uart_bytes (i_base s) (ihist s) @ [b]"
    "i_base s2 = i_base s" "ienv s2 = ienv s" "i_has_buf s2 = i_has_buf s"
    "i_has_tty s2 = i_has_tty s" "i_x_char s2 = i_x_char s" "g_txcnt s2 = g_txcnt s"
    using b by (simp_all add: s2_def s1)
  show ?case
  proof (cases "i_xmit_cnt s2 \<le> 0 \<or> n - 1 \<le> 0")
    case True
    then have "nat (min (max 1 n) (i_xmit_cnt s)) = 1"
      using 1(3) s2(3) by auto
    with True s2 show ?thesis
      by (simp add: step drained_def)
  next
    case False
    then have pos: "\<not> i_xmit_cnt s2 \<le> 0" "n - 1 > 0" "0 < i_xmit_cnt s2"
      by auto
    have "drained (nat (min (max 1 (n - 1)) (i_xmit_cnt s2))) s2 (snd (run_state (tx_loop (n - 1)) s2))"
      by (rule 1(1) [OF pos(1,2) s2(1) pos(3)])
    moreover have "nat (min (max 1 n) (i_xmit_cnt s)) = Suc (nat (min (max 1 (n - 1)) (i_xmit_cnt s2)))"
      using False s2(3) by (auto simp: min_def max_def)
    ultimately show ?thesis
      using False s2 by (simp add: step drained_def)
  qed
qed


section \<open>The operations on the queue\<close>

lemma put_ring_run: "run_state (put_ring ch) s =
   ((), s\<lparr>i_xmit_buf := (i_xmit_buf s)(i_xmit_head s := ch),
     i_xmit_head := (i_xmit_head s + 1) mod 4096, i_xmit_cnt := i_xmit_cnt s + 1\<rparr>)"
  by (simp add: put_ring_def)

text \<open>
  What an operation of the transmit side does to a port, seen from outside: it accepts some
  bytes into the queue and hands some to the UART, in order.
\<close>

definition moved :: "u8 list \<Rightarrow> u8 list \<Rightarrow> mxport \<Rightarrow> mxport \<Rightarrow> bool" where
  "moved acc sent s t \<longleftrightarrow> ring_inv t \<and> sent @ tx_queue t = tx_queue s @ acc \<and>
     uart_bytes (i_base s) (ihist t) = uart_bytes (i_base s) (ihist s) @ sent \<and>
     i_base t = i_base s \<and> ienv t = ienv s \<and> i_has_buf t = i_has_buf s \<and>
     i_has_tty t = i_has_tty s \<and> i_x_char t = i_x_char s"

lemma moved_refl: "ring_inv s \<Longrightarrow> moved [] [] s s"
  by (simp add: moved_def)

lemma moved_trans: "moved a x s t \<Longrightarrow> moved b y t u \<Longrightarrow> moved (a @ b) (x @ y) s u"
  by (auto simp: moved_def)

lemma write_moved:
  assumes "ring_inv s" "i_has_buf s"
  shows "\<exists>t. run_state (mxser_write buf) s = (min (int (length buf)) (4095 - i_xmit_cnt s), t) \<and>
    moved (take (nat (4095 - i_xmit_cnt s)) buf) [] s t"
  using write_loop_effect [OF assms(1), of buf 0] assms(2)
  by (auto simp: mxser_write_def moved_def case_prod_beta)

lemma put_char_moved:
  assumes "ring_inv s" "i_has_buf s"
  shows "\<exists>t. run_state (mxser_put_char ch) s = (if i_xmit_cnt s < 4095 then 1 else 0, t) \<and>
    moved (if i_xmit_cnt s < 4095 then [ch] else []) [] s t"
proof (cases "i_xmit_cnt s < 4095")
  case True
  then show ?thesis
    using put_ring_effect [OF assms(1) True, of ch] assms(2)
    by (simp add: mxser_put_char_def moved_def put_ring_run)
next
  case False
  then show ?thesis
    using assms by (simp add: mxser_put_char_def moved_def)
qed

lemma signal_txlow_moved: "ring_inv s \<Longrightarrow> moved [] [] s (snd (run_state signal_txlow s))"
  by (simp add: signal_txlow_def moved_def)

lemma count_tx_moved [simp]: "moved acc sent s (snd (run_state (count_tx n) t)) = moved acc sent s t"
  by (simp add: count_tx_def moved_def)

lemma transmit_moved:
  assumes "ring_inv s" "i_has_buf s" "i_has_tty s" "i_x_char s = 0"
  shows "\<exists>sent. moved [] sent s (snd (run_state mxser_transmit_chars s))"
proof (cases "i_xmit_cnt s = 0 \<or> t_stopped (i_t s) \<or> \<not> may_kick s")
  case True
  then have "moved [] [] s (snd (run_state mxser_transmit_chars s))"
    using assms signal_txlow_moved [OF assms(1)]
    by (cases "i_xmit_cnt s = 0") (simp_all add: mxser_transmit_chars_def moved_def)
  then show ?thesis ..
next
  case False
  then have pos: "0 < i_xmit_cnt s"
    using assms(1) by (auto simp: ring_inv_def)
  define t where "t = snd (run_state (tx_loop (i_xmit_fifo_size s)) s)"
  define k where "k = nat (min (max 1 (i_xmit_fifo_size s)) (i_xmit_cnt s))"
  have dr: "drained k s t"
    using tx_loop_effect [OF assms(1) pos] by (simp add: t_def k_def)
  then have mv: "moved [] (take k (tx_queue s)) s t"
    by (simp add: drained_def moved_def)
  define u where "u = snd (run_state (count_tx (i_xmit_cnt s - i_xmit_cnt t)) t)"
  have "moved [] (take k (tx_queue s)) s u"
    using mv by (simp add: u_def)
  moreover have "moved [] [] u (snd (run_state signal_txlow u))"
    using \<open>moved [] (take k (tx_queue s)) s u\<close> by (intro signal_txlow_moved) (simp add: moved_def)
  ultimately have "moved [] (take k (tx_queue s)) s (snd (run_state signal_txlow u))"
    using moved_trans by fastforce
  moreover have "run_state mxser_transmit_chars s = run_state signal_txlow u"
    using False assms by (simp add: mxser_transmit_chars_def case_prod_beta t_def u_def)
  ultimately show ?thesis
    by auto
qed


lemma chars_in_buffer_moved: "ring_inv s \<Longrightarrow> moved [] [] s (snd (run_state mxser_chars_in_buffer s))"
  by (simp add: mxser_chars_in_buffer_def moved_def)

lemma kick_moved: "ring_inv s \<Longrightarrow> moved [] [] s (snd (run_state kick_thri s))"
  by (simp add: moved_def)

lemma simple_moved:
  "ring_inv s \<Longrightarrow> moved [] [] s (snd (run_state mxser_flush_chars s))"
  "ring_inv s \<Longrightarrow> moved [] [] s (snd (run_state mxser_write_room s))"
  "ring_inv s \<Longrightarrow> moved [] [] s (snd (run_state mxser_stop s))"
  "ring_inv s \<Longrightarrow> moved [] [] s (snd (run_state mxser_start s))"
  by (simp_all add: mxser_flush_chars_def mxser_write_room_def mxser_stop_def mxser_start_def moved_def)

section \<open>Sequences of operations\<close>

text \<open>
  The calls the tty layer and the interrupt handler make on the transmit side, in any order.
  The result of \<open>tx_run\<close> is the list of the bytes the calls reported as accepted.
\<close>

datatype tx_op = Call_write "u8 list" | Call_put_char u8 | Call_flush_chars | Call_write_room
  | Call_chars_in_buffer | Call_stop | Call_start | Irq_transmit

fun tx_call :: "tx_op \<Rightarrow> u8 list mx_m" where
  "tx_call (Call_write buf) = do { n \<leftarrow> mxser_write buf; ret (take (nat n) buf) }"
| "tx_call (Call_put_char ch) = do { n \<leftarrow> mxser_put_char ch; ret (take (nat n) [ch]) }"
| "tx_call Call_flush_chars = do { mxser_flush_chars; ret [] }"
| "tx_call Call_write_room = do { _ \<leftarrow> mxser_write_room; ret [] }"
| "tx_call Call_chars_in_buffer = do { _ \<leftarrow> mxser_chars_in_buffer; ret [] }"
| "tx_call Call_stop = do { mxser_stop; ret [] }"
| "tx_call Call_start = do { mxser_start; ret [] }"
| "tx_call Irq_transmit = do { mxser_transmit_chars; ret [] }"

fun tx_run :: "tx_op list \<Rightarrow> u8 list mx_m" where
  "tx_run [] = ret []"
| "tx_run (c # cs) = do { a \<leftarrow> tx_call c; b \<leftarrow> tx_run cs; ret (a @ b) }"

definition tx_ready :: "mxport \<Rightarrow> bool" where
  "tx_ready s \<longleftrightarrow> ring_inv s \<and> i_has_buf s \<and> i_has_tty s \<and> i_x_char s = 0"

lemma moved_ready: "moved a x s t \<Longrightarrow> tx_ready s \<Longrightarrow> tx_ready t"
  by (simp add: moved_def tx_ready_def)

lemma tx_call_moved:
  assumes "tx_ready s"
  shows "\<exists>sent. moved (fst (run_state (tx_call c) s)) sent s (snd (run_state (tx_call c) s))"
proof -
  have r: "ring_inv s" "i_has_buf s" "i_has_tty s" "i_x_char s = 0"
    using assms by (simp_all add: tx_ready_def)
  show ?thesis
  proof (cases c)
    case (Call_write buf)
    obtain t where t: "run_state (mxser_write buf) s = (min (int (length buf)) (4095 - i_xmit_cnt s), t)"
      "moved (take (nat (4095 - i_xmit_cnt s)) buf) [] s t"
      using write_moved [OF r(1,2)] by blast
    have "take (nat (min (int (length buf)) (4095 - i_xmit_cnt s))) buf = take (nat (4095 - i_xmit_cnt s)) buf"
      by (auto simp: min_def)
    with t show ?thesis
      by (auto simp: Call_write)
  next
    case (Call_put_char ch)
    then show ?thesis
      using put_char_moved [OF r(1,2), of ch] by (auto split: if_splits)
  next
    case Irq_transmit
    then show ?thesis
      using transmit_moved [OF r] by (simp add: case_prod_beta)
  qed (use simple_moved [OF r(1)] chars_in_buffer_moved [OF r(1)] in \<open>auto simp: case_prod_beta\<close>)
qed

lemma tx_run_calls: "tx_run cs = run_calls tx_call cs"
  by (induction cs) simp_all

interpretation tx: stream_device tx_call tx_queue "\<lambda>s. uart_bytes (i_base s) (ihist s)" tx_ready
proof unfold_locales
  fix s :: mxport and c :: tx_op assume "tx_ready s"
  then obtain x where x: "moved (fst (run_state (tx_call c) s)) x s (snd (run_state (tx_call c) s))"
    using tx_call_moved by blast
  then show "tx_ready (snd (run_state (tx_call c) s))"
    using \<open>tx_ready s\<close> by (rule moved_ready)
  from x show "\<exists>sent. uart_bytes (i_base (snd (run_state (tx_call c) s))) (ihist (snd (run_state (tx_call c) s)))
      = uart_bytes (i_base s) (ihist s) @ sent \<and>
      sent @ tx_queue (snd (run_state (tx_call c) s)) = tx_queue s @ fst (run_state (tx_call c) s)"
    by (auto simp: moved_def)
qed

lemma tx_call_base: "tx_ready s \<Longrightarrow> i_base (snd (run_state (tx_call c) s)) = i_base s"
  using tx_call_moved [of s c] by (auto simp: moved_def)

lemma tx_run_base: "tx_ready s \<Longrightarrow> i_base (snd (run_state (tx_run cs) s)) = i_base s"
  by (induction cs arbitrary: s) (simp_all add: case_prod_beta tx_call_base tx.call_ready)

section \<open>Properties\<close>

definition termios_example :: ktermios where
  "termios_example = \<lparr>c_iflag = 0, c_cflag = 0xCBD, c_start = 0x11, c_stop = 0x13\<rparr>"

text \<open>A port of a MU860 board at base address 0x100, open, with an empty queue.\<close>

definition port_example :: mxport where
  "port_example = \<lparr>ienv = must_env 0x100 \<lparr>mc_lcr = 3, mc_efr = 0, mc_bank = (\<lambda>_. 0), mc_plain = (\<lambda>_. 0), mc_div = (\<lambda>_. 0)\<rparr>,
     ihist = [], i_port = 0, i_base = 0x100, i_irq = 10, i_vector = 0x200, i_vectormask = 0xFF,
     i_rx_high_water = 96, i_rx_trigger = 96, i_rx_low_water = 32, i_baud_base = 921600, i_flags = 0,
     i_type = PORT_16550A, i_has_tty = True,
     i_t = \<lparr>t_stopped = False, t_hw_stopped = False, t_closing = False, t_flags = 0, t_count = 1,
       t_receive_room = 4096, t_low_latency = 0, t_termios = termios_example\<rparr>,
     i_read_status_mask = 0, i_ignore_status_mask = 0, i_xmit_fifo_size = 128, i_custom_divisor = 0,
     i_x_char = 0, i_close_delay = 125, i_closing_wait = 7500, i_IER = 0, i_MCR = 0, i_event = 0,
     i_count = 1, i_blocked_open = 0, i_has_buf = True, i_xmit_buf = (\<lambda>_. 0), i_xmit_head = 0,
     i_xmit_tail = 0, i_xmit_cnt = 0, i_normal_termios = termios_example,
     i_icount = \<lparr>ic_cts = 0, ic_dsr = 0, ic_rng = 0, ic_dcd = 0, ic_rx = 0, ic_tx = 0, ic_frame = 0,
       ic_overrun = 0, ic_parity = 0, ic_brk = 0, ic_buf_overrun = 0\<rparr>,
     i_timeout = 0, i_IsMoxaMustChipFlag = 2, i_MaxCanSetBaudRate = 921600, i_opmode_ioaddr = 0x204,
     i_stop_rx = 0, i_ldisc_stop_rx = 0, i_realbaud = 9600,
     i_mon_data = \<lparr>mon_rxcnt = 0, mon_txcnt = 0, mon_up_rxcnt = 0, mon_up_txcnt = 0,
       mon_modem_status = 0, mon_hold_reason = 0\<rparr>,
     i_err_shadow = 0, i_speed = 9600, i_custom_baud_rate = 0, g_txcnt = 0, g_rxcnt = 0, g_msr = 0,
     g_set_baud_method = 0\<rparr>"

lemma port_example_ready: "tx_ready port_example"
  by (simp add: tx_ready_def port_example_def ring_inv_def)



text \<open>
  A write accepts as many bytes as \<open>write_room\<close> reports, up to the length of the buffer, and
  queues exactly these.
\<close>

theorem write_accepts_room:
  assumes "ring_inv s" "i_has_buf s" "run_state (mxser_write buf) s = (n, t)"
  shows "n = min (int (length buf)) (fst (run_state mxser_write_room s)) \<and>
    tx_queue t = tx_queue s @ take (nat n) buf \<and> ring_inv t \<and>
    fst (run_state mxser_write_room t) = fst (run_state mxser_write_room s) - n"
proof -
  have cnt: "0 \<le> i_xmit_cnt s" "i_xmit_cnt s \<le> 4095"
    using assms(1) by (auto simp: ring_inv_def)
  have n: "n = min (int (length buf)) (4095 - i_xmit_cnt s)"
    and mv: "moved (take (nat (4095 - i_xmit_cnt s)) buf) [] s t"
    using write_moved [OF assms(1,2), of buf] assms(3) by auto
  have q: "tx_queue t = tx_queue s @ take (nat n) buf" "ring_inv t"
    using mv n by (auto simp: moved_def min_def)
  have "nat (i_xmit_cnt t) = nat (i_xmit_cnt s) + nat n"
    using arg_cong [OF q(1), of length] n by (simp add: min_def split: if_splits)
  then have "i_xmit_cnt t = i_xmit_cnt s + n"
    using q(2) cnt n by (auto simp: ring_inv_def)
  with n q cnt show ?thesis
    by (auto simp: mxser_write_room_def)
qed

lemma write_accepts_room_witness:
  "tx_queue (snd (run_state (mxser_write [7, 8]) port_example)) = [7, 8]"
  using write_accepts_room [OF _ _ prod.collapse [symmetric], of port_example "[7, 8]"]
    port_example_ready [unfolded tx_ready_def]
  by (auto simp: mxser_write_room_def port_example_def tx_queue_def)

text \<open>
  C26. The bulk copy of \<open>mxser_write\<close> queues the same bytes as one \<open>mxser_put_char\<close> per byte.
\<close>

theorem write_equals_put_chars:
  assumes "ring_inv s" "i_has_buf s"
  shows "tx_queue (snd (run_state (mxser_write buf) s)) =
    tx_queue (fold (\<lambda>ch s. snd (run_state (mxser_put_char ch) s)) buf s)"
proof -
  have "tx_queue (fold (\<lambda>ch s. snd (run_state (mxser_put_char ch) s)) buf s)
      = tx_queue s @ take (nat (4095 - i_xmit_cnt s)) buf"
    using assms
  proof (induction buf arbitrary: s)
    case (Cons ch buf)
    obtain t where t: "snd (run_state (mxser_put_char ch) s) = t"
      "moved (if i_xmit_cnt s < 4095 then [ch] else []) [] s t"
      using put_char_moved [OF Cons.prems, of ch] by auto
    have q: "tx_queue t = tx_queue s @ (if i_xmit_cnt s < 4095 then [ch] else [])" "ring_inv t" "i_has_buf t"
      using t(2) Cons.prems by (auto simp: moved_def)
    have cnt: "i_xmit_cnt t = i_xmit_cnt s + (if i_xmit_cnt s < 4095 then 1 else 0)"
      using arg_cong [OF q(1), of length] q(2) Cons.prems(1) by (auto simp: ring_inv_def split: if_splits)
    show ?case
    proof (cases "i_xmit_cnt s < 4095")
      case True
      then have "nat (4095 - i_xmit_cnt s) = Suc (nat (4095 - i_xmit_cnt t))"
        using cnt by simp
      then show ?thesis
        using Cons.IH [OF q(2,3)] q(1) t(1) True by simp
    next
      case False
      then show ?thesis
        using Cons.IH [OF q(2,3)] q(1) t(1) cnt by simp
    qed
  qed simp
  then show ?thesis
    using write_moved [OF assms, of buf] by (auto simp: moved_def)
qed

lemma write_equals_put_chars_witness:
  "tx_queue (snd (run_state (mxser_write [7, 8]) port_example)) =
    tx_queue (fold (\<lambda>ch s. snd (run_state (mxser_put_char ch) s)) [7, 8] port_example)"
  using write_equals_put_chars [of port_example "[7, 8]"] port_example_ready
  by (simp add: tx_ready_def)

text \<open>
  A transmit interrupt on a port that may send moves exactly as many bytes as the FIFO
  holds (at least one) or the queue has, in order, and the statistics count them.
\<close>

theorem transmit_fills_fifo:
  assumes "ring_inv s" "i_has_buf s" "i_has_tty s" "i_x_char s = 0" "0 < i_xmit_cnt s"
    and "\<not> t_stopped (i_t s)" "may_kick s"
    and "n = nat (min (max 1 (i_xmit_fifo_size s)) (i_xmit_cnt s))"
    and "t = snd (run_state mxser_transmit_chars s)"
  shows "uart_bytes (i_base s) (ihist t) = uart_bytes (i_base s) (ihist s) @ take n (tx_queue s) \<and>
    tx_queue t = drop n (tx_queue s) \<and> g_txcnt t = g_txcnt s + of_nat n"
proof -
  define u where "u = snd (run_state (tx_loop (i_xmit_fifo_size s)) s)"
  have dr: "drained n s u"
    using tx_loop_effect [OF assms(1,5)] by (simp add: u_def assms(8))
  have "t = snd (run_state (do { count_tx (i_xmit_cnt s - i_xmit_cnt u); signal_txlow }) u)"
    using assms by (simp add: mxser_transmit_chars_def case_prod_beta u_def)
  with dr show ?thesis
    by (simp add: count_tx_def signal_txlow_def drained_def)
qed

lemma transmit_fills_fifo_witness:
  "tx_queue (snd (run_state mxser_transmit_chars (port_example\<lparr>i_xmit_cnt := 2, i_xmit_head := 2\<rparr>))) = []"
  using transmit_fills_fifo [OF _ _ _ _ _ _ _ refl refl, of "port_example\<lparr>i_xmit_cnt := 2, i_xmit_head := 2\<rparr>"]
  by (simp add: port_example_def ring_inv_def may_kick_def)

end
