(* ===== verification/Mxser_Irq.thy ===== *)
theory Mxser_Irq
  imports Mxser_Tx "HOL-Library.Sublist"
begin

text \<open>
  The receive side and the interrupt handler of the serial driver (\<open>modules/mxser/mxser.c\<close>):
  stopping and restarting reception, the receive routine with its two paths (good-data mode
  of the MUST chips and the character-at-a-time loop of ordinary UARTs), modem status changes,
  the deferred work and \<open>mxser_interrupt\<close> over the ports of a board.

  The two loops the handler bounds by \<open>MXSER_ISR_PASS_LIMIT\<close> are recursions on the number of
  passes left, so the model returns for every environment, as the code does.
\<close>

section \<open>Stopping and restarting reception\<close>

text \<open>On an ordinary UART the driver sends the XON/XOFF character itself.\<close>

definition send_xchar :: "(ktermios \<Rightarrow> u8) \<Rightarrow> unit mx_m" where
  "send_xchar c = do {
     fl \<leftarrow> gets i_flags;
     whenM (fl AND ASYNC_CLOSING = 0) (do {
       modify (\<lambda>s. s\<lparr>i_x_char := ucast (c (t_termios (i_t s)))\<rparr>);
       port_out 0 UART_IER;
       set_IER (\<lambda>x. x OR UART_IER_THRI);
       out_IER }) }"

definition set_rts_line :: "(u32 \<Rightarrow> u32) \<Rightarrow> unit mx_m" where
  "set_rts_line f = do {
     deref_tty;
     t \<leftarrow> gets (\<lambda>s. t_termios (i_t s));
     whenM (c_cflag t AND CRTSCTS \<noteq> 0) (do { set_MCR f; out_MCR }) }"

definition mxser_stoprx :: "unit mx_m" where
  "mxser_stoprx = do {
     modify (\<lambda>s. s\<lparr>i_ldisc_stop_rx := 1\<rparr>);
     s \<leftarrow> gets id;
     whenM (c_iflag (t_termios (i_t s)) AND IXOFF \<noteq> 0)
       (if i_IsMoxaMustChipFlag s \<noteq> 0 then do {
          set_IER (\<lambda>x. x AND NOT MOXA_MUST_RECV_ISR);
          out_IER }
        else send_xchar c_stop);
     set_rts_line (\<lambda>x. x AND NOT UART_MCR_RTS) }"

definition mxser_startrx :: "unit mx_m" where
  "mxser_startrx = do {
     modify (\<lambda>s. s\<lparr>i_ldisc_stop_rx := 0\<rparr>);
     s \<leftarrow> gets id;
     whenM (c_iflag (t_termios (i_t s)) AND IXOFF \<noteq> 0)
       (if i_x_char s \<noteq> 0 then modify (\<lambda>s. s\<lparr>i_x_char := 0\<rparr>)
        else if i_IsMoxaMustChipFlag s \<noteq> 0 then do {
          set_IER (\<lambda>x. x OR MOXA_MUST_RECV_ISR);
          out_IER }
        else send_xchar c_start);
     set_rts_line (\<lambda>x. x OR UART_MCR_RTS) }"

definition mxser_throttle :: "unit mx_m" where
  "mxser_throttle = mxser_stoprx"

definition mxser_unthrottle :: "unit mx_m" where
  "mxser_unthrottle = mxser_startrx"

section \<open>Receiving\<close>

abbreviation "TTY_NORMAL \<equiv> 0 :: int"
abbreviation "TTY_BREAK \<equiv> 1 :: int"
abbreviation "TTY_FRAME \<equiv> 2 :: int"
abbreviation "TTY_PARITY \<equiv> 3 :: int"
abbreviation "TTY_OVERRUN \<equiv> 4 :: int"

definition tty_insert_flip_char :: "u8 \<Rightarrow> int \<Rightarrow> unit mx_m" where
  "tty_insert_flip_char ch flag = knote ''tty_insert_flip_char'' [uint ch, flag]"

definition upd_icount :: "(async_icount \<Rightarrow> async_icount) \<Rightarrow> unit mx_m" where
  "upd_icount f = modify (\<lambda>s. s\<lparr>i_icount := f (i_icount s)\<rparr>)"

text \<open>The good-data path: as many characters as the chip announces.\<close>

fun rx_good :: "nat \<Rightarrow> unit mx_m" where
  "rx_good 0 = ret ()"
| "rx_good (Suc n) = do {
     ch \<leftarrow> port_in UART_RX;
     tty_insert_flip_char ch TTY_NORMAL;
     rx_good n }"

text \<open>The flag of a received character, with the error counters.\<close>

definition rx_flag :: "u32 \<Rightarrow> int mx_m" where
  "rx_flag status =
    (if status AND UART_LSR_SPECIAL \<noteq> 0 then
       (if status AND UART_LSR_BI \<noteq> 0 then do {
          upd_icount (\<lambda>c. c\<lparr>ic_brk := ic_brk c + 1\<rparr>);
          fl \<leftarrow> gets i_flags;
          whenM (fl AND ASYNC_SAK \<noteq> 0) (knote ''do_SAK'' []);
          ret TTY_BREAK }
        else if status AND UART_LSR_PE \<noteq> 0 then do {
          upd_icount (\<lambda>c. c\<lparr>ic_parity := ic_parity c + 1\<rparr>); ret TTY_PARITY }
        else if status AND UART_LSR_FE \<noteq> 0 then do {
          upd_icount (\<lambda>c. c\<lparr>ic_frame := ic_frame c + 1\<rparr>); ret TTY_FRAME }
        else if status AND UART_LSR_OE \<noteq> 0 then do {
          upd_icount (\<lambda>c. c\<lparr>ic_overrun := ic_overrun c + 1\<rparr>); ret TTY_OVERRUN }
        else ret TTY_BREAK)
     else ret 0)"

text \<open>
  The character-at-a-time loop.  The first argument counts the passes the C variable \<open>max\<close>
  still admits; the result is the status and the number of characters delivered.
\<close>

fun rx_old :: "nat \<Rightarrow> u32 \<Rightarrow> int \<Rightarrow> int \<Rightarrow> (u32 \<times> int) mx_m" where
  "rx_old 0 status ignored cnt = ret (status, cnt)"
| "rx_old (Suc n) status ignored cnt = do {
     ch \<leftarrow> port_in UART_RX;
     s \<leftarrow> gets id;
     whenM (i_IsMoxaMustChipFlag s \<noteq> 0 \<and> status AND UART_LSR_OE \<noteq> 0) (port_out 0x23 UART_FCR);
     let status = status AND i_read_status_mask s;
     let skip = (status AND i_ignore_status_mask s \<noteq> 0);
     if skip \<and> ignored + 1 > 100 then ret (status, cnt)
     else do {
       whenM (\<not> skip) (do { fl \<leftarrow> rx_flag status; tty_insert_flip_char ch fl });
       let cnt = (if skip then cnt else cnt + 1);
       let ignored = (if skip then ignored + 1 else ignored);
       if i_IsMoxaMustChipFlag s \<noteq> 0 then ret (status, cnt)
       else do {
         lsr \<leftarrow> port_in UART_LSR;
         if ucast lsr AND UART_LSR_DR \<noteq> 0 then rx_old n (ucast lsr) ignored cnt
         else ret (ucast lsr, cnt) } } }"

definition count_rx :: "int \<Rightarrow> unit mx_m" where
  "count_rx n = modify (\<lambda>s. s\<lparr>g_rxcnt := g_rxcnt s + word_of_int n,
     i_mon_data := (i_mon_data s)\<lparr>mon_rxcnt := mon_rxcnt (i_mon_data s) + word_of_int n,
       mon_up_rxcnt := mon_up_rxcnt (i_mon_data s) + word_of_int n\<rparr>\<rparr>)"

definition push_received :: "unit mx_m" where
  "push_received = do {
     irq1 \<leftarrow> kcall ''in_interrupt'' [];
     backup \<leftarrow> gets (\<lambda>s. t_low_latency (i_t s));
     whenM (irq1 \<noteq> 0) (set_t (\<lambda>t. t\<lparr>t_low_latency := 0\<rparr>));
     knote ''tty_flip_buffer_push'' [];
     irq2 \<leftarrow> kcall ''in_interrupt'' [];
     whenM (irq2 \<noteq> 0) (set_t (\<lambda>t. t\<lparr>t_low_latency := backup\<rparr>)) }"

definition rx_good_data :: "mxport \<Rightarrow> u32 \<Rightarrow> bool" where
  "rx_good_data s status \<longleftrightarrow> i_IsMoxaMustChipFlag s \<noteq> MOXA_OTHER_UART \<and>
     status AND UART_LSR_SPECIAL = 0 \<and> status AND MOXA_MUST_LSR_RERR = 0"

text \<open>The characters of one call (status and number delivered), then what follows them.\<close>

definition rx_chars :: "u32 \<Rightarrow> (u32 \<times> int) mx_m" where
  "rx_chars status = do {
     s \<leftarrow> gets id;
     if rx_good_data s status then do {
       gdl \<leftarrow> port_in MOXA_MUST_GDL_REGISTER;
       let gdl = (if i_IsMoxaMustChipFlag s = MOXA_MUST_MU150_HWID then gdl AND 0x7F else gdl);
       rx_good (unat gdl);
       ret (status, uint gdl) }
     else rx_old 257 status 0 0 }"

definition rx_tail :: "unit mx_m" where
  "rx_tail = do {
     deref_tty;
     room \<leftarrow> gets (\<lambda>s. t_receive_room (i_t s));
     whenM (room < 128 * 2) (do {
       set_t (\<lambda>t. t\<lparr>t_flags := set_bit TTY_THROTTLED (t_flags t)\<rparr>);
       mxser_stoprx });
     push_received }"

definition mxser_receive_chars :: "u32 \<Rightarrow> u32 mx_m" where
  "mxser_receive_chars status = do {
     (status, cnt) \<leftarrow> rx_chars status;
     count_rx cnt;
     rx_tail;
     ret status }"

section \<open>Modem status\<close>

definition mxser_get_msr :: "bool \<Rightarrow> u8 mx_m" where
  "mxser_get_msr mode = do {
     status \<leftarrow> port_in UART_MSR;
     modify (\<lambda>s. s\<lparr>g_msr := g_msr s AND 0x0F OR status\<rparr>);
     status \<leftarrow> gets g_msr;
     whenM mode (modify (\<lambda>s. s\<lparr>g_msr := 0\<rparr>));
     ret status }"

text \<open>The effect of the CTS line on the transmitter, also used when the line settings change.\<close>

definition cts_change :: "u32 \<Rightarrow> unit mx_m" where
  "cts_change status = do {
     deref_tty;
     s \<leftarrow> gets id;
     let plain = (i_type s \<noteq> PORT_16550A \<and> i_IsMoxaMustChipFlag s = 0);
     if t_hw_stopped (i_t s) then
       whenM (status AND UART_MSR_CTS \<noteq> 0) (do {
         set_t (\<lambda>t. t\<lparr>t_hw_stopped := False\<rparr>);
         whenM plain kick_thri;
         set_event MXSER_EVENT_TXLOW;
         MXQ_TASK })
     else
       whenM (status AND UART_MSR_CTS = 0) (do {
         set_t (\<lambda>t. t\<lparr>t_hw_stopped := True\<rparr>);
         whenM plain stop_thri }) }"

definition count_modem :: "u32 \<Rightarrow> unit mx_m" where
  "count_modem status = do {
     whenM (status AND UART_MSR_TERI \<noteq> 0) (upd_icount (\<lambda>c. c\<lparr>ic_rng := ic_rng c + 1\<rparr>));
     whenM (status AND UART_MSR_DDSR \<noteq> 0) (upd_icount (\<lambda>c. c\<lparr>ic_dsr := ic_dsr c + 1\<rparr>));
     whenM (status AND UART_MSR_DDCD \<noteq> 0) (upd_icount (\<lambda>c. c\<lparr>ic_dcd := ic_dcd c + 1\<rparr>));
     whenM (status AND UART_MSR_DCTS \<noteq> 0) (upd_icount (\<lambda>c. c\<lparr>ic_cts := ic_cts c + 1\<rparr>)) }"

definition carrier_change :: "u32 \<Rightarrow> unit mx_m" where
  "carrier_change status = do {
     s \<leftarrow> gets id;
     whenM (i_flags s AND ASYNC_CHECK_CD \<noteq> 0 \<and> status AND UART_MSR_DDCD \<noteq> 0) (do {
       (if status AND UART_MSR_DCD \<noteq> 0 then knote ''wake_up_interruptible(open_wait)'' []
        else whenM (\<not> (i_flags s AND ASYNC_CALLOUT_ACTIVE \<noteq> 0 \<and> i_flags s AND ASYNC_CALLOUT_NOHUP \<noteq> 0))
          (set_event MXSER_EVENT_HANGUP));
       MXQ_TASK }) }"

definition mxser_check_modem_status :: "u32 \<Rightarrow> unit mx_m" where
  "mxser_check_modem_status status = do {
     count_modem status;
     modify (\<lambda>s. s\<lparr>i_mon_data := (i_mon_data s)\<lparr>mon_modem_status := status\<rparr>\<rparr>);
     knote ''wake_up_interruptible(delta_msr_wait)'' [];
     carrier_change status;
     flags \<leftarrow> gets i_flags;
     whenM (flags AND ASYNC_CTS_FLOW \<noteq> 0) (cts_change status) }"

definition mxser_do_softint :: "unit mx_m" where
  "mxser_do_softint = do {
     ev \<leftarrow> gets i_event;
     modify (\<lambda>s. s\<lparr>i_event := unset_bit MXSER_EVENT_TXLOW (i_event s)\<rparr>);
     whenM (bit ev MXSER_EVENT_TXLOW) (knote ''tty_wakeup'' []);
     ev \<leftarrow> gets i_event;
     modify (\<lambda>s. s\<lparr>i_event := unset_bit MXSER_EVENT_HANGUP (i_event s)\<rparr>);
     whenM (bit ev MXSER_EVENT_HANGUP) (knote ''tty_hangup'' []) }"

section \<open>The interrupt handler\<close>

abbreviation "MXSER_ISR_PASS_LIMIT \<equiv> 99999 :: nat"
abbreviation "MXSER_PORTS_PER_BOARD \<equiv> 8 :: nat"
abbreviation "MXSER_BOARDS \<equiv> 4 :: nat"

definition shadow_errors :: "u8 \<Rightarrow> unit mx_m" where
  "shadow_errors status = modify (\<lambda>s. s\<lparr>i_err_shadow := i_err_shadow s
     OR (if bit status 2 then NPPI_NOTIFY_PARITY else 0)
     OR (if bit status 3 then NPPI_NOTIFY_FRAMING else 0)
     OR (if bit status 1 then NPPI_NOTIFY_HW_OVERRUN else 0)
     OR (if bit status 4 then NPPI_NOTIFY_BREAK else 0)\<rparr>)"

text \<open>One pass over a port: the result says whether the port asked for service.\<close>

definition isr_pass :: "bool mx_m" where
  "isr_pass = do {
     iir \<leftarrow> port_in UART_IIR;
     if iir AND UART_IIR_NO_INT \<noteq> 0 then ret False
     else do {
       let iir = iir AND MOXA_MUST_IIR_MASK;
       s \<leftarrow> gets id;
       if \<not> i_has_tty s then do {
         _ \<leftarrow> port_in UART_LSR;
         port_out 0x27 UART_FCR;
         _ \<leftarrow> port_in UART_MSR;
         ret False }
       else do {
         lsr \<leftarrow> port_in UART_LSR;
         shadow_errors lsr;
         status \<leftarrow>
           (if i_IsMoxaMustChipFlag s \<noteq> 0 then
              (if iir \<in> {MOXA_MUST_IIR_GDA, MOXA_MUST_IIR_RDA, MOXA_MUST_IIR_RTO, MOXA_MUST_IIR_LSR}
               then mxser_receive_chars (ucast lsr) else ret (ucast lsr))
            else do {
              let status = ucast lsr AND i_read_status_mask s;
              if status AND UART_LSR_DR \<noteq> 0 then mxser_receive_chars status else ret status });
         msr \<leftarrow> port_in UART_MSR;
         whenM (ucast msr AND UART_MSR_ANY_DELTA \<noteq> 0) (mxser_check_modem_status (ucast msr));
         whenM ((if i_IsMoxaMustChipFlag s \<noteq> 0 then iir = 0x02 else True) \<and> status AND UART_LSR_THRE \<noteq> 0)
           mxser_transmit_chars;
         ret True } } }"

fun isr_port :: "nat \<Rightarrow> unit mx_m" where
  "isr_port 0 = do { _ \<leftarrow> isr_pass; ret () }"
| "isr_port (Suc n) = do { again \<leftarrow> isr_pass; if again then isr_port n else ret () }"


subsection \<open>The driver: all ports, all boards\<close>

definition mxser_numports :: "int list" where
  "mxser_numports = [8, 4, 4, 8, 4, 2, 2, 4, 2, 4, 4, 2, 4, 8, 2, 4, 4, 8, 8, 2, 2, 8, 8, 4,
     8, 4, 4, 8, 4, 4, 2, 2]"

record mxser_hwconf =
  hw_board_type :: int
  hw_ports :: nat
  hw_irq :: int
  hw_vector :: port
  hw_vector_mask :: u32
  hw_uart_type :: int
  hw_ioaddr :: "port list"
  hw_baud_base :: "int list"
  hw_IsMoxaMustChipFlag :: int
  hw_MaxCanSetBaudRate :: "int list"
  hw_opmode_ioaddr :: "port list"
  hw_busNum :: int
  hw_devNum :: int
  hw_pdev :: int

text \<open>
  The rest of the driver's global data: the module parameters, the slots of \<open>GMStatus\<close> and of
  \<open>mon_data_ext\<close>, and the kernel's \<open>tty_std_termios\<close>.  The slots of \<open>mxvar_log\<close>, \<open>mxser_msr\<close>
  and \<open>mxser_set_baud_method\<close> are the \<open>g_...\<close> fields of the ports.
\<close>

record mxser_mstatus =
  ms_cflag :: u32
  ms_cts :: int
  ms_dsr :: int
  ms_ri :: int
  ms_dcd :: int

record mxser_mon_ext =
  mx_rx_cnt :: "64 word"
  mx_tx_cnt :: "64 word"
  mx_up_rxcnt :: "64 word"
  mx_up_txcnt :: "64 word"
  mx_modem_status :: u32
  mx_baudrate :: int
  mx_databits :: u32
  mx_stopbits :: u32
  mx_parity :: u32
  mx_flowctrl :: u32
  mx_fifo :: int
  mx_iftype :: u8

record mxdrv = io +
  d_ports :: "mxport list"
  d_cfg :: "mxser_hwconf list"
  d_ioaddr :: "port list"
  d_ttymajor :: int
  d_calloutmajor :: int
  d_std_termios :: ktermios
  d_GMStatus :: "mxser_mstatus list"
  d_mon_ext :: "mxser_mon_ext list"

type_synonym 'a drv_m = "(mxdrv, 'a) state"

text \<open>
  Run an operation of a port inside the driver state: the port shares the history and the
  environment of the driver.  A port number outside the table is an access past the array.
\<close>

definition on_port :: "nat \<Rightarrow> 'a \<Rightarrow> 'a mx_m \<Rightarrow> 'a drv_m" where
  "on_port n dflt m = State (\<lambda>d.
     if n < length (d_ports d) then
       (let (r, p) = run_state m ((d_ports d ! n)\<lparr>ienv := ienv d, ihist := ihist d\<rparr>)
        in (r, d\<lparr>ihist := ihist p, d_ports := (d_ports d)[n := p]\<rparr>))
     else (dflt, d\<lparr>ihist := Undefined ''mxvar_table index'' # ihist d\<rparr>))"

text \<open>
  The scan over the ports of a board: a clear bit of the interrupt vector is a request; a
  served port's bit is set, and the scan ends early when all bits are.
\<close>

fun isr_scan :: "nat \<Rightarrow> nat \<Rightarrow> nat \<Rightarrow> u32 \<Rightarrow> u32 \<Rightarrow> unit drv_m" where
  "isr_scan first i 0 irqbits bits = ret ()"
| "isr_scan first i (Suc k) irqbits bits = do {
     mask \<leftarrow> gets (\<lambda>d. i_vectormask (d_ports d ! first));
     if irqbits = mask then ret ()
     else do {
       (if bits AND irqbits \<noteq> 0 then ret ()
        else on_port (first + i) () (isr_port MXSER_ISR_PASS_LIMIT));
       isr_scan first (i + 1) k (irqbits OR bits) (push_bit 1 bits) } }"

fun isr_board :: "nat \<Rightarrow> nat \<Rightarrow> nat \<Rightarrow> bool \<Rightarrow> bool drv_m" where
  "isr_board passes first maxp handled = do {
     (vec, mask) \<leftarrow> gets (\<lambda>d. (i_vector (d_ports d ! first), i_vectormask (d_ports d ! first)));
     raw \<leftarrow> inb vec;
     let irqbits = ucast raw AND mask;
     if irqbits = mask then ret handled
     else do {
       isr_scan first 0 maxp irqbits 1;
       (case passes of 0 \<Rightarrow> ret True | Suc p \<Rightarrow> isr_board p first maxp True) } }"

declare isr_board.simps [simp del]

definition mxser_interrupt :: "nat \<Rightarrow> bool drv_m" where
  "mxser_interrupt dev_port = do {
     let board = dev_port div MXSER_PORTS_PER_BOARD;
     if dev_port mod MXSER_PORTS_PER_BOARD \<noteq> 0 \<or> board \<ge> MXSER_BOARDS then ret False
     else do {
       cfg \<leftarrow> gets d_cfg;
       let bt = hw_board_type (cfg ! board);
       if bt < 1 \<or> 32 < bt then do { undefined_c ''mxser_numports index''; ret False }
       else isr_board (Suc MXSER_ISR_PASS_LIMIT) dev_port (nat (mxser_numports ! nat (bt - 1))) False } }"

lemma run_on_port [simp]: "run_state (on_port n x m) d =
  (if n < length (d_ports d) then
     (let (r, p) = run_state m ((d_ports d ! n)\<lparr>ienv := ienv d, ihist := ihist d\<rparr>)
      in (r, d\<lparr>ihist := ihist p, d_ports := (d_ports d)[n := p]\<rparr>))
   else (x, d\<lparr>ihist := Undefined ''mxvar_table index'' # ihist d\<rparr>))"
  by (simp add: on_port_def)


section \<open>What reception delivers\<close>

fun uart_reads :: "port \<Rightarrow> io_event list \<Rightarrow> u8 list" where
  "uart_reads base [] = []"
| "uart_reads base (In_b p v # h) = uart_reads base h @ (if p = base + UART_RX then [v] else [])"
| "uart_reads base (_ # h) = uart_reads base h"

fun delivered :: "io_event list \<Rightarrow> (int \<times> int) list" where
  "delivered [] = []"
| "delivered (Kernel_call f as r # h) =
     delivered h @ (if f = ''tty_insert_flip_char'' then [(as ! 0, as ! 1)] else [])"
| "delivered (_ # h) = delivered h"

text \<open>
  \<open>received xs ds s t\<close>: between \<open>s\<close> and \<open>t\<close> the characters \<open>xs\<close> were read from the receive register
  and \<open>ds\<close> (character and flag) delivered to the tty layer.
\<close>

definition received :: "u8 list \<Rightarrow> (int \<times> int) list \<Rightarrow> mxport \<Rightarrow> mxport \<Rightarrow> bool" where
  "received xs ds s t \<longleftrightarrow> uart_reads (i_base s) (ihist t) = uart_reads (i_base s) (ihist s) @ xs \<and>
     delivered (ihist t) = delivered (ihist s) @ ds \<and> i_base t = i_base s \<and> i_has_tty t = i_has_tty s \<and>
     i_ignore_status_mask t = i_ignore_status_mask s \<and> g_rxcnt t = g_rxcnt s"

lemma received_refl [simp]: "received [] [] s s"
  by (simp add: received_def)

lemma received_trans: "received a x s t \<Longrightarrow> received b y t u \<Longrightarrow> received (a @ b) (x @ y) s u"
  by (simp add: received_def)

lemma rx_good_received:
  "\<exists>xs. length xs = n \<and> received xs (map (\<lambda>c. (uint c, TTY_NORMAL)) xs) s (snd (run_state (rx_good n) s))"
proof (induction n arbitrary: s)
  case 0
  then show ?case by (simp add: received_def)
next
  case (Suc n)
  define v where "v = env_b (ienv s) (ihist s) (i_base s)"
  define s1 where "s1 = snd (run_state (do { ch \<leftarrow> port_in UART_RX; tty_insert_flip_char ch TTY_NORMAL }) s)"
  have "received [v] [(uint v, TTY_NORMAL)] s s1"
    by (simp add: received_def s1_def v_def tty_insert_flip_char_def)
  moreover obtain xs where "length xs = n"
    "received xs (map (\<lambda>c. (uint c, TTY_NORMAL)) xs) s1 (snd (run_state (rx_good n) s1))"
    using Suc.IH by blast
  ultimately have "received (v # xs) (map (\<lambda>c. (uint c, TTY_NORMAL)) (v # xs)) s
      (snd (run_state (rx_good n) s1))"
    using received_trans by fastforce
  moreover have "run_state (rx_good (Suc n)) s = run_state (rx_good n) s1"
    by (simp add: s1_def tty_insert_flip_char_def)
  ultimately show ?case
    using \<open>length xs = n\<close> by (metis length_Cons)
qed

lemma rx_flag_received: "received [] [] s (snd (run_state (rx_flag st) s))"
  by (simp add: rx_flag_def upd_icount_def received_def)

lemma rx_old_received:
  "\<exists>xs ds. length xs \<le> n \<and> subseq (map fst ds) (map uint xs) \<and>
     received xs ds s (snd (run_state (rx_old n st ig c) s)) \<and>
     snd (fst (run_state (rx_old n st ig c) s)) = c + int (length ds) \<and>
     (i_ignore_status_mask s = 0 \<longrightarrow> map fst ds = map uint xs)"
proof (induction n arbitrary: s st ig c)
  case 0
  show ?case by (intro exI [of _ "[]"]) simp
next
  case (Suc n)
  define v where "v = env_b (ienv s) (ihist s) (i_base s)"
  define st' where "st' = st AND i_read_status_mask s"
  define skip where "skip = (st' AND i_ignore_status_mask s \<noteq> 0)"
  define c' where "c' = (if skip then c else c + 1)"
  define ig' where "ig' = (if skip then ig + 1 else ig)"
  define s1 where "s1 = snd (run_state (do { _ \<leftarrow> port_in UART_RX;
     whenM (i_IsMoxaMustChipFlag s \<noteq> 0 \<and> st AND UART_LSR_OE \<noteq> 0) (port_out 0x23 UART_FCR) }) s)"
  define s2 where "s2 = snd (run_state (whenM (\<not> skip) (do { fl \<leftarrow> rx_flag st';
     tty_insert_flip_char v fl })) s1)"
  define s3 where "s3 = snd (run_state (port_in UART_LSR) s2)"
  define lsr where "lsr = fst (run_state (port_in UART_LSR) s2)"
  define ds where "ds = (if skip then [] else [(uint v, fst (run_state (rx_flag st') s1))])"
  have r1: "received [v] [] s s1"
    by (simp add: received_def s1_def v_def)
  have r2: "received [] ds s1 s2"
    using rx_flag_received [of s1 st']
    by (cases skip) (simp_all add: s2_def ds_def received_def tty_insert_flip_char_def case_prod_beta)
  have r3: "received [] [] s2 s3"
    by (simp add: received_def s3_def)
  have r13: "received [v] ds s s3" and r12: "received [v] ds s s2"
    using received_trans [OF received_trans [OF r1 r2] r3] received_trans [OF r1 r2] by simp_all
  have im: "i_ignore_status_mask s3 = i_ignore_status_mask s"
    using r13 by (simp add: received_def)
  have sub: "subseq (map fst ds) (map uint [v])" "length ds = (if skip then 0 else 1)"
    "i_ignore_status_mask s = 0 \<Longrightarrow> map fst ds = map uint [v]" "c' = c + int (length ds)"
    by (simp_all add: ds_def skip_def c'_def)
  have step: "run_state (rx_old (Suc n) st ig c) s =
    (if skip \<and> ig + 1 > 100 then ((st', c), s1)
     else if i_IsMoxaMustChipFlag s \<noteq> 0 then ((st', c'), s2)
     else if ucast lsr AND UART_LSR_DR \<noteq> 0 then run_state (rx_old n (ucast lsr) ig' c') s3
     else ((ucast lsr, c'), s3))"
    by (simp add: s1_def s2_def s3_def lsr_def st'_def skip_def c'_def ig'_def v_def Let_def case_prod_beta)
  consider (stop) "skip \<and> ig + 1 > 100" | (must) "\<not> (skip \<and> ig + 1 > 100)" "i_IsMoxaMustChipFlag s \<noteq> 0"
    | (again) "\<not> (skip \<and> ig + 1 > 100)" "i_IsMoxaMustChipFlag s = 0" "ucast lsr AND UART_LSR_DR \<noteq> 0"
    | (last) "\<not> (skip \<and> ig + 1 > 100)" "i_IsMoxaMustChipFlag s = 0" "ucast lsr AND UART_LSR_DR = 0"
    by blast
  then show ?case
  proof cases
    case stop
    then show ?thesis
      unfolding step using r1 sub by (intro exI [of _ "[v]"] exI [of _ "[]"]) (auto simp: skip_def)
  next
    case must
    then show ?thesis
      unfolding step using r12 sub by (intro exI [of _ "[v]"] exI [of _ ds]) auto
  next
    case last
    then show ?thesis
      unfolding step using r13 sub by (intro exI [of _ "[v]"] exI [of _ ds]) auto
  next
    case again
    obtain xs es where IH: "length xs \<le> n" "subseq (map fst es) (map uint xs)"
      "received xs es s3 (snd (run_state (rx_old n (ucast lsr) ig' c') s3))"
      "snd (fst (run_state (rx_old n (ucast lsr) ig' c') s3)) = c' + int (length es)"
      "i_ignore_status_mask s3 = 0 \<longrightarrow> map fst es = map uint xs"
      using Suc.IH by blast
    have "subseq (map fst (ds @ es)) (map uint (v # xs))"
      using list_emb_append_mono [OF sub(1) IH(2)] by simp
    moreover have "received (v # xs) (ds @ es) s (snd (run_state (rx_old n (ucast lsr) ig' c') s3))"
      using received_trans [OF r13 IH(3)] by simp
    ultimately show ?thesis
      unfolding step using again IH im sub
      by (intro exI [of _ "v # xs"] exI [of _ "ds @ es"]) auto
  qed
qed


lemma received_same:
  "received xs ds s t \<Longrightarrow> ihist u = ihist t \<Longrightarrow> i_base u = i_base t \<Longrightarrow> i_has_tty u = i_has_tty t \<Longrightarrow>
   i_ignore_status_mask u = i_ignore_status_mask t \<Longrightarrow> g_rxcnt u = g_rxcnt t \<Longrightarrow> received xs ds s u"
  by (simp add: received_def)

lemma set_rts_received: "i_has_tty s \<Longrightarrow> received [] [] s (snd (run_state (set_rts_line f) s))"
  by (simp add: set_rts_line_def received_def)

lemma send_xchar_received: "received [] [] s (snd (run_state (send_xchar c) s))"
  by (simp add: send_xchar_def received_def)

lemma stoprx_received:
  assumes "i_has_tty s"
  shows "received [] [] s (snd (run_state mxser_stoprx s))"
proof -
  define u where "u = s\<lparr>i_ldisc_stop_rx := 1\<rparr>"
  define v where "v = snd (run_state (whenM (c_iflag (t_termios (i_t u)) AND IXOFF \<noteq> 0)
    (if i_IsMoxaMustChipFlag u \<noteq> 0 then do { set_IER (\<lambda>x. x AND NOT MOXA_MUST_RECV_ISR); out_IER }
     else send_xchar c_stop)) u)"
  have u: "received [] [] s u"
    by (simp add: u_def received_def)
  have v: "received [] [] u v"
    using send_xchar_received by (cases "i_IsMoxaMustChipFlag u = 0") (simp_all add: v_def received_def)
  have sv: "received [] [] s v"
    using received_trans [OF u v] by simp
  have "received [] [] v (snd (run_state (set_rts_line (\<lambda>x. x AND NOT UART_MCR_RTS)) v))"
    using sv assms by (intro set_rts_received) (simp add: received_def)
  moreover have "run_state mxser_stoprx s = run_state (set_rts_line (\<lambda>x. x AND NOT UART_MCR_RTS)) v"
    by (simp add: mxser_stoprx_def u_def v_def case_prod_beta)
  ultimately show ?thesis
    using received_trans [OF sv] by fastforce
qed

lemma set_t_received: "received [] [] s (snd (run_state (set_t f) s))"
  by (simp add: received_def)

lemma quiet_bind:
  "received [] [] s (snd (run_state m s)) \<Longrightarrow> (\<And>a t. received [] [] t (snd (run_state (f a) t))) \<Longrightarrow>
   received [] [] s (snd (run_state (State_Monad.bind m f) s))"
  using received_trans by (fastforce simp: case_prod_beta)

lemma quiet_whenM:
  "(\<And>t. received [] [] t (snd (run_state m t))) \<Longrightarrow> received [] [] s (snd (run_state (whenM b m) s))"
  by simp

lemma quiet_steps:
  "received [] [] s (snd (run_state (gets g) s))"
  "received [] [] s (snd (run_state (kcall ''in_interrupt'' as) s))"
  "received [] [] s (snd (run_state (knote ''tty_flip_buffer_push'' as) s))"
  by (simp_all add: received_def)

lemma push_received_received: "received [] [] s (snd (run_state push_received s))"
  unfolding push_received_def
  by (intro quiet_bind quiet_whenM quiet_steps set_t_received)

lemma rx_tail_received:
  assumes "i_has_tty s"
  shows "received [] [] s (snd (run_state rx_tail s))"
proof (cases "t_receive_room (i_t s) < 256")
  case True
  define v where "v = snd (run_state (set_t (\<lambda>t. t\<lparr>t_flags := set_bit TTY_THROTTLED (t_flags t)\<rparr>)) s)"
  define u where "u = snd (run_state mxser_stoprx v)"
  have run: "run_state rx_tail s = run_state push_received u"
    using assms True by (simp add: rx_tail_def u_def v_def case_prod_beta)
  have "received [] [] s v"
    unfolding v_def by (rule set_t_received)
  moreover from this have "received [] [] v u"
    unfolding u_def using assms by (intro stoprx_received) (simp add: received_def)
  ultimately show ?thesis
    unfolding run using received_trans [OF received_trans push_received_received] by fastforce
next
  case False
  then show ?thesis
    using assms push_received_received by (simp add: rx_tail_def case_prod_beta)
qed

lemma rx_chars_received:
  "\<exists>xs ds. received xs ds s (snd (run_state (rx_chars st) s)) \<and> length xs \<le> 257 \<and>
    subseq (map fst ds) (map uint xs) \<and> snd (fst (run_state (rx_chars st) s)) = int (length ds) \<and>
    (i_ignore_status_mask s = 0 \<or> rx_good_data s st \<longrightarrow> map fst ds = map uint xs)"
proof (cases "rx_good_data s st")
  case False
  then show ?thesis
    using rx_old_received [of 257 s st 0 0] by (auto simp: rx_chars_def simp del: rx_old.simps)
next
  case True
  define s1 where "s1 = snd (run_state (port_in MOXA_MUST_GDL_REGISTER) s)"
  define g where "g = (let g = fst (run_state (port_in MOXA_MUST_GDL_REGISTER) s) in
    if i_IsMoxaMustChipFlag s = MOXA_MUST_MU150_HWID then g AND 0x7F else g)"
  have run: "run_state (rx_chars st) s = ((st, uint g), snd (run_state (rx_good (unat g)) s1))"
    using True by (simp add: rx_chars_def s1_def g_def Let_def case_prod_beta)
  obtain xs where xs: "length xs = unat g"
    "received xs (map (\<lambda>c. (uint c, TTY_NORMAL)) xs) s1 (snd (run_state (rx_good (unat g)) s1))"
    using rx_good_received by blast
  have "received [] [] s s1"
    by (simp add: s1_def received_def)
  from received_trans [OF this xs(2)] show ?thesis
    unfolding run using xs(1) unsigned_less [of g, where ?'a = nat]
    by (intro exI [of _ xs] exI [of _ "map (\<lambda>c. (uint c, TTY_NORMAL)) xs"]) (simp add: comp_def)
qed

lemma cts_change_hw:
  "i_has_tty u \<Longrightarrow> t_hw_stopped (i_t (snd (run_state (cts_change status) u))) = (status AND UART_MSR_CTS = 0)"
  by (simp add: cts_change_def Let_def)

lemma modem_frames:
  "i_t (snd (run_state (count_modem status) s)) = i_t s"
  "i_has_tty (snd (run_state (count_modem status) s)) = i_has_tty s"
  "i_flags (snd (run_state (count_modem status) s)) = i_flags s"
  "i_t (snd (run_state (carrier_change status) s)) = i_t s"
  "i_has_tty (snd (run_state (carrier_change status) s)) = i_has_tty s"
  "i_flags (snd (run_state (carrier_change status) s)) = i_flags s"
  by (simp_all add: count_modem_def carrier_change_def upd_icount_def case_prod_beta del: io.simps)

section \<open>Properties\<close>

text \<open>
  C16. Reception.  Whatever the UART answers, a call of the receive routine reads at most 257
  characters from it (in good-data mode as many as the chip announced, at most 255), delivers
  to the tty layer a subsequence of them in order, all of them when no status is ignored, and
  counts exactly what it delivered.
\<close>

theorem receive_in_order:
  assumes "i_has_tty s" "t = snd (run_state (mxser_receive_chars status) s)"
  shows "\<exists>xs ds. uart_reads (i_base s) (ihist t) = uart_reads (i_base s) (ihist s) @ xs \<and>
    delivered (ihist t) = delivered (ihist s) @ ds \<and> length xs \<le> 257 \<and>
    subseq (map fst ds) (map uint xs) \<and> g_rxcnt t = g_rxcnt s + of_nat (length ds) \<and>
    (i_ignore_status_mask s = 0 \<or> rx_good_data s status \<longrightarrow> map fst ds = map uint xs)"
proof -
  define u where "u = snd (run_state (rx_chars status) s)"
  define n where "n = snd (fst (run_state (rx_chars status) s))"
  define v where "v = snd (run_state (count_rx n) u)"
  obtain xs ds where r: "received xs ds s u" "length xs \<le> 257" "subseq (map fst ds) (map uint xs)"
    "n = int (length ds)" "i_ignore_status_mask s = 0 \<or> rx_good_data s status \<longrightarrow> map fst ds = map uint xs"
    using rx_chars_received unfolding u_def n_def by blast
  have v: "ihist v = ihist u" "i_base v = i_base u" "i_has_tty v = i_has_tty u"
    "g_rxcnt v = g_rxcnt u + of_nat (length ds)"
    by (simp_all add: v_def count_rx_def r(4))
  have t: "t = snd (run_state rx_tail v)"
    by (simp add: assms(2) mxser_receive_chars_def u_def n_def v_def case_prod_beta)
  have "received [] [] v t"
    unfolding t using r(1) assms(1) v by (intro rx_tail_received) (simp add: received_def)
  with r v show ?thesis
    by (intro exI [of _ xs] exI [of _ ds]) (simp add: received_def)
qed

lemma receive_in_order_witness:
  "\<exists>xs ds. delivered (ihist (snd (run_state (mxser_receive_chars 1) port_example))) = ds \<and>
    length xs \<le> 257 \<and> map fst ds = map uint (xs :: u8 list)"
  using receive_in_order [OF _ refl, of port_example 1] by (simp add: port_example_def)

text \<open>
  Hardware flow control.  After a modem status change on a port with CTS flow control the
  transmitter is held exactly when CTS is down; without flow control it is left as it was.
\<close>

theorem cts_holds_transmitter:
  assumes "i_has_tty s" "t = snd (run_state (mxser_check_modem_status status) s)"
  shows "t_hw_stopped (i_t t) = (if i_flags s AND ASYNC_CTS_FLOW \<noteq> 0 then status AND UART_MSR_CTS = 0
    else t_hw_stopped (i_t s))"
  using assms by (simp add: mxser_check_modem_status_def case_prod_beta cts_change_hw modem_frames)

lemma cts_holds_transmitter_witness:
  "t_hw_stopped (i_t (snd (run_state (mxser_check_modem_status 1)
     (port_example\<lparr>i_flags := ASYNC_CTS_FLOW\<rparr>))))"
  using cts_holds_transmitter [OF _ refl, of "port_example\<lparr>i_flags := ASYNC_CTS_FLOW\<rparr>" 1]
  by (simp add: port_example_def)

text \<open>
  C22. Isolation.  The scan over a board serves only ports whose bit of the interrupt vector is
  clear: the state of every other port of the driver is left as it was.
\<close>

theorem isr_scan_isolates:
  assumes "run_state (isr_scan first i k irqbits (push_bit i 1)) d = ((), e)"
    and "j < first + i \<or> first + i + k \<le> j \<or> bit irqbits (j - first)"
  shows "length (d_ports e) = length (d_ports d) \<and> d_ports e ! j = d_ports d ! j"
  using assms
proof (induction k arbitrary: i irqbits d)
  case 0
  then show ?case by simp
next
  case (Suc k)
  let ?b = "push_bit i 1 :: u32"
  define d1 where "d1 = (if ?b AND irqbits \<noteq> 0 then d
    else snd (run_state (on_port (first + i) () (isr_port MXSER_ISR_PASS_LIMIT)) d))"
  show ?case
  proof (cases "irqbits = i_vectormask (d_ports d ! first)")
    case True
    with Suc.prems(1) show ?thesis by simp
  next
    case False
    have run: "run_state (isr_scan first (Suc i) k (irqbits OR ?b) (push_bit (Suc i) 1)) d1 = ((), e)"
      using Suc.prems(1) False by (simp add: d1_def case_prod_beta Let_def mult.commute split: if_splits)
    have "j \<noteq> first + i \<or> ?b AND irqbits \<noteq> 0"
    proof (cases "j = first + i")
      case True
      with Suc.prems(2) have "bit irqbits i"
        by simp
      then have "bit (?b AND irqbits) i"
        using bit_imp_le_length [of irqbits i] by (simp add: bit_simps)
      then show ?thesis
        by auto
    qed simp
    then have d1: "length (d_ports d1) = length (d_ports d) \<and> d_ports d1 ! j = d_ports d ! j"
      by (auto simp: d1_def Let_def case_prod_beta)
    have "j < first + Suc i \<or> first + Suc i + k \<le> j \<or> bit (irqbits OR ?b) (j - first)"
      using Suc.prems(2) by (auto simp: bit_simps)
    from Suc.IH [OF run this] d1 show ?thesis
      by simp
  qed
qed

end
