(* ===== verification/Mxser_Config.thy ===== *)
theory Mxser_Config
  imports Mxser_Irq "HOL-Library.Signed_Division"
begin

text \<open>
  The life of a port and its line settings (\<open>modules/mxser/mxser.c\<close>): opening, starting up,
  shutting down, closing and hanging up a port, programming the baud rate and the line
  format, and waiting for the transmitter.

  The three waiting loops of the driver (\<open>mxser_wait_until_sent\<close>, the drain in \<open>mxser_close\<close>, the
  carrier wait in \<open>mxser_block_til_ready\<close>) end only when the hardware, a signal or the clock
  lets them; they take the number of rounds they may run, and say when it was not enough.
\<close>

section \<open>Baud rate\<close>

definition mxvar_baud_table :: "int list" where
  "mxvar_baud_table = [0, 50, 75, 110, 134, 150, 200, 300, 600, 1200, 1800, 2400, 4800,
     9600, 19200, 38400, 57600, 115200, 230400, 460800, 921600, 0]"

definition must_m :: "(port \<Rightarrow> 'a mx_m) \<Rightarrow> 'a mx_m" where
  "must_m f = do { b \<leftarrow> gets i_base; f b }"

text \<open>The divisor of a requested speed; an unlisted speed is divided out of \<open>info->speed\<close>.\<close>

definition baud_quot :: "int \<Rightarrow> int mx_m" where
  "baud_quot newspd = do {
     s \<leftarrow> gets id;
     if newspd \<notin> set mxvar_baud_table then do {
       whenM (i_speed s = 0) (undefined_c ''division by zero'');
       ret (if i_speed s \<le> 0 \<or> i_speed s > i_MaxCanSetBaudRate s then 0
            else i_baud_base s sdiv i_speed s) }
     else if newspd = 134 then do {
       modify (\<lambda>s. s\<lparr>i_speed := 134\<rparr>);
       ret ((2 * i_baud_base s) sdiv 269) }
     else if newspd \<noteq> 0 then
       (let quot = i_baud_base s sdiv newspd in ret (if quot = 0 then 1 else quot))
     else ret 0 }"

text \<open>The fraction of the divisor in eighths, rounded to the nearest.\<close>

definition baud_fraction :: "int \<Rightarrow> int \<Rightarrow> int" where
  "baud_fraction baud_base speed =
    (let quot = (baud_base smod speed) * 8 in
     if quot smod speed > speed sdiv 2 then quot sdiv speed + 1 else quot sdiv speed)"

definition fifo_timeout :: "int \<Rightarrow> int \<Rightarrow> int \<Rightarrow> int" where
  "fifo_timeout xmit_fifo_size quot baud_base =
     sint ((word_of_int (xmit_fifo_size * HZ * 10 * quot) :: u32) div word_of_int baud_base) + HZ sdiv 50"

text \<open>The divisor latch, between a save and a restore of LCR, then the fraction register.\<close>

definition latch_divisor :: "int \<Rightarrow> int \<Rightarrow> unit mx_m" where
  "latch_divisor quot frac = do {
     cval \<leftarrow> port_in UART_LCR;
     port_out (cval OR UART_LCR_DLAB) UART_LCR;
     port_out (word_of_int (take_bit 8 quot)) UART_DLL;
     port_out (word_of_int (drop_bit 8 quot)) UART_DLM;
     port_out cval UART_LCR;
     must_m (\<lambda>b. SET_MOXA_MUST_ENUM_VALUE b (word_of_int frac)) }"

definition mxser_set_baud :: "int \<Rightarrow> int mx_m" where
  "mxser_set_baud newspd = do {
     s \<leftarrow> gets id;
     if \<not> i_has_tty s \<or> i_base s = 0 \<or> newspd > i_MaxCanSetBaudRate s then ret 0
     else do {
       modify (\<lambda>s. s\<lparr>i_realbaud := newspd\<rparr>);
       quot \<leftarrow> baud_quot newspd;
       whenM (i_baud_base s = 0) (undefined_c ''division by zero'');
       modify (\<lambda>s. s\<lparr>i_timeout := fifo_timeout (i_xmit_fifo_size s) quot (i_baud_base s)\<rparr>);
       if quot = 0 then do {
         set_MCR (\<lambda>x. x AND NOT UART_MCR_DTR);
         out_MCR;
         ret 0 }
       else do {
         set_MCR (\<lambda>x. x OR UART_MCR_DTR);
         out_MCR;
         s \<leftarrow> gets id;
         latch_divisor quot (if newspd \<notin> set mxvar_baud_table
           then baud_fraction (i_baud_base s) (i_speed s) else 0);
         ret 0 } } }"

text \<open>
  The speed a termios setting asks for: \<open>None\<close> keeps \<open>info->speed\<close> (B4000000), otherwise the
  speed is stored and programmed.
\<close>

definition termios_baud :: "u32 \<Rightarrow> u32 \<Rightarrow> int \<Rightarrow> int option" where
  "termios_baud cflag flags custom =
    (let b = cflag AND CBAUD_CBAUDEX; spd = flags AND ASYNC_SPD_MASK in
     if b = 0x100F then None
     else if b = 0x1007 then Some 921600
     else if b = 0x1004 then Some 460800
     else if b = 0x1003 then Some 230400
     else if b = 0x1002 then Some 115200
     else if b = 0x1001 then Some 57600
     else if b = 0xF then
       (if spd = ASYNC_SPD_HI then Some 57600
        else if spd = ASYNC_SPD_VHI then Some 115200
        else if spd = ASYNC_SPD_SHI then Some 230400
        else if spd = ASYNC_SPD_WARP then Some 460800
        else if spd = ASYNC_SPD_CUST then Some custom
        else Some 38400)
     else if b = 0xE then Some 19200
     else if b = 0xD then Some 9600
     else if b = 0xC then Some 4800
     else if b = 0xB then Some 2400
     else if b = 0xA then Some 1800
     else if b = 0x9 then Some 1200
     else if b = 0x8 then Some 600
     else if b = 0x7 then Some 300
     else if b = 0x6 then Some 200
     else if b = 0x5 then Some 150
     else if b = 0x4 then Some 134
     else if b = 0x3 then Some 110
     else if b = 0x2 then Some 75
     else if b = 0x1 then Some 50
     else Some 0)"

section \<open>Line settings\<close>

definition lcr_of_cflag :: "u32 \<Rightarrow> u8" where
  "lcr_of_cflag cflag =
    (let size = cflag AND CSIZE in
     (if size = 0x10 then 0x01 else if size = 0x20 then 0x02 else if size = 0x30 then 0x03 else 0x00)
     OR (if cflag AND CSTOPB \<noteq> 0 then 0x04 else 0)
     OR (if cflag AND PARENB \<noteq> 0 then UART_LCR_PARITY else 0)
     OR (if cflag AND PARODD = 0 then UART_LCR_EPAR else 0)
     OR (if cflag AND CMSPAR \<noteq> 0 then UART_LCR_SPAR else 0))"

definition set_must_fifo :: "unit mx_m" where
  "set_must_fifo = do {
     s \<leftarrow> gets id;
     SET_MOXA_MUST_FIFO_VALUE (i_base s) (word_of_int (i_rx_high_water s))
       (word_of_int (i_rx_trigger s)) (word_of_int (i_rx_low_water s)) }"

definition fifo_control :: "u8 mx_m" where
  "fifo_control = do {
     s \<leftarrow> gets id;
     if i_IsMoxaMustChipFlag s \<noteq> 0 then do {
       set_must_fifo;
       ret (UART_FCR_ENABLE_FIFO OR MOXA_MUST_FCR_GDA_MODE_ENABLE) }
     else if i_type s = PORT_8250 \<or> i_type s = PORT_16450 then ret 0
     else ret (UART_FCR_ENABLE_FIFO OR
       (if i_rx_trigger s = 1 then UART_FCR_TRIGGER_1
        else if i_rx_trigger s = 4 then UART_FCR_TRIGGER_4
        else if i_rx_trigger s = 8 then UART_FCR_TRIGGER_8
        else UART_FCR_TRIGGER_14)) }"

definition flow_control_setup :: "u32 \<Rightarrow> unit mx_m" where
  "flow_control_setup cflag = do {
     set_IER (\<lambda>x. x AND NOT UART_IER_MSI);
     set_MCR (\<lambda>x. x AND NOT UART_MCR_AFE);
     s \<leftarrow> gets id;
     (if cflag AND CRTSCTS \<noteq> 0 then do {
        modify (\<lambda>s. s\<lparr>i_flags := i_flags s OR ASYNC_CTS_FLOW\<rparr>);
        set_IER (\<lambda>x. x OR UART_IER_MSI);
        if i_type s = PORT_16550A \<or> i_IsMoxaMustChipFlag s \<noteq> 0
        then set_MCR (\<lambda>x. x OR UART_MCR_AFE)
        else do { status \<leftarrow> port_in UART_MSR; cts_change (ucast status) } }
      else modify (\<lambda>s. s\<lparr>i_flags := i_flags s AND NOT ASYNC_CTS_FLOW\<rparr>));
     out_MCR;
     (if cflag AND CLOCAL \<noteq> 0
      then modify (\<lambda>s. s\<lparr>i_flags := i_flags s AND NOT ASYNC_CHECK_CD\<rparr>)
      else do {
        modify (\<lambda>s. s\<lparr>i_flags := i_flags s OR ASYNC_CHECK_CD\<rparr>);
        set_IER (\<lambda>x. x OR UART_IER_MSI) });
     out_IER }"

definition status_masks :: "u32 \<Rightarrow> u32 \<times> u32" where
  "status_masks iflag =
    (let rd = (UART_LSR_OE OR UART_LSR_THRE OR UART_LSR_DR)
          OR (if iflag AND INPCK \<noteq> 0 then UART_LSR_FE OR UART_LSR_PE else 0)
          OR (if iflag AND BRKINT \<noteq> 0 \<or> iflag AND PARMRK \<noteq> 0 then UART_LSR_BI else 0);
         errs = UART_LSR_OE OR UART_LSR_PE OR UART_LSR_FE in
     if iflag AND IGNBRK \<noteq> 0 then
       (if iflag AND IGNPAR \<noteq> 0
        then (rd OR UART_LSR_BI OR errs, UART_LSR_BI OR errs)
        else (rd OR UART_LSR_BI, UART_LSR_BI))
     else (rd, 0))"

definition must_flow_setup :: "unit mx_m" where
  "must_flow_setup = do {
     t \<leftarrow> gets (\<lambda>s. t_termios (i_t s));
     must_m (\<lambda>b. SET_MOXA_MUST_XON1_VALUE b (c_start t));
     must_m (\<lambda>b. SET_MOXA_MUST_XOFF1_VALUE b (c_stop t));
     (if c_iflag t AND IXON \<noteq> 0 then must_m ENABLE_MOXA_MUST_RX_SOFTWARE_FLOW_CONTROL
      else must_m DISABLE_MOXA_MUST_RX_SOFTWARE_FLOW_CONTROL);
     (if c_iflag t AND IXOFF \<noteq> 0 then must_m ENABLE_MOXA_MUST_TX_SOFTWARE_FLOW_CONTROL
      else must_m DISABLE_MOXA_MUST_TX_SOFTWARE_FLOW_CONTROL) }"

definition set_termios_speed :: "u32 \<Rightarrow> unit mx_m" where
  "set_termios_speed cflag = do {
     s \<leftarrow> gets id;
     (case termios_baud cflag (i_flags s) (i_custom_baud_rate s) of
        None \<Rightarrow> do { _ \<leftarrow> mxser_set_baud (i_speed s); ret () }
      | Some baud \<Rightarrow> do {
          modify (\<lambda>s. s\<lparr>i_speed := baud\<rparr>);
          _ \<leftarrow> mxser_set_baud baud;
          ret () }) }"

definition mxser_change_speed :: "int mx_m" where
  "mxser_change_speed = do {
     s \<leftarrow> gets id;
     if \<not> i_has_tty s \<or> i_base s = 0 then ret 0
     else do {
       let cflag = c_cflag (t_termios (i_t s));
       let iflag = c_iflag (t_termios (i_t s));
       whenM (g_set_baud_method s = 0) (set_termios_speed cflag);
       fcr \<leftarrow> fifo_control;
       flow_control_setup cflag;
       modify (\<lambda>s. s\<lparr>i_read_status_mask := fst (status_masks iflag),
         i_ignore_status_mask := snd (status_masks iflag)\<rparr>);
       whenM (i_IsMoxaMustChipFlag s \<noteq> 0) must_flow_setup;
       port_out fcr UART_FCR;
       port_out (lcr_of_cflag cflag) UART_LCR;
       ret 0 } }"

definition relevant_iflag :: "u32 \<Rightarrow> u32" where
  "relevant_iflag iflag =
     iflag AND (IGNBRK OR BRKINT OR IGNPAR OR PARMRK OR INPCK OR IXON OR IXOFF)"

definition mxser_set_termios :: "ktermios \<Rightarrow> unit mx_m" where
  "mxser_set_termios old = do {
     new \<leftarrow> gets (\<lambda>s. t_termios (i_t s));
     whenM (c_cflag new \<noteq> c_cflag old \<or> relevant_iflag (c_iflag new) \<noteq> relevant_iflag (c_iflag old)) (do {
       _ \<leftarrow> mxser_change_speed;
       whenM (c_cflag old AND CRTSCTS \<noteq> 0 \<and> c_cflag new AND CRTSCTS = 0) (do {
         set_t (\<lambda>t. t\<lparr>t_hw_stopped := False\<rparr>);
         mxser_start }) });
     whenM (c_iflag old AND IXON \<noteq> 0 \<and> c_iflag new AND IXON = 0) (do {
       set_t (\<lambda>t. t\<lparr>t_stopped := False\<rparr>);
       must \<leftarrow> gets i_IsMoxaMustChipFlag;
       whenM (must \<noteq> 0) (must_m DISABLE_MOXA_MUST_RX_SOFTWARE_FLOW_CONTROL);
       mxser_start }) }"


section \<open>FIFO parameters\<close>

text \<open>\<open>Gpci_uart_info\<close>: type, xmit_fifo_size, rx_high_water, rx_trigger, rx_low_water, max_baud.\<close>

definition Gpci_uart_info :: "(int \<times> int \<times> int \<times> int \<times> int \<times> int) list" where
  "Gpci_uart_info = [
     (MOXA_OTHER_UART, 16, 14, 14, 1, 921600),
     (MOXA_MUST_MU150_HWID, 64, 48, 48, 16, 230400),
     (MOXA_MUST_MU860_HWID, 128, 96, 96, 32, 921600)]"

definition uart_info :: "int \<Rightarrow> (int \<times> int \<times> int \<times> int \<times> int) option" where
  "uart_info must = map_of Gpci_uart_info must"

definition process_txrx_fifo :: "unit mx_m" where
  "process_txrx_fifo = modify (\<lambda>s.
     if i_type s = PORT_16450 \<or> i_type s = PORT_8250 then
       s\<lparr>i_rx_trigger := 1, i_rx_high_water := 1, i_rx_low_water := 1, i_xmit_fifo_size := 1\<rparr>
     else (case uart_info (i_IsMoxaMustChipFlag s) of
        None \<Rightarrow> s
      | Some (xfifo, high, trigger, low, _) \<Rightarrow>
          s\<lparr>i_rx_trigger := trigger, i_rx_low_water := low, i_rx_high_water := high,
            i_xmit_fifo_size := xfifo\<rparr>))"

section \<open>Waiting and breaks\<close>

definition jiffies :: "(64 word) mx_m" where
  "jiffies = do { j \<leftarrow> kcall ''jiffies'' []; ret (word_of_int j) }"

definition time_after :: "64 word \<Rightarrow> 64 word \<Rightarrow> bool" where
  "time_after a b \<longleftrightarrow> sint (b - a) < 0"

text \<open>The result says whether the wait ended within the given number of rounds.\<close>

fun wait_temt :: "nat \<Rightarrow> int \<Rightarrow> 64 word \<Rightarrow> 64 word \<Rightarrow> bool mx_m" where
  "wait_temt 0 timeout char_time orig = ret False"
| "wait_temt (Suc n) timeout char_time orig = do {
     lsr \<leftarrow> port_in UART_LSR;
     if ucast lsr AND UART_LSR_TEMT \<noteq> 0 then ret True
     else do {
       knote ''schedule_timeout'' [uint char_time];
       sig \<leftarrow> kcall ''signal_pending'' [];
       if sig \<noteq> 0 then ret True
       else if timeout > 0 then do {
         now \<leftarrow> jiffies;
         if time_after now (orig + word_of_int timeout) then ret True
         else wait_temt n timeout char_time orig }
       else wait_temt n timeout char_time orig } }"

definition mxser_wait_until_sent :: "nat \<Rightarrow> int \<Rightarrow> bool mx_m" where
  "mxser_wait_until_sent rounds timeout = do {
     s \<leftarrow> gets id;
     if i_type s = PORT_UNKNOWN \<or> i_xmit_fifo_size s = 0 then ret True
     else do {
       orig \<leftarrow> jiffies;
       let char_time = (word_of_int ((i_timeout s - HZ sdiv 50) sdiv i_xmit_fifo_size s) :: 64 word) div 5;
       let char_time = (if char_time = 0 then 1 else char_time);
       let char_time = (if timeout > 0 \<and> word_of_int timeout < char_time then word_of_int timeout else char_time);
       let timeout = (if timeout = 0 \<or> timeout > 2 * i_timeout s then 2 * i_timeout s else timeout);
       wait_temt rounds timeout char_time orig } }"

definition mxser_rs_break :: "int \<Rightarrow> int mx_m" where
  "mxser_rs_break break_state = do {
     lcr \<leftarrow> port_in UART_LCR;
     port_out (if break_state = -1 then lcr OR UART_LCR_SBC else lcr AND NOT UART_LCR_SBC) UART_LCR;
     ret 0 }"

definition mxser_send_break :: "int \<Rightarrow> unit mx_m" where
  "mxser_send_break duration = do {
     b \<leftarrow> gets i_base;
     if b = 0 then ret ()
     else do {
       lcr \<leftarrow> port_in UART_LCR;
       port_out (lcr OR UART_LCR_SBC) UART_LCR;
       knote ''schedule_timeout'' [duration];
       lcr \<leftarrow> port_in UART_LCR;
       port_out (lcr AND NOT UART_LCR_SBC) UART_LCR } }"

section \<open>Startup and shutdown\<close>

definition clear_pending :: "unit mx_m" where
  "clear_pending = do {
     _ \<leftarrow> port_in UART_LSR;
     _ \<leftarrow> port_in UART_RX;
     _ \<leftarrow> port_in UART_IIR;
     _ \<leftarrow> port_in UART_MSR;
     ret () }"

definition set_io_error :: "unit mx_m" where
  "set_io_error = do {
     b \<leftarrow> gets i_has_tty;
     whenM b (set_t (\<lambda>t. t\<lparr>t_flags := set_bit TTY_IO_ERROR (t_flags t)\<rparr>)) }"

definition clear_io_error :: "unit mx_m" where
  "clear_io_error = do {
     b \<leftarrow> gets i_has_tty;
     whenM b (set_t (\<lambda>t. t\<lparr>t_flags := unset_bit TTY_IO_ERROR (t_flags t)\<rparr>)) }"

definition clear_fifos :: "unit mx_m" where
  "clear_fifos = do {
     must \<leftarrow> gets i_IsMoxaMustChipFlag;
     port_out (UART_FCR_CLEAR_RCVR OR UART_FCR_CLEAR_XMIT
       OR (if must \<noteq> 0 then MOXA_MUST_FCR_GDA_MODE_ENABLE else 0)) UART_FCR }"

definition program_uart :: "unit mx_m" where
  "program_uart = do {
     clear_pending;
     port_out UART_LCR_WLEN8 UART_LCR;
     set_MCR (\<lambda>_. UART_MCR_DTR OR UART_MCR_RTS);
     out_MCR;
     must \<leftarrow> gets i_IsMoxaMustChipFlag;
     set_IER (\<lambda>_. (UART_IER_MSI OR UART_IER_RLSI OR UART_IER_RDI)
       OR (if must \<noteq> 0 then MOXA_MUST_IER_EGDAI else 0));
     out_IER;
     clear_pending;
     clear_io_error;
     clear_ring;
     modify (\<lambda>s. s\<lparr>i_flags := i_flags s OR ASYNC_INITIALIZED\<rparr>) }"

text \<open>A fresh page becomes the transmit page unless the port has one, when it is given back.\<close>

definition use_page :: "int \<Rightarrow> unit mx_m" where
  "use_page page = do {
     hb \<leftarrow> gets i_has_buf;
     if hb then knote ''free_page'' [page] else modify (\<lambda>s. s\<lparr>i_has_buf := True\<rparr>) }"

definition release_page :: "unit mx_m" where
  "release_page = do {
     hb \<leftarrow> gets i_has_buf;
     whenM hb (do { knote ''free_page'' []; modify (\<lambda>s. s\<lparr>i_has_buf := False\<rparr>) }) }"

definition mxser_startup :: "int mx_m" where
  "mxser_startup = do {
     page \<leftarrow> kcall ''__get_free_page'' [];
     if page = 0 then ret (-ENOMEM)
     else do {
       s \<leftarrow> gets id;
       if i_flags s AND ASYNC_INITIALIZED \<noteq> 0 then do { knote ''free_page'' [page]; ret 0 }
       else if i_base s = 0 \<or> i_type s = 0 then do {
         set_io_error; knote ''free_page'' [page]; ret 0 }
       else do {
         use_page page;
         clear_fifos;
         lsr \<leftarrow> port_in UART_LSR;
         if lsr = 0xff then do {
           cap \<leftarrow> kcall ''capable(CAP_SYS_ADMIN)'' [];
           if cap \<noteq> 0 then do { set_io_error; ret 0 } else ret (-ENODEV) }
         else do { program_uart; ret 0 } } } }"

definition mxser_shutdown :: "unit mx_m" where
  "mxser_shutdown = do {
     s \<leftarrow> gets id;
     whenM (i_flags s AND ASYNC_INITIALIZED \<noteq> 0) (do {
       knote ''wake_up_interruptible(delta_msr_wait)'' [];
       release_page;
       set_IER (\<lambda>_. 0);
       port_out 0 UART_IER;
       whenM (\<not> i_has_tty s \<or> c_cflag (t_termios (i_t s)) AND HUPCL \<noteq> 0)
         (set_MCR (\<lambda>x. x AND NOT (UART_MCR_DTR OR UART_MCR_RTS)));
       out_MCR;
       clear_fifos;
       _ \<leftarrow> port_in UART_RX;
       set_io_error;
       modify (\<lambda>s. s\<lparr>i_flags := i_flags s AND NOT ASYNC_INITIALIZED\<rparr>);
       whenM (i_IsMoxaMustChipFlag s \<noteq> 0) (must_m SET_MOXA_MUST_NO_SOFTWARE_FLOW_CONTROL) }) }"

section \<open>Open, close, hang up\<close>

definition hung_up :: "bool mx_m" where
  "hung_up = do { r \<leftarrow> kcall ''tty_hung_up_p'' []; ret (r \<noteq> 0) }"

text \<open>\<open>None\<close>: the carrier did not come, nor anything else that ends the wait, within the rounds given.\<close>

fun wait_carrier :: "nat \<Rightarrow> bool \<Rightarrow> int option mx_m" where
  "wait_carrier 0 do_clocal = ret None"
| "wait_carrier (Suc n) do_clocal = do {
     fl \<leftarrow> gets i_flags;
     whenM (fl AND ASYNC_CALLOUT_ACTIVE = 0) (do {
       mcr \<leftarrow> port_in UART_MCR;
       port_out (mcr OR ucast (UART_MCR_DTR OR UART_MCR_RTS)) UART_MCR });
     hup \<leftarrow> hung_up;
     if hup \<or> fl AND ASYNC_INITIALIZED = 0 then
       ret (Some (if fl AND ASYNC_HUP_NOTIFY \<noteq> 0 then -EAGAIN else -ERESTARTSYS))
     else do {
       ready \<leftarrow> (if fl AND ASYNC_CALLOUT_ACTIVE = 0 \<and> fl AND ASYNC_CLOSING = 0 then
           (if do_clocal then ret True
            else do { msr \<leftarrow> port_in UART_MSR; ret (ucast msr AND UART_MSR_DCD \<noteq> 0) })
         else ret False);
       if ready then ret (Some 0)
       else do {
         sig \<leftarrow> kcall ''signal_pending'' [];
         if sig \<noteq> 0 then ret (Some (-ERESTARTSYS))
         else do { knote ''schedule'' []; wait_carrier n do_clocal } } } }"

definition mxser_block_til_ready :: "nat \<Rightarrow> bool \<Rightarrow> int option mx_m" where
  "mxser_block_til_ready rounds nonblock = do {
     s \<leftarrow> gets id;
     if nonblock \<or> bit (t_flags (i_t s)) TTY_IO_ERROR then
       (if i_flags s AND ASYNC_CALLOUT_ACTIVE \<noteq> 0 then ret (Some (-EBUSY))
        else do { modify (\<lambda>s. s\<lparr>i_flags := i_flags s OR ASYNC_NORMAL_ACTIVE\<rparr>); ret (Some 0) })
     else do {
       let do_clocal = (if i_flags s AND ASYNC_CALLOUT_ACTIVE \<noteq> 0
           then c_cflag (i_normal_termios s) AND CLOCAL \<noteq> 0
           else c_cflag (t_termios (i_t s)) AND CLOCAL \<noteq> 0);
       hup \<leftarrow> hung_up;
       whenM (\<not> hup) (modify (\<lambda>s. s\<lparr>i_count := i_count s - 1\<rparr>));
       modify (\<lambda>s. s\<lparr>i_blocked_open := i_blocked_open s + 1\<rparr>);
       r \<leftarrow> wait_carrier rounds do_clocal;
       (case r of
          None \<Rightarrow> ret None
        | Some retval \<Rightarrow> do {
            hup \<leftarrow> hung_up;
            whenM (\<not> hup) (modify (\<lambda>s. s\<lparr>i_count := i_count s + 1\<rparr>));
            modify (\<lambda>s. s\<lparr>i_blocked_open := i_blocked_open s - 1\<rparr>);
            whenM (retval = 0) (modify (\<lambda>s. s\<lparr>i_flags := i_flags s OR ASYNC_NORMAL_ACTIVE\<rparr>));
            ret (Some retval) }) } }"

text \<open>
  Opening a line.  Line 32 is the control device, which has no port.  The tty subtype is the
  normal one (the callout devices exist only on old kernels).
\<close>

definition open_port :: "nat \<Rightarrow> bool \<Rightarrow> int option mx_m" where
  "open_port rounds nonblock = do {
     modify (\<lambda>s. s\<lparr>i_has_tty := True, i_count := i_count s + 1\<rparr>);
     retval \<leftarrow> mxser_startup;
     if retval \<noteq> 0 then ret (Some retval)
     else do {
       r \<leftarrow> mxser_block_til_ready rounds nonblock;
       if r \<noteq> Some 0 then ret r
       else do {
         n \<leftarrow> gets i_count;
         whenM (n = 1) (do {
           modify (\<lambda>s. s\<lparr>i_t := (i_t s)\<lparr>t_termios := i_normal_termios s\<rparr>\<rparr>);
           _ \<leftarrow> mxser_change_speed;
           ret () });
         set_t (\<lambda>t. t\<lparr>t_low_latency := 1\<rparr>);
         ret (Some 0) } } }"

abbreviation "MXSER_PORTS \<equiv> 32 :: int"

definition mxser_open :: "nat \<Rightarrow> int \<Rightarrow> bool \<Rightarrow> int option drv_m" where
  "mxser_open rounds line nonblock =
    (if line = MXSER_PORTS then ret (Some 0)
     else do {
       knote ''try_module_get'' [];
       if line < 0 \<or> line > MXSER_PORTS then ret (Some (-ENODEV))
       else do {
         ports \<leftarrow> gets d_ports;
         if i_base (ports ! nat line) = 0 then ret (Some (-ENODEV))
         else on_port (nat line) None (open_port rounds nonblock) } })"

fun drain_temt :: "nat \<Rightarrow> 64 word \<Rightarrow> bool mx_m" where
  "drain_temt 0 timeout = ret False"
| "drain_temt (Suc n) timeout = do {
     lsr \<leftarrow> port_in UART_LSR;
     if ucast lsr AND UART_LSR_TEMT \<noteq> 0 then ret True
     else do {
       knote ''schedule_timeout'' [5];
       now \<leftarrow> jiffies;
       if time_after now timeout then ret True else drain_temt n timeout } }"

text \<open>The part of a close that only the last reference runs.\<close>

definition close_last :: "nat \<Rightarrow> bool mx_m" where
  "close_last rounds = do {
     modify (\<lambda>s. s\<lparr>i_flags := i_flags s OR ASYNC_CLOSING\<rparr>);
     s \<leftarrow> gets id;
     whenM (i_flags s AND ASYNC_NORMAL_ACTIVE \<noteq> 0)
       (modify (\<lambda>s. s\<lparr>i_normal_termios := t_termios (i_t s)\<rparr>));
     set_t (\<lambda>t. t\<lparr>t_closing := True\<rparr>);
     whenM (i_closing_wait s \<noteq> ASYNC_CLOSING_WAIT_NONE) (knote ''tty_wait_until_sent'' [i_closing_wait s]);
     set_IER (\<lambda>x. x AND NOT UART_IER_RLSI);
     whenM (i_IsMoxaMustChipFlag s \<noteq> 0) (set_IER (\<lambda>x. x AND NOT MOXA_MUST_RECV_ISR));
     done_in_time \<leftarrow> (if i_flags s AND ASYNC_INITIALIZED \<noteq> 0 then do {
         out_IER;
         now \<leftarrow> jiffies;
         drain_temt rounds (now + word_of_int HZ) }
       else ret True);
     mxser_shutdown;
     mxser_flush_buffer;
     knote ''tty_ldisc_flush'' [];
     set_t (\<lambda>t. t\<lparr>t_closing := False\<rparr>);
     modify (\<lambda>s. s\<lparr>i_event := 0, i_has_tty := False\<rparr>);
     whenM (i_blocked_open s \<noteq> 0) (do {
       whenM (i_close_delay s \<noteq> 0) (knote ''schedule_timeout'' [i_close_delay s]);
       knote ''wake_up_interruptible(open_wait)'' [] });
     modify (\<lambda>s. s\<lparr>i_flags := i_flags s AND NOT (ASYNC_NORMAL_ACTIVE OR ASYNC_CALLOUT_ACTIVE OR ASYNC_CLOSING)\<rparr>);
     knote ''wake_up_interruptible(close_wait)'' [];
     ret done_in_time }"

definition close_port :: "nat \<Rightarrow> bool mx_m" where
  "close_port rounds = do {
     hup \<leftarrow> hung_up;
     ok \<leftarrow> (if hup then ret True
       else do {
         modify (\<lambda>s. if t_count (i_t s) = 1 \<and> i_count s \<noteq> 1 then s\<lparr>i_count := 1\<rparr> else s);
         modify (\<lambda>s. s\<lparr>i_count := i_count s - 1\<rparr>);
         modify (\<lambda>s. if i_count s < 0 then s\<lparr>i_count := 0\<rparr> else s);
         n \<leftarrow> gets i_count;
         if n \<noteq> 0 then ret True else close_last rounds });
     knote ''module_put'' [];
     ret ok }"

definition mxser_close :: "nat \<Rightarrow> int \<Rightarrow> bool drv_m" where
  "mxser_close rounds line =
    (if line = MXSER_PORTS then ret True else on_port (nat line) True (close_port rounds))"

definition mxser_hangup :: "unit mx_m" where
  "mxser_hangup = do {
     mxser_flush_buffer;
     mxser_shutdown;
     modify (\<lambda>s. s\<lparr>i_event := 0, i_count := 0,
       i_flags := i_flags s AND NOT (ASYNC_NORMAL_ACTIVE OR ASYNC_CALLOUT_ACTIVE), i_has_tty := False\<rparr>);
     knote ''wake_up_interruptible(open_wait)'' [] }"


section \<open>The divisor on the chip\<close>

lemma has_must_frame [simp]:
  "has_must b c (s\<lparr>i_realbaud := x1\<rparr>) = has_must b c s"
  "has_must b c (s\<lparr>i_timeout := x2\<rparr>) = has_must b c s"
  "has_must b c (s\<lparr>i_MCR := x3\<rparr>) = has_must b c s"
  "has_must b c (s\<lparr>i_speed := x4\<rparr>) = has_must b c s"
  by (simp_all add: has_must_def)

lemma ENUM_effect:
  assumes "has_must base c0 s"
  shows "must_state base c0 (snd (run_state (SET_MOXA_MUST_ENUM_VALUE base v) s))
    = (let c = must_state base c0 s in
       c\<lparr>mc_efr := mc_efr c AND NOT MOXA_MUST_EFR_BANK_MASK OR MOXA_MUST_EFR_BANK2,
         mc_bank := (mc_bank c)((2, 4) := v)\<rparr>)"
  using must_set_bank_effect [OF assms, of 2 4 v] unfolding SET_MOXA_MUST_ENUM_VALUE_def bank_codes by simp

lemma dlab_ok:
  assumes "(w :: u8) OR 0x80 \<noteq> 0xBF"
  shows "bit (w OR 0x80) 7"
  by (simp add: bit_simps)

lemma latch_divisor_effect:
  assumes hm: "has_must (i_base s) c0 s" and c: "c = must_state (i_base s) c0 s"
    and lcr: "mc_lcr c OR 0x80 \<noteq> 0xBF" "\<not> bit (mc_lcr c) 7"
  shows "must_state (i_base s) c0 (snd (run_state (latch_divisor quot frac) s)) =
    c\<lparr>mc_div := (mc_div c)(0 := word_of_int (take_bit 8 quot), 1 := word_of_int (drop_bit 8 quot)),
      mc_efr := mc_efr c AND NOT MOXA_MUST_EFR_BANK_MASK OR MOXA_MUST_EFR_BANK2,
      mc_bank := (mc_bank c)((2, 4) := word_of_int frac)\<rparr>"
proof -
  define m where "m = do {
     cval \<leftarrow> port_in UART_LCR;
     port_out (cval OR UART_LCR_DLAB) UART_LCR;
     port_out (word_of_int (take_bit 8 quot)) UART_DLL;
     port_out (word_of_int (drop_bit 8 quot)) UART_DLM;
     port_out cval UART_LCR }"
  define u where "u = snd (run_state m s)"
  have run: "snd (run_state (latch_divisor quot frac) s)
      = snd (run_state (SET_MOXA_MUST_ENUM_VALUE (i_base s) (word_of_int frac)) u)"
    by (simp add: latch_divisor_def m_def u_def must_m_def)
  have read: "env_b (ienv s) (ihist s) (i_base s + 3) = mc_lcr c"
    using has_must_read [OF hm, of "i_base s + 3"] by (simp add: c must_in_def)
  have b7: "bit (mc_lcr c OR 0x80) 7"
    by (simp add: bit_simps)
  have "mc_lcr c \<noteq> 0xBF"
    using lcr(2) by auto
  then have u: "must_state (i_base s) c0 u =
    c\<lparr>mc_div := (mc_div c)(0 := word_of_int (take_bit 8 quot), 1 := word_of_int (drop_bit 8 quot))\<rparr>"
    using lcr b7 by (simp add: u_def m_def read c [symmetric]) (simp add: must_out_def mc_dlab_def)
  have "has_must (i_base s) c0 u"
    using hm by (simp add: u_def m_def)
  then show ?thesis
    unfolding run by (simp only: ENUM_effect u Let_def) simp
qed

text \<open>The fraction is the nearest number of eighths.\<close>

lemma sdiv_nonneg:
  assumes "(0 :: int) \<le> a" "0 < b"
  shows "a sdiv b = a div b" "a smod b = a mod b"
  using assms by (cases "a = 0"; simp add: signed_divide_int_def signed_modulo_int_def)+

lemma baud_fraction_nearest:
  assumes "0 < speed" "0 \<le> base"
  shows "2 * \<bar>8 * base - speed * (8 * (base sdiv speed) + baud_fraction base speed)\<bar> \<le> speed"
    and "0 \<le> baud_fraction base speed" "baud_fraction base speed \<le> 8"
proof -
  define q where "q = base div speed"
  define r where "r = base mod speed"
  define k where "k = (8 * r) div speed"
  define m where "m = (8 * r) mod speed"
  have b: "base = speed * q + r" and r: "0 \<le> r" "r < speed"
    using assms by (simp_all add: q_def r_def)
  have km: "8 * r = speed * k + m" "0 \<le> m" "m < speed"
    using assms by (simp_all add: k_def m_def)
  have sd: "base sdiv speed = q" "base smod speed = r" "(r * 8) smod speed = m" "(r * 8) sdiv speed = k"
    "speed sdiv 2 = speed div 2"
    using assms r by (simp_all add: sdiv_nonneg q_def r_def m_def k_def mult.commute)
  have f: "baud_fraction base speed = (if m > speed div 2 then k + 1 else k)"
    by (simp add: baud_fraction_def sd Let_def)
  have diff: "8 * base - speed * (8 * q + e) = m - speed * (e - k)" for e
    unfolding b using km(1) by (simp add: algebra_simps)
  show "2 * \<bar>8 * base - speed * (8 * (base sdiv speed) + baud_fraction base speed)\<bar> \<le> speed"
    unfolding sd(1) diff f using km(2,3) by (simp split: if_splits) linarith
  have "speed * k < speed * 8"
    using km(1,2) r(2) by linarith
  then have "k < 8"
    using assms(1) by simp
  moreover have "0 \<le> k"
    using assms(1) r(1) by (simp add: k_def pos_imp_zdiv_nonneg_iff)
  ultimately show "0 \<le> baud_fraction base speed" "baud_fraction base speed \<le> 8"
    by (simp_all add: f)
qed


lemma div_less_int:
  assumes "0 < k" "a < n * k"
  shows "a div k < (n :: int)"
proof -
  have "(a div k) * k \<le> a"
    using div_mult_mod_eq [of a k] pos_mod_sign [OF assms(1), of a] by linarith
  then have "(a div k) * k < n * k"
    using assms(2) by linarith
  then show ?thesis
    using assms(1) by simp
qed

lemma divisor_bytes:
  assumes "0 \<le> q" "q < 65536"
  shows "uint (word_of_int (take_bit 8 q) :: u8) + 256 * uint (word_of_int (drop_bit 8 q) :: u8) = q"
proof -
  have "drop_bit 8 q = q div 256" "take_bit 8 q = q mod 256"
    by (simp_all add: drop_bit_eq_div take_bit_eq_mod)
  moreover have "0 \<le> q div 256" "q div 256 < 256"
    using assms by auto
  ultimately show ?thesis
    by (simp add: uint_word_of_int)
qed

lemma baud_quot_unlisted:
  assumes "newspd \<notin> set mxvar_baud_table" "i_speed s = newspd" "0 < newspd"
    "newspd \<le> i_MaxCanSetBaudRate s" "0 \<le> i_baud_base s"
  shows "run_state (baud_quot newspd) s = (i_baud_base s div newspd, s)"
  using assms by (simp add: baud_quot_def sdiv_nonneg)

lemma baud_quot_listed:
  assumes "newspd \<in> set mxvar_baud_table" "newspd \<noteq> 134" "0 < newspd" "newspd \<le> i_baud_base s"
  shows "run_state (baud_quot newspd) s = (i_baud_base s div newspd, s)"
  using assms pos_imp_zdiv_pos_iff [of newspd "i_baud_base s"]
  by (simp add: baud_quot_def sdiv_nonneg Let_def)

lemma set_baud_run:
  assumes "i_has_tty s" "i_base s \<noteq> 0" "newspd \<le> i_MaxCanSetBaudRate s" "0 < i_baud_base s"
    and q: "\<And>u. i_speed u = i_speed s \<Longrightarrow> i_MaxCanSetBaudRate u = i_MaxCanSetBaudRate s \<Longrightarrow>
      i_baud_base u = i_baud_base s \<Longrightarrow> run_state (baud_quot newspd) u = (q, u)" and "q \<noteq> 0"
  shows "\<exists>u. run_state (mxser_set_baud newspd) s = (0, snd (run_state (latch_divisor q
      (if newspd \<notin> set mxvar_baud_table then baud_fraction (i_baud_base s) (i_speed s) else 0)) u)) \<and>
    i_base u = i_base s \<and> ienv u = ienv s \<and>
    ihist u = Out_b (ucast (i_MCR s OR UART_MCR_DTR)) (i_base s + 4) # ihist s"
  using assms by (auto simp: mxser_set_baud_def q case_prod_beta)

section \<open>Properties of the line settings\<close>




text \<open>
  The line format.  The value written to LCR encodes the termios flags bit by bit: word
  length, stop bits, parity enable, parity sense and sticky parity; it never leaves the
  divisor latch open nor sends a break.
\<close>

theorem lcr_encodes_format:
  "(bit (lcr_of_cflag cflag) 0 \<longleftrightarrow> bit cflag 4) \<and> (bit (lcr_of_cflag cflag) 1 \<longleftrightarrow> bit cflag 5) \<and>
   (bit (lcr_of_cflag cflag) 2 \<longleftrightarrow> bit cflag 6) \<and> (bit (lcr_of_cflag cflag) 3 \<longleftrightarrow> bit cflag 8) \<and>
   (bit (lcr_of_cflag cflag) 4 \<longleftrightarrow> \<not> bit cflag 9) \<and> (bit (lcr_of_cflag cflag) 5 \<longleftrightarrow> bit cflag 30) \<and>
   \<not> bit (lcr_of_cflag cflag) 6 \<and> \<not> bit (lcr_of_cflag cflag) 7"
proof -
  have one: "cflag AND push_bit n 1 = 0 \<longleftrightarrow> \<not> bit cflag n" if "n < 32" for n
    using that by (simp add: bit_eq_iff [where ?'a = "32 word"] bit_simps) blast
  have single: "cflag AND 0x40 = 0 \<longleftrightarrow> \<not> bit cflag 6" "cflag AND 0x100 = 0 \<longleftrightarrow> \<not> bit cflag 8"
    "cflag AND 0x200 = 0 \<longleftrightarrow> \<not> bit cflag 9" "cflag AND 0x40000000 = 0 \<longleftrightarrow> \<not> bit cflag 30"
    using one [of 6] one [of 8] one [of 9] one [of 30] by simp_all
  have size: "cflag AND 0x30 = (if bit cflag 4 then 0x10 else 0) OR (if bit cflag 5 then 0x20 else 0)"
  proof (rule bit_word_eqI)
    fix n assume "n < LENGTH(32)"
    have "bit (0x30 :: u32) n = (n = 4 \<or> n = 5)" "bit (0x10 :: u32) n = (n = 4)" "bit (0x20 :: u32) n = (n = 5)"
      using \<open>n < LENGTH(32)\<close> by (auto simp: less_Suc_eq numeral_eq_Suc)
    then show "bit (cflag AND 0x30) n =
      bit ((if bit cflag 4 then 0x10 else 0) OR (if bit cflag 5 then 0x20 else 0) :: u32) n"
      by (auto simp: bit_simps)
  qed
  show ?thesis
    unfolding lcr_of_cflag_def Let_def single size
    by (cases "bit cflag 4"; cases "bit cflag 5"; simp add: bit_simps)
qed




section \<open>The transmit page\<close>

text \<open>
  The page the driver allocates for the ring: \<open>page_balance\<close> counts the pages obtained from the
  kernel, less those given back, less the one the port holds.
\<close>

fun pages_held :: "io_event list \<Rightarrow> int" where
  "pages_held [] = 0"
| "pages_held (Kernel_call f as r # h) = pages_held h +
     (if f = ''__get_free_page'' \<and> r \<noteq> 0 then 1 else if f = ''free_page'' then -1 else 0)"
| "pages_held (_ # h) = pages_held h"

definition page_balance :: "mxport \<Rightarrow> int" where
  "page_balance s = pages_held (ihist s) - (if i_has_buf s then 1 else 0)"

definition shifts :: "int \<Rightarrow> 'a mx_m \<Rightarrow> bool" where
  "shifts d m \<longleftrightarrow> (\<forall>s. page_balance (snd (run_state m s)) = page_balance s + d)"

named_theorems page_rules \<open>effect of the operations on the page balance\<close>

lemma shifts_bind:
  "shifts a m \<Longrightarrow> (\<And>x. shifts b (f x)) \<Longrightarrow> shifts (a + b) (State_Monad.bind m f)"
  by (simp add: shifts_def case_prod_beta)

lemma keeps_bind [page_rules]:
  "shifts 0 m \<Longrightarrow> (\<And>x. shifts b (f x)) \<Longrightarrow> shifts b (State_Monad.bind m f)"
  using shifts_bind [of 0 m b f] by simp

lemma keeps_basic [page_rules]:
  "shifts 0 (ret x)" "shifts 0 (gets g)"
  "shifts 0 m \<Longrightarrow> shifts 0 (whenM b m)"
  "(b \<Longrightarrow> shifts d m1) \<Longrightarrow> (\<not> b \<Longrightarrow> shifts d m2) \<Longrightarrow> shifts d (if b then m1 else m2)"
  "shifts d (h v) \<Longrightarrow> shifts d (Let v h)"
  by (simp_all add: shifts_def)

lemma keeps_prim [page_rules]:
  "shifts 0 (port_in off)" "shifts 0 (port_out v off)"
  "shifts 0 out_IER" "shifts 0 out_MCR" "shifts 0 (set_IER f)"
  "shifts 0 (set_MCR g)" "shifts 0 (set_t h)" "shifts 0 (set_event n)"
  "shifts 0 MXQ_TASK" "shifts 0 clear_ring" "shifts 0 (undefined_c w)"
  "shifts 0 deref_tty" "shifts 0 release_page" "shifts 0 kick_thri" "shifts 0 stop_thri"
  by (simp_all add: shifts_def page_balance_def clear_ring_def deref_tty_def release_page_def)

lemma keeps_io [page_rules]:
  "shifts 0 (inb p :: u8 mx_m)" "shifts 0 (outb v p :: unit mx_m)"
  by (simp_all add: shifts_def page_balance_def)

lemma keeps_call [page_rules]:
  "f \<noteq> ''__get_free_page'' \<Longrightarrow> f \<noteq> ''free_page'' \<Longrightarrow> shifts 0 (kcall f as :: int mx_m)"
  "f \<noteq> ''__get_free_page'' \<Longrightarrow> f \<noteq> ''free_page'' \<Longrightarrow> shifts 0 (knote f as :: unit mx_m)"
  by (simp_all add: shifts_def page_balance_def)

lemma keeps_modify [page_rules]:
  "(\<And>s. ihist (f s) = ihist s) \<Longrightarrow> (\<And>s. i_has_buf (f s) = i_has_buf s) \<Longrightarrow> shifts 0 (modify f :: unit mx_m)"
  by (simp add: shifts_def page_balance_def)

lemma keeps_must [page_rules]:
  "(\<And>b. shifts 0 (f b)) \<Longrightarrow> shifts 0 (must_m f)"
  by (simp add: shifts_def must_m_def)

lemma keeps_enhanced [page_rules]:
  "shifts 0 m \<Longrightarrow> shifts 0 (must_enhanced b m :: 'a mx_m)"
  "shifts 0 (must_efr b g :: unit mx_m)"
  unfolding must_enhanced_def must_efr_def by (intro page_rules; assumption?)+

lemma keeps_option [page_rules]:
  "shifts d n \<Longrightarrow> (\<And>x. shifts d (f x)) \<Longrightarrow> shifts d (case r of None \<Rightarrow> n | Some x \<Rightarrow> f x)"
  by (cases r) simp_all

lemma use_page_shift: "shifts (- 1) (use_page page)"
  by (simp add: shifts_def use_page_def page_balance_def)

lemma free_page_shift: "shifts (- 1) (do { knote ''free_page'' as; ret r } :: 'a mx_m)"
  by (simp add: shifts_def page_balance_def)

lemma must_macros_keep [page_rules]:
  "shifts 0 (SET_MOXA_MUST_NO_SOFTWARE_FLOW_CONTROL b :: unit mx_m)"
  "shifts 0 (DISABLE_MOXA_MUST_RX_SOFTWARE_FLOW_CONTROL b :: unit mx_m)"
  "shifts 0 (ENABLE_MOXA_MUST_RX_SOFTWARE_FLOW_CONTROL b :: unit mx_m)"
  "shifts 0 (DISABLE_MOXA_MUST_TX_SOFTWARE_FLOW_CONTROL b :: unit mx_m)"
  "shifts 0 (ENABLE_MOXA_MUST_TX_SOFTWARE_FLOW_CONTROL b :: unit mx_m)"
  "shifts 0 (SET_MOXA_MUST_XON1_VALUE b v :: unit mx_m)"
  "shifts 0 (SET_MOXA_MUST_XOFF1_VALUE b v :: unit mx_m)"
  "shifts 0 (SET_MOXA_MUST_ENUM_VALUE b v :: unit mx_m)"
  "shifts 0 (SET_MOXA_MUST_FIFO_VALUE b x y z :: unit mx_m)"
  unfolding SET_MOXA_MUST_NO_SOFTWARE_FLOW_CONTROL_def DISABLE_MOXA_MUST_RX_SOFTWARE_FLOW_CONTROL_def
    ENABLE_MOXA_MUST_RX_SOFTWARE_FLOW_CONTROL_def DISABLE_MOXA_MUST_TX_SOFTWARE_FLOW_CONTROL_def
    ENABLE_MOXA_MUST_TX_SOFTWARE_FLOW_CONTROL_def SET_MOXA_MUST_XON1_VALUE_def
    SET_MOXA_MUST_XOFF1_VALUE_def SET_MOXA_MUST_ENUM_VALUE_def SET_MOXA_MUST_FIFO_VALUE_def
    must_set_bank_def
  by (intro page_rules)+

lemma baud_keeps [page_rules]: "shifts 0 (mxser_set_baud n)"
  unfolding mxser_set_baud_def latch_divisor_def baud_quot_def
  by (intro page_rules; simp)

lemma cts_keeps [page_rules]: "shifts 0 (cts_change st)"
  unfolding cts_change_def by (intro page_rules)

lemma change_speed_keeps [page_rules]: "shifts 0 mxser_change_speed"
proof -
  have "shifts 0 (set_termios_speed c)" for c
    unfolding set_termios_speed_def
    by (intro page_rules; simp)
  moreover have "shifts 0 fifo_control" "shifts 0 must_flow_setup"
    unfolding fifo_control_def set_must_fifo_def must_flow_setup_def by (intro page_rules)+
  moreover have "shifts 0 (flow_control_setup c)" for c
    unfolding flow_control_setup_def by (intro page_rules; simp)
  ultimately show ?thesis
    unfolding mxser_change_speed_def by (intro page_rules) simp_all
qed

lemma life_keeps [page_rules]:
  "shifts 0 set_io_error" "shifts 0 clear_io_error" "shifts 0 clear_fifos" "shifts 0 clear_pending"
  "shifts 0 hung_up" "shifts 0 jiffies" "shifts 0 mxser_flush_buffer"
  unfolding set_io_error_def clear_io_error_def clear_fifos_def clear_pending_def hung_up_def
    jiffies_def mxser_flush_buffer_def
  by (intro page_rules; simp)+

lemma program_keeps [page_rules]: "shifts 0 program_uart"
  unfolding program_uart_def by (intro page_rules; simp)

lemma shutdown_keeps [page_rules]: "shifts 0 mxser_shutdown"
  unfolding mxser_shutdown_def by (intro page_rules; simp)

lemma startup_keeps [page_rules]: "shifts 0 mxser_startup"
proof -
  define rest where "rest page = do {
       s \<leftarrow> gets id;
       if i_flags s AND ASYNC_INITIALIZED \<noteq> 0 then do { knote ''free_page'' [page]; ret (0 :: int) }
       else if i_base s = 0 \<or> i_type s = 0 then do {
         set_io_error; knote ''free_page'' [page]; ret 0 }
       else do {
         use_page page;
         clear_fifos;
         lsr \<leftarrow> port_in UART_LSR;
         if lsr = 0xff then do {
           cap \<leftarrow> kcall ''capable(CAP_SYS_ADMIN)'' [];
           if cap \<noteq> 0 then do { set_io_error; ret 0 } else ret (-ENODEV) }
         else do { program_uart; ret 0 } } }" for page
  have use: "shifts (- 1) (State_Monad.bind (use_page page) f)" if "\<And>x. shifts 0 (f x)" for page and f :: "unit \<Rightarrow> int mx_m"
    using shifts_bind [OF use_page_shift that] by simp
  have r: "shifts (- 1) (rest page)" for page
    unfolding rest_def by (intro page_rules use free_page_shift; simp)
  have eq: "mxser_startup = do { page \<leftarrow> kcall ''__get_free_page'' []; if page = 0 then ret (-ENOMEM) else rest page }"
    unfolding mxser_startup_def rest_def ..
  have step: "page_balance (snd (run_state (if p = 0 then ret (-ENOMEM) else rest p) u)) = page_balance s"
    if "u = s\<lparr>ihist := Kernel_call ''__get_free_page'' [] p # ihist s\<rparr>" for s p u
    using r [of p] that by (auto simp: shifts_def) (simp_all add: page_balance_def)
  show ?thesis
    unfolding shifts_def eq using step [OF refl]
    by (simp only: State_Monad.run_state_bind run_kcall prod.case add_0_right simp_thms)
qed

lemma wait_keeps [page_rules]: "shifts 0 (wait_carrier n c)" "shifts 0 (drain_temt n t)"
proof (induction n)
  case 0
  { case 1 show ?case by (simp add: page_rules) next case 2 show ?case by (simp add: page_rules) }
next
  case (Suc n)
  { case 1 show ?case using Suc unfolding wait_carrier.simps by (intro page_rules; simp)
  next case 2 show ?case using Suc unfolding drain_temt.simps by (intro page_rules; simp) }
qed

lemma block_keeps [page_rules]: "shifts 0 (mxser_block_til_ready n nb)"
  unfolding mxser_block_til_ready_def
  by (intro page_rules; simp)

text \<open>
  C21. No page leaks.  Opening a port (blocking or not, failing or not), closing it and hanging
  it up keep the balance of the transmit page: every page the kernel handed out is either
  given back or the one the port holds.
\<close>

theorem no_page_leak:
  "page_balance (snd (run_state (open_port n nb) s)) = page_balance s \<and>
   page_balance (snd (run_state (close_port n) s)) = page_balance s \<and>
   page_balance (snd (run_state mxser_hangup s)) = page_balance s"
proof -
  have "shifts 0 (close_last n)"
    unfolding close_last_def by (intro page_rules; simp)
  then have "shifts 0 (close_port n)"
    unfolding close_port_def by (intro page_rules; simp)
  moreover have "shifts 0 (open_port n nb)"
    unfolding open_port_def by (intro page_rules; simp)
  moreover have "shifts 0 mxser_hangup"
    unfolding mxser_hangup_def by (intro page_rules; simp)
  ultimately show ?thesis
    by (simp add: shifts_def)
qed

end
