(* ===== verification/Mxser_Ioctl.thy ===== *)
theory Mxser_Ioctl
  imports Mxser_Config
begin

text \<open>
  The device controls of the serial driver (\<open>modules/mxser/mxser.c\<close>): \<open>mxser_ioctl\<close> with the serial
  info, modem control, operating mode, special baud rate and monitoring requests, and
  \<open>mxser_ioctl_special\<close>, the requests on the control device over all ports.

  A request carries its argument: the integer itself, or the user memory it points to.  As in
  the code, a failed \<open>access_ok\<close> makes a request return \<open>error\<close>, which is then 0, and a failed
  \<open>get_from_user\<close> leaves 0 in the variable and is not noticed.
\<close>

section \<open>Serial info\<close>

record serial_struct =
  ser_type :: int
  ser_port :: port
  ser_irq :: int
  ser_flags :: u32
  ser_baud_base :: int
  ser_close_delay :: int
  ser_closing_wait :: int
  ser_custom_divisor :: int

abbreviation "ASYNC_LOW_LATENCY \<equiv> 0x2000 :: u32"
abbreviation "TIOCM_DTR \<equiv> 0x002 :: u32"
abbreviation "TIOCM_RTS \<equiv> 0x004 :: u32"
abbreviation "TIOCM_CTS \<equiv> 0x020 :: u32"
abbreviation "TIOCM_CAR \<equiv> 0x040 :: u32"
abbreviation "TIOCM_RNG \<equiv> 0x080 :: u32"
abbreviation "TIOCM_DSR \<equiv> 0x100 :: u32"

definition mxser_get_serial_info :: "'u uarg \<Rightarrow> int mx_m" where
  "mxser_get_serial_info u = do {
     s \<leftarrow> gets id;
     n \<leftarrow> copy_to_user u [i_type s, int (i_port s), int (i_base s), i_irq s, uint (i_flags s),
       i_baud_base s, i_close_delay s, i_closing_wait s, i_custom_divisor s, 0];
     ret (if n \<noteq> 0 then -EFAULT else 0) }"

text \<open>\<open>closing_wait\<close> is an unsigned short: the stored value is reduced modulo 65536.\<close>

definition ser_privileged :: "serial_struct \<Rightarrow> unit mx_m" where
  "ser_privileged new = do {
     modify (\<lambda>s. s\<lparr>i_flags := i_flags s AND NOT ASYNC_FLAGS OR (ser_flags new AND ASYNC_FLAGS),
       i_close_delay := (ser_close_delay new * HZ) sdiv 100,
       i_closing_wait := ((ser_closing_wait new * HZ) sdiv 100) mod 65536\<rparr>);
     deref_tty;
     s \<leftarrow> gets id;
     set_t (\<lambda>t. t\<lparr>t_low_latency := (if i_flags s AND ASYNC_LOW_LATENCY \<noteq> 0 then 1 else 0)\<rparr>);
     whenM (ser_baud_base new \<noteq> i_baud_base s \<or> ser_custom_divisor new \<noteq> i_custom_divisor s) (do {
       whenM (ser_custom_divisor new = 0) (undefined_c ''division by zero'');
       modify (\<lambda>s. s\<lparr>i_custom_baud_rate := ser_baud_base new sdiv ser_custom_divisor new\<rparr>) }) }"

definition ser_apply :: "u32 \<Rightarrow> serial_struct \<Rightarrow> int mx_m" where
  "ser_apply old_spd new = do {
     modify (\<lambda>s. s\<lparr>i_type := ser_type new\<rparr>);
     process_txrx_fifo;
     s \<leftarrow> gets id;
     if i_flags s AND ASYNC_INITIALIZED \<noteq> 0 then do {
       whenM (old_spd \<noteq> i_flags s AND ASYNC_SPD_MASK) (do { _ \<leftarrow> mxser_change_speed; ret () });
       ret 0 }
     else mxser_startup }"

definition mxser_set_serial_info :: "serial_struct uarg \<Rightarrow> int mx_m" where
  "mxser_set_serial_info u = do {
     s \<leftarrow> gets id;
     if i_base s = 0 then ret (-EFAULT)
     else if ua_left u \<noteq> 0 then ret (-EFAULT)
     else do {
       let new = ua_in u;
       if ser_irq new \<noteq> i_irq s \<or> ser_port new \<noteq> i_base s then ret (-EPERM)
       else do {
         cap \<leftarrow> kcall ''capable(CAP_SYS_ADMIN)'' [];
         let old_spd = i_flags s AND ASYNC_SPD_MASK;
         if cap = 0 then
           (if ser_baud_base new \<noteq> i_baud_base s \<or> ser_close_delay new \<noteq> i_close_delay s \<or>
               ser_flags new AND NOT ASYNC_USR_MASK \<noteq> i_flags s AND NOT ASYNC_USR_MASK
            then ret (-EPERM)
            else do {
              modify (\<lambda>s. s\<lparr>i_flags := i_flags s AND NOT ASYNC_USR_MASK OR (ser_flags new AND ASYNC_USR_MASK)\<rparr>);
              ser_apply old_spd new })
         else do {
           ser_privileged new;
           ser_apply old_spd new } } } }"

definition mxser_get_lsr_info :: "'u uarg \<Rightarrow> int mx_m" where
  "mxser_get_lsr_info u = do {
     status \<leftarrow> port_in UART_LSR;
     _ \<leftarrow> put_user u (if ucast status AND UART_LSR_TEMT \<noteq> 0 then 1 else 0);
     ret 0 }"

section \<open>Modem control lines\<close>

definition mxser_tiocmget :: "int mx_m" where
  "mxser_tiocmget = do {
     s \<leftarrow> gets id;
     if bit (t_flags (i_t s)) TTY_IO_ERROR then ret (-EIO)
     else do {
       let control = i_MCR s;
       status \<leftarrow> port_in UART_MSR;
       let status = (ucast status :: u32);
       whenM (status AND UART_MSR_ANY_DELTA \<noteq> 0) (mxser_check_modem_status status);
       ret (uint ((if control AND UART_MCR_RTS \<noteq> 0 then TIOCM_RTS else 0)
         OR (if control AND UART_MCR_DTR \<noteq> 0 then TIOCM_DTR else 0)
         OR (if status AND UART_MSR_DCD \<noteq> 0 then TIOCM_CAR else 0)
         OR (if status AND UART_MSR_RI \<noteq> 0 then TIOCM_RNG else 0)
         OR (if status AND UART_MSR_DSR \<noteq> 0 then TIOCM_DSR else 0)
         OR (if status AND UART_MSR_CTS \<noteq> 0 then TIOCM_CTS else 0))) } }"

definition mxser_tiocmset :: "u32 \<Rightarrow> u32 \<Rightarrow> int mx_m" where
  "mxser_tiocmset to_set to_clear = do {
     s \<leftarrow> gets id;
     if bit (t_flags (i_t s)) TTY_IO_ERROR then ret (-EIO)
     else do {
       whenM (to_set AND TIOCM_RTS \<noteq> 0) (set_MCR (\<lambda>x. x OR UART_MCR_RTS));
       whenM (to_set AND TIOCM_DTR \<noteq> 0) (set_MCR (\<lambda>x. x OR UART_MCR_DTR));
       whenM (to_clear AND TIOCM_RTS \<noteq> 0) (set_MCR (\<lambda>x. x AND NOT UART_MCR_RTS));
       whenM (to_clear AND TIOCM_DTR \<noteq> 0) (set_MCR (\<lambda>x. x AND NOT UART_MCR_DTR));
       out_MCR;
       ret 0 } }"

section \<open>Operating mode\<close>

text \<open>Four ports share a mode register, two bits each.\<close>

definition ModeMask :: "u8 list" where
  "ModeMask = [0xfc, 0xf3, 0xcf, 0x3f]"

definition access_ok :: "('x, int) io_m \<Rightarrow> ('x, int) io_m" where
  "access_ok m = do { ok \<leftarrow> kcall ''access_ok'' []; if ok = 0 then ret 0 else m }"

definition from_user :: "int uarg \<Rightarrow> int" where
  "from_user u = (if ua_left u \<noteq> 0 then 0 else ua_in u)"

definition set_op_mode :: "int uarg \<Rightarrow> int mx_m" where
  "set_op_mode u = access_ok (do {
     s \<leftarrow> gets id;
     let opmode = from_user u;
     if opmode \<noteq> 0 \<and> opmode \<noteq> 1 \<and> opmode \<noteq> 2 \<and> opmode \<noteq> 3 then ret (-EFAULT)
     else do {
       let p = i_port s mod 4;
       val \<leftarrow> inb (i_opmode_ioaddr s);
       outb (val AND ModeMask ! p OR push_bit (p * 2) (word_of_int opmode)) (i_opmode_ioaddr s);
       ret 0 } })"

definition get_op_mode :: "'u uarg \<Rightarrow> int mx_m" where
  "get_op_mode u = access_ok (do {
     s \<leftarrow> gets id;
     val \<leftarrow> inb (i_opmode_ioaddr s);
     n \<leftarrow> copy_to_user u [uint (drop_bit ((i_port s mod 4) * 2) val AND 3)];
     ret (if n \<noteq> 0 then -EFAULT else 0) })"

section \<open>Special baud rates\<close>

definition termios_code :: "int \<Rightarrow> u32" where
  "termios_code speed =
    (if speed = 921600 then 0x1007 else if speed = 460800 then 0x1004
     else if speed = 230400 then 0x1003 else if speed = 115200 then 0x1002
     else if speed = 57600 then 0x1001 else if speed = 38400 then 0xF
     else if speed = 19200 then 0xE else if speed = 9600 then 0xD
     else if speed = 4800 then 0xC else if speed = 2400 then 0xB
     else if speed = 1800 then 0xA else if speed = 1200 then 0x9
     else if speed = 600 then 0x8 else if speed = 300 then 0x7
     else if speed = 200 then 0x6 else if speed = 150 then 0x5
     else if speed = 134 then 0x4 else if speed = 110 then 0x3
     else if speed = 75 then 0x2 else if speed = 50 then 0x1 else 0)"

definition set_special_baud :: "int uarg \<Rightarrow> int mx_m" where
  "set_special_baud u = access_ok (do {
     s \<leftarrow> gets id;
     let speed = from_user u;
     if speed \<le> 0 \<or> speed > i_MaxCanSetBaudRate s then ret (-EFAULT)
     else if \<not> i_has_tty s \<or> i_base s = 0 then ret 0
     else do {
       set_t (\<lambda>t. t\<lparr>t_termios := (t_termios t)\<lparr>c_cflag := c_cflag (t_termios t) AND NOT CBAUD_CBAUDEX
         OR (if speed \<notin> set mxvar_baud_table then 0x100F else termios_code speed)\<rparr>\<rparr>);
       modify (\<lambda>s. s\<lparr>i_speed := speed\<rparr>);
       _ \<leftarrow> mxser_change_speed;
       ret 0 } })"

definition get_special_baud :: "'u uarg \<Rightarrow> int mx_m" where
  "get_special_baud u = access_ok (do {
     v \<leftarrow> gets i_speed;
     n \<leftarrow> copy_to_user u [v];
     ret (if n \<noteq> 0 then -EFAULT else 0) })"

section \<open>Counters and monitoring\<close>

text \<open>
  Waiting for a modem line to change.  \<open>sched\<close> is what the rest of the system does to the port
  while the task sleeps; \<open>None\<close> means that the given number of rounds did not end the wait.
\<close>

definition lines_changed :: "u32 \<Rightarrow> async_icount \<Rightarrow> async_icount \<Rightarrow> bool" where
  "lines_changed arg cprev cnow \<longleftrightarrow>
     (arg AND TIOCM_RNG \<noteq> 0 \<and> ic_rng cnow \<noteq> ic_rng cprev) \<or>
     (arg AND TIOCM_DSR \<noteq> 0 \<and> ic_dsr cnow \<noteq> ic_dsr cprev) \<or>
     (arg AND TIOCM_CAR \<noteq> 0 \<and> ic_dcd cnow \<noteq> ic_dcd cprev) \<or>
     (arg AND TIOCM_CTS \<noteq> 0 \<and> ic_cts cnow \<noteq> ic_cts cprev)"

fun mi_wait :: "unit mx_m \<Rightarrow> nat \<Rightarrow> u32 \<Rightarrow> async_icount \<Rightarrow> int option mx_m" where
  "mi_wait sched 0 arg cprev = ret None"
| "mi_wait sched (Suc n) arg cprev = do {
     sched;
     sig \<leftarrow> kcall ''signal_pending'' [];
     if sig \<noteq> 0 then ret (Some (-ERESTARTSYS))
     else do {
       cnow \<leftarrow> gets i_icount;
       if lines_changed arg cprev cnow then ret (Some 0)
       else mi_wait sched n arg cnow } }"

text \<open>The first seven fields are copied with a check each, the last four without.\<close>

fun put_fields :: "'u uarg \<Rightarrow> u32 list \<Rightarrow> bool mx_m" where
  "put_fields u [] = ret True"
| "put_fields u (v # vs) = do {
     r \<leftarrow> put_user u (uint v);
     if r \<noteq> 0 then ret False else put_fields u vs }"

definition get_icount :: "'u uarg \<Rightarrow> int mx_m" where
  "get_icount u = access_ok (do {
     c \<leftarrow> gets i_icount;
     ok \<leftarrow> put_fields u [ic_frame c, ic_brk c, ic_overrun c, ic_buf_overrun c, ic_parity c, ic_rx c, ic_tx c];
     if \<not> ok then ret (-EFAULT)
     else do {
       _ \<leftarrow> put_user u (uint (ic_cts c));
       _ \<leftarrow> put_user u (uint (ic_dsr c));
       _ \<leftarrow> put_user u (uint (ic_rng c));
       _ \<leftarrow> put_user u (uint (ic_dcd c));
       ret 0 } })"

abbreviation "NPPI_NOTIFY_CTSHOLD \<equiv> 0x01 :: u8"
abbreviation "NPPI_NOTIFY_XOFFHOLD \<equiv> 0x08 :: u8"
abbreviation "NPPI_NOTIFY_XOFFXENT \<equiv> 0x10 :: u8"
abbreviation "MOXA_MUST_MCR_XON_FLAG \<equiv> 0x40 :: u8"
abbreviation "MOXA_MUST_MCR_TX_XON \<equiv> 0x08 :: u8"

definition hold_flag :: "u8 \<Rightarrow> bool \<Rightarrow> unit mx_m" where
  "hold_flag f on = modify (\<lambda>s. s\<lparr>i_mon_data := (i_mon_data s)\<lparr>mon_hold_reason :=
     (if on then mon_hold_reason (i_mon_data s) OR f else mon_hold_reason (i_mon_data s) AND NOT f)\<rparr>\<rparr>)"

definition mon_words :: "mxser_mon \<Rightarrow> int list" where
  "mon_words m = [uint (mon_rxcnt m), uint (mon_txcnt m), uint (mon_up_rxcnt m), uint (mon_up_txcnt m),
     sint (mon_modem_status m), uint (mon_hold_reason m)]"

definition aspp_mon :: "'u uarg \<Rightarrow> int mx_m" where
  "aspp_mon u = access_ok (do {
     status \<leftarrow> mxser_get_msr True;
     mxser_check_modem_status (ucast status);
     mcr \<leftarrow> port_in UART_MCR;
     hold_flag NPPI_NOTIFY_XOFFHOLD (mcr AND MOXA_MUST_MCR_XON_FLAG = 0);
     hold_flag NPPI_NOTIFY_XOFFXENT (mcr AND MOXA_MUST_MCR_TX_XON = 0);
     deref_tty;
     hw \<leftarrow> gets (\<lambda>s. t_hw_stopped (i_t s));
     hold_flag NPPI_NOTIFY_CTSHOLD hw;
     m \<leftarrow> gets i_mon_data;
     n \<leftarrow> copy_to_user u (mon_words m);
     ret (if n \<noteq> 0 then -EFAULT else 0) })"

definition aspp_oqueue :: "'u uarg \<Rightarrow> int mx_m" where
  "aspp_oqueue u = access_ok (do {
     len \<leftarrow> mxser_chars_in_buffer;
     lsr \<leftarrow> port_in UART_LSR;
     n \<leftarrow> copy_to_user u [len + (if ucast lsr AND UART_LSR_THRE \<noteq> 0 then 0 else 1)];
     ret (if n \<noteq> 0 then -EFAULT else 0) })"

definition aspp_lstatus :: "'u uarg \<Rightarrow> int mx_m" where
  "aspp_lstatus u = access_ok (do {
     v \<leftarrow> gets i_err_shadow;
     n \<leftarrow> copy_to_user u [uint v];
     if n \<noteq> 0 then ret (-EFAULT)
     else do { modify (\<lambda>s. s\<lparr>i_err_shadow := 0\<rparr>); ret 0 } })"

section \<open>The dispatcher\<close>

datatype mx_cmd =
    MOXA_SET_OP_MODE "int uarg" | MOXA_GET_OP_MODE "int uarg"
  | MOXA_SET_SPECIAL_BAUD_RATE "int uarg" | MOXA_GET_SPECIAL_BAUD_RATE "int uarg"
  | TCSBRK int | TCSBRKP int
  | TIOCGSOFTCAR "int uarg" | TIOCSSOFTCAR "int uarg"
  | TIOCGSERIAL "int uarg" | TIOCSSERIAL "serial_struct uarg" | TIOCSERGETLSR "int uarg"
  | TIOCMIWAIT u32 | TIOCGICOUNT "int uarg"
  | MOXA_HighSpeedOn "int uarg" | MOXA_SDS_RSTICOUNTER
  | MOXA_ASPP_SETBAUD "int uarg" | MOXA_ASPP_GETBAUD "int uarg" | MOXA_ASPP_OQUEUE "int uarg"
  | MOXA_ASPP_MON "int uarg" | MOXA_ASPP_LSTATUS "int uarg" | MOXA_SET_BAUD_METHOD "int uarg"
  | MX_other

definition some_m :: "int mx_m \<Rightarrow> int option mx_m" where
  "some_m m = do { r \<leftarrow> m; ret (Some r) }"

definition checked_break :: "bool \<Rightarrow> int \<Rightarrow> int mx_m" where
  "checked_break send duration = do {
     retval \<leftarrow> kcall ''tty_check_change'' [];
     if retval \<noteq> 0 then ret retval
     else do {
       knote ''tty_wait_until_sent'' [0];
       whenM send (mxser_send_break duration);
       ret 0 } }"

definition mxser_ioctl_tty :: "unit mx_m \<Rightarrow> nat \<Rightarrow> mx_cmd \<Rightarrow> int option mx_m" where
  "mxser_ioctl_tty sched rounds cmd = (case cmd of
     TCSBRK arg \<Rightarrow> some_m (checked_break (arg = 0) (HZ sdiv 4))
   | TCSBRKP arg \<Rightarrow> some_m (checked_break True (if arg \<noteq> 0 then arg * (HZ sdiv 10) else HZ sdiv 4))
   | TIOCGSOFTCAR u \<Rightarrow> some_m (access_ok (do {
       t \<leftarrow> gets (\<lambda>s. t_termios (i_t s));
       _ \<leftarrow> put_user u (if c_cflag t AND CLOCAL \<noteq> 0 then 1 else 0);
       ret 0 }))
   | TIOCSSOFTCAR u \<Rightarrow> some_m (access_ok (do {
       set_t (\<lambda>t. t\<lparr>t_termios := (t_termios t)\<lparr>c_cflag := c_cflag (t_termios t) AND NOT CLOCAL
         OR (if from_user u \<noteq> 0 then CLOCAL else 0)\<rparr>\<rparr>);
       ret 0 }))
   | TIOCGSERIAL u \<Rightarrow> some_m (access_ok (mxser_get_serial_info u))
   | TIOCSSERIAL u \<Rightarrow> some_m (access_ok (mxser_set_serial_info u))
   | TIOCSERGETLSR u \<Rightarrow> some_m (access_ok (mxser_get_lsr_info u))
   | TIOCMIWAIT arg \<Rightarrow> do { c \<leftarrow> gets i_icount; mi_wait sched rounds arg c }
   | TIOCGICOUNT u \<Rightarrow> some_m (get_icount u)
   | MOXA_HighSpeedOn u \<Rightarrow> some_m (access_ok (do {
       b \<leftarrow> gets i_baud_base;
       _ \<leftarrow> put_user u (if b \<noteq> 115200 then 1 else 0);
       ret 0 }))
   | MOXA_SDS_RSTICOUNTER \<Rightarrow> some_m (do {
       modify (\<lambda>s. s\<lparr>i_mon_data := (i_mon_data s)\<lparr>mon_rxcnt := 0, mon_txcnt := 0\<rparr>\<rparr>);
       ret 0 })
   | MOXA_ASPP_SETBAUD u \<Rightarrow> some_m (access_ok (do { _ \<leftarrow> mxser_set_baud (from_user u); ret 0 }))
   | MOXA_ASPP_GETBAUD u \<Rightarrow> some_m (access_ok (do {
       b \<leftarrow> gets i_realbaud;
       n \<leftarrow> copy_to_user u [b];
       ret (if n \<noteq> 0 then -EFAULT else 0) }))
   | MOXA_ASPP_OQUEUE u \<Rightarrow> some_m (aspp_oqueue u)
   | MOXA_ASPP_MON u \<Rightarrow> some_m (aspp_mon u)
   | MOXA_ASPP_LSTATUS u \<Rightarrow> some_m (aspp_lstatus u)
   | MOXA_SET_BAUD_METHOD u \<Rightarrow> some_m (access_ok (do {
       modify (\<lambda>s. s\<lparr>g_set_baud_method := from_user u\<rparr>);
       n \<leftarrow> copy_to_user u [from_user u];
       ret (if n \<noteq> 0 then -EFAULT else 0) }))
   | _ \<Rightarrow> ret (Some (-ENOIOCTLCMD)))"

definition mxser_ioctl :: "unit mx_m \<Rightarrow> nat \<Rightarrow> mx_cmd \<Rightarrow> int option mx_m" where
  "mxser_ioctl sched rounds cmd = (case cmd of
     MOXA_SET_OP_MODE u \<Rightarrow> some_m (set_op_mode u)
   | MOXA_GET_OP_MODE u \<Rightarrow> some_m (get_op_mode u)
   | MOXA_SET_SPECIAL_BAUD_RATE u \<Rightarrow> some_m (set_special_baud u)
   | MOXA_GET_SPECIAL_BAUD_RATE u \<Rightarrow> some_m (get_special_baud u)
   | _ \<Rightarrow> do {
       t \<leftarrow> gets i_t;
       let exempt = (case cmd of TIOCGSERIAL _ \<Rightarrow> True | TIOCMIWAIT _ \<Rightarrow> True | TIOCGICOUNT _ \<Rightarrow> True | _ \<Rightarrow> False);
       if \<not> exempt \<and> bit (t_flags t) TTY_IO_ERROR then ret (Some (-EIO))
       else mxser_ioctl_tty sched rounds cmd })"

end
