(* ===== verification/Mxser_IoctlProps.thy ===== *)
theory Mxser_IoctlProps
  imports Mxser_Ioctl
begin

text \<open>
  What the device controls of the serial driver guarantee: the operating mode register as a
  bank of two-bit fields, the modem lines, the listed baud rates, and exactly when programming
  a baud rate divides by zero.
\<close>

section \<open>Operating mode\<close>

definition op_field :: "nat \<Rightarrow> u8 \<Rightarrow> u8" where
  "op_field p w = drop_bit (p * 2) w AND 3"

definition op_update :: "nat \<Rightarrow> int \<Rightarrow> u8 \<Rightarrow> u8" where
  "op_update p m w = w AND ModeMask ! p OR push_bit (p * 2) (word_of_int m)"

lemma less4: "p < 4 \<Longrightarrow> p = 0 \<or> p = 1 \<or> p = 2 \<or> p = (3 :: nat)"
  by auto

lemma bits_lt8: "n < 8 \<longleftrightarrow> n = 0 \<or> n = 1 \<or> n = 2 \<or> n = 3 \<or> n = 4 \<or> n = 5 \<or> n = 6 \<or> n = (7 :: nat)"
  by auto

lemma mode_mask_bit: "p < 4 \<Longrightarrow> n < 8 \<Longrightarrow> bit (ModeMask ! p) n \<longleftrightarrow> n div 2 \<noteq> p"
  by (drule less4) (auto simp: ModeMask_def bits_lt8)

lemma small_mode_bit: "0 \<le> m \<Longrightarrow> m \<le> 3 \<Longrightarrow> bit (word_of_int m :: u8) n \<Longrightarrow> n < 2"
proof -
  assume "0 \<le> m" "m \<le> 3" "bit (word_of_int m :: u8) n"
  moreover from this have "m = 0 \<or> m = 1 \<or> m = 2 \<or> m = 3"
    by auto
  ultimately show "n < 2"
    by (auto simp: bit_simps numeral_eq_Suc split: nat.splits) (auto simp: bit_Suc less_Suc_eq)
qed

lemma op_field_update:
  assumes "p < 4" "q < 4" "0 \<le> m" "m \<le> 3"
  shows "op_field q (op_update p m w) = (if q = p then word_of_int m else op_field q w)"
proof (rule bit_word_eqI)
  fix n assume "n < LENGTH(8)"
  have three: "bit (3 :: int) n \<longleftrightarrow> n < 2"
    using bit_mask_iff [of 2 n, where ?'a = int] by (simp add: mask_eq_exp_minus_1)
  have q: "(q * 2 + n) div 2 = q" "q * 2 + n < 8" if "n < 2"
    using that assms(2) by auto
  have sub: "bit (push_bit (p * 2) (word_of_int m :: u8)) (q * 2 + n) \<longleftrightarrow> q = p \<and> bit (word_of_int m :: u8) n"
    if "n < 2"
  proof (cases "q = p")
    case False
    have "q = p" if "p * 2 \<le> q * 2 + n" "q * 2 + n - p * 2 < 2"
      using that \<open>n < 2\<close> by linarith
    with False show ?thesis
      using small_mode_bit [OF assms(3,4), of "q * 2 + n - p * 2"] by (auto simp: bit_push_bit_iff)
  qed (use that assms in \<open>auto simp: bit_push_bit_iff\<close>)
  show "bit (op_field q (op_update p m w)) n = bit (if q = p then word_of_int m else op_field q w) n"
  proof (cases "n < 2")
    case True
    then show ?thesis
      using mode_mask_bit [OF assms(1) q(2)] q sub
      by (simp add: op_field_def op_update_def bit_drop_bit_eq bit_and_iff bit_or_iff three)
  next
    case False
    then show ?thesis
      using small_mode_bit [OF assms(3,4), of n] by (auto simp: op_field_def bit_and_iff three)
  qed
qed


text \<open>
  The mode register of a port group as a register file of two-bit fields: \<open>latch\<close> gives the
  register, the arithmetic above the fields.
\<close>

lemma set_op_mode_run:
  assumes "env_k (ienv s) (ihist s) ''access_ok'' [] \<noteq> 0" "0 \<le> from_user u" "from_user u \<le> 3"
    and "latching d (ienv s)"
  shows "\<exists>t. run_state (set_op_mode u) s = (0, t) \<and> ienv t = ienv s \<and> i_port t = i_port s \<and>
    i_opmode_ioaddr t = i_opmode_ioaddr s \<and>
    last_out d (ihist t) = (last_out d (ihist s))(i_opmode_ioaddr s :=
      op_update (i_port s mod 4) (from_user u) (last_out d (ihist s) (i_opmode_ioaddr s)))"
proof -
  have "from_user u = 0 \<or> from_user u = 1 \<or> from_user u = 2 \<or> from_user u = 3"
    using assms(2,3) by auto
  then show ?thesis
    using assms(1,4)
    by (auto simp: set_op_mode_def access_ok_def op_update_def Let_def latching_def)
qed

lemma get_op_mode_run:
  assumes "env_k (ienv s) (ihist s) ''access_ok'' [] \<noteq> 0" "ua_out v = 0" "latching d (ienv s)"
  shows "\<exists>t. run_state (get_op_mode v) s = (0, t) \<and>
    hd (ihist t) = To_user [uint (op_field (i_port s mod 4) (last_out d (ihist s) (i_opmode_ioaddr s)))]"
  using assms by (simp add: get_op_mode_def access_ok_def op_field_def latching_def)

text \<open>
  C23. The operating mode.  After a port sets a valid mode, reading the mode gives it back on
  that port, and on a port of the same register with another field the mode it had before.
\<close>

theorem op_mode_roundtrip:
  assumes "latching d (ienv s)" "\<And>h. env_k (ienv s) h ''access_ok'' [] \<noteq> 0"
    and "0 \<le> from_user u" "from_user u \<le> 3" "ua_out v = 0"
    and "t = snd (run_state (set_op_mode u) s)" "i_port s' = q" "ienv s' = ienv t" "ihist s' = ihist t"
    and "i_opmode_ioaddr s' = i_opmode_ioaddr s"
  shows "fst (run_state (set_op_mode u) s) = 0 \<and> fst (run_state (get_op_mode v) s') = 0 \<and>
    hd (ihist (snd (run_state (get_op_mode v) s'))) = To_user [if q mod 4 = i_port s mod 4 then from_user u
      else uint (op_field (q mod 4) (last_out d (ihist s) (i_opmode_ioaddr s)))]"
proof -
  obtain t' where t': "run_state (set_op_mode u) s = (0, t')" "ienv t' = ienv s"
    "last_out d (ihist t') = (last_out d (ihist s))(i_opmode_ioaddr s :=
      op_update (i_port s mod 4) (from_user u) (last_out d (ihist s) (i_opmode_ioaddr s)))"
    using set_op_mode_run [OF assms(2) assms(3,4,1)] by blast
  have tt: "t' = t"
    using assms(6) t'(1) by simp
  have env: "ienv s' = ienv s"
    using assms(8) t'(2) tt by simp
  obtain r where r: "run_state (get_op_mode v) s' = (0, r)"
    "hd (ihist r) = To_user [uint (op_field (q mod 4) (last_out d (ihist t) (i_opmode_ioaddr s)))]"
    using get_op_mode_run [of s' v d] assms(1,2,5,7,9,10) env by auto
  have "op_field (q mod 4) (last_out d (ihist t) (i_opmode_ioaddr s)) = (if q mod 4 = i_port s mod 4
      then word_of_int (from_user u) else op_field (q mod 4) (last_out d (ihist s) (i_opmode_ioaddr s)))"
    using t'(3) tt assms(3,4) by (simp add: op_field_update)
  moreover have "uint (word_of_int (from_user u) :: u8) = from_user u"
    using assms(3,4) by (simp add: uint_word_of_int)
  ultimately show ?thesis
    using t'(1) r by simp
qed

definition mode_env :: env where
  "mode_env = (latch_env (\<lambda>_. 0))\<lparr>env_k := (\<lambda>_ _ _. 1)\<rparr>"

lemma op_mode_roundtrip_witness:
  "fst (run_state (set_op_mode \<lparr>ua_left = 0, ua_in = 2, ua_out = 0\<rparr>) (port_example\<lparr>ienv := mode_env\<rparr>)) = 0"
  using op_mode_roundtrip [of "\<lambda>_. 0" "port_example\<lparr>ienv := mode_env\<rparr>" "\<lparr>ua_left = 0, ua_in = 2, ua_out = 0\<rparr>"
      "\<lparr>ua_left = 0, ua_in = 2, ua_out = 0\<rparr>", OF _ _ _ _ _ refl refl,
      of "snd (run_state (set_op_mode \<lparr>ua_left = 0, ua_in = 2, ua_out = 0\<rparr>) (port_example\<lparr>ienv := mode_env\<rparr>))"]
  by (simp add: mode_env_def latching_def latch_env_def from_user_def set_op_mode_def access_ok_def Let_def)

section \<open>Listed baud rates\<close>

text \<open>
  The baud rate codes.  The termios code the special-baud request stores for a listed speed
  is decoded by the line settings to the same speed; for an unlisted speed the code makes them
  keep the stored speed.
\<close>

theorem baud_code_roundtrip:
  assumes "flags AND ASYNC_SPD_MASK = 0" "cflag AND CBAUD_CBAUDEX = 0" "0 < speed"
  shows "termios_baud (cflag OR (if speed \<notin> set mxvar_baud_table then 0x100F else termios_code speed))
      flags custom = (if speed \<notin> set mxvar_baud_table then None else Some speed)"
proof -
  have clr: "(cflag OR x) AND CBAUD_CBAUDEX = x AND CBAUD_CBAUDEX" for x
    using assms(2) by (simp add: bit.conj_disj_distrib2)
  show ?thesis
  proof (cases "speed \<in> set mxvar_baud_table")
    case True
    then show ?thesis
      using assms(1,3) by (auto simp: mxvar_baud_table_def termios_baud_def termios_code_def clr Let_def)
  next
    case False
    then show ?thesis
      by (simp add: termios_baud_def clr Let_def)
  qed
qed

lemma baud_code_roundtrip_witness:
  "termios_baud (0xCB0 OR termios_code 57600) 0 0 = Some 57600"
  using baud_code_roundtrip [of 0 "0xCB0" 57600 0] by (simp add: mxvar_baud_table_def)

section \<open>Division by zero\<close>

text \<open>
  Programming a baud rate.  On a port that is open and whose limit admits the speed, the
  operation divides by zero exactly when the board's base rate is zero, or the speed is not
  in the table and the port's current speed is zero (as after B0): \<open>MOXA_ASPP_SETBAUD\<close> checks
  neither.
\<close>

theorem set_baud_faults:
  assumes "i_has_tty s" "i_base s \<noteq> 0" "newspd \<le> i_MaxCanSetBaudRate s" "defined_run s"
  shows "defined_run (snd (run_state (mxser_set_baud newspd) s)) \<longleftrightarrow>
    \<not> (i_baud_base s = 0 \<or> newspd \<notin> set mxvar_baud_table \<and> i_speed s = 0)"
proof -
  define u where "u = snd (run_state (baud_quot newspd) (s\<lparr>i_realbaud := newspd\<rparr>))"
  define quot where "quot = fst (run_state (baud_quot newspd) (s\<lparr>i_realbaud := newspd\<rparr>))"
  define v where "v = snd (run_state (whenM (i_baud_base s = 0) (undefined_c ''division by zero'')) u)"
  have u: "defined_run u \<longleftrightarrow> \<not> (newspd \<notin> set mxvar_baud_table \<and> i_speed s = 0)"
    using assms(4) by (auto simp: u_def baud_quot_def defined_run_def Let_def)
  have v: "defined_run v \<longleftrightarrow> defined_run u \<and> i_baud_base s \<noteq> 0"
    by (simp add: v_def defined_run_def)
  have rest: "defined_run (snd (run_state (mxser_set_baud newspd) s)) = defined_run v"
    using assms(1-3) 
    by (simp add: mxser_set_baud_def latch_divisor_def must_m_def SET_MOXA_MUST_ENUM_VALUE_def
        must_set_bank_def must_enhanced_def must_efr_def case_prod_beta u_def [symmetric]
        quot_def [symmetric] v_def defined_run_def)
  show ?thesis
    using u v rest by blast
qed

lemma set_baud_faults_witness:
  "\<not> defined_run (snd (run_state (mxser_set_baud 12345) (port_example\<lparr>i_speed := 0\<rparr>)))"
  using set_baud_faults [of "port_example\<lparr>i_speed := 0\<rparr>" 12345]
  by (simp add: port_example_def defined_run_def mxvar_baud_table_def)

section \<open>Modem control\<close>

text \<open>
  Setting modem lines.  The request changes DTR and RTS only, clearing wins over setting,
  the byte written to the chip is the driver's copy, and on a port in error nothing happens.
\<close>

theorem tiocmset_effect:
  assumes "run_state (mxser_tiocmset to_set to_clear) s = (r, t)"
  shows "if bit (t_flags (i_t s)) TTY_IO_ERROR then r = -EIO \<and> t = s
    else r = 0 \<and> ihist t = Out_b (ucast (i_MCR t)) (i_base s + 4) # ihist s \<and>
      (bit (i_MCR t) 1 \<longleftrightarrow> (bit (i_MCR s) 1 \<or> to_set AND TIOCM_RTS \<noteq> 0) \<and> to_clear AND TIOCM_RTS = 0) \<and>
      (bit (i_MCR t) 0 \<longleftrightarrow> (bit (i_MCR s) 0 \<or> to_set AND TIOCM_DTR \<noteq> 0) \<and> to_clear AND TIOCM_DTR = 0) \<and>
      (\<forall>n \<ge> 2. bit (i_MCR t) n = bit (i_MCR s) n)"
proof -
  have b1: "bit (1 :: u32) n \<longleftrightarrow> n = 0" and b2: "bit (2 :: u32) n \<longleftrightarrow> n = 1" for n
    by (auto simp: bit_simps numeral_eq_Suc bit_Suc split: nat.splits)
  show ?thesis
    using assms bit_imp_le_length [of "i_MCR s"]
    by (auto simp: mxser_tiocmset_def b1 b2 bit_simps split: if_splits)
qed

lemma tiocmset_effect_witness:
  "bit (i_MCR (snd (run_state (mxser_tiocmset TIOCM_RTS TIOCM_DTR) port_example))) 1"
  using tiocmset_effect [OF prod.collapse [symmetric], of port_example TIOCM_RTS TIOCM_DTR]
  by (simp add: port_example_def)

end
