(* ===== verification/Mxser_Probe.thy ===== *)
theory Mxser_Probe
  imports Mxser_Ioctl
begin

text \<open>
  Finding and configuring the boards of the serial driver, \<open>modules/mxser/mxser.c\<close>: the serial
  EEPROM of the ISA boards, the configuration of ISA and PCI boards, \<open>mxser_init\<close> and module
  exit, and the requests to the control device that answer for the whole driver.

  The C code fills one local \<open>hwconf\<close> for all boards; it is passed along here in the same way, so
  a field no board sets keeps the value an earlier board left.  The scan of the PCI bus asks the
  kernel for devices until it has none, so the model of that loop has fuel; \<open>pci_scan_ends\<close> says
  how much is enough.
\<close>

section \<open>Detecting the MUST chip\<close>

definition Gmoxa_uart_id :: "int list" where
  "Gmoxa_uart_id = [MOXA_MUST_MU150_HWID, MOXA_MUST_MU860_HWID]"

definition CheckIsMoxaMust :: "port \<Rightarrow> ('x, int) io_m" where
  "CheckIsMoxaMust io = do {
     outb 0 (io + UART_LCR);
     DISABLE_MOXA_MUST_ENCHANCE_MODE io;
     oldmcr \<leftarrow> inb (io + UART_MCR);
     outb 0 (io + UART_MCR);
     SET_MOXA_MUST_XON1_VALUE io 0x11;
     hwid \<leftarrow> inb (io + UART_MCR);
     if hwid \<noteq> 0 then do { outb oldmcr (io + UART_MCR); ret MOXA_OTHER_UART }
     else do {
       hwid \<leftarrow> GET_MOXA_MUST_HARDWARE_ID io;
       ret (if uint hwid \<in> set Gmoxa_uart_id then uint hwid else MOXA_OTHER_UART) } }"

section \<open>The EEPROM of an ISA board\<close>

abbreviation "CHIP_SK \<equiv> 0x01 :: u8"
abbreviation "CHIP_DO \<equiv> 0x02 :: u8"
abbreviation "CHIP_CS \<equiv> 0x04 :: u8"
abbreviation "CHIP_DI \<equiv> 0x08 :: u8"
abbreviation "MXSER_ERR_IRQ \<equiv> -2 :: int"
abbreviation "MXSER_ERR_IRQ_CONFLIT \<equiv> -3 :: int"
abbreviation "MXSER_ERR_VECTOR \<equiv> -4 :: int"

text \<open>The board identifiers with the board type and the number of ports they announce.\<close>

definition isa_boards :: "(int \<times> int \<times> nat) list" where
  "isa_boards = [(1, 1, 8), (2, 2, 4), (0xB, 6, 2), (4, 7, 2), (3, 8, 4), (5, 3, 4)]"

text \<open>The loop over the signature: \<open>M\<close> followed by 1, within four reads.\<close>

fun magic_scan :: "port \<Rightarrow> nat \<Rightarrow> int \<Rightarrow> ('x, int) io_m" where
  "magic_scan port 0 j = ret j"
| "magic_scan port (Suc n) j = do {
     x \<leftarrow> inb (port + 2);
     if x = 0x4D then magic_scan port n 1
     else if j = 1 \<and> x = 1 then ret 2
     else magic_scan port n 0 }"

definition mxser_program_mode :: "port \<Rightarrow> ('x, int) io_m" where
  "mxser_program_mode port = do {
     outb 0 port; outb 0 port; outb 0 port;
     _ \<leftarrow> inb port; _ \<leftarrow> inb port;
     outb 0 port;
     _ \<leftarrow> inb port;
     x \<leftarrow> inb (port + 1);
     let asic = uint (x AND 0x1F);
     if asic \<notin> fst ` set isa_boards then ret (-1)
     else do {
       j \<leftarrow> magic_scan port 4 0;
       ret (if j \<noteq> 2 then -2 else asic) } }"

fun drain_rx :: "port \<Rightarrow> nat \<Rightarrow> ('x, unit) io_m" where
  "drain_rx port 0 = ret ()"
| "drain_rx port (Suc n) = do {
     x \<leftarrow> inb (port + 5);
     if x AND 0x61 = 0x60 then ret ()
     else do {
       whenM (x AND 1 = 1) (do { _ \<leftarrow> inb port; ret () });
       drain_rx port n } }"

definition mxser_normal_mode :: "port \<Rightarrow> ('x, unit) io_m" where
  "mxser_normal_mode port = do {
     outb 0xA5 (port + 1);
     outb 0x80 (port + 3);
     outb 12 (port + 0);
     outb 0 (port + 1);
     outb 0x03 (port + 3);
     outb 0x13 (port + 4);
     drain_rx port 16;
     outb 0 (port + 4) }"

text \<open>The address goes out and the word comes in bit by bit, the highest bit first.\<close>

fun send_addr :: "port \<Rightarrow> nat \<Rightarrow> nat \<Rightarrow> ('x, unit) io_m" where
  "send_addr port k 0 = ret ()"
| "send_addr port k (Suc n) = do {
     outb CHIP_CS port;
     (if bit k n then do {
        outb (CHIP_CS OR CHIP_DO) port;
        outb (CHIP_CS OR CHIP_DO OR CHIP_SK) port }
      else do {
        outb CHIP_CS port;
        outb (CHIP_CS OR CHIP_SK) port });
     send_addr port k n }"

fun recv_bits :: "port \<Rightarrow> nat \<Rightarrow> u16 \<Rightarrow> ('x, u16) io_m" where
  "recv_bits port 0 val = ret val"
| "recv_bits port (Suc n) val = do {
     outb CHIP_CS port;
     outb (CHIP_CS OR CHIP_SK) port;
     x \<leftarrow> inb port;
     recv_bits port n (if x AND CHIP_DI \<noteq> 0 then set_bit n val else val) }"

definition read_word :: "port \<Rightarrow> nat \<Rightarrow> ('x, u16) io_m" where
  "read_word port i = do {
     send_addr port (i AND 0x3F OR 0x180) 9;
     _ \<leftarrow> inb port;
     val \<leftarrow> recv_bits port 16 0;
     outb 0 port;
     ret val }"

fun read_words :: "port \<Rightarrow> nat \<Rightarrow> nat \<Rightarrow> ('x, u16 list) io_m" where
  "read_words port i 0 = ret []"
| "read_words port i (Suc n) = do {
     w \<leftarrow> read_word port i;
     ws \<leftarrow> read_words port (i + 1) n;
     ret (w # ws) }"

definition mxser_read_register :: "port \<Rightarrow> ('x, int \<times> u16 list) io_m" where
  "mxser_read_register port = do {
     asic \<leftarrow> mxser_program_mode port;
     if asic < 0 then ret (asic, [])
     else do {
       regs \<leftarrow> read_words port 0 14;
       mxser_normal_mode port;
       ret (asic, regs) } }"

section \<open>Board configurations\<close>

text \<open>The interrupt number: every port's nibble must be the same.\<close>

definition isa_irq :: "nat \<Rightarrow> u16 list \<Rightarrow> u16 option" where
  "isa_irq ports regs =
    (let irq = regs ! 9 AND 0xF000; irq2 = irq OR drop_bit 4 irq; irq4 = irq2 OR drop_bit 8 irq2 in
     if ports = 2 then (if irq2 \<noteq> regs ! 9 AND 0xFF00 then None else Some irq2)
     else if ports = 4 then (if irq4 \<noteq> regs ! 9 then None else Some irq4)
     else if ports = 8 then (if irq4 \<noteq> regs ! 9 \<or> irq4 \<noteq> regs ! 10 then None else Some irq4)
     else Some 0)"

definition isa_baud :: "u16 list \<Rightarrow> nat \<Rightarrow> int" where
  "isa_baud regs i = (if bit (regs ! 12) (15 - i) then 921600 else 115200)"

definition isa_uart_type :: "port \<Rightarrow> ('x, int) io_m" where
  "isa_uart_type cap = do {
     lcr \<leftarrow> inb (cap + UART_LCR);
     let scratch2 = lcr AND NOT UART_LCR_DLAB;
     outb (scratch2 OR UART_LCR_DLAB) (cap + UART_LCR);
     outb 0 (cap + 2);
     outb scratch2 (cap + UART_LCR);
     outb UART_FCR_ENABLE_FIFO (cap + UART_FCR);
     scratch \<leftarrow> inb (cap + UART_IIR);
     ret (if scratch AND 0xC0 \<noteq> 0 then PORT_16550A else PORT_16450) }"

definition mxser_get_ISA_conf :: "port \<Rightarrow> mxser_hwconf \<Rightarrow> ('x, int \<times> mxser_hwconf) io_m" where
  "mxser_get_ISA_conf cap hw = do {
     let hw = hw\<lparr>hw_IsMoxaMustChipFlag := MOXA_OTHER_UART\<rparr>;
     (asic, regs) \<leftarrow> mxser_read_register cap;
     case map_of isa_boards asic of
       None \<Rightarrow> ret (0, hw)
     | Some (board, ports) \<Rightarrow> do {
         let hw = hw\<lparr>hw_board_type := board, hw_ports := ports\<rparr>;
         (case isa_irq ports regs of
            None \<Rightarrow> ret (MXSER_ERR_IRQ_CONFLIT, hw)
          | Some irq \<Rightarrow>
              if irq = 0 then ret (MXSER_ERR_IRQ, hw)
              else do {
                let hw = hw\<lparr>hw_irq := uint (drop_bit 12 (irq AND 0xF000)),
                  hw_ioaddr := map (\<lambda>i. unat (regs ! (i + 1) AND 0xFFF8)) [0..<8]\<rparr>;
                if regs ! 12 AND 0x80 = 0 then ret (MXSER_ERR_VECTOR, hw)
                else do {
                  let hw = hw\<lparr>hw_vector := unat (regs ! 11),
                    hw_vector_mask := (if asic = 1 then 0x00FF else 0x000F),
                    hw_baud_base := map (isa_baud regs) [0..<8],
                    hw_MaxCanSetBaudRate := map (isa_baud regs) [0..<8]\<rparr>;
                  t \<leftarrow> isa_uart_type cap;
                  let hw = hw\<lparr>hw_uart_type := t\<rparr>;
                  knote ''request_region'' [int (hw_ioaddr hw ! 0), 8 * int ports];
                  knote ''request_region'' [int (hw_vector hw), 1];
                  ret (int ports, hw) } }) } }"

definition pci_resource :: "string \<Rightarrow> int \<Rightarrow> int \<Rightarrow> ('x, nat) io_m" where
  "pci_resource what pdev bar = do { a \<leftarrow> kcall what [pdev, bar]; ret (nat a) }"

definition request_bar :: "int \<Rightarrow> int \<Rightarrow> ('x, port) io_m" where
  "request_bar pdev bar = do {
     addr \<leftarrow> pci_resource ''pci_resource_start'' pdev bar;
     len \<leftarrow> pci_resource ''pci_resource_len'' pdev bar;
     knote ''request_region'' [int addr, int len];
     ret addr }"

definition pci_max_baud :: "int \<Rightarrow> int \<Rightarrow> int \<Rightarrow> int" where
  "pci_max_baud must board_type old = (case uart_info must of
     None \<Rightarrow> old
   | Some (_, _, _, _, max_baud) \<Rightarrow> if board_type = 12 then 921600 else max_baud)"

text \<open>The first \<open>n\<close> entries of a per-port array are set, the others keep their value.\<close>

definition set_first :: "nat \<Rightarrow> (nat \<Rightarrow> 'a) \<Rightarrow> 'a list \<Rightarrow> 'a list" where
  "set_first n f xs = map f [0..<min n (length xs)] @ drop n xs"

definition pci_mask :: "nat \<Rightarrow> u32" where
  "pci_mask ports = fold (\<lambda>i m. m OR push_bit i 1) [0..<ports] 0"

definition mxser_get_PCI_conf :: "int \<Rightarrow> mxser_hwconf \<Rightarrow> ('x, int \<times> mxser_hwconf) io_m" where
  "mxser_get_PCI_conf board_type hw = do {
     let pdev = hw_pdev hw;
     let ports = nat (mxser_numports ! nat (board_type - 1));
     ioaddress \<leftarrow> request_bar pdev 2;
     let hw = hw\<lparr>hw_board_type := board_type, hw_ports := ports,
       hw_ioaddr := set_first ports (\<lambda>i. ioaddress + 8 * i) (hw_ioaddr hw)\<rparr>;
     vec \<leftarrow> request_bar pdev 3;
     irq \<leftarrow> kcall ''pci_irq'' [pdev];
     must \<leftarrow> CheckIsMoxaMust (hw_ioaddr hw ! 0);
     let hw = hw\<lparr>hw_vector := vec, hw_irq := irq, hw_IsMoxaMustChipFlag := must,
       hw_uart_type := PORT_16550A,
       hw_MaxCanSetBaudRate := set_first ports
         (\<lambda>i. pci_max_baud must board_type (hw_MaxCanSetBaudRate hw ! i)) (hw_MaxCanSetBaudRate hw)\<rparr>;
     whenM (must = MOXA_MUST_MU860_HWID) (do { outb 0 (vec + 4); outb 0 (vec + 0x0c) });
     let hw = (if must = MOXA_MUST_MU860_HWID
       then hw\<lparr>hw_opmode_ioaddr := set_first ports (\<lambda>i. if i < 4 then vec + 4 else vec + 0x0c)
         (hw_opmode_ioaddr hw)\<rparr> else hw);
     ret (0, hw\<lparr>hw_vector_mask := pci_mask ports,
       hw_baud_base := set_first ports (\<lambda>_. 921600) (hw_baud_base hw)\<rparr>) }"

section \<open>Initialising a board\<close>

definition init_port :: "mxser_hwconf \<Rightarrow> ktermios \<Rightarrow> nat \<Rightarrow> nat \<Rightarrow> unit mx_m" where
  "init_port hw tm n i = do {
     modify (\<lambda>s. s\<lparr>i_port := n, i_base := hw_ioaddr hw ! i, i_irq := hw_irq hw,
       i_vector := hw_vector hw, i_vectormask := hw_vector_mask hw,
       i_opmode_ioaddr := hw_opmode_ioaddr hw ! i, i_stop_rx := 0, i_ldisc_stop_rx := 0,
       i_IsMoxaMustChipFlag := hw_IsMoxaMustChipFlag hw\<rparr>);
     whenM (hw_IsMoxaMustChipFlag hw \<noteq> MOXA_OTHER_UART)
       (ENABLE_MOXA_MUST_ENCHANCE_MODE (hw_ioaddr hw ! i));
     modify (\<lambda>s. s\<lparr>i_flags := ASYNC_SHARE_IRQ, i_type := hw_uart_type hw,
       i_baud_base := hw_baud_base hw ! i, i_MaxCanSetBaudRate := hw_MaxCanSetBaudRate hw ! i\<rparr>);
     process_txrx_fifo;
     modify (\<lambda>s. s\<lparr>i_custom_divisor := hw_baud_base hw ! i * 16, i_close_delay := 5 * HZ div 10,
       i_closing_wait := 30 * HZ, i_normal_termios := tm, i_speed := 9600,
       i_mon_data := \<lparr>mon_rxcnt = 0, mon_txcnt = 0, mon_up_rxcnt = 0, mon_up_txcnt = 0,
         mon_modem_status = 0, mon_hold_reason = 0\<rparr>,
       i_err_shadow := 0\<rparr>) }"

definition std_termios :: "ktermios drv_m" where
  "std_termios = gets (\<lambda>d. (d_std_termios d)\<lparr>c_cflag := 0xCBD\<rparr>)"

fun init_ports :: "mxser_hwconf \<Rightarrow> nat \<Rightarrow> nat \<Rightarrow> nat \<Rightarrow> unit drv_m" where
  "init_ports hw n i 0 = ret ()"
| "init_ports hw n i (Suc k) = do {
     tm \<leftarrow> std_termios;
     on_port (n + i) () (init_port hw tm (n + i) i);
     init_ports hw n (i + 1) k }"

fun mask_irqs :: "port list \<Rightarrow> ('x, unit) io_m" where
  "mask_irqs [] = ret ()"
| "mask_irqs (p # ps) = do {
     x \<leftarrow> inb (p + UART_IER);
     outb (x AND 0xf0) (p + UART_IER);
     mask_irqs ps }"

definition mxser_initbrd :: "nat \<Rightarrow> mxser_hwconf \<Rightarrow> int drv_m" where
  "mxser_initbrd board hw = do {
     init_ports hw (board * MXSER_PORTS_PER_BOARD) 0 (hw_ports hw);
     mask_irqs (take (hw_ports hw) (hw_ioaddr hw));
     kcall ''request_irq'' [hw_irq hw, int (board * MXSER_PORTS_PER_BOARD)] }"

definition mxser_getcfg :: "nat \<Rightarrow> mxser_hwconf \<Rightarrow> unit drv_m" where
  "mxser_getcfg board hw = do {
     d \<leftarrow> gets id;
     if board < length (d_cfg d) then modify (\<lambda>d. d\<lparr>d_cfg := (d_cfg d)[board := hw]\<rparr>)
     else undefined_c ''mxsercfg index'' }"

section \<open>Module initialisation and exit\<close>

fun isa_scan :: "port list \<Rightarrow> nat \<Rightarrow> mxser_hwconf \<Rightarrow> (nat \<times> mxser_hwconf) drv_m" where
  "isa_scan [] m hw = ret (m, hw)"
| "isa_scan (cap # caps) m hw =
    (if MXSER_BOARDS \<le> m then ret (m, hw)
     else if cap = 0 then isa_scan caps m hw
     else do {
       (retval, hw) \<leftarrow> mxser_get_ISA_conf cap hw;
       if retval \<le> 0 then isa_scan caps m hw
       else do {
         let hw = hw\<lparr>hw_busNum := 0, hw_devNum := 0, hw_pdev := 0\<rparr>;
         mxser_getcfg m hw;
         rc \<leftarrow> mxser_initbrd m hw;
         if rc < 0 then isa_scan caps m hw else isa_scan caps (m + 1) hw } })"

text \<open>\<open>mxser_pcibrds\<close>: device identifier and board type; the vendor is \<open>PCI_VENDOR_ID_MOXA\<close>.\<close>

definition mxser_pcibrds :: "(int \<times> int) list" where
  "mxser_pcibrds = [(0x1680, 4), (0x1040, 5), (0x1320, 9), (0x1141, 10), (0x1140, 11), (0x1020, 12),
     (0x1041, 13), (0x1681, 14), (0x1321, 15), (0x1340, 16), (0x1042, 17), (0x0001, 18), (0x1180, 19),
     (0x1021, 20), (0x1022, 21), (0x1181, 22), (0x1682, 23), (0x1043, 24), (0x1080, 25), (0x1142, 26),
     (0x1341, 27), (0x1380, 28), (0x1044, 29), (0x1143, 30), (0x1023, 31), (0x1120, 32)]"

abbreviation "PCI_VENDOR_ID_MOXA \<equiv> 0x1393 :: int"

text \<open>What the scan does with a device it found: the next board number and the configuration.\<close>

definition pci_board :: "int \<Rightarrow> int \<Rightarrow> nat \<Rightarrow> mxser_hwconf \<Rightarrow> (nat \<times> mxser_hwconf) drv_m" where
  "pci_board pdev board_type m hw = do {
     bus \<leftarrow> kcall ''pci_bus_number'' [pdev];
     devfn \<leftarrow> kcall ''pci_devfn'' [pdev];
     let hw = hw\<lparr>hw_busNum := bus, hw_devNum := ((devfn div 8) mod 32) * 8, hw_pdev := pdev\<rparr>;
     if MXSER_BOARDS \<le> m then ret (m, hw)
     else do {
       fail \<leftarrow> kcall ''pci_enable_device'' [pdev];
       if fail \<noteq> 0 then ret (m, hw)
       else do {
         (retval, hw) \<leftarrow> mxser_get_PCI_conf board_type hw;
         if retval < 0 then ret (m, hw)
         else do {
           mxser_getcfg m hw;
           rc \<leftarrow> mxser_initbrd m hw;
           ret (if rc < 0 then m else m + 1, hw) } } } }"

fun pci_scan :: "nat \<Rightarrow> (int \<times> int) list \<Rightarrow> int \<Rightarrow> nat \<Rightarrow> mxser_hwconf
    \<Rightarrow> (nat \<times> mxser_hwconf) option drv_m" where
  "pci_scan fuel [] pdev m hw = ret (Some (m, hw))"
| "pci_scan 0 (brd # brds) pdev m hw = ret None"
| "pci_scan (Suc fuel) ((device, board_type) # brds) pdev m hw = do {
     pdev \<leftarrow> kcall ''pci_get_device'' [PCI_VENDOR_ID_MOXA, device, pdev];
     if pdev = 0 then pci_scan fuel brds pdev m hw
     else do {
       (m, hw) \<leftarrow> pci_board pdev board_type m hw;
       pci_scan fuel ((device, board_type) # brds) pdev m hw } }"

declare pci_scan.simps [simp del] isa_scan.simps [simp del]

definition clear_port :: "mxport \<Rightarrow> mxport" where
  "clear_port s = s\<lparr>i_port := 0, i_base := 0, i_irq := 0, i_vector := 0, i_vectormask := 0,
     i_rx_high_water := 0, i_rx_trigger := 0, i_rx_low_water := 0, i_baud_base := 0, i_flags := 0,
     i_type := 0, i_has_tty := False, i_read_status_mask := 0, i_ignore_status_mask := 0,
     i_xmit_fifo_size := 0, i_custom_divisor := 0, i_x_char := 0, i_close_delay := 0,
     i_closing_wait := 0, i_IER := 0, i_MCR := 0, i_event := 0, i_count := 0, i_blocked_open := 0,
     i_has_buf := False, i_xmit_head := 0, i_xmit_tail := 0, i_xmit_cnt := 0,
     i_normal_termios := \<lparr>c_iflag = 0, c_cflag = 0, c_start = 0, c_stop = 0\<rparr>,
     i_icount := \<lparr>ic_cts = 0, ic_dsr = 0, ic_rng = 0, ic_dcd = 0, ic_rx = 0, ic_tx = 0, ic_frame = 0,
       ic_overrun = 0, ic_parity = 0, ic_brk = 0, ic_buf_overrun = 0\<rparr>,
     i_timeout := 0, i_IsMoxaMustChipFlag := 0, i_MaxCanSetBaudRate := 0, i_opmode_ioaddr := 0,
     i_stop_rx := 0, i_ldisc_stop_rx := 0, i_realbaud := 0,
     i_mon_data := \<lparr>mon_rxcnt = 0, mon_txcnt = 0, mon_up_rxcnt = 0, mon_up_txcnt = 0,
       mon_modem_status = 0, mon_hold_reason = 0\<rparr>,
     i_err_shadow := 0, i_speed := 0, i_custom_baud_rate := 0, g_txcnt := 0, g_rxcnt := 0,
     g_msr := 0, g_set_baud_method := 0\<rparr>"

definition empty_mon :: mxser_mon_ext where
  "empty_mon = \<lparr>mx_rx_cnt = 0, mx_tx_cnt = 0, mx_up_rxcnt = 0, mx_up_txcnt = 0, mx_modem_status = 0,
     mx_baudrate = 0, mx_databits = 0, mx_stopbits = 0, mx_parity = 0, mx_flowctrl = 0, mx_fifo = 0,
     mx_iftype = 0\<rparr>"

definition empty_hwconf :: mxser_hwconf where
  "empty_hwconf = \<lparr>hw_board_type = 0, hw_ports = 0, hw_irq = 0, hw_vector = 0, hw_vector_mask = 0,
     hw_uart_type = 0, hw_ioaddr = replicate 8 0, hw_baud_base = replicate 8 0,
     hw_IsMoxaMustChipFlag = 0, hw_MaxCanSetBaudRate = replicate 8 0, hw_opmode_ioaddr = replicate 8 0,
     hw_busNum = 0, hw_devNum = 0, hw_pdev = 0\<rparr>"

definition mxserBoardCAP :: "port list" where
  "mxserBoardCAP = [0, 0, 0, 0]"

text \<open>The global tables before the boards are looked for.\<close>

definition reset_tables :: "unit drv_m" where
  "reset_tables = modify (\<lambda>d. d\<lparr>d_cfg := map (\<lambda>h. h\<lparr>hw_board_type := -1\<rparr>) (d_cfg d),
     d_ports := map clear_port (d_ports d), d_mon_ext := map (\<lambda>_. empty_mon) (d_mon_ext d)\<rparr>)"

fun each_board :: "(nat \<Rightarrow> mxser_hwconf \<Rightarrow> ('x, unit) io_m) \<Rightarrow> nat \<Rightarrow> mxser_hwconf list \<Rightarrow> ('x, unit) io_m" where
  "each_board f i [] = ret ()"
| "each_board f i (h # hs) = do {
     whenM (hw_board_type h \<noteq> -1) (f i h);
     each_board f (i + 1) hs }"

definition free_board_irq :: "nat \<Rightarrow> mxser_hwconf \<Rightarrow> ('x, unit) io_m" where
  "free_board_irq i h = knote ''free_irq'' [hw_irq h, int (i * MXSER_PORTS_PER_BOARD)]"

text \<open>A call of a kernel service for every index from \<open>i\<close> on, \<open>n\<close> of them.\<close>

fun knote_each :: "string \<Rightarrow> int \<Rightarrow> nat \<Rightarrow> ('x, unit) io_m" where
  "knote_each f i 0 = ret ()"
| "knote_each f i (Suc n) = do { knote f [i]; knote_each f (i + 1) n }"

definition link_ports :: "('x, unit) io_m" where
  "link_ports = knote_each ''tty_port_link_device'' 0 32"

definition mxser_init :: "nat \<Rightarrow> int option drv_m" where
  "mxser_init fuel = do {
     drv \<leftarrow> kcall ''alloc_tty_driver'' [MXSER_PORTS + 1];
     if drv = 0 then ret (Some (-ENOMEM))
     else do {
       reset_tables;
       caps \<leftarrow> gets (\<lambda>d. take MXSER_BOARDS (d_ioaddr d));
       (m, hw) \<leftarrow> isa_scan mxserBoardCAP 0 empty_hwconf;
       (m, hw) \<leftarrow> isa_scan caps m hw;
       pci \<leftarrow> pci_scan fuel mxser_pcibrds 0 m hw;
       case pci of
         None \<Rightarrow> ret None
       | Some _ \<Rightarrow> do {
           link_ports;
           ret1 \<leftarrow> kcall ''tty_register_driver'' [];
           if ret1 = 0 then ret (Some 0)
           else do {
             cfg \<leftarrow> gets d_cfg;
             each_board free_board_irq 0 cfg;
             ret (Some (-1)) } } } }"

definition release_board :: "nat \<Rightarrow> mxser_hwconf \<Rightarrow> ('x, unit) io_m" where
  "release_board i h = do {
     free_board_irq i h;
     (if hw_pdev h \<noteq> 0 then do {
        a2 \<leftarrow> pci_resource ''pci_resource_start'' (hw_pdev h) 2;
        l2 \<leftarrow> pci_resource ''pci_resource_len'' (hw_pdev h) 2;
        knote ''release_region'' [int a2, int l2];
        a3 \<leftarrow> pci_resource ''pci_resource_start'' (hw_pdev h) 3;
        l3 \<leftarrow> pci_resource ''pci_resource_len'' (hw_pdev h) 3;
        knote ''release_region'' [int a3, int l3] }
      else do {
        knote ''release_region'' [int (hw_ioaddr h ! 0), 8 * int (hw_ports h)];
        knote ''release_region'' [int (hw_vector h), 1] }) }"

definition mxser_module_exit :: "unit drv_m" where
  "mxser_module_exit = do {
     knote ''tty_unregister_driver'' [];
     knote_each ''tty_unregister_device'' 0 33;
     cfg \<leftarrow> gets d_cfg;
     each_board release_board 0 cfg }"

section \<open>Reading the EEPROM\<close>

text \<open>\<open>inputs p h\<close>: the bytes read from port \<open>p\<close>, in order.\<close>

fun inputs :: "port \<Rightarrow> io_event list \<Rightarrow> u8 list" where
  "inputs p [] = []"
| "inputs p (In_b q v # h) = inputs p h @ (if q = p then [v] else [])"
| "inputs p (_ # h) = inputs p h"

text \<open>The data line at each rising clock edge of the bytes written to a port.\<close>

fun clocked :: "port \<Rightarrow> io_event list \<Rightarrow> bool list" where
  "clocked p [] = []"
| "clocked p (Out_b v q # h) = clocked p h @ (if q = p \<and> bit v 0 then [bit v 1] else [])"
| "clocked p (_ # h) = clocked p h"

lemma send_addr_clocks [simp]:
  "inputs port (ihist (snd (run_state (send_addr port k n) s))) = inputs port (ihist s)"
  "clocked port (ihist (snd (run_state (send_addr port k n) s))) = clocked port (ihist s) @ map (bit k) (rev [0..<n])"
  by (induction n arbitrary: s) simp_all

lemma recv_bits_clocks [simp]: "clocked port (ihist (snd (run_state (recv_bits port n w) s)))
  = clocked port (ihist s) @ replicate n False"
  by (induction n arbitrary: s w) (simp_all add: replicate_append_same [symmetric])

lemma recv_bits_word:
  assumes "n \<le> 16"
  shows "\<exists>vs. length vs = n \<and>
    inputs port (ihist (snd (run_state (recv_bits port n w) s))) = inputs port (ihist s) @ vs \<and>
    (\<forall>m < 16. bit (fst (run_state (recv_bits port n w) s)) m \<longleftrightarrow> bit w m \<or> (m < n \<and> bit (vs ! (n - 1 - m)) 3))"
  using assms
proof (induction n arbitrary: s w)
  case (Suc n)
  define s1 where "s1 = snd (run_state (do { outb CHIP_CS port; outb (CHIP_CS OR CHIP_SK) port; inb port }) s)"
  define v where "v = fst (run_state (do { outb CHIP_CS port; outb (CHIP_CS OR CHIP_SK) port; inb port }) s)"
  define w1 where "w1 = (if v AND CHIP_DI \<noteq> 0 then set_bit n w else w)"
  have v: "inputs port (ihist s1) = inputs port (ihist s) @ [v]"
    by (simp add: s1_def v_def)
  have r: "run_state (recv_bits port (Suc n) w) s = run_state (recv_bits port n w1) s1"
    by (simp add: s1_def v_def w1_def)
  obtain vs where vs: "length vs = n"
    "inputs port (ihist (snd (run_state (recv_bits port n w1) s1))) = inputs port (ihist s1) @ vs"
    "\<And>m. m < 16 \<Longrightarrow> bit (fst (run_state (recv_bits port n w1) s1)) m
       \<longleftrightarrow> bit w1 m \<or> (m < n \<and> bit (vs ! (n - 1 - m)) 3)"
    using Suc.IH [of w1 s1] Suc.prems by auto
  have di: "v AND CHIP_DI \<noteq> 0 \<longleftrightarrow> bit v 3"
    using and_exp_eq_0_iff_not_bit [of v 3] by simp
  have w1: "m < 16 \<Longrightarrow> bit w1 m \<longleftrightarrow> bit w m \<or> (m = n \<and> bit v 3)" for m
    unfolding w1_def di by (auto simp: bit_simps possible_bit_def)
  show ?case
  proof (intro exI conjI allI impI)
    show "length (v # vs) = Suc n" using vs(1) by simp
    show "inputs port (ihist (snd (run_state (recv_bits port (Suc n) w) s))) = inputs port (ihist s) @ (v # vs)"
      unfolding r vs(2) v by simp
    fix m :: nat assume m: "m < 16"
    show "bit (fst (run_state (recv_bits port (Suc n) w) s)) m
        \<longleftrightarrow> bit w m \<or> (m < Suc n \<and> bit ((v # vs) ! (Suc n - 1 - m)) 3)"
      unfolding r vs(3) [OF m] w1 [OF m]
      using vs(1) by (auto simp: nth_Cons' less_Suc_eq diff_right_commute)
  qed
qed (auto intro!: exI [of _ "[]"])

text \<open>
  The EEPROM.  Reading a word clocks out the nine bits of the read command and address,
  then takes in sixteen data bits, both highest bit first, and leaves the chip deselected.
\<close>

theorem eeprom_read_word:
  assumes "run_state (read_word port i) s = (w, t)"
  shows "(\<exists>x vs. length vs = 16 \<and> inputs port (ihist t) = inputs port (ihist s) @ x # vs \<and>
      (\<forall>m < 16. bit w m \<longleftrightarrow> bit (vs ! (15 - m)) 3)) \<and>
    clocked port (ihist t) = clocked port (ihist s) @
      map (bit (i AND 0x3F OR 0x180)) [8, 7, 6, 5, 4, 3, 2, 1, 0] @ replicate 16 False \<and>
    hd (ihist t) = Out_b 0 port"
proof -
  define k where "k = i AND 0x3F OR (0x180 :: nat)"
  define s1 where "s1 = snd (run_state (do { send_addr port k 9; inb port }) s)"
  define x where "x = fst (run_state (do { send_addr port k 9; inb port }) s)"
  have s1: "inputs port (ihist s1) = inputs port (ihist s) @ [x]"
    "clocked port (ihist s1) = clocked port (ihist s) @ map (bit k) (rev [0..<9])"
    by (simp_all add: s1_def x_def case_prod_beta)
  have t: "w = fst (run_state (recv_bits port 16 0) s1)"
    "ihist t = Out_b 0 port # ihist (snd (run_state (recv_bits port 16 0) s1))"
    using assms(1) by (auto simp: read_word_def s1_def k_def case_prod_beta)
  obtain vs where vs: "length vs = 16"
    "inputs port (ihist (snd (run_state (recv_bits port 16 0) s1))) = inputs port (ihist s1) @ vs"
    "\<And>m. m < 16 \<Longrightarrow> bit w m \<longleftrightarrow> bit (vs ! (15 - m)) 3"
    using recv_bits_word [of 16 port 0 s1] by (auto simp: t(1))
  have "rev [0..<9] = [8, 7, 6, 5, 4, 3, 2, 1, 0 :: nat]"
    by (simp add: upt_rec)
  then have "clocked port (ihist t) = clocked port (ihist s) @
      map (bit (i AND 0x3F OR 0x180)) [8, 7, 6, 5, 4, 3, 2, 1, 0] @ replicate 16 False"
    by (simp add: t(2) s1(2) k_def)
  moreover have "\<exists>x vs. length vs = 16 \<and> inputs port (ihist t) = inputs port (ihist s) @ x # vs \<and>
      (\<forall>m < 16. bit w m \<longleftrightarrow> bit (vs ! (15 - m)) 3)"
    using vs s1 t(2) by (intro exI [of _ x] exI [of _ vs]) simp
  ultimately show ?thesis
    using t(2) by simp
qed

section \<open>The tables stay well formed\<close>

lemma must_only_io [io_rules]:
  "only_io m \<Longrightarrow> only_io (must_enhanced b m)" "only_io (must_efr b g)"
  "only_io (must_set_bank b c r v)" "only_io (must_get_bank b c r)"
  by (auto simp: must_enhanced_def must_efr_def must_set_bank_def must_get_bank_def intro!: io_rules)

lemma CheckIsMoxaMust_only_io [io_rules]: "only_io (CheckIsMoxaMust io)"
  unfolding CheckIsMoxaMust_def DISABLE_MOXA_MUST_ENCHANCE_MODE_def SET_MOXA_MUST_XON1_VALUE_def
    GET_MOXA_MUST_HARDWARE_ID_def
  by (intro io_rules)

lemma loops_only_io [io_rules]:
  "only_io (magic_scan port n j)" "only_io (drain_rx port n)" "only_io (send_addr port k n)"
  "only_io (mask_irqs ps)" "only_io (knote_each f i n)"
proof -
  show "only_io (magic_scan port n j)"
    by (induction n arbitrary: j) (auto intro!: io_rules)
  show "only_io (drain_rx port n)" "only_io (send_addr port k n)"
    by (induction n) (auto intro!: io_rules)
  show "only_io (mask_irqs ps)"
    by (induction ps) (auto intro!: io_rules)
  show "only_io (knote_each f i n)"
    by (induction n arbitrary: i) (auto intro!: io_rules)
qed

lemma recv_only_io [io_rules]: "only_io (recv_bits port n w)"
  by (induction n arbitrary: w) (auto intro!: io_rules)

lemma words_only_io [io_rules]: "only_io (read_words port i n)"
  by (induction n arbitrary: i) (auto simp: read_word_def intro!: io_rules)

lemma isa_only_io [io_rules]: "only_io (mxser_get_ISA_conf cap hw)"
  unfolding mxser_get_ISA_conf_def mxser_read_register_def mxser_program_mode_def
    mxser_normal_mode_def isa_uart_type_def Let_def
  by (intro io_rules)

lemma pci_only_io [io_rules]: "only_io (mxser_get_PCI_conf bt hw)"
  unfolding mxser_get_PCI_conf_def request_bar_def pci_resource_def Let_def
  by (intro io_rules)

lemma boards_only_io [io_rules]: "only_io (free_board_irq i h)" "only_io (release_board i h)"
  unfolding free_board_irq_def release_board_def pci_resource_def by (intro io_rules)+

lemma each_board_only_io [io_rules]:
  "(\<And>i h. only_io (f i h)) \<Longrightarrow> only_io (each_board f i hs)"
  by (induction hs arbitrary: i) (auto intro!: io_rules)

text \<open>A configuration that is complete, and a driver whose tables are.\<close>

definition hw_shape :: "mxser_hwconf \<Rightarrow> bool" where
  "hw_shape hw \<longleftrightarrow> length (hw_ioaddr hw) = 8 \<and> length (hw_baud_base hw) = 8 \<and>
     length (hw_MaxCanSetBaudRate hw) = 8 \<and> length (hw_opmode_ioaddr hw) = 8"

definition board_ok :: "mxser_hwconf \<Rightarrow> bool" where
  "board_ok hw \<longleftrightarrow> hw_shape hw \<and> 1 \<le> hw_board_type hw \<and> hw_board_type hw \<le> 32 \<and>
     int (hw_ports hw) = mxser_numports ! nat (hw_board_type hw - 1)"

definition drv_ok :: "mxdrv \<Rightarrow> bool" where
  "drv_ok d \<longleftrightarrow> length (d_ports d) = 32 \<and> length (d_cfg d) = 4 \<and>
     (\<forall>h \<in> set (d_cfg d). hw_board_type h = -1 \<or> board_ok h) \<and> defined_run d"

lemma set_first_length [simp]: "length (set_first n f xs) = length xs"
  by (simp add: set_first_def)

lemma only_io_drv_ok: "only_io m \<Longrightarrow> drv_ok d \<Longrightarrow> drv_ok (snd (run_state m d))"
  by (erule only_ioE [where s = d]) (auto simp: drv_ok_def defined_run_def)

lemma isa_boards_ok: "map_of isa_boards asic = Some (board, ports) \<Longrightarrow>
    1 \<le> board \<and> board \<le> 32 \<and> int ports = mxser_numports ! nat (board - 1)"
  by (auto simp: isa_boards_def mxser_numports_def split: if_splits)

definition isa_config :: "mxser_hwconf \<Rightarrow> int \<Rightarrow> u16 list \<Rightarrow> int \<Rightarrow> nat \<Rightarrow> u16 \<Rightarrow> int \<Rightarrow> mxser_hwconf" where
  "isa_config hw asic regs board ports irq ty = hw\<lparr>hw_IsMoxaMustChipFlag := MOXA_OTHER_UART,
     hw_board_type := board, hw_ports := ports,
     hw_irq := uint (drop_bit 12 (irq AND 0xF000)),
     hw_ioaddr := map (\<lambda>i. unat (regs ! (i + 1) AND 0xFFF8)) [0..<8],
     hw_vector := unat (regs ! 11), hw_vector_mask := (if asic = 1 then 0x00FF else 0x000F),
     hw_baud_base := map (isa_baud regs) [0..<8], hw_MaxCanSetBaudRate := map (isa_baud regs) [0..<8],
     hw_uart_type := ty\<rparr>"

lemma isa_conf_cases:
  assumes run: "run_state (mxser_get_ISA_conf cap hw) s = ((r, hw'), t)"
  obtains (rejected) "r \<le> 0" "hw_shape hw \<Longrightarrow> hw_shape hw'"
  | (accepted) asic regs u board ports irq ty where
    "run_state (mxser_read_register cap) s = ((asic, regs), u)"
    "map_of isa_boards asic = Some (board, ports)" "isa_irq ports regs = Some irq" "irq \<noteq> 0"
    "regs ! 12 AND 0x80 \<noteq> 0" "r = int ports" "hw' = isa_config hw asic regs board ports irq ty"
proof -
  obtain asic regs u where reg: "run_state (mxser_read_register cap) s = ((asic, regs), u)"
    by (metis prod.collapse)
  note run = run [unfolded mxser_get_ISA_conf_def Let_def run_state_bind reg case_prod_beta fst_conv snd_conv]
  show ?thesis
  proof (cases "map_of isa_boards asic")
    case None
    then show ?thesis
      using run by (intro rejected) (auto simp: hw_shape_def)
  next
    case (Some bp)
    obtain board ports where bp: "bp = (board, ports)"
      by (cases bp)
    note board = Some [unfolded bp]
    note run = run [unfolded Some bp option.case prod.case fst_conv snd_conv]
    show ?thesis
    proof (cases "isa_irq ports regs")
      case None
      then show ?thesis
        using run by (intro rejected) (auto simp: hw_shape_def)
    next
      case (Some irq)
      note run = run [unfolded Some option.case]
      consider "irq = 0" | "irq \<noteq> 0" "regs ! 12 AND 0x80 = 0" | "irq \<noteq> 0" "regs ! 12 AND 0x80 \<noteq> 0"
        by blast
      then show ?thesis
      proof cases
        case 1 then show ?thesis using run by (intro rejected) (auto simp: hw_shape_def)
      next
        case 2 then show ?thesis using run by (intro rejected) (auto simp: hw_shape_def)
      next
        case 3
        show ?thesis
          by (rule accepted [OF reg board Some 3, of "fst (run_state (isa_uart_type cap) u)"])
            (use run 3 in \<open>auto simp: isa_config_def case_prod_beta\<close>)
      qed
    qed
  qed
qed

lemma isa_conf_ok:
  assumes hw: "hw_shape hw" and run: "run_state (mxser_get_ISA_conf cap hw) s = ((r, hw'), t)"
  shows "hw_shape hw' \<and> (0 < r \<longrightarrow> board_ok hw')"
  using run
proof (cases rule: isa_conf_cases)
  case rejected
  with hw show ?thesis by auto
next
  case (accepted asic regs u board ports irq ty)
  with isa_boards_ok [OF accepted(2)] hw show ?thesis
    by (auto simp: isa_config_def hw_shape_def board_ok_def)
qed

lemma numports_range:
  assumes "1 \<le> bt" "bt \<le> 32"
  shows "0 \<le> mxser_numports ! nat (bt - 1)" "mxser_numports ! nat (bt - 1) \<le> 8"
proof -
  have "\<forall>x \<in> set mxser_numports. 0 \<le> x \<and> x \<le> 8" "length mxser_numports = 32"
    by (simp_all add: mxser_numports_def)
  with assms show "0 \<le> mxser_numports ! nat (bt - 1)" "mxser_numports ! nat (bt - 1) \<le> 8"
    by (simp_all add: all_set_conv_all_nth)
qed

lemma pci_conf_ok:
  assumes "hw_shape hw" "1 \<le> bt" "bt \<le> 32"
  shows "board_ok (snd (fst (run_state (mxser_get_PCI_conf bt hw) s)))"
proof -
  show ?thesis
    using assms numports_range(1) [OF assms(2,3)]
    by (simp add: mxser_get_PCI_conf_def Let_def case_prod_beta board_ok_def hw_shape_def)
qed

text \<open>What a board's configuration makes of a port.\<close>

definition port_configured :: "mxser_hwconf \<Rightarrow> nat \<Rightarrow> nat \<Rightarrow> mxport \<Rightarrow> bool" where
  "port_configured hw n i p \<longleftrightarrow> i_port p = n \<and> i_base p = hw_ioaddr hw ! i \<and> i_irq p = hw_irq hw \<and>
     i_vector p = hw_vector hw \<and> i_vectormask p = hw_vector_mask hw \<and> i_type p = hw_uart_type hw \<and>
     i_IsMoxaMustChipFlag p = hw_IsMoxaMustChipFlag hw \<and> i_opmode_ioaddr p = hw_opmode_ioaddr hw ! i \<and>
     i_baud_base p = hw_baud_base hw ! i \<and> i_MaxCanSetBaudRate p = hw_MaxCanSetBaudRate hw ! i \<and>
     i_speed p = 9600 \<and>
     (hw_uart_type hw \<in> {PORT_16450, PORT_8250} \<longrightarrow> i_xmit_fifo_size p = 1 \<and> i_rx_trigger p = 1) \<and>
     (hw_uart_type hw \<notin> {PORT_16450, PORT_8250} \<longrightarrow>
       (\<forall>xf high trig low mx. uart_info (hw_IsMoxaMustChipFlag hw) = Some (xf, high, trig, low, mx) \<longrightarrow>
          i_xmit_fifo_size p = xf \<and> i_rx_trigger p = trig \<and> i_rx_high_water p = high \<and> i_rx_low_water p = low))"

lemma process_txrx_fifo_effect:
  obtains trig low high xf where "snd (run_state process_txrx_fifo s) =
      s\<lparr>i_rx_trigger := trig, i_rx_low_water := low, i_rx_high_water := high, i_xmit_fifo_size := xf\<rparr>"
    "i_type s \<in> {PORT_16450, PORT_8250} \<Longrightarrow> xf = 1 \<and> trig = 1"
    "\<And>a b c d e. i_type s \<notin> {PORT_16450, PORT_8250} \<Longrightarrow>
       uart_info (i_IsMoxaMustChipFlag s) = Some (a, b, c, d, e) \<Longrightarrow> xf = a \<and> high = b \<and> trig = c \<and> low = d"
proof (cases "i_type s \<in> {PORT_16450, PORT_8250}")
  case True
  then show ?thesis
    by (intro that [of 1 1 1 1]) (auto simp: process_txrx_fifo_def)
next
  case False
  show ?thesis
  proof (cases "uart_info (i_IsMoxaMustChipFlag s)")
    case None
    with False show ?thesis
      by (intro that [of "i_xmit_fifo_size s" "i_rx_high_water s" "i_rx_low_water s" "i_rx_trigger s"])
        (auto simp: process_txrx_fifo_def)
  next
    case (Some x)
    obtain a b c d e where "x = (a, b, c, d, e)"
      by (cases x)
    with False Some show ?thesis
      by (intro that [of a b d c]) (auto simp: process_txrx_fifo_def)
  qed
qed

lemma init_port_effect:
  assumes "run_state (init_port hw tm n i) s = (r, t)"
  shows "port_configured hw n i t \<and>
    (\<exists>h. ihist t = h @ ihist s \<and> (\<forall>e \<in> set h. \<not> is_undefined e))"
proof -
  define s1 where "s1 = s\<lparr>i_port := n, i_base := hw_ioaddr hw ! i, i_irq := hw_irq hw,
       i_vector := hw_vector hw, i_vectormask := hw_vector_mask hw,
       i_opmode_ioaddr := hw_opmode_ioaddr hw ! i, i_stop_rx := 0, i_ldisc_stop_rx := 0,
       i_IsMoxaMustChipFlag := hw_IsMoxaMustChipFlag hw\<rparr>"
  have "only_io (whenM (hw_IsMoxaMustChipFlag hw \<noteq> MOXA_OTHER_UART)
      (ENABLE_MOXA_MUST_ENCHANCE_MODE (hw_ioaddr hw ! i)) :: unit mx_m)"
    unfolding ENABLE_MOXA_MUST_ENCHANCE_MODE_def by (intro io_rules)
  then obtain h where h: "snd (run_state (whenM (hw_IsMoxaMustChipFlag hw \<noteq> MOXA_OTHER_UART)
      (ENABLE_MOXA_MUST_ENCHANCE_MODE (hw_ioaddr hw ! i)) :: unit mx_m) s1) = s1\<lparr>ihist := h @ ihist s1\<rparr>"
    "\<forall>e \<in> set h. \<not> is_undefined e"
    by (rule only_ioE)
  define s2 where "s2 = s1\<lparr>ihist := h @ ihist s1, i_flags := ASYNC_SHARE_IRQ, i_type := hw_uart_type hw,
       i_baud_base := hw_baud_base hw ! i, i_MaxCanSetBaudRate := hw_MaxCanSetBaudRate hw ! i\<rparr>"
  define s3 where "s3 = snd (run_state process_txrx_fifo s2)"
  have t: "t = s3\<lparr>i_custom_divisor := hw_baud_base hw ! i * 16, i_close_delay := 5 * HZ div 10,
       i_closing_wait := 30 * HZ, i_normal_termios := tm, i_speed := 9600,
       i_mon_data := \<lparr>mon_rxcnt = 0, mon_txcnt = 0, mon_up_rxcnt = 0, mon_up_txcnt = 0,
         mon_modem_status = 0, mon_hold_reason = 0\<rparr>,
       i_err_shadow := 0\<rparr>"
    using assms h(1)
    by (simp add: init_port_def s1_def [symmetric] s2_def [symmetric] s3_def [symmetric] case_prod_beta
      del: run_whenM)
  obtain trig low high xf where s3: "s3 = s2\<lparr>i_rx_trigger := trig, i_rx_low_water := low,
      i_rx_high_water := high, i_xmit_fifo_size := xf\<rparr>"
    and f1: "i_type s2 \<in> {PORT_16450, PORT_8250} \<Longrightarrow> xf = 1 \<and> trig = 1"
    and f2: "\<And>a b c d e. i_type s2 \<notin> {PORT_16450, PORT_8250} \<Longrightarrow>
       uart_info (i_IsMoxaMustChipFlag s2) = Some (a, b, c, d, e) \<Longrightarrow> xf = a \<and> high = b \<and> trig = c \<and> low = d"
    unfolding s3_def by (rule process_txrx_fifo_effect [of s2]) blast
  have s2: "i_type s2 = hw_uart_type hw" "i_IsMoxaMustChipFlag s2 = hw_IsMoxaMustChipFlag hw"
    by (simp_all add: s2_def s1_def)
  have "port_configured hw n i t"
    using f1 f2 unfolding port_configured_def s2
    by (simp add: t s3) (simp add: s2_def s1_def)
  with h(2) show ?thesis
    by (auto simp: t s3 s2_def s1_def)
qed


section \<open>Interrupt numbers of the ISA boards\<close>

lemma u16_eq_iff: "(v :: u16) = w \<longleftrightarrow> (\<forall>n \<in> {0..<16}. bit v n \<longleftrightarrow> bit w n)"
  by (auto simp: bit_eq_iff dest: bit_imp_le_length)

lemma u16_bits: "(v :: u16) = w \<longleftrightarrow>
  (\<forall>n \<in> {0, 1, 2, 3, 4, 5, 6, 7, 8, 9, 10, 11, 12, 13, 14, 15}. bit v n \<longleftrightarrow> bit w n)"
proof -
  have "{0..<16} = {0, 1, 2, 3, 4, 5, 6, 7, 8, 9, 10, 11, 12, 13, 14, 15 :: nat}"
    by (auto simp: atLeastLessThan_nat_numeral)
  then show ?thesis
    unfolding u16_eq_iff by simp
qed

text \<open>The nibble of port \<open>i\<close> in registers 9 and 10.\<close>

definition irq_nibble :: "u16 list \<Rightarrow> nat \<Rightarrow> u16" where
  "irq_nibble regs i = take_bit 4 (drop_bit (12 - 4 * (i mod 4)) (regs ! (9 + i div 4)))"

lemma nibble_eq: "take_bit 4 (drop_bit k (x :: u16)) = drop_bit 12 (irq AND 0xF000) \<longleftrightarrow>
   (bit x k \<longleftrightarrow> bit irq 12) \<and> (bit x (k + 1) \<longleftrightarrow> bit irq 13) \<and>
   (bit x (k + 2) \<longleftrightarrow> bit irq 14) \<and> (bit x (k + 3) \<longleftrightarrow> bit irq 15)"
  by (simp add: u16_bits bit_simps add.commute)

lemma spread2:
  assumes "r AND 0xF000 OR drop_bit 4 (r AND 0xF000) = x AND 0xFF00"
  shows "bit x 8 = bit r 12" "bit x 9 = bit r 13" "bit x 10 = bit r 14" "bit x 11 = bit r 15"
    "bit x 12 = bit r 12" "bit x 13 = bit r 13" "bit x 14 = bit r 14" "bit x 15 = bit (r :: u16) 15"
  using assms by (auto simp: u16_bits bit_simps)

lemma spread4:
  assumes "(r AND 0xF000 OR drop_bit 4 (r AND 0xF000)) OR
    drop_bit 8 (r AND 0xF000 OR drop_bit 4 (r AND 0xF000)) = (x :: u16)"
  shows "bit x 0 = bit r 12" "bit x 1 = bit r 13" "bit x 2 = bit r 14" "bit x 3 = bit r 15"
    "bit x 4 = bit r 12" "bit x 5 = bit r 13" "bit x 6 = bit r 14" "bit x 7 = bit r 15"
    "bit x 8 = bit r 12" "bit x 9 = bit r 13" "bit x 10 = bit r 14" "bit x 11 = bit r 15"
    "bit x 12 = bit r 12" "bit x 13 = bit r 13" "bit x 14 = bit r 14" "bit x 15 = bit r 15"
  by (simp_all add: assms [symmetric] bit_simps)

lemma isa_irq_nibbles:
  assumes "isa_irq ports regs = Some irq" "ports \<in> {2, 4, 8}" "i < ports"
  shows "irq_nibble regs i = drop_bit 12 (irq AND 0xF000)"
proof -
  have i: "i \<in> {0, 1, 2, 3, 4, 5, 6, 7}"
    using assms(2,3) by auto
  define r where "r = regs ! 9"
  define i2 where "i2 = r AND 0xF000 OR drop_bit 4 (r AND 0xF000)"
  define i4 where "i4 = i2 OR drop_bit 8 i2"
  have "(r AND 0xF000 OR drop_bit 4 (r AND 0xF000)) OR
      drop_bit 8 (r AND 0xF000 OR drop_bit 4 (r AND 0xF000)) = i4"
    by (simp only: i2_def i4_def)
  note i4 = spread4 [OF this]
  consider "ports = 2" "irq = i2" "i2 = r AND 0xFF00" | "ports = 4" "irq = i4" "i4 = r"
    | "ports = 8" "irq = i4" "i4 = r" "i4 = regs ! 10"
    using assms(1,2) by (auto simp: isa_irq_def Let_def r_def i2_def i4_def split: if_splits)
  then show ?thesis
  proof cases
    case 1
    have b: "bit irq 12 = bit r 12" "bit irq 13 = bit r 13" "bit irq 14 = bit r 14" "bit irq 15 = bit r 15"
      by (simp_all add: 1(2) i2_def bit_simps)
    have "i = 0 \<or> i = 1"
      using 1(1) assms(3) by auto
    then show ?thesis
      using b spread2 [of r r, folded i2_def, OF 1(3)]
      unfolding irq_nibble_def nibble_eq by (elim disjE) (simp_all add: r_def [symmetric])
  next
    case 2
    then have "irq = r" "i < 4"
      using assms(3) by auto
    then show ?thesis
      using i i4 [unfolded 2(3)]
      unfolding irq_nibble_def nibble_eq by (elim insertE emptyE) (simp_all add: r_def [symmetric] numeral_2_eq_2 [symmetric])
  next
    case 3
    then have "irq = r" "regs ! 10 = r"
      by auto
    then show ?thesis
      using i i4 [unfolded 3(3)]
      unfolding irq_nibble_def nibble_eq by (elim insertE emptyE) (simp_all add: r_def [symmetric] numeral_2_eq_2 [symmetric])
  qed
qed

lemma isa_irq_nonzero:
  assumes "isa_irq ports regs = Some irq" "ports \<in> {2, 4, 8}" "irq \<noteq> 0"
  shows "drop_bit 12 (irq AND 0xF000) \<noteq> 0"
proof
  define r where "r = regs ! 9"
  define i2 where "i2 = r AND 0xF000 OR drop_bit 4 (r AND 0xF000)"
  define i4 where "i4 = i2 OR drop_bit 8 i2"
  have irq: "irq = i2 \<or> irq = i4"
    using assms(1,2) by (auto simp: isa_irq_def Let_def r_def i2_def i4_def split: if_splits)
  assume "drop_bit 12 (irq AND 0xF000) = 0"
  then have "\<not> bit irq 12" "\<not> bit irq 13" "\<not> bit irq 14" "\<not> bit irq 15"
    by (auto simp: u16_bits bit_simps)
  with irq have "r AND 0xF000 = 0"
    by (elim disjE; simp add: u16_bits bit_simps i2_def i4_def)
  then have "i2 = 0"
    unfolding i2_def by simp
  then show False
    using irq assms(3) by (auto simp: i4_def)
qed

lemma uint_nibble: "uint (drop_bit 12 (x :: u16) :: u16) < 16"
proof -
  have "unat (drop_bit 12 x) = unat x div 2 ^ 12"
    by (subst unat_drop_bit_eq) (rule drop_bit_eq_div)
  moreover have "unat x < 2 ^ 16"
    using unsigned_less [of x] by simp
  ultimately show ?thesis
    by (simp add: uint_nat)
qed

lemma unat_align8: "unat (x AND 0xFFF8) = unat (x :: u16) div 8 * 8"
proof -
  have "x AND 0xFFF8 = push_bit 3 (drop_bit 3 x)"
    by (auto simp: u16_bits bit_simps)
  then have "unat (x AND 0xFFF8) = take_bit 16 (push_bit 3 (drop_bit 3 (unat x)))"
    by (simp only: unsigned_push_bit_eq unat_drop_bit_eq) simp
  moreover have "unat x < 2 ^ 16"
    using unsigned_less [of x] by simp
  then have "unat x div 8 * 8 < 2 ^ 16"
    by (metis div_times_less_eq_dividend le_less_trans)
  ultimately show ?thesis
    by (simp add: push_bit_eq_mult drop_bit_eq_div take_bit_nat_eq_self)
qed

text \<open>
  An ISA board is accepted only with a complete and consistent configuration: every one of
  its 2, 4 or 8 ports has the board's interrupt, between 1 and 15, in its nibble of the EEPROM,
  and the port addresses are the EEPROM's, on 8-byte boundaries.
\<close>

theorem isa_board_accepted:
  assumes "run_state (mxser_get_ISA_conf cap hw) s = ((r, hw'), t)" "0 < r"
    and "fst (run_state (mxser_read_register cap) s) = (asic, regs)"
  shows "r = int (hw_ports hw') \<and> hw_ports hw' \<in> {2, 4, 8} \<and> hw_irq hw' \<in> {1..15} \<and>
    (\<forall>i < hw_ports hw'. uint (irq_nibble regs i) = hw_irq hw' \<and>
       hw_ioaddr hw' ! i = unat (regs ! (i + 1)) div 8 * 8 \<and>
       hw_baud_base hw' ! i = (if bit (regs ! 12) (15 - i) then 921600 else 115200))"
  using assms(1)
proof (cases rule: isa_conf_cases)
  case rejected
  with assms(2) show ?thesis by simp
next
  case (accepted asic' regs' u board ports irq ty)
  have eq: "asic' = asic" "regs' = regs"
    using accepted(1) assms(3) by auto
  have ports: "ports \<in> {2, 4, 8}"
    using accepted(2) by (auto simp: isa_boards_def split: if_splits)
  note acc = accepted [unfolded eq]
  have nib: "i < ports \<Longrightarrow> irq_nibble regs i = drop_bit 12 (irq AND 0xF000)" for i
    using isa_irq_nibbles [OF acc(3) ports] .
  define n where "n = uint (drop_bit 12 (irq AND 0xF000))"
  have "n \<noteq> 0" "0 \<le> n" "n < 16"
    using isa_irq_nonzero [OF acc(3) ports acc(4)] uint_nibble [of "irq AND 0xF000"]
    by (simp_all only: n_def uint_0_iff uint_ge_0 not_False_eq_True)
  then have "1 \<le> n" "n \<le> 15"
    by auto
  then have irq: "hw_irq hw' \<in> {1..15}"
    by (simp add: acc(7) isa_config_def n_def)
  have fields: "hw_ports hw' = ports" "hw_irq hw' = uint (drop_bit 12 (irq AND 0xF000))"
    "\<And>i. i < 8 \<Longrightarrow> hw_ioaddr hw' ! i = unat (regs ! (i + 1) AND 0xFFF8)"
    "\<And>i. i < 8 \<Longrightarrow> hw_baud_base hw' ! i = isa_baud regs i"
    by (simp_all add: acc(7) isa_config_def)
  have "i < ports \<Longrightarrow> i < 8" for i
    using ports by auto
  then show ?thesis
    using acc(6) ports irq nib fields unat_align8 by (simp add: isa_baud_def)
qed

section \<open>Initialising a board configures its ports only\<close>

lemma init_ports_effect:
  assumes "length (d_ports d) = 32" "n + i + k \<le> 32" "run_state (init_ports hw n i k) d = (r, e)"
  shows "length (d_ports e) = 32 \<and> d_cfg e = d_cfg d \<and>
    (\<exists>h. ihist e = h @ ihist d \<and> (\<forall>ev \<in> set h. \<not> is_undefined ev)) \<and>
    (\<forall>j. j < n + i \<or> n + i + k \<le> j \<longrightarrow> d_ports e ! j = d_ports d ! j) \<and>
    (\<forall>j. i \<le> j \<and> j < i + k \<longrightarrow> port_configured hw (n + j) j (d_ports e ! (n + j)))"
  using assms
proof (induction k arbitrary: i d)
  case 0
  then show ?case by auto
next
  case (Suc k)
  define tm where "tm = (d_std_termios d)\<lparr>c_cflag := 0xCBD\<rparr>"
  define p where "p = snd (run_state (init_port hw tm (n + i) i)
    ((d_ports d ! (n + i))\<lparr>ienv := ienv d, ihist := ihist d\<rparr>))"
  define d1 where "d1 = d\<lparr>ihist := ihist p, d_ports := (d_ports d)[n + i := p]\<rparr>"
  have i: "n + i < 32"
    using Suc.prems(2) by simp
  have p: "port_configured hw (n + i) i p" "\<exists>h. ihist p = h @ ihist d \<and> (\<forall>ev \<in> set h. \<not> is_undefined ev)"
    using init_port_effect [of hw tm "n + i" i "(d_ports d ! (n + i))\<lparr>ienv := ienv d, ihist := ihist d\<rparr>",
      OF prod.collapse [symmetric]]
    by (simp_all add: p_def)
  have len: "length (d_ports d1) = 32" and le: "n + (i + 1) + k \<le> 32"
    using Suc.prems(1,2) by (simp_all add: d1_def)
  have "run_state (init_ports hw n (i + 1) k) d1 = (r, e)"
    using Suc.prems(1,3) i
    by (simp add: std_termios_def tm_def [symmetric] p_def d1_def case_prod_beta)
  from Suc.IH [OF len le this] have IH: "length (d_ports e) = 32" "d_cfg e = d_cfg d1"
    "\<exists>h. ihist e = h @ ihist d1 \<and> (\<forall>ev \<in> set h. \<not> is_undefined ev)"
    "\<And>j. j < n + (i + 1) \<or> n + (i + 1) + k \<le> j \<Longrightarrow> d_ports e ! j = d_ports d1 ! j"
    "\<And>j. i + 1 \<le> j \<Longrightarrow> j < i + 1 + k \<Longrightarrow> port_configured hw (n + j) j (d_ports e ! (n + j))"
    by blast+
  have "port_configured hw (n + j) j (d_ports e ! (n + j))" if "i \<le> j" "j < i + Suc k" for j
  proof (cases "j = i")
    case True
    then show ?thesis
      using IH(4) [of "n + i"] p(1) i Suc.prems(1) by (simp add: d1_def)
  next
    case False
    then show ?thesis
      using IH(5) [of j] that by simp
  qed
  moreover have "\<exists>h. ihist e = h @ ihist d \<and> (\<forall>ev \<in> set h. \<not> is_undefined ev)"
  proof -
    obtain h h' where "ihist e = h @ ihist d1" "\<forall>ev \<in> set h. \<not> is_undefined ev"
      "ihist p = h' @ ihist d" "\<forall>ev \<in> set h'. \<not> is_undefined ev"
      using IH(3) p(2) by blast
    then show ?thesis
      by (intro exI [of _ "h @ h'"]) (auto simp: d1_def)
  qed
  moreover have "d_ports e ! j = d_ports d ! j" if "j < n + i \<or> n + i + Suc k \<le> j" for j
    using IH(4) [of j] that by (auto simp: d1_def)
  ultimately show ?case
    using IH(1,2) by (auto simp: d1_def)
qed

text \<open>
  C25. Initialising a board configures exactly its ports, each with the board's resources and the
  FIFO sizes of its chip, and leaves every port of the other boards as it was; the result is the
  answer of \<open>request_irq\<close>.
\<close>

theorem initbrd_configures:
  assumes "board < 4" "hw_ports hw \<le> 8" "length (d_ports d) = 32"
    and "run_state (mxser_initbrd board hw) d = (r, e)"
  shows "length (d_ports e) = 32 \<and> d_cfg e = d_cfg d \<and>
    (\<forall>i < hw_ports hw. port_configured hw (8 * board + i) i (d_ports e ! (8 * board + i))) \<and>
    (\<forall>j. j < 8 * board \<or> 8 * board + hw_ports hw \<le> j \<longrightarrow> d_ports e ! j = d_ports d ! j) \<and>
    hd (ihist e) = Kernel_call ''request_irq'' [hw_irq hw, int (8 * board)] r"
proof -
  define d1 where "d1 = snd (run_state (init_ports hw (board * 8) 0 (hw_ports hw)) d)"
  have "run_state (init_ports hw (board * 8) 0 (hw_ports hw)) d = ((), d1)"
    by (simp add: d1_def prod_eq_iff)
  then have "run_state (init_ports hw (8 * board) 0 (hw_ports hw)) d = ((), d1)"
    by (simp add: mult.commute)
  moreover have "8 * board + 0 + hw_ports hw \<le> 32"
    using assms(1,2) by simp
  ultimately have d1: "length (d_ports d1) = 32" "d_cfg d1 = d_cfg d"
    "\<And>j. j < 8 * board \<or> 8 * board + hw_ports hw \<le> j \<Longrightarrow> d_ports d1 ! j = d_ports d ! j"
    "\<And>j. j < hw_ports hw \<Longrightarrow> port_configured hw (8 * board + j) j (d_ports d1 ! (8 * board + j))"
    using init_ports_effect [OF assms(3), of "8 * board" 0 "hw_ports hw" hw "()" d1] by auto
  have "only_io (mask_irqs (take (hw_ports hw) (hw_ioaddr hw)))"
    by (rule io_rules)
  then obtain h where h: "snd (run_state (mask_irqs (take (hw_ports hw) (hw_ioaddr hw))) d1)
      = d1\<lparr>ihist := h @ ihist d1\<rparr>"
    by (rule only_ioE)
  have "r = env_k (ienv d1) (h @ ihist d1) ''request_irq'' [hw_irq hw, int (board * 8)]"
    "e = d1\<lparr>ihist := Kernel_call ''request_irq'' [hw_irq hw, int (board * 8)]
       (env_k (ienv d1) (h @ ihist d1) ''request_irq'' [hw_irq hw, int (board * 8)]) # h @ ihist d1\<rparr>"
    using assms(4) h by (auto simp: mxser_initbrd_def d1_def [symmetric] case_prod_beta)
  with d1 show ?thesis
    by (simp add: mult.commute)
qed

section \<open>Module initialisation keeps the tables well formed\<close>

lemma board_ok_ports: "board_ok hw \<Longrightarrow> hw_ports hw \<le> 8"
  using numports_range(2) [of "hw_board_type hw"] by (auto simp: board_ok_def)

lemma initbrd_drv_ok:
  assumes "drv_ok d" "m < 4" "hw_ports hw \<le> 8"
  shows "drv_ok (snd (run_state (mxser_initbrd m hw) d))"
proof -
  define d1 where "d1 = snd (run_state (init_ports hw (m * 8) 0 (hw_ports hw)) d)"
  have "m * 8 + 0 + hw_ports hw \<le> 32" "length (d_ports d) = 32"
    using assms by (simp_all add: drv_ok_def)
  then have "drv_ok d1"
    using init_ports_effect [of d "m * 8" 0 "hw_ports hw" hw "()" d1] assms(1)
    by (auto simp: d1_def prod_eq_iff drv_ok_def defined_run_def)
  moreover have "only_io (do { mask_irqs (take (hw_ports hw) (hw_ioaddr hw));
      kcall ''request_irq'' [hw_irq hw, int (m * MXSER_PORTS_PER_BOARD)] } :: int drv_m)"
    by (intro io_rules)
  moreover have "snd (run_state (mxser_initbrd m hw) d) = snd (run_state (do {
      mask_irqs (take (hw_ports hw) (hw_ioaddr hw));
      kcall ''request_irq'' [hw_irq hw, int (m * MXSER_PORTS_PER_BOARD)] }) d1)"
    by (simp add: mxser_initbrd_def d1_def case_prod_beta)
  ultimately show ?thesis
    using only_io_drv_ok by metis
qed

lemma getcfg_drv_ok:
  "drv_ok d \<Longrightarrow> m < 4 \<Longrightarrow> board_ok hw \<Longrightarrow> drv_ok (snd (run_state (mxser_getcfg m hw) d))"
  by (auto simp: drv_ok_def mxser_getcfg_def defined_run_def dest!: in_set_conv_nth [THEN iffD1] 
    subsetD [OF set_update_subset_insert])

lemma board_steps_ok:
  assumes "drv_ok d" "m < 4" "board_ok hw"
  shows "drv_ok (snd (run_state (mxser_initbrd m hw) (snd (run_state (mxser_getcfg m hw) d))))"
  using assms by (intro initbrd_drv_ok getcfg_drv_ok board_ok_ports)

lemma isa_scan_ok:
  assumes "drv_ok d" "m \<le> 4" "hw_shape hw" "run_state (isa_scan caps m hw) d = ((m', hw'), e)"
  shows "drv_ok e \<and> m' \<le> 4 \<and> hw_shape hw'"
  using assms
proof (induction caps arbitrary: m hw d)
  case Nil
  then show ?case by (simp add: isa_scan.simps)
next
  case (Cons cap caps)
  consider "4 \<le> m \<or> cap = 0" | "m < 4" "cap \<noteq> 0" by linarith
  then show ?case
  proof cases
    case 1
    then show ?thesis
      using Cons.prems Cons.IH [of d m hw] by (auto simp: isa_scan.simps split: if_splits)
  next
    case 2
    obtain r hw1 d1 where conf: "run_state (mxser_get_ISA_conf cap hw) d = ((r, hw1), d1)"
      by (metis prod.collapse)
    have d1: "drv_ok d1"
      using only_io_drv_ok [OF isa_only_io Cons.prems(1), of cap hw] conf by simp
    have hw1: "hw_shape hw1" "0 < r \<Longrightarrow> board_ok hw1"
      using isa_conf_ok [OF Cons.prems(3) conf] by auto
    define hw2 where "hw2 = hw1\<lparr>hw_busNum := 0, hw_devNum := 0, hw_pdev := 0\<rparr>"
    have hw2: "hw_shape hw2" "0 < r \<Longrightarrow> board_ok hw2"
      using hw1 by (simp_all add: hw2_def hw_shape_def board_ok_def)
    show ?thesis
    proof (cases "r \<le> 0")
      case True
      then show ?thesis
        using Cons.prems(2,4) Cons.IH [OF d1 _ hw1(1), of m] 2 conf by (simp add: isa_scan.simps)
    next
      case False
      define d2 where "d2 = snd (run_state (mxser_getcfg m hw2) d1)"
      define rc where "rc = fst (run_state (mxser_initbrd m hw2) d2)"
      define d3 where "d3 = snd (run_state (mxser_initbrd m hw2) d2)"
      have d3: "drv_ok d3"
        using board_steps_ok [OF d1 2(1) hw2(2)] False by (simp add: d3_def d2_def)
      have "run_state (isa_scan caps (if rc < 0 then m else m + 1) hw2) d3 = ((m', hw'), e)"
        using Cons.prems(4) 2 conf False
        by (simp add: isa_scan.simps Let_def hw2_def [symmetric] d2_def [symmetric] d3_def [symmetric]
          rc_def [symmetric] case_prod_beta split: if_splits)
      then show ?thesis
        using Cons.IH [OF d3 _ hw2(1), of "if rc < 0 then m else m + 1"] 2(1) by simp
    qed
  qed
qed

lemma pci_board_ok:
  assumes "drv_ok d" "m \<le> 4" "hw_shape hw" "1 \<le> bt" "bt \<le> 32"
    and "run_state (pci_board pdev bt m hw) d = ((m', hw'), e)"
  shows "drv_ok e \<and> m' \<le> 4 \<and> hw_shape hw'"
proof -
  define head where "head = (do { bus \<leftarrow> kcall ''pci_bus_number'' [pdev]; devfn \<leftarrow> kcall ''pci_devfn'' [pdev];
     ret (hw\<lparr>hw_busNum := bus, hw_devNum := ((devfn div 8) mod 32) * 8, hw_pdev := pdev\<rparr>) } :: mxser_hwconf drv_m)"
  have "only_io head"
    unfolding head_def by (intro io_rules)
  define hw1 d1 where "hw1 = fst (run_state head d)" and "d1 = snd (run_state head d)"
  have d1: "drv_ok d1"
    using only_io_drv_ok [OF \<open>only_io head\<close> assms(1)] by (simp add: d1_def)
  have hw1: "hw_shape hw1"
    using assms(3) by (simp add: hw1_def head_def hw_shape_def)
  define fail d2 where "fail = fst (run_state (kcall ''pci_enable_device'' [pdev] :: int drv_m) d1)"
    and "d2 = snd (run_state (kcall ''pci_enable_device'' [pdev] :: int drv_m) d1)"
  have d2: "drv_ok d2"
    unfolding d2_def by (intro only_io_drv_ok io_rules d1)
  obtain rv hw2 d3 where conf: "run_state (mxser_get_PCI_conf bt hw1) d2 = ((rv, hw2), d3)"
    by (metis prod.collapse)
  have d3: "drv_ok d3"
    using only_io_drv_ok [OF pci_only_io d2, of bt hw1] conf by simp
  have hw2: "board_ok hw2"
    using pci_conf_ok [OF hw1 assms(4,5), of d2] conf by simp
  define d4 rc where "d4 = snd (run_state (mxser_initbrd m hw2) (snd (run_state (mxser_getcfg m hw2) d3)))"
    and "rc = fst (run_state (mxser_initbrd m hw2) (snd (run_state (mxser_getcfg m hw2) d3)))"
  have d4: "m < 4 \<Longrightarrow> drv_ok d4"
    using board_steps_ok [OF d3 _ hw2] by (simp add: d4_def)
  have run: "((m', hw'), e) = (if 4 \<le> m then ((m, hw1), d1) else if fail \<noteq> 0 then ((m, hw1), d2)
      else if rv < 0 then ((m, hw2), d3) else ((if rc < 0 then m else m + 1, hw2), d4))"
  proof -
    have E: "run_state (pci_board pdev bt m hw) d = (if 4 \<le> m then ((m, hw1), d1) else
      run_state (do {
       fail \<leftarrow> kcall ''pci_enable_device'' [pdev];
       if fail \<noteq> 0 then ret (m, hw1)
       else do {
         (retval, hw) \<leftarrow> mxser_get_PCI_conf bt hw1;
         if retval < 0 then ret (m, hw)
         else do {
           mxser_getcfg m hw;
           rc \<leftarrow> mxser_initbrd m hw;
           ret (if rc < 0 then m else m + 1, hw) } } }) d1)"
      by (simp add: pci_board_def head_def hw1_def d1_def Let_def)
    show ?thesis
      unfolding assms(6) [symmetric] E
      by (cases "4 \<le> m"; cases "fail = 0"; cases "rv < 0")
        (simp_all add: fail_def [symmetric] d2_def [symmetric] d4_def [symmetric] rc_def [symmetric]
          case_prod_beta conf del: run_kcall)
  qed
  show ?thesis
    using run assms(2) d1 d2 d3 d4 hw1 hw2 by (auto simp: board_ok_def split: if_splits)
qed

lemma pci_scan_ok:
  assumes "drv_ok d" "m \<le> 4" "hw_shape hw" "\<forall>b \<in> set brds. 1 \<le> snd b \<and> snd b \<le> 32"
  shows "drv_ok (snd (run_state (pci_scan fuel brds pdev m hw) d))"
  using assms
proof (induction fuel brds pdev m hw arbitrary: d rule: pci_scan.induct)
  case (3 fuel device bt brds pdev m hw)
  define pd d1 where "pd = fst (run_state (kcall ''pci_get_device'' [PCI_VENDOR_ID_MOXA, device, pdev] :: int drv_m) d)"
    and "d1 = snd (run_state (kcall ''pci_get_device'' [PCI_VENDOR_ID_MOXA, device, pdev] :: int drv_m) d)"
  have d1: "drv_ok d1"
    unfolding d1_def by (intro only_io_drv_ok io_rules 3)
  obtain m1 hw1 d2 where b: "run_state (pci_board pd bt m hw) d1 = ((m1, hw1), d2)"
    by (metis prod.collapse)
  have ok: "drv_ok d2 \<and> m1 \<le> 4 \<and> hw_shape hw1"
    using pci_board_ok [OF d1 3(4,5) _ _ b] 3(6) by simp
  show ?case
  proof (cases "pd = 0")
    case True
    then show ?thesis
      using 3(1) [OF True _ 3(4,5)] d1 3(6)
      by (simp add: pci_scan.simps pd_def d1_def)
  next
    case False
    then show ?thesis
      using 3(2) [OF False, of d2 m1 hw1] ok b 3(6)
      by (simp add: pci_scan.simps pd_def [symmetric] d1_def [symmetric] case_prod_beta del: run_kcall)
  qed
qed (simp_all add: pci_scan.simps)

section \<open>The scan of the PCI bus ends\<close>

definition keeps_env :: "('x, 'a) io_m \<Rightarrow> bool" where
  "keeps_env m \<longleftrightarrow> (\<forall>s. ienv (snd (run_state m s)) = ienv s)"

named_theorems env_rules \<open>rules for \<open>keeps_env\<close>\<close>

lemma only_io_env: "only_io m \<Longrightarrow> keeps_env m"
  unfolding keeps_env_def only_io_def by (metis io.select_convs(1) io.surjective io.update_convs(2))

lemma keeps_env_bind [env_rules]:
  "keeps_env m \<Longrightarrow> (\<And>x. keeps_env (f x)) \<Longrightarrow> keeps_env (State_Monad.bind m f)"
  by (simp add: keeps_env_def case_prod_beta)

lemma keeps_env_branch [env_rules]:
  "keeps_env m \<Longrightarrow> keeps_env n \<Longrightarrow> keeps_env (if b then m else n)"
  "(\<And>a b. keeps_env (g a b)) \<Longrightarrow> keeps_env (case pr of (a, b) \<Rightarrow> g a b)"
  by (auto split: prod.splits)

lemma on_port_env [env_rules]: "keeps_env (on_port n x m)"
  by (simp add: keeps_env_def case_prod_beta)

lemma init_ports_env [env_rules]: "keeps_env (init_ports hw n i k)"
  by (induction k arbitrary: i)
    (simp_all add: std_termios_def keeps_env_def case_prod_beta)

lemma getcfg_env [env_rules]: "keeps_env (mxser_getcfg m hw)"
  by (simp add: keeps_env_def mxser_getcfg_def)

lemma pci_board_env [env_rules]: "keeps_env (pci_board pdev bt m hw)"
  unfolding pci_board_def mxser_initbrd_def Let_def
  by (intro keeps_env_bind keeps_env_branch init_ports_env getcfg_env only_io_env io_rules)

lemma isa_scan_env [env_rules]: "keeps_env (isa_scan caps m hw)"
proof (induction caps arbitrary: m hw)
  case (Cons cap caps)
  then show ?case
    unfolding isa_scan.simps mxser_initbrd_def Let_def
    by (intro keeps_env_bind keeps_env_branch init_ports_env getcfg_env only_io_env Cons io_rules)
qed (simp add: isa_scan.simps only_io_env io_rules)

definition finite_bus :: "nat \<Rightarrow> env \<Rightarrow> bool" where
  "finite_bus N e \<longleftrightarrow> (\<forall>h dev from. let r = env_k e h ''pci_get_device'' [PCI_VENDOR_ID_MOXA, dev, from] in
     r = 0 \<or> from < r \<and> r \<le> int N)"

lemma pci_scan_some:
  assumes "finite_bus N (ienv d)" "0 \<le> pdev" "pdev \<le> int N"
    and "length brds * (N + 1) + nat (int N - pdev) \<le> fuel"
  shows "fst (run_state (pci_scan fuel brds pdev m hw) d) \<noteq> None"
  using assms
proof (induction fuel brds pdev m hw arbitrary: d rule: pci_scan.induct)
  case (3 fuel device bt brds pdev m hw)
  define pd d1 where "pd = fst (run_state (kcall ''pci_get_device'' [PCI_VENDOR_ID_MOXA, device, pdev] :: int drv_m) d)"
    and "d1 = snd (run_state (kcall ''pci_get_device'' [PCI_VENDOR_ID_MOXA, device, pdev] :: int drv_m) d)"
  have pd: "pd = 0 \<or> pdev < pd \<and> pd \<le> int N"
    using 3(3) by (simp add: finite_bus_def Let_def pd_def)
  show ?case
  proof (cases "pd = 0")
    case True
    have "fst (run_state (pci_scan fuel brds pd m hw) d1) \<noteq> None"
      using 3(3,6) True by (intro 3(1)) (simp_all add: d1_def)
    then show ?thesis
      using True
      by (simp add: pci_scan.simps pd_def [symmetric] d1_def [symmetric] case_prod_beta del: run_kcall)
  next
    case False
    obtain m1 hw1 d2 where b: "run_state (pci_board pd bt m hw) d1 = ((m1, hw1), d2)"
      by (metis prod.collapse)
    have "ienv d2 = ienv d1"
      using pci_board_env [of pd bt m hw, unfolded keeps_env_def, rule_format, of d1] by (simp add: b)
    then have "ienv d2 = ienv d"
      by (simp add: d1_def)
    moreover have "nat (int N - pd) < nat (int N - pdev)"
      using False pd by simp
    then have "length ((device, bt) # brds) * (N + 1) + nat (int N - pd) \<le> fuel"
      using 3(6) by linarith
    ultimately have "fst (run_state (pci_scan fuel ((device, bt) # brds) pd m1 hw1) d2) \<noteq> None"
      using 3(3,4) False pd by (intro 3(2)) simp_all
    then show ?thesis
      using False b
      by (simp add: pci_scan.simps pd_def [symmetric] d1_def [symmetric] case_prod_beta del: run_kcall)
  qed
qed (simp_all add: pci_scan.simps)

text \<open>The parts of \<open>mxser_init\<close>: what comes before the scan of the PCI bus and what comes after.\<close>

definition init_isa :: "(nat \<times> mxser_hwconf) drv_m" where
  "init_isa = do {
     reset_tables;
     caps \<leftarrow> gets (\<lambda>d. take MXSER_BOARDS (d_ioaddr d));
     (m, hw) \<leftarrow> isa_scan mxserBoardCAP 0 empty_hwconf;
     isa_scan caps m hw }"

lemma init_isa_env: "keeps_env init_isa"
  unfolding init_isa_def
  by (intro keeps_env_bind keeps_env_branch isa_scan_env)
    (simp_all add: keeps_env_def reset_tables_def)

definition init_register :: "int option drv_m" where
  "init_register = do {
     link_ports;
     ret1 \<leftarrow> kcall ''tty_register_driver'' [];
     if ret1 = 0 then ret (Some 0)
     else do {
       cfg \<leftarrow> gets d_cfg;
       each_board free_board_irq 0 cfg;
       ret (Some (-1)) } }"

lemma init_split: "mxser_init fuel = do {
     drv \<leftarrow> kcall ''alloc_tty_driver'' [MXSER_PORTS + 1];
     if drv = 0 then ret (Some (-ENOMEM))
     else do {
       (m, hw) \<leftarrow> init_isa;
       pci \<leftarrow> pci_scan fuel mxser_pcibrds 0 m hw;
       case pci of None \<Rightarrow> ret None | Some _ \<Rightarrow> init_register } }"
  by (simp add: mxser_init_def init_isa_def init_register_def case_prod_beta'
    cong: if_cong option.case_cong)

lemma init_isa_ok:
  assumes "length (d_ports d) = 32" "length (d_cfg d) = 4" "defined_run d"
    and "run_state init_isa d = ((m, hw), e)"
  shows "drv_ok e \<and> m \<le> 4 \<and> hw_shape hw"
proof -
  define d1 where "d1 = snd (run_state reset_tables d)"
  have d1: "drv_ok d1"
    using assms(1-3) by (auto simp: d1_def reset_tables_def drv_ok_def defined_run_def)
  obtain m1 hw1 d2 where s1: "run_state (isa_scan mxserBoardCAP 0 empty_hwconf) d1 = ((m1, hw1), d2)"
    by (metis prod.collapse)
  have ok: "drv_ok d2 \<and> m1 \<le> 4 \<and> hw_shape hw1"
    by (rule isa_scan_ok [OF d1 _ _ s1]) (simp_all add: hw_shape_def empty_hwconf_def)
  have "run_state (isa_scan (take 4 (d_ioaddr d1)) m1 hw1) d2 = ((m, hw), e)"
    using assms(4) s1 by (simp add: init_isa_def d1_def [symmetric] case_prod_beta)
  with ok show ?thesis
    using isa_scan_ok by blast
qed

lemma register_only_io: "only_io init_register"
  unfolding init_register_def link_ports_def by (intro io_rules)

lemma pcibrds_types: "\<forall>b \<in> set mxser_pcibrds. 1 \<le> snd b \<and> snd b \<le> 32"
  by (simp add: mxser_pcibrds_def)

text \<open>
  C11. Whatever boards answer and whatever the kernel refuses, module initialisation stays within
  the driver's tables: at most four boards are recorded, each complete, of a known type and with
  the number of ports of that type, and nothing undefined is done.
\<close>

theorem init_tables_ok:
  assumes "length (d_ports d) = 32" "length (d_cfg d) = 4" "defined_run d"
    and "run_state (mxser_init fuel) d = (Some r, e)" "r \<noteq> -ENOMEM"
  shows "length (d_ports e) = 32 \<and> length (d_cfg e) = 4 \<and> defined_run e \<and>
    (\<forall>h \<in> set (d_cfg e). hw_board_type h = -1 \<or> board_ok h)"
proof -
  define d1 where "d1 = snd (run_state (kcall ''alloc_tty_driver'' [MXSER_PORTS + 1] :: int drv_m) d)"
  have d1: "length (d_ports d1) = 32" "length (d_cfg d1) = 4" "defined_run d1"
    using assms(1-3) by (simp_all add: d1_def defined_run_def)
  obtain m hw d2 where isa: "run_state init_isa d1 = ((m, hw), d2)"
    by (metis prod.collapse)
  have d2: "drv_ok d2 \<and> m \<le> 4 \<and> hw_shape hw"
    using init_isa_ok [OF d1 isa] .
  define d3 where "d3 = snd (run_state (pci_scan fuel mxser_pcibrds 0 m hw) d2)"
  have "drv_ok d3"
    using pci_scan_ok [of d2 m hw mxser_pcibrds fuel 0] d2 pcibrds_types by (simp add: d3_def)
  then have d4: "drv_ok (snd (run_state init_register d3))"
    by (intro only_io_drv_ok register_only_io)
  have "e = snd (run_state init_register d3)"
    using assms(4,5) isa
    by (auto simp: init_split d1_def d3_def case_prod_beta split: if_splits option.splits)
  with d4 show ?thesis
    by (simp add: drv_ok_def)
qed

text \<open>A driver on a machine without boards.\<close>

definition drv_example :: mxdrv where
  "drv_example = \<lparr>ienv = \<lparr>env_b = (\<lambda>_ _. 0), env_w = (\<lambda>_ _. 0), env_l = (\<lambda>_ _. 0),
       env_k = (\<lambda>_ f _. if f = ''alloc_tty_driver'' then 1 else 0)\<rparr>, ihist = [],
     d_ports = replicate 32 port_example, d_cfg = replicate 4 empty_hwconf, d_ioaddr = [0, 0, 0, 0],
     d_ttymajor = 30, d_calloutmajor = 35, d_std_termios = termios_example,
     d_GMStatus = replicate 32 \<lparr>ms_cflag = 0, ms_cts = 0, ms_dsr = 0, ms_ri = 0, ms_dcd = 0\<rparr>,
     d_mon_ext = replicate 32 empty_mon\<rparr>"

lemma isa_scan_none: "set caps \<subseteq> {0} \<Longrightarrow> run_state (isa_scan caps m hw) d = ((m, hw), d)"
  by (induction caps) (simp_all add: isa_scan.simps)

lemma pci_scan_none:
  "env_k (ienv d) = (\<lambda>_ f _. if f = ''alloc_tty_driver'' then 1 else 0) \<Longrightarrow>
   fst (run_state (pci_scan (length brds) brds 0 m hw) d) = Some (m, hw) \<and>
   ienv (snd (run_state (pci_scan (length brds) brds 0 m hw) d)) = ienv d"
proof (induction brds arbitrary: d)
  case (Cons b brds)
  then show ?case
    by (cases b) (simp add: pci_scan.simps)
qed (simp add: pci_scan.simps)

lemma register_value:
  assumes "env_k (ienv d) = (\<lambda>_ f _. if f = ''alloc_tty_driver'' then 1 else 0)"
  shows "fst (run_state init_register d) = Some 0"
proof -
  have "only_io (link_ports :: unit drv_m)"
    unfolding link_ports_def by (intro io_rules)
  then obtain h where "snd (run_state (link_ports :: unit drv_m) d) = d\<lparr>ihist := h @ ihist d\<rparr>"
    by (rule only_ioE)
  then show ?thesis
    using assms by (simp add: init_register_def case_prod_beta)
qed

lemma init_example: "fst (run_state (mxser_init 26) drv_example) = Some 0"
proof -
  have "length mxser_pcibrds = 26"
    by (simp add: mxser_pcibrds_def)
  then show ?thesis
    using pci_scan_none [of _ mxser_pcibrds] register_value
    by (simp add: init_split init_isa_def reset_tables_def isa_scan_none mxserBoardCAP_def
      drv_example_def case_prod_beta)
qed

lemma init_tables_ok_witness:
  "defined_run (snd (run_state (mxser_init 26) drv_example))"
  using init_tables_ok [of drv_example 26 0 "snd (run_state (mxser_init 26) drv_example)"]
  by (simp add: init_example prod_eq_iff) (simp add: drv_example_def defined_run_def)

text \<open>
  C24. Module initialisation returns.  On a PCI bus whose devices are numbered up to \<open>N\<close> and that
  the kernel walks in order, \<open>26 * (N + 1) + N\<close> rounds of the scan are enough, and the result is
  0, -1 or \<open>-ENOMEM\<close>; a board that fails to initialise never stops the scan.
\<close>

theorem init_returns:
  assumes "finite_bus N (ienv d)" "26 * (N + 1) + N \<le> fuel"
  shows "\<exists>r \<in> {0, -1, -ENOMEM}. fst (run_state (mxser_init fuel) d) = Some r"
proof -
  define d1 where "d1 = snd (run_state (kcall ''alloc_tty_driver'' [MXSER_PORTS + 1] :: int drv_m) d)"
  obtain m hw d2 where isa: "run_state init_isa d1 = ((m, hw), d2)"
    by (metis prod.collapse)
  have "ienv d2 = ienv d1"
    using init_isa_env [unfolded keeps_env_def, rule_format, of d1] isa by simp
  then have "finite_bus N (ienv d2)"
    using assms(1) by (simp add: d1_def)
  moreover have "length mxser_pcibrds = 26"
    by (simp add: mxser_pcibrds_def)
  ultimately have "fst (run_state (pci_scan fuel mxser_pcibrds 0 m hw) d2) \<noteq> None"
    using assms(2) by (intro pci_scan_some [of N]) simp_all
  moreover have "fst (run_state init_register d) \<in> {Some 0, Some (-1)}" for d
    by (simp add: init_register_def case_prod_beta)
  ultimately show ?thesis
    using isa by (auto simp: init_split d1_def case_prod_beta split: option.splits)
qed

lemma init_returns_witness: "\<exists>r \<in> {0, -1, -ENOMEM}. fst (run_state (mxser_init 26) drv_example) = Some r"
  using init_returns [of 0 drv_example 26] by (simp add: finite_bus_def drv_example_def)

lemma eeprom_read_word_witness:
  "hd (ihist (snd (run_state (read_word 0x180 3) drv_example))) = Out_b 0 0x180"
  using eeprom_read_word [where s = drv_example, OF prod.collapse [symmetric]] by blast

lemma initbrd_configures_witness:
  "port_configured (empty_hwconf\<lparr>hw_ports := 2\<rparr>) 9 1
     (d_ports (snd (run_state (mxser_initbrd 1 (empty_hwconf\<lparr>hw_ports := 2\<rparr>)) drv_example)) ! 9)"
  using initbrd_configures [of 1 "empty_hwconf\<lparr>hw_ports := 2\<rparr>" drv_example,
    OF _ _ _ prod.collapse [symmetric]]
  by (auto simp: drv_example_def dest: spec [of _ "1 :: nat"])

text \<open>An ISA board with identifier 2 whose EEPROM holds ones.\<close>

definition isa_env :: env where
  "isa_env = \<lparr>env_b = (\<lambda>h p. if p = 0x181 then 2 else if p = 0x182 then
       (if h \<noteq> [] \<and> hd h = In_b 0x182 0x4D then 1 else 0x4D) else 0xFF),
     env_w = (\<lambda>_ _. 0), env_l = (\<lambda>_ _. 0), env_k = (\<lambda>_ _ _. 0)\<rparr>"

definition isa_start :: io where
  "isa_start = \<lparr>ienv = isa_env, ihist = []\<rparr>"

lemma recv_ones:
  assumes "\<And>h. env_b (ienv s) h port = 0xFF" "n \<le> 16"
  shows "fst (run_state (recv_bits port n w) s) = w OR mask n"
  using assms
proof (induction n arbitrary: s w)
  case (Suc n)
  have "set_bit n w OR mask n = w OR mask (Suc n)"
    by (auto simp: bit_eq_iff bit_simps less_Suc_eq)
  then show ?case
    using Suc by simp
qed simp

lemma read_ones:
  assumes "\<And>h. env_b (ienv s) h port = 0xFF"
  shows "fst (run_state (read_words port i n) s) = replicate n 0xFFFF"
  using assms
proof (induction n arbitrary: i s)
  case (Suc n)
  have env: "ienv (snd (run_state (read_word port i) s)) = ienv s"
    using only_io_env [of "read_word port i :: ('a, u16) io_m"]
    by (simp add: keeps_env_def read_word_def io_rules)
  have env2: "ienv (snd (run_state (send_addr port k m) s)) = ienv s" for k m
    using only_io_env [of "send_addr port k m :: ('a, unit) io_m"]
    by (simp add: keeps_env_def io_rules)
  have "fst (run_state (read_word port i) s) = 0xFFFF"
    by (simp add: read_word_def case_prod_beta recv_ones Suc.prems env2 mask_numeral)
  then show ?case
    using Suc.IH [of "snd (run_state (read_word port i) s)" "i + 1"] Suc.prems env
    by (simp add: case_prod_beta)
qed simp

lemma magic_numeral: "magic_scan port (numeral k) j = do {
     x \<leftarrow> inb (port + 2);
     if x = 0x4D then magic_scan port (pred_numeral k) 1
     else if j = 1 \<and> x = 1 then ret 2
     else magic_scan port (pred_numeral k) 0 }"
  by (simp add: numeral_eq_Suc)

lemma isa_example: "fst (run_state (mxser_read_register 0x180) isa_start) = (2, replicate 14 0xFFFF)"
proof -
  define s where "s = snd (run_state (mxser_program_mode 0x180) isa_start)"
  have "fst (run_state (mxser_program_mode 0x180) isa_start) = 2"
    by (simp add: mxser_program_mode_def isa_start_def isa_env_def isa_boards_def magic_numeral)
  moreover have "ienv s = isa_env"
    by (simp add: s_def mxser_program_mode_def isa_start_def isa_env_def isa_boards_def magic_numeral)
  then have "fst (run_state (read_words 0x180 0 14) s) = replicate 14 0xFFFF"
    by (intro read_ones) (simp add: isa_env_def)
  ultimately show ?thesis
    by (simp add: mxser_read_register_def s_def case_prod_beta)
qed

lemma isa_board_accepted_witness:
  "hw_irq (snd (fst (run_state (mxser_get_ISA_conf 0x180 empty_hwconf) isa_start))) \<in> {1..15}"
proof -
  obtain u where reg: "run_state (mxser_read_register 0x180) isa_start = ((2, replicate 14 0xFFFF), u)"
    using isa_example by (metis prod.collapse)
  have "isa_irq 4 (replicate 14 0xFFFF) = Some 0xFFFF"
    by (simp add: isa_irq_def Let_def)
  then have "fst (fst (run_state (mxser_get_ISA_conf 0x180 empty_hwconf) isa_start)) = 4"
    by (simp add: mxser_get_ISA_conf_def reg isa_boards_def Let_def case_prod_beta)
  then show ?thesis
    using isa_board_accepted [where r = 4 and hw = empty_hwconf, OF _ _ isa_example]
    by (metis prod.collapse zero_less_numeral)
qed
text \<open>The scan of the interrupt handler on this driver, all requests clear.\<close>

lemma isr_scan_isolates_witness:
  "d_ports (snd (run_state (isr_scan 0 0 8 0xFF 1) drv_example)) ! 3 = d_ports drv_example ! 3"
  using isr_scan_isolates [of 0 0 8 "0xFF" drv_example "snd (run_state (isr_scan 0 0 8 0xFF 1) drv_example)" 3]
  by (simp add: prod_eq_iff)

end
