(* ===== verification/Mxser_Control.thy ===== *)
theory Mxser_Control
  imports Mxser_Probe
begin

text \<open>
  The control device of the serial driver (\<open>modules/mxser/mxser.c\<close>): the requests of
  \<open>mxser_ioctl_special\<close>, which answer for all ports at once, the dispatch between it and the
  requests of a port, and the DTR line of port 8 the secure device server uses.
\<close>

datatype special_cmd =
    MOXA_GET_CONF "unit uarg" | MOXA_GET_MAJOR "unit uarg" | MOXA_GET_CUMAJOR "unit uarg"
  | MOXA_CHKPORTENABLE "unit uarg" | MOXA_GETDATACOUNT "unit uarg" | MOXA_GETMSTATUS "unit uarg"
  | MOXA_ASPP_MON_EXT "unit uarg" | Special_other

definition hw_words :: "mxser_hwconf \<Rightarrow> int list" where
  "hw_words h = [hw_board_type h, int (hw_ports h), hw_irq h, int (hw_vector h), uint (hw_vector_mask h),
     hw_uart_type h] @ map int (hw_ioaddr h) @ hw_baud_base h @ [hw_busNum h, hw_devNum h, hw_pdev h,
     hw_IsMoxaMustChipFlag h] @ hw_MaxCanSetBaudRate h @ map int (hw_opmode_ioaddr h)"

definition reply :: "unit uarg \<Rightarrow> int list \<Rightarrow> int drv_m" where
  "reply u vs = do { n \<leftarrow> copy_to_user u vs; ret (if n \<noteq> 0 then -EFAULT else 0) }"

section \<open>Which ports exist\<close>

definition ports_enabled :: "mxport list \<Rightarrow> u32" where
  "ports_enabled ps = fold (\<lambda>i r. if i_base (ps ! i) \<noteq> 0 then r OR push_bit i 1 else r) [0..<32] 0"

section \<open>Modem status of all ports\<close>

definition termios_now :: "mxport \<Rightarrow> ktermios" where
  "termios_now p = (if i_has_tty p then t_termios (i_t p) else i_normal_termios p)"

definition upd_GMStatus :: "nat \<Rightarrow> (mxser_mstatus \<Rightarrow> mxser_mstatus) \<Rightarrow> unit drv_m" where
  "upd_GMStatus i f = modify (\<lambda>d. d\<lparr>d_GMStatus := (d_GMStatus d)[i := f (d_GMStatus d ! i)]\<rparr>)"

definition line_of :: "u8 \<Rightarrow> u8 \<Rightarrow> int" where
  "line_of status m = (if status AND m \<noteq> 0 then 1 else 0)"

definition gm_status :: "nat \<Rightarrow> unit drv_m" where
  "gm_status i = do {
     upd_GMStatus i (\<lambda>g. g\<lparr>ms_ri := 0\<rparr>);
     p \<leftarrow> gets (\<lambda>d. d_ports d ! i);
     if i_base p = 0 then upd_GMStatus i (\<lambda>g. g\<lparr>ms_dcd := 0, ms_dsr := 0, ms_cts := 0\<rparr>)
     else do {
       upd_GMStatus i (\<lambda>g. g\<lparr>ms_cflag := c_cflag (termios_now p)\<rparr>);
       status \<leftarrow> inb (i_base p + UART_MSR);
       upd_GMStatus i (\<lambda>g. g\<lparr>ms_dcd := line_of status 0x80, ms_dsr := line_of status 0x20,
         ms_cts := line_of status 0x10\<rparr>) } }"

fun for_ports :: "(nat \<Rightarrow> unit drv_m) \<Rightarrow> nat \<Rightarrow> nat \<Rightarrow> unit drv_m" where
  "for_ports f i 0 = ret ()"
| "for_ports f i (Suc k) = do { f i; for_ports f (i + 1) k }"

definition gm_words :: "mxser_mstatus \<Rightarrow> int list" where
  "gm_words g = [uint (ms_cflag g), ms_cts g, ms_dsr g, ms_ri g, ms_dcd g]"

section \<open>The monitor of all ports\<close>

definition count_msr :: "u8 \<Rightarrow> unit mx_m" where
  "count_msr status = do {
     whenM (status AND 0x04 \<noteq> 0) (upd_icount (\<lambda>c. c\<lparr>ic_rng := ic_rng c + 1\<rparr>));
     whenM (status AND 0x02 \<noteq> 0) (upd_icount (\<lambda>c. c\<lparr>ic_dsr := ic_dsr c + 1\<rparr>));
     whenM (status AND 0x08 \<noteq> 0) (upd_icount (\<lambda>c. c\<lparr>ic_dcd := ic_dcd c + 1\<rparr>));
     whenM (status AND 0x01 \<noteq> 0) (upd_icount (\<lambda>c. c\<lparr>ic_cts := ic_cts c + 1\<rparr>));
     modify (\<lambda>s. s\<lparr>i_mon_data := (i_mon_data s)\<lparr>mon_modem_status := ucast status\<rparr>\<rparr>) }"

definition mon_row :: "mxport \<Rightarrow> u8 \<Rightarrow> mxser_mon_ext" where
  "mon_row p opmode = (let m = i_mon_data p; cflag = c_cflag (termios_now p); iflag = c_iflag (termios_now p) in
    \<lparr>mx_rx_cnt = mon_rxcnt m, mx_tx_cnt = mon_txcnt m, mx_up_rxcnt = mon_up_rxcnt m,
     mx_up_txcnt = mon_up_txcnt m, mx_modem_status = mon_modem_status m, mx_baudrate = i_realbaud p,
     mx_databits = cflag AND CSIZE, mx_stopbits = cflag AND CSTOPB,
     mx_parity = cflag AND (PARENB OR PARODD OR CMSPAR),
     mx_flowctrl = (if cflag AND CRTSCTS \<noteq> 0 then 0x03 else 0) OR
       (if iflag AND (IXON OR IXOFF) \<noteq> 0 then 0x0C else 0),
     mx_fifo = (if i_type p = PORT_16550A then 1 else 0), mx_iftype = opmode\<rparr>)"

definition mon_ext :: "nat \<Rightarrow> unit drv_m" where
  "mon_ext i = do {
     p \<leftarrow> gets (\<lambda>d. d_ports d ! i);
     whenM (i_base p \<noteq> 0) (do {
       on_port i () (do { status \<leftarrow> mxser_get_msr False; count_msr status });
       p \<leftarrow> gets (\<lambda>d. d_ports d ! i);
       x \<leftarrow> inb (i_opmode_ioaddr p);
       modify (\<lambda>d. d\<lparr>d_mon_ext := (d_mon_ext d)[i := mon_row p (drop_bit (i mod 4 * 2) x AND 3)]\<rparr>) }) }"

definition mon_ext_words :: "mxser_mon_ext list \<Rightarrow> int list" where
  "mon_ext_words ms = map (uint \<circ> mx_rx_cnt) ms @ map (uint \<circ> mx_tx_cnt) ms @
     map (uint \<circ> mx_up_rxcnt) ms @ map (uint \<circ> mx_up_txcnt) ms @ map (uint \<circ> mx_modem_status) ms @
     map mx_baudrate ms @ map (uint \<circ> mx_databits) ms @ map (uint \<circ> mx_stopbits) ms @
     map (uint \<circ> mx_parity) ms @ map (uint \<circ> mx_flowctrl) ms @ map mx_fifo ms @ map (uint \<circ> mx_iftype) ms"

section \<open>The requests\<close>

definition mxser_ioctl_special :: "special_cmd \<Rightarrow> int drv_m" where
  "mxser_ioctl_special cmd = (case cmd of
     MOXA_GET_CONF u \<Rightarrow> access_ok (do { c \<leftarrow> gets d_cfg; reply u (concat (map hw_words c)) })
   | MOXA_GET_MAJOR u \<Rightarrow> access_ok (do { n \<leftarrow> gets d_ttymajor; reply u [n] })
   | MOXA_GET_CUMAJOR u \<Rightarrow> access_ok (do { n \<leftarrow> gets d_calloutmajor; reply u [n] })
   | MOXA_CHKPORTENABLE u \<Rightarrow> access_ok (do {
       ps \<leftarrow> gets d_ports;
       _ \<leftarrow> put_user u (uint (ports_enabled ps));
       ret 0 })
   | MOXA_GETDATACOUNT u \<Rightarrow> access_ok (do {
       ps \<leftarrow> gets d_ports;
       reply u (0 # map (uint \<circ> g_rxcnt) ps @ map (uint \<circ> g_txcnt) ps) })
   | MOXA_GETMSTATUS u \<Rightarrow> access_ok (do {
       for_ports gm_status 0 32;
       g \<leftarrow> gets d_GMStatus;
       reply u (concat (map gm_words g)) })
   | MOXA_ASPP_MON_EXT u \<Rightarrow> access_ok (do {
       for_ports mon_ext 0 32;
       m \<leftarrow> gets d_mon_ext;
       reply u (mon_ext_words m) })
   | Special_other \<Rightarrow> ret (-ENOIOCTLCMD))"

text \<open>The request on line 32 goes to the control device, the others to their port.\<close>

definition mx_line_ioctl :: "unit mx_m \<Rightarrow> nat \<Rightarrow> nat \<Rightarrow> special_cmd \<Rightarrow> mx_cmd \<Rightarrow> int option drv_m" where
  "mx_line_ioctl sched rounds line special cmd =
    (if line = 32 then do { r \<leftarrow> mxser_ioctl_special special; ret (Some r) }
     else on_port line None (mxser_ioctl sched rounds cmd))"

definition SDS_PORT8_DTR :: "int \<Rightarrow> unit drv_m" where
  "SDS_PORT8_DTR stat = do {
     base \<leftarrow> gets (\<lambda>d. i_base (d_ports d ! 7));
     oldmcr \<leftarrow> inb (base + UART_MCR);
     whenM (stat = 1) (outb (oldmcr OR 0x01) (base + UART_MCR));
     whenM (stat = 0) (outb (oldmcr AND 0xfe) (base + UART_MCR)) }"

section \<open>What the monitor reports\<close>

lemma ports_enabled_bits:
  assumes "n \<le> 32" "i < n"
  shows "bit (fold (\<lambda>i r. if i_base (ps ! i) \<noteq> 0 then r OR push_bit i 1 else r) [0..<n] (0 :: u32)) i
    \<longleftrightarrow> i_base (ps ! i) \<noteq> 0"
proof -
  have "bit (fold (\<lambda>i r. if i_base (ps ! i) \<noteq> 0 then r OR push_bit i 1 else r) [0..<n] (0 :: u32)) j
    \<longleftrightarrow> j < n \<and> j < 32 \<and> i_base (ps ! j) \<noteq> 0" for j
    by (induction n) (auto simp: bit_simps less_Suc_eq)
  with assms show ?thesis by simp
qed

text \<open>
  The control device reports exactly the configured ports: bit \<open>i\<close> of the answer to
  \<open>MOXA_CHKPORTENABLE\<close> is set when port \<open>i\<close> has an address, for all 32 ports.
\<close>

theorem chkportenable_exact:
  assumes "env_k (ienv d) (ihist d) ''access_ok'' [] \<noteq> 0" "ua_out u = 0"
    and "run_state (mxser_ioctl_special (MOXA_CHKPORTENABLE u)) d = (r, e)"
  shows "r = 0 \<and> (\<exists>w :: u32. hd (ihist e) = To_user [uint w] \<and>
    (\<forall>i < 32. bit w i \<longleftrightarrow> i_base (d_ports d ! i) \<noteq> 0))"
proof -
  have "r = 0 \<and> hd (ihist e) = To_user [uint (ports_enabled (d_ports d))]"
    using assms by (auto simp: mxser_ioctl_special_def access_ok_def)
  then show ?thesis
    using ports_enabled_bits [of 32 _ "d_ports d"] unfolding ports_enabled_def by blast
qed

text \<open>A machine whose kernel grants every access.\<close>

definition control_example :: mxdrv where
  "control_example = drv_example\<lparr>ienv := (ienv drv_example)\<lparr>env_k := (\<lambda>_ _ _. 1)\<rparr>\<rparr>"

lemma chkportenable_exact_witness:
  "\<exists>w :: u32. hd (ihist (snd (run_state (mxser_ioctl_special (MOXA_CHKPORTENABLE
      \<lparr>ua_left = 0, ua_in = (), ua_out = 0\<rparr>)) control_example))) = To_user [uint w] \<and> bit w 5"
proof -
  have "i_base (d_ports control_example ! 5) \<noteq> 0"
    by (simp add: control_example_def drv_example_def port_example_def)
  then show ?thesis
    using chkportenable_exact [of control_example "\<lparr>ua_left = 0, ua_in = (), ua_out = 0\<rparr>",
      OF _ _ prod.collapse [symmetric]]
    by (auto simp: control_example_def dest!: spec [of _ "5 :: nat"])
qed

text \<open>A row of the monitor.\<close>

lemma count_msr_keeps [simp]:
  "i_base (snd (run_state (count_msr status) s)) = i_base s"
  "i_realbaud (snd (run_state (count_msr status) s)) = i_realbaud s"
  by (simp_all add: count_msr_def upd_icount_def)

lemma and3_less: "x AND 3 < (4 :: u8)"
  by (rule le_less_trans [OF word_and_le1]) simp

lemma mon_ext_row:
  assumes "length (d_ports d) = 32" "length (d_mon_ext d) = 32" "i < 32"
  defines "e \<equiv> snd (run_state (mon_ext i) d)"
  shows "length (d_ports e) = 32" "length (d_mon_ext e) = 32"
    "j \<noteq> i \<Longrightarrow> d_ports e ! j = d_ports d ! j \<and> d_mon_ext e ! j = d_mon_ext d ! j"
    "i_base (d_ports e ! i) = i_base (d_ports d ! i)"
    "if i_base (d_ports d ! i) = 0 then d_mon_ext e ! i = d_mon_ext d ! i
     else \<exists>om < 4. d_mon_ext e ! i = mon_row (d_ports e ! i) om"
  using assms(1-3) and3_less
  by (auto simp: e_def mon_ext_def mxser_get_msr_def case_prod_beta)

lemma for_mon_ext:
  assumes "length (d_ports d) = 32" "length (d_mon_ext d) = 32" "i + k \<le> 32"
  defines "e \<equiv> snd (run_state (for_ports mon_ext i k) d)"
  shows "length (d_ports e) = 32 \<and> length (d_mon_ext e) = 32 \<and>
    (\<forall>j. j < i \<or> i + k \<le> j \<longrightarrow> d_ports e ! j = d_ports d ! j \<and> d_mon_ext e ! j = d_mon_ext d ! j) \<and>
    (\<forall>j. i \<le> j \<and> j < i + k \<longrightarrow> i_base (d_ports e ! j) = i_base (d_ports d ! j) \<and>
       (if i_base (d_ports d ! j) = 0 then d_mon_ext e ! j = d_mon_ext d ! j
        else \<exists>om < 4. d_mon_ext e ! j = mon_row (d_ports e ! j) om))"
  using assms(1-3) unfolding e_def
proof (induction k arbitrary: i d)
  case (Suc k)
  define d1 where "d1 = snd (run_state (mon_ext i) d)"
  have i: "i < 32" using Suc.prems by simp
  note row = mon_ext_row [OF Suc.prems(1,2) i, folded d1_def]
  define e where "e = snd (run_state (for_ports mon_ext (i + 1) k) d1)"
  have "i + 1 + k \<le> 32" using Suc.prems by simp
  note IH = Suc.IH [OF row(1,2) this, folded e_def]
  have e: "snd (run_state (for_ports mon_ext i (Suc k)) d) = e"
    by (simp add: e_def d1_def case_prod_beta)
  have out: "d_ports e ! j = d_ports d ! j \<and> d_mon_ext e ! j = d_mon_ext d ! j"
    if "j < i \<or> i + Suc k \<le> j" for j
    using IH row(3) [of j] that by auto
  have "i_base (d_ports e ! j) = i_base (d_ports d ! j) \<and>
       (if i_base (d_ports d ! j) = 0 then d_mon_ext e ! j = d_mon_ext d ! j
        else \<exists>om < 4. d_mon_ext e ! j = mon_row (d_ports e ! j) om)" if "i \<le> j" "j < i + Suc k" for j
  proof (cases "j = i")
    case True
    have "d_ports e ! i = d_ports d1 ! i" "d_mon_ext e ! i = d_mon_ext d1 ! i"
      using IH by auto
    with True row(4,5) show ?thesis by simp
  next
    case False
    then have "i + 1 \<le> j" "j < i + 1 + k" using that by auto
    with False IH row(3) [of j] show ?thesis by simp
  qed
  with out IH show ?case unfolding e by simp
qed auto

text \<open>
  The monitor of all ports.  After \<open>MOXA_ASPP_MON_EXT\<close> the row of every configured port shows
  that port's counters, speed, line format and flow control, with a two-bit interface type; the
  rows of ports without an address are left as they were.
\<close>

theorem mon_ext_snapshot:
  assumes "length (d_ports d) = 32" "length (d_mon_ext d) = 32"
    and "env_k (ienv d) (ihist d) ''access_ok'' [] \<noteq> 0" "ua_out u = 0"
    and "run_state (mxser_ioctl_special (MOXA_ASPP_MON_EXT u)) d = (r, e)"
  shows "r = 0 \<and> hd (ihist e) = To_user (mon_ext_words (d_mon_ext e)) \<and>
    (\<forall>i < 32. if i_base (d_ports d ! i) = 0 then d_mon_ext e ! i = d_mon_ext d ! i
       else \<exists>om < 4. d_mon_ext e ! i = mon_row (d_ports e ! i) om)"
proof -
  define d1 where "d1 = snd (run_state (kcall ''access_ok'' [] :: int drv_m) d)"
  define d2 where "d2 = snd (run_state (for_ports mon_ext 0 32) d1)"
  have d1: "length (d_ports d1) = 32" "length (d_mon_ext d1) = 32" "d_ports d1 = d_ports d"
    "d_mon_ext d1 = d_mon_ext d"
    using assms(1,2) by (simp_all add: d1_def)
  have "r = 0 \<and> e = d2\<lparr>ihist := To_user (mon_ext_words (d_mon_ext d2)) # ihist d2\<rparr>"
    using assms(3-5) by (auto simp: mxser_ioctl_special_def access_ok_def reply_def d1_def d2_def
      case_prod_beta simp del: for_ports.simps)
  with for_mon_ext [of d1 0 32, folded d2_def] d1 show ?thesis
    by auto
qed

lemma mon_ext_snapshot_witness:
  "\<exists>om < 4. d_mon_ext (snd (run_state (mxser_ioctl_special (MOXA_ASPP_MON_EXT
      \<lparr>ua_left = 0, ua_in = (), ua_out = 0\<rparr>)) control_example)) ! 3
    = mon_row (d_ports (snd (run_state (mxser_ioctl_special (MOXA_ASPP_MON_EXT
      \<lparr>ua_left = 0, ua_in = (), ua_out = 0\<rparr>)) control_example)) ! 3) om"
proof -
  have "i_base (d_ports control_example ! 3) \<noteq> 0"
    by (simp add: control_example_def drv_example_def port_example_def)
  moreover have "length (d_ports control_example) = 32" "length (d_mon_ext control_example) = 32"
    "env_k (ienv control_example) (ihist control_example) ''access_ok'' [] \<noteq> 0"
    by (simp_all add: control_example_def drv_example_def)
  ultimately show ?thesis
    using mon_ext_snapshot [of control_example "\<lparr>ua_left = 0, ua_in = (), ua_out = 0\<rparr>",
      OF _ _ _ _ prod.collapse [symmetric]]
    by (auto dest!: conjunct2 spec [of _ "3 :: nat"])
qed

end
