(* ===== verification/Mxser_Live.thy ===== *)
theory Mxser_Live
  imports Mxser_Irq
begin

text \<open>
  What holds of an open port of the serial driver whatever the tty layer, the line discipline
  and the interrupt handler do, in any order, and what follows for the transmitter.

  \<open>port_step\<close> is the step relation: one call of an operation of \<open>Mxser_Tx\<close> or \<open>Mxser_Irq\<close>.  The
  invariant \<open>port_ok\<close> says that the fields that hold register values fit in a byte, that the
  chip's interrupt enable register holds \<open>i_IER\<close>, that the ring is well formed, and that the
  transmit interrupt is enabled whenever there is something that may be sent.  It is kept by
  every step, the receive side and the modem handling included; hence the transmitter never
  stalls: the interrupts the chip raises drain the queue.
\<close>

section \<open>Bytes in 32-bit fields\<close>

definition byte32 :: "u32 \<Rightarrow> bool" where
  "byte32 w \<longleftrightarrow> w AND 0xFF = w"

lemma byte32_iff: "byte32 w \<longleftrightarrow> (\<forall>n. bit w n \<longrightarrow> n < 8)"
proof -
  have "byte32 w \<longleftrightarrow> take_bit 8 w = w"
    by (simp add: byte32_def take_bit_eq_mask mask_eq_exp_minus_1)
  also have "\<dots> \<longleftrightarrow> (\<forall>n. bit w n \<longrightarrow> n < 8)"
    by (simp only: bit_eq_iff bit_take_bit_iff) (metis bit_imp_possible_bit)
  finally show ?thesis .
qed

lemma byte32_ops [simp]:
  "byte32 v \<Longrightarrow> byte32 (v AND w)" "byte32 v \<Longrightarrow> byte32 w \<Longrightarrow> byte32 (v OR w)"
  "byte32 (ucast (b :: u8))"
  by (auto simp: byte32_iff bit_and_iff bit_or_iff bit_ucast_iff dest: bit_imp_le_length)

lemma byte32_consts [simp]: "byte32 0" "byte32 1" "byte32 2" "byte32 0x11"
  by (simp_all add: byte32_def)

section \<open>The invariant\<close>

definition may_send :: "mxport \<Rightarrow> bool" where
  "may_send s \<longleftrightarrow> i_xmit_cnt s \<noteq> 0 \<and> \<not> t_stopped (i_t s) \<and> may_kick s"

definition armed :: "(port \<Rightarrow> u8) \<Rightarrow> mxport \<Rightarrow> bool" where
  "armed d s \<longleftrightarrow> bit (last_out d (ihist s) (i_base s + UART_IER)) 1"

definition port_ok :: "(port \<Rightarrow> u8) \<Rightarrow> mxport \<Rightarrow> bool" where
  "port_ok d s \<longleftrightarrow> ring_inv s \<and> i_has_buf s \<and> i_has_tty s \<and>
     byte32 (i_IER s) \<and> byte32 (i_MCR s) \<and> byte32 (i_x_char s) \<and>
     last_out d (ihist s) (i_base s + UART_IER) = ucast (i_IER s) \<and>
     (may_send s \<longrightarrow> bit (i_IER s) 1)"

lemma port_ok_armed: "port_ok d s \<Longrightarrow> may_send s \<Longrightarrow> armed d s"
  by (simp add: port_ok_def armed_def bit_ucast_iff)

abbreviation keeps :: "(port \<Rightarrow> u8) \<Rightarrow> 'a mx_m \<Rightarrow> bool" where
  "keeps d m \<equiv> preserves (port_ok d) m"

named_theorems keep_rules \<open>structural rules for \<open>keeps\<close>\<close>

declare preserves_structure [keep_rules]

lemmas keepsI = preservesI [of "port_ok d" for d]

lemmas keepsD = preservesD [of "port_ok d" for d]

text \<open>A step that touches nothing the invariant reads.\<close>

definition same_tx :: "mxport \<Rightarrow> mxport \<Rightarrow> bool" where
  "same_tx s t \<longleftrightarrow> i_xmit_buf t = i_xmit_buf s \<and> i_xmit_head t = i_xmit_head s \<and>
     i_xmit_tail t = i_xmit_tail s \<and> i_xmit_cnt t = i_xmit_cnt s \<and> i_has_buf t = i_has_buf s \<and>
     i_has_tty t = i_has_tty s \<and> t_stopped (i_t t) = t_stopped (i_t s) \<and>
     t_hw_stopped (i_t t) = t_hw_stopped (i_t s) \<and> i_type t = i_type s \<and>
     i_IsMoxaMustChipFlag t = i_IsMoxaMustChipFlag s \<and> i_IER t = i_IER s \<and> i_MCR t = i_MCR s \<and>
     i_x_char t = i_x_char s \<and> i_base t = i_base s \<and>
     (\<forall>d. last_out d (ihist t) (i_base s + 1) = last_out d (ihist s) (i_base s + 1))"

lemma same_tx_ok: "same_tx s t \<Longrightarrow> port_ok d s \<Longrightarrow> port_ok d t"
  by (simp add: same_tx_def port_ok_def may_send_def may_kick_def ring_inv_def)

lemma same_keeps: "(\<And>s. same_tx s (snd (run_state m s))) \<Longrightarrow> keeps d m"
  using same_tx_ok by (auto simp: preserves_def)

lemma keeps_quiet [keep_rules]:
  "keeps d (port_in off)" "keeps d (kcall f as)" "keeps d (knote f as)" "keeps d (undefined_c w)"
  "keeps d (upd_icount u)" "keeps d (set_event n)" "keeps d MXQ_TASK" "keeps d (count_tx k)"
  "keeps d (count_rx k)" "keeps d deref_tty" "keeps d (shadow_errors b)"
  "keeps d (tty_insert_flip_char ch fl)" "keeps d signal_txlow"
  by (rule same_keeps, simp add: same_tx_def upd_icount_def count_tx_def count_rx_def deref_tty_def
    shadow_errors_def tty_insert_flip_char_def signal_txlow_def)+

lemma keeps_port_out [keep_rules]: "off \<noteq> 1 \<Longrightarrow> keeps d (port_out v off)"
  by (rule same_keeps) (simp add: same_tx_def)

section \<open>The operations keep it\<close>

lemma keeps_IER:
  assumes "\<And>w. byte32 w \<Longrightarrow> byte32 (f w)" "\<And>w. bit w 1 \<Longrightarrow> bit (f w) 1"
  shows "keeps d (do { set_IER f; out_IER })"
  using assms by (intro keepsI) (simp add: port_ok_def may_send_def may_kick_def ring_inv_def)

lemma keeps_MCR [keep_rules]:
  assumes "\<And>w. byte32 w \<Longrightarrow> byte32 (f w)"
  shows "keeps d (set_MCR f)" "keeps d out_MCR"
  using assms by (auto intro!: keepsI simp: port_ok_def may_send_def may_kick_def ring_inv_def)

lemma keeps_set_rts [keep_rules]:
  "(\<And>w. byte32 w \<Longrightarrow> byte32 (f w)) \<Longrightarrow> keeps d (set_rts_line f)"
  unfolding set_rts_line_def by (intro keep_rules)

lemma keeps_same_field [keep_rules]:
  "keeps d (modify (\<lambda>s. s\<lparr>i_ldisc_stop_rx := v\<rparr>))"
  "keeps d (modify (\<lambda>s. s\<lparr>i_mon_data := g (i_mon_data s)\<rparr>))"
  "keeps d (modify (\<lambda>s. s\<lparr>g_msr := h (g_msr s)\<rparr>))"
  "keeps d (modify (\<lambda>s. s\<lparr>i_event := e (i_event s)\<rparr>))"
  "keeps d (modify (\<lambda>s. s\<lparr>i_x_char := 0\<rparr>))"
  by (auto intro!: keepsI simp: port_ok_def may_send_def may_kick_def ring_inv_def)

lemma keeps_set_t [keep_rules]:
  "(\<And>t. t_stopped (f t) = t_stopped t \<and> t_hw_stopped (f t) = t_hw_stopped t) \<Longrightarrow> keeps d (set_t f)"
  by (rule same_keeps) (simp add: same_tx_def)

lemma keeps_send_xchar [keep_rules]: "keeps d (send_xchar c)"
  by (rule keepsI) (simp add: send_xchar_def port_ok_def may_send_def may_kick_def ring_inv_def bit_or_iff)

lemma keeps_stoprx [keep_rules]: "keeps d mxser_stoprx"
proof -
  have ier: "keeps d (do { set_IER (\<lambda>x. x AND NOT MOXA_MUST_RECV_ISR); out_IER })"
    by (rule keeps_IER) (simp_all add: bit_and_iff bit_not_iff)
  show ?thesis
    unfolding mxser_stoprx_def by (intro ier keep_rules) simp_all
qed

lemma keeps_startrx [keep_rules]: "keeps d mxser_startrx"
proof -
  have ier: "keeps d (do { set_IER (\<lambda>x. x OR MOXA_MUST_RECV_ISR); out_IER })"
    by (rule keeps_IER) (simp_all add: bit_or_iff)
  show ?thesis
    unfolding mxser_startrx_def by (intro ier keep_rules) simp_all
qed

lemma keeps_rx_good: "keeps d (rx_good n)"
  by (induction n) (auto intro: keep_rules)

lemma keeps_rx_flag [keep_rules]: "keeps d (rx_flag st)"
  unfolding rx_flag_def by (intro keep_rules)

lemma keeps_rx_old: "keeps d (rx_old n st ig cnt)"
proof (induction n arbitrary: st ig cnt)
  case (Suc n)
  show ?case
    unfolding rx_old.simps Let_def by (intro keep_rules Suc) simp_all
qed (simp add: keep_rules)

lemma keeps_receive_chars [keep_rules]: "keeps d (mxser_receive_chars st)"
  unfolding mxser_receive_chars_def rx_chars_def rx_tail_def push_received_def Let_def
  by (intro keep_rules keeps_rx_good keeps_rx_old) simp_all

text \<open>The modem side: the transmitter is restarted when CTS releases it.\<close>

lemma keeps_cts_change [keep_rules]: "keeps d (cts_change st)"
  by (rule keepsI) (auto simp: cts_change_def Let_def port_ok_def may_send_def may_kick_def ring_inv_def
    bit_or_iff bit_and_iff)

lemma keeps_check_modem_status [keep_rules]: "keeps d (mxser_check_modem_status st)"
  unfolding mxser_check_modem_status_def count_modem_def carrier_change_def by (intro keep_rules)

text \<open>The transmit side.\<close>

lemma ok_kick: "port_ok d s \<Longrightarrow> port_ok d (snd (run_state kick_thri s))"
  by (simp add: port_ok_def may_send_def may_kick_def ring_inv_def bit_or_iff)

lemma write_loop_IER [simp]:
  "i_MCR (snd (mxser_write_loop buf t s)) = i_MCR s" "i_type (snd (mxser_write_loop buf t s)) = i_type s"
  "i_IsMoxaMustChipFlag (snd (mxser_write_loop buf t s)) = i_IsMoxaMustChipFlag s"
proof -
  obtain b h c where u: "snd (mxser_write_loop buf t s) = s\<lparr>i_xmit_buf := b, i_xmit_head := h, i_xmit_cnt := c\<rparr>"
    using write_loop_shape [of buf t s] by blast
  show "i_MCR (snd (mxser_write_loop buf t s)) = i_MCR s" "i_type (snd (mxser_write_loop buf t s)) = i_type s"
    "i_IsMoxaMustChipFlag (snd (mxser_write_loop buf t s)) = i_IsMoxaMustChipFlag s"
    by (simp_all add: u)
qed

lemma keeps_write [keep_rules]: "keeps d (mxser_write buf)"
proof (rule keepsI)
  fix s assume ok: "port_ok d s"
  then have r: "ring_inv s" "i_has_buf s"
    by (simp_all add: port_ok_def)
  define u where "u = snd (mxser_write_loop buf 0 s)"
  have "ring_inv u"
    using write_loop_effect [OF r(1), of buf 0] by (simp add: u_def)
  moreover have "snd (run_state (mxser_write buf) s) = (if may_send u then snd (run_state kick_thri u) else u)"
    using r(2) by (simp add: mxser_write_def case_prod_beta u_def may_send_def)
  ultimately show "port_ok d (snd (run_state (mxser_write buf) s))"
    using ok by (auto simp: port_ok_def may_send_def may_kick_def u_def bit_or_iff)
qed

lemma keeps_put_char [keep_rules]: "keeps d (mxser_put_char ch)"
proof (rule keepsI)
  fix s assume ok: "port_ok d s"
  then have r: "ring_inv s" "i_has_buf s"
    by (simp_all add: port_ok_def)
  show "port_ok d (snd (run_state (mxser_put_char ch) s))"
  proof (cases "i_xmit_cnt s < 4095")
    case True
    then show ?thesis
      using ok put_ring_effect(1) [OF r(1) True, of ch]
      by (auto simp: mxser_put_char_def port_ok_def put_ring_run may_send_def may_kick_def bit_or_iff ring_inv_def)
  next
    case False
    with ok r show ?thesis by (simp add: mxser_put_char_def)
  qed
qed

lemma keeps_tx_small [keep_rules]:
  "keeps d mxser_flush_chars" "keeps d mxser_write_room" "keeps d mxser_chars_in_buffer"
proof -
  show "keeps d mxser_flush_chars"
    by (rule keepsI) (simp add: mxser_flush_chars_def ok_kick del: run_kick_thri)
  show "keeps d mxser_write_room" "keeps d mxser_chars_in_buffer"
    unfolding mxser_write_room_def mxser_chars_in_buffer_def by (intro keep_rules)+
qed

lemma keeps_flush_buffer [keep_rules]: "keeps d mxser_flush_buffer"
  unfolding mxser_flush_buffer_def
  by (intro keep_rules) (auto intro!: keepsI simp: clear_ring_def port_ok_def may_send_def ring_inv_def)

text \<open>The tty layer marks the tty as stopped before it calls \<open>stop\<close>, and as running before \<open>start\<close>.\<close>

definition tty_stop :: "unit mx_m" where
  "tty_stop = do { set_t (\<lambda>t. t\<lparr>t_stopped := True\<rparr>); mxser_stop }"

definition tty_start :: "unit mx_m" where
  "tty_start = do { set_t (\<lambda>t. t\<lparr>t_stopped := False\<rparr>); mxser_start }"

lemma keeps_stop_start [keep_rules]: "keeps d tty_stop" "keeps d tty_start"
  by (rule keepsI, auto simp: tty_stop_def tty_start_def mxser_stop_def mxser_start_def port_ok_def may_send_def
    may_kick_def ring_inv_def bit_or_iff)+

lemma tx_loop_shape:
  "\<exists>tl c h. snd (run_state (tx_loop n) s) = s\<lparr>i_xmit_tail := tl, i_xmit_cnt := c, ihist := h\<rparr> \<and>
    (\<forall>d. last_out d h (i_base s + 1) = last_out d (ihist s) (i_base s + 1))"
proof (induction n arbitrary: s rule: tx_loop.induct)
  case (1 n)
  define u where "u = s\<lparr>i_xmit_tail := (i_xmit_tail s + 1) mod 4096, i_xmit_cnt := i_xmit_cnt s - 1,
    ihist := Out_b (i_xmit_buf s (i_xmit_tail s)) (i_base s) # ihist s\<rparr>"
  have step: "run_state (tx_loop n) s =
      (if i_xmit_cnt u \<le> 0 \<or> n - 1 \<le> 0 then ((), u) else run_state (tx_loop (n - 1)) u)"
    by (subst tx_loop.simps) (simp add: run_take_ring u_def)
  show ?case
  proof (cases "i_xmit_cnt u \<le> 0 \<or> n - 1 \<le> 0")
    case True
    then show ?thesis
      unfolding step by (simp add: u_def) (rule exI, rule exI, rule exI, rule conjI, rule refl, simp)
  next
    case False
    then have pos: "\<not> i_xmit_cnt u \<le> 0" "n - 1 > 0"
      by auto
    obtain tl c h where "snd (run_state (tx_loop (n - 1)) u) = u\<lparr>i_xmit_tail := tl, i_xmit_cnt := c, ihist := h\<rparr>"
      "\<forall>d. last_out d h (i_base u + 1) = last_out d (ihist u) (i_base u + 1)"
      using 1 [OF pos, of u] by blast
    with False show ?thesis
      unfolding step by (simp add: u_def) metis
  qed
qed

lemma tx_loop_frame [simp]:
  fixes n s
  defines "u \<equiv> snd (run_state (tx_loop n) s)"
  shows "i_t u = i_t s" "i_IER u = i_IER s" "i_MCR u = i_MCR s" "i_type u = i_type s"
    "i_IsMoxaMustChipFlag u = i_IsMoxaMustChipFlag s" "i_xmit_fifo_size u = i_xmit_fifo_size s"
    "i_has_buf u = i_has_buf s" "i_has_tty u = i_has_tty s" "i_x_char u = i_x_char s" "i_base u = i_base s"
    "last_out d (ihist u) (Suc (i_base s)) = last_out d (ihist s) (Suc (i_base s))"
proof -
  obtain tl c h where u: "u = s\<lparr>i_xmit_tail := tl, i_xmit_cnt := c, ihist := h\<rparr>"
    and "\<forall>d. last_out d h (i_base s + 1) = last_out d (ihist s) (i_base s + 1)"
    using tx_loop_shape [of n s] unfolding u_def by blast
  then show "i_t u = i_t s" "i_IER u = i_IER s" "i_MCR u = i_MCR s" "i_type u = i_type s"
    "i_IsMoxaMustChipFlag u = i_IsMoxaMustChipFlag s" "i_xmit_fifo_size u = i_xmit_fifo_size s"
    "i_has_buf u = i_has_buf s" "i_has_tty u = i_has_tty s" "i_x_char u = i_x_char s" "i_base u = i_base s"
    "last_out d (ihist u) (Suc (i_base s)) = last_out d (ihist s) (Suc (i_base s))"
    by simp_all
qed

lemma keeps_transmit_chars [keep_rules]: "keeps d mxser_transmit_chars"
proof (rule keepsI)
  fix s assume ok: "port_ok d s"
  then have r: "ring_inv s" "i_has_buf s" "i_has_tty s"
    by (simp_all add: port_ok_def)
  consider "i_x_char s \<noteq> 0" | "i_x_char s = 0" "i_xmit_cnt s = 0"
    | "i_x_char s = 0" "i_xmit_cnt s \<noteq> 0" "\<not> may_send s" | "i_x_char s = 0" "may_send s"
    by blast
  then show "port_ok d (snd (run_state mxser_transmit_chars s))"
  proof cases
    case 1
    then show ?thesis
      using ok by (simp add: mxser_transmit_chars_def count_tx_def port_ok_def may_send_def may_kick_def ring_inv_def)
  next
    case 2
    then show ?thesis
      using ok r by (simp add: mxser_transmit_chars_def keepsD [OF keeps_quiet(13)])
  next
    case 3
    then show ?thesis
      using ok r by (auto simp: mxser_transmit_chars_def port_ok_def may_send_def may_kick_def ring_inv_def)
  next
    case 4
    define u where "u = snd (run_state (tx_loop (i_xmit_fifo_size s)) s)"
    have "0 < i_xmit_cnt s"
      using 4 r(1) by (auto simp: may_send_def ring_inv_def)
    then have "ring_inv u"
      using tx_loop_effect [OF r(1)] by (simp add: u_def drained_def)
    then have "port_ok d u"
      using ok 4 by (auto simp: port_ok_def u_def may_send_def may_kick_def)
    then have "port_ok d (snd (run_state (do { count_tx (i_xmit_cnt s - i_xmit_cnt u); signal_txlow }) u))"
      by (intro keepsD [OF _ \<open>port_ok d u\<close>]) (intro keep_rules)
    then show ?thesis
      using 4 r by (simp add: mxser_transmit_chars_def case_prod_beta u_def may_send_def)
  qed
qed

text \<open>The interrupt handler of a port.\<close>

lemma keeps_isr_pass [keep_rules]: "keeps d isr_pass"
  unfolding isr_pass_def Let_def by (intro keep_rules) simp_all

lemma keeps_isr_port: "keeps d (isr_port n)"
  by (induction n) (auto intro: keep_rules)

lemma keeps_softint: "keeps d mxser_do_softint"
  unfolding mxser_do_softint_def by (intro keep_rules)

section \<open>All calls on an open port\<close>

datatype port_call = On_write "u8 list" | On_put_char u8 | On_flush_chars | On_write_room
  | On_chars_in_buffer | On_flush_buffer | On_stop | On_start | On_throttle | On_unthrottle
  | On_interrupt | On_softint | On_receive_room int

fun port_run :: "port_call \<Rightarrow> unit mx_m" where
  "port_run (On_write buf) = do { _ \<leftarrow> mxser_write buf; ret () }"
| "port_run (On_put_char ch) = do { _ \<leftarrow> mxser_put_char ch; ret () }"
| "port_run On_flush_chars = mxser_flush_chars"
| "port_run On_write_room = do { _ \<leftarrow> mxser_write_room; ret () }"
| "port_run On_chars_in_buffer = do { _ \<leftarrow> mxser_chars_in_buffer; ret () }"
| "port_run On_flush_buffer = mxser_flush_buffer"
| "port_run On_stop = tty_stop"
| "port_run On_start = tty_start"
| "port_run On_throttle = mxser_throttle"
| "port_run On_unthrottle = mxser_unthrottle"
| "port_run On_interrupt = isr_port MXSER_ISR_PASS_LIMIT"
| "port_run On_softint = mxser_do_softint"
| "port_run (On_receive_room n) = set_t (\<lambda>t. t\<lparr>t_receive_room := n\<rparr>)"

inductive port_step :: "mxport \<Rightarrow> mxport \<Rightarrow> bool" where
  call: "t = snd (run_state (port_run c) s) \<Longrightarrow> port_step s t"

inductive_cases port_stepE: "port_step s t"

lemma keeps_port_run: "keeps d (port_run c)"
  by (cases c) (simp_all add: mxser_throttle_def mxser_unthrottle_def keeps_isr_port keeps_softint keep_rules
    del: isr_port.simps)

lemma port_ok_step: "port_step s t \<Longrightarrow> port_ok d s \<Longrightarrow> port_ok d t"
  by (erule port_stepE) (simp add: keepsD [OF keeps_port_run])

lemma port_ok_steps: "port_step\<^sup>*\<^sup>* s t \<Longrightarrow> port_ok d s \<Longrightarrow> port_ok d t"
  by (induction rule: rtranclp_induct) (auto intro: port_ok_step)

section \<open>The transmitter makes progress\<close>

text \<open>
  The chip raises the transmit interrupt while it is enabled: \<open>serve k\<close> are the next \<open>k\<close> of
  these interrupts, fewer if the interrupt gets disabled.
\<close>

fun serve :: "(port \<Rightarrow> u8) \<Rightarrow> nat \<Rightarrow> mxport \<Rightarrow> mxport" where
  "serve d 0 s = s"
| "serve d (Suc k) s = (if armed d s then serve d k (snd (run_state mxser_transmit_chars s)) else s)"

lemma transmit_serves:
  assumes "ring_inv s" "i_has_buf s" "i_has_tty s" "i_x_char s = 0" "may_send s"
  defines "n \<equiv> sent_per_irq s"
  defines "t \<equiv> snd (run_state mxser_transmit_chars s)"
  shows "tx_queue t = drop n (tx_queue s)"
    "uart_bytes (i_base s) (ihist t) = uart_bytes (i_base s) (ihist s) @ take n (tx_queue s)"
    "i_xmit_cnt t = i_xmit_cnt s - int n" "i_x_char t = 0" "i_base t = i_base s" "i_t t = i_t s"
    "i_xmit_fifo_size t = i_xmit_fifo_size s" "i_type t = i_type s"
    "i_IsMoxaMustChipFlag t = i_IsMoxaMustChipFlag s"
proof -
  define u where "u = snd (run_state (tx_loop (i_xmit_fifo_size s)) s)"
  have "0 < i_xmit_cnt s"
    using assms(1,5) by (auto simp: may_send_def ring_inv_def)
  then have dr: "drained n s u"
    using tx_loop_effect [OF assms(1)] by (simp add: u_def n_def sent_per_irq_def)
  have t: "t = snd (run_state (do { count_tx (i_xmit_cnt s - i_xmit_cnt u); signal_txlow }) u)"
    using assms by (simp add: mxser_transmit_chars_def case_prod_beta u_def may_send_def)
  show "tx_queue t = drop n (tx_queue s)"
    "uart_bytes (i_base s) (ihist t) = uart_bytes (i_base s) (ihist s) @ take n (tx_queue s)"
    "i_xmit_cnt t = i_xmit_cnt s - int n" "i_x_char t = 0" "i_base t = i_base s"
    using dr assms(4) unfolding t by (simp_all add: count_tx_def signal_txlow_def drained_def)
  show "i_t t = i_t s" "i_xmit_fifo_size t = i_xmit_fifo_size s" "i_type t = i_type s"
    "i_IsMoxaMustChipFlag t = i_IsMoxaMustChipFlag s"
    unfolding t u_def by (simp_all add: count_tx_def signal_txlow_def)
qed

lemma serve_drains:
  assumes "port_ok d s" "i_x_char s = 0" "\<not> t_stopped (i_t s)" "may_kick s"
    and "i_xmit_cnt s \<le> int k * max 1 (i_xmit_fifo_size s)"
  shows "tx_queue (serve d k s) = [] \<and>
    uart_bytes (i_base s) (ihist (serve d k s)) = uart_bytes (i_base s) (ihist s) @ tx_queue s"
  using assms
proof (induction k arbitrary: s)
  case 0
  then show ?case by (simp add: tx_queue_def)
next
  case (Suc k)
  define t where "t = snd (run_state mxser_transmit_chars s)"
  have r: "ring_inv s" "i_has_buf s" "i_has_tty s"
    using Suc.prems(1) by (simp_all add: port_ok_def)
  have ok: "port_ok d t"
    unfolding t_def by (rule keepsD [OF keeps_transmit_chars Suc.prems(1)])
  show ?case
  proof (cases "may_send s")
    case True
    note sv = transmit_serves [OF r Suc.prems(2) True, folded t_def]
    have "may_kick t"
      using Suc.prems(4) sv by (simp add: may_kick_def)
    moreover have "i_xmit_cnt t \<le> int k * max 1 (i_xmit_fifo_size t)"
    proof -
      have "int (sent_per_irq s) = min (max 1 (i_xmit_fifo_size s)) (i_xmit_cnt s)"
        using r(1) by (auto simp: sent_per_irq_def ring_inv_def)
      moreover have "0 \<le> int k * max 1 (i_xmit_fifo_size s)"
        by simp
      ultimately show ?thesis
        unfolding sv(3,7) using Suc.prems(5) by (cases "max 1 (i_xmit_fifo_size s) \<le> i_xmit_cnt s") (simp_all add: distrib_right)
    qed
    ultimately have "tx_queue (serve d k t) = [] \<and>
      uart_bytes (i_base t) (ihist (serve d k t)) = uart_bytes (i_base t) (ihist t) @ tx_queue t"
      using Suc.prems(3) sv(4,6) ok by (intro Suc.IH) simp_all
    then show ?thesis
      using port_ok_armed [OF Suc.prems(1) True] sv(1,2,5) by (simp flip: t_def)
  next
    case False
    then have empty: "i_xmit_cnt s = 0" "tx_queue s = []"
      using Suc.prems(3,4) by (auto simp: may_send_def tx_queue_def)
    have same: "tx_queue t = []" "uart_bytes (i_base s) (ihist t) = uart_bytes (i_base s) (ihist s)"
      "i_base t = i_base s" "i_x_char t = 0" "i_t t = i_t s" "i_xmit_cnt t = 0" "may_kick t = may_kick s"
      using empty Suc.prems(2) r by (simp_all add: t_def mxser_transmit_chars_def signal_txlow_def may_kick_def)
    then show ?thesis
      using Suc.IH [of t] ok empty Suc.prems(3,4) by (cases "armed d s") (simp_all flip: t_def)
  qed
qed

section \<open>Properties\<close>

lemma port_example_ok: "port_ok (\<lambda>_. 0) port_example"
  by (simp add: port_ok_def port_example_def ring_inv_def may_send_def byte32_def)




definition stopped_example :: mxport where
  "stopped_example = port_example\<lparr>i_xmit_cnt := 2, i_xmit_head := 2,
     i_t := (i_t port_example)\<lparr>t_stopped := True\<rparr>\<rparr>"


text \<open>
  C8. The transmitter drains: from any state an open port reaches with nothing holding the
  transmitter back, the next interrupts, one for every FIFO load queued, send every queued byte
  in order and empty the queue.
\<close>

theorem tx_drains:
  assumes "port_ok d s\<^sub>0" "port_step\<^sup>*\<^sup>* s\<^sub>0 s" "i_x_char s = 0" "\<not> t_stopped (i_t s)" "may_kick s"
    and "i_xmit_cnt s \<le> int k * max 1 (i_xmit_fifo_size s)"
  shows "tx_queue (serve d k s) = [] \<and>
    uart_bytes (i_base s) (ihist (serve d k s)) = uart_bytes (i_base s) (ihist s) @ tx_queue s"
  using serve_drains [OF port_ok_steps [OF assms(2,1)] assms(3-6)] .

lemma tx_drains_witness:
  "tx_queue (serve (\<lambda>_. 0) 1 (snd (run_state (port_run On_start) stopped_example))) = []"
proof -
  have "port_ok (\<lambda>_. 0) stopped_example"
    by (simp add: port_ok_def stopped_example_def port_example_def ring_inv_def may_send_def byte32_def)
  from tx_drains [OF this r_into_rtranclp, OF port_step.call, OF refl, of On_start 1]
  show ?thesis
    by (simp add: stopped_example_def tty_start_def mxser_start_def may_kick_def port_example_def del: serve.simps)
qed

end
