(* ===== verification/Mxser_Spec.thy ===== *)
theory Mxser_Spec
  imports Mxser_Live
begin

text \<open>
  An abstract transmitter and the proof that the transmit side of the serial driver refines it.

  The abstract state holds the bytes waiting, the bytes on the wire, whether the transmitter is
  held back (by the tty or by CTS) and whether its interrupt is enabled; \<open>spec_call\<close> says what
  each call does in a line.  \<open>abs_tx\<close> reads a port as an abstract state: the ring buffer, its
  page, head, tail and count become a list, the register writes become the wire and the enable bit.
\<close>

record tx_spec =
  sp_queue :: "u8 list"
  sp_wire :: "u8 list"
  sp_held :: bool
  sp_armed :: bool

definition spec_accept :: "u8 list \<Rightarrow> tx_spec \<Rightarrow> u8 list \<times> tx_spec" where
  "spec_accept bs a = (bs, a\<lparr>sp_queue := sp_queue a @ bs\<rparr>)"

definition spec_kick :: "tx_spec \<Rightarrow> tx_spec" where
  "spec_kick a = (if sp_queue a \<noteq> [] \<and> \<not> sp_held a then a\<lparr>sp_armed := True\<rparr> else a)"

definition spec_room :: "tx_spec \<Rightarrow> nat" where
  "spec_room a = 4095 - length (sp_queue a)"

text \<open>\<open>n\<close> is the depth of the UART's FIFO.\<close>

fun spec_call :: "nat \<Rightarrow> tx_op \<Rightarrow> tx_spec \<Rightarrow> u8 list \<times> tx_spec" where
  "spec_call n (Call_write buf) a = apsnd spec_kick (spec_accept (take (spec_room a) buf) a)"
| "spec_call n (Call_put_char ch) a =
    (if spec_room a = 0 then ([], a) else apsnd spec_kick (spec_accept [ch] a))"
| "spec_call n Call_flush_chars a = ([], spec_kick a)"
| "spec_call n Call_write_room a = ([], a)"
| "spec_call n Call_chars_in_buffer a = ([], a)"
| "spec_call n Call_stop a = ([], a\<lparr>sp_armed := False\<rparr>)"
| "spec_call n Call_start a = ([], if sp_queue a \<noteq> [] then a\<lparr>sp_armed := True\<rparr> else a)"
| "spec_call n Irq_transmit a = ([],
    if sp_queue a = [] then a
    else if sp_held a then a\<lparr>sp_armed := False\<rparr>
    else a\<lparr>sp_queue := drop n (sp_queue a), sp_wire := sp_wire a @ take n (sp_queue a)\<rparr>)"

fun spec_run :: "nat \<Rightarrow> tx_op list \<Rightarrow> tx_spec \<Rightarrow> u8 list \<times> tx_spec" where
  "spec_run n [] a = ([], a)"
| "spec_run n (c # cs) a =
    (let (x, b) = spec_call n c a; (y, e) = spec_run n cs b in (x @ y, e))"

definition abs_tx :: "mxport \<Rightarrow> tx_spec" where
  "abs_tx s = \<lparr>sp_queue = tx_queue s, sp_wire = uart_bytes (i_base s) (ihist s),
     sp_held = (t_stopped (i_t s) \<or> \<not> may_kick s), sp_armed = bit (i_IER s) 1\<rparr>"

definition fifo_depth :: "mxport \<Rightarrow> nat" where
  "fifo_depth s = nat (max 1 (i_xmit_fifo_size s))"

section \<open>One call\<close>

lemma abs_tx_sel [simp]:
  "sp_queue (abs_tx s) = tx_queue s" "sp_wire (abs_tx s) = uart_bytes (i_base s) (ihist s)"
  "sp_held (abs_tx s) = (t_stopped (i_t s) \<or> \<not> may_kick s)" "sp_armed (abs_tx s) = bit (i_IER s) 1"
  by (simp_all add: abs_tx_def)

lemma abs_kick: "abs_tx (snd (run_state kick_thri s)) = (abs_tx s)\<lparr>sp_armed := True\<rparr>"
  by (simp add: abs_tx_def may_kick_def bit_or_iff)

lemma fifo_kick: "fifo_depth (snd (run_state kick_thri s)) = fifo_depth s"
  by (simp add: fifo_depth_def)

lemma queue_empty: "ring_inv s \<Longrightarrow> tx_queue s = [] \<longleftrightarrow> i_xmit_cnt s = 0"
  by (auto simp: tx_queue_def ring_inv_def)

lemma abs_flush_chars:
  "ring_inv s \<Longrightarrow> i_has_buf s \<Longrightarrow> abs_tx (snd (run_state mxser_flush_chars s)) = spec_kick (abs_tx s)"
  by (auto simp: mxser_flush_chars_def spec_kick_def abs_kick queue_empty ring_inv_def simp del: run_kick_thri)

lemma room_nat: "ring_inv s \<Longrightarrow> spec_room (abs_tx s) = nat (4095 - i_xmit_cnt s)"
  by (auto simp: spec_room_def ring_inv_def nat_diff_distrib)

lemma abs_write:
  assumes "ring_inv s" "i_has_buf s" "run_state (mxser_write buf) s = (n, t)"
  shows "(take (nat n) buf, abs_tx t) = spec_call k (Call_write buf) (abs_tx s) \<and> fifo_depth t = fifo_depth s"
proof -
  obtain b h c where u: "snd (mxser_write_loop buf 0 s) = s\<lparr>i_xmit_buf := b, i_xmit_head := h, i_xmit_cnt := c\<rparr>"
    using write_loop_shape by blast
  define u where "u = s\<lparr>i_xmit_buf := b, i_xmit_head := h, i_xmit_cnt := c\<rparr>"
  have e: "ring_inv u" "tx_queue u = tx_queue s @ take (spec_room (abs_tx s)) buf"
    using write_loop_effect [OF assms(1), of buf 0] by (simp_all add: u u_def room_nat [OF assms(1)])
  have n: "n = min (int (length buf)) (4095 - i_xmit_cnt s)"
    and t: "t = (if i_xmit_cnt u \<noteq> 0 \<and> \<not> t_stopped (i_t u) \<and> may_kick u then snd (run_state kick_thri u) else u)"
    using assms(2,3) write_loop_effect [OF assms(1), of buf 0]
    by (auto simp: mxser_write_def case_prod_beta u [folded u_def] simp del: run_kick_thri)
  have "take (nat n) buf = take (spec_room (abs_tx s)) buf"
    unfolding room_nat [OF assms(1)] n by (auto simp: min_def)
  moreover have "abs_tx u = (abs_tx s)\<lparr>sp_queue := tx_queue u\<rparr>"
    by (simp add: abs_tx_def u_def may_kick_def)
  moreover have "abs_tx t = spec_kick (abs_tx u)"
    unfolding t spec_kick_def using e(1) by (simp add: abs_kick queue_empty del: run_kick_thri)
  ultimately show ?thesis
    using e(2) by (simp add: spec_accept_def t u_def fifo_depth_def)
qed

lemma abs_put_char:
  assumes "ring_inv s" "i_has_buf s" "run_state (mxser_put_char ch) s = (n, t)"
  shows "(take (nat n) [ch], abs_tx t) = spec_call k (Call_put_char ch) (abs_tx s) \<and> fifo_depth t = fifo_depth s"
proof (cases "i_xmit_cnt s < 4095")
  case True
  define u where "u = snd (run_state (put_ring ch) s)"
  have e: "ring_inv u" "tx_queue u = tx_queue s @ [ch]"
    using put_ring_effect [OF assms(1) True] by (simp_all add: u_def)
  have nt: "n = 1" "t = (if \<not> t_stopped (i_t u) \<and> may_kick u then snd (run_state kick_thri u) else u)"
    using True assms(2,3)
    by (auto simp: mxser_put_char_def u_def put_ring_run case_prod_beta simp del: run_kick_thri)
  have "abs_tx u = (abs_tx s)\<lparr>sp_queue := tx_queue u\<rparr>" "fifo_depth u = fifo_depth s"
    by (simp_all add: abs_tx_def u_def put_ring_run may_kick_def fifo_depth_def)
  moreover have "abs_tx t = spec_kick (abs_tx u)" "fifo_depth t = fifo_depth u"
    unfolding nt(2) spec_kick_def using e(2) by (simp_all add: abs_kick fifo_kick del: run_kick_thri)
  moreover have "spec_room (abs_tx s) \<noteq> 0"
    using True assms(1) by (auto simp: spec_room_def ring_inv_def)
  ultimately show ?thesis
    using e(2) nt(1) by (simp add: spec_accept_def)
next
  case False
  then show ?thesis
    using assms by (simp add: mxser_put_char_def spec_room_def ring_inv_def)
qed

lemma abs_transmit:
  assumes "ring_inv s" "i_has_buf s" "i_has_tty s" "i_x_char s = 0"
  shows "abs_tx (snd (run_state mxser_transmit_chars s)) = snd (spec_call (fifo_depth s) Irq_transmit (abs_tx s)) \<and>
    fifo_depth (snd (run_state mxser_transmit_chars s)) = fifo_depth s"
proof (cases "may_send s")
  case True
  define t where "t = snd (run_state mxser_transmit_chars s)"
  have cnt: "i_xmit_cnt s > 0" "\<not> (t_stopped (i_t s) \<or> \<not> may_kick s)"
    using True assms(1) by (auto simp: may_send_def ring_inv_def)
  note sv = transmit_serves [OF assms True, folded t_def]
  have n: "take (sent_per_irq s) (tx_queue s) = take (fifo_depth s) (tx_queue s)"
    "drop (sent_per_irq s) (tx_queue s) = drop (fifo_depth s) (tx_queue s)"
    by (auto simp: sent_per_irq_def fifo_depth_def min_def)
  have "bit (i_IER t) 1 = bit (i_IER s) 1"
    using cnt assms by (simp add: t_def mxser_transmit_chars_def case_prod_beta count_tx_def signal_txlow_def)
  moreover have "may_kick t = may_kick s" "fifo_depth t = fifo_depth s"
    using sv by (simp_all add: may_kick_def fifo_depth_def)
  moreover have "tx_queue s \<noteq> []"
    using cnt(1) by (simp add: tx_queue_def)
  ultimately show ?thesis
    using sv cnt(2) n unfolding t_def [symmetric] by (simp add: abs_tx_def)
next
  case False
  then show ?thesis
    using assms queue_empty [OF assms(1)]
    by (auto simp: mxser_transmit_chars_def may_send_def abs_tx_def signal_txlow_def fifo_depth_def may_kick_def
      bit_and_iff bit_not_iff)
qed

lemma abs_stop_start:
  "abs_tx (snd (run_state mxser_stop s)) = snd (spec_call k Call_stop (abs_tx s))"
  "ring_inv s \<Longrightarrow> i_has_buf s \<Longrightarrow>
   abs_tx (snd (run_state mxser_start s)) = snd (spec_call k Call_start (abs_tx s))"
proof -
  have "bit (i_IER s) 1 \<longleftrightarrow> i_IER s AND UART_IER_THRI \<noteq> 0"
    using and_exp_eq_0_iff_not_bit [of "i_IER s" 1] by simp
  then show "abs_tx (snd (run_state mxser_stop s)) = snd (spec_call k Call_stop (abs_tx s))"
    by (auto simp: mxser_stop_def abs_tx_def may_kick_def bit_and_iff bit_not_iff)
  assume "ring_inv s" "i_has_buf s"
  then show "abs_tx (snd (run_state mxser_start s)) = snd (spec_call k Call_start (abs_tx s))"
    using queue_empty [of s] by (auto simp: mxser_start_def abs_kick simp del: run_kick_thri)
qed

lemma call_refines:
  assumes "tx_ready s"
  shows "(fst (run_state (tx_call c) s), abs_tx (snd (run_state (tx_call c) s)))
      = spec_call (fifo_depth s) c (abs_tx s) \<and>
    fifo_depth (snd (run_state (tx_call c) s)) = fifo_depth s"
proof -
  have r: "ring_inv s" "i_has_buf s" "i_has_tty s" "i_x_char s = 0"
    using assms by (simp_all add: tx_ready_def)
  show ?thesis
  proof (cases c)
    case (Call_write buf)
    then show ?thesis
      using abs_write [OF r(1,2) prod.collapse [symmetric], of buf "fifo_depth s"] by (simp add: case_prod_beta)
  next
    case (Call_put_char ch)
    then show ?thesis
      using abs_put_char [OF r(1,2) prod.collapse [symmetric], of ch "fifo_depth s"] by (simp add: case_prod_beta)
  next
    case Call_flush_chars
    moreover have "fifo_depth (snd (run_state mxser_flush_chars s)) = fifo_depth s"
      by (simp add: mxser_flush_chars_def fifo_depth_def)
    ultimately show ?thesis
      using abs_flush_chars [OF r(1,2)] by (simp add: case_prod_beta)
  next
    case Call_write_room
    then show ?thesis by (simp add: mxser_write_room_def)
  next
    case Call_chars_in_buffer
    then show ?thesis
      by (simp add: mxser_chars_in_buffer_def abs_tx_def may_kick_def fifo_depth_def)
  next
    case Call_stop
    moreover have "fifo_depth (snd (run_state mxser_stop s)) = fifo_depth s"
      by (simp add: mxser_stop_def fifo_depth_def)
    ultimately show ?thesis
      using abs_stop_start(1) [of s "fifo_depth s"] by (simp add: case_prod_beta)
  next
    case Call_start
    moreover have "fifo_depth (snd (run_state mxser_start s)) = fifo_depth s"
      by (simp add: mxser_start_def fifo_depth_def)
    ultimately show ?thesis
      using abs_stop_start(2) [OF r(1,2), of "fifo_depth s"] by (simp add: case_prod_beta)
  next
    case Irq_transmit
    then show ?thesis
      using abs_transmit [OF r] by (simp add: case_prod_beta)
  qed
qed

lemma run_refines:
  "tx_ready s \<Longrightarrow> (fst (run_state (tx_run cs) s), abs_tx (snd (run_state (tx_run cs) s)))
    = spec_run (fifo_depth s) cs (abs_tx s)"
proof (induction cs arbitrary: s)
  case (Cons c cs)
  define t where "t = snd (run_state (tx_call c) s)"
  have "tx_ready t"
    using tx_call_moved [OF Cons.prems] moved_ready Cons.prems unfolding t_def by blast
  moreover have "spec_call (fifo_depth s) c (abs_tx s) = (fst (run_state (tx_call c) s), abs_tx t)"
    "fifo_depth t = fifo_depth s"
    using call_refines [OF Cons.prems, of c] by (simp_all add: t_def)
  ultimately show ?case
    using Cons.IH [of t] by (simp add: case_prod_beta flip: t_def) (metis prod.collapse fst_conv snd_conv)
qed simp

section \<open>Property\<close>

text \<open>
  C1. Refinement: any sequence of transmit-side calls on an open port accepts the bytes, and ends in
  the state, that the abstract transmitter does.  The abstraction commutes with every call:
  ring buffer and registers implement the list, the wire, the hold and the enable bit.
\<close>

theorem tx_refines:
  assumes "ring_inv s" "i_has_buf s" "i_has_tty s" "i_x_char s = 0"
    and "run_state (tx_run calls) s = (accepted, t)"
  shows "spec_run (nat (max 1 (i_xmit_fifo_size s))) calls (abs_tx s) = (accepted, abs_tx t)"
  using run_refines [of s calls] assms by (simp add: tx_ready_def fifo_depth_def)

lemma tx_refines_witness:
  "fst (run_state (tx_run [Call_write [1, 2, 3], Irq_transmit, Call_put_char 4]) port_example) = [1, 2, 3, 4] \<and>
   sp_wire (abs_tx (snd (run_state (tx_run [Call_write [1, 2, 3], Irq_transmit, Call_put_char 4]) port_example))) = [1, 2, 3]"
proof -
  let ?calls = "[Call_write [1, 2, 3], Irq_transmit, Call_put_char 4]"
  have abs: "abs_tx port_example = \<lparr>sp_queue = [], sp_wire = [], sp_held = False, sp_armed = False\<rparr>"
    by (simp add: abs_tx_def port_example_def tx_queue_def uart_bytes_def may_kick_def)
  have spec: "spec_run 128 ?calls \<lparr>sp_queue = [], sp_wire = [], sp_held = False, sp_armed = False\<rparr>
      = ([1, 2, 3, 4], \<lparr>sp_queue = [4], sp_wire = [1, 2, 3], sp_held = False, sp_armed = True\<rparr>)"
    by (simp add: spec_accept_def spec_kick_def spec_room_def)
  have "spec_run 128 ?calls (abs_tx port_example) = (fst (run_state (tx_run ?calls) port_example),
      abs_tx (snd (run_state (tx_run ?calls) port_example)))"
    using tx_refines [OF _ _ _ _ prod.collapse [symmetric], of port_example ?calls]
      port_example_ready [unfolded tx_ready_def]
    by (simp add: port_example_def del: tx_run.simps spec_run.simps)
  then show ?thesis
    unfolding abs spec by (metis fst_conv snd_conv tx_spec.select_convs(2))
qed

end
