(* ===== verification/Dio.thy ===== *)
theory Dio
  imports Interfaces
begin

text \<open>
  The digital I/O driver, \<open>modules/moxa_x86_dio\<close>: \<open>dio_main.c\<close> with the board files it is linked
  with.  A board is a record of the three callbacks its file registers (\<open>dio_inb\<close>, \<open>dio_outb\<close>,
  \<open>get_dout\<close>) and the entry of its device table; the definitions keep the names of the files.

  The locale \<open>dio_outputs\<close> is what \<open>dio_main.c\<close> relies on of the output callbacks; every board is
  an interpretation.  C shifts by a negative amount are undefined and recorded as such.
\<close>

section \<open>State\<close>

datatype gpio_method = gpio | superio

record dio_set =
  io_number :: int
  mode_data :: int

record dio = io +
  do_state :: u8
  d_addr :: port
  di_num :: int
  do_num :: int
  d_method :: gpio_method
  log_dev :: int
  DOUT_state :: "u8 list"

type_synonym 'a dio_m = "(dio, 'a) state"

record dio_board =
  b_inb :: "dio_set \<Rightarrow> u8 dio_m"
  b_outb :: "dio_set \<Rightarrow> unit dio_m"
  b_get :: "dio_set \<Rightarrow> dio_set dio_m"
  b_init :: "unit dio_m"

abbreviation "DIO_HIGH \<equiv> 1 :: int"
abbreviation "DIO_LOW \<equiv> 0 :: int"
abbreviation "ALL_PORT \<equiv> -1 :: int"

section \<open>Steps the board files share\<close>

definition dio_read :: "u8 dio_m" where
  "dio_read = do {
     s \<leftarrow> gets id;
     if d_method s = superio then do {
       v \<leftarrow> kcall ''superio_read'' [log_dev s, int (d_addr s)];
       ret (word_of_int v) }
     else inb (d_addr s) }"

definition dio_write :: "unit dio_m" where
  "dio_write = do {
     s \<leftarrow> gets id;
     if d_method s = superio then knote ''superio_write'' [log_dev s, int (d_addr s), uint (do_state s)]
     else outb (do_state s) (d_addr s) }"

text \<open>\<open>val >> n\<close> on a byte promoted to \<open>int\<close>.\<close>

definition shr_c :: "u32 \<Rightarrow> int \<Rightarrow> u8 dio_m" where
  "shr_c val n = (if n < 0 \<or> 32 \<le> n then do { undefined_c ''shift count''; ret 0 }
     else ret (ucast (drop_bit (nat n) val)))"

definition set_do :: "int \<Rightarrow> nat \<Rightarrow> u8 \<Rightarrow> u8" where
  "set_do mode n w = (if mode = DIO_HIGH then set_bit n w else if mode = DIO_LOW then unset_bit n w else w)"

definition upd_do :: "(u8 \<Rightarrow> u8) \<Rightarrow> unit dio_m" where
  "upd_do f = modify (\<lambda>s. s\<lparr>do_state := f (do_state s)\<rparr>)"

definition level :: "bool \<Rightarrow> int" where
  "level b = (if b then 1 else 0)"

section \<open>The boards\<close>

text \<open>Outputs in the bits after the inputs: V2403, V2416A, V2400A.\<close>

definition V2403_dio_inb :: "dio_set \<Rightarrow> u8 dio_m" where
  "V2403_dio_inb req = do {
     val \<leftarrow> dio_read;
     s \<leftarrow> gets id;
     shr_c (drop_bit (nat (do_num s)) (push_bit (nat (do_num s)) (ucast val))) (io_number req) }"

definition V2403_dio_outb :: "dio_set \<Rightarrow> unit dio_m" where
  "V2403_dio_outb req = do {
     s \<leftarrow> gets id;
     upd_do (set_do (mode_data req) (nat (io_number req + di_num s)));
     dio_write }"

definition V2403_get_outb :: "dio_set \<Rightarrow> dio_set dio_m" where
  "V2403_get_outb req = do {
     s \<leftarrow> gets id;
     ret (req\<lparr>mode_data := level (bit (do_state s) (nat (io_number req + di_num s)))\<rparr>) }"

definition V2416A_dio_inb :: "dio_set \<Rightarrow> u8 dio_m" where
  "V2416A_dio_inb = V2403_dio_inb"

definition V2416A_dio_outb :: "dio_set \<Rightarrow> unit dio_m" where
  "V2416A_dio_outb = V2403_dio_outb"

definition V2416A_get_outb :: "dio_set \<Rightarrow> dio_set dio_m" where
  "V2416A_get_outb = V2403_get_outb"

definition V2400A_dio_inb :: "dio_set \<Rightarrow> u8 dio_m" where
  "V2400A_dio_inb = V2403_dio_inb"

definition V2400A_dio_outb :: "dio_set \<Rightarrow> unit dio_m" where
  "V2400A_dio_outb = V2403_dio_outb"

definition V2400A_get_outb :: "dio_set \<Rightarrow> dio_set dio_m" where
  "V2400A_get_outb = V2403_get_outb"

text \<open>Outputs in the lowest bits: V2616A, DA-820, V2201, DA-682B.\<close>

definition V2616A_dio_inb :: "dio_set \<Rightarrow> u8 dio_m" where
  "V2616A_dio_inb req = do {
     val \<leftarrow> dio_read;
     s \<leftarrow> gets id;
     shr_c (ucast val) (do_num s + io_number req) }"

definition V2616A_dio_outb :: "dio_set \<Rightarrow> unit dio_m" where
  "V2616A_dio_outb req = do {
     upd_do (set_do (mode_data req) (nat (io_number req)));
     dio_write }"

definition V2616A_get_outb :: "dio_set \<Rightarrow> dio_set dio_m" where
  "V2616A_get_outb req = do {
     s \<leftarrow> gets id;
     ret (req\<lparr>mode_data := level (bit (do_state s) (nat (io_number req)))\<rparr>) }"

definition DA820_dio_inb :: "dio_set \<Rightarrow> u8 dio_m" where
  "DA820_dio_inb req = do {
     val \<leftarrow> dio_read;
     s \<leftarrow> gets id;
     shr_c (ucast val) (do_num s) }"

definition DA820_dio_outb :: "dio_set \<Rightarrow> unit dio_m" where
  "DA820_dio_outb = V2616A_dio_outb"

definition DA820_get_outb :: "dio_set \<Rightarrow> dio_set dio_m" where
  "DA820_get_outb = V2616A_get_outb"

definition V2201_dio_inb :: "dio_set \<Rightarrow> u8 dio_m" where
  "V2201_dio_inb req = do {
     val \<leftarrow> dio_read;
     s \<leftarrow> gets id;
     shr_c (drop_bit (nat (do_num s)) (ucast val)) (io_number req) }"

definition V2201_dio_outb :: "dio_set \<Rightarrow> unit dio_m" where
  "V2201_dio_outb = V2616A_dio_outb"

definition V2201_get_outb :: "dio_set \<Rightarrow> dio_set dio_m" where
  "V2201_get_outb = V2616A_get_outb"

definition DA_682B_DO_dio_inb :: "dio_set \<Rightarrow> u8 dio_m" where
  "DA_682B_DO_dio_inb req = do { val \<leftarrow> dio_read; shr_c (ucast val) (io_number req) }"

text \<open>The pattern LEDs of the DA-682B share the port: it is read before every change.\<close>

definition DA_682B_DO_dio_outb :: "dio_set \<Rightarrow> unit dio_m" where
  "DA_682B_DO_dio_outb req = do {
     s \<leftarrow> gets id;
     v \<leftarrow> inb (d_addr s);
     upd_do (\<lambda>_. v);
     upd_do (set_do (mode_data req) (nat (io_number req)));
     dio_write }"

definition DA_682B_DO_get_outb :: "dio_set \<Rightarrow> dio_set dio_m" where
  "DA_682B_DO_get_outb = V2616A_get_outb"

definition DA_682B_init :: "unit dio_m" where
  "DA_682B_init = do { s \<leftarrow> gets id; v \<leftarrow> inb (d_addr s); upd_do (\<lambda>_. v) }"

text \<open>The MC boards have a table of lines, address and bit, each with its own saved state.\<close>

definition MC_7130_DIN :: "(port \<times> nat) list" where
  "MC_7130_DIN = [(0x301, 0), (0x301, 1), (0x301, 2), (0x301, 3), (0x300, 6), (0x300, 7), (0x302, 2), (0x300, 4)]"

definition MC_7130_DOUT :: "(port \<times> nat) list" where
  "MC_7130_DOUT = [(0x301, 4), (0x301, 5), (0x301, 6), (0x301, 7), (0x304, 0), (0x304, 1), (0x304, 2), (0x304, 3)]"

definition MC_7200_DIN :: "(port \<times> nat) list" where
  "MC_7200_DIN = [(0x301, 0), (0x301, 1), (0x301, 2), (0x301, 3), (0x302, 0), (0x302, 1), (0x302, 2), (0x300, 4)]"

definition MC_7200_DOUT :: "(port \<times> nat) list" where
  "MC_7200_DOUT = [(0x301, 4), (0x301, 5), (0x301, 6), (0x300, 5), (0x304, 6), (0x303, 5), (0x302, 3), (0x302, 7)]"

definition mc_dio_inb :: "(port \<times> nat) list \<Rightarrow> dio_set \<Rightarrow> u8 dio_m" where
  "mc_dio_inb DIN req =
    (if io_number req < 0 \<or> 8 \<le> io_number req then do { undefined_c ''DIN index''; ret 0 }
     else do {
       let (a, b) = DIN ! nat (io_number req);
       val \<leftarrow> inb a;
       ret (drop_bit b val) })"

definition mc_dio_outb :: "(port \<times> nat) list \<Rightarrow> dio_set \<Rightarrow> unit dio_m" where
  "mc_dio_outb DOUT req = do {
     let i = nat (io_number req);
     let (a, b) = DOUT ! i;
     val \<leftarrow> inb a;
     let v = set_do (mode_data req) b val;
     modify (\<lambda>s. s\<lparr>DOUT_state := (DOUT_state s)[i := v]\<rparr>);
     outb v a }"

definition mc_get_outb :: "(port \<times> nat) list \<Rightarrow> dio_set \<Rightarrow> dio_set dio_m" where
  "mc_get_outb DOUT req = do {
     let i = nat (io_number req);
     st \<leftarrow> gets DOUT_state;
     ret (req\<lparr>mode_data := level (bit (st ! i) (snd (DOUT ! i)))\<rparr>) }"

definition MC_7130_MP_dio_inb :: "dio_set \<Rightarrow> u8 dio_m" where
  "MC_7130_MP_dio_inb = mc_dio_inb MC_7130_DIN"

definition MC_7130_MP_dio_outb :: "dio_set \<Rightarrow> unit dio_m" where
  "MC_7130_MP_dio_outb = mc_dio_outb MC_7130_DOUT"

definition MC_7130_MP_get_outb :: "dio_set \<Rightarrow> dio_set dio_m" where
  "MC_7130_MP_get_outb = mc_get_outb MC_7130_DOUT"

definition MC_7200_MP_dio_inb :: "dio_set \<Rightarrow> u8 dio_m" where
  "MC_7200_MP_dio_inb = mc_dio_inb MC_7200_DIN"

definition MC_7200_MP_dio_outb :: "dio_set \<Rightarrow> unit dio_m" where
  "MC_7200_MP_dio_outb = mc_dio_outb MC_7200_DOUT"

definition MC_7200_MP_get_outb :: "dio_set \<Rightarrow> dio_set dio_m" where
  "MC_7200_MP_get_outb = mc_get_outb MC_7200_DOUT"

text \<open>
  The device tables, as \<open>moxa_platform_dio_init\<close> hands them to \<open>dio_main.c\<close>: the callbacks and the
  initial entry (saved state, address, number of inputs and outputs).
\<close>

definition dio_entry :: "u8 \<Rightarrow> port \<Rightarrow> int \<Rightarrow> int \<Rightarrow> int \<Rightarrow> u8 \<Rightarrow> dio \<Rightarrow> dio" where
  "dio_entry st addr ins outs logic dout s = s\<lparr>do_state := st, d_addr := addr, di_num := ins, do_num := outs,
     d_method := gpio, log_dev := logic, DOUT_state := replicate 8 dout\<rparr>"

definition V2403 :: dio_board where
  "V2403 = \<lparr>b_inb = V2403_dio_inb, b_outb = V2403_dio_outb, b_get = V2403_get_outb,
     b_init = modify (dio_entry 0xf0 0x305 4 4 9 0)\<rparr>"

definition V2416A :: dio_board where
  "V2416A = \<lparr>b_inb = V2416A_dio_inb, b_outb = V2416A_dio_outb, b_get = V2416A_get_outb,
     b_init = modify (dio_entry 0 0x305 6 2 9 0)\<rparr>"

definition V2400A :: dio_board where
  "V2400A = \<lparr>b_inb = V2400A_dio_inb, b_outb = V2400A_dio_outb, b_get = V2400A_get_outb,
     b_init = modify (dio_entry 0xFF 0x305 6 2 9 0)\<rparr>"

definition V2616A :: dio_board where
  "V2616A = \<lparr>b_inb = V2616A_dio_inb, b_outb = V2616A_dio_outb, b_get = V2616A_get_outb,
     b_init = modify (dio_entry 0x03 0x304 6 2 9 0)\<rparr>"

definition DA820 :: dio_board where
  "DA820 = \<lparr>b_inb = DA820_dio_inb, b_outb = DA820_dio_outb, b_get = DA820_get_outb,
     b_init = modify (dio_entry 0 0x304 2 6 0 0)\<rparr>"

definition V2201 :: dio_board where
  "V2201 = \<lparr>b_inb = V2201_dio_inb, b_outb = V2201_dio_outb, b_get = V2201_get_outb,
     b_init = modify (dio_entry 0 0x305 4 4 9 0)\<rparr>"

definition DA_682B_DO :: dio_board where
  "DA_682B_DO = \<lparr>b_inb = DA_682B_DO_dio_inb, b_outb = DA_682B_DO_dio_outb, b_get = DA_682B_DO_get_outb,
     b_init = do { modify (dio_entry 0xFF 0x206 0 8 9 0); DA_682B_init }\<rparr>"

definition MC_7130_MP :: dio_board where
  "MC_7130_MP = \<lparr>b_inb = MC_7130_MP_dio_inb, b_outb = MC_7130_MP_dio_outb, b_get = MC_7130_MP_get_outb,
     b_init = modify (dio_entry 0 0 8 8 0 0)\<rparr>"

definition MC_7200_MP :: dio_board where
  "MC_7200_MP = \<lparr>b_inb = MC_7200_MP_dio_inb, b_outb = MC_7200_MP_dio_outb, b_get = MC_7200_MP_get_outb,
     b_init = modify (dio_entry 0 0 8 8 0 0xFF)\<rparr>"

section \<open>The device file\<close>

datatype dio_cmd = IOCTL_SET_DOUT | IOCTL_GET_DOUT | IOCTL_GET_DIN | Dio_other

definition give_set :: "dio_set uarg \<Rightarrow> dio_set \<Rightarrow> int dio_m" where
  "give_set u req = do {
     n \<leftarrow> copy_to_user u [io_number req, mode_data req];
     ret (if n \<noteq> 0 then -EFAULT else 0) }"

definition io_ioctl :: "dio_board \<Rightarrow> dio_cmd \<Rightarrow> dio_set uarg \<Rightarrow> int dio_m" where
  "io_ioctl b cmd u =
    (if ua_left u \<noteq> 0 then ret (-EFAULT)
     else do {
       let req = ua_in u;
       s \<leftarrow> gets id;
       (case cmd of
          IOCTL_SET_DOUT \<Rightarrow>
            if io_number req < 0 \<or> do_num s \<le> io_number req then ret (-EINVAL)
            else if mode_data req \<noteq> DIO_HIGH \<and> mode_data req \<noteq> DIO_LOW then ret (-EINVAL)
            else do { b_outb b req; ret 0 }
        | IOCTL_GET_DOUT \<Rightarrow>
            if io_number req = ALL_PORT then give_set u (req\<lparr>mode_data := uint (do_state s)\<rparr>)
            else if io_number req < 0 \<or> do_num s \<le> io_number req then ret (-EINVAL)
            else do { req \<leftarrow> b_get b req; give_set u req }
        | IOCTL_GET_DIN \<Rightarrow> do {
            di_state \<leftarrow> b_inb b req;
            if io_number req = ALL_PORT then give_set u (req\<lparr>mode_data := uint di_state\<rparr>)
            else if io_number req < 0 \<or> di_num s \<le> io_number req then ret (-EINVAL)
            else give_set u (req\<lparr>mode_data := (if bit di_state 0 then 1 else 0)\<rparr>) }
        | Dio_other \<Rightarrow> ret (-EINVAL)) })"

definition io_init_module :: "dio_board \<Rightarrow> int dio_m" where
  "io_init_module b = do { b_init b; kcall ''misc_register'' [104] }"

definition io_cleanup_module :: "unit dio_m" where
  "io_cleanup_module = knote ''misc_deregister'' [104]"

section \<open>The products\<close>

text \<open>
  \<open>CONFIG_PRODUCT\<close> of the Makefile selects the board file.  For each product: the board, where
  the saved level of output line \<open>i\<close> is, and its pin.
\<close>

datatype product = P_V2403 | P_V2416A | P_V2400A | P_V2616A | P_DA820 | P_V2201 | P_DA_682B
  | P_MC_7130 | P_MC_7200

fun board_of :: "product \<Rightarrow> dio_board" where
  "board_of P_V2403 = V2403"
| "board_of P_V2416A = V2416A"
| "board_of P_V2400A = V2400A"
| "board_of P_V2616A = V2616A"
| "board_of P_DA820 = DA820"
| "board_of P_V2201 = V2201"
| "board_of P_DA_682B = DA_682B_DO"
| "board_of P_MC_7130 = MC_7130_MP"
| "board_of P_MC_7200 = MC_7200_MP"

text \<open>Address, number of inputs and outputs, and the first bit of the outputs.\<close>

fun layout_of :: "product \<Rightarrow> port \<times> int \<times> int \<times> int" where
  "layout_of P_V2403 = (0x305, 4, 4, 4)"
| "layout_of P_V2416A = (0x305, 6, 2, 6)"
| "layout_of P_V2400A = (0x305, 6, 2, 6)"
| "layout_of P_V2616A = (0x304, 6, 2, 0)"
| "layout_of P_DA820 = (0x304, 2, 6, 0)"
| "layout_of P_V2201 = (0x305, 4, 4, 0)"
| "layout_of P_DA_682B = (0x206, 0, 8, 0)"
| "layout_of P_MC_7130 = (0, 8, 8, 0)"
| "layout_of P_MC_7200 = (0, 8, 8, 0)"

fun mc_table :: "product \<Rightarrow> (port \<times> nat) list" where
  "mc_table P_MC_7130 = MC_7130_DOUT"
| "mc_table P_MC_7200 = MC_7200_DOUT"
| "mc_table _ = []"

definition output_count :: "product \<Rightarrow> int" where
  "output_count p = fst (snd (snd (layout_of p)))"

definition pin_of :: "product \<Rightarrow> int \<Rightarrow> port \<times> nat" where
  "pin_of p i = (if mc_table p = [] then (fst (layout_of p), nat (i + snd (snd (snd (layout_of p)))))
     else mc_table p ! nat i)"

definition saved_level :: "product \<Rightarrow> dio \<Rightarrow> int \<Rightarrow> bool" where
  "saved_level p s i = bit (if mc_table p = [] then do_state s else DOUT_state s ! nat i) (snd (pin_of p i))"

definition dio_ready :: "product \<Rightarrow> (port \<Rightarrow> u8) \<Rightarrow> dio \<Rightarrow> bool" where
  "dio_ready p d s \<longleftrightarrow> d_addr s = fst (layout_of p) \<and> di_num s = fst (snd (layout_of p)) \<and>
     do_num s = output_count p \<and> d_method s = gpio \<and> length (DOUT_state s) = 8 \<and>
     (p = P_DA_682B \<longrightarrow> latching d (ienv s) \<and> do_state s = last_out d (ihist s) (d_addr s))"

section \<open>The output callbacks as an interface\<close>

locale dio_outputs =
  fixes b :: dio_board
    and n :: int
    and saved :: "dio \<Rightarrow> int \<Rightarrow> bool"
    and pin :: "int \<Rightarrow> port \<times> nat"
    and ok :: "dio \<Rightarrow> bool"
  assumes num: "ok s \<Longrightarrow> do_num s = n"
    and outb_saved: "ok s \<Longrightarrow> 0 \<le> i \<Longrightarrow> i < n \<Longrightarrow> m = 0 \<or> m = 1 \<Longrightarrow> 0 \<le> j \<Longrightarrow> j < n \<Longrightarrow>
      saved (snd (run_state (b_outb b \<lparr>io_number = i, mode_data = m\<rparr>) s)) j
      = (if j = i then m = 1 else saved s j)"
    and outb_ok: "ok s \<Longrightarrow> 0 \<le> i \<Longrightarrow> i < n \<Longrightarrow> m = 0 \<or> m = 1 \<Longrightarrow>
      ok (snd (run_state (b_outb b \<lparr>io_number = i, mode_data = m\<rparr>) s))"
    and outb_pin: "ok s \<Longrightarrow> 0 \<le> i \<Longrightarrow> i < n \<Longrightarrow> m = 0 \<or> m = 1 \<Longrightarrow>
      \<exists>v. hd (ihist (snd (run_state (b_outb b \<lparr>io_number = i, mode_data = m\<rparr>) s))) = Out_b v (fst (pin i))
        \<and> bit v (snd (pin i)) = (m = 1)"
    and get_saved: "ok s \<Longrightarrow> 0 \<le> i \<Longrightarrow> i < n \<Longrightarrow>
      run_state (b_get b \<lparr>io_number = i, mode_data = m\<rparr>) s
      = (\<lparr>io_number = i, mode_data = level (saved s i)\<rparr>, s)"
begin

lemma set_dout:
  assumes "ok s" "0 \<le> i" "i < n" "m = 0 \<or> m = 1" "ua_left u = 0" "ua_in u = \<lparr>io_number = i, mode_data = m\<rparr>"
    and "run_state (io_ioctl b IOCTL_SET_DOUT u) s = (r, t)"
  shows "r = 0 \<and> ok t \<and> (\<forall>j. 0 \<le> j \<and> j < n \<longrightarrow> saved t j = (if j = i then m = 1 else saved s j)) \<and>
    (\<exists>v. hd (ihist t) = Out_b v (fst (pin i)) \<and> bit v (snd (pin i)) = (m = 1))"
proof -
  have "r = 0" "t = snd (run_state (b_outb b \<lparr>io_number = i, mode_data = m\<rparr>) s)"
    using assms by (auto simp: io_ioctl_def Let_def num case_prod_beta)
  then show ?thesis
    using assms(1-4) outb_saved outb_ok outb_pin by auto
qed

lemma get_dout:
  assumes "ok s" "0 \<le> i" "i < n" "ua_left u = 0" "ua_out u = 0" "io_number (ua_in u) = i"
    and "run_state (io_ioctl b IOCTL_GET_DOUT u) s = (r, t)"
  shows "r = 0 \<and> hd (ihist t) = To_user [i, level (saved s i)]"
proof -
  obtain m where "ua_in u = \<lparr>io_number = i, mode_data = m\<rparr>"
    using assms(6) by (cases "ua_in u") auto
  then show ?thesis
    using assms get_saved [of s i m]
    by (auto simp: io_ioctl_def Let_def num give_set_def case_prod_beta)
qed

text \<open>A level that was set is read back, and setting it leaves the other lines as they read.\<close>

lemma set_then_get:
  assumes "ok s" "0 \<le> i" "i < n" "m = 0 \<or> m = 1" "ua_left u = 0" "ua_in u = \<lparr>io_number = i, mode_data = m\<rparr>"
    and "0 \<le> j" "j < n" "ua_left v = 0" "ua_out v = 0" "io_number (ua_in v) = j"
    and "run_state (io_ioctl b IOCTL_SET_DOUT u) s = (r, t)"
    and "run_state (io_ioctl b IOCTL_GET_DOUT v) t = (r', t')"
  shows "r = 0 \<and> r' = 0 \<and> hd (ihist t') = To_user [j, level (if j = i then m = 1 else saved s j)]"
  using set_dout [OF assms(1-6,12)] get_dout [of t j v r' t'] assms(7-11,13) by auto

end

lemmas board_defs = V2403_def V2416A_def V2400A_def V2616A_def DA820_def V2201_def DA_682B_DO_def
  MC_7130_MP_def MC_7200_MP_def V2416A_dio_outb_def V2400A_dio_outb_def DA820_dio_outb_def
  V2201_dio_outb_def V2416A_get_outb_def V2400A_get_outb_def DA820_get_outb_def V2201_get_outb_def
  DA_682B_DO_get_outb_def MC_7130_MP_dio_outb_def MC_7130_MP_get_outb_def MC_7200_MP_dio_outb_def
  MC_7200_MP_get_outb_def

lemmas callback_defs = V2403_dio_outb_def V2616A_dio_outb_def DA_682B_DO_dio_outb_def mc_dio_outb_def
  V2403_get_outb_def V2616A_get_outb_def mc_get_outb_def dio_write_def upd_do_def

lemma bit_set_do [bit_reg]:
  "k < 8 \<Longrightarrow> m = 0 \<or> m = 1 \<Longrightarrow> bit (set_do m k w) l = (if l = k then m = 1 else bit w l)"
  by (auto simp: set_do_def bit_reg)

lemma pin_bits: "0 \<le> i \<Longrightarrow> i < output_count p \<Longrightarrow> snd (pin_of p i) < 8"
proof -
  assume i: "0 \<le> i" "i < output_count p"
  have "i < 8 \<Longrightarrow> nat i \<in> {0, 1, 2, 3, 4, 5, 6, 7}"
    using i(1) by auto
  then show ?thesis
    using i by (cases p) (auto simp: pin_of_def output_count_def MC_7130_DOUT_def MC_7200_DOUT_def)
qed

lemma pin_inj: "mc_table p = [] \<Longrightarrow> 0 \<le> i \<Longrightarrow> 0 \<le> j \<Longrightarrow> (snd (pin_of p i) = snd (pin_of p j)) = (i = j)"
  by (cases p) (auto simp: pin_of_def)

lemma outb_run:
  assumes "dio_ready p d s" "0 \<le> i" "i < output_count p"
  defines "k \<equiv> snd (pin_of p i)"
  obtains w where "mc_table p = [] \<Longrightarrow> w = do_state s"
    and "snd (run_state (b_outb (board_of p) \<lparr>io_number = i, mode_data = m\<rparr>) s) = s\<lparr>
      do_state := (if mc_table p = [] then set_do m k w else do_state s),
      DOUT_state := (if mc_table p = [] then DOUT_state s else (DOUT_state s)[nat i := set_do m k w]),
      ihist := Out_b (set_do m k w) (fst (pin_of p i)) #
        (if p \<in> {P_DA_682B, P_MC_7130, P_MC_7200}
         then In_b (fst (pin_of p i)) w # ihist s else ihist s)\<rparr>"
proof (cases "mc_table p = []")
  case True
  then show ?thesis
    using assms(1-3)
    by (intro that [of "do_state s"]; cases p)
      (simp_all add: k_def board_defs callback_defs pin_of_def dio_ready_def latching_def
        MC_7130_DOUT_def MC_7200_DOUT_def)
next
  case False
  then show ?thesis
    using assms(1-3)
    by (intro that [of "env_b (ienv s) (ihist s) (fst (pin_of p i))"]; cases p)
      (simp_all add: k_def board_defs callback_defs pin_of_def Let_def case_prod_beta MC_7130_DOUT_def
        MC_7200_DOUT_def)
qed

interpretation outs: dio_outputs "board_of p" "output_count p" "saved_level p" "pin_of p" "dio_ready p d" for p d
proof unfold_locales
  fix s :: dio and i m j :: int
  assume s: "dio_ready p d s"
  show "do_num s = output_count p" using s by (simp add: dio_ready_def)
  assume i: "0 \<le> i" "i < output_count p"
  show "run_state (b_get (board_of p) \<lparr>io_number = i, mode_data = m\<rparr>) s
      = (\<lparr>io_number = i, mode_data = level (saved_level p s i)\<rparr>, s)"
    using s i by (cases p) (simp_all add: board_defs callback_defs saved_level_def pin_of_def dio_ready_def
      Let_def case_prod_beta MC_7130_DOUT_def MC_7200_DOUT_def)
  assume m: "m = 0 \<or> m = 1"
  show "dio_ready p d (snd (run_state (b_outb (board_of p) \<lparr>io_number = i, mode_data = m\<rparr>) s))"
    using s i m by (cases p) (simp_all add: board_defs callback_defs saved_level_def pin_of_def dio_ready_def
      Let_def case_prod_beta)
  obtain w where w: "mc_table p = [] \<Longrightarrow> w = do_state s"
    and run: "snd (run_state (b_outb (board_of p) \<lparr>io_number = i, mode_data = m\<rparr>) s) = s\<lparr>
      do_state := (if mc_table p = [] then set_do m (snd (pin_of p i)) w else do_state s),
      DOUT_state := (if mc_table p = [] then DOUT_state s
        else (DOUT_state s)[nat i := set_do m (snd (pin_of p i)) w]),
      ihist := Out_b (set_do m (snd (pin_of p i)) w) (fst (pin_of p i)) #
        (if p \<in> {P_DA_682B, P_MC_7130, P_MC_7200}
         then In_b (fst (pin_of p i)) w # ihist s else ihist s)\<rparr>"
    using outb_run [OF s i, of m] by blast
  show "\<exists>v. hd (ihist (snd (run_state (b_outb (board_of p) \<lparr>io_number = i, mode_data = m\<rparr>) s)))
        = Out_b v (fst (pin_of p i)) \<and> bit v (snd (pin_of p i)) = (m = 1)"
    unfolding run using pin_bits [OF i] m by (simp add: bit_reg)
  assume j: "0 \<le> j" "j < output_count p"
  show "saved_level p (snd (run_state (b_outb (board_of p) \<lparr>io_number = i, mode_data = m\<rparr>) s)) j
      = (if j = i then m = 1 else saved_level p s j)"
  proof (cases "mc_table p = []")
    case True
    then show ?thesis
      unfolding run saved_level_def using w pin_inj [OF True j(1) i(1)] pin_bits [OF i] m
      by (simp add: bit_reg)
  next
    case False
    then have "length (DOUT_state s) = 8" "output_count p = 8"
      using s by (cases p; simp add: dio_ready_def output_count_def)+
    then show ?thesis
      unfolding run saved_level_def using False i j pin_bits [OF i] m
      by (auto simp: bit_reg nth_list_update nat_eq_iff2)
  qed
qed

section \<open>Properties\<close>

text \<open>Loading the module makes any product ready.\<close>

lemma init_ready:
  assumes "latching d (ienv s)"
  shows "dio_ready p d (snd (run_state (b_init (board_of p)) s))"
  using assms by (cases p)
    (simp_all add: board_defs dio_entry_def DA_682B_init_def upd_do_def dio_ready_def output_count_def latching_def)

definition dio_example :: dio where
  "dio_example = \<lparr>ienv = latch_env (\<lambda>_. 0), ihist = [], do_state = 0, d_addr = 0, di_num = 0, do_num = 0,
     d_method = gpio, log_dev = 0, DOUT_state = replicate 8 0\<rparr>"

text \<open>
  On every supported product, after the module is loaded: a level set on an output line is
  driven on the line's pin and read back, and the other lines read back what they did before.
\<close>

theorem dout_set_get:
  assumes "dio_ready p d s" "0 \<le> i" "i < output_count p" "m = 0 \<or> m = 1" "0 \<le> j" "j < output_count p"
    and "ua_left u = 0" "ua_in u = \<lparr>io_number = i, mode_data = m\<rparr>"
    and "ua_left v = 0" "ua_out v = 0" "io_number (ua_in v) = j"
    and "run_state (io_ioctl (board_of p) IOCTL_SET_DOUT u) s = (r, t)"
    and "run_state (io_ioctl (board_of p) IOCTL_GET_DOUT v) t = (r', t')"
  shows "r = 0 \<and> r' = 0 \<and> dio_ready p d t \<and>
    hd (ihist t') = To_user [j, level (if j = i then m = 1 else saved_level p s j)] \<and>
    (\<exists>w. hd (ihist t) = Out_b w (fst (pin_of p i)) \<and> bit w (snd (pin_of p i)) = (m = 1))"
  using outs.set_then_get [OF assms(1-4,7,8,5,6,9-13)] outs.set_dout [OF assms(1-4,7,8,12)] by blast

lemma dout_set_get_witness:
  "hd (ihist (snd (run_state (io_ioctl V2616A IOCTL_GET_DOUT \<lparr>ua_left = 0, ua_in = \<lparr>io_number = 1, mode_data = 0\<rparr>, ua_out = 0\<rparr>)
     (snd (run_state (io_ioctl V2616A IOCTL_SET_DOUT \<lparr>ua_left = 0, ua_in = \<lparr>io_number = 1, mode_data = 1\<rparr>, ua_out = 0\<rparr>)
       (snd (run_state (b_init V2616A) dio_example))))))) = To_user [1, 1]"
  using dout_set_get [of P_V2616A "\<lambda>_. 0" "snd (run_state (b_init V2616A) dio_example)" 1 1 1
      "\<lparr>ua_left = 0, ua_in = \<lparr>io_number = 1, mode_data = 1\<rparr>, ua_out = 0\<rparr>"
      "\<lparr>ua_left = 0, ua_in = \<lparr>io_number = 1, mode_data = 0\<rparr>, ua_out = 0\<rparr>",
      OF _ _ _ _ _ _ _ _ _ _ _ prod.collapse [symmetric] prod.collapse [symmetric]]
    init_ready [of "\<lambda>_. 0" dio_example P_V2616A]
  by (simp add: output_count_def dio_example_def level_def)

text \<open>
  Requests the driver cannot serve are refused without touching the hardware: a failed copy
  from user space with \<open>-EFAULT\<close>; an output line outside the range of the board, a level other
  than 0 or 1 and an unknown command with \<open>-EINVAL\<close>.
\<close>

theorem dio_refusals:
  "(ua_left u \<noteq> 0 \<longrightarrow> run_state (io_ioctl b cmd u) s = (-EFAULT, s)) \<and>
   (ua_left u = 0 \<and> (io_number (ua_in u) < 0 \<or> do_num s \<le> io_number (ua_in u)) \<longrightarrow>
      run_state (io_ioctl b IOCTL_SET_DOUT u) s = (-EINVAL, s) \<and>
      (io_number (ua_in u) \<noteq> ALL_PORT \<longrightarrow> run_state (io_ioctl b IOCTL_GET_DOUT u) s = (-EINVAL, s))) \<and>
   (ua_left u = 0 \<and> mode_data (ua_in u) \<notin> {0, 1} \<longrightarrow>
      run_state (io_ioctl b IOCTL_SET_DOUT u) s = (-EINVAL, s)) \<and>
   (ua_left u = 0 \<longrightarrow> run_state (io_ioctl b Dio_other u) s = (-EINVAL, s))"
  by (simp add: io_ioctl_def Let_def)

lemma dio_refusals_witness:
  "run_state (io_ioctl V2403 IOCTL_SET_DOUT \<lparr>ua_left = 0, ua_in = \<lparr>io_number = 4, mode_data = 1\<rparr>, ua_out = 0\<rparr>)
     (dio_example\<lparr>do_num := 4\<rparr>) = (-EINVAL, dio_example\<lparr>do_num := 4\<rparr>)"
  using dio_refusals [of "\<lparr>ua_left = 0, ua_in = \<lparr>io_number = 4, mode_data = 1\<rparr>, ua_out = 0\<rparr>" V2403
    IOCTL_SET_DOUT "dio_example\<lparr>do_num := 4\<rparr>"] by simp

text \<open>The bit of the port a single input line reads, and the shift a board applies first.\<close>

fun input_bit :: "product \<Rightarrow> int \<Rightarrow> nat" where
  "input_bit P_V2616A i = nat (2 + i)"
| "input_bit P_DA820 i = 6"
| "input_bit P_V2201 i = nat (4 + i)"
| "input_bit p i = nat i"

text \<open>
  Reading one input line of a GPIO board reads the board's port once and reports the bit
  of that line; on the DA-820 it is bit 6 whichever line is asked for.
\<close>

theorem din_reads_line:
  assumes "dio_ready p d s" "p \<notin> {P_MC_7130, P_MC_7200}" "0 \<le> i" "i < di_num s"
    and "ua_left u = 0" "ua_out u = 0" "ua_in u = \<lparr>io_number = i, mode_data = m\<rparr>"
    and "run_state (io_ioctl (board_of p) IOCTL_GET_DIN u) s = (r, t)"
  defines "v \<equiv> env_b (ienv s) (ihist s) (fst (layout_of p))"
  shows "r = 0 \<and> ihist t = [To_user [i, level (bit v (input_bit p i))], In_b (fst (layout_of p)) v] @ ihist s"
proof -
  have i: "i < 8" "di_num s = fst (snd (layout_of p))" "nat i < 8"
    using assms(1,3,4) by (cases p; simp add: dio_ready_def)+
  show ?thesis
    using assms(1-8) i unfolding v_def
    by (cases p) (auto simp: board_defs dio_ready_def output_count_def io_ioctl_def Let_def dio_read_def
      V2403_dio_inb_def V2416A_dio_inb_def V2400A_dio_inb_def V2616A_dio_inb_def DA820_dio_inb_def
      V2201_dio_inb_def DA_682B_DO_dio_inb_def shr_c_def give_set_def level_def bit_simps nat_add_distrib add.commute)
qed

lemma din_reads_line_witness:
  "fst (run_state (io_ioctl DA820 IOCTL_GET_DIN \<lparr>ua_left = 0, ua_in = \<lparr>io_number = 1, mode_data = 0\<rparr>, ua_out = 0\<rparr>)
     (snd (run_state (b_init DA820) dio_example))) = 0"
  using din_reads_line [of P_DA820 "\<lambda>_. 0" "snd (run_state (b_init DA820) dio_example)" 1
      "\<lparr>ua_left = 0, ua_in = \<lparr>io_number = 1, mode_data = 0\<rparr>, ua_out = 0\<rparr>" 0,
      OF _ _ _ _ _ _ _ prod.collapse [symmetric]]
    init_ready [of "\<lambda>_. 0" dio_example P_DA820]
  by (simp add: dio_example_def board_defs dio_entry_def)

text \<open>
  Reading all input lines at once passes line number -1 to the board's callback: on every
  product except the V2616A and the DA-820 that is a shift by a negative count, or an index
  before the table of lines, and the request does something undefined.
\<close>

theorem din_all_undefined:
  assumes "dio_ready p d s" "p \<notin> {P_V2616A, P_DA820}" "ua_left u = 0" "io_number (ua_in u) = ALL_PORT"
  shows "\<not> defined_run (snd (run_state (io_ioctl (board_of p) IOCTL_GET_DIN u) s))"
  using assms
  by (cases p) (auto simp: board_defs dio_ready_def io_ioctl_def Let_def dio_read_def defined_run_def
    V2403_dio_inb_def V2416A_dio_inb_def V2400A_dio_inb_def MC_7130_MP_dio_inb_def MC_7200_MP_dio_inb_def
    V2201_dio_inb_def DA_682B_DO_dio_inb_def mc_dio_inb_def shr_c_def give_set_def)

lemma din_all_undefined_witness:
  "\<not> defined_run (snd (run_state (io_ioctl V2403 IOCTL_GET_DIN
     \<lparr>ua_left = 0, ua_in = \<lparr>io_number = -1, mode_data = 0\<rparr>, ua_out = 0\<rparr>)
     (snd (run_state (b_init V2403) dio_example))))"
  using din_all_undefined [of P_V2403 "\<lambda>_. 0" "snd (run_state (b_init V2403) dio_example)"]
    init_ready [of "\<lambda>_. 0" dio_example P_V2403]
  by (simp add: dio_example_def)

end
