(* ===== verification/Uart_Mode.thy ===== *)
theory Uart_Mode
  imports Superio
begin

text \<open>
  The drivers that switch serial ports between RS-232, RS-422 and RS-485:
  \<open>modules/moxa_v2200_uart/moxa-device-uart.c\<close> and \<open>modules/moxa_da820_uartmode/moxa_uart8250_mode.c\<close>.
  Both drive the mode lines through a GPIO port and the direction control of RS-485 through the
  Super I/O chip.  A write to a \<open>u8\<close> variable keeps the low byte of the shifted \<open>int\<close>.
\<close>

abbreviation "UART_AUTODIRECTION_CONTROL_ADDRESS \<equiv> 0xF0 :: u8"
abbreviation "RS232_MODE \<equiv> 0 :: u8"
abbreviation "RS485_2WIRE_MODE \<equiv> 1 :: u8"
abbreviation "RS422_MODE \<equiv> 2 :: u8"
abbreviation "RS485_4WIRE_MODE \<equiv> 3 :: u8"
abbreviation "BASEPORT4 \<equiv> 0x304 :: port"

section \<open>V2201: moxa-device-uart.c\<close>

record uart22 = io +
  keep_opmode :: u8

type_synonym 'a u22_m = "(uart22, 'a) state"

datatype u22_cmd = V2200_SET_OP_MODE | V2200_GET_OP_MODE | V2200_other

text \<open>\<open>((unsigned char)v) << n\<close> stored to a byte; a count of 32 or more is undefined.\<close>

definition shl_c :: "u8 \<Rightarrow> nat \<Rightarrow> u8 u22_m" where
  "shl_c v n = (if 32 \<le> n then do { undefined_c ''shift count''; ret 0 } else ret (push_bit n v))"

definition mode_line :: "u8 \<Rightarrow> u8" where
  "mode_line opmode = (if opmode = RS232_MODE then 0x8
     else if opmode = RS485_2WIRE_MODE then 0x2
     else if opmode = RS422_MODE \<or> opmode = RS485_4WIRE_MODE then 0x4 else 0)"

definition set_auto_direction :: "bool \<Rightarrow> u8 \<Rightarrow> ('x, unit) io_m" where
  "set_auto_direction on ld = do {
     val \<leftarrow> superio_read LOGIC_DEVICE_NUMBER UART_AUTODIRECTION_CONTROL_ADDRESS ld;
     superio_write LOGIC_DEVICE_NUMBER UART_AUTODIRECTION_CONTROL_ADDRESS ld
       (if on then val OR 0x80 else val AND NOT 0x80) }"

definition v2200_set_op_mode :: "u8 \<Rightarrow> int u22_m" where
  "v2200_set_op_mode arg = do {
     let port = drop_bit 4 arg;
     let opmode = arg AND 0xf;
     if opmode \<noteq> RS232_MODE \<and> opmode \<noteq> RS485_2WIRE_MODE \<and> opmode \<noteq> RS422_MODE
        \<and> opmode \<noteq> RS485_4WIRE_MODE \<and> port > 1 then ret (-EFAULT)
     else do {
       mask \<leftarrow> shl_c 0xe (4 * unat port);
       x \<leftarrow> inb BASEPORT4;
       line \<leftarrow> shl_c (mode_line opmode) (4 * unat port);
       outb (x AND NOT mask OR line) BASEPORT4;
       nib \<leftarrow> shl_c 0xf (unat port * 4);
       modify (\<lambda>s. s\<lparr>keep_opmode := keep_opmode s AND NOT nib\<rparr>);
       m \<leftarrow> shl_c opmode (unat port * 4);
       modify (\<lambda>s. s\<lparr>keep_opmode := keep_opmode s OR m\<rparr>);
       set_auto_direction (opmode = RS485_2WIRE_MODE) (port + 1);
       ret 0 } }"

definition v2200_get_op_mode :: "u8 \<Rightarrow> u8 uarg \<Rightarrow> int u22_m" where
  "v2200_get_op_mode port u =
    (if port > 1 then ret (-EINVAL)
     else do {
       k \<leftarrow> gets keep_opmode;
       _ \<leftarrow> copy_to_user u [uint (drop_bit (unat port * 4) k AND 0xf)];
       ret 0 })"

text \<open>
  \<open>copy_from_user\<close> returns the number of bytes left, never a negative number, so its failure is
  not noticed and the uninitialised variable is used.
\<close>

definition v2200_ioctl :: "u22_cmd \<Rightarrow> u8 uarg \<Rightarrow> int u22_m" where
  "v2200_ioctl cmd u = (case cmd of
     V2200_SET_OP_MODE \<Rightarrow> v2200_set_op_mode (ua_in u)
   | V2200_GET_OP_MODE \<Rightarrow> v2200_get_op_mode (ua_in u) u
   | V2200_other \<Rightarrow> ret (-EINVAL))"

definition v2200_init :: "int u22_m" where
  "v2200_init = kcall ''misc_register'' [112]"

definition v2200_exit :: "unit u22_m" where
  "v2200_exit = knote ''misc_deregister'' [112]"

section \<open>DA-820 and others: moxa_uart8250_mode.c\<close>

datatype um_model = UM_DA820 | UM_DA720 | UM_EXPC1519 | UM_MC7200 | UM_MC1100

text \<open>The headers of the models: the mode register and the bits of the modes of each port.\<close>

fun UART_MODE_IO_ADDRESS :: "um_model \<Rightarrow> port" where
  "UART_MODE_IO_ADDRESS UM_DA820 = 0x305"
| "UART_MODE_IO_ADDRESS UM_DA720 = 0x200"
| "UART_MODE_IO_ADDRESS _ = 0x304"

fun uartModeBit :: "um_model \<Rightarrow> nat list list" where
  "uartModeBit UM_DA820 = [[0, 2, 1], [4, 6, 5]]"
| "uartModeBit UM_DA720 = [[3, 1, 2], [6, 4, 5]]"
| "uartModeBit UM_EXPC1519 = [[1, 0, 3], [4, 5, 2]]"
| "uartModeBit UM_MC7200 = [[0, 0, 0], [0, 0, 0], [1, 0, 3], [4, 5, 2]]"
| "uartModeBit UM_MC1100 = [[1, 0, 3], [4, 5, 2]]"

text \<open>The mask of a port: no case of the switch for the MC-1100, nor for the unused rows of the MC-7200.\<close>

definition uart_mask :: "um_model \<Rightarrow> int \<Rightarrow> u8" where
  "uart_mask md n =
    (if md = UM_MC1100 \<or> md = UM_MC7200 \<and> n < 2 \<or> n < 0 \<or> int (length (uartModeBit md)) \<le> n then 0
     else fold (\<lambda>b w. w OR push_bit b 1) (uartModeBit md ! nat n) 0)"

definition direction_device :: "um_model \<Rightarrow> int \<Rightarrow> u8" where
  "direction_device md n = word_of_int (if md = UM_MC7200 then n + 6 else n + 1)"

text \<open>The MC-1100 compiles both accesses to the Super I/O chip out.\<close>

definition AutoDirectionControl :: "um_model \<Rightarrow> bool \<Rightarrow> int \<Rightarrow> ('x, unit) io_m" where
  "AutoDirectionControl md on n = whenM (md \<noteq> UM_MC1100) (set_auto_direction on (direction_device md n))"

definition EnableAutoDirectionControl :: "um_model \<Rightarrow> int \<Rightarrow> ('x, unit) io_m" where
  "EnableAutoDirectionControl md = AutoDirectionControl md True"

definition DisableAutoDirectionControl :: "um_model \<Rightarrow> int \<Rightarrow> ('x, unit) io_m" where
  "DisableAutoDirectionControl md = AutoDirectionControl md False"

record port_type =
  port_number :: int
  port_type :: int

datatype um_cmd = IOCTL_GET_8250_MODE | IOCTL_SET_8250_MODE | Um_other

definition in_table :: "um_model \<Rightarrow> int \<Rightarrow> bool" where
  "in_table md n \<longleftrightarrow> 0 \<le> n \<and> n < int (length (uartModeBit md))"

text \<open>The loop over the mode bits: the first one that is set gives the type.\<close>

fun find_mode :: "nat list \<Rightarrow> u8 \<Rightarrow> int \<Rightarrow> int option" where
  "find_mode [] v i = None"
| "find_mode (b # bs) v i = (if bit v b then Some i else find_mode bs v (i + 1))"

definition um_get :: "um_model \<Rightarrow> port_type uarg \<Rightarrow> (io, int) state" where
  "um_get md u = do {
     v \<leftarrow> inb (UART_MODE_IO_ADDRESS md);
     let p = ua_in u;
     whenM (\<not> in_table md (port_number p)) (undefined_c ''uartModeBit index'');
     let row = (if in_table md (port_number p) then uartModeBit md ! nat (port_number p) else []);
     let ty = (case find_mode row v 0 of Some i \<Rightarrow> i | None \<Rightarrow> port_type p);
     n \<leftarrow> copy_to_user u [port_number p, ty];
     ret (if n \<noteq> 0 then -EFAULT else 0) }"

definition um_set :: "um_model \<Rightarrow> port_type uarg \<Rightarrow> (io, int) state" where
  "um_set md u = do {
     let p = ua_in u;
     v \<leftarrow> inb (UART_MODE_IO_ADDRESS md);
     whenM (\<not> in_table md (port_number p) \<or> port_type p < 0 \<or> 3 \<le> port_type p)
       (undefined_c ''uartModeBit index'');
     let b = uartModeBit md ! nat (port_number p) ! nat (port_type p);
     outb (v AND NOT (uart_mask md (port_number p)) OR push_bit b 1) (UART_MODE_IO_ADDRESS md);
     (if port_type p \<noteq> 1 then DisableAutoDirectionControl md (port_number p)
      else EnableAutoDirectionControl md (port_number p));
     ret 0 }"

definition moxa_uart8250_mode_ioctl :: "um_model \<Rightarrow> um_cmd \<Rightarrow> port_type uarg \<Rightarrow> (io, int) state" where
  "moxa_uart8250_mode_ioctl md cmd u = (case cmd of
     IOCTL_GET_8250_MODE \<Rightarrow> if ua_left u \<noteq> 0 then ret (-EFAULT) else um_get md u
   | IOCTL_SET_8250_MODE \<Rightarrow> if ua_left u \<noteq> 0 then ret (-EFAULT) else um_set md u
   | Um_other \<Rightarrow> ret (-EINVAL))"

definition moxa_uart8250_mode_init :: "um_model \<Rightarrow> (io, int) state" where
  "moxa_uart8250_mode_init md = do {
     retval \<leftarrow> kcall ''misc_register'' [112];
     if retval < 0 then ret (-ENODEV)
     else do {
       base_res \<leftarrow> kcall ''request_region'' [int (UART_MODE_IO_ADDRESS md), 1];
       if base_res = 0 then do { knote ''misc_deregister'' [112]; ret (-ENOMEM) }
       else ret 0 } }"

definition moxa_uart8250_mode_exit :: "um_model \<Rightarrow> (io, unit) state" where
  "moxa_uart8250_mode_exit md = do {
     knote ''release_region'' [int (UART_MODE_IO_ADDRESS md), 1];
     knote ''misc_deregister'' [112] }"

section \<open>Properties\<close>

lemma auto_direction_effect:
  assumes "has_sio r s" "0x30 \<le> snd k"
  shows "sio_peek r (snd (run_state (set_auto_direction on ld) s)) k =
    (if k = (ld, UART_AUTODIRECTION_CONTROL_ADDRESS)
     then (if on then sio_peek r s k OR 0x80 else sio_peek r s k AND NOT 0x80) else sio_peek r s k)"
  using assms by (simp add: set_auto_direction_def case_prod_beta sio_access)

lemma auto_direction_outputs:
  "p \<noteq> 0x2e \<Longrightarrow> p \<noteq> 0x2f \<Longrightarrow>
   last_out d (ihist (snd (run_state (set_auto_direction on ld) s))) p = last_out d (ihist s) p"
  by (simp add: set_auto_direction_def superio_read_def superio_write_def superio_init_def
    superio_select_dev_def superio_release_def Let_def)

lemma auto_direction_only_io [io_rules]: "only_io (set_auto_direction on ld)"
  unfolding set_auto_direction_def superio_read_def superio_write_def superio_init_def
    superio_select_dev_def superio_release_def
  by (intro io_rules)

lemma auto_direction_frame:
  "\<exists>h. snd (run_state (set_auto_direction on ld) s) = s\<lparr>ihist := h @ ihist s\<rparr>"
  using auto_direction_only_io [of on ld] unfolding only_io_def by blast


subsection \<open>V2201\<close>

text \<open>The mode the driver remembers for a port, and the lines of the port on the mode register.\<close>

definition mode_nibble :: "nat \<Rightarrow> u8 \<Rightarrow> u8" where
  "mode_nibble p k = drop_bit (p * 4) k AND 0xf"

definition uart22_example :: uart22 where
  "uart22_example = \<lparr>ienv = (sio_env (\<lambda>_. 0))\<lparr>env_b := (\<lambda>h a. if a = BASEPORT4 then last_out (\<lambda>_. 0) h a
     else sio_in (sio_after (\<lambda>_. 0) h) a)\<rparr>, ihist = [], keep_opmode = 0\<rparr>"

lemma set_mode_run:
  assumes "opmode = 0 \<or> opmode = 1 \<or> opmode = 2 \<or> opmode = 3" "p = 0 \<or> p = 1"
  shows "run_state (v2200_set_op_mode (push_bit 4 p OR opmode)) s =
    (0, snd (run_state (set_auto_direction (opmode = RS485_2WIRE_MODE) (p + 1)) (s\<lparr>
      ihist := Out_b (env_b (ienv s) (ihist s) BASEPORT4 AND NOT (push_bit (4 * unat p) 0xe)
          OR push_bit (4 * unat p) (mode_line opmode)) BASEPORT4
        # In_b BASEPORT4 (env_b (ienv s) (ihist s) BASEPORT4) # ihist s,
      keep_opmode := keep_opmode s AND NOT (push_bit (unat p * 4) 0xf) OR push_bit (unat p * 4) opmode\<rparr>)))"
proof -
  have arg: "drop_bit 4 (push_bit 4 p OR opmode) = p" "(push_bit 4 p OR opmode) AND 0xf = opmode"
    using assms by auto
  have small: "4 * unat p < 32" "unat p * 4 < 32"
    using assms(2) by auto
  have shl_ok: "shl_c v (4 * unat p) = ret (push_bit (4 * unat p) v)"
      "shl_c v (unat p * 4) = ret (push_bit (unat p * 4) v)" for v
    using small by (simp_all add: shl_c_def)
  have guard: "\<not> (opmode \<noteq> RS232_MODE \<and> opmode \<noteq> RS485_2WIRE_MODE \<and> opmode \<noteq> RS422_MODE
      \<and> opmode \<noteq> RS485_4WIRE_MODE \<and> p > 1)"
    using assms(1) by blast
  show ?thesis
    unfolding v2200_set_op_mode_def Let_def arg if_not_P [OF guard]
    by (simp add: shl_ok case_prod_beta)
qed

lemma fifteen: "(0xf :: u8) = mask 4"
  by (simp add: mask_eq_exp_minus_1)

lemma bit_mode_nibble: "bit (mode_nibble q k) i \<longleftrightarrow> i < 4 \<and> bit k (q * 4 + i)"
  by (auto simp: mode_nibble_def fifteen bit_simps)

lemma nibble_update:
  assumes "msk AND 0xf = msk" "v AND 0xf = v" "p < 2" "q < 2"
  shows "mode_nibble q (k AND NOT (push_bit (p * 4) msk) OR push_bit (p * 4) v)
    = (if q = p then mode_nibble q k AND NOT msk OR v else mode_nibble q k)"
proof (rule bit_eqI)
  fix i
  have low: "bit w j \<Longrightarrow> j < 4" if "w AND 0xf = w" for w :: u8 and j
    using arg_cong [OF that, of "\<lambda>w. bit w j"] by (simp add: fifteen bit_simps)
  have "p = 0 \<or> p = 1" "q = 0 \<or> q = 1" using assms by auto
  then show "bit (mode_nibble q (k AND NOT (push_bit (p * 4) msk) OR push_bit (p * 4) v)) i
    \<longleftrightarrow> bit (if q = p then mode_nibble q k AND NOT msk OR v else mode_nibble q k) i"
    by (elim disjE) (auto simp: bit_mode_nibble bit_or_iff bit_and_iff bit_not_iff bit_push_bit_iff
      possible_bit_def dest: low [OF assms(1)] low [OF assms(2)])
qed

text \<open>
  On the V2201, setting mode \<open>m\<close> on port \<open>p\<close> drives exactly the line of that mode among
  bits 1 to 3 of the port's half of the mode register, keeps the rest of the register, switches
  the automatic direction control of the port on for two-wire RS-485 and off otherwise, and
  makes the mode the one that is reported back, while the other port reports what it did before.
\<close>

theorem v2200_set_get:
  assumes "p = 0 \<or> p = 1" "m \<in> {0, 1, 2, 3}" "latches d BASEPORT4 (ienv s)" "has_sio r s"
    and "ua_in u = push_bit 4 p OR m"
    and "run_state (v2200_ioctl V2200_SET_OP_MODE u) s = (x, t)"
    and "q = 0 \<or> q = 1" "ua_in v = q" "ua_out v = 0"
    and "run_state (v2200_ioctl V2200_GET_OP_MODE v) t = (x', t')"
  shows "x = 0 \<and> x' = 0 \<and>
    hd (ihist t') = To_user [uint (if q = p then m else mode_nibble (unat q) (keep_opmode s))] \<and>
    mode_nibble (unat q) (last_out d (ihist t) BASEPORT4) =
      (if q = p then mode_nibble (unat q) (last_out d (ihist s) BASEPORT4) AND 1 OR mode_line m
       else mode_nibble (unat q) (last_out d (ihist s) BASEPORT4)) \<and>
    sio_peek r t (q + 1, 0xF0) = (if q \<noteq> p then sio_peek r s (q + 1, 0xF0)
      else if m = RS485_2WIRE_MODE then sio_peek r s (q + 1, 0xF0) OR 0x80
      else sio_peek r s (q + 1, 0xF0) AND NOT 0x80)"
proof -
  define old where "old = last_out d (ihist s) BASEPORT4"
  define s1 where "s1 = s\<lparr>
      ihist := Out_b (old AND NOT (push_bit (unat p * 4) 0xe) OR push_bit (unat p * 4) (mode_line m)) BASEPORT4
        # In_b BASEPORT4 old # ihist s,
      keep_opmode := keep_opmode s AND NOT (push_bit (unat p * 4) 0xf) OR push_bit (unat p * 4) m\<rparr>"
  have m: "m = 0 \<or> m = 1 \<or> m = 2 \<or> m = 3" and pq: "unat p < 2" "unat q < 2" "(unat q = unat p) = (q = p)"
    using assms(1,2,7) by auto
  have m15: "m AND 0xf = m" "mode_line m AND 0xf = mode_line m"
    using m by (elim disjE; simp add: mode_line_def)+
  have old: "env_b (ienv s) (ihist s) BASEPORT4 = old"
    using assms(3) by (simp add: latches_def old_def)
  have x: "x = 0" and t: "t = snd (run_state (set_auto_direction (m = RS485_2WIRE_MODE) (p + 1)) s1)"
    using assms(5,6) set_mode_run [OF m assms(1), of s]
    by (simp_all add: v2200_ioctl_def old s1_def mult.commute)
  obtain h where h: "t = s1\<lparr>ihist := h @ ihist s1\<rparr>"
    using auto_direction_frame t by blast
  have nib: "mode_nibble (unat q) (keep_opmode t) = (if q = p then m else mode_nibble (unat q) (keep_opmode s))"
    using nibble_update [OF _ m15(1) pq(1,2), of "0xf" "keep_opmode s"] pq(3)
    by (simp add: h s1_def mode_nibble_def and.assoc)
  have lines: "mode_nibble (unat q) (last_out d (ihist t) BASEPORT4) =
      (if q = p then mode_nibble (unat q) old AND 1 OR mode_line m else mode_nibble (unat q) old)"
    using nibble_update [OF _ m15(2) pq(1,2), of "0xe" old] pq(3)
    by (simp add: t auto_direction_outputs s1_def mode_nibble_def and.assoc)
  have "has_sio r s1" "sio_peek r s1 k = sio_peek r s k" for k
    using assms(4) by (simp_all add: s1_def has_sio_def sio_peek_def sio_out_def)
  then have auto: "sio_peek r t (q + 1, 0xF0) = (if q \<noteq> p then sio_peek r s (q + 1, 0xF0)
      else if m = RS485_2WIRE_MODE then sio_peek r s (q + 1, 0xF0) OR 0x80
      else sio_peek r s (q + 1, 0xF0) AND NOT 0x80)"
    unfolding t by (simp add: auto_direction_effect)
  have "\<not> q > 1" using assms(7) by auto
  then have "x' = 0" "hd (ihist t') = To_user [uint (mode_nibble (unat q) (keep_opmode t))]"
    using assms(8-10) by (auto simp: v2200_ioctl_def v2200_get_op_mode_def mode_nibble_def case_prod_beta)
  with x nib lines auto show ?thesis
    by (simp add: old_def)
qed

lemma v2200_set_get_witness:
  "hd (ihist (snd (run_state (v2200_ioctl V2200_GET_OP_MODE \<lparr>ua_left = 0, ua_in = 1, ua_out = 0\<rparr>)
     (snd (run_state (v2200_ioctl V2200_SET_OP_MODE \<lparr>ua_left = 0, ua_in = 0x12, ua_out = 0\<rparr>) uart22_example)))))
   = To_user [2]"
  using v2200_set_get [of 1 2 "\<lambda>_. 0" uart22_example "\<lambda>_. 0" "\<lparr>ua_left = 0, ua_in = 0x12, ua_out = 0\<rparr>" _ _ 1
      "\<lparr>ua_left = 0, ua_in = 1, ua_out = 0\<rparr>", OF _ _ _ _ _ prod.collapse [symmetric] _ _ _ prod.collapse [symmetric]]
  by (simp add: uart22_example_def latches_def has_sio_def sio_env_def)

subsection \<open>The 8250 mode driver\<close>

text \<open>The ports the driver can switch, and the type a value of the mode register gives a port.\<close>

definition um_port :: "um_model \<Rightarrow> int \<Rightarrow> bool" where
  "um_port md n \<longleftrightarrow> md \<noteq> UM_MC1100 \<and> in_table md n \<and> (md = UM_MC7200 \<longrightarrow> 2 \<le> n)"

definition um_mode :: "um_model \<Rightarrow> u8 \<Rightarrow> int \<Rightarrow> int option" where
  "um_mode md w j = find_mode (uartModeBit md ! nat j) w 0"

lemma um_rows:
  assumes "um_port md n" "um_port md j"
  obtains a b c where "uartModeBit md ! nat n = [a, b, c]" "distinct [a, b, c]" "a < 8" "b < 8" "c < 8"
    "j \<noteq> n \<Longrightarrow> set (uartModeBit md ! nat j) \<inter> {a, b, c} = {}"
proof -
  have two: "n \<in> {0, 1} \<and> j \<in> {0, 1} \<or> md = UM_MC7200 \<and> n \<in> {2, 3} \<and> j \<in> {2, 3}"
    using assms by (cases md) (auto simp: um_port_def in_table_def)
  have "md \<noteq> UM_MC1100" "md = UM_MC7200 \<longrightarrow> 2 \<le> n"
    using assms(1) by (auto simp: um_port_def)
  with two that show thesis by (cases md) auto
qed

lemma bit_mask_fold: "bit (fold (\<lambda>b w. w OR push_bit b 1) bs w) i \<longleftrightarrow> bit (w :: u8) i \<or> i < 8 \<and> i \<in> set bs"
  by (induction bs arbitrary: w) (auto simp: bit_simps possible_bit_def)

lemma bit_uart_mask: "um_port md n \<Longrightarrow>
    bit (uart_mask md n) i \<longleftrightarrow> i < 8 \<and> i \<in> set (uartModeBit md ! nat n)"
  by (simp add: uart_mask_def um_port_def in_table_def bit_mask_fold del: push_bit_of_1) auto

lemma find_mode_ge: "find_mode bs v i = Some k \<Longrightarrow> i \<le> k"
  by (induction bs arbitrary: i) (force split: if_splits)+

lemma find_mode_cong: "(\<And>b. b \<in> set bs \<Longrightarrow> bit v b = bit w b) \<Longrightarrow> find_mode bs v i = find_mode bs w i"
  by (induction bs arbitrary: i) auto

lemma um_mode_update:
  assumes "um_port md n" "um_port md j" "ty = 0 \<or> ty = 1 \<or> ty = 2"
  shows "um_mode md (w AND NOT (uart_mask md n) OR push_bit (uartModeBit md ! nat n ! nat ty) 1) j
    = (if j = n then Some ty else um_mode md w j)"
proof -
  obtain a b c where row: "uartModeBit md ! nat n = [a, b, c]" "distinct [a, b, c]" "a < 8" "b < 8" "c < 8"
    "j \<noteq> n \<Longrightarrow> set (uartModeBit md ! nat j) \<inter> {a, b, c} = {}"
    using um_rows [OF assms(1,2)] by metis
  define x where "x = uartModeBit md ! nat n ! nat ty"
  have x: "x \<in> {a, b, c}" "x < 8" "x = (if ty = 0 then a else if ty = 1 then b else c)"
    using assms(3) row by (auto simp: x_def)
  define w' where "w' = w AND NOT (uart_mask md n) OR push_bit x 1"
  have bits: "bit w' i \<longleftrightarrow> (if i \<in> {a, b, c} then i = x else bit w i)" for i
    using row(1,3-5) x(1,2) bit_imp_le_length [of w i]
    by (auto simp: w'_def bit_or_iff bit_and_iff bit_not_iff bit_exp_iff bit_uart_mask [OF assms(1)] possible_bit_def)
  show ?thesis
  proof (cases "j = n")
    case True
    then show ?thesis
      using row(1,2) assms(3) x(3) unfolding x_def [symmetric] w'_def [symmetric] um_mode_def by (auto simp: bits)
  next
    case False
    then have "find_mode (uartModeBit md ! nat j) w' 0 = find_mode (uartModeBit md ! nat j) w 0"
      using row(6) by (intro find_mode_cong) (auto simp: bits)
    with False show ?thesis
      unfolding x_def [symmetric] w'_def [symmetric] um_mode_def by simp
  qed
qed

lemma direction_frame [simp]:
  "last_out d (ihist (snd (run_state (AutoDirectionControl md on n) s))) (UART_MODE_IO_ADDRESS md)
     = last_out d (ihist s) (UART_MODE_IO_ADDRESS md)"
  by (cases md) (simp_all add: AutoDirectionControl_def auto_direction_outputs)

lemma direction_only_io [io_rules]: "only_io (AutoDirectionControl md on n)"
  unfolding AutoDirectionControl_def by (intro io_rules)

lemma um_set_run:
  fixes s :: io
  assumes "um_port md n" "ty = 0 \<or> ty = 1 \<or> ty = 2" "ua_left u = 0" "ua_in u = \<lparr>port_number = n, port_type = ty\<rparr>"
  defines "w \<equiv> env_b (ienv s) (ihist s) (UART_MODE_IO_ADDRESS md)"
  shows "run_state (moxa_uart8250_mode_ioctl md IOCTL_SET_8250_MODE u) s = (0, snd (run_state
    (AutoDirectionControl md (ty = 1) n) (s\<lparr>ihist := Out_b (w AND NOT (uart_mask md n) OR
        push_bit (uartModeBit md ! nat n ! nat ty) 1) (UART_MODE_IO_ADDRESS md) #
        In_b (UART_MODE_IO_ADDRESS md) w # ihist s\<rparr>)))"
proof -
  have ok: "in_table md n" "\<not> ty < 0" "\<not> 3 \<le> ty"
    using assms(1,2) by (auto simp: um_port_def)
  have dir: "(if ty \<noteq> 1 then DisableAutoDirectionControl md n else EnableAutoDirectionControl md n)
      = AutoDirectionControl md (ty = 1) n"
    by (simp add: DisableAutoDirectionControl_def EnableAutoDirectionControl_def)
  show ?thesis
    using assms(3,4)
    by (simp add: moxa_uart8250_mode_ioctl_def um_set_def Let_def case_prod_beta ok dir [simplified] w_def
        cong: if_cong del: push_bit_of_1)
qed

text \<open>
  On every model except the MC-1100, a type set on a switchable port is the one read back,
  the other switchable port reads back the type it had, and the automatic direction control of
  the port's Super I/O device is on exactly for RS-485.
\<close>

theorem um_set_get:
  assumes "um_port md n" "ty = 0 \<or> ty = 1 \<or> ty = 2" "um_port md j"
    and "latches d (UART_MODE_IO_ADDRESS md) (ienv s)" "has_sio r s"
    and "ua_left u = 0" "ua_in u = \<lparr>port_number = n, port_type = ty\<rparr>"
    and "ua_left v = 0" "ua_out v = 0" "ua_in v = \<lparr>port_number = j, port_type = y\<rparr>"
    and "run_state (moxa_uart8250_mode_ioctl md IOCTL_SET_8250_MODE u) s = (x, t)"
    and "run_state (moxa_uart8250_mode_ioctl md IOCTL_GET_8250_MODE v) t = (x', t')"
  shows "x = 0 \<and> x' = 0 \<and>
    hd (ihist t') = To_user [j, if j = n then ty else
      (case um_mode md (last_out d (ihist s) (UART_MODE_IO_ADDRESS md)) j of Some i \<Rightarrow> i | None \<Rightarrow> y)] \<and>
    sio_peek r t (direction_device md n, 0xF0) =
      (if ty = 1 then sio_peek r s (direction_device md n, 0xF0) OR 0x80
       else sio_peek r s (direction_device md n, 0xF0) AND NOT 0x80)"
proof -
  let ?a = "UART_MODE_IO_ADDRESS md"
  define w where "w = last_out d (ihist s) ?a"
  define w' where "w' = w AND NOT (uart_mask md n) OR push_bit (uartModeBit md ! nat n ! nat ty) 1"
  define s1 where "s1 = s\<lparr>ihist := Out_b w' ?a # In_b ?a w # ihist s\<rparr>"
  have w: "env_b (ienv s) (ihist s) ?a = w"
    using assms(4) by (simp add: latches_def w_def)
  have x: "x = 0" and t: "t = snd (run_state (AutoDirectionControl md (ty = 1) n) s1)"
    using assms(11) unfolding um_set_run [OF assms(1,2,6,7)] w w'_def [symmetric] s1_def by simp_all
  obtain h where h: "t = s1\<lparr>ihist := h @ ihist s1\<rparr>"
    using direction_only_io t by (metis only_ioE)
  have a: "?a \<noteq> 0x2e" "?a \<noteq> 0x2f"
    by (cases md; simp)+
  have s1: "has_sio r s1" "sio_peek r s1 k = sio_peek r s k" for k
    using assms(5) a by (simp_all add: s1_def has_sio_def sio_peek_def sio_out_def)
  have "sio_peek r t (direction_device md n, 0xF0) =
      (if ty = 1 then sio_peek r s (direction_device md n, 0xF0) OR 0x80
       else sio_peek r s (direction_device md n, 0xF0) AND NOT 0x80)"
    using assms(1) s1 unfolding t AutoDirectionControl_def by (simp add: um_port_def auto_direction_effect)
  moreover have "env_b (ienv t) (ihist t) ?a = w'"
  proof -
    have "last_out d (ihist t) ?a = w'"
      unfolding t by (simp add: s1_def)
    moreover have "ienv t = ienv s"
      unfolding h by (simp add: s1_def)
    ultimately show ?thesis
      using assms(4) by (simp add: latches_def)
  qed
  then have "x' = 0 \<and> hd (ihist t') = To_user [j, case um_mode md w' j of Some i \<Rightarrow> i | None \<Rightarrow> y]"
    using assms(3,8-10,12)
    by (auto simp: moxa_uart8250_mode_ioctl_def um_get_def Let_def case_prod_beta um_mode_def um_port_def
      cong: option.case_cong)
  ultimately show ?thesis
    using x um_mode_update [OF assms(1,3,2), of w] by (auto simp: w'_def w_def)
qed

definition um_example :: io where
  "um_example = \<lparr>ienv = (sio_env (\<lambda>_. 0))\<lparr>env_b := (\<lambda>h a. if a = 0x305 then last_out (\<lambda>_. 0) h a
     else sio_in (sio_after (\<lambda>_. 0) h) a)\<rparr>, ihist = []\<rparr>"

lemma um_set_get_witness:
  "hd (ihist (snd (run_state (moxa_uart8250_mode_ioctl UM_DA820 IOCTL_GET_8250_MODE
       \<lparr>ua_left = 0, ua_in = \<lparr>port_number = 1, port_type = 0\<rparr>, ua_out = 0\<rparr>)
     (snd (run_state (moxa_uart8250_mode_ioctl UM_DA820 IOCTL_SET_8250_MODE
       \<lparr>ua_left = 0, ua_in = \<lparr>port_number = 1, port_type = 2\<rparr>, ua_out = 0\<rparr>) um_example))))) = To_user [1, 2]"
  using um_set_get [of UM_DA820 1 2 1 "\<lambda>_. 0" um_example "\<lambda>_. 0"
      "\<lparr>ua_left = 0, ua_in = \<lparr>port_number = 1, port_type = 2\<rparr>, ua_out = 0\<rparr>"
      "\<lparr>ua_left = 0, ua_in = \<lparr>port_number = 1, port_type = 0\<rparr>, ua_out = 0\<rparr>",
      OF _ _ _ _ _ _ _ _ _ _ prod.collapse [symmetric] prod.collapse [symmetric]]
  by (simp add: um_example_def latches_def has_sio_def sio_env_def um_port_def in_table_def)

text \<open>
  On the MC-1100 no case of the driver clears the bits of a port, so the bit of RS-232 stays
  once it was set: whatever type is set afterwards on the port, type 0 (RS-232) is read back.
\<close>

theorem mc1100_mode_sticks:
  assumes "n = 0 \<or> n = 1" "ty = 0 \<or> ty = 1 \<or> ty = 2"
    and "latches d (UART_MODE_IO_ADDRESS UM_MC1100) (ienv s)"
    and "um_mode UM_MC1100 (last_out d (ihist s) (UART_MODE_IO_ADDRESS UM_MC1100)) n = Some 0"
    and "ua_left u = 0" "ua_in u = \<lparr>port_number = n, port_type = ty\<rparr>"
    and "ua_left v = 0" "ua_out v = 0" "port_number (ua_in v) = n"
    and "run_state (moxa_uart8250_mode_ioctl UM_MC1100 IOCTL_SET_8250_MODE u) s = (x, t)"
    and "run_state (moxa_uart8250_mode_ioctl UM_MC1100 IOCTL_GET_8250_MODE v) t = (x', t')"
  shows "x = 0 \<and> x' = 0 \<and> hd (ihist t') = To_user [n, 0]"
proof -
  define w where "w = last_out d (ihist s) (UART_MODE_IO_ADDRESS UM_MC1100)"
  define b where "b = uartModeBit UM_MC1100 ! nat n ! nat ty"
  have w: "env_b (ienv s) (ihist s) 0x304 = w"
    using assms(3) by (simp add: latches_def w_def)
  have ok: "in_table UM_MC1100 n" "\<not> ty < 0" "\<not> 3 \<le> ty"
    using assms(1,2) by (auto simp: in_table_def)
  have x: "x = 0" and t: "t = s\<lparr>ihist := Out_b (w OR push_bit b 1) 0x304 # In_b 0x304 w # ihist s\<rparr>"
    using assms(5,6,10)
    by (simp_all add: moxa_uart8250_mode_ioctl_def um_set_def Let_def case_prod_beta ok w b_def uart_mask_def
      DisableAutoDirectionControl_def EnableAutoDirectionControl_def AutoDirectionControl_def whenM_def
      cong: if_cong del: push_bit_of_1 uartModeBit.simps)
  have n: "in_table UM_MC1100 n"
    using assms(1) by (auto simp: in_table_def)
  have "um_mode UM_MC1100 (w OR push_bit b 1) n = Some 0"
    using assms(1,4) by (auto simp: um_mode_def w_def bit_or_iff split: if_splits dest: find_mode_ge)
  moreover have "env_b (ienv t) (ihist t) 0x304 = w OR push_bit b 1"
    using assms(3) by (simp add: t latches_def)
  ultimately have "x' = 0 \<and> hd (ihist t') = To_user [n, 0]"
    using assms(7-9,11) n
    by (auto simp: moxa_uart8250_mode_ioctl_def um_get_def Let_def case_prod_beta um_mode_def)
  with x show ?thesis by blast
qed

lemma mc1100_mode_sticks_witness:
  "hd (ihist (snd (run_state (moxa_uart8250_mode_ioctl UM_MC1100 IOCTL_GET_8250_MODE
       \<lparr>ua_left = 0, ua_in = \<lparr>port_number = 0, port_type = 0\<rparr>, ua_out = 0\<rparr>)
     (snd (run_state (moxa_uart8250_mode_ioctl UM_MC1100 IOCTL_SET_8250_MODE
       \<lparr>ua_left = 0, ua_in = \<lparr>port_number = 0, port_type = 1\<rparr>, ua_out = 0\<rparr>)
       \<lparr>ienv = latch_env (\<lambda>_. 2), ihist = []\<rparr>)))))
   = To_user [0, 0]"
  using mc1100_mode_sticks [of 0 1 "\<lambda>_. 2" "\<lparr>ienv = latch_env (\<lambda>_. 2), ihist = []\<rparr>"
      "\<lparr>ua_left = 0, ua_in = \<lparr>port_number = 0, port_type = 1\<rparr>, ua_out = 0\<rparr>"
      "\<lparr>ua_left = 0, ua_in = \<lparr>port_number = 0, port_type = 0\<rparr>, ua_out = 0\<rparr>",
      OF _ _ _ _ _ _ _ _ _ prod.collapse [symmetric] prod.collapse [symmetric]]
  by (simp add: latch_env_def latches_def um_mode_def)

end
