(* ===== verification/Leds.thy ===== *)
theory Leds
  imports Interfaces
begin

text \<open>
  The programmable LED driver (\<open>modules/moxa_pled/moxa-pled.c\<close> with its board headers) and the
  relay driver (\<open>modules/moxa_da681a_relay/moxa-relay.c\<close>).  Both take a string of the digits 0
  and 1, one for each lamp, and give one back.

  The board selected at compile time is an argument.  The buffer of the C code is the list of
  the bytes it holds after the copy from user space, whose failure the code does not look at.
\<close>

section \<open>The boards\<close>

datatype led_board = LED_DA683 | LED_DA682A | LED_DA681A | LED_DA682B | LED_DA710 | LED_V2201 | LED_DA820

fun LED_NUM :: "led_board \<Rightarrow> nat" where
  "LED_NUM LED_DA681A = 6"
| "LED_NUM LED_DA682B = 4"
| "LED_NUM LED_DA710 = 4"
| "LED_NUM LED_V2201 = 1"
| "LED_NUM _ = 8"

fun LED_PORT :: "led_board \<Rightarrow> port" where
  "LED_PORT LED_DA683 = 0x701"
| "LED_PORT LED_DA682B = 0x206"
| "LED_PORT LED_DA710 = 0xe4"
| "LED_PORT _ = 0x301"

fun LED_MASK :: "led_board \<Rightarrow> u8" where
  "LED_MASK LED_DA681A = 0x3F"
| "LED_MASK LED_DA682B = 0x0F"
| "LED_MASK LED_DA710 = 0x0F"
| "LED_MASK LED_V2201 = 0x01"
| "LED_MASK _ = 0xFF"

fun ACTIVE_LOW :: "led_board \<Rightarrow> bool" where
  "ACTIVE_LOW LED_DA683 = False"
| "ACTIVE_LOW _ = True"

subsection \<open>The DA-710 reaches its LEDs through the Super I/O chip\<close>

abbreviation "CONFIG_PORT \<equiv> 0x2e :: port"

definition small_delay :: "('x, unit) io_m" where
  "small_delay = outb 0x80 0xeb"

definition da710_get_reg :: "u8 \<Rightarrow> ('x, u8) io_m" where
  "da710_get_reg val = do {
     outb val CONFIG_PORT;
     small_delay;
     val \<leftarrow> inb (CONFIG_PORT + 1);
     small_delay;
     ret val }"

definition da710_set_reg :: "u8 \<Rightarrow> u8 \<Rightarrow> ('x, unit) io_m" where
  "da710_set_reg val index = do {
     outb index CONFIG_PORT;
     small_delay;
     outb val (CONFIG_PORT + 1);
     small_delay }"

definition da710_set_logic_device :: "u8 \<Rightarrow> ('x, unit) io_m" where
  "da710_set_logic_device val = do { da710_set_reg val 0x07; small_delay }"

definition da710_enter_config :: "('x, unit) io_m" where
  "da710_enter_config = do { outb 0x87 CONFIG_PORT; small_delay; outb 0x87 CONFIG_PORT; small_delay }"

definition da710_exit_config :: "('x, unit) io_m" where
  "da710_exit_config = do { outb 0xaa CONFIG_PORT; small_delay }"

definition led_in :: "led_board \<Rightarrow> ('x, u8) io_m" where
  "led_in b = (if b = LED_DA710 then da710_get_reg (word_of_nat (LED_PORT b)) else inb (LED_PORT b))"

definition led_out :: "led_board \<Rightarrow> u8 \<Rightarrow> ('x, unit) io_m" where
  "led_out b v = (if b = LED_DA710 then da710_set_reg v (word_of_nat (LED_PORT b)) else outb v (LED_PORT b))"

text \<open>The macro \<open>superio_config(x)\<close> returns \<open>x\<close> from the calling function when the device is disabled.\<close>

definition led_superio_config :: "led_board \<Rightarrow> ('x, bool) io_m" where
  "led_superio_config b =
    (if b = LED_DA710 then do {
       da710_enter_config;
       da710_set_logic_device 9;
       temp_i \<leftarrow> da710_get_reg 30;
       if temp_i AND 0x1 \<noteq> 0x1 then do { da710_exit_config; ret False } else ret True }
     else ret True)"

definition moxa_platform_led_init :: "led_board \<Rightarrow> ('x, unit) io_m" where
  "moxa_platform_led_init b =
    (if b = LED_DA710 then do {
       da710_enter_config;
       da710_set_logic_device 9;
       led_out b 0x0f;
       da710_exit_config }
     else led_out b (if ACTIVE_LOW b then LED_MASK b else NOT (LED_MASK b)))"

section \<open>The LED driver\<close>

text \<open>The digits: \<open>None\<close> at the first character that is neither 0 nor 1.\<close>

fun parse_digits :: "u8 list \<Rightarrow> nat \<Rightarrow> u8 \<Rightarrow> u8 option" where
  "parse_digits [] i st = Some st"
| "parse_digits (c # cs) i st =
    (if c = 0x31 then parse_digits cs (i + 1) (st OR push_bit i 1)
     else if c = 0x30 then parse_digits cs (i + 1) st
     else None)"

definition show_digits :: "nat \<Rightarrow> u8 \<Rightarrow> u8 list" where
  "show_digits n st = map (\<lambda>i. if bit st i then 0x30 else 0x31) [0..<n]"

definition pled_write :: "led_board \<Rightarrow> nat \<Rightarrow> u8 list \<Rightarrow> ('x, int) io_m" where
  "pled_write b count stack_buf =
    (if count \<noteq> LED_NUM b + 1 then ret (-EINVAL)
     else do {
       ok \<leftarrow> led_superio_config b;
       if \<not> ok then ret (int count)
       else (case parse_digits (take (LED_NUM b) stack_buf) 0 0 of
         None \<Rightarrow> ret (int count)
       | Some st \<Rightarrow> do {
           st \<leftarrow> (if ACTIVE_LOW b then do {
               v \<leftarrow> led_in b;
               ret ((v AND NOT (LED_MASK b)) OR (NOT st AND LED_MASK b)) }
             else ret st);
           led_out b st;
           ret (int count) }) })"

definition pled_read :: "led_board \<Rightarrow> nat \<Rightarrow> unit uarg \<Rightarrow> ('x, int) io_m" where
  "pled_read b count u =
    (if count \<le> LED_NUM b then ret (-EINVAL)
     else do {
       st \<leftarrow> led_in b;
       _ \<leftarrow> copy_to_user u (map uint (show_digits (LED_NUM b) st));
       ret (int (LED_NUM b)) })"

text \<open>The power of the mini-PCIe slots of the V2201 shares the LED port.\<close>

record slot_info =
  slot_num :: int
  slot_value :: int

datatype pled_cmd = PLED_POWER_OFF | PLED_POWER_ON | Pled_other

definition pled_ioctl :: "pled_cmd \<Rightarrow> slot_info uarg \<Rightarrow> ('x, int) io_m" where
  "pled_ioctl cmd u =
    (if ua_left u \<noteq> 0 then ret (-EFAULT)
     else do {
       v \<leftarrow> led_in LED_V2201;
       let n = slot_num (ua_in u);
       let org = NOT v;
       let org = (case cmd of
           PLED_POWER_OFF \<Rightarrow> if n = 0 then set_bit 2 org else if n = 1 then set_bit 4 org else org
         | PLED_POWER_ON \<Rightarrow> if n = 0 then unset_bit 2 org else if n = 1 then unset_bit 4 org else org
         | Pled_other \<Rightarrow> org);
       led_out LED_V2201 (NOT org);
       ret 0 })"

definition pled_init_module :: "led_board \<Rightarrow> ('x, int) io_m" where
  "pled_init_module b = do {
     r \<leftarrow> kcall ''misc_register'' [105];
     if r \<noteq> 0 then ret (-ENOMEM) else do { moxa_platform_led_init b; ret 0 } }"

definition pled_cleanup_module :: "('x, unit) io_m" where
  "pled_cleanup_module = knote ''misc_deregister'' [105]"

section \<open>The relay driver\<close>

abbreviation "RELAY_NUM \<equiv> 1 :: nat"
abbreviation "RELAY_PORT \<equiv> 0x304 :: port"
abbreviation "RELAY_MASK \<equiv> 0x01 :: u8"

definition relay_write :: "nat \<Rightarrow> u8 list \<Rightarrow> ('x, int) io_m" where
  "relay_write count stack_buf =
    (if count \<noteq> RELAY_NUM + 1 then ret (-EINVAL)
     else (case parse_digits (take RELAY_NUM stack_buf) 0 0 of
         None \<Rightarrow> ret (int count)
       | Some st \<Rightarrow> do { outb (NOT st) RELAY_PORT; ret (int count) }))"

definition relay_read :: "nat \<Rightarrow> unit uarg \<Rightarrow> ('x, int) io_m" where
  "relay_read count u =
    (if count \<le> RELAY_NUM then ret (-EINVAL)
     else do {
       st \<leftarrow> inb RELAY_PORT;
       _ \<leftarrow> copy_to_user u (map uint (show_digits RELAY_NUM st));
       ret (int RELAY_NUM) })"

definition relay_init_module :: "('x, int) io_m" where
  "relay_init_module = do {
     r \<leftarrow> kcall ''misc_register'' [108];
     if r \<noteq> 0 then ret (-ENOMEM) else do { outb RELAY_MASK RELAY_PORT; ret 0 } }"

definition relay_cleanup_module :: "('x, unit) io_m" where
  "relay_cleanup_module = knote ''misc_deregister'' [108]"

section \<open>The digits as bits\<close>

definition digits :: "bool list \<Rightarrow> u8 list" where
  "digits bs = map (\<lambda>b. if b then 0x31 else 0x30) bs"

lemma parse_digits_bits:
  "\<exists>v. parse_digits (digits bs) i st = Some v \<and>
    (\<forall>k. bit v k \<longleftrightarrow> bit st k \<or> k < 8 \<and> i \<le> k \<and> k < i + length bs \<and> bs ! (k - i))"
proof (induction bs arbitrary: i st)
  case Nil
  then show ?case by (auto simp: digits_def)
next
  case (Cons b bs)
  define st' where "st' = (if b then st OR push_bit i 1 else st)"
  obtain v where v: "parse_digits (digits bs) (i + 1) st' = Some v"
    "\<forall>k. bit v k \<longleftrightarrow> bit st' k \<or> k < 8 \<and> i + 1 \<le> k \<and> k < i + 1 + length bs \<and> bs ! (k - (i + 1))"
    using Cons.IH by blast
  have st': "bit st' k \<longleftrightarrow> bit st k \<or> b \<and> k < 8 \<and> k = i" for k
    by (auto simp: st'_def bit_or_iff bit_exp_iff possible_bit_def)
  have split: "i \<le> k \<and> k < i + length (b # bs) \<and> (b # bs) ! (k - i) \<longleftrightarrow>
      k = i \<and> b \<or> i + 1 \<le> k \<and> k < i + 1 + length bs \<and> bs ! (k - (i + 1))" for k
    by (cases "k = i") (auto simp: nth_Cons')
  have "parse_digits (digits (b # bs)) i st = Some v"
    using v(1) by (cases b) (simp_all add: digits_def st'_def)
  moreover have "bit v k \<longleftrightarrow> bit st k \<or> k < 8 \<and> i \<le> k \<and> k < i + length (b # bs) \<and> (b # bs) ! (k - i)" for k
    using v(2) st' [of k] split [of k] by metis
  ultimately show ?case by blast
qed

lemma bit_LED_MASK: "bit (LED_MASK b) k \<longleftrightarrow> k < LED_NUM b"
proof -
  have "LED_MASK b = mask (LED_NUM b)"
    by (cases b) (simp_all add: mask_eq_exp_minus_1)
  moreover have "LED_NUM b \<le> 8"
    by (cases b) simp_all
  ultimately show ?thesis
    by (auto simp: bit_mask_iff possible_bit_def)
qed

lemma LED_NUM_le: "LED_NUM b \<le> 8"
  by (cases b) simp_all

lemma parse_all:
  assumes "length bs \<le> 8"
  obtains v where "parse_digits (digits bs) 0 0 = Some v" "\<And>k. bit v k \<longleftrightarrow> k < length bs \<and> bs ! k"
proof -
  obtain v where v: "parse_digits (digits bs) 0 0 = Some v"
    "\<forall>k. bit v k \<longleftrightarrow> k < 8 \<and> k < length bs \<and> bs ! k"
    using parse_digits_bits [of bs 0 0] by auto
  show thesis
  proof (rule that [OF v(1)])
    fix k show "bit v k \<longleftrightarrow> k < length bs \<and> bs ! k"
      using v(2) [rule_format, of k] assms by linarith
  qed
qed

lemma show_parsed:
  assumes "n = length bs" "\<And>k. k < n \<Longrightarrow> bit st k \<longleftrightarrow> \<not> bs ! k"
  shows "show_digits n st = digits bs"
proof (rule nth_equalityI)
  show "length (show_digits n st) = length (digits bs)"
    using assms(1) by (simp add: show_digits_def digits_def)
  fix k assume "k < length (show_digits n st)"
  then show "show_digits n st ! k = digits bs ! k"
    using assms(1) assms(2) [of k] by (simp add: show_digits_def digits_def)
qed

section \<open>Properties\<close>

text \<open>
  On the boards whose LEDs are a GPIO port, a pattern of digits written is the pattern read
  back, and the bits of the port that are not LEDs are kept; on the DA-683, whose LEDs are
  active high, the complement of the pattern is read back.
\<close>

theorem pled_write_read:
  assumes "b \<noteq> LED_DA710" "latches d (LED_PORT b) (ienv s)" "length bs = LED_NUM b"
    and "run_state (pled_write b (LED_NUM b + 1) (digits bs)) s = (n, t)"
    and "LED_NUM b < c" "ua_out u = 0" "run_state (pled_read b c u) t = (m, t')"
  shows "n = int (LED_NUM b) + 1 \<and> m = int (LED_NUM b) \<and>
    hd (ihist t') = To_user (map uint (digits (if ACTIVE_LOW b then bs else map Not bs))) \<and>
    (\<forall>k. ACTIVE_LOW b \<and> LED_NUM b \<le> k \<longrightarrow>
      bit (last_out d (ihist t) (LED_PORT b)) k = bit (last_out d (ihist s) (LED_PORT b)) k)"
proof -
  have le: "length bs \<le> 8"
    using assms(3) LED_NUM_le [of b] by simp
  obtain v where v: "parse_digits (digits bs) 0 0 = Some v" "\<And>k. bit v k \<longleftrightarrow> k < length bs \<and> bs ! k"
    using parse_all [OF le] by blast
  have tk: "take (LED_NUM b) (digits bs) = digits bs"
    using assms(3) by (simp add: digits_def)
  define w where "w = last_out d (ihist s) (LED_PORT b)"
  define x where "x = (if ACTIVE_LOW b then (w AND NOT (LED_MASK b)) OR (NOT v AND LED_MASK b) else v)"
  have env: "env_b (ienv s) (ihist s) (LED_PORT b) = w"
    using assms(2) by (simp add: latches_def w_def)
  have nt: "n = int (LED_NUM b) + 1" "last_out d (ihist t) (LED_PORT b) = x" "ienv t = ienv s"
    using assms(1,4) by (auto simp: pled_write_def led_superio_config_def tk v(1) led_in_def led_out_def env x_def
      split: if_splits)
  have bits: "bit x k \<longleftrightarrow> (if ACTIVE_LOW b then (if k < LED_NUM b then \<not> bs ! k else bit w k) else k < LED_NUM b \<and> bs ! k)" for k
    using assms(3) LED_NUM_le [of b] bit_imp_le_length [of w k] by (auto simp: x_def bit_or_iff bit_and_iff bit_not_iff bit_LED_MASK v(2) possible_bit_def)
  have "env_b (ienv t) (ihist t) (LED_PORT b) = x"
    using assms(2) nt(2,3) by (simp add: latches_def)
  then have "m = int (LED_NUM b)" "hd (ihist t') = To_user (map uint (show_digits (LED_NUM b) x))"
    using assms(1,5-7) by (auto simp: pled_read_def led_in_def)
  moreover have "show_digits (LED_NUM b) x = digits (if ACTIVE_LOW b then bs else map Not bs)"
    using assms(3) by (intro show_parsed) (auto simp: bits)
  ultimately show ?thesis
    using nt bits by (auto simp: w_def)
qed

lemma pled_write_read_witness:
  "hd (ihist (snd (run_state (pled_read LED_DA682B 5 \<lparr>ua_left = 0, ua_in = (), ua_out = 0\<rparr>)
     (snd (run_state (pled_write LED_DA682B 5 [0x31, 0x30, 0x30, 0x31]) \<lparr>ienv = latch_env (\<lambda>_. 0xF0), ihist = []\<rparr>)))))
   = To_user [0x31, 0x30, 0x30, 0x31]"
  using pled_write_read [OF _ _ _ prod.collapse [symmetric] _ _ prod.collapse [symmetric],
      of LED_DA682B "\<lambda>_. 0xF0" "\<lparr>ienv = latch_env (\<lambda>_. 0xF0), ihist = []\<rparr>" "[True, False, False, True]" 5
      "\<lparr>ua_left = 0, ua_in = (), ua_out = 0\<rparr>"]
  by (simp add: digits_def latches_def latch_env_def)

text \<open>A string of the wrong length is refused and one with another character is ignored, both without output.\<close>

lemma pled_write_bad:
  assumes "b \<noteq> LED_DA710"
  shows "count \<noteq> LED_NUM b + 1 \<Longrightarrow> run_state (pled_write b count st) s = (-EINVAL, s)"
    and "count = LED_NUM b + 1 \<Longrightarrow> parse_digits (take (LED_NUM b) st) 0 0 = None \<Longrightarrow>
      run_state (pled_write b count st) s = (int count, s)"
  using assms by (simp_all add: pled_write_def led_superio_config_def)

text \<open>The slot power of the V2201 changes the slot's bit only; a set bit is a slot with power.\<close>

lemma pled_ioctl_effect:
  assumes "ua_left u = 0" "latches d (LED_PORT LED_V2201) (ienv s)" "slot_num (ua_in u) = 0 \<or> slot_num (ua_in u) = 1"
    and "cmd = PLED_POWER_OFF \<or> cmd = PLED_POWER_ON"
  shows "bit (last_out d (ihist (snd (run_state (pled_ioctl cmd u) s))) (LED_PORT LED_V2201)) k =
    (if k = (if slot_num (ua_in u) = 0 then 2 else 4) then cmd = PLED_POWER_ON
     else bit (last_out d (ihist s) (LED_PORT LED_V2201)) k)"
  using assms by (auto simp: pled_ioctl_def led_in_def led_out_def Let_def latches_def bit_not_iff bit_reg possible_bit_def
    dest: bit_imp_le_length)

end
