(* ===== verification/Gpio_Power.thy ===== *)
theory Gpio_Power
  imports Leds
begin

text \<open>
  The drivers that switch power, reset and disable lines through a GPIO port:
  \<open>modules/moxa_da820_usb_power/moxa_usb_power.c\<close>,
  \<open>modules/moxa_v2616A_minipcie_reset/moxa_usb_gpio.c\<close>,
  \<open>modules/moxa_v2403_minipciepower/drivers/main.c\<close> and \<open>modules/v2400a_dkcontrol/main.c\<close>.

  All of them read the port, change a bit and write the port back.  \<open>request_line\<close> tabulates the
  line and the level each request is documented to drive; the property is an instance of the
  line bank contract on latching ports.
\<close>

section \<open>USB power of the DA-820: moxa_usb_power.c\<close>

abbreviation "MX_USB_POWER_ADDR \<equiv> 0x303 :: port"
abbreviation "FRONT_END \<equiv> 0x40 :: u8"
abbreviation "REAR_END \<equiv> 0x01 :: u8"

datatype usb_power_cmd = SET_FRONT_END | GET_FRONT_END | SET_REAR_END | GET_REAR_END | Usb_other

definition set_usb_power :: "u8 \<Rightarrow> int \<Rightarrow> u8 \<Rightarrow> ('x, unit) io_m" where
  "set_usb_power m on_off org_val =
    outb (if on_off = 0 then org_val AND NOT m else org_val OR m) MX_USB_POWER_ADDR"

definition get_usb_power :: "u8 \<Rightarrow> int \<Rightarrow> int uarg \<Rightarrow> ('x, int) io_m" where
  "get_usb_power m retval u = do {
     v \<leftarrow> inb MX_USB_POWER_ADDR;
     n \<leftarrow> copy_to_user u [uint (v AND m)];
     ret (if n \<noteq> 0 then -EFAULT else retval) }"

text \<open>The number of bytes \<open>copy_from_user\<close> left is never negative; it is what SET returns.\<close>

definition usb_power_ioctl :: "usb_power_cmd \<Rightarrow> int uarg \<Rightarrow> ('x, int) io_m" where
  "usb_power_ioctl cmd u = do {
     let retval = int (ua_left u);
     let on_off = ua_in u;
     org_val \<leftarrow> inb MX_USB_POWER_ADDR;
     (case cmd of
        SET_FRONT_END \<Rightarrow> do { set_usb_power FRONT_END on_off org_val; ret retval }
      | GET_FRONT_END \<Rightarrow> get_usb_power FRONT_END retval u
      | SET_REAR_END \<Rightarrow> do { set_usb_power REAR_END on_off org_val; ret retval }
      | GET_REAR_END \<Rightarrow> get_usb_power REAR_END retval u
      | Usb_other \<Rightarrow> ret (-EINVAL)) }"

text \<open>
  The proc files.  \<open>value\<close> is what \<open>sscanf\<close> found in the buffer; the terminator is stored at
  \<open>kbuffer[count + 1]\<close>, beyond the 64 bytes of the buffer from \<open>count = 63\<close> on.
\<close>

definition proc_read_usb_power :: "u8 \<Rightarrow> ('x, int) io_m" where
  "proc_read_usb_power m = do {
     v \<leftarrow> inb MX_USB_POWER_ADDR;
     knote ''seq_printf'' [if v AND m \<noteq> 0 then 1 else 0];
     ret 0 }"

definition proc_write_usb_power :: "u8 \<Rightarrow> nat \<Rightarrow> int \<Rightarrow> ('x, int) io_m" where
  "proc_write_usb_power m count value = do {
     whenM (63 \<le> count) (undefined_c ''kbuffer index'');
     org_val \<leftarrow> inb MX_USB_POWER_ADDR;
     set_usb_power m value org_val;
     ret (int count) }"

definition proc_read_front_end_usb_power :: "('x, int) io_m" where
  "proc_read_front_end_usb_power = proc_read_usb_power FRONT_END"

definition proc_write_front_end_usb_power :: "nat \<Rightarrow> int \<Rightarrow> ('x, int) io_m" where
  "proc_write_front_end_usb_power = proc_write_usb_power FRONT_END"

definition proc_read_rear_end_usb_power :: "('x, int) io_m" where
  "proc_read_rear_end_usb_power = proc_read_usb_power REAR_END"

definition proc_write_rear_end_usb_power :: "nat \<Rightarrow> int \<Rightarrow> ('x, int) io_m" where
  "proc_write_rear_end_usb_power = proc_write_usb_power REAR_END"

definition usb_power_init_module :: "('x, int) io_m" where
  "usb_power_init_module = do {
     res \<leftarrow> kcall ''misc_register'' [109];
     if res < 0 then ret (-EIO)
     else do {
       r \<leftarrow> kcall ''request_region'' [int MX_USB_POWER_ADDR, 1];
       if r = 0 then do { knote ''misc_deregister'' [109]; ret (-EIO) }
       else do {
         knote ''proc_create(front_end)'' [];
         knote ''proc_create(rear_end)'' [];
         ret 0 } } }"

text \<open>The module is only unloaded after a successful load, when the region is held.\<close>

definition usb_power_cleanup_module :: "('x, unit) io_m" where
  "usb_power_cleanup_module = do {
     knote ''remove_proc_entry(rear_end)'' [];
     knote ''remove_proc_entry(front_end)'' [];
     knote ''release_region'' [int MX_USB_POWER_ADDR, 1];
     knote ''misc_deregister'' [109] }"

section \<open>Mini-PCIe reset and disable of the V2616A: moxa_usb_gpio.c\<close>

abbreviation "MX_USB_GPIO_ADDR \<equiv> 0x305 :: port"
abbreviation "PCIE1_RESET \<equiv> 0x20 :: u8"
abbreviation "PCIE1_WDISABLE \<equiv> 0x80 :: u8"

datatype usb_gpio_cmd = PCIE_WDISABLE | PCIE_RESET | Usb_gpio_other

definition usb_gpio_ioctl :: "usb_gpio_cmd \<Rightarrow> slot_info uarg \<Rightarrow> ('x, int) io_m" where
  "usb_gpio_ioctl cmd u =
    (if ua_left u \<noteq> 0 then ret (-EFAULT)
     else do {
       let si = ua_in u;
       org_val \<leftarrow> inb MX_USB_GPIO_ADDR;
       (case cmd of
          PCIE_WDISABLE \<Rightarrow>
            if slot_num si = 1 then do {
              outb (if slot_value si = 0 then org_val OR PCIE1_WDISABLE
                else org_val AND NOT PCIE1_WDISABLE) MX_USB_GPIO_ADDR;
              ret 0 }
            else ret (-EINVAL)
        | PCIE_RESET \<Rightarrow>
            if slot_num si = 1 then do {
              outb (if slot_value si = 0 then org_val AND NOT PCIE1_RESET
                else org_val OR PCIE1_RESET) MX_USB_GPIO_ADDR;
              ret 0 }
            else ret (-EINVAL)
        | Usb_gpio_other \<Rightarrow> ret (-EINVAL)) })"

definition usb_gpio_init_module :: "('x, int) io_m" where
  "usb_gpio_init_module = do {
     res \<leftarrow> kcall ''misc_register'' [108];
     if res < 0 then ret (-EIO)
     else do {
       r \<leftarrow> kcall ''request_region'' [int MX_USB_GPIO_ADDR, 1];
       if r = 0 then do { knote ''misc_deregister'' [108]; ret (-EIO) }
       else ret 0 } }"

definition usb_gpio_cleanup_module :: "('x, unit) io_m" where
  "usb_gpio_cleanup_module = do {
     knote ''release_region'' [int MX_USB_GPIO_ADDR, 1];
     knote ''misc_deregister'' [108] }"

section \<open>Slot power of the V2403 and of the V2400A\<close>

abbreviation "DKCONTROL_GPIO_ADDR \<equiv> 0x304 :: port"

definition bad_slot :: "bool \<Rightarrow> slot_info \<Rightarrow> bool" where
  "bad_slot set_slot si \<longleftrightarrow> \<not> set_slot \<or> slot_num si > 4 \<or> slot_num si < 1 \<or> slot_value si > 1 \<or> slot_value si < 0"

definition power_control_ioctl :: "bool \<Rightarrow> slot_info uarg \<Rightarrow> ('x, int) io_m" where
  "power_control_ioctl set_slot u =
    (if ua_left u \<noteq> 0 then ret (-EFAULT)
     else if bad_slot set_slot (ua_in u) then ret (-EINVAL)
     else do {
       let si = ua_in u;
       regv \<leftarrow> inb DKCONTROL_GPIO_ADDR;
       let regv = (if slot_num si = 2 then (if slot_value si = 0 then regv OR 0x40 else regv AND 0xbf)
         else if slot_num si = 1 then (if slot_value si = 0 then regv OR 0x10 else regv AND 0xef)
         else regv);
       outb regv DKCONTROL_GPIO_ADDR;
       ret 0 })"

definition power_control_init_module :: "('x, int) io_m" where
  "power_control_init_module = kcall ''misc_register'' [105]"

definition power_control_cleanup_module :: "('x, unit) io_m" where
  "power_control_cleanup_module = knote ''misc_deregister'' [105]"

definition dkcontrol_ioctl :: "bool \<Rightarrow> slot_info uarg \<Rightarrow> ('x, int) io_m" where
  "dkcontrol_ioctl set_slot u =
    (if ua_left u \<noteq> 0 then ret (-EFAULT)
     else if bad_slot set_slot (ua_in u) then ret (-EINVAL)
     else do {
       let si = ua_in u;
       regv \<leftarrow> inb DKCONTROL_GPIO_ADDR;
       let regv = (if slot_num si = 4 then (if slot_value si \<noteq> 0 then regv OR 0x80 else regv AND 0x7f)
         else if slot_num si = 3 then (if slot_value si = 0 then regv OR 0x40 else regv AND 0xbf)
         else if slot_num si = 2 then (if slot_value si \<noteq> 0 then regv OR 0x20 else regv AND 0xdf)
         else if slot_num si = 1 then (if slot_value si = 0 then regv OR 0x10 else regv AND 0xef)
         else regv);
       outb regv DKCONTROL_GPIO_ADDR;
       ret 0 })"

definition dkcontrol_init_module :: "('x, int) io_m" where
  "dkcontrol_init_module = kcall ''misc_register'' [105]"

definition dkcontrol_cleanup_module :: "('x, unit) io_m" where
  "dkcontrol_cleanup_module = knote ''misc_deregister'' [105]"

section \<open>The lines\<close>

datatype power_request = Req_usb usb_power_cmd int | Req_pcie usb_gpio_cmd slot_info
  | Req_v2403 slot_info | Req_dk slot_info

definition good_arg :: "'a \<Rightarrow> 'a uarg" where
  "good_arg x = \<lparr>ua_left = 0, ua_in = x, ua_out = 0\<rparr>"

fun power_ioctl :: "power_request \<Rightarrow> ('x, int) io_m" where
  "power_ioctl (Req_usb cmd v) = usb_power_ioctl cmd (good_arg v)"
| "power_ioctl (Req_pcie cmd si) = usb_gpio_ioctl cmd (good_arg si)"
| "power_ioctl (Req_v2403 si) = power_control_ioctl True (good_arg si)"
| "power_ioctl (Req_dk si) = dkcontrol_ioctl True (good_arg si)"

text \<open>
  The documented effect of the requests that switch a line: port, bit and level.  The V2403 and
  two slots of the V2400A are active low, as the disable line of the mini-PCIe slot is.
\<close>

fun request_line :: "power_request \<Rightarrow> (port \<times> nat \<times> bool) option" where
  "request_line (Req_usb SET_FRONT_END v) = Some (0x303, 6, v \<noteq> 0)"
| "request_line (Req_usb SET_REAR_END v) = Some (0x303, 0, v \<noteq> 0)"
| "request_line (Req_usb _ v) = None"
| "request_line (Req_pcie PCIE_WDISABLE si) = (if slot_num si = 1 then Some (0x305, 7, slot_value si = 0) else None)"
| "request_line (Req_pcie PCIE_RESET si) = (if slot_num si = 1 then Some (0x305, 5, slot_value si \<noteq> 0) else None)"
| "request_line (Req_pcie Usb_gpio_other si) = None"
| "request_line (Req_v2403 si) =
    (if slot_value si \<noteq> 0 \<and> slot_value si \<noteq> 1 then None
     else if slot_num si = 1 then Some (0x304, 4, slot_value si = 0)
     else if slot_num si = 2 then Some (0x304, 6, slot_value si = 0) else None)"
| "request_line (Req_dk si) =
    (if slot_value si \<noteq> 0 \<and> slot_value si \<noteq> 1 then None
     else if slot_num si = 1 then Some (0x304, 4, slot_value si = 0)
     else if slot_num si = 2 then Some (0x304, 5, slot_value si = 1)
     else if slot_num si = 3 then Some (0x304, 6, slot_value si = 0)
     else if slot_num si = 4 then Some (0x304, 7, slot_value si = 1) else None)"

text \<open>Every request that switches a line is one read-modify-write of the line's port.\<close>

lemma request_rmw:
  assumes "request_line q = Some (p, b, l)"
  shows "run_state (power_ioctl q) s = (0, snd (run_state (rmw inb (\<lambda>a v. outb v a) p (write_line l b)) s))"
  using assms
  by (cases q rule: request_line.cases)
    (auto simp: usb_power_ioctl_def usb_gpio_ioctl_def power_control_ioctl_def dkcontrol_ioctl_def good_arg_def
      bad_slot_def set_usb_power_def rmw_def write_line_def Let_def mask_values line_masks split: if_splits)

section \<open>Property\<close>

text \<open>
  Every request of the four power drivers that switches a line succeeds, drives exactly the
  documented bit of its port to the documented level, and leaves the other bits of the port and
  every other latching port as they were.
\<close>

theorem power_lines:
  assumes "request_line q = Some (p, b, l)" "latching d (ienv s)" "run_state (power_ioctl q) s = (r, t)"
  shows "r = 0 \<and> bit (last_out d (ihist t) a) k = (if a = p \<and> k = b then l else bit (last_out d (ihist s) a) k)"
proof -
  have "b < 8"
    using assms(1) by (cases q rule: request_line.cases) (auto split: if_splits)
  then show ?thesis
    using latch.set_line [OF assms(2) TrueI TrueI, where n = b and k = p and j = a and b = l and m = k] assms(3) request_rmw [OF assms(1), of s] by simp
qed

lemma power_lines_witness:
  "bit (last_out (\<lambda>_. 0) (ihist (snd (run_state (power_ioctl (Req_dk \<lparr>slot_num = 2, slot_value = 1\<rparr>))
     \<lparr>ienv = latch_env (\<lambda>_. 0), ihist = []\<rparr>))) 0x304) 5"
  using power_lines [OF _ _ prod.collapse [symmetric],
      of "Req_dk \<lparr>slot_num = 2, slot_value = 1\<rparr>" "0x304" 5 True "\<lambda>_. 0" "\<lparr>ienv = latch_env (\<lambda>_. 0), ihist = []\<rparr>" "0x304" 5]
  by simp

text \<open>The V2403 driver accepts slots 3 and 4, for which it only rewrites the port.\<close>

lemma v2403_unused_slots:
  "slot_num si = 3 \<or> slot_num si = 4 \<Longrightarrow> slot_value si = 0 \<or> slot_value si = 1 \<Longrightarrow>
   fst (run_state (power_ioctl (Req_v2403 si)) s) = 0 \<and>
   hd (ihist (snd (run_state (power_ioctl (Req_v2403 si)) s))) = Out_b (env_b (ienv s) (ihist s) 0x304) 0x304"
  by (auto simp: power_control_ioctl_def good_arg_def bad_slot_def Let_def)

end
