(* ===== verification/Irigb.thy ===== *)
theory Irigb
  imports Interfaces
begin

text \<open>
  The IRIG-B time code driver, \<open>modules/moxa_IRIG-B/moxa_irigb.c\<close> and \<open>moxa_irigb.h\<close>: requests on the
  registers of the FPGA, the interrupt handler with its mask of off-line sources, the polling
  timer used without an interrupt, and finding and removing the card.

  The registers are 32 bits wide and addressed by their index in \<open>FPGA_REGS\<close> from the mapped
  base.  \<open>last_l d h\<close> is the content of memory-mapped registers that hold what was last written
  to them; \<open>mmio\<close> interprets the register-file contract on them.  The kernel is 4.15 or
  later (\<open>timer_setup\<close>).
\<close>

type_synonym u64 = "64 word"

section \<open>Registers\<close>

datatype FPGA_REGS = DEVICEID | DATECODE | SYSCON | LPBTCNT | INPORTCON | OUTPORTCON | PORTDAT
  | IRIGBDE0DAT0 | IRIGBDE0DAT1 | IRIGBDE0DAT2 | IRIGBDE0DAT3 | IRIGBDE0CNT
  | IRIGBDE1DAT0 | IRIGBDE1DAT1 | IRIGBDE1DAT2 | IRIGBDE1DAT3 | IRIGBDE1CNT
  | PPSCON | TMCON | INTSTS | INTMSK | PPSDETIMEOUT | RTCCON
  | RTCDAT0 | RTCDAT1 | RTCDAT2 | RTCDAT3 | RTCLS | RTCDST | SFIFOCON | SFIFODAT | NLEDCON

primrec reg_no :: "FPGA_REGS \<Rightarrow> u64" where
  "reg_no DEVICEID = 0" | "reg_no DATECODE = 1" | "reg_no SYSCON = 2" | "reg_no LPBTCNT = 3"
| "reg_no INPORTCON = 4" | "reg_no OUTPORTCON = 5" | "reg_no PORTDAT = 6"
| "reg_no IRIGBDE0DAT0 = 7" | "reg_no IRIGBDE0DAT1 = 8" | "reg_no IRIGBDE0DAT2 = 9"
| "reg_no IRIGBDE0DAT3 = 10" | "reg_no IRIGBDE0CNT = 11"
| "reg_no IRIGBDE1DAT0 = 12" | "reg_no IRIGBDE1DAT1 = 13" | "reg_no IRIGBDE1DAT2 = 14"
| "reg_no IRIGBDE1DAT3 = 15" | "reg_no IRIGBDE1CNT = 16"
| "reg_no PPSCON = 17" | "reg_no TMCON = 18" | "reg_no INTSTS = 19" | "reg_no INTMSK = 20"
| "reg_no PPSDETIMEOUT = 21" | "reg_no RTCCON = 22"
| "reg_no RTCDAT0 = 23" | "reg_no RTCDAT1 = 24" | "reg_no RTCDAT2 = 25" | "reg_no RTCDAT3 = 26"
| "reg_no RTCLS = 27" | "reg_no RTCDST = 28" | "reg_no SFIFOCON = 29" | "reg_no SFIFODAT = 30"
| "reg_no NLEDCON = 31"

abbreviation "INTSTS_BIT_IRIG0DE_OFF \<equiv> 0x001 :: u32"
abbreviation "INTSTS_BIT_IRIG0DE_FRMERR \<equiv> 0x002 :: u32"
abbreviation "INTSTS_BIT_IRIG0DE_PARERR \<equiv> 0x004 :: u32"
abbreviation "INTSTS_BIT_IRIG0DE_DONE \<equiv> 0x008 :: u32"
abbreviation "INTSTS_BIT_IRIG1DE_OFF \<equiv> 0x010 :: u32"
abbreviation "INTSTS_BIT_IRIG1DE_FRMERR \<equiv> 0x020 :: u32"
abbreviation "INTSTS_BIT_IRIG1DE_PARERR \<equiv> 0x040 :: u32"
abbreviation "INTSTS_BIT_IRIG1DE_DONE \<equiv> 0x080 :: u32"
abbreviation "INTSTS_BIT_PPSDE_TIMEOUT \<equiv> 0x100 :: u32"
abbreviation "INTSTS_BIT_PPSDE_DONE \<equiv> 0x200 :: u32"

abbreviation "SYSCON_BIT_RESET \<equiv> 1 :: u32"
abbreviation "MX_IRIGB_MINOR \<equiv> 111 :: int"
abbreviation "MAX_PAIRS \<equiv> 4 :: nat"

section \<open>The state of the driver\<close>

record irigb = io +
  ir_phyaddr :: int
  ir_phylen :: int
  ir_vaddr :: u64
  ir_irq :: int
  TimeStatus :: u32

text \<open>The address of register \<open>n\<close>: \<open>reg + n\<close> for the \<open>u32\<close> pointer \<open>reg\<close>.\<close>

definition reg_at :: "u64 \<Rightarrow> u64 \<Rightarrow> nat" where
  "reg_at base n = unat (base + 4 * n)"

section \<open>Requests\<close>

record reg_val_pair =
  rv_count :: u64
  rv_addr :: "u64 list"
  rv_val :: "u64 list"

record reg_bit_pair =
  rb_addr :: u64
  rb_set :: u64
  rb_clear :: u64

definition reg_val_words :: "reg_val_pair \<Rightarrow> int list" where
  "reg_val_words p = uint (rv_count p) # List.map uint (rv_addr p) @ List.map uint (rv_val p)"

text \<open>
  The loops over the pairs: the count comes from user space, the arrays hold \<open>MAX_PAIRS\<close>
  elements.
\<close>

fun get_registers :: "nat \<Rightarrow> nat \<Rightarrow> reg_val_pair \<Rightarrow> (irigb, reg_val_pair) state" where
  "get_registers 0 i p = ret p"
| "get_registers (Suc n) i p = (if i < MAX_PAIRS then do {
      base \<leftarrow> gets ir_vaddr;
      v \<leftarrow> readl (reg_at base (rv_addr p ! i));
      get_registers n (Suc i) (p\<lparr>rv_val := (rv_val p)[i := ucast v]\<rparr>)
    } else do { undefined_c ''reg_val_pair''; ret p })"

fun set_registers :: "nat \<Rightarrow> nat \<Rightarrow> reg_val_pair \<Rightarrow> (irigb, unit) state" where
  "set_registers 0 i p = ret ()"
| "set_registers (Suc n) i p = (if i < MAX_PAIRS then do {
      base \<leftarrow> gets ir_vaddr;
      writel (ucast (rv_val p ! i)) (reg_at base (rv_addr p ! i));
      set_registers n (Suc i) p
    } else undefined_c ''reg_val_pair'')"

text \<open>
  The request with what its argument points to.  \<open>copy_from_user\<close> returns the number of bytes
  that were not copied and is never negative, so a failed copy goes on with what the local
  variable holds.
\<close>

datatype irigb_cmd =
    IOCTL_GET_REGISTER "reg_val_pair uarg"
  | IOCTL_SET_REGISTER "reg_val_pair uarg"
  | IOCTL_SETCLR_REGISTER_BIT "reg_bit_pair uarg"
  | IOCTL_GET_TIMESRC_STATUS "unit uarg"
  | IRIGB_OTHER

fun irigb_ioctl :: "irigb_cmd \<Rightarrow> (irigb, int) state" where
  "irigb_ioctl (IOCTL_GET_REGISTER u) = (let p = ua_in u in
     if rv_count p = 0 then ret (- EINVAL)
     else do {
       q \<leftarrow> get_registers (unat (rv_count p)) 0 p;
       n \<leftarrow> copy_to_user u (reg_val_words q);
       ret (int n)
     })"
| "irigb_ioctl (IOCTL_SET_REGISTER u) = (let p = ua_in u in
     if rv_count p = 0 then ret (- EINVAL)
     else do { set_registers (unat (rv_count p)) 0 p; ret (int (ua_left u)) })"
| "irigb_ioctl (IOCTL_SETCLR_REGISTER_BIT u) = (let p = ua_in u in do {
     base \<leftarrow> gets ir_vaddr;
     v \<leftarrow> readl (reg_at base (rb_addr p));
     writel (v AND ucast (NOT (rb_clear p)) OR ucast (rb_set p)) (reg_at base (rb_addr p));
     ret (int (ua_left u))
   })"
| "irigb_ioctl (IOCTL_GET_TIMESRC_STATUS u) = do {
     t \<leftarrow> gets TimeStatus;
     n \<leftarrow> copy_to_user u [uint t];
     ret (int n)
   }"
| "irigb_ioctl IRIGB_OTHER = ret (- EINVAL)"

definition irigb_open :: "(irigb, int) state" where
  "irigb_open = ret 0"

definition irigb_read :: "(irigb, int) state" where
  "irigb_read = ret 0"

definition irigb_release :: "(irigb, int) state" where
  "irigb_release = ret 0"

section \<open>The interrupt handler\<close>

text \<open>
  One time source of the handler: when any bit of the source is raised, its bits replace the
  old ones in \<open>TimeStatus\<close>, and the off-line bit of the source is masked while it is raised.
\<close>

definition irq_source :: "u32 \<Rightarrow> u32 \<Rightarrow> u32 \<Rightarrow> u32 \<times> u32 \<Rightarrow> u32 \<times> u32" where
  "irq_source intSts maskReg off = (\<lambda>(status, intMsk).
     if intSts AND maskReg \<noteq> 0
     then ((status AND NOT maskReg) OR (intSts AND maskReg),
           if intSts AND maskReg AND off \<noteq> 0 then intMsk AND NOT off else intMsk OR off)
     else (status, intMsk))"

definition mask_irig0 :: u32 where
  "mask_irig0 = INTSTS_BIT_IRIG0DE_OFF OR INTSTS_BIT_IRIG0DE_FRMERR OR INTSTS_BIT_IRIG0DE_PARERR
     OR INTSTS_BIT_IRIG0DE_DONE"

definition mask_irig1 :: u32 where
  "mask_irig1 = INTSTS_BIT_IRIG1DE_OFF OR INTSTS_BIT_IRIG1DE_FRMERR OR INTSTS_BIT_IRIG1DE_PARERR
     OR INTSTS_BIT_IRIG1DE_DONE"

definition mask_pps :: u32 where
  "mask_pps = INTSTS_BIT_PPSDE_TIMEOUT OR INTSTS_BIT_PPSDE_DONE"

definition irigb_interrupt :: "(irigb, bool) state" where
  "irigb_interrupt = do {
     base \<leftarrow> gets ir_vaddr;
     m \<leftarrow> readl (reg_at base (reg_no INTMSK));
     let intMsk = NOT m;
     if intMsk = 0 then ret False
     else do {
       intSts \<leftarrow> readl (reg_at base (reg_no INTSTS));
       if intMsk AND intSts = 0 then ret False
       else do {
         status \<leftarrow> gets TimeStatus;
         let (status', intMsk') =
           irq_source intSts mask_pps INTSTS_BIT_PPSDE_TIMEOUT
             (irq_source intSts mask_irig1 INTSTS_BIT_IRIG1DE_OFF
               (irq_source intSts mask_irig0 INTSTS_BIT_IRIG0DE_OFF (status, intMsk)));
         modify (\<lambda>s. s\<lparr>TimeStatus := status'\<rparr>);
         writel (NOT intMsk') (reg_at base (reg_no INTMSK));
         ret True
       }
     }
   }"

section \<open>The polling timer\<close>

text \<open>Without an interrupt a timer keeps the first raised bit of each source, in this order.\<close>

fun first_raised :: "u32 \<Rightarrow> u32 list \<Rightarrow> u32" where
  "first_raised intSts [] = 0"
| "first_raised intSts (b # bs) = (if intSts AND b \<noteq> 0 then b else first_raised intSts bs)"

definition poll_source :: "u32 \<Rightarrow> u32 \<Rightarrow> u32 list \<Rightarrow> u32 \<Rightarrow> u32" where
  "poll_source intSts maskReg bs status =
     (if intSts AND maskReg \<noteq> 0 then (status AND NOT maskReg) OR first_raised intSts bs else status)"

definition poll_status :: "u32 \<Rightarrow> u32 \<Rightarrow> u32" where
  "poll_status intSts status =
     poll_source intSts mask_pps [INTSTS_BIT_PPSDE_TIMEOUT, INTSTS_BIT_PPSDE_DONE]
      (poll_source intSts mask_irig1 [INTSTS_BIT_IRIG1DE_OFF, INTSTS_BIT_IRIG1DE_FRMERR,
         INTSTS_BIT_IRIG1DE_PARERR, INTSTS_BIT_IRIG1DE_DONE]
        (poll_source intSts mask_irig0 [INTSTS_BIT_IRIG0DE_OFF, INTSTS_BIT_IRIG0DE_FRMERR,
           INTSTS_BIT_IRIG0DE_PARERR, INTSTS_BIT_IRIG0DE_DONE] status))"

definition irigb_poll :: "(irigb, unit) state" where
  "irigb_poll = do {
     base \<leftarrow> gets ir_vaddr;
     intSts \<leftarrow> readl (reg_at base (reg_no INTSTS));
     modify (\<lambda>s. s\<lparr>TimeStatus := poll_status intSts (TimeStatus s)\<rparr>);
     knote ''add_timer'' []
   }"

section \<open>Finding and removing the card\<close>

definition irigb_unmap :: "(irigb, unit) state" where
  "irigb_unmap = do {
     phy \<leftarrow> gets ir_phyaddr; len \<leftarrow> gets ir_phylen; va \<leftarrow> gets ir_vaddr;
     knote ''release_mem_region'' [phy, len];
     knote ''iounmap'' [uint va]
   }"

definition irq_probe_mask :: u32 where
  "irq_probe_mask = 0xFFFFFFFF AND NOT (mask_irig0 OR mask_irig1 OR mask_pps)"

definition irigb_probe :: "int \<Rightarrow> (irigb, int) state" where
  "irigb_probe enable_irigb_irq = do {
     r \<leftarrow> kcall ''misc_register'' [MX_IRIGB_MINOR];
     if r < 0 then ret 0
     else do {
       knote ''pci_set_drvdata'' [];
       phy \<leftarrow> kcall ''pci_resource_start'' [0];
       len \<leftarrow> kcall ''pci_resource_len'' [0];
       modify (\<lambda>s. s\<lparr>ir_phyaddr := phy, ir_phylen := len\<rparr>);
       rgn \<leftarrow> kcall ''request_mem_region'' [phy, len];
       if rgn = 0 then do { knote ''misc_deregister'' []; ret (- ENOMEM) }
       else do {
         va \<leftarrow> kcall ''ioremap'' [phy, len];
         modify (\<lambda>s. s\<lparr>ir_vaddr := word_of_int va\<rparr>);
         e \<leftarrow> kcall ''pci_enable_device'' [];
         if e < 0 then do { irigb_unmap; knote ''misc_deregister'' []; ret 0 }
         else do {
           base \<leftarrow> gets ir_vaddr;
           writel SYSCON_BIT_RESET (reg_at base (reg_no SYSCON));
           if enable_irigb_irq = 0 then do {
             writel 0x7FFFFFFF (reg_at base (reg_no INTMSK));
             knote ''timer_setup'' [];
             knote ''add_timer'' [];
             ret 0
           } else do {
             knote ''pci_enable_msi'' [];
             irq \<leftarrow> kcall ''pdev_irq'' [];
             modify (\<lambda>s. s\<lparr>ir_irq := irq\<rparr>);
             q \<leftarrow> kcall ''request_irq'' [irq];
             if q < 0 then do {
               knote ''pci_disable_device'' [];
               irigb_unmap;
               knote ''misc_deregister'' [];
               ret q
             } else do {
               writel irq_probe_mask (reg_at base (reg_no INTMSK));
               ret 0
             }
           }
         }
       }
     }
   }"

text \<open>
  \<open>vaddr\<close> is a \<open>void *\<close> here, so \<open>vaddr + INTMSK\<close> is 20 bytes after the base.
\<close>

definition irigb_remove :: "int \<Rightarrow> (irigb, unit) state" where
  "irigb_remove enable_irigb_irq = do {
     knote ''misc_deregister'' [];
     base \<leftarrow> gets ir_vaddr;
     writel (- 1) (unat (base + reg_no INTMSK));
     (if enable_irigb_irq = 0 then do {
       t \<leftarrow> kcall ''timer_pending'' [];
       whenM (t \<noteq> 0) (knote ''del_timer'' [])
     } else do {
       irq \<leftarrow> gets ir_irq;
       knote ''mdelay'' [1];
       knote ''free_irq'' [irq];
       knote ''pci_disable_msi'' []
     });
     knote ''pci_disable_device'' [];
     irigb_unmap
   }"

definition irigb_init :: "(irigb, int) state" where
  "irigb_init = do {
     r \<leftarrow> kcall ''pci_register_driver'' [];
     ret (if r < 0 then - ENODEV else 0)
   }"

definition irigb_exit :: "(irigb, unit) state" where
  "irigb_exit = knote ''pci_unregister_driver'' []"

section \<open>Registers that hold what is written\<close>

fun last_l :: "(nat \<Rightarrow> u32) \<Rightarrow> io_event list \<Rightarrow> nat \<Rightarrow> u32" where
  "last_l d [] a = d a"
| "last_l d (Write_l v b # h) a = (if b = a then v else last_l d h a)"
| "last_l d (_ # h) a = last_l d h a"

definition mmio_latching :: "(nat \<Rightarrow> u32) \<Rightarrow> env \<Rightarrow> bool" where
  "mmio_latching d e \<longleftrightarrow> env_l e = last_l d"

definition mmio_env :: "(nat \<Rightarrow> u32) \<Rightarrow> env" where
  "mmio_env d = (latch_env (\<lambda>_. 0))\<lparr>env_l := last_l d\<rparr>"

lemma mmio_latching_env [simp]: "mmio_latching d (mmio_env d)"
  by (simp add: mmio_latching_def mmio_env_def)

interpretation mmio: register_file readl "\<lambda>a v. writel v a" "\<lambda>s. last_l d (ihist s)"
    "\<lambda>_. True" "\<lambda>s. mmio_latching d (ienv s)" for d
  by unfold_locales (auto simp: mmio_latching_def)

section \<open>What a request writes and reads\<close>

definition pair_writes :: "u64 \<Rightarrow> reg_val_pair \<Rightarrow> nat list \<Rightarrow> io_event list" where
  "pair_writes base p js = List.map (\<lambda>j. Write_l (ucast (rv_val p ! j)) (reg_at base (rv_addr p ! j))) js"

lemma set_registers_run:
  "i + n \<le> MAX_PAIRS \<Longrightarrow> run_state (set_registers n i p) s
     = ((), s\<lparr>ihist := rev (pair_writes (ir_vaddr s) p [i..<i + n]) @ ihist s\<rparr>)"
proof (induction n arbitrary: i s)
  case (Suc n)
  then show ?case
    by (simp add: pair_writes_def upt_rec [of i] del: upt_Suc)
qed (simp add: pair_writes_def)

lemma last_l_other:
  "a \<notin> reg_at base ` ((!) (rv_addr p)) ` set js \<Longrightarrow>
   last_l d (rev (pair_writes base p js) @ h) a = last_l d h a"
  by (induction js rule: rev_induct) (auto simp: pair_writes_def)

lemma last_l_pair:
  "inj_on (\<lambda>j. reg_at base (rv_addr p ! j)) (set js) \<Longrightarrow> distinct js \<Longrightarrow> j \<in> set js \<Longrightarrow>
   last_l d (rev (pair_writes base p js) @ h) (reg_at base (rv_addr p ! j)) = ucast (rv_val p ! j)"
proof (induction js rule: rev_induct)
  case (snoc k js)
  show ?case
  proof (cases "j = k")
    case False
    then have "reg_at base (rv_addr p ! k) \<noteq> reg_at base (rv_addr p ! j)"
      using snoc.prems by (auto simp: inj_on_def)
    moreover have "inj_on (\<lambda>j. reg_at base (rv_addr p ! j)) (set js)"
      using snoc.prems(1) by (rule inj_on_subset) auto
    ultimately show ?thesis
      using snoc False by (simp add: pair_writes_def)
  qed (simp add: pair_writes_def)
qed simp

text \<open>Reading the registers of the pairs where every register holds what was written.\<close>

lemma get_registers_run:
  assumes "mmio_latching d (ienv s)" "i + n \<le> MAX_PAIRS" "length (rv_val p) = MAX_PAIRS"
  shows "\<exists>h q. run_state (get_registers n i p) s = (q, s\<lparr>ihist := h @ ihist s\<rparr>)
      \<and> rv_count q = rv_count p \<and> rv_addr q = rv_addr p \<and> length (rv_val q) = MAX_PAIRS
      \<and> (\<forall>j < MAX_PAIRS. rv_val q ! j = (if i \<le> j \<and> j < i + n
           then ucast (last_l d (ihist s) (reg_at (ir_vaddr s) (rv_addr p ! j))) else rv_val p ! j))"
  using assms
proof (induction n arbitrary: i p s)
  case 0
  then show ?case by (auto intro!: exI [of _ "[]"])
next
  case (Suc n)
  define v where "v = env_l (ienv s) (ihist s) (reg_at (ir_vaddr s) (rv_addr p ! i))"
  define t where "t = s\<lparr>ihist := Read_l (reg_at (ir_vaddr s) (rv_addr p ! i)) v # ihist s\<rparr>"
  define r where "r = p\<lparr>rv_val := (rv_val p)[i := ucast v]\<rparr>"
  have v: "v = last_l d (ihist s) (reg_at (ir_vaddr s) (rv_addr p ! i))"
    using Suc.prems(1) by (simp add: v_def mmio_latching_def)
  have step: "run_state (get_registers (Suc n) i p) s = run_state (get_registers n (Suc i) r) t"
    using Suc.prems(2) by (simp add: t_def v_def r_def)
  obtain h q where q: "run_state (get_registers n (Suc i) r) t = (q, t\<lparr>ihist := h @ ihist t\<rparr>)"
      "rv_count q = rv_count r" "rv_addr q = rv_addr r" "length (rv_val q) = MAX_PAIRS"
      "\<forall>j < MAX_PAIRS. rv_val q ! j = (if Suc i \<le> j \<and> j < Suc i + n
         then ucast (last_l d (ihist t) (reg_at (ir_vaddr t) (rv_addr r ! j))) else rv_val r ! j)"
    using Suc.IH [of t "Suc i" r] Suc.prems by (auto simp: t_def r_def)
  have "rv_val q ! j = (if i \<le> j \<and> j < i + Suc n
       then ucast (last_l d (ihist s) (reg_at (ir_vaddr s) (rv_addr p ! j))) else rv_val p ! j)"
    if "j < MAX_PAIRS" for j
    using q(5) that Suc.prems(2,3) by (auto simp: t_def r_def v nth_list_update)
  moreover have "run_state (get_registers (Suc n) i p) s = (q, s\<lparr>ihist :=
      (h @ [Read_l (reg_at (ir_vaddr s) (rv_addr p ! i)) v]) @ ihist s\<rparr>)"
    using q(1) by (simp only: step) (simp add: t_def)
  ultimately show ?case
    using q(2-4) unfolding r_def by (intro exI [of _ "h @ [Read_l (reg_at (ir_vaddr s) (rv_addr p ! i)) v]"]
        exI [of _ q]) simp
qed

text \<open>
  Up to four registers with different addresses, set by one request and read by another, give
  back the low 32 bits of the values set, where the registers hold what is written; the other
  values of the answer are those of the question.
\<close>

theorem irigb_set_get:
  assumes "mmio_latching d (ienv s)"
    and "0 < rv_count (ua_in u)" "unat (rv_count (ua_in u)) \<le> MAX_PAIRS"
    and "rv_count (ua_in w) = rv_count (ua_in u)" "rv_addr (ua_in w) = rv_addr (ua_in u)"
    and "length (rv_val (ua_in w)) = MAX_PAIRS" "ua_out w = 0"
    and "inj_on (\<lambda>j. reg_at (ir_vaddr s) (rv_addr (ua_in u) ! j)) {..<unat (rv_count (ua_in u))}"
  shows "let t = snd (run_state (irigb_ioctl (IOCTL_SET_REGISTER u)) s) in
    \<exists>q h. run_state (irigb_ioctl (IOCTL_GET_REGISTER w)) t
      = (0, t\<lparr>ihist := To_user (reg_val_words q) # h @ ihist t\<rparr>)
    \<and> rv_count q = rv_count (ua_in u) \<and> rv_addr q = rv_addr (ua_in u)
    \<and> length (rv_val q) = MAX_PAIRS
    \<and> (\<forall>j < MAX_PAIRS. rv_val q ! j = (if j < unat (rv_count (ua_in u))
         then ucast (ucast (rv_val (ua_in u) ! j) :: u32) else rv_val (ua_in w) ! j))"
proof -
  let ?n = "unat (rv_count (ua_in u))"
  let ?W = "rev (pair_writes (ir_vaddr s) (ua_in u) [0..<?n])"
  define t where "t = snd (run_state (irigb_ioctl (IOCTL_SET_REGISTER u)) s)"
  have nz: "rv_count (ua_in u) \<noteq> 0" using assms(2) by simp
  have t: "t = s\<lparr>ihist := ?W @ ihist s\<rparr>"
    using nz assms(3) by (simp add: t_def set_registers_run Let_def)
  have lat: "mmio_latching d (ienv t)" using assms(1) by (simp add: t)
  obtain h q where q: "run_state (get_registers ?n 0 (ua_in w)) t = (q, t\<lparr>ihist := h @ ihist t\<rparr>)"
      "rv_count q = rv_count (ua_in w)" "rv_addr q = rv_addr (ua_in w)" "length (rv_val q) = MAX_PAIRS"
      "\<forall>j < MAX_PAIRS. rv_val q ! j = (if j < ?n
         then ucast (last_l d (ihist t) (reg_at (ir_vaddr t) (rv_addr (ua_in w) ! j))) else rv_val (ua_in w) ! j)"
    using get_registers_run [OF lat, of 0 ?n "ua_in w"] assms(3,6) by auto
  have rb: "last_l d (ihist t) (reg_at (ir_vaddr t) (rv_addr (ua_in w) ! j)) = ucast (rv_val (ua_in u) ! j)"
    if "j < ?n" for j
    using last_l_pair [of "ir_vaddr s" "ua_in u" "[0..<?n]" j] assms(5,8) that
    by (simp add: t atLeast0LessThan)
  have run: "run_state (irigb_ioctl (IOCTL_GET_REGISTER w)) t
      = (0, t\<lparr>ihist := To_user (reg_val_words q) # h @ ihist t\<rparr>)"
    using q(1) nz assms(4,7) by (simp add: Let_def)
  show ?thesis
    unfolding Let_def t_def [symmetric]
    using run q(2-5) rb assms(4,5) by (intro exI [of _ q] exI [of _ h]) simp
qed

definition irigb_demo :: irigb where
  "irigb_demo = \<lparr>ienv = mmio_env (\<lambda>_. 0), ihist = [], ir_phyaddr = 0, ir_phylen = 128,
     ir_vaddr = 0x1000, ir_irq = 5, TimeStatus = 0\<rparr>"

definition irigb_demo_arg :: "u64 list \<Rightarrow> reg_val_pair uarg" where
  "irigb_demo_arg vs = \<lparr>ua_left = 0, ua_in = \<lparr>rv_count = 2, rv_addr = [22, 27, 0, 0], rv_val = vs\<rparr>, ua_out = 0\<rparr>"

theorem irigb_set_get_witness:
  "\<exists>q h. run_state (irigb_ioctl (IOCTL_GET_REGISTER (irigb_demo_arg [9, 9, 9, 9])))
        (snd (run_state (irigb_ioctl (IOCTL_SET_REGISTER (irigb_demo_arg [3, 0x100000007, 0, 0]))) irigb_demo))
      = (0, (snd (run_state (irigb_ioctl (IOCTL_SET_REGISTER (irigb_demo_arg [3, 0x100000007, 0, 0]))) irigb_demo))
          \<lparr>ihist := To_user (reg_val_words q) # h @ ihist (snd (run_state
             (irigb_ioctl (IOCTL_SET_REGISTER (irigb_demo_arg [3, 0x100000007, 0, 0]))) irigb_demo))\<rparr>)
      \<and> rv_val q ! 1 = 7"
proof -
  have inj: "inj_on (\<lambda>j. reg_at (ir_vaddr irigb_demo) (rv_addr (ua_in (irigb_demo_arg [3, 0x100000007, 0, 0])) ! j))
      {..<unat (rv_count (ua_in (irigb_demo_arg [3, 0x100000007, 0, 0])))}"
    by (simp add: irigb_demo_def irigb_demo_arg_def reg_at_def inj_on_def lessThan_nat_numeral lessThan_Suc)
  have seven: "ucast (ucast (0x100000007 :: u64) :: u32) = (7 :: u64)"
    by code_simp
  obtain q h where "run_state (irigb_ioctl (IOCTL_GET_REGISTER (irigb_demo_arg [9, 9, 9, 9])))
        (snd (run_state (irigb_ioctl (IOCTL_SET_REGISTER (irigb_demo_arg [3, 0x100000007, 0, 0]))) irigb_demo))
      = (0, (snd (run_state (irigb_ioctl (IOCTL_SET_REGISTER (irigb_demo_arg [3, 0x100000007, 0, 0]))) irigb_demo))
          \<lparr>ihist := To_user (reg_val_words q) # h @ ihist (snd (run_state
             (irigb_ioctl (IOCTL_SET_REGISTER (irigb_demo_arg [3, 0x100000007, 0, 0]))) irigb_demo))\<rparr>)"
    and vals: "\<forall>j < MAX_PAIRS. rv_val q ! j = (if j < unat (rv_count (ua_in (irigb_demo_arg [3, 0x100000007, 0, 0])))
         then ucast (ucast (rv_val (ua_in (irigb_demo_arg [3, 0x100000007, 0, 0])) ! j) :: u32)
         else rv_val (ua_in (irigb_demo_arg [9, 9, 9, 9])) ! j)"
    using irigb_set_get [OF _ _ _ _ _ _ _ inj, of "\<lambda>_. 0" "irigb_demo_arg [9, 9, 9, 9]", unfolded Let_def]
    by (auto simp: irigb_demo_def irigb_demo_arg_def simp del: irigb_ioctl.simps)
  moreover have "rv_val q ! 1 = 7"
    using vals [rule_format, of 1] seven by (simp add: irigb_demo_arg_def)
  ultimately show ?thesis by blast
qed

section \<open>What an interrupt reports and masks\<close>

lemma and_exp_nonzero: "w AND 2 ^ k \<noteq> (0 :: 'a :: len word) \<longleftrightarrow> bit w k"
  by (metis and_exp_eq_0_iff_not_bit)

lemma irq_source_bits:
  fixes sts :: u32
  assumes "bit msk k" "k < 32"
  shows "bit (fst (irq_source sts msk (2 ^ k) (st, im))) n
      = (if sts AND msk \<noteq> 0 \<and> bit msk n then bit sts n else bit st n)"
    and "bit (snd (irq_source sts msk (2 ^ k) (st, im))) n
      = (if sts AND msk \<noteq> 0 \<and> n = k then \<not> bit sts n else bit im n)"
proof -
  have "sts AND msk AND 2 ^ k \<noteq> 0 \<longleftrightarrow> bit sts k"
    using assms by (simp add: and_exp_nonzero and.assoc [symmetric] bit_simps)
  then show "bit (snd (irq_source sts msk (2 ^ k) (st, im))) n
      = (if sts AND msk \<noteq> 0 \<and> n = k then \<not> bit sts n else bit im n)"
    using assms(2) by (auto simp: irq_source_def bit_simps dest: bit_imp_le_length)
  show "bit (fst (irq_source sts msk (2 ^ k) (st, im))) n
      = (if sts AND msk \<noteq> 0 \<and> bit msk n then bit sts n else bit st n)"
    by (auto simp: irq_source_def bit_simps dest: bit_imp_le_length)
qed

text \<open>The three time sources: the bits of each, and the bit that says it went off-line.\<close>

definition time_sources :: "(u32 \<times> nat) list" where
  "time_sources = [(mask_irig0, 0), (mask_irig1, 4), (mask_pps, 8)]"

definition status_after :: "u32 \<Rightarrow> u32 \<Rightarrow> nat \<Rightarrow> bool" where
  "status_after sts st n = (if \<exists>(msk, k) \<in> set time_sources. sts AND msk \<noteq> 0 \<and> bit msk n
     then bit sts n else bit st n)"

definition mask_after :: "u32 \<Rightarrow> u32 \<Rightarrow> nat \<Rightarrow> bool" where
  "mask_after sts m n = (if \<exists>(msk, k) \<in> set time_sources. sts AND msk \<noteq> 0 \<and> n = k
     then bit sts n else bit m n)"

lemma source_masks: "mask_irig0 = 0xF" "mask_irig1 = 0xF0" "mask_pps = 0x300"
  by (simp_all add: mask_irig0_def mask_irig1_def mask_pps_def)

lemma source_offs: "bit mask_irig0 0" "bit mask_irig1 4" "bit mask_pps 8"
  by (simp_all add: source_masks bit_numeral_rec)

lemma off_powers: "INTSTS_BIT_IRIG0DE_OFF = 2 ^ 0" "INTSTS_BIT_IRIG1DE_OFF = 2 ^ 4"
    "INTSTS_BIT_PPSDE_TIMEOUT = 2 ^ 8"
  by simp_all

lemma all_sources_bits:
  defines "r \<equiv> \<lambda>sts x. irq_source sts mask_pps INTSTS_BIT_PPSDE_TIMEOUT
      (irq_source sts mask_irig1 INTSTS_BIT_IRIG1DE_OFF (irq_source sts mask_irig0 INTSTS_BIT_IRIG0DE_OFF x))"
  shows "bit (fst (r sts (st, NOT m))) n = status_after sts st n"
    and "n < 32 \<Longrightarrow> bit (NOT (snd (r sts (st, NOT m)))) n = mask_after sts m n"
proof -
  obtain s1 m1 where 1: "irq_source sts mask_irig0 (2 ^ 0) (st, NOT m) = (s1, m1)" by force
  obtain s2 m2 where 2: "irq_source sts mask_irig1 (2 ^ 4) (s1, m1) = (s2, m2)" by force
  obtain s3 m3 where 3: "irq_source sts mask_pps (2 ^ 8) (s2, m2) = (s3, m3)" by force
  note b = irq_source_bits [OF source_offs(1), of sts st "NOT m", unfolded 1, simplified]
    irq_source_bits [OF source_offs(2), of sts s1 m1, unfolded 2, simplified]
    irq_source_bits [OF source_offs(3), of sts s2 m2, unfolded 3, simplified]
  have r: "r sts (st, NOT m) = (s3, m3)"
    unfolding r_def off_powers 1 2 3 ..
  show "bit (fst (r sts (st, NOT m))) n = status_after sts st n"
    unfolding r by (auto simp: b status_after_def time_sources_def)
  show "bit (NOT (snd (r sts (st, NOT m)))) n = mask_after sts m n" if "n < 32"
    unfolding r using that by (auto simp: b mask_after_def time_sources_def bit_not_iff)
qed

text \<open>
  The interrupt is the driver's exactly when a source is raised that is not masked.  Then
  the status of every source with a raised bit is replaced by its bits and the other sources
  keep theirs, and the mask is written with the off-line bit of every such source masked while
  it is raised and enabled again otherwise, all other mask bits kept.  An interrupt that is not
  the driver's changes nothing.
\<close>

theorem irigb_interrupt_exact:
  "let base = ir_vaddr s;
       m = env_l (ienv s) (ihist s) (reg_at base (reg_no INTMSK));
       h1 = Read_l (reg_at base (reg_no INTMSK)) m # ihist s;
       sts = env_l (ienv s) h1 (reg_at base (reg_no INTSTS));
       (handled, t) = run_state irigb_interrupt s
   in handled = (NOT m AND sts \<noteq> 0) \<and>
      (if handled
       then (\<forall>n. bit (TimeStatus t) n = status_after sts (TimeStatus s) n) \<and>
            (\<exists>w. ihist t = Write_l w (reg_at base (reg_no INTMSK))
                   # Read_l (reg_at base (reg_no INTSTS)) sts # h1 \<and>
                 (\<forall>n < 32. bit w n = mask_after sts m n))
       else TimeStatus t = TimeStatus s \<and> (\<exists>h. ihist t = h @ ihist s \<and>
              (\<forall>e \<in> set h. \<exists>a v. e = Read_l a v)))"
proof -
  define base where "base = ir_vaddr s"
  define m where "m = env_l (ienv s) (ihist s) (reg_at base (reg_no INTMSK))"
  define h1 where "h1 = Read_l (reg_at base (reg_no INTMSK)) m # ihist s"
  define sts where "sts = env_l (ienv s) h1 (reg_at base (reg_no INTSTS))"
  note folds = base_def [symmetric] m_def [symmetric] h1_def [symmetric] sts_def [symmetric]
  show ?thesis
  proof (cases "NOT m AND sts = 0")
    case True
    then show ?thesis
      using base_def m_def h1_def sts_def
      by (auto simp: irigb_interrupt_def Let_def)
  next
    case False
    define r where "r = irq_source sts mask_pps INTSTS_BIT_PPSDE_TIMEOUT
      (irq_source sts mask_irig1 INTSTS_BIT_IRIG1DE_OFF
        (irq_source sts mask_irig0 INTSTS_BIT_IRIG0DE_OFF (TimeStatus s, NOT m)))"
    have "NOT m \<noteq> 0" using False by auto
    then have run: "run_state irigb_interrupt s = (True, s\<lparr>TimeStatus := fst r,
        ihist := Write_l (NOT (snd r)) (reg_at base (reg_no INTMSK))
          # Read_l (reg_at base (reg_no INTSTS)) sts # h1\<rparr>)"
      using False base_def m_def h1_def sts_def
      by (simp add: irigb_interrupt_def Let_def case_prod_beta r_def)
    show ?thesis
      using False unfolding Let_def folds run prod.case by (simp add: all_sources_bits r_def)
  qed
qed

text \<open>Decoder 0 goes off-line: its bit is reported and masked, the others stay enabled.\<close>

definition irigb_offline :: irigb where
  "irigb_offline = irigb_demo\<lparr>ienv := (latch_env (\<lambda>_. 0))\<lparr>env_l := (\<lambda>h a.
     if a = reg_at 0x1000 (reg_no INTMSK) then 0xFFFFFC00 else 1)\<rparr>\<rparr>"

theorem irigb_interrupt_exact_witness:
  "fst (run_state irigb_interrupt irigb_offline) \<and>
   bit (TimeStatus (snd (run_state irigb_interrupt irigb_offline))) 0 \<and>
   (\<exists>w h. ihist (snd (run_state irigb_interrupt irigb_offline)) = Write_l w (reg_at 0x1000 (reg_no INTMSK)) # h
      \<and> bit w 0 \<and> \<not> bit w 3)"
proof -
  have at: "reg_at 0x1000 19 \<noteq> reg_at 0x1000 20" by (simp add: reg_at_def)
  have on: "NOT (0xFFFFFC00 :: u32) AND 1 \<noteq> 0" by simp
  have bits: "status_after 1 0 0" "mask_after 1 0xFFFFFC00 0" "\<not> mask_after 1 0xFFFFFC00 3"
    by (simp_all add: status_after_def mask_after_def time_sources_def source_masks bit_numeral_rec)
  show ?thesis
    using irigb_interrupt_exact [of irigb_offline] at on bits
    by (auto simp: Let_def case_prod_beta irigb_offline_def irigb_demo_def)
qed

section \<open>What polling reports\<close>


text \<open>
  Polling keeps one cause for each source: the first of its bits that was raised.
\<close>

definition source_bits :: "(u32 \<times> u32 list) list" where
  "source_bits = [(mask_irig0, [1, 2, 4, 8]), (mask_irig1, [0x10, 0x20, 0x40, 0x80]), (mask_pps, [0x100, 0x200])]"

lemma first_raised_within: "\<forall>b \<in> set bs. b AND msk = b \<Longrightarrow> first_raised sts bs AND msk = first_raised sts bs"
  by (induction bs) auto

lemma poll_source_own:
  assumes "\<forall>b \<in> set bs. b AND msk = b"
  shows "poll_source sts msk bs st AND msk = (if sts AND msk \<noteq> 0 then first_raised sts bs else st AND msk)"
  using first_raised_within [OF assms]
  by (simp add: poll_source_def bit.conj_disj_distrib2 and.assoc)

lemma poll_source_other:
  assumes "\<forall>b \<in> set bs. b AND msk = b" "msk AND msk' = 0"
  shows "poll_source sts msk bs st AND msk' = st AND msk'"
proof -
  have "first_raised sts bs AND msk' = 0"
    using first_raised_within [OF assms(1), of sts] assms(2) by (metis and.assoc and_zero_eq)
  moreover have "st AND NOT msk AND msk' = st AND msk'"
    using assms(2) by (auto simp: bit_eq_iff bit_simps)
  ultimately show ?thesis
    by (simp add: poll_source_def bit.conj_disj_distrib2 and.assoc)
qed

theorem irigb_poll_exact:
  assumes "(msk, bs) \<in> set source_bits"
  shows "TimeStatus (snd (run_state irigb_poll s)) AND msk
     = (let sts = env_l (ienv s) (ihist s) (reg_at (ir_vaddr s) (reg_no INTSTS)) in
        if sts AND msk \<noteq> 0 then first_raised sts bs else TimeStatus s AND msk)"
proof -
  have "poll_status sts st AND msk = (if sts AND msk \<noteq> 0 then first_raised sts bs else st AND msk)" for sts st
    using assms unfolding poll_status_def source_bits_def
    by (auto simp: poll_source_own poll_source_other source_masks simp del: first_raised.simps)
  then show ?thesis
    by (simp add: irigb_poll_def Let_def)
qed

text \<open>So after a poll no source shows two causes at once, if none did before.\<close>

lemma first_raised_cases: "first_raised sts bs = 0 \<or> first_raised sts bs \<in> set bs"
  by (induction bs) auto

definition one_cause :: "u32 \<Rightarrow> bool" where
  "one_cause t \<longleftrightarrow> (\<forall>(msk, bs) \<in> set source_bits. t AND msk = 0 \<or> t AND msk \<in> set bs)"

lemma poll_one_cause: "preserves (\<lambda>s. one_cause (TimeStatus s)) irigb_poll"
proof (rule preservesI)
  fix s :: irigb
  assume "one_cause (TimeStatus s)"
  then show "one_cause (TimeStatus (snd (run_state irigb_poll s)))"
    unfolding one_cause_def using irigb_poll_exact first_raised_cases
    by (fastforce simp: Let_def split: if_splits)
qed

section \<open>Failures of probe and remove\<close>

text \<open>When the device cannot be registered, or enabled, \<open>irigb_probe\<close> reports success.\<close>

lemma probe_reports_success:
  assumes "env_k (ienv s) (ihist s) ''misc_register'' [MX_IRIGB_MINOR] < 0"
  shows "fst (run_state (irigb_probe i) s) = 0"
  using assms by (simp add: irigb_probe_def)

text \<open>
  Removing the card writes all ones to the output port configuration and leaves the interrupt
  mask as it was.
\<close>

lemma remove_hits_outportcon:
  "Write_l (- 1) (reg_at (ir_vaddr s) (reg_no OUTPORTCON)) \<in> set (ihist (snd (run_state (irigb_remove i) s)))"
  by (simp add: irigb_remove_def irigb_unmap_def reg_at_def case_prod_beta)

end
