(* ===== verification/Epm3438.thy ===== *)
theory Epm3438
  imports Interfaces
begin

text \<open>
  The digital I/O and counter driver of the EPM-3438 module, \<open>modules/v2400a_epm3438/epm3438.c\<close>, as
  it is compiled by default (without \<open>__TIMER_VERSION__\<close> and \<open>__DEBUG__\<close>): two boards, each with
  eight outputs, eight inputs and a counter, behind four device nodes.

  \<open>epm_step\<close> collects the calls of user programs on both boards; the shadow \<open>do_state_keep\<close> of a
  board equals the content of its output register in every state they reach.
\<close>

section \<open>State\<close>

record epm3438 =
  e_base :: nat
  e_size :: int
  e_counter_keep :: u32
  e_di_state_keep :: u8
  e_do_state_keep :: u8

record epm = io +
  Epm3438 :: "epm3438 list"
  epm_major :: int
  brd_idx :: int
  init_once :: bool
  remove_once :: bool

record epm_set =
  e_io_number :: int
  e_mode_data :: int

abbreviation "MAX_DIO \<equiv> 8 :: int"
abbreviation "DIO_HIGH \<equiv> 1 :: int"
abbreviation "DIO_LOW \<equiv> 0 :: int"
abbreviation "MOXA_EPM3438_DEVICE_NUM \<equiv> 2 :: int"

definition board :: "nat \<Rightarrow> epm \<Rightarrow> epm3438" where
  "board b s = Epm3438 s ! b"

definition upd_board :: "nat \<Rightarrow> (epm3438 \<Rightarrow> epm3438) \<Rightarrow> (epm, unit) state" where
  "upd_board b f = modify (\<lambda>s. s\<lparr>Epm3438 := (Epm3438 s)[b := f (Epm3438 s ! b)]\<rparr>)"

section \<open>Port access\<close>

definition moxaoutb :: "u8 \<Rightarrow> port \<Rightarrow> (epm, unit) state" where
  "moxaoutb v p = outb v p"

definition moxainb :: "port \<Rightarrow> (epm, u8) state" where
  "moxainb p = inb p"

text \<open>The name says word, the body writes a byte.\<close>

definition moxaoutw :: "u16 \<Rightarrow> port \<Rightarrow> (epm, unit) state" where
  "moxaoutw v p = outb (ucast v) p"

definition moxainw :: "port \<Rightarrow> (epm, u16) state" where
  "moxainw p = inw p"

section \<open>Operations of the device nodes\<close>

text \<open>The board behind a minor number, kept in \<open>private_data\<close>.\<close>

definition epm3438_open :: "nat \<Rightarrow> (epm, int \<times> nat) state" where
  "epm3438_open dev = ret (0, if dev = 0 \<or> dev = 1 then 0 else 1)"

definition epm3438_read :: "nat \<Rightarrow> nat \<Rightarrow> unit uarg \<Rightarrow> (epm, int) state" where
  "epm3438_read dev b u =
     (if dev = 1 \<or> dev = 3 then do {
        p \<leftarrow> gets (board b);
        knote ''down'' [int b];
        v \<leftarrow> moxainw (e_base p + 4);
        upd_board b (\<lambda>p. p\<lparr>e_counter_keep := ucast v\<rparr>);
        knote ''up'' [int b];
        n \<leftarrow> copy_to_user u [uint (ucast v :: u32)];
        ret (if n \<noteq> 0 then - EFAULT else 4)
      } else ret (- ENODEV))"

datatype epm_cmd =
    EPM_RESET_COUNTER
  | EPM_SET_DOUT "epm_set uarg"
  | EPM_GET_DOUT "epm_set uarg"
  | EPM_GET_DIN "epm_set uarg"
  | EPM_OTHER

definition epm_give :: "epm_set uarg \<Rightarrow> epm_set \<Rightarrow> (epm, int) state" where
  "epm_give u x = do {
     n \<leftarrow> copy_to_user u [e_io_number x, e_mode_data x];
     ret (if n \<noteq> 0 then - EFAULT else 0)
   }"

definition epm_set_dout :: "nat \<Rightarrow> epm_set uarg \<Rightarrow> (epm, int) state" where
  "epm_set_dout b u = (let x = ua_in u in
     if ua_left u \<noteq> 0 then ret (- EFAULT)
     else if e_io_number x < 0 \<or> e_io_number x \<ge> MAX_DIO then ret (- EINVAL)
     else if e_mode_data x \<noteq> DIO_HIGH \<and> e_mode_data x \<noteq> DIO_LOW then ret (- EINVAL)
     else do {
       upd_board b (\<lambda>p. p\<lparr>e_do_state_keep :=
         (if e_mode_data x = DIO_HIGH
          then e_do_state_keep p OR push_bit (nat (e_io_number x)) 1
          else e_do_state_keep p AND NOT (push_bit (nat (e_io_number x)) 1))\<rparr>);
       p \<leftarrow> gets (board b);
       moxaoutb (e_do_state_keep p) (e_base p + 1);
       epm_give u x
     })"

definition line_level :: "u8 \<Rightarrow> int \<Rightarrow> int" where
  "line_level w i = (if w AND push_bit (nat i) 1 \<noteq> 0 then 1 else 0)"

definition epm_get_dout :: "nat \<Rightarrow> epm_set uarg \<Rightarrow> (epm, int) state" where
  "epm_get_dout b u = (let x = ua_in u in
     if ua_left u \<noteq> 0 then ret (- EFAULT)
     else do {
       p \<leftarrow> gets (board b);
       if e_io_number x = - 1 then epm_give u (x\<lparr>e_mode_data := uint (e_do_state_keep p AND 0xff)\<rparr>)
       else if e_io_number x < 0 \<or> e_io_number x \<ge> MAX_DIO then ret (- EINVAL)
       else epm_give u (x\<lparr>e_mode_data := line_level (e_do_state_keep p) (e_io_number x)\<rparr>)
     })"

definition epm_get_din :: "nat \<Rightarrow> epm_set uarg \<Rightarrow> (epm, int) state" where
  "epm_get_din b u = (let x = ua_in u in
     if ua_left u \<noteq> 0 then ret (- EFAULT)
     else do {
       p \<leftarrow> gets (board b);
       if e_io_number x = - 1 then do {
         v \<leftarrow> moxainb (e_base p + 2);
         epm_give u (x\<lparr>e_mode_data := uint (v AND 0xff)\<rparr>)
       }
       else if e_io_number x < 0 \<or> e_io_number x \<ge> MAX_DIO then ret (- EINVAL)
       else do {
         v \<leftarrow> moxainb (e_base p + 2);
         upd_board b (\<lambda>p. p\<lparr>e_di_state_keep := v\<rparr>);
         epm_give u (x\<lparr>e_mode_data := line_level v (e_io_number x)\<rparr>)
       }
     })"

fun epm3438_ioctl :: "nat \<Rightarrow> epm_cmd \<Rightarrow> (epm, int) state" where
  "epm3438_ioctl b EPM_RESET_COUNTER = do { p \<leftarrow> gets (board b); moxaoutw 0 (e_base p + 4); ret 0 }"
| "epm3438_ioctl b (EPM_SET_DOUT u) = epm_set_dout b u"
| "epm3438_ioctl b (EPM_GET_DOUT u) = epm_get_dout b u"
| "epm3438_ioctl b (EPM_GET_DIN u) = epm_get_din b u"
| "epm3438_ioctl b EPM_OTHER = ret (- EINVAL)"

definition epm3438_release :: "(epm, int) state" where
  "epm3438_release = ret 0"

section \<open>Finding and removing a board\<close>

text \<open>The labels \<open>cleanup_probe4\<close> down to \<open>cleanup_probe1\<close>, each falling through to the next.\<close>

definition epm_cleanup :: "nat \<Rightarrow> nat \<Rightarrow> (epm, unit) state" where
  "epm_cleanup n b = do {
     p \<leftarrow> gets (board b);
     i \<leftarrow> gets brd_idx;
     maj \<leftarrow> gets epm_major;
     whenM (n \<ge> 4) (knote ''cdev_del'' []);
     whenM (n \<ge> 3) (knote ''unregister_chrdev_region'' [maj, MOXA_EPM3438_DEVICE_NUM * (i + 1)]);
     whenM (n \<ge> 2) (knote ''release_region'' [int (e_base p), e_size p]);
     whenM (n \<ge> 1) (knote ''pci_disable_device'' [])
   }"

definition epm_init_hw :: "int \<Rightarrow> nat \<Rightarrow> (epm, unit) state" where
  "epm_init_hw epm3438_DO2LOW b = do {
     p \<leftarrow> gets (board b);
     moxaoutw 0 (e_base p + 4);
     (if epm3438_DO2LOW = 1 then do {
        upd_board b (\<lambda>p. p\<lparr>e_do_state_keep := 0\<rparr>);
        moxaoutb 0 (e_base p + 1)
      } else do {
        v \<leftarrow> moxainb (e_base p + 1);
        upd_board b (\<lambda>p. p\<lparr>e_do_state_keep := v\<rparr>)
      });
     v \<leftarrow> moxainb (e_base p + 2);
     upd_board b (\<lambda>p. p\<lparr>e_di_state_keep := v\<rparr>)
   }"

text \<open>The character device for both boards, made once; the error and the cleanup label it goes to.\<close>

definition epm_make_cdev :: "(epm, (int \<times> nat) option) state" where
  "epm_make_cdev = do {
     r \<leftarrow> kcall ''alloc_chrdev_region'' [MOXA_EPM3438_DEVICE_NUM * 2];
     if r < 0 then ret (Some (r, 2))
     else do {
       maj \<leftarrow> kcall ''MAJOR'' [];
       modify (\<lambda>s. s\<lparr>epm_major := maj\<rparr>);
       knote ''cdev_init'' [];
       r \<leftarrow> kcall ''cdev_add'' [maj, MOXA_EPM3438_DEVICE_NUM * 2];
       if r < 0 then ret (Some (r, 3))
       else do {
         c \<leftarrow> kcall ''class_create'' [];
         if c < 0 then ret (Some (- ENOMEM, 4))
         else do { modify (\<lambda>s. s\<lparr>init_once := True\<rparr>); ret None }
       }
     }
   }"

text \<open>From the hardware set-up to the device nodes.\<close>

definition epm_bring_up :: "int \<Rightarrow> nat \<Rightarrow> int \<Rightarrow> (epm, int) state" where
  "epm_bring_up epm3438_DO2LOW b i = do {
     epm_init_hw epm3438_DO2LOW b;
     made \<leftarrow> gets init_once;
     f \<leftarrow> (if made then ret None else epm_make_cdev);
     (case f of
        Some (e, n) \<Rightarrow> do { epm_cleanup n b; ret e }
      | None \<Rightarrow> do {
          maj \<leftarrow> gets epm_major;
          (if i = 0 then do { knote ''device_create'' [maj, 0]; knote ''device_create'' [maj, 1] }
           else do { knote ''device_create'' [maj, 2]; knote ''device_create'' [maj, 3] });
          ret 0
        })
   }"

definition epm3438_probe :: "int \<Rightarrow> (epm, int) state" where
  "epm3438_probe epm3438_DO2LOW = do {
     modify (\<lambda>s. s\<lparr>brd_idx := brd_idx s + 1\<rparr>);
     i \<leftarrow> gets brd_idx;
     let b = (if i = 0 then 0 else 1);
     knote ''pci_set_drvdata'' [int b];
     r \<leftarrow> kcall ''pci_enable_device'' [];
     if r \<noteq> 0 then ret r
     else do {
       start \<leftarrow> kcall ''pci_resource_start'' [4];
       len \<leftarrow> kcall ''pci_resource_len'' [4];
       upd_board b (\<lambda>p. p\<lparr>e_base := nat start, e_size := len\<rparr>);
       r \<leftarrow> kcall ''request_region'' [start, len];
       if r = 0 then do { epm_cleanup 1 b; ret (- ENOMEM) }
       else epm_bring_up epm3438_DO2LOW b i
     }
   }"

definition epm3438_remove :: "nat \<Rightarrow> (epm, unit) state" where
  "epm3438_remove b = do {
     maj \<leftarrow> gets epm_major;
     p \<leftarrow> gets (board b);
     removed \<leftarrow> gets remove_once;
     whenM (\<not> removed) (do {
       knote ''device_destroy'' [maj, 0]; knote ''device_destroy'' [maj, 1];
       knote ''device_destroy'' [maj, 2]; knote ''device_destroy'' [maj, 3];
       knote ''class_destroy'' [];
       knote ''cdev_del'' [];
       knote ''unregister_chrdev_region'' [maj, MOXA_EPM3438_DEVICE_NUM * 2];
       modify (\<lambda>s. s\<lparr>remove_once := True\<rparr>)
     });
     knote ''release_region'' [int (e_base p), e_size p];
     knote ''pci_disable_device'' []
   }"

definition epm3438_init :: "(epm, int) state" where
  "epm3438_init = do {
     knote ''sema_init'' [0, 1];
     knote ''sema_init'' [1, 1];
     r \<leftarrow> kcall ''pci_register_driver'' [];
     ret (if r \<noteq> 0 then - ENODEV else 0)
   }"

definition epm3438_exit :: "(epm, unit) state" where
  "epm3438_exit = knote ''pci_unregister_driver'' []"

section \<open>The shadow of the output register\<close>

definition pins :: "(port \<Rightarrow> u8) \<Rightarrow> nat \<Rightarrow> epm \<Rightarrow> u8" where
  "pins d b s = last_out d (ihist s) (e_base (board b s) + 1)"

definition apart :: "epm \<Rightarrow> bool" where
  "apart s \<longleftrightarrow> (let i = e_base (board 0 s); j = e_base (board 1 s) in i + 4 < j \<or> j + 4 < i)"

definition epm_ok :: "(port \<Rightarrow> u8) \<Rightarrow> epm \<Rightarrow> bool" where
  "epm_ok d s \<longleftrightarrow> length (Epm3438 s) = 2 \<and> apart s \<and> (\<forall>b < 2. pins d b s = e_do_state_keep (board b s))"

lemma epm_ok_pair:
  "Epm3438 s = [p, q] \<Longrightarrow> epm_ok d s \<longleftrightarrow> (e_base p + 4 < e_base q \<or> e_base q + 4 < e_base p) \<and>
     last_out d (ihist s) (e_base p + 1) = e_do_state_keep p \<and>
     last_out d (ihist s) (e_base q + 1) = e_do_state_keep q"
  by (auto simp: epm_ok_def apart_def pins_def board_def less_Suc_eq numeral_2_eq_2)

lemma epm_preservesI:
  assumes "\<And>s p q. Epm3438 s = [p, q] \<Longrightarrow> epm_ok d s \<Longrightarrow> epm_ok d (snd (run_state m s))"
  shows "preserves (epm_ok d) m"
proof (rule preservesI)
  fix s assume ok: "epm_ok d s"
  then obtain p q where "Epm3438 s = [p, q]"
    by (auto simp: epm_ok_def numeral_2_eq_2 length_Suc_conv)
  with ok show "epm_ok d (snd (run_state m s))" by (rule assms [rotated])
qed

lemma less_2E: "b < 2 \<Longrightarrow> (b = 0 \<Longrightarrow> P) \<Longrightarrow> (b = (1 :: nat) \<Longrightarrow> P) \<Longrightarrow> P"
  by linarith

lemma last_out_in_w [simp]: "last_out d (In_w p v # h) = last_out d h"
  by (simp add: fun_eq_iff)

lemmas epm_run = epm_give_def moxaoutb_def moxaoutw_def moxainb_def moxainw_def upd_board_def
  board_def pins_def apart_def Let_def case_prod_beta

text \<open>The calls of user programs on a board.\<close>

datatype epm_call = Call_open nat | Call_read nat nat "unit uarg" | Call_ioctl nat epm_cmd | Call_release

fun on_board :: "epm_call \<Rightarrow> bool" where
  "on_board (Call_read dev b u) = (b < 2)"
| "on_board (Call_ioctl b c) = (b < 2)"
| "on_board _ = True"

fun epm_do :: "epm_call \<Rightarrow> (epm, int) state" where
  "epm_do (Call_open dev) = do { (r, b) \<leftarrow> epm3438_open dev; ret r }"
| "epm_do (Call_read dev b u) = epm3438_read dev b u"
| "epm_do (Call_ioctl b c) = epm3438_ioctl b c"
| "epm_do Call_release = epm3438_release"

lemma epm_read_ok: "b < 2 \<Longrightarrow> preserves (epm_ok d) (epm3438_read dev b u)"
  by (rule epm_preservesI, erule less_2E) (simp_all add: epm_ok_pair epm3438_read_def epm_run)

lemma epm_set_dout_ok: "b < 2 \<Longrightarrow> preserves (epm_ok d) (epm_set_dout b u)"
  by (rule epm_preservesI, erule less_2E) (auto simp: epm_ok_pair epm_set_dout_def epm_run)

lemma epm_get_ok: "b < 2 \<Longrightarrow> preserves (epm_ok d) (epm_get_dout b u)"
    "b < 2 \<Longrightarrow> preserves (epm_ok d) (epm_get_din b u)"
  by (rule epm_preservesI, erule less_2E; simp add: epm_ok_pair epm_get_dout_def epm_get_din_def epm_run)+

lemma epm_reset_ok: "b < 2 \<Longrightarrow> preserves (epm_ok d) (epm3438_ioctl b EPM_RESET_COUNTER)"
  by (rule epm_preservesI, erule less_2E) (auto simp: epm_ok_pair epm_run)

lemma epm_do_ok: "on_board c \<Longrightarrow> preserves (epm_ok d) (epm_do c)"
proof (cases c)
  case (Call_ioctl b cmd)
  then show "on_board c \<Longrightarrow> ?thesis"
    using epm_reset_ok epm_set_dout_ok epm_get_ok
    by (cases cmd) (auto simp del: epm3438_ioctl.simps(1) intro: preserves_structure)
qed (auto intro: epm_read_ok simp: epm3438_open_def epm3438_release_def preserves_structure)

section \<open>After the probes\<close>

text \<open>What probing a board leaves: its own shadow holds, the ports of the other are untouched.\<close>

definition probed :: "(port \<Rightarrow> u8) \<Rightarrow> nat \<Rightarrow> epm \<Rightarrow> epm \<Rightarrow> bool" where
  "probed d b s t \<longleftrightarrow> (\<exists>p'. Epm3438 t = (Epm3438 s)[b := p'] \<and>
     last_out d (ihist t) (e_base p' + 1) = e_do_state_keep p' \<and>
     (\<forall>a. a \<noteq> e_base p' + 1 \<and> a \<noteq> e_base p' + 4 \<longrightarrow> last_out d (ihist t) a = last_out d (ihist s) a)) \<and>
     ienv t = ienv s"

lemma init_hw_probed:
  assumes "latching d (ienv s)" "b < length (Epm3438 s)"
  shows "probed d b s (snd (run_state (epm_init_hw lo b) s))"
proof (cases "lo = 1")
  case True
  show ?thesis
    unfolding probed_def
    by (rule conjI, rule exI [of _ "(Epm3438 s ! b)\<lparr>e_do_state_keep := 0, e_di_state_keep :=
        last_out d (ihist s) (e_base (Epm3438 s ! b) + 2)\<rparr>"])
      (use assms True in \<open>auto simp: epm_init_hw_def epm_run latching_def\<close>)
next
  case False
  show ?thesis
    unfolding probed_def
    by (rule conjI, rule exI [of _ "(Epm3438 s ! b)\<lparr>e_do_state_keep :=
        last_out d (ihist s) (e_base (Epm3438 s ! b) + 1), e_di_state_keep :=
        last_out d (ihist s) (e_base (Epm3438 s ! b) + 2)\<rparr>"])
      (use assms False in \<open>auto simp: epm_init_hw_def epm_run latching_def\<close>)
qed

definition same_outputs :: "(port \<Rightarrow> u8) \<Rightarrow> epm \<Rightarrow> epm \<Rightarrow> bool" where
  "same_outputs d s t \<longleftrightarrow> Epm3438 t = Epm3438 s \<and> last_out d (ihist t) = last_out d (ihist s) \<and>
     ienv t = ienv s"

lemma make_cdev_same: "same_outputs d s (snd (run_state epm_make_cdev s))"
  by (simp add: same_outputs_def epm_make_cdev_def)

lemma probed_same: "probed d b s t \<Longrightarrow> same_outputs d t u \<Longrightarrow> probed d b s u"
  by (auto simp: probed_def same_outputs_def)

lemma probed_start:
  assumes "Epm3438 s1 = (Epm3438 s)[b := p]" "last_out d (ihist s1) = last_out d (ihist s)"
    "ienv s1 = ienv s" "probed d b s1 t"
  shows "probed d b s t"
  using assms by (simp add: probed_def)

lemma keeps_brd_idx: "brd_idx (snd (run_state (epm_init_hw lo b) s)) = brd_idx s"
    "brd_idx (snd (run_state epm_make_cdev s)) = brd_idx s"
  by (simp_all add: epm_init_hw_def epm_make_cdev_def epm_run)


lemma make_cdev_result: "fst (run_state epm_make_cdev s) = Some (e, n) \<Longrightarrow> e \<noteq> 0"
  by (auto simp: epm_make_cdev_def split: if_splits)

lemma bring_up_probed:
  assumes "latching d (ienv s)" "b < length (Epm3438 s)" "run_state (epm_bring_up lo b i) s = (0, t)"
  shows "probed d b s t \<and> brd_idx t = brd_idx s"
proof -
  define s1 where "s1 = snd (run_state (epm_init_hw lo b) s)"
  have s1: "probed d b s s1" "brd_idx s1 = brd_idx s"
    using init_hw_probed [OF assms(1,2)] by (simp_all add: s1_def keeps_brd_idx)
  define f where "f = (if init_once s1 then ret None else epm_make_cdev)"
  define s2 where "s2 = snd (run_state f s1)"
  have s2: "same_outputs d s1 s2" "brd_idx s2 = brd_idx s1"
    using make_cdev_same [of d s1] by (auto simp: s2_def f_def keeps_brd_idx same_outputs_def)
  have t: "run_state (case fst (run_state f s1) of
        Some (e, n) \<Rightarrow> do { epm_cleanup n b; ret e }
      | None \<Rightarrow> do {
          maj \<leftarrow> gets epm_major;
          (if i = 0 then do { knote ''device_create'' [maj, 0]; knote ''device_create'' [maj, 1] }
           else do { knote ''device_create'' [maj, 2]; knote ''device_create'' [maj, 3] });
          ret 0
        }) s2 = (0, t)"
    using assms(3) by (simp add: epm_bring_up_def case_prod_beta s1_def s2_def f_def)
  have "same_outputs d s2 t \<and> brd_idx t = brd_idx s2"
  proof (cases "fst (run_state f s1)")
    case None
    then show ?thesis using t by (auto simp: same_outputs_def split: if_splits)
  next
    case (Some x)
    then have "fst x \<noteq> 0"
      using make_cdev_result [of s1 "fst x" "snd x"] by (auto simp: f_def split: if_splits)
    then show ?thesis using t Some by (simp add: case_prod_beta)
  qed
  then show ?thesis
    using probed_same [OF probed_same [OF s1(1) s2(1)]] s1(2) s2(2) by simp
qed

lemma probe_probed:
  assumes "latching d (ienv s)" "length (Epm3438 s) = 2" "run_state (epm3438_probe lo) s = (0, t)"
  shows "probed d (if brd_idx s = - 1 then 0 else 1) s t \<and> brd_idx t = brd_idx s + 1"
proof -
  define b where "b = (if brd_idx s = - 1 then 0 else 1 :: nat)"
  have b': "(if brd_idx s + 1 = 0 then 0 else 1 :: nat) = b" by (simp add: b_def)
  obtain s1 p where s1: "Epm3438 s1 = (Epm3438 s)[b := p]" "last_out d (ihist s1) = last_out d (ihist s)"
      "ienv s1 = ienv s" "brd_idx s1 = brd_idx s + 1"
    and t: "run_state (epm_bring_up lo b (brd_idx s + 1)) s1 = (0, t)"
  proof -
    define h1 where "h1 = Kernel_call ''pci_set_drvdata'' [int b]
        (env_k (ienv s) (ihist s) ''pci_set_drvdata'' [int b]) # ihist s"
    define h2 where "h2 = Kernel_call ''pci_enable_device'' [] 0 # h1"
    define st where "st = env_k (ienv s) h2 ''pci_resource_start'' [4]"
    define h3 where "h3 = Kernel_call ''pci_resource_start'' [4] st # h2"
    define ln where "ln = env_k (ienv s) h3 ''pci_resource_len'' [4]"
    define h4 where "h4 = Kernel_call ''pci_resource_len'' [4] ln # h3"
    define h5 where "h5 = Kernel_call ''request_region'' [st, ln] (env_k (ienv s) h4 ''request_region'' [st, ln]) # h4"
    define p where "p = (Epm3438 s ! b)\<lparr>e_base := nat st, e_size := ln\<rparr>"
    define s1 where "s1 = s\<lparr>brd_idx := brd_idx s + 1, Epm3438 := (Epm3438 s)[b := p], ihist := h5\<rparr>"
    note folds = h1_def [symmetric] h2_def [symmetric] st_def [symmetric]
      h3_def [symmetric] ln_def [symmetric] h4_def [symmetric] h5_def [symmetric]
    have "run_state (epm_bring_up lo b (brd_idx s + 1)) s1 = (0, t)"
      using assms(3) unfolding epm3438_probe_def
      by (simp add: Let_def b' folds upd_board_def s1_def p_def case_prod_beta split: if_splits)
    moreover have "last_out d (ihist s1) = last_out d (ihist s)"
      by (simp add: s1_def h5_def h4_def h3_def h2_def h1_def)
    ultimately show ?thesis
      by (intro that [of s1 p]) (simp_all add: s1_def)
  qed
  have "b < length (Epm3438 s1)" using s1(1) assms(2) by (simp add: b_def)
  then have "probed d b s1 t \<and> brd_idx t = brd_idx s1"
    using bring_up_probed t s1(3) assms(1) by auto
  then show ?thesis
    using probed_start [OF s1(1-3)] s1(4) by (simp add: b_def)
qed

lemma two_probes_ok:
  assumes "latching d (ienv s)" "length (Epm3438 s) = 2" "brd_idx s = - 1"
    and "run_state (epm3438_probe lo) s = (0, t)" "run_state (epm3438_probe lo) t = (0, u)" "apart u"
  shows "epm_ok d u"
proof -
  have 1: "probed d 0 s t" "brd_idx t = 0"
    using probe_probed [OF assms(1,2,4)] assms(3) by simp_all
  then have "latching d (ienv t)" "length (Epm3438 t) = 2"
    using assms(1,2) by (auto simp: probed_def)
  then have 2: "probed d 1 t u"
    using probe_probed [OF _ _ assms(5)] 1(2) by simp
  obtain p q where pq: "Epm3438 s = [p, q]"
    using assms(2) by (auto simp: numeral_2_eq_2 length_Suc_conv)
  obtain p' where p': "Epm3438 t = [p', q]" "last_out d (ihist t) (e_base p' + 1) = e_do_state_keep p'"
    using 1(1) pq by (auto simp: probed_def)
  obtain q' where q': "Epm3438 u = [p', q']" "last_out d (ihist u) (e_base q' + 1) = e_do_state_keep q'"
      "\<forall>a. a \<noteq> e_base q' + 1 \<and> a \<noteq> e_base q' + 4 \<longrightarrow> last_out d (ihist u) a = last_out d (ihist t) a"
    using 2 p'(1) by (auto simp: probed_def)
  have ap: "e_base p' + 4 < e_base q' \<or> e_base q' + 4 < e_base p'"
    using assms(6) q'(1) by (simp add: apart_def board_def Let_def)
  then have "last_out d (ihist u) (e_base p' + 1) = last_out d (ihist t) (e_base p' + 1)"
    by (intro q'(3) [rule_format] conjI) linarith+
  then show ?thesis
    using ap p'(2) q'(2) by (simp add: epm_ok_pair [OF q'(1)])
qed

section \<open>Outputs\<close>

text \<open>The states after both boards were found and any calls followed.\<close>

inductive epm_reach :: "(port \<Rightarrow> u8) \<Rightarrow> epm \<Rightarrow> bool" for d where
  found: "latching d (ienv s) \<Longrightarrow> length (Epm3438 s) = 2 \<Longrightarrow> brd_idx s = - 1 \<Longrightarrow>
     run_state (epm3438_probe lo) s = (0, t) \<Longrightarrow> run_state (epm3438_probe lo) t = (0, u) \<Longrightarrow>
     apart u \<Longrightarrow> epm_reach d u"
| called: "epm_reach d s \<Longrightarrow> on_board c \<Longrightarrow> epm_reach d (snd (run_state (epm_do c) s))"

lemma epm_reach_ok: "epm_reach d s \<Longrightarrow> epm_ok d s"
  by (induction rule: epm_reach.induct) (auto intro: two_probes_ok preservesD epm_do_ok)

lemma line_level_iff: "0 \<le> i \<Longrightarrow> i < 8 \<Longrightarrow> line_level w i = of_bool (bit w (nat i))"
  by (simp add: line_level_def and_exp_eq_0_iff_not_bit)

text \<open>
  In every state reached after both boards were found, a request to set an output line drives
  that pin to the level and leaves every other pin of both boards, and reading the line back
  on its board reports the level.
\<close>

theorem epm_outputs:
  assumes "epm_reach d s" "b < 2" "ua_left u = 0" "ua_out u = 0"
    and "0 \<le> e_io_number (ua_in u)" "e_io_number (ua_in u) < 8" "e_mode_data (ua_in u) \<in> {0, 1}"
  shows "let (r, t) = run_state (epm3438_ioctl b (EPM_SET_DOUT u)) s; n = nat (e_io_number (ua_in u)) in
     r = 0 \<and> (\<forall>c < 2. \<forall>m < 8. bit (pins d c t) m
        = (if c = b \<and> m = n then e_mode_data (ua_in u) = 1 else bit (pins d c s) m)) \<and>
     run_state (epm3438_ioctl b (EPM_GET_DOUT u)) t
       = (0, t\<lparr>ihist := To_user [e_io_number (ua_in u), e_mode_data (ua_in u)] # ihist t\<rparr>)"
proof -
  let ?x = "ua_in u"
  let ?n = "nat (e_io_number ?x)"
  define w where "w p = (if e_mode_data ?x = 1 then e_do_state_keep p OR push_bit ?n 1
      else e_do_state_keep p AND NOT (push_bit ?n 1))" for p :: epm3438
  have n: "?n < 8" using assms(5,6) by linarith
  obtain p q where pq: "Epm3438 s = [p, q]"
    using epm_reach_ok [OF assms(1)] by (auto simp: epm_ok_def numeral_2_eq_2 length_Suc_conv)
  have len: "b < length (Epm3438 s)" using assms(2) pq by simp
  note ok = epm_reach_ok [OF assms(1), unfolded epm_ok_pair [OF pq]]
  have wbit: "bit (w p) m = (if m = ?n then e_mode_data ?x = 1 else bit (e_do_state_keep p) m)" if "m < 8" for p m
    using that n assms(7) by (auto simp: w_def bit_simps bit_exp_iff)
  have lvl: "line_level (w p) (e_io_number ?x) = e_mode_data ?x" for p
    using wbit [OF n, of p] assms(5-7) by (auto simp: line_level_iff)
  have run: "run_state (epm3438_ioctl b (EPM_SET_DOUT u)) s = (0, s\<lparr>Epm3438 := (Epm3438 s)[b :=
      (Epm3438 s ! b)\<lparr>e_do_state_keep := w (Epm3438 s ! b)\<rparr>],
      ihist := To_user [e_io_number ?x, e_mode_data ?x] # Out_b (w (Epm3438 s ! b)) (e_base (Epm3438 s ! b) + 1) # ihist s\<rparr>)"
    using assms(3-7) len by (auto simp: epm_set_dout_def epm_run w_def nth_list_update)
  show ?thesis
    using assms(2) unfolding run Let_def prod.case
    by (rule less_2E) (use assms(3-6) pq ok lvl in \<open>auto simp: epm_get_dout_def epm_run wbit less_Suc_eq numeral_2_eq_2\<close>)
qed

fun resource_asked :: "io_event list \<Rightarrow> bool" where
  "resource_asked [] = False"
| "resource_asked (Kernel_call f as r # h) = (f = ''pci_resource_start'' \<or> resource_asked h)"
| "resource_asked (_ # h) = resource_asked h"

definition two_cards :: env where
  "two_cards = (latch_env (\<lambda>_. 0))\<lparr>env_k := (\<lambda>h f as.
     if f = ''pci_resource_start'' then (if resource_asked h then 0x400 else 0x300)
     else if f = ''request_region'' then 1 else 0)\<rparr>"

definition epm_fresh :: epm where
  "epm_fresh = \<lparr>ienv = two_cards, ihist = [],
     Epm3438 = replicate 2 \<lparr>e_base = 0, e_size = 0, e_counter_keep = 0, e_di_state_keep = 0, e_do_state_keep = 0\<rparr>,
     epm_major = 0, brd_idx = - 1, init_once = False, remove_once = False\<rparr>"

definition epm_two :: epm where
  "epm_two = snd (run_state (epm3438_probe 1) (snd (run_state (epm3438_probe 1) epm_fresh)))"

lemmas epm_probe_run = epm3438_probe_def epm_bring_up_def epm_init_hw_def epm_make_cdev_def
  upd_board_def moxaoutb_def moxainb_def moxaoutw_def board_def epm_fresh_def two_cards_def latch_env_def

lemma epm_first_probe: "fst (run_state (epm3438_probe 1) epm_fresh) = 0"
  by (simp add: epm_probe_run numeral_2_eq_2)

lemma epm_second_probe: "fst (run_state (epm3438_probe 1) (snd (run_state (epm3438_probe 1) epm_fresh))) = 0"
  by (simp add: epm_probe_run numeral_2_eq_2)

lemma epm_two_apart: "apart epm_two"
  by (simp add: epm_two_def apart_def epm_probe_run numeral_2_eq_2)

lemma epm_two_reach: "epm_reach (\<lambda>_. 0) epm_two"
proof (rule epm_reach.found)
  show "run_state (epm3438_probe 1) epm_fresh = (0, snd (run_state (epm3438_probe 1) epm_fresh))"
    using epm_first_probe by (simp add: prod_eq_iff)
  show "run_state (epm3438_probe 1) (snd (run_state (epm3438_probe 1) epm_fresh)) = (0, epm_two)"
    using epm_second_probe by (simp add: prod_eq_iff epm_two_def)
qed (simp_all add: epm_two_apart epm_fresh_def two_cards_def latching_def latch_env_def)

definition epm_demo_arg :: "epm_set uarg" where
  "epm_demo_arg = \<lparr>ua_left = 0, ua_in = \<lparr>e_io_number = 3, e_mode_data = 1\<rparr>, ua_out = 0\<rparr>"

theorem epm_outputs_witness:
  "let (r, t) = run_state (epm3438_ioctl 1 (EPM_SET_DOUT epm_demo_arg)) epm_two in
     r = 0 \<and> bit (pins (\<lambda>_. 0) 1 t) 3 \<and> bit (pins (\<lambda>_. 0) 0 t) 3 = bit (pins (\<lambda>_. 0) 0 epm_two) 3"
  using epm_outputs [OF epm_two_reach, of 1 epm_demo_arg]
  by (simp add: epm_demo_arg_def Let_def case_prod_beta)

text \<open>Resetting the counter writes one byte, 0, to its low half only.\<close>

lemma reset_low_byte:
  "run_state (epm3438_ioctl b EPM_RESET_COUNTER) s = (0, s\<lparr>ihist := Out_b 0 (e_base (board b s) + 4) # ihist s\<rparr>)"
  by (simp add: moxaoutw_def)

end
