(* ===== verification/Mxu_Baud.thy ===== *)
theory Mxu_Baud
  imports Mxser_Control
begin

text \<open>
  The serial driver for PCI Express boards, \<open>modules/mxser/mxupcie.c\<close>: the state of a port, the
  baud rate and the line settings.

  The C structure \<open>mxupcie_struct\<close> has the fields of \<open>mxser_struct\<close> the code uses and five
  more, so the record extends \<open>mxport\<close>; the fields that only the older driver has are not used
  here.  The registers are memory-mapped: \<open>MX_READ_REG\<close> and \<open>MX_WRITE_REG\<close> are \<open>ioread8\<close> and
  \<open>iowrite8\<close> on the address \<open>info->base\<close> plus an offset, and are byte accesses as port accesses
  are.  A statement the two drivers share is the definition of the older one, run on the
  common fields by \<open>up\<close>.

  Speeds outside the table are programmed by searching the divisor (1 to 255) and the
  clocks per bit (4 to 46) whose quotient of the crystal frequency is nearest.  The search is
  two nested loops; \<open>linear_baud_nearest\<close> says what it finds and that the registers encode it.
\<close>

section \<open>Constants\<close>

abbreviation "MOXA_PUART_SFR \<equiv> 0x07 :: port"
abbreviation "MOXA_PUART_EFR \<equiv> 0x0A :: port"
abbreviation "MOXA_PUART_XON1 \<equiv> 0x0B :: port"
abbreviation "MOXA_PUART_XON2 \<equiv> 0x0C :: port"
abbreviation "MOXA_PUART_XOFF1 \<equiv> 0x0D :: port"
abbreviation "MOXA_PUART_XOFF2 \<equiv> 0x0E :: port"
abbreviation "MOXA_PUART_TTL \<equiv> 0x10 :: port"
abbreviation "MOXA_PUART_RTL \<equiv> 0x11 :: port"
abbreviation "MOXA_PUART_FCL \<equiv> 0x12 :: port"
abbreviation "MOXA_PUART_FCH \<equiv> 0x13 :: port"
abbreviation "MOXA_PUART_CPR \<equiv> 0x14 :: port"
abbreviation "MOXA_PUART_RCNT \<equiv> 0x15 :: port"
abbreviation "MOXA_PUART_TCNT \<equiv> 0x16 :: port"
abbreviation "MOXA_PUART_SCR \<equiv> 0x16 :: port"
abbreviation "MOXA_PUART_MEMRBR \<equiv> 0x100 :: port"
abbreviation "MOXA_PUART_MEMTHR \<equiv> 0x100 :: port"
abbreviation "MOXA_PUART_GPIO_IN \<equiv> 0x08 :: port"
abbreviation "MOXA_PUART_GPIO_EN \<equiv> 0x09 :: port"
abbreviation "MOXA_PUART_GPIO_OUT \<equiv> 0x0A :: port"
abbreviation "MOXA_PUART_LSB \<equiv> 0x08 :: port"
abbreviation "MOXA_PUART_MSB \<equiv> 0x09 :: port"
abbreviation "MOXA_SFR_FORCE_TX \<equiv> 0x01 :: u8"
abbreviation "MOXA_SFR_950 \<equiv> 0x20 :: u8"
abbreviation "MOXA_SFR_ENABLE_TCNT \<equiv> 0x80 :: u8"
abbreviation "MOXA_EFR_TX_SW \<equiv> 0x02 :: u8"
abbreviation "MOXA_EFR_RX_SW \<equiv> 0x08 :: u8"
abbreviation "MOXA_EFR_ENHANCE \<equiv> 0x10 :: u8"
abbreviation "MOXA_EFR_AUTO_RTS \<equiv> 0x40 :: u8"
abbreviation "MOXA_EFR_AUTO_CTS \<equiv> 0x80 :: u8"

abbreviation "FREQUENCY \<equiv> 14745600 :: int"
abbreviation "MAXDIVISOR \<equiv> 255 :: int"
abbreviation "MAXSEQUENCE \<equiv> 46 :: int"
abbreviation "MINSEQUENCE \<equiv> 4 :: int"

section \<open>The port\<close>

record mxuport = mxport +
  u_iobar3_addr :: port
  u_UIR :: u8
  u_UIR_addr :: port
  u_terminator_flag :: u8
  u_board_type :: int

type_synonym 'a mxu_m = "(mxuport, 'a) state"

definition up :: "'a mx_m \<Rightarrow> 'a mxu_m" where
  "up m = State (\<lambda>s. let (r, p) = run_state m (mxport.truncate s) in (r, mxport.extend p (mxport.more s)))"

definition reg_in :: "port \<Rightarrow> u8 mxu_m" where
  "reg_in off = do { b \<leftarrow> gets i_base; inb (b + off) }"

definition reg_out :: "u8 \<Rightarrow> port \<Rightarrow> unit mxu_m" where
  "reg_out v off = do { b \<leftarrow> gets i_base; outb v (b + off) }"

definition u_set_IER :: "(u32 \<Rightarrow> u32) \<Rightarrow> unit mxu_m" where
  "u_set_IER f = modify (\<lambda>s. s\<lparr>i_IER := f (i_IER s)\<rparr>)"

definition u_set_MCR :: "(u32 \<Rightarrow> u32) \<Rightarrow> unit mxu_m" where
  "u_set_MCR f = modify (\<lambda>s. s\<lparr>i_MCR := f (i_MCR s)\<rparr>)"

definition u_out_IER :: "unit mxu_m" where
  "u_out_IER = do { v \<leftarrow> gets i_IER; reg_out (ucast v) UART_IER }"

definition u_out_MCR :: "unit mxu_m" where
  "u_out_MCR = do { v \<leftarrow> gets i_MCR; reg_out (ucast v) UART_MCR }"

section \<open>Baud rate\<close>

definition write_div_scr :: "int \<Rightarrow> u8 \<Rightarrow> unit mxu_m" where
  "write_div_scr dv scr = do {
     oldsfr \<leftarrow> reg_in MOXA_PUART_SFR;
     reg_out (oldsfr AND NOT MOXA_SFR_ENABLE_TCNT) MOXA_PUART_SFR;
     reg_out scr MOXA_PUART_SCR;
     reg_out oldsfr MOXA_PUART_SFR;
     lcr \<leftarrow> reg_in UART_LCR;
     reg_out (lcr OR UART_LCR_DLAB) UART_LCR;
     reg_out (word_of_int (dv AND 0xff)) MOXA_PUART_LSB;
     reg_out (word_of_int (drop_bit 8 (dv AND 0xff00))) MOXA_PUART_MSB;
     reg_out lcr UART_LCR }"

text \<open>
  The search.  The best so far is the distance \<open>min\<close> with its divisor and sequence; a new pair
  replaces it when it is strictly nearer.
\<close>

definition try_rate :: "int \<Rightarrow> int \<Rightarrow> int \<Rightarrow> int \<times> int \<times> int \<Rightarrow> int \<times> int \<times> int" where
  "try_rate set_value i j = (\<lambda>(mn, dv, sq).
     let accuracy = (if FREQUENCY div (i * j) > set_value then FREQUENCY div (i * j) - set_value
           else set_value - FREQUENCY div (i * j)) in
     if mn > accuracy then (accuracy, i, j) else (mn, dv, sq))"

function seq_loop :: "int \<Rightarrow> int \<Rightarrow> int \<Rightarrow> int \<times> int \<times> int \<Rightarrow> int \<times> int \<times> int" where
  "seq_loop set_value i j best =
    (if j \<le> MAXSEQUENCE
     then seq_loop set_value i (if j \<le> MAXSEQUENCE div 2 then j + 1 else j + 2) (try_rate set_value i j best)
     else best)"
  by auto
termination
  by (relation "measure (\<lambda>(v, i, j, b). nat (47 - j))") auto

function div_loop :: "int \<Rightarrow> int \<Rightarrow> int \<times> int \<times> int \<Rightarrow> int \<times> int \<times> int" where
  "div_loop set_value i best =
    (if i \<le> MAXDIVISOR then div_loop set_value (i + 1) (seq_loop set_value i MINSEQUENCE best) else best)"
  by auto
termination
  by (relation "measure (\<lambda>(v, i, b). nat (256 - i))") auto

declare seq_loop.simps [simp del] div_loop.simps [simp del]

text \<open>SCR runs down from 12 to 0, N up from 0 to 7; the last pair that fits stays.\<close>

definition scr_n_pairs :: "(int \<times> int) list" where
  "scr_n_pairs = List.product (rev [0..12]) [0..7]"

definition scr_n_search :: "int \<Rightarrow> int \<times> int" where
  "scr_n_search sq = fold (\<lambda>(i, j) r. if 16 - i + j = sq then (i, j) else r) scr_n_pairs (0, 0)"

text \<open>SCR, the divisor, and CPR.\<close>

definition linear_regs :: "int \<Rightarrow> int \<times> int \<times> int" where
  "linear_regs set_value =
    (let (mn, dv, sq) = div_loop set_value 1 (FREQUENCY, 0, 0) in
     if (mn * 100) sdiv (set_value * 100) \<le> 3 then
       (let (M, sq) = (if sq > MAXSEQUENCE div 2 then (2, sq div 2) else (1, sq));
            (SCR, N) = scr_n_search sq
        in (SCR, dv, push_bit 3 M + N))
     else (0, dv, push_bit 3 1 + 0))"

definition set_linear_baud :: "int \<Rightarrow> int mxu_m" where
  "set_linear_baud newspd = do {
     whenM (newspd = 0) (undefined_c ''division by zero'');
     let (SCR, dv, cpr) = linear_regs newspd;
     mcr \<leftarrow> reg_in UART_MCR;
     reg_out (mcr OR 0x80) UART_MCR;
     reg_out (word_of_int cpr) MOXA_PUART_CPR;
     write_div_scr dv (word_of_int SCR);
     ret 0 }"

definition u_baud_quot :: "int \<Rightarrow> int mxu_m" where
  "u_baud_quot newspd =
    (if newspd \<notin> set mxvar_baud_table then do {
       _ \<leftarrow> set_linear_baud newspd;
       s \<leftarrow> gets id;
       whenM (i_speed s = 0) (undefined_c ''division by zero'');
       ret (if i_speed s \<le> 0 \<or> i_speed s > i_MaxCanSetBaudRate s then 0
            else i_baud_base s sdiv i_speed s) }
     else do {
       s \<leftarrow> gets id;
       if newspd = 134 then do {
         modify (\<lambda>s. s\<lparr>i_speed := 134\<rparr>);
         ret ((2 * i_baud_base s) sdiv 269) }
       else if newspd \<noteq> 0 then
         (let quot = i_baud_base s sdiv newspd in ret (if quot = 0 then 1 else quot))
       else ret 0 })"

definition table_divisor :: "int \<Rightarrow> unit mxu_m" where
  "table_divisor quot = do {
     cval \<leftarrow> reg_in UART_LCR;
     reg_out (cval OR UART_LCR_DLAB) UART_LCR;
     reg_out (word_of_int (quot AND 0xff)) UART_DLL;
     reg_out (word_of_int (drop_bit 8 quot)) UART_DLM;
     reg_out cval UART_LCR;
     reg_out 0x08 MOXA_PUART_CPR }"

definition mx_set_baud :: "int \<Rightarrow> int mxu_m" where
  "mx_set_baud newspd = do {
     s \<leftarrow> gets id;
     if \<not> i_has_tty s \<or> i_base s = 0 \<or> newspd > i_MaxCanSetBaudRate s then ret 0
     else do {
       modify (\<lambda>s. s\<lparr>i_realbaud := newspd\<rparr>);
       quot \<leftarrow> u_baud_quot newspd;
       whenM (i_baud_base s = 0) (undefined_c ''division by zero'');
       modify (\<lambda>s. s\<lparr>i_timeout := fifo_timeout (i_xmit_fifo_size s) quot (i_baud_base s)\<rparr>);
       if quot = 0 then do {
         u_set_MCR (\<lambda>x. x AND NOT UART_MCR_DTR);
         u_out_MCR;
         ret 0 }
       else do {
         u_set_MCR (\<lambda>x. x OR UART_MCR_DTR);
         u_out_MCR;
         whenM (newspd \<in> set mxvar_baud_table) (table_divisor quot);
         ret 0 } } }"

section \<open>Line settings\<close>

definition u_set_termios_speed :: "u32 \<Rightarrow> unit mxu_m" where
  "u_set_termios_speed cflag = do {
     s \<leftarrow> gets id;
     (case termios_baud cflag (i_flags s) (i_custom_baud_rate s) of
        None \<Rightarrow> do { _ \<leftarrow> mx_set_baud (i_speed s); ret () }
      | Some baud \<Rightarrow> do {
          modify (\<lambda>s. s\<lparr>i_speed := baud\<rparr>);
          _ \<leftarrow> mx_set_baud baud;
          ret () }) }"

definition set_flag :: "u8 \<Rightarrow> bool \<Rightarrow> u8 \<Rightarrow> u8" where
  "set_flag m on w = (if on then w OR m else w AND NOT m)"

definition mx_change_speed :: "int mxu_m" where
  "mx_change_speed = do {
     s \<leftarrow> gets id;
     if \<not> i_has_tty s \<or> i_base s = 0 then ret 0
     else do {
       let cflag = c_cflag (t_termios (i_t s));
       let iflag = c_iflag (t_termios (i_t s));
       u_set_termios_speed cflag;
       u_set_IER (\<lambda>x. x AND NOT UART_IER_MSI);
       reg_flag \<leftarrow> reg_in MOXA_PUART_EFR;
       let reg_flag = set_flag (MOXA_EFR_AUTO_RTS OR MOXA_EFR_AUTO_CTS) (cflag AND CRTSCTS \<noteq> 0) reg_flag;
       (if cflag AND CRTSCTS \<noteq> 0 then do {
          modify (\<lambda>s. s\<lparr>i_flags := i_flags s OR ASYNC_CTS_FLOW\<rparr>);
          u_set_IER (\<lambda>x. x OR UART_IER_MSI) }
        else modify (\<lambda>s. s\<lparr>i_flags := i_flags s AND NOT ASYNC_CTS_FLOW\<rparr>));
       u_out_MCR;
       (if cflag AND CLOCAL \<noteq> 0
        then modify (\<lambda>s. s\<lparr>i_flags := i_flags s AND NOT ASYNC_CHECK_CD\<rparr>)
        else do {
          modify (\<lambda>s. s\<lparr>i_flags := i_flags s OR ASYNC_CHECK_CD\<rparr>);
          u_set_IER (\<lambda>x. x OR UART_IER_MSI) });
       u_out_IER;
       modify (\<lambda>s. s\<lparr>i_read_status_mask := fst (status_masks iflag),
         i_ignore_status_mask := snd (status_masks iflag)\<rparr>);
       reg_out (c_start (t_termios (i_t s))) MOXA_PUART_XON1;
       reg_out (c_start (t_termios (i_t s))) MOXA_PUART_XON2;
       reg_out (c_stop (t_termios (i_t s))) MOXA_PUART_XOFF1;
       reg_out (c_stop (t_termios (i_t s))) MOXA_PUART_XOFF2;
       reg_out (set_flag MOXA_EFR_RX_SW (iflag AND IXOFF \<noteq> 0)
         (set_flag MOXA_EFR_TX_SW (iflag AND IXON \<noteq> 0) reg_flag)) MOXA_PUART_EFR;
       reg_out UART_FCR_ENABLE_FIFO UART_FCR;
       reg_out (lcr_of_cflag cflag) UART_LCR;
       ret 0 } }"

section \<open>Running the steps\<close>

lemma run_reg [simp]:
  "run_state (reg_in off) s = (env_b (ienv s) (ihist s) (i_base s + off),
     s\<lparr>ihist := In_b (i_base s + off) (env_b (ienv s) (ihist s) (i_base s + off)) # ihist s\<rparr>)"
  "run_state (reg_out v off) s = ((), s\<lparr>ihist := Out_b v (i_base s + off) # ihist s\<rparr>)"
  "run_state (u_set_IER f) s = ((), s\<lparr>i_IER := f (i_IER s)\<rparr>)"
  "run_state (u_set_MCR g) s = ((), s\<lparr>i_MCR := g (i_MCR s)\<rparr>)"
  "run_state u_out_IER s = ((), s\<lparr>ihist := Out_b (ucast (i_IER s)) (i_base s + 1) # ihist s\<rparr>)"
  "run_state u_out_MCR s = ((), s\<lparr>ihist := Out_b (ucast (i_MCR s)) (i_base s + 4) # ihist s\<rparr>)"
  by (simp_all add: reg_in_def reg_out_def u_set_IER_def u_set_MCR_def u_out_IER_def u_out_MCR_def)

text \<open>What \<open>up\<close> does to the common fields and to the five of this driver.\<close>

lemma run_up: "run_state (up m) s = (fst (run_state m (mxport.truncate s)),
    mxport.extend (snd (run_state m (mxport.truncate s))) (mxport.more s))"
  by (simp add: up_def case_prod_beta)

lemma truncate_extend [simp]: "mxport.truncate (mxport.extend (p :: mxport) r) = p"
  by (simp add: mxport.truncate_def mxport.extend_def)

lemma truncate_up: "mxport.truncate (snd (run_state (up m) s)) = snd (run_state m (mxport.truncate s))"
    "fst (run_state (up m) s) = fst (run_state m (mxport.truncate s))"
  by (simp_all add: run_up)

section \<open>The nearest rate\<close>

definition rate_error :: "int \<Rightarrow> int \<Rightarrow> int \<Rightarrow> int" where
  "rate_error v i j = \<bar>FREQUENCY div (i * j) - v\<bar>"

definition sequences :: "int list" where
  "sequences = [4, 5, 6, 7, 8, 9, 10, 11, 12, 13, 14, 15, 16, 17, 18, 19, 20, 21, 22, 23, 24,
     26, 28, 30, 32, 34, 36, 38, 40, 42, 44, 46]"

lemma try_rate_error:
  "try_rate v i j (mn, dv, sq) = (if mn > rate_error v i j then (rate_error v i j, i, j) else (mn, dv, sq))"
  by (simp add: try_rate_def rate_error_def Let_def)

lemma seq_loop_fold: "seq_loop v i MINSEQUENCE best = fold (try_rate v i) sequences best"
  by (simp add: seq_loop.simps sequences_def)

lemma div_loop_fold:
  "div_loop v i best = fold (\<lambda>i. fold (try_rate v i) sequences) [i..MAXDIVISOR] best"
proof (induction v i best rule: div_loop.induct)
  case (1 v i best)
  then show ?case
    by (simp add: div_loop.simps [of v i] seq_loop_fold upto.simps [of i])
qed

definition best_of :: "int \<Rightarrow> (int \<times> int) set \<Rightarrow> int \<times> int \<times> int \<Rightarrow> bool" where
  "best_of v D = (\<lambda>(mn, dv, sq). (\<forall>(i, j) \<in> D. mn \<le> rate_error v i j) \<and>
     (if D = {} then (mn, dv, sq) = (FREQUENCY, 0, 0) else (dv, sq) \<in> D \<and> mn = rate_error v dv sq))"

lemma rate_error_small:
  assumes "0 < v" "v \<le> 921600" "1 \<le> i" "1 \<le> j"
  shows "rate_error v i j < FREQUENCY \<or> i * j = 1"
proof (cases "i * j = 1")
  case False
  have "0 < i * j" using assms by (simp add: zero_less_mult_iff)
  then have "2 \<le> i * j" using False by linarith
  then have "FREQUENCY div (i * j) \<le> FREQUENCY div 2"
    by (intro zdiv_mono2) simp_all
  moreover have "0 \<le> FREQUENCY div (i * j)"
    using \<open>0 < i * j\<close> by (simp only: pos_imp_zdiv_nonneg_iff)
  ultimately show ?thesis
    using assms(1,2) by (intro disjI1) (simp add: rate_error_def abs_less_iff)
qed simp

lemma best_of_step:
  assumes "best_of v D best" "0 < v" "v \<le> 921600" "1 \<le> i" "4 \<le> j"
  shows "best_of v (insert (i, j) D) (try_rate v i j best)"
proof -
  obtain mn dv sq where b: "best = (mn, dv, sq)" by (cases best)
  have "i * j \<noteq> 1"
    using assms(4,5) by (auto simp: zmult_eq_1_iff)
  then have "rate_error v i j < FREQUENCY"
    using rate_error_small [of v i j] assms by auto
  then show ?thesis
    using assms(1) by (auto simp: b best_of_def try_rate_error split: if_splits)
qed

lemma best_of_fold:
  assumes "best_of v D best" "0 < v" "v \<le> 921600" "1 \<le> i" "\<forall>j \<in> set js. 4 \<le> j"
  shows "best_of v (D \<union> {i} \<times> set js) (fold (try_rate v i) js best)"
  using assms(1,5)
proof (induction js arbitrary: D best)
  case (Cons j js)
  have "best_of v (insert (i, j) D \<union> {i} \<times> set js) (fold (try_rate v i) js (try_rate v i j best))"
    using Cons.prems(2) by (intro Cons.IH best_of_step [OF Cons.prems(1) assms(2-4)]) simp_all
  moreover have "insert (i, j) D \<union> {i} \<times> set js = D \<union> {i} \<times> set (j # js)"
    by auto
  ultimately show ?case by simp
qed simp

lemma best_of_all:
  assumes "best_of v D best" "0 < v" "v \<le> 921600" "\<forall>i \<in> set is. 1 \<le> i"
  shows "best_of v (D \<union> set is \<times> set sequences) (fold (\<lambda>i. fold (try_rate v i) sequences) is best)"
  using assms(1,4)
proof (induction "is" arbitrary: D best)
  case (Cons i "is")
  have "\<forall>j \<in> set sequences. 4 \<le> j"
    by (simp add: sequences_def)
  then have "best_of v (D \<union> {i} \<times> set sequences) (fold (try_rate v i) sequences best)"
    using best_of_fold [OF Cons.prems(1) assms(2,3)] Cons.prems(2) by simp
  from Cons.IH [OF this] Cons.prems(2)
  show ?case by (simp add: Un_assoc insert_Times_insert)
      (metis (no_types) Sigma_Un_distrib1 Un_assoc insert_is_Un)
qed simp

lemma search_finds:
  assumes "0 < v" "v \<le> 921600" "div_loop v 1 (FREQUENCY, 0, 0) = (mn, dv, sq)"
  shows "1 \<le> dv" "dv \<le> 255" "sq \<in> set sequences" "mn = rate_error v dv sq"
    "1 \<le> i \<Longrightarrow> i \<le> 255 \<Longrightarrow> j \<in> set sequences \<Longrightarrow> mn \<le> rate_error v i j"
proof -
  have "best_of v ({} \<union> set [1..255] \<times> set sequences) (mn, dv, sq)"
    using best_of_all [of v "{}" "(FREQUENCY, 0, 0)" "[1..255]"] assms
    by (simp only: div_loop_fold) (simp add: best_of_def [of v "{}"])
  moreover have "set [1..255] \<times> set sequences \<noteq> ({} :: (int \<times> int) set)"
    by (simp add: sequences_def)
  ultimately have b: "(dv, sq) \<in> {1..255} \<times> set sequences" "mn = rate_error v dv sq"
      "\<forall>(i, j) \<in> {1..255} \<times> set sequences. mn \<le> rate_error v i j"
    by (auto simp: best_of_def)
  from b show "1 \<le> dv" "dv \<le> 255" "sq \<in> set sequences" "mn = rate_error v dv sq"
    "1 \<le> i \<Longrightarrow> i \<le> 255 \<Longrightarrow> j \<in> set sequences \<Longrightarrow> mn \<le> rate_error v i j"
    by auto
qed

lemma scr_n_decodes:
  "\<forall>sq \<in> set [4..23]. (let (SCR, N) = scr_n_search sq in
     16 - SCR + N = sq \<and> 0 \<le> SCR \<and> SCR \<le> 12 \<and> 0 \<le> N \<and> N \<le> 7)"
  by code_simp

lemma scr_n_range:
  assumes "4 \<le> sq" "sq \<le> 23" "scr_n_search sq = (SCR, N)"
  shows "16 - SCR + N = sq" "0 \<le> SCR" "SCR \<le> 12" "0 \<le> N" "N \<le> 7"
proof -
  have "sq \<in> set [4..23]" using assms(1,2) by (simp only: set_upto atLeastAtMost_iff)
  from bspec [OF scr_n_decodes this] show "16 - SCR + N = sq" "0 \<le> SCR" "SCR \<le> 12" "0 \<le> N" "N \<le> 7"
    by (simp_all add: assms(3))
qed

lemma sequence_split:
  "sq \<in> set sequences \<Longrightarrow> 4 \<le> sq \<and> sq \<le> 46 \<and>
     (if sq > 23 then 4 \<le> sq div 2 \<and> sq div 2 \<le> 23 \<and> 2 * (sq div 2) = sq else sq \<le> 23)"
  by (auto simp: sequences_def)

text \<open>The test on the accuracy divides out the factor 100, so it asks for an error below four times the speed.\<close>

lemma accuracy_test:
  fixes v mn :: int
  assumes "0 < v" "0 \<le> mn"
  shows "(mn * 100) sdiv (v * 100) \<le> 3 \<longleftrightarrow> mn < 4 * v"
proof -
  have "(mn * 100) sdiv (v * 100) = mn div v"
    using assms by (simp add: sdiv_nonneg)
  moreover have "mn div v \<le> 3 \<longleftrightarrow> mn div v < 4" by linarith
  moreover have "mn div v < 4 \<longleftrightarrow> mn < 4 * v"
    using assms(1) div_less_int [of v mn 4] zdiv_mono1 [of "4 * v" mn v] by (cases "mn < 4 * v") auto
  ultimately show ?thesis by simp
qed

lemma slowest_rate:
  assumes "1 \<le> i" "i \<le> 255" "j \<in> set sequences"
  shows "1257 \<le> FREQUENCY div (i * j)"
proof -
  have j: "4 \<le> j" "j \<le> 46" using sequence_split [OF assms(3)] by auto
  have "i * j \<le> 255 * 46" using assms j by (intro mult_mono) simp_all
  moreover have "0 < i * j" using assms j by simp
  ultimately have "FREQUENCY div (255 * 46) \<le> FREQUENCY div (i * j)"
    by (intro zdiv_mono2) simp_all
  then show ?thesis by simp
qed

text \<open>
  C13. Speeds outside the table.  From 252 to 921600 bit/s the registers programmed for a speed
  encode a divisor from 1 to 255 and a number of clocks per bit from 4 to 46, and no other
  choice of the two the search considers gives a rate nearer to the speed.  Below 252 bit/s the
  search is abandoned and the clocks per bit are left at 16 (SCR 0, CPR 8).
\<close>

theorem linear_baud_nearest:
  assumes "0 < v" "v \<le> 921600" "linear_regs v = (SCR, dv, cpr)"
  shows "if 252 \<le> v
    then (let clocks = cpr div 8 * (16 - SCR + cpr mod 8) in
      1 \<le> dv \<and> dv \<le> 255 \<and> 0 \<le> SCR \<and> SCR \<le> 12 \<and> (cpr div 8 = 1 \<or> cpr div 8 = 2) \<and>
      clocks \<in> set sequences \<and>
      (\<forall>i \<in> {1..255}. \<forall>j \<in> set sequences.
         \<bar>FREQUENCY div (dv * clocks) - v\<bar> \<le> \<bar>FREQUENCY div (i * j) - v\<bar>))
    else SCR = 0 \<and> cpr = 8"
proof -
  obtain mn d q where best: "div_loop v 1 (FREQUENCY, 0, 0) = (mn, d, q)"
    by (cases "div_loop v 1 (FREQUENCY, 0, 0)")
  note found = search_finds [OF assms(1,2) best]
  have mn0: "0 \<le> mn" using found(4) by (simp add: rate_error_def)
  have test: "(mn * 100) sdiv (v * 100) \<le> 3 \<longleftrightarrow> mn < 4 * v"
    using accuracy_test [OF assms(1) mn0] .
  show ?thesis
  proof (cases "252 \<le> v")
    case True
    have "mn \<le> rate_error v 255 46"
      by (rule found(5)) (simp_all add: sequences_def)
    then have lt: "mn < 4 * v"
      using True by (simp add: rate_error_def abs_if split: if_splits)
    define M where "M = (if q > 23 then 2 else 1 :: int)"
    define q' where "q' = (if q > 23 then q div 2 else q)"
    have q': "4 \<le> q'" "q' \<le> 23" "M * q' = q"
      using sequence_split [OF found(3)] by (auto simp: M_def q'_def split: if_splits)
    obtain S N where SN: "scr_n_search q' = (S, N)" by (cases "scr_n_search q'")
    note sn = scr_n_range [OF q'(1,2) SN]
    have regs: "SCR = S" "dv = d" "cpr = M * 8 + N"
      using assms(3) lt SN by (auto simp: linear_regs_def best test M_def q'_def push_bit_eq_mult split: if_splits)
    have M: "M = 1 \<or> M = 2" by (simp add: M_def)
    have cpr: "cpr div 8 = M" "cpr mod 8 = N"
      using sn(4,5) by (simp_all add: regs)
    have clocks: "cpr div 8 * (16 - SCR + cpr mod 8) = q"
      using sn(1) q'(3) by (simp add: cpr regs(1))
    have near: "\<forall>i \<in> {1..255}. \<forall>j \<in> set sequences.
        \<bar>FREQUENCY div (dv * q) - v\<bar> \<le> \<bar>FREQUENCY div (i * j) - v\<bar>"
      using found(4,5) by (simp add: rate_error_def regs(2))
    show ?thesis
      unfolding Let_def clocks using True found(1-3) sn(2,3) M near by (simp add: cpr regs(1,2))
  next
    case False
    have "4 * v \<le> mn"
      using slowest_rate [OF found(1-3)] False by (simp add: found(4) rate_error_def)
    then show ?thesis
      using assms(3) False by (auto simp: linear_regs_def best test push_bit_eq_mult)
  qed
qed

theorem linear_baud_nearest_witness:
  "\<exists>SCR dv cpr. linear_regs 500000 = (SCR, dv, cpr) \<and> 1 \<le> dv \<and> dv \<le> 255 \<and>
     \<bar>FREQUENCY div (dv * (cpr div 8 * (16 - SCR + cpr mod 8))) - 500000\<bar> \<le> 8480"
proof -
  obtain SCR dv cpr where r: "linear_regs 500000 = (SCR, dv, cpr)"
    by (cases "linear_regs 500000")
  have near: "\<forall>i \<in> {1..255}. \<forall>j \<in> set sequences.
      \<bar>FREQUENCY div (dv * (cpr div 8 * (16 - SCR + cpr mod 8))) - 500000\<bar> \<le> \<bar>FREQUENCY div (i * j) - 500000\<bar>"
    and dv: "1 \<le> dv" "dv \<le> 255"
    using linear_baud_nearest [OF _ _ r] by (simp_all add: Let_def)
  have "(6 :: int) \<in> set sequences" by (simp add: sequences_def)
  from bspec [OF bspec [OF near, of 5] this] show ?thesis
    using r dv by simp
qed

text \<open>The bytes a speed outside the table leaves in the registers.\<close>

lemma set_linear_baud_registers:
  assumes "linear_regs v = (SCR, dv, cpr)" "v \<noteq> 0"
  shows "let t = snd (run_state (set_linear_baud v) s); out = last_out d (ihist t); b = i_base s in
    out (b + MOXA_PUART_CPR) = word_of_int cpr \<and> out (b + MOXA_PUART_SCR) = word_of_int SCR \<and>
    out (b + MOXA_PUART_LSB) = word_of_int (dv AND 0xff) \<and>
    out (b + MOXA_PUART_MSB) = word_of_int (drop_bit 8 (dv AND 0xff00))"
  using assms by (simp add: set_linear_baud_def write_div_scr_def Let_def)

end
