(* ===== verification/Mxu_Board.thy ===== *)
theory Mxu_Board
  imports Mxu_Baud
begin

text \<open>
  The boards of the serial driver for PCI Express, \<open>modules/mxser/mxupcie.c\<close>: the interface and the
  terminator of a port, breaks, the configuration of a board, module initialisation and exit.

  Two ports share an interface register, four bits each; \<open>uir_slot\<close> names the register and half of
  a port, and \<open>interface_isolated\<close> shows that setting one port leaves every other.
\<close>

section \<open>Interface and terminator\<close>

abbreviation "MOXA_UIR_RS232 \<equiv> 0x00 :: u8"
abbreviation "MOXA_UIR_RS422 \<equiv> 0x01 :: u8"
abbreviation "MOXA_UIR_RS485_4W \<equiv> 0x0B :: u8"
abbreviation "MOXA_UIR_RS485_2W \<equiv> 0x0F :: u8"
abbreviation "MXUPCIE_BOARD_CP102E \<equiv> 1 :: int"
abbreviation "MXUPCIE_BOARD_CP102EL \<equiv> 2 :: int"
abbreviation "MXUPCIE_BOARD_CP132EL \<equiv> 3 :: int"
abbreviation "MXUPCIE_BOARD_CP114EL \<equiv> 4 :: int"
abbreviation "MXUPCIE_BOARD_CP104EL_A \<equiv> 5 :: int"
abbreviation "MXUPCIE_BOARD_CP168EL_A \<equiv> 6 :: int"
abbreviation "MXUPCIE_BOARD_CP118EL_A \<equiv> 7 :: int"

definition interfaces :: "u8 list" where
  "interfaces = [MOXA_UIR_RS232, MOXA_UIR_RS422, MOXA_UIR_RS485_4W, MOXA_UIR_RS485_2W]"

text \<open>The boards that refuse to change; \<open>v2616a\<close> is the compile-time switch \<open>V2616A\<close>.\<close>

definition fixed_interface :: "bool \<Rightarrow> int \<Rightarrow> u8 \<Rightarrow> bool" where
  "fixed_interface v2616a bt val \<longleftrightarrow>
     val = MOXA_UIR_RS232 \<and> bt = MXUPCIE_BOARD_CP132EL \<or>
     \<not> v2616a \<and> (bt = MXUPCIE_BOARD_CP102E \<or> bt = MXUPCIE_BOARD_CP102EL) \<or>
     bt = MXUPCIE_BOARD_CP168EL_A \<or> bt = MXUPCIE_BOARD_CP104EL_A"

definition mx_set_interface :: "bool \<Rightarrow> u8 \<Rightarrow> int mxu_m" where
  "mx_set_interface v2616a val = do {
     s \<leftarrow> gets id;
     if val \<notin> set interfaces \<or> fixed_interface v2616a (u_board_type s) val then ret (- EINVAL)
     else do {
       modify (\<lambda>s. s\<lparr>u_UIR := val\<rparr>);
       chip_val \<leftarrow> inb (u_UIR_addr s);
       (if i_port s mod 2 \<noteq> 0
        then outb (chip_val AND 0x0F OR push_bit 4 val) (u_UIR_addr s)
        else outb (chip_val AND 0xF0 OR val) (u_UIR_addr s));
       ret 0 } }"

definition mx_init_terminator :: "unit mxu_m" where
  "mx_init_terminator = do {
     s \<leftarrow> gets id;
     whenM (u_board_type s = MXUPCIE_BOARD_CP118EL_A) (do {
       outb 0xff (u_iobar3_addr s + MOXA_PUART_GPIO_EN);
       outb 0x00 (u_iobar3_addr s + MOXA_PUART_GPIO_OUT) }) }"

text \<open>The line of the terminator of a port, if its board has one.\<close>

definition term_line :: "int \<Rightarrow> nat \<Rightarrow> nat option" where
  "term_line bt n =
    (if bt = MXUPCIE_BOARD_CP132EL then Some (n + 2)
     else if bt = MXUPCIE_BOARD_CP114EL \<or> bt = MXUPCIE_BOARD_CP118EL_A then Some n
     else None)"

definition mx_set_terminator :: "u8 \<Rightarrow> int mxu_m" where
  "mx_set_terminator val = do {
     s \<leftarrow> gets id;
     if u_UIR s = MOXA_UIR_RS232 then ret (- EINVAL)
     else if val \<noteq> 0 \<and> val \<noteq> 1 then ret (- EINVAL)
     else do {
       modify (\<lambda>s. s\<lparr>u_terminator_flag := val\<rparr>);
       chip_val \<leftarrow> inb (u_iobar3_addr s + MOXA_PUART_GPIO_IN);
       (case term_line (u_board_type s) (i_port s) of
          None \<Rightarrow> ret (- EINVAL)
        | Some n \<Rightarrow> do {
            outb 0xff (u_iobar3_addr s + MOXA_PUART_GPIO_EN);
            outb (chip_val AND NOT (push_bit n 1) OR push_bit n val) (u_iobar3_addr s + MOXA_PUART_GPIO_OUT);
            ret 0 }) } }"

section \<open>Breaks\<close>

text \<open>On RS-485 the transmitter is forced on and held by hand.\<close>

definition mx_software_break_signal :: "bool \<Rightarrow> unit mxu_m" where
  "mx_software_break_signal on =
    (if on then do {
       cval \<leftarrow> reg_in UART_LCR;
       reg_out (cval OR UART_LCR_DLAB) UART_LCR;
       reg_out 0 UART_DLL;
       reg_out 0 UART_DLM;
       reg_out cval UART_LCR;
       reg_out 0x01 MOXA_PUART_MEMTHR;
       sfr \<leftarrow> reg_in MOXA_PUART_SFR;
       reg_out (sfr OR MOXA_SFR_FORCE_TX) MOXA_PUART_SFR;
       lcr \<leftarrow> reg_in UART_LCR;
       reg_out (lcr OR UART_LCR_SBC) UART_LCR }
     else do {
       origin_speed \<leftarrow> gets i_speed;
       lcr \<leftarrow> reg_in UART_LCR;
       reg_out (lcr AND NOT UART_LCR_SBC) UART_LCR;
       sfr \<leftarrow> reg_in MOXA_PUART_SFR;
       reg_out (sfr AND NOT MOXA_SFR_FORCE_TX) MOXA_PUART_SFR;
       reg_out UART_FCR_CLEAR_XMIT UART_FCR;
       _ \<leftarrow> mx_set_baud origin_speed;
       ret () })"

definition set_break :: "bool \<Rightarrow> unit mxu_m" where
  "set_break on = do {
     uir \<leftarrow> gets u_UIR;
     if uir = MOXA_UIR_RS485_4W \<or> uir = MOXA_UIR_RS485_2W then mx_software_break_signal on
     else if uir = MOXA_UIR_RS232 \<or> uir = MOXA_UIR_RS422 then do {
       lcr \<leftarrow> reg_in UART_LCR;
       reg_out (if on then lcr OR UART_LCR_SBC else lcr AND NOT UART_LCR_SBC) UART_LCR }
     else ret () }"

definition mxupcie_rs_break :: "int \<Rightarrow> int mxu_m" where
  "mxupcie_rs_break break_state = do { set_break (break_state = - 1); ret 0 }"

definition mx_send_break :: "int \<Rightarrow> unit mxu_m" where
  "mx_send_break duration = do {
     b \<leftarrow> gets i_base;
     if b = 0 then ret ()
     else do {
       set_break True;
       knote ''schedule_timeout'' [duration];
       set_break False } }"

section \<open>The driver\<close>

record mxupcie_hwconf =
  uh_board_type :: int
  uh_ports :: nat
  uh_irq :: int
  uh_iobar3_addr :: port
  uh_vector_mask :: "64 word"
  uh_uart_type :: int
  uh_ioaddr :: "port list"
  uh_baud_base :: "int list"
  uh_busNum :: int
  uh_devNum :: int
  uh_pdev :: int
  uh_IsMoxaMustChipFlag :: int
  uh_MaxCanSetBaudRate :: "int list"
  uh_opmode_ioaddr :: "port list"

record mxudrv = io +
  ud_ports :: "mxuport list"
  ud_cfg :: "mxupcie_hwconf list"
  ud_interface :: u8
  ud_ttymajor :: int
  ud_calloutmajor :: int
  ud_std_termios :: ktermios
  ud_GMStatus :: "mxser_mstatus list"

type_synonym 'a udrv_m = "(mxudrv, 'a) state"

abbreviation "MXUPCIE_BOARDS \<equiv> 4 :: nat"
abbreviation "MXUPCIE_PORTS \<equiv> 32 :: int"
abbreviation "MXUPCIE_PORTS_PER_BOARD \<equiv> 8 :: nat"
abbreviation "MX_TX_FIFO_SIZE \<equiv> 128 :: int"
abbreviation "MX_RX_FIFO_SIZE \<equiv> 128 :: int"
abbreviation "MX_PUART_SIZE \<equiv> 0x200 :: nat"

definition mxupcie_numports :: "int list" where
  "mxupcie_numports = [2, 2, 2, 4, 4, 8, 8]"

text \<open>Run an operation of a port inside the driver, as in the older driver.\<close>

definition on_uport :: "nat \<Rightarrow> 'a \<Rightarrow> 'a mxu_m \<Rightarrow> 'a udrv_m" where
  "on_uport n dflt m = State (\<lambda>d.
     if n < length (ud_ports d) then
       (let (r, p) = run_state m ((ud_ports d ! n)\<lparr>ienv := ienv d, ihist := ihist d\<rparr>)
        in (r, d\<lparr>ihist := ihist p, ud_ports := (ud_ports d)[n := p]\<rparr>))
     else (dflt, d\<lparr>ihist := Undefined ''mxvar_table index'' # ihist d\<rparr>))"

section \<open>Configuring a board\<close>

text \<open>The fourth port of the CP-114EL and CP-104EL-A is the eighth UART of the chip.\<close>

definition uart_slot :: "int \<Rightarrow> nat \<Rightarrow> nat" where
  "uart_slot bt i = (if i = 3 \<and> (bt = MXUPCIE_BOARD_CP114EL \<or> bt = MXUPCIE_BOARD_CP104EL_A) then 7 else i)"

text \<open>The interface register of a port, from the first: two ports share one.\<close>

definition uir_offset :: "int \<Rightarrow> nat \<Rightarrow> nat" where
  "uir_offset bt i = (if i = 3 \<and> (bt = MXUPCIE_BOARD_CP114EL \<or> bt = MXUPCIE_BOARD_CP104EL_A) then 3 else i div 2)"

definition mx_get_PCI_conf :: "int \<Rightarrow> mxupcie_hwconf \<Rightarrow> ('x, int \<times> mxupcie_hwconf) io_m" where
  "mx_get_PCI_conf board_type hw = do {
     let ports = nat (mxupcie_numports ! nat (board_type - 1));
     a1 \<leftarrow> kcall ''pci_resource_start'' [uh_pdev hw, 1];
     l1 \<leftarrow> kcall ''pci_resource_len'' [uh_pdev hw, 1];
     knote ''request_mem_region'' [a1, l1];
     va \<leftarrow> kcall ''ioremap'' [a1, l1];
     a2 \<leftarrow> kcall ''pci_resource_start'' [uh_pdev hw, 2];
     l2 \<leftarrow> kcall ''pci_resource_len'' [uh_pdev hw, 2];
     knote ''request_region'' [a2, l2];
     irq \<leftarrow> kcall ''pdev_irq'' [uh_pdev hw];
     ret (0, hw\<lparr>uh_board_type := board_type, uh_ports := ports,
       uh_ioaddr := set_first ports (\<lambda>i. nat va + uart_slot board_type i * MX_PUART_SIZE) (uh_ioaddr hw),
       uh_irq := irq, uh_iobar3_addr := nat a2, uh_uart_type := PORT_16550A,
       uh_IsMoxaMustChipFlag := 3,
       uh_baud_base := set_first ports (\<lambda>_. 921600) (uh_baud_base hw),
       uh_MaxCanSetBaudRate := set_first ports (\<lambda>_. 921600) (uh_MaxCanSetBaudRate hw)\<rparr>) }"

definition mx_init_port :: "mxupcie_hwconf \<Rightarrow> ktermios \<Rightarrow> nat \<Rightarrow> nat \<Rightarrow> unit mxu_m" where
  "mx_init_port hw tm n i = do {
     modify (\<lambda>s. s\<lparr>i_port := n, i_base := uh_ioaddr hw ! i, i_irq := uh_irq hw,
       u_UIR := 0, u_terminator_flag := 0, u_iobar3_addr := uh_iobar3_addr hw,
       u_UIR_addr := uh_iobar3_addr hw + 4 + uir_offset (uh_board_type hw) i,
       u_board_type := uh_board_type hw,
       i_flags := ASYNC_SHARE_IRQ, i_type := uh_uart_type hw,
       i_baud_base := uh_baud_base hw ! i, i_MaxCanSetBaudRate := uh_MaxCanSetBaudRate hw ! i,
       i_xmit_fifo_size := MX_TX_FIFO_SIZE, i_rx_trigger := 96, i_rx_high_water := 110,
       i_rx_low_water := 16, i_custom_divisor := uh_baud_base hw ! i * 16,
       i_close_delay := 5 * HZ div 10, i_closing_wait := 30 * HZ, i_normal_termios := tm,
       i_speed := 9600,
       i_mon_data := \<lparr>mon_rxcnt = 0, mon_txcnt = 0, mon_up_rxcnt = 0, mon_up_txcnt = 0,
         mon_modem_status = 0, mon_hold_reason = 0\<rparr>,
       i_err_shadow := 0\<rparr>);
     outb 0x0F (uh_iobar3_addr hw + MOXA_PUART_GPIO_EN);
     mx_init_terminator }"

text \<open>
  The module parameter \<open>interface\<close>, when it is 0, is replaced by the default of the first board,
  and the following boards find it set.
\<close>

fun mx_init_ports :: "bool \<Rightarrow> mxupcie_hwconf \<Rightarrow> nat \<Rightarrow> nat \<Rightarrow> nat \<Rightarrow> unit udrv_m" where
  "mx_init_ports v2616a hw n i 0 = ret ()"
| "mx_init_ports v2616a hw n i (Suc k) = do {
     tm \<leftarrow> gets (\<lambda>d. (ud_std_termios d)\<lparr>c_cflag := 0xCBD\<rparr>);
     on_uport (n + i) () (mx_init_port hw tm (n + i) i);
     modify (\<lambda>d. if ud_interface d = 0
       then d\<lparr>ud_interface := (if uh_board_type hw = MXUPCIE_BOARD_CP132EL then MOXA_UIR_RS485_2W else MOXA_UIR_RS232)\<rparr>
       else d);
     v \<leftarrow> gets ud_interface;
     on_uport (n + i) () (do { _ \<leftarrow> mx_set_interface v2616a v; ret () });
     mx_init_ports v2616a hw n (i + 1) k }"

definition mxupcie_initbrd :: "bool \<Rightarrow> nat \<Rightarrow> mxupcie_hwconf \<Rightarrow> int udrv_m" where
  "mxupcie_initbrd v2616a brd hw = do {
     mx_init_ports v2616a hw (brd * MXUPCIE_PORTS_PER_BOARD) 0 (uh_ports hw);
     mask_irqs (take (uh_ports hw) (uh_ioaddr hw));
     kcall ''request_irq'' [uh_irq hw, int (brd * MXUPCIE_PORTS_PER_BOARD)] }"

definition mx_getcfg :: "nat \<Rightarrow> mxupcie_hwconf \<Rightarrow> unit udrv_m" where
  "mx_getcfg brd hw = do {
     d \<leftarrow> gets id;
     if brd < length (ud_cfg d) then modify (\<lambda>d. d\<lparr>ud_cfg := (ud_cfg d)[brd := hw]\<rparr>)
     else undefined_c ''mxupciecfg index'' }"

section \<open>Module initialisation and exit\<close>

definition mxupcie_pcibrds :: "(int \<times> int) list" where
  "mxupcie_pcibrds = [(0x1024, 1), (0x1025, 2), (0x1322, 3), (0x1144, 4), (0x1045, 5), (0x1683, 6), (0x1182, 7)]"

definition mx_pci_board :: "bool \<Rightarrow> int \<Rightarrow> int \<Rightarrow> nat \<Rightarrow> mxupcie_hwconf \<Rightarrow> (nat \<times> mxupcie_hwconf) udrv_m" where
  "mx_pci_board v2616a pdev board_type m hw = do {
     bus \<leftarrow> kcall ''pci_bus_number'' [pdev];
     devfn \<leftarrow> kcall ''pci_devfn'' [pdev];
     let hw = hw\<lparr>uh_busNum := bus, uh_devNum := ((devfn div 8) mod 32) * 8, uh_pdev := pdev\<rparr>;
     if MXUPCIE_BOARDS \<le> m then ret (m, hw)
     else do {
       fail \<leftarrow> kcall ''pci_enable_device'' [pdev];
       if fail \<noteq> 0 then ret (m, hw)
       else do {
         (retval, hw) \<leftarrow> mx_get_PCI_conf board_type hw;
         if retval < 0 then ret (m, hw)
         else do {
           mx_getcfg m hw;
           rc \<leftarrow> mxupcie_initbrd v2616a m hw;
           ret (if rc < 0 then m else m + 1, hw) } } } }"

fun mx_pci_scan :: "bool \<Rightarrow> nat \<Rightarrow> (int \<times> int) list \<Rightarrow> int \<Rightarrow> nat \<Rightarrow> mxupcie_hwconf
    \<Rightarrow> (nat \<times> mxupcie_hwconf) option udrv_m" where
  "mx_pci_scan v2616a fuel [] pdev m hw = ret (Some (m, hw))"
| "mx_pci_scan v2616a 0 (brd # brds) pdev m hw = ret None"
| "mx_pci_scan v2616a (Suc fuel) ((device, board_type) # brds) pdev m hw = do {
     pdev \<leftarrow> kcall ''pci_get_device'' [PCI_VENDOR_ID_MOXA, device, pdev];
     if pdev = 0 then mx_pci_scan v2616a fuel brds pdev m hw
     else do {
       (m, hw) \<leftarrow> mx_pci_board v2616a pdev board_type m hw;
       mx_pci_scan v2616a fuel ((device, board_type) # brds) pdev m hw } }"

declare mx_pci_scan.simps [simp del]

definition clear_uport :: "mxuport \<Rightarrow> mxuport" where
  "clear_uport s = mxport.extend (clear_port (mxport.truncate s)) (mxport.more
     (s\<lparr>u_iobar3_addr := 0, u_UIR := 0, u_UIR_addr := 0, u_terminator_flag := 0, u_board_type := 0\<rparr>))"

definition empty_uhwconf :: mxupcie_hwconf where
  "empty_uhwconf = \<lparr>uh_board_type = 0, uh_ports = 0, uh_irq = 0, uh_iobar3_addr = 0, uh_vector_mask = 0,
     uh_uart_type = 0, uh_ioaddr = replicate 8 0, uh_baud_base = replicate 8 0, uh_busNum = 0,
     uh_devNum = 0, uh_pdev = 0, uh_IsMoxaMustChipFlag = 0, uh_MaxCanSetBaudRate = replicate 8 0,
     uh_opmode_ioaddr = replicate 8 0\<rparr>"

fun each_uboard :: "(nat \<Rightarrow> mxupcie_hwconf \<Rightarrow> ('x, unit) io_m) \<Rightarrow> nat \<Rightarrow> mxupcie_hwconf list \<Rightarrow> ('x, unit) io_m" where
  "each_uboard f i [] = ret ()"
| "each_uboard f i (h # hs) = do {
     whenM (uh_board_type h \<noteq> -1) (f i h);
     each_uboard f (i + 1) hs }"

definition free_uboard_irq :: "nat \<Rightarrow> mxupcie_hwconf \<Rightarrow> ('x, unit) io_m" where
  "free_uboard_irq i h = knote ''free_irq'' [uh_irq h, int (i * MXUPCIE_PORTS_PER_BOARD)]"

text \<open>\<open>None\<close>: the fuel did not reach the end of the bus.\<close>

definition mx_init :: "bool \<Rightarrow> nat \<Rightarrow> int option udrv_m" where
  "mx_init v2616a fuel = do {
     drv \<leftarrow> kcall ''alloc_tty_driver'' [MXUPCIE_PORTS + 1];
     if drv = 0 then ret (Some (-ENOMEM))
     else do {
       modify (\<lambda>d. d\<lparr>ud_cfg := map (\<lambda>h. h\<lparr>uh_board_type := -1\<rparr>) (ud_cfg d),
         ud_ports := map clear_uport (ud_ports d)\<rparr>);
       pci \<leftarrow> mx_pci_scan v2616a fuel mxupcie_pcibrds 0 0 empty_uhwconf;
       case pci of
         None \<Rightarrow> ret None
       | Some _ \<Rightarrow> do {
           link_ports;
           ret1 \<leftarrow> kcall ''tty_register_driver'' [];
           if ret1 = 0 then ret (Some 0)
           else do {
             cfg \<leftarrow> gets ud_cfg;
             each_uboard free_uboard_irq 0 cfg;
             ret (Some (-1)) } } } }"

definition mx_release_board :: "nat \<Rightarrow> mxupcie_hwconf \<Rightarrow> ('x, unit) io_m" where
  "mx_release_board i h = do {
     free_uboard_irq i h;
     whenM (uh_pdev h \<noteq> 0) (do {
       knote ''iounmap'' [int (uh_ioaddr h ! 1)];
       a1 \<leftarrow> kcall ''pci_resource_start'' [uh_pdev h, 1];
       l1 \<leftarrow> kcall ''pci_resource_len'' [uh_pdev h, 1];
       knote ''release_mem_region'' [a1, l1];
       a2 \<leftarrow> kcall ''pci_resource_start'' [uh_pdev h, 2];
       l2 \<leftarrow> kcall ''pci_resource_len'' [uh_pdev h, 2];
       knote ''release_region'' [a2, l2] }) }"

definition mxupcie_module_exit :: "unit udrv_m" where
  "mxupcie_module_exit = do {
     knote ''tty_unregister_driver'' [];
     knote_each ''tty_unregister_device'' 0 33;
     cfg \<leftarrow> gets ud_cfg;
     each_uboard mx_release_board 0 cfg }"

section \<open>The interface of one port\<close>

text \<open>The interface a port is switched to, read from the register it shares.\<close>

definition uir_of :: "(port \<Rightarrow> u8) \<Rightarrow> mxuport \<Rightarrow> io_event list \<Rightarrow> u8" where
  "uir_of d p h = (let w = last_out d h (u_UIR_addr p) in
     if i_port p mod 2 \<noteq> 0 then drop_bit 4 w else w AND 0x0F)"

definition uport_of :: "mxupcie_hwconf \<Rightarrow> nat \<Rightarrow> nat \<Rightarrow> mxuport \<Rightarrow> bool" where
  "uport_of hw n i p \<longleftrightarrow> i_port p = n + i \<and> u_board_type p = uh_board_type hw \<and>
     u_UIR_addr p = uh_iobar3_addr hw + 4 + uir_offset (uh_board_type hw) i"

lemma uir_slots_distinct:
  assumes "1 \<le> bt" "bt \<le> 7" "i < nat (mxupcie_numports ! nat (bt - 1))" "j < nat (mxupcie_numports ! nat (bt - 1))"
    "uir_offset bt i = uir_offset bt j" "i mod 2 = j mod 2"
  shows "i = j"
proof -
  have "bt \<in> {1, 2, 3, 4, 5, 6, 7}" using assms(1,2) by auto
  then have four: "i < 4 \<and> j < 4" if "bt = 4 \<or> bt = 5"
    using assms(3,4) that by (auto simp: mxupcie_numports_def)
  have half: "i = j" if "i div 2 = j div 2"
    using assms(6) that by (metis div_mult_mod_eq)
  consider "bt = 4 \<or> bt = 5" "i = 3" | "bt = 4 \<or> bt = 5" "j = 3" | "i div 2 = j div 2"
    using assms(5) by (auto simp: uir_offset_def split: if_splits)
  then show ?thesis
  proof cases
    case 1
    then have "uir_offset bt j = 3" using assms(5) by (simp add: uir_offset_def)
    then show ?thesis using 1 four [OF 1(1)] by (cases "j = 3") (auto simp: uir_offset_def)
  next
    case 2
    then have "uir_offset bt i = 3" using assms(5) by (simp add: uir_offset_def)
    then show ?thesis using 2 four [OF 2(1)] by (cases "i = 3") (auto simp: uir_offset_def)
  next
    case 3
    then show ?thesis by (rule half)
  qed
qed

lemma half_masks: "(0x0F :: u8) = mask 4" "(0xF0 :: u8) = push_bit 4 (mask 4)"
  by (simp_all add: mask_eq_exp_minus_1)

lemma bit_halves:
  "bit ((w :: u8) AND 0x0F) n \<longleftrightarrow> bit w n \<and> n < 4" "bit (w AND 0xF0) n \<longleftrightarrow> bit w n \<and> 4 \<le> n"
  by (auto simp: half_masks bit_simps dest: bit_imp_le_length)

lemma nibble_halves:
  fixes w v :: u8
  assumes "v AND 0x0F = v"
  shows "drop_bit 4 (w AND 0x0F OR push_bit 4 v) = v" "(w AND 0x0F OR push_bit 4 v) AND 0x0F = w AND 0x0F"
    "(w AND 0xF0 OR v) AND 0x0F = v" "drop_bit 4 (w AND 0xF0 OR v) = drop_bit 4 w"
proof -
  have v: "bit v n \<longleftrightarrow> bit v n \<and> n < 4" for n
    using arg_cong [OF assms, of "\<lambda>w. bit w n"] by (simp add: bit_halves)
  show "drop_bit 4 (w AND 0x0F OR push_bit 4 v) = v"
    by (rule bit_eqI) (auto simp: bit_drop_bit_eq bit_or_iff bit_halves bit_push_bit_iff possible_bit_def dest: v [THEN iffD1])
  show "(w AND 0x0F OR push_bit 4 v) AND 0x0F = w AND 0x0F"
    by (rule bit_eqI) (auto simp: bit_or_iff bit_halves bit_push_bit_iff)
  show "(w AND 0xF0 OR v) AND 0x0F = v"
    by (rule bit_eqI) (auto simp: bit_or_iff bit_halves dest: v [THEN iffD1])
  show "drop_bit 4 (w AND 0xF0 OR v) = drop_bit 4 w"
    by (rule bit_eqI) (auto simp: bit_drop_bit_eq bit_or_iff bit_halves dest: v [THEN iffD1] bit_imp_le_length)
qed

lemma set_interface_run:
  assumes "val \<in> set interfaces" "\<not> fixed_interface v (u_board_type s) val"
    "\<forall>h. env_b (ienv s) h (u_UIR_addr s) = last_out d h (u_UIR_addr s)"
  shows "\<exists>w. run_state (mx_set_interface v val) s = (0, s\<lparr>u_UIR := val,
      ihist := Out_b w (u_UIR_addr s) # In_b (u_UIR_addr s) (last_out d (ihist s) (u_UIR_addr s)) # ihist s\<rparr>) \<and>
    (if i_port s mod 2 \<noteq> 0
     then drop_bit 4 w = val \<and> w AND 0x0F = last_out d (ihist s) (u_UIR_addr s) AND 0x0F
     else w AND 0x0F = val \<and> drop_bit 4 w = drop_bit 4 (last_out d (ihist s) (u_UIR_addr s)))"
proof -
  have "val AND 0x0F = val"
    using assms(1) by (auto simp: interfaces_def)
  note halves = nibble_halves [OF this, of "last_out d (ihist s) (u_UIR_addr s)"]
  show ?thesis
    using assms halves by (cases "i_port s mod 2 \<noteq> 0") (auto simp: mx_set_interface_def)
qed

lemma set_interface_uir:
  assumes "val \<in> set interfaces" "\<not> fixed_interface v (u_board_type s) val"
    "\<forall>h. env_b (ienv s) h (u_UIR_addr s) = last_out d h (u_UIR_addr s)"
    and "run_state (mx_set_interface v val) s = (r, t)"
  shows "r = 0" "uir_of d s (ihist t) = val"
    "u_UIR_addr q \<noteq> u_UIR_addr s \<or> i_port q mod 2 \<noteq> i_port s mod 2 \<Longrightarrow> uir_of d q (ihist t) = uir_of d q (ihist s)"
proof -
  obtain w where w: "run_state (mx_set_interface v val) s = (0, s\<lparr>u_UIR := val,
      ihist := Out_b w (u_UIR_addr s) # In_b (u_UIR_addr s) (last_out d (ihist s) (u_UIR_addr s)) # ihist s\<rparr>)"
    "if i_port s mod 2 \<noteq> 0
     then drop_bit 4 w = val \<and> w AND 0x0F = last_out d (ihist s) (u_UIR_addr s) AND 0x0F
     else w AND 0x0F = val \<and> drop_bit 4 w = drop_bit 4 (last_out d (ihist s) (u_UIR_addr s))"
    using set_interface_run [OF assms(1-3)] by blast
  show "r = 0" using w(1) assms(4) by simp
  show "uir_of d s (ihist t) = val"
    using w assms(4) by (auto simp: uir_of_def split: if_splits)
  show "uir_of d q (ihist t) = uir_of d q (ihist s)"
    if "u_UIR_addr q \<noteq> u_UIR_addr s \<or> i_port q mod 2 \<noteq> i_port s mod 2"
    using w assms(4) that by (auto simp: uir_of_def split: if_splits)
qed

section \<open>The ports of a board\<close>

lemma run_on_uport [simp]: "run_state (on_uport n x m) d =
  (if n < length (ud_ports d) then
     (let (r, p) = run_state m ((ud_ports d ! n)\<lparr>ienv := ienv d, ihist := ihist d\<rparr>)
      in (r, d\<lparr>ihist := ihist p, ud_ports := (ud_ports d)[n := p]\<rparr>))
   else (x, d\<lparr>ihist := Undefined ''mxvar_table index'' # ihist d\<rparr>))"
  by (simp add: on_uport_def)

lemma uport_of_frame [simp]:
  "uport_of hw n i (p\<lparr>u_UIR := u\<rparr>) = uport_of hw n i p" "uport_of hw n i (p\<lparr>ihist := h\<rparr>) = uport_of hw n i p"
  "uport_of hw n i (p\<lparr>ienv := e\<rparr>) = uport_of hw n i p"
  by (simp_all add: uport_of_def)

lemma set_interface_uport: "uport_of hw n i (snd (run_state (mx_set_interface v val) p)) = uport_of hw n i p"
  by (simp add: mx_set_interface_def uport_of_def)

lemma init_port_uport: "uport_of hw n i (snd (run_state (mx_init_port hw tm (n + i) i) p))"
  by (simp add: mx_init_port_def mx_init_terminator_def uport_of_def)

lemma init_ports_step:
  fixes d :: mxudrv
  assumes "n + i < length (ud_ports d)"
  obtains d' where "run_state (mx_init_ports v hw n i (Suc k)) d = run_state (mx_init_ports v hw n (Suc i) k) d'"
    "length (ud_ports d') = length (ud_ports d)" "ienv d' = ienv d" "uport_of hw n i (ud_ports d' ! (n + i))"
    "\<And>m. m \<noteq> n + i \<Longrightarrow> ud_ports d' ! m = ud_ports d ! m"
proof -
  define tm where "tm = (ud_std_termios d)\<lparr>c_cflag := 0xCBD\<rparr>"
  define d1 where "d1 = snd (run_state (on_uport (n + i) () (mx_init_port hw tm (n + i) i)) d)"
  define d2 where "d2 = (if ud_interface d1 = 0
       then d1\<lparr>ud_interface := (if uh_board_type hw = MXUPCIE_BOARD_CP132EL then MOXA_UIR_RS485_2W else MOXA_UIR_RS232)\<rparr>
       else d1)"
  define d3 where "d3 = snd (run_state (on_uport (n + i) () (do { _ \<leftarrow> mx_set_interface v (ud_interface d2); ret () })) d2)"
  have run: "run_state (mx_init_ports v hw n i (Suc k)) d = run_state (mx_init_ports v hw n (Suc i) k) d3"
    by (simp add: case_prod_beta d1_def d2_def d3_def tm_def del: run_on_uport)
  have d1: "length (ud_ports d1) = length (ud_ports d)" "ienv d1 = ienv d"
      "uport_of hw n i (ud_ports d1 ! (n + i))" "\<And>m. m \<noteq> n + i \<Longrightarrow> ud_ports d1 ! m = ud_ports d ! m"
    using assms by (simp_all add: d1_def case_prod_beta init_port_uport)
  have d2: "ud_ports d2 = ud_ports d1" "ienv d2 = ienv d1"
    by (simp_all add: d2_def)
  have "length (ud_ports d3) = length (ud_ports d)" "ienv d3 = ienv d" "uport_of hw n i (ud_ports d3 ! (n + i))"
      "\<And>m. m \<noteq> n + i \<Longrightarrow> ud_ports d3 ! m = ud_ports d ! m"
    using assms d1 by (simp_all add: d3_def d2 case_prod_beta set_interface_uport)
  then show ?thesis using run by (rule that [rotated])
qed

declare mx_init_ports.simps(2) [simp del]

lemma init_ports_configures:
  assumes "n + i + k \<le> length (ud_ports d)"
  shows "length (ud_ports (snd (run_state (mx_init_ports v hw n i k) d))) = length (ud_ports d) \<and>
     ienv (snd (run_state (mx_init_ports v hw n i k) d)) = ienv d \<and>
     (\<forall>j. i \<le> j \<and> j < i + k \<longrightarrow> uport_of hw n j (ud_ports (snd (run_state (mx_init_ports v hw n i k) d)) ! (n + j))) \<and>
     (\<forall>m. m < n + i \<or> n + i + k \<le> m \<longrightarrow> ud_ports (snd (run_state (mx_init_ports v hw n i k) d)) ! m = ud_ports d ! m)"
  using assms
proof (induction k arbitrary: i d)
  case (Suc k)
  obtain d' where d': "run_state (mx_init_ports v hw n i (Suc k)) d = run_state (mx_init_ports v hw n (Suc i) k) d'"
    "length (ud_ports d') = length (ud_ports d)" "ienv d' = ienv d" "uport_of hw n i (ud_ports d' ! (n + i))"
    "\<And>m. m \<noteq> n + i \<Longrightarrow> ud_ports d' ! m = ud_ports d ! m"
    using init_ports_step [of n i d v hw k] Suc.prems by auto
  note IH = Suc.IH [of "Suc i" d', folded d'(1)]
  have le: "n + Suc i + k \<le> length (ud_ports d')" using Suc.prems d'(2) by simp
  let ?e = "snd (run_state (mx_init_ports v hw n i (Suc k)) d)"
  have at_i: "ud_ports ?e ! (n + i) = ud_ports d' ! (n + i)"
    using IH [OF le] by simp
  have "uport_of hw n j (ud_ports ?e ! (n + j))" if "i \<le> j \<and> j < i + Suc k" for j
    using IH [OF le] that at_i d'(4) by (cases "j = i") auto
  moreover have "ud_ports ?e ! m = ud_ports d ! m" if "m < n + i \<or> n + i + Suc k \<le> m" for m
    using IH [OF le] that d'(5) [of m] by auto
  moreover have "length (ud_ports ?e) = length (ud_ports d)" "ienv ?e = ienv d"
    using IH [OF le] d'(2,3) by simp_all
  ultimately show ?case
    by (intro conjI allI impI)
qed auto

lemma mask_irqs_frame: "\<exists>h. snd (run_state (mask_irqs ps) s) = s\<lparr>ihist := h @ ihist s\<rparr>"
  using loops_only_io(4) [of ps] unfolding only_io_def by blast

lemma initbrd_ports:
  assumes "brd * 8 + uh_ports hw \<le> length (ud_ports d)"
  shows "length (ud_ports (snd (run_state (mxupcie_initbrd v brd hw) d))) = length (ud_ports d)"
    "ienv (snd (run_state (mxupcie_initbrd v brd hw) d)) = ienv d"
    "j < uh_ports hw \<Longrightarrow> uport_of hw (brd * 8) j (ud_ports (snd (run_state (mxupcie_initbrd v brd hw) d)) ! (brd * 8 + j))"
proof -
  define d1 where "d1 = snd (run_state (mx_init_ports v hw (brd * 8) 0 (uh_ports hw)) d)"
  obtain h where h: "snd (run_state (mask_irqs (take (uh_ports hw) (uh_ioaddr hw))) d1) = d1\<lparr>ihist := h @ ihist d1\<rparr>"
    using mask_irqs_frame by blast
  have "snd (run_state (mxupcie_initbrd v brd hw) d) = d1\<lparr>ihist := ihist (snd (run_state (mxupcie_initbrd v brd hw) d))\<rparr>"
    by (simp add: mxupcie_initbrd_def case_prod_beta d1_def [symmetric] h)
  then obtain h' where e: "snd (run_state (mxupcie_initbrd v brd hw) d) = d1\<lparr>ihist := h'\<rparr>" by blast
  note c = init_ports_configures [of "brd * 8" 0 "uh_ports hw" d v hw, folded d1_def]
  show "length (ud_ports (snd (run_state (mxupcie_initbrd v brd hw) d))) = length (ud_ports d)"
    "ienv (snd (run_state (mxupcie_initbrd v brd hw) d)) = ienv d"
    "j < uh_ports hw \<Longrightarrow> uport_of hw (brd * 8) j (ud_ports (snd (run_state (mxupcie_initbrd v brd hw) d)) ! (brd * 8 + j))"
    unfolding e using c assms by simp_all
qed

text \<open>
  C15. After a board was initialised, switching the interface of one of its ports (to a mode the
  board accepts) sets the field of that port in the register it shares to the mode and leaves
  the field of every other port of the board.
\<close>

theorem interface_isolated:
  assumes "brd < 4" "length (ud_ports d) = 32" "1 \<le> uh_board_type hw" "uh_board_type hw \<le> 7"
    and "uh_ports hw = nat (mxupcie_numports ! nat (uh_board_type hw - 1))"
    and "\<forall>k < 4. latches d0 (uh_iobar3_addr hw + 4 + k) (ienv d)"
    and "i < uh_ports hw" "val \<in> set interfaces" "\<not> fixed_interface v (uh_board_type hw) val"
  shows "let d1 = snd (run_state (mxupcie_initbrd v brd hw) d);
      (r, d2) = run_state (on_uport (brd * 8 + i) (- 1) (mx_set_interface v val)) d1
    in r = 0 \<and> (\<forall>j < uh_ports hw. uir_of d0 (ud_ports d1 ! (brd * 8 + j)) (ihist d2)
        = (if j = i then val else uir_of d0 (ud_ports d1 ! (brd * 8 + j)) (ihist d1)))"
proof -
  let ?bt = "uh_board_type hw"
  define d1 where "d1 = snd (run_state (mxupcie_initbrd v brd hw) d)"
  have "?bt \<in> {1, 2, 3, 4, 5, 6, 7}" using assms(3,4) by auto
  then have "uh_ports hw \<le> 8"
    using assms(5) by (auto simp: mxupcie_numports_def)
  then have len: "brd * 8 + uh_ports hw \<le> length (ud_ports d)"
    using assms(1,2) by simp
  note ports = initbrd_ports [where v = v, OF len, folded d1_def]
  let ?p = "\<lambda>j. ud_ports d1 ! (brd * 8 + j)"
  define s where "s = (?p i)\<lparr>ienv := ienv d1, ihist := ihist d1\<rparr>"
  obtain r t where rt: "run_state (mx_set_interface v val) s = (r, t)"
    by (cases "run_state (mx_set_interface v val) s")
  have s: "uport_of hw (brd * 8) i s" using ports(3) [OF assms(7)] by (simp add: s_def)
  have "uir_offset ?bt i < 4"
    using assms(7) \<open>uh_ports hw \<le> 8\<close> by (auto simp: uir_offset_def)
  then have lat: "\<forall>h. env_b (ienv s) h (u_UIR_addr s) = last_out d0 h (u_UIR_addr s)"
    using assms(6) s ports(2) by (simp add: latches_def uport_of_def s_def)
  have fx: "\<not> fixed_interface v (u_board_type s) val"
    using assms(9) s by (simp add: uport_of_def)
  note eff = set_interface_uir [OF assms(8) fx lat rt]
  have other: "uir_of d0 (?p j) (ihist t) = uir_of d0 (?p j) (ihist d1)" if j: "j < uh_ports hw" "j \<noteq> i" for j
  proof -
    have "uir_offset ?bt j \<noteq> uir_offset ?bt i \<or> j mod 2 \<noteq> i mod 2"
      using uir_slots_distinct [OF assms(3,4), of j i] j assms(5,7) by auto
    moreover have "(brd * 8 + k) mod 2 = k mod 2" for k by presburger
    ultimately have "u_UIR_addr (?p j) \<noteq> u_UIR_addr s \<or> i_port (?p j) mod 2 \<noteq> i_port s mod 2"
      using ports(3) [OF j(1)] s by (simp add: uport_of_def)
    from eff(3) [OF this] show ?thesis by (simp add: s_def)
  qed
  have own: "uir_of d0 (?p i) (ihist t) = val"
    using eff(2) by (simp add: s_def uir_of_def)
  have run: "run_state (on_uport (brd * 8 + i) (- 1) (mx_set_interface v val)) d1
      = (r, d1\<lparr>ihist := ihist t, ud_ports := (ud_ports d1)[brd * 8 + i := t]\<rparr>)"
    using len assms(7) ports(1) rt by (simp add: s_def)
  show ?thesis
    unfolding d1_def [symmetric] Let_def run prod.case using eff(1) own other by simp
qed

definition udrv_example :: mxudrv where
  "udrv_example = \<lparr>ienv = latch_env (\<lambda>_. 0), ihist = [],
     ud_ports = replicate 32 (mxport.extend port_example (mxuport.fields 0 0 0 0 0)),
     ud_cfg = replicate 4 empty_uhwconf, ud_interface = 0, ud_ttymajor = 31, ud_calloutmajor = 34,
     ud_std_termios = \<lparr>c_iflag = 0, c_cflag = 0, c_start = 17, c_stop = 19\<rparr>, ud_GMStatus = []\<rparr>"

definition cp114el :: mxupcie_hwconf where
  "cp114el = empty_uhwconf\<lparr>uh_board_type := 4, uh_ports := 4, uh_iobar3_addr := 0xC000\<rparr>"

theorem interface_isolated_witness:
  "let d1 = snd (run_state (mxupcie_initbrd False 1 cp114el) udrv_example);
      (r, d2) = run_state (on_uport 11 (- 1) (mx_set_interface False MOXA_UIR_RS485_4W)) d1
    in r = 0 \<and> uir_of (\<lambda>_. 0) (ud_ports d1 ! 11) (ihist d2) = MOXA_UIR_RS485_4W \<and>
       uir_of (\<lambda>_. 0) (ud_ports d1 ! 10) (ihist d2) = uir_of (\<lambda>_. 0) (ud_ports d1 ! 10) (ihist d1)"
proof -
  have hw: "uh_board_type cp114el = 4" "uh_ports cp114el = 4" "length (ud_ports udrv_example) = 32"
      "\<forall>k < 4. latches (\<lambda>_. 0) (uh_iobar3_addr cp114el + 4 + k) (ienv udrv_example)"
    by (simp_all add: cp114el_def udrv_example_def latches_def latch_env_def)
  define d1 where "d1 = snd (run_state (mxupcie_initbrd False 1 cp114el) udrv_example)"
  obtain r d2 where run: "run_state (on_uport 11 (- 1) (mx_set_interface False MOXA_UIR_RS485_4W)) d1 = (r, d2)"
    by (cases "run_state (on_uport 11 (- 1) (mx_set_interface False MOXA_UIR_RS485_4W)) d1")
  have eff: "r = 0" "\<forall>j < uh_ports cp114el. uir_of (\<lambda>_. 0) (ud_ports d1 ! (1 * 8 + j)) (ihist d2)
        = (if j = 3 then MOXA_UIR_RS485_4W else uir_of (\<lambda>_. 0) (ud_ports d1 ! (1 * 8 + j)) (ihist d1))"
    using interface_isolated [of 1 udrv_example cp114el "\<lambda>_. 0" 3 MOXA_UIR_RS485_4W False] hw run
    by (simp_all add: Let_def d1_def interfaces_def fixed_interface_def mxupcie_numports_def del: run_on_uport)
  have "uir_of (\<lambda>_. 0) (ud_ports d1 ! 11) (ihist d2) = MOXA_UIR_RS485_4W"
      "uir_of (\<lambda>_. 0) (ud_ports d1 ! 10) (ihist d2) = uir_of (\<lambda>_. 0) (ud_ports d1 ! 10) (ihist d1)"
    using spec [OF eff(2), of 3] spec [OF eff(2), of 2] hw(2) by simp_all
  then show ?thesis
    unfolding Let_def d1_def [symmetric] run prod.case using eff(1) by simp
qed

text \<open>
  The terminator of a port on any but the first board: the line number exceeds the register,
  the byte written is the byte read, and the request still reports success.
\<close>

lemma terminator_beyond_first_board:
  assumes "u_UIR s \<noteq> 0" "val = 0 \<or> val = 1" "term_line (u_board_type s) (i_port s) = Some n" "8 \<le> n"
  shows "run_state (mx_set_terminator val) s = (0, s\<lparr>u_terminator_flag := val,
     ihist := Out_b (env_b (ienv s) (ihist s) (u_iobar3_addr s + 8)) (u_iobar3_addr s + 10) #
       Out_b 0xff (u_iobar3_addr s + 9) #
       In_b (u_iobar3_addr s + 8) (env_b (ienv s) (ihist s) (u_iobar3_addr s + 8)) # ihist s\<rparr>)"
proof -
  have push: "push_bit n w = 0" for w :: u8
    using assms(4) by (simp add: bit_eq_iff bit_simps)
  then show ?thesis
    using assms(1-3) push [of 1] by (auto simp: mx_set_terminator_def simp del: push_bit_of_1)
qed

end
