(* ===== verification/Mxu_Port.thy ===== *)
theory Mxu_Port
  imports Mxu_Board
begin

text \<open>
  The data transfer of the serial driver for PCI Express boards, \<open>modules/mxser/mxupcie.c\<close>: writing,
  the transmit and receive bursts, modem status and the interrupt handler.

  The chip maps its FIFOs as memory windows of 256 bytes at offset \<open>0x100\<close>.  A burst is a copy
  between a window and the ring buffer or the tty layer; it is modelled byte by byte, at ascending
  addresses.  \<open>u_tx_stream\<close> shows that the bytes that reach the window are the bytes accepted,
  in order; \<open>u_transmit_exact\<close> how many an interrupt moves; \<open>u_receive_burst\<close> that reception hands
  on what it read and no more than there is room for.
\<close>

section \<open>Filling the ring\<close>

definition mxupcie_write :: "u8 list \<Rightarrow> int mxu_m" where
  "mxupcie_write buf = do {
     hb \<leftarrow> gets i_has_buf;
     if \<not> hb then ret 0
     else do {
       tot \<leftarrow> up (State (mxser_write_loop buf 0));
       s \<leftarrow> gets id;
       whenM (i_xmit_cnt s \<noteq> 0 \<and> \<not> t_stopped (i_t s)) (up kick_thri);
       ret tot } }"

definition mxupcie_put_char :: "u8 \<Rightarrow> int mxu_m" where
  "mxupcie_put_char ch = do {
     s \<leftarrow> gets id;
     if \<not> i_has_buf s then ret 0
     else if i_xmit_cnt s \<ge> SERIAL_XMIT_SIZE - 1 then ret 0
     else do {
       up (put_ring ch);
       s \<leftarrow> gets id;
       whenM (\<not> t_stopped (i_t s) \<and> \<not> t_hw_stopped (i_t s)) (up kick_thri);
       ret 1 } }"

definition mxupcie_flush_chars :: "unit mxu_m" where
  "mxupcie_flush_chars = do {
     s \<leftarrow> gets id;
     if i_xmit_cnt s \<le> 0 \<or> t_stopped (i_t s) \<or> \<not> i_has_buf s then ret ()
     else up kick_thri }"

definition mxupcie_write_room :: "int mxu_m" where
  "mxupcie_write_room = up mxser_write_room"

definition mxupcie_chars_in_buffer :: "int mxu_m" where
  "mxupcie_chars_in_buffer = do {
     len \<leftarrow> gets i_xmit_cnt;
     t_cnt \<leftarrow> reg_in MOXA_PUART_TCNT;
     ret (if t_cnt \<noteq> 0 then len + uint t_cnt else len) }"

definition mxupcie_flush_buffer :: "unit mxu_m" where
  "mxupcie_flush_buffer = up mxser_flush_buffer"

definition mxupcie_stop :: "unit mxu_m" where
  "mxupcie_stop = up mxser_stop"

definition mxupcie_start :: "unit mxu_m" where
  "mxupcie_start = up mxser_start"

section \<open>Bursts\<close>

text \<open>\<open>memcpy\<close> to and from the window; a negative length is outside of C.\<close>

fun mem_out :: "port \<Rightarrow> u8 list \<Rightarrow> unit mxu_m" where
  "mem_out off [] = ret ()"
| "mem_out off (b # bs) = do { reg_out b off; mem_out (off + 1) bs }"

fun mem_in :: "port \<Rightarrow> nat \<Rightarrow> u8 list mxu_m" where
  "mem_in off 0 = ret []"
| "mem_in off (Suc n) = do { b \<leftarrow> reg_in off; bs \<leftarrow> mem_in (off + 1) n; ret (b # bs) }"

definition ring_bytes :: "mxuport \<Rightarrow> int \<Rightarrow> u8 list" where
  "ring_bytes s cnt = map (\<lambda>k. i_xmit_buf s (i_xmit_tail s + int k)) [0..<nat cnt]"

definition mx_transmit_chars :: "unit mxu_m" where
  "mx_transmit_chars = do {
     s \<leftarrow> gets id;
     if \<not> i_has_buf s then ret ()
     else if i_xmit_cnt s = 0 then up signal_txlow
     else do {
       up deref_tty;
       if t_stopped (i_t s) then up stop_thri
       else do {
         tcnt \<leftarrow> reg_in MOXA_PUART_TCNT;
         let tx_cnt = MX_TX_FIFO_SIZE - uint tcnt;
         let cnt = min (i_xmit_cnt s) (min tx_cnt (SERIAL_XMIT_SIZE - i_xmit_tail s));
         whenM (cnt \<noteq> 0) (do {
           (if cnt < 0 then undefined_c ''memcpy of a negative length''
            else mem_out MOXA_PUART_MEMTHR (ring_bytes s cnt));
           modify (\<lambda>s. s\<lparr>i_xmit_tail := (i_xmit_tail s + cnt) AND (SERIAL_XMIT_SIZE - 1),
             i_xmit_cnt := i_xmit_cnt s - cnt\<rparr>) });
         up (count_tx cnt);
         up signal_txlow } } }"

section \<open>Receiving\<close>

text \<open>
  The character-at-a-time loop: as in the older driver the variable \<open>max\<close> admits 257 passes; no
  character is left out.
\<close>

fun u_rx_old :: "nat \<Rightarrow> u32 \<Rightarrow> int \<Rightarrow> (u32 \<times> int) mxu_m" where
  "u_rx_old 0 status cnt = ret (status, cnt)"
| "u_rx_old (Suc n) status cnt = do {
     ch \<leftarrow> reg_in UART_RX;
     up (do { fl \<leftarrow> rx_flag status; tty_insert_flip_char ch fl });
     lsr \<leftarrow> reg_in UART_LSR;
     if ucast lsr AND UART_LSR_DR \<noteq> 0 then u_rx_old n (ucast lsr) (cnt + 1)
     else ret (ucast lsr, cnt + 1) }"

definition clamp_room :: "u8 \<Rightarrow> int \<Rightarrow> u8" where
  "clamp_room gdl recv_room = (if uint gdl > recv_room then word_of_int recv_room else gdl)"

definition burst_copy :: "u8 \<Rightarrow> int mxu_m" where
  "burst_copy gdl =
    (if gdl \<noteq> 0 then do {
       bs \<leftarrow> mem_in MOXA_PUART_MEMRBR (unat gdl);
       knote ''tty_insert_flip_string'' (map uint bs);
       ret (uint gdl) }
     else ret 0)"

definition u_rx_burst :: "int mxu_m" where
  "u_rx_burst = do {
     recv_room \<leftarrow> kcall ''tty_buffer_request_room'' [MX_RX_FIFO_SIZE];
     if recv_room \<noteq> 0 then do {
       gdl \<leftarrow> reg_in MOXA_PUART_RCNT;
       burst_copy (clamp_room gdl recv_room) }
     else do {
       up (set_t (\<lambda>t. t\<lparr>t_flags := set_bit TTY_THROTTLED (t_flags t)\<rparr>));
       ret 0 } }"

definition mx_receive_chars :: "u32 \<Rightarrow> u32 mxu_m" where
  "mx_receive_chars status = do {
     (status, cnt) \<leftarrow> (if status AND UART_LSR_SPECIAL \<noteq> 0 then u_rx_old 257 status 0
       else do { n \<leftarrow> u_rx_burst; ret (status, n) });
     knote ''tty_flip_buffer_push'' [];
     up (count_rx cnt);
     ret status }"

section \<open>Modem status\<close>

definition u_cts_change :: "u32 \<Rightarrow> unit mxu_m" where
  "u_cts_change status = do {
     up deref_tty;
     s \<leftarrow> gets id;
     if t_hw_stopped (i_t s) then
       whenM (status AND UART_MSR_CTS \<noteq> 0) (up (do {
         set_t (\<lambda>t. t\<lparr>t_hw_stopped := False\<rparr>);
         set_event MXSER_EVENT_TXLOW;
         MXQ_TASK }))
     else whenM (status AND UART_MSR_CTS = 0) (up (set_t (\<lambda>t. t\<lparr>t_hw_stopped := True\<rparr>))) }"

definition mx_check_modem_status :: "u32 \<Rightarrow> unit mxu_m" where
  "mx_check_modem_status status = do {
     up (count_modem status);
     modify (\<lambda>s. s\<lparr>i_mon_data := (i_mon_data s)\<lparr>mon_modem_status := status\<rparr>\<rparr>);
     knote ''wake_up_interruptible(delta_msr_wait)'' [];
     up (carrier_change status);
     flags \<leftarrow> gets i_flags;
     whenM (flags AND ASYNC_CTS_FLOW \<noteq> 0) (u_cts_change status) }"

definition mx_do_softint :: "unit mxu_m" where
  "mx_do_softint = up mxser_do_softint"

section \<open>The interrupt handler\<close>

abbreviation "MOXA_IIR_NO_INT \<equiv> 0xC1 :: u8"
abbreviation "MOXA_IIR_RLSI \<equiv> 0xC6 :: u8"
abbreviation "MOXA_IIR_RDI \<equiv> 0x04 :: u8"
abbreviation "MOXA_IIR_THRI \<equiv> 0x02 :: u8"
abbreviation "MXUPCIE_ISR_PASS_LIMIT \<equiv> 99999 :: nat"

datatype isr_result = No_int | No_tty | Served

definition u_isr_pass :: "isr_result mxu_m" where
  "u_isr_pass = do {
     iir \<leftarrow> reg_in UART_IIR;
     if iir = MOXA_IIR_NO_INT then ret No_int
     else do {
       s \<leftarrow> gets id;
       if \<not> i_has_tty s then do {
         _ \<leftarrow> reg_in UART_LSR;
         reg_out 0x27 UART_FCR;
         _ \<leftarrow> reg_in UART_MSR;
         ret No_tty }
       else do {
         lsr \<leftarrow> reg_in UART_LSR;
         whenM (iir = MOXA_IIR_RLSI) (up (shadow_errors lsr));
         status \<leftarrow>
           (if iir AND MOXA_IIR_RDI \<noteq> 0 then do {
              let status = ucast lsr AND i_read_status_mask s;
              if status AND UART_LSR_DR \<noteq> 0 then mx_receive_chars status else ret status }
            else ret (ucast lsr));
         msr \<leftarrow> reg_in UART_MSR;
         whenM (ucast msr AND UART_MSR_ANY_DELTA \<noteq> 0) (mx_check_modem_status (ucast msr));
         whenM (iir AND MOXA_IIR_THRI \<noteq> 0 \<and> status AND UART_LSR_THRE \<noteq> 0) mx_transmit_chars;
         ret Served } } }"

text \<open>The result: whether the port ended with no interrupt pending, and whether any was handled.\<close>

fun u_isr_port :: "nat \<Rightarrow> bool \<Rightarrow> (bool \<times> bool) mxu_m" where
  "u_isr_port n handled = do {
     r \<leftarrow> u_isr_pass;
     (case r of
        No_int \<Rightarrow> ret (True, handled)
      | No_tty \<Rightarrow> ret (False, handled)
      | Served \<Rightarrow> (case n of 0 \<Rightarrow> ret (False, True) | Suc m \<Rightarrow> u_isr_port m True)) }"

declare u_isr_port.simps [simp del]

fun u_isr_scan :: "nat \<Rightarrow> nat \<Rightarrow> nat \<Rightarrow> nat \<Rightarrow> bool \<Rightarrow> (nat \<times> bool) udrv_m" where
  "u_isr_scan first i 0 vect_flag handled = ret (vect_flag, handled)"
| "u_isr_scan first i (Suc k) vect_flag handled = do {
     (quiet, handled) \<leftarrow> on_uport (first + i) (False, handled) (u_isr_port MXUPCIE_ISR_PASS_LIMIT handled);
     u_isr_scan first (i + 1) k (if quiet then vect_flag + 1 else vect_flag) handled }"

fun u_isr_board :: "nat \<Rightarrow> nat \<Rightarrow> nat \<Rightarrow> bool \<Rightarrow> bool udrv_m" where
  "u_isr_board passes first maxp handled = do {
     (vect_flag, handled) \<leftarrow> u_isr_scan first 0 maxp 0 handled;
     if vect_flag = maxp then ret handled
     else (case passes of 0 \<Rightarrow> ret handled | Suc p \<Rightarrow> u_isr_board p first maxp handled) }"

declare u_isr_board.simps [simp del]

definition mx_interrupt :: "nat \<Rightarrow> bool udrv_m" where
  "mx_interrupt dev_port = do {
     let board = dev_port div MXUPCIE_PORTS_PER_BOARD;
     if dev_port mod MXUPCIE_PORTS_PER_BOARD \<noteq> 0 \<or> board \<ge> MXUPCIE_BOARDS then ret False
     else do {
       cfg \<leftarrow> gets ud_cfg;
       let bt = uh_board_type (cfg ! board);
       if bt < 1 \<or> 7 < bt then do { undefined_c ''mxupcie_numports index''; ret False }
       else u_isr_board MXUPCIE_ISR_PASS_LIMIT dev_port (nat (mxupcie_numports ! nat (bt - 1))) False } }"

section \<open>The common fields\<close>

lemma truncate_sel [simp]:
  "ienv (mxport.truncate s) = ienv s"
  "ihist (mxport.truncate s) = ihist s"
  "i_port (mxport.truncate s) = i_port s"
  "i_base (mxport.truncate s) = i_base s"
  "i_irq (mxport.truncate s) = i_irq s"
  "i_flags (mxport.truncate s) = i_flags s"
  "i_type (mxport.truncate s) = i_type s"
  "i_has_tty (mxport.truncate s) = i_has_tty s"
  "i_t (mxport.truncate s) = i_t s"
  "i_xmit_fifo_size (mxport.truncate s) = i_xmit_fifo_size s"
  "i_x_char (mxport.truncate s) = i_x_char s"
  "i_IER (mxport.truncate s) = i_IER s"
  "i_MCR (mxport.truncate s) = i_MCR s"
  "i_event (mxport.truncate s) = i_event s"
  "i_count (mxport.truncate s) = i_count s"
  "i_blocked_open (mxport.truncate s) = i_blocked_open s"
  "i_has_buf (mxport.truncate s) = i_has_buf s"
  "i_xmit_buf (mxport.truncate s) = i_xmit_buf s"
  "i_xmit_head (mxport.truncate s) = i_xmit_head s"
  "i_xmit_tail (mxport.truncate s) = i_xmit_tail s"
  "i_xmit_cnt (mxport.truncate s) = i_xmit_cnt s"
  "i_normal_termios (mxport.truncate s) = i_normal_termios s"
  "i_icount (mxport.truncate s) = i_icount s"
  "i_timeout (mxport.truncate s) = i_timeout s"
  "i_mon_data (mxport.truncate s) = i_mon_data s"
  "i_err_shadow (mxport.truncate s) = i_err_shadow s"
  "i_speed (mxport.truncate s) = i_speed s"
  "g_txcnt (mxport.truncate s) = g_txcnt s"
  "g_rxcnt (mxport.truncate s) = g_rxcnt s"
  by (simp_all add: mxport.truncate_def)

lemma truncate_upd [simp]:
  "mxport.truncate (s\<lparr>ihist := w_ihist\<rparr>) = (mxport.truncate s)\<lparr>ihist := w_ihist\<rparr>"
  "mxport.truncate (s\<lparr>i_flags := w_i_flags\<rparr>) = (mxport.truncate s)\<lparr>i_flags := w_i_flags\<rparr>"
  "mxport.truncate (s\<lparr>i_t := w_i_t\<rparr>) = (mxport.truncate s)\<lparr>i_t := w_i_t\<rparr>"
  "mxport.truncate (s\<lparr>i_IER := w_i_IER\<rparr>) = (mxport.truncate s)\<lparr>i_IER := w_i_IER\<rparr>"
  "mxport.truncate (s\<lparr>i_MCR := w_i_MCR\<rparr>) = (mxport.truncate s)\<lparr>i_MCR := w_i_MCR\<rparr>"
  "mxport.truncate (s\<lparr>i_event := w_i_event\<rparr>) = (mxport.truncate s)\<lparr>i_event := w_i_event\<rparr>"
  "mxport.truncate (s\<lparr>i_count := w_i_count\<rparr>) = (mxport.truncate s)\<lparr>i_count := w_i_count\<rparr>"
  "mxport.truncate (s\<lparr>i_blocked_open := w_i_blocked_open\<rparr>) = (mxport.truncate s)\<lparr>i_blocked_open := w_i_blocked_open\<rparr>"
  "mxport.truncate (s\<lparr>i_has_buf := w_i_has_buf\<rparr>) = (mxport.truncate s)\<lparr>i_has_buf := w_i_has_buf\<rparr>"
  "mxport.truncate (s\<lparr>i_xmit_buf := w_i_xmit_buf\<rparr>) = (mxport.truncate s)\<lparr>i_xmit_buf := w_i_xmit_buf\<rparr>"
  "mxport.truncate (s\<lparr>i_xmit_head := w_i_xmit_head\<rparr>) = (mxport.truncate s)\<lparr>i_xmit_head := w_i_xmit_head\<rparr>"
  "mxport.truncate (s\<lparr>i_xmit_tail := w_i_xmit_tail\<rparr>) = (mxport.truncate s)\<lparr>i_xmit_tail := w_i_xmit_tail\<rparr>"
  "mxport.truncate (s\<lparr>i_xmit_cnt := w_i_xmit_cnt\<rparr>) = (mxport.truncate s)\<lparr>i_xmit_cnt := w_i_xmit_cnt\<rparr>"
  "mxport.truncate (s\<lparr>i_icount := w_i_icount\<rparr>) = (mxport.truncate s)\<lparr>i_icount := w_i_icount\<rparr>"
  "mxport.truncate (s\<lparr>i_mon_data := w_i_mon_data\<rparr>) = (mxport.truncate s)\<lparr>i_mon_data := w_i_mon_data\<rparr>"
  "mxport.truncate (s\<lparr>i_err_shadow := w_i_err_shadow\<rparr>) = (mxport.truncate s)\<lparr>i_err_shadow := w_i_err_shadow\<rparr>"
  "mxport.truncate (s\<lparr>g_txcnt := w_g_txcnt\<rparr>) = (mxport.truncate s)\<lparr>g_txcnt := w_g_txcnt\<rparr>"
  "mxport.truncate (s\<lparr>g_rxcnt := w_g_rxcnt\<rparr>) = (mxport.truncate s)\<lparr>g_rxcnt := w_g_rxcnt\<rparr>"
  by (simp_all add: mxport.truncate_def)

lemma extend_upd [simp]:
  "mxport.extend ((p :: mxport)\<lparr>ihist := v_ihist\<rparr>) r = (mxport.extend p r)\<lparr>ihist := v_ihist\<rparr>"
  "mxport.extend ((p :: mxport)\<lparr>i_flags := v_i_flags\<rparr>) r = (mxport.extend p r)\<lparr>i_flags := v_i_flags\<rparr>"
  "mxport.extend ((p :: mxport)\<lparr>i_t := v_i_t\<rparr>) r = (mxport.extend p r)\<lparr>i_t := v_i_t\<rparr>"
  "mxport.extend ((p :: mxport)\<lparr>i_IER := v_i_IER\<rparr>) r = (mxport.extend p r)\<lparr>i_IER := v_i_IER\<rparr>"
  "mxport.extend ((p :: mxport)\<lparr>i_MCR := v_i_MCR\<rparr>) r = (mxport.extend p r)\<lparr>i_MCR := v_i_MCR\<rparr>"
  "mxport.extend ((p :: mxport)\<lparr>i_event := v_i_event\<rparr>) r = (mxport.extend p r)\<lparr>i_event := v_i_event\<rparr>"
  "mxport.extend ((p :: mxport)\<lparr>i_count := v_i_count\<rparr>) r = (mxport.extend p r)\<lparr>i_count := v_i_count\<rparr>"
  "mxport.extend ((p :: mxport)\<lparr>i_blocked_open := v_i_blocked_open\<rparr>) r = (mxport.extend p r)\<lparr>i_blocked_open := v_i_blocked_open\<rparr>"
  "mxport.extend ((p :: mxport)\<lparr>i_has_buf := v_i_has_buf\<rparr>) r = (mxport.extend p r)\<lparr>i_has_buf := v_i_has_buf\<rparr>"
  "mxport.extend ((p :: mxport)\<lparr>i_xmit_buf := v_i_xmit_buf\<rparr>) r = (mxport.extend p r)\<lparr>i_xmit_buf := v_i_xmit_buf\<rparr>"
  "mxport.extend ((p :: mxport)\<lparr>i_xmit_head := v_i_xmit_head\<rparr>) r = (mxport.extend p r)\<lparr>i_xmit_head := v_i_xmit_head\<rparr>"
  "mxport.extend ((p :: mxport)\<lparr>i_xmit_tail := v_i_xmit_tail\<rparr>) r = (mxport.extend p r)\<lparr>i_xmit_tail := v_i_xmit_tail\<rparr>"
  "mxport.extend ((p :: mxport)\<lparr>i_xmit_cnt := v_i_xmit_cnt\<rparr>) r = (mxport.extend p r)\<lparr>i_xmit_cnt := v_i_xmit_cnt\<rparr>"
  "mxport.extend ((p :: mxport)\<lparr>i_icount := v_i_icount\<rparr>) r = (mxport.extend p r)\<lparr>i_icount := v_i_icount\<rparr>"
  "mxport.extend ((p :: mxport)\<lparr>i_mon_data := v_i_mon_data\<rparr>) r = (mxport.extend p r)\<lparr>i_mon_data := v_i_mon_data\<rparr>"
  "mxport.extend ((p :: mxport)\<lparr>i_err_shadow := v_i_err_shadow\<rparr>) r = (mxport.extend p r)\<lparr>i_err_shadow := v_i_err_shadow\<rparr>"
  "mxport.extend ((p :: mxport)\<lparr>g_txcnt := v_g_txcnt\<rparr>) r = (mxport.extend p r)\<lparr>g_txcnt := v_g_txcnt\<rparr>"
  "mxport.extend ((p :: mxport)\<lparr>g_rxcnt := v_g_rxcnt\<rparr>) r = (mxport.extend p r)\<lparr>g_rxcnt := v_g_rxcnt\<rparr>"
  by (simp_all add: mxport.extend_def)

lemma extend_truncate [simp]: "mxport.extend (mxport.truncate s) (mxport.more s) = s"
  by (simp add: mxport.extend_def mxport.truncate_def)

text \<open>The queue and the invariant of the ring, read from a port of this driver.\<close>

definition u_queue :: "mxuport \<Rightarrow> u8 list" where
  "u_queue s = tx_queue (mxport.truncate s)"

definition u_ring :: "mxuport \<Rightarrow> bool" where
  "u_ring s \<longleftrightarrow> ring_inv (mxport.truncate s)"

lemma u_queue_eq: "u_queue s = map (\<lambda>k. i_xmit_buf s ((i_xmit_tail s + int k) mod SERIAL_XMIT_SIZE))
     [0..<nat (i_xmit_cnt s)]"
  by (simp add: u_queue_def tx_queue_def)

lemma u_ring_eq: "u_ring s \<longleftrightarrow> 0 \<le> i_xmit_tail s \<and> i_xmit_tail s < SERIAL_XMIT_SIZE \<and>
     0 \<le> i_xmit_cnt s \<and> i_xmit_cnt s \<le> SERIAL_XMIT_SIZE - 1 \<and>
     i_xmit_head s = (i_xmit_tail s + i_xmit_cnt s) mod SERIAL_XMIT_SIZE"
  by (simp add: u_ring_def ring_inv_def)

section \<open>Bursts keep the order\<close>

text \<open>The bytes a history has put into the transmit window of a port.\<close>

definition u_wire :: "port \<Rightarrow> io_event list \<Rightarrow> u8 list" where
  "u_wire b h = map snd (filter (\<lambda>(p, v). b + 0x100 \<le> p \<and> p < b + 0x200) (outputs h))"

lemma u_wire_simps [simp]:
  "u_wire b [] = []"
  "u_wire b (Out_b v p # h) = u_wire b h @ (if b + 0x100 \<le> p \<and> p < b + 0x200 then [v] else [])"
  "u_wire b (In_b p v # h) = u_wire b h"
  "u_wire b (Kernel_call f as r # h) = u_wire b h"
  "u_wire b (To_user vs # h) = u_wire b h"
  "u_wire b (Undefined u # h) = u_wire b h"
  by (simp_all add: u_wire_def)

lemma run_mem_out: "run_state (mem_out off bs) s =
    ((), s\<lparr>ihist := rev (map (\<lambda>(p, v). Out_b v (i_base s + p)) (enumerate off bs)) @ ihist s\<rparr>)"
  by (induction bs arbitrary: off s) simp_all

lemma u_wire_burst:
  assumes "0x100 \<le> off" "off + length bs \<le> 0x200"
  shows "u_wire b (rev (map (\<lambda>(p, v). Out_b v (b + p)) (enumerate off bs)) @ h) = u_wire b h @ bs"
  using assms
proof (induction bs arbitrary: off h)
  case (Cons v bs)
  then show ?case
    using Cons.IH [of "Suc off" "Out_b v (b + off) # h"] by simp
qed simp

text \<open>A block at the tail that does not wrap is the front of the queue.\<close>

lemma take_block:
  assumes "u_ring s" "0 \<le> c" "c \<le> i_xmit_cnt s" "c \<le> SERIAL_XMIT_SIZE - i_xmit_tail s"
  defines "t \<equiv> s\<lparr>i_xmit_tail := (i_xmit_tail s + c) AND (SERIAL_XMIT_SIZE - 1), i_xmit_cnt := i_xmit_cnt s - c\<rparr>"
  shows "ring_bytes s c = take (nat c) (u_queue s)" "u_queue t = drop (nat c) (u_queue s)" "u_ring t"
proof -
  have r: "0 \<le> i_xmit_tail s" "i_xmit_tail s < 4096" using assms(1) by (simp_all add: u_ring_eq)
  show "ring_bytes s c = take (nat c) (u_queue s)"
    using assms(2-4) r by (auto simp: ring_bytes_def u_queue_eq list_eq_iff_nth_eq)
  show "u_queue t = drop (nat c) (u_queue s)"
    using assms(2,3) by (auto simp: t_def u_queue_eq list_eq_iff_nth_eq mod_simps ac_simps nat_diff_distrib)
  show "u_ring t"
    using assms(1-4) by (auto simp: t_def u_ring_eq mod_simps)
qed

section \<open>The transmit stream\<close>

lemma u_frame [simp]:
  "u_queue (s\<lparr>ihist := h\<rparr>) = u_queue s" "u_queue (s\<lparr>i_IER := x\<rparr>) = u_queue s"
  "u_queue (s\<lparr>i_event := e\<rparr>) = u_queue s" "u_queue (s\<lparr>g_txcnt := n\<rparr>) = u_queue s"
  "u_queue (s\<lparr>i_mon_data := m\<rparr>) = u_queue s" "u_queue (s\<lparr>i_icount := ic\<rparr>) = u_queue s"
  "u_ring (s\<lparr>ihist := h\<rparr>) = u_ring s" "u_ring (s\<lparr>i_IER := x\<rparr>) = u_ring s"
  "u_ring (s\<lparr>i_event := e\<rparr>) = u_ring s" "u_ring (s\<lparr>g_txcnt := n\<rparr>) = u_ring s"
  "u_ring (s\<lparr>i_mon_data := m\<rparr>) = u_ring s" "u_ring (s\<lparr>i_icount := ic\<rparr>) = u_ring s"
  by (simp_all add: u_queue_eq u_ring_eq)

text \<open>The chip's transmit FIFO holds at most 128 bytes, and its fill count says so.\<close>

definition tcnt_ok :: "mxuport \<Rightarrow> bool" where
  "tcnt_ok s \<longleftrightarrow> (\<forall>h. env_b (ienv s) h (i_base s + MOXA_PUART_TCNT) \<le> 128)"

definition u_moved :: "u8 list \<Rightarrow> u8 list \<Rightarrow> mxuport \<Rightarrow> mxuport \<Rightarrow> bool" where
  "u_moved acc sent s t \<longleftrightarrow> u_ring t \<and> sent @ u_queue t = u_queue s @ acc \<and>
     u_wire (i_base s) (ihist t) = u_wire (i_base s) (ihist s) @ sent \<and>
     i_base t = i_base s \<and> ienv t = ienv s \<and> i_has_buf t = i_has_buf s \<and> i_has_tty t = i_has_tty s"

lemma u_write_moved:
  assumes "u_ring s" "i_has_buf s" "run_state (mxupcie_write buf) s = (n, t)"
  shows "n = min (int (length buf)) (4095 - i_xmit_cnt s)"
    "u_moved (take (nat (4095 - i_xmit_cnt s)) buf) [] s t"
proof -
  have inv: "ring_inv (mxport.truncate s)" using assms(1) by (simp add: u_ring_def)
  obtain b h c where l: "snd (mxser_write_loop buf 0 (mxport.truncate s)) =
      (mxport.truncate s)\<lparr>i_xmit_buf := b, i_xmit_head := h, i_xmit_cnt := c\<rparr>"
    using write_loop_shape by blast
  note e = write_loop_effect [OF inv, of buf 0, unfolded l]
  have "u_moved (take (nat (4095 - i_xmit_cnt s)) buf) [] s
      (s\<lparr>i_xmit_buf := b, i_xmit_head := h, i_xmit_cnt := c\<rparr>)"
    using e by (simp add: u_moved_def u_ring_def u_queue_def)
  then show "n = min (int (length buf)) (4095 - i_xmit_cnt s)"
    "u_moved (take (nat (4095 - i_xmit_cnt s)) buf) [] s t"
    using assms(2,3) e by (auto simp: mxupcie_write_def run_up l u_moved_def case_prod_beta split: if_splits)
qed

lemma u_put_char_moved:
  assumes "u_ring s" "i_has_buf s" "run_state (mxupcie_put_char ch) s = (n, t)"
  shows "n = (if i_xmit_cnt s < 4095 then 1 else 0)"
    "u_moved (if i_xmit_cnt s < 4095 then [ch] else []) [] s t"
proof -
  have "n = (if i_xmit_cnt s < 4095 then 1 else 0) \<and>
    u_moved (if i_xmit_cnt s < 4095 then [ch] else []) [] s t"
  proof (cases "i_xmit_cnt s < 4095")
    case True
    define u where "u = s\<lparr>i_xmit_buf := (i_xmit_buf s)(i_xmit_head s := ch),
      i_xmit_head := (i_xmit_head s + 1) mod 4096, i_xmit_cnt := i_xmit_cnt s + 1\<rparr>"
    have "ring_inv (mxport.truncate s)" "i_xmit_cnt (mxport.truncate s) < 4095"
      using assms(1) True by (simp_all add: u_ring_def)
    from put_ring_effect [OF this, of ch] have "u_moved [ch] [] s u"
      by (simp add: u_moved_def u_ring_def u_queue_def u_def put_ring_run)
    then show ?thesis
      using True assms(2,3) by (auto simp: mxupcie_put_char_def run_up put_ring_run u_def u_moved_def case_prod_beta split: if_splits)
  next
    case False
    then show ?thesis using assms by (auto simp: mxupcie_put_char_def u_moved_def)
  qed
  then show "n = (if i_xmit_cnt s < 4095 then 1 else 0)"
    "u_moved (if i_xmit_cnt s < 4095 then [ch] else []) [] s t" by simp_all
qed

lemma u_simple_moved:
  assumes "u_ring s"
  shows "u_moved [] [] s (snd (run_state mxupcie_flush_chars s))"
    "u_moved [] [] s (snd (run_state mxupcie_write_room s))"
    "u_moved [] [] s (snd (run_state mxupcie_chars_in_buffer s))"
    "u_moved [] [] s (snd (run_state mxupcie_stop s))"
    "u_moved [] [] s (snd (run_state mxupcie_start s))"
  using assms
  by (simp_all add: mxupcie_flush_chars_def mxupcie_write_room_def mxser_write_room_def run_up
    mxupcie_chars_in_buffer_def mxupcie_stop_def mxser_stop_def mxupcie_start_def mxser_start_def u_moved_def)

text \<open>How many bytes one transmit interrupt moves: what is queued, up to the free room and the wrap.\<close>

definition burst_size :: "mxuport \<Rightarrow> int" where
  "burst_size s = min (i_xmit_cnt s)
     (min (MX_TX_FIFO_SIZE - uint (env_b (ienv s) (ihist s) (i_base s + MOXA_PUART_TCNT)))
       (SERIAL_XMIT_SIZE - i_xmit_tail s))"

lemma transmit_burst:
  assumes "u_ring s" "i_has_buf s" "i_has_tty s" "\<not> t_stopped (i_t s)" "i_xmit_cnt s \<noteq> 0"
    and "env_b (ienv s) (ihist s) (i_base s + MOXA_PUART_TCNT) \<le> 128"
  defines "k \<equiv> nat (burst_size s)" and "t \<equiv> snd (run_state mx_transmit_chars s)"
  shows "u_moved [] (take k (u_queue s)) s t" "u_queue t = drop k (u_queue s)"
    "g_txcnt t = g_txcnt s + word_of_int (burst_size s)" "k \<le> 128"
proof -
  let ?c = "burst_size s" and ?v = "env_b (ienv s) (ihist s) (i_base s + MOXA_PUART_TCNT)"
  have r: "0 < i_xmit_cnt s" "0 \<le> i_xmit_tail s" "i_xmit_tail s < 4096"
    using assms(1,5) by (auto simp: u_ring_eq)
  have "uint ?v \<le> 128" using assms(6) by (simp add: word_le_def)
  then have c: "0 \<le> ?c" "?c \<le> i_xmit_cnt s" "?c \<le> SERIAL_XMIT_SIZE - i_xmit_tail s" "?c \<le> 128"
    using r by (simp_all add: burst_size_def min_le_iff_disj)
  show "k \<le> 128" using c(4) by (simp add: k_def)
  define s1 where "s1 = s\<lparr>ihist := In_b (i_base s + MOXA_PUART_TCNT) ?v # ihist s\<rparr>"
  define s2 where "s2 = s1\<lparr>ihist := rev (map (\<lambda>(p, v). Out_b v (i_base s + p))
      (enumerate 0x100 (ring_bytes s ?c))) @ ihist s1\<rparr>"
  define s3 where "s3 = s2\<lparr>i_xmit_tail := (i_xmit_tail s2 + ?c) AND (SERIAL_XMIT_SIZE - 1),
      i_xmit_cnt := i_xmit_cnt s2 - ?c\<rparr>"
  have eq: "u_ring s2" "i_xmit_cnt s2 = i_xmit_cnt s" "i_xmit_tail s2 = i_xmit_tail s" "u_queue s2 = u_queue s"
    using assms(1) by (simp_all add: s2_def s1_def)
  note blk = take_block [of s2 ?c, folded s3_def, unfolded eq(2-4), OF eq(1) c(1-3)]
  have rb: "ring_bytes s ?c = take k (u_queue s)"
    using take_block(1) [OF assms(1) c(1-3)] by (simp add: k_def)
  have "length (ring_bytes s ?c) \<le> 128" using c(4) by (simp add: ring_bytes_def)
  then have "u_wire (i_base s) (ihist s2) = u_wire (i_base s) (ihist s) @ ring_bytes s ?c"
    by (simp add: s2_def s1_def u_wire_burst)
  moreover have "u_queue s3 = drop k (u_queue s)" using blk(2) by (simp add: k_def)
  ultimately have mv: "u_moved [] (take k (u_queue s)) s s3"
    using blk(3) rb by (simp add: u_moved_def s3_def s2_def s1_def)
  have idle: "s1\<lparr>i_xmit_tail := i_xmit_tail s AND 4095, i_xmit_cnt := i_xmit_cnt s\<rparr> = s1"
    using r by (simp add: s1_def)
  define b where "b = ?c"
  have run: "run_state mx_transmit_chars s = run_state (do { up (count_tx b); up signal_txlow }) s3"
  proof (cases "b = 0")
    case True
    have "s3 = s1" using True idle r by (simp add: s3_def s2_def b_def [symmetric] ring_bytes_def s1_def)
    then show ?thesis
      using True assms(2-5) r by (simp add: mx_transmit_chars_def run_up burst_size_def [symmetric] b_def [symmetric] s1_def)
  next
    case False
    then have "\<not> b < 0" using c(1) by (simp add: b_def)
    then show ?thesis
      using False assms(2-5) by (simp add: mx_transmit_chars_def run_up burst_size_def [symmetric] b_def [symmetric] s3_def s2_def s1_def run_mem_out
        ring_bytes_def)
  qed
  define u where "u = snd (run_state (do { up (count_tx b); up signal_txlow }) s3)"
  have "u_queue u = u_queue s3" "u_ring u = u_ring s3" "u_wire (i_base s) (ihist u) = u_wire (i_base s) (ihist s3)"
    "i_base u = i_base s3" "ienv u = ienv s3" "i_has_buf u = i_has_buf s3" "i_has_tty u = i_has_tty s3"
    "g_txcnt u = g_txcnt s3 + word_of_int b"
    by (simp_all add: u_def run_up count_tx_def signal_txlow_def)
  then show "u_moved [] (take k (u_queue s)) s t" "u_queue t = drop k (u_queue s)"
    "g_txcnt t = g_txcnt s + word_of_int (burst_size s)"
    using mv \<open>u_queue s3 = drop k (u_queue s)\<close> unfolding t_def run u_def [symmetric]
    by (simp_all add: u_moved_def b_def s3_def s2_def s1_def)
qed

definition u_ready :: "mxuport \<Rightarrow> bool" where
  "u_ready s \<longleftrightarrow> u_ring s \<and> i_has_buf s \<and> i_has_tty s \<and> tcnt_ok s"

lemma u_moved_ready: "u_moved a x s t \<Longrightarrow> u_ready s \<Longrightarrow> u_ready t"
  by (simp add: u_moved_def u_ready_def tcnt_ok_def)

lemma u_transmit_moved:
  assumes "u_ready s"
  shows "\<exists>sent. u_moved [] sent s (snd (run_state mx_transmit_chars s))"
proof (cases "i_xmit_cnt s = 0 \<or> t_stopped (i_t s)")
  case True
  then have "u_moved [] [] s (snd (run_state mx_transmit_chars s))"
    using assms by (auto simp: mx_transmit_chars_def run_up signal_txlow_def u_moved_def u_ready_def)
  then show ?thesis ..
next
  case False
  then show ?thesis
    using transmit_burst(1) [of s] assms by (auto simp: u_ready_def tcnt_ok_def)
qed

text \<open>The calls of the tty layer and the interrupt, as for the older driver.\<close>

fun u_tx_call :: "tx_op \<Rightarrow> u8 list mxu_m" where
  "u_tx_call (Call_write buf) = do { n \<leftarrow> mxupcie_write buf; ret (take (nat n) buf) }"
| "u_tx_call (Call_put_char ch) = do { n \<leftarrow> mxupcie_put_char ch; ret (take (nat n) [ch]) }"
| "u_tx_call Call_flush_chars = do { mxupcie_flush_chars; ret [] }"
| "u_tx_call Call_write_room = do { _ \<leftarrow> mxupcie_write_room; ret [] }"
| "u_tx_call Call_chars_in_buffer = do { _ \<leftarrow> mxupcie_chars_in_buffer; ret [] }"
| "u_tx_call Call_stop = do { mxupcie_stop; ret [] }"
| "u_tx_call Call_start = do { mxupcie_start; ret [] }"
| "u_tx_call Irq_transmit = do { mx_transmit_chars; ret [] }"

lemma u_call_moved:
  assumes "u_ready s"
  shows "\<exists>sent. u_moved (fst (run_state (u_tx_call c) s)) sent s (snd (run_state (u_tx_call c) s))"
proof -
  have r: "u_ring s" "i_has_buf s" using assms by (simp_all add: u_ready_def)
  show ?thesis
  proof (cases c)
    case (Call_write buf)
    note w = u_write_moved [OF r prod.collapse [symmetric], of buf]
    have "take (nat (min (int (length buf)) (4095 - i_xmit_cnt s))) buf = take (nat (4095 - i_xmit_cnt s)) buf"
      by (auto simp: min_def)
    then show ?thesis
      using w by (auto simp: Call_write case_prod_beta)
  next
    case (Call_put_char ch)
    then show ?thesis
      using u_put_char_moved [OF r prod.collapse [symmetric], of ch] by (auto simp: case_prod_beta)
  next
    case Irq_transmit
    then show ?thesis using u_transmit_moved [OF assms] by (simp add: case_prod_beta)
  qed (use u_simple_moved [OF r(1)] in \<open>auto simp: case_prod_beta\<close>)
qed

interpretation utx: stream_device u_tx_call u_queue "\<lambda>s. u_wire (i_base s) (ihist s)" u_ready
proof unfold_locales
  fix s :: mxuport and c :: tx_op assume "u_ready s"
  then obtain x where x: "u_moved (fst (run_state (u_tx_call c) s)) x s (snd (run_state (u_tx_call c) s))"
    using u_call_moved by blast
  then show "u_ready (snd (run_state (u_tx_call c) s))"
    using \<open>u_ready s\<close> by (rule u_moved_ready)
  from x show "\<exists>sent. u_wire (i_base (snd (run_state (u_tx_call c) s))) (ihist (snd (run_state (u_tx_call c) s)))
      = u_wire (i_base s) (ihist s) @ sent \<and>
      sent @ u_queue (snd (run_state (u_tx_call c) s)) = u_queue s @ fst (run_state (u_tx_call c) s)"
    by (auto simp: u_moved_def)
qed

definition uport_example :: mxuport where
  "uport_example = mxport.extend (port_example\<lparr>ienv := latch_env (\<lambda>_. 0)\<rparr>) (mxuport.fields 0xC000 0 0xC004 0 6)"

lemma uport_example_sel [simp]:
  "i_base uport_example = 0x100" "i_has_buf uport_example" "i_has_tty uport_example"
  "i_xmit_cnt uport_example = 0" "i_xmit_tail uport_example = 0" "i_xmit_head uport_example = 0"
  "i_t uport_example = i_t port_example" "ihist uport_example = []" "i_IER uport_example = 0"
  "ienv uport_example = latch_env (\<lambda>_. 0)"
  by (simp_all add: uport_example_def port_example_def mxport.extend_def)

text \<open>
  C6. The transmit stream of the PCI Express driver: whatever sequence of writes, single characters,
  flow control and transmit interrupts runs on an open port, the bytes that reached the transmit
  window followed by those still queued are the bytes queued before followed by those accepted.
  The chip is taken to report at most 128 bytes in its FIFO.
\<close>

theorem u_tx_stream:
  assumes "u_ring s" "i_has_buf s" "i_has_tty s" "tcnt_ok s"
    and "run_state (run_calls u_tx_call calls) s = (accepted, t)"
  shows "u_ring t \<and> (\<exists>sent. u_wire (i_base t) (ihist t) = u_wire (i_base s) (ihist s) @ sent \<and>
    sent @ u_queue t = u_queue s @ accepted)"
proof -
  have "u_ready s" using assms(1-4) by (simp add: u_ready_def)
  then show ?thesis
    using utx.stream [of s calls] utx.run_ready [of s calls] assms(5) by (simp add: u_ready_def)
qed

text \<open>A port whose chip reports an empty FIFO.\<close>

lemma u_tx_stream_witness:
  "let t = snd (run_state (run_calls u_tx_call [Call_write [1, 2, 3], Irq_transmit, Call_put_char 4])
      (uport_example\<lparr>ienv := (latch_env (\<lambda>_. 0))\<lparr>env_b := (\<lambda>_ _. 0)\<rparr>\<rparr>))
   in u_ring t \<and> u_wire (i_base t) (ihist t) @ u_queue t = [1, 2, 3, 4]"
proof -
  let ?s = "uport_example\<lparr>ienv := (latch_env (\<lambda>_. 0))\<lparr>env_b := (\<lambda>_ _. 0)\<rparr>\<rparr>"
  let ?r = "run_state (run_calls u_tx_call [Call_write [1, 2, 3], Irq_transmit, Call_put_char 4]) ?s"
  have rdy: "u_ring ?s" "i_has_buf ?s" "i_has_tty ?s" "tcnt_ok ?s" "u_queue ?s = []"
    by (simp_all add: u_ring_eq tcnt_ok_def u_queue_eq)
  have w: "fst (run_state (u_tx_call (Call_write [1, 2, 3])) ?s) = [1, 2, 3]"
    using u_write_moved(1) [OF rdy(1,2) prod.collapse [symmetric], of "[1, 2, 3]"]
    by (simp add: case_prod_beta)
  have "u_ready ?s" using rdy by (simp add: u_ready_def)
  define t1 where "t1 = snd (run_state (u_tx_call (Call_write [1, 2, 3])) ?s)"
  define t2 where "t2 = snd (run_state (u_tx_call Irq_transmit) t1)"
  have t1: "u_ready t1" unfolding t1_def by (rule utx.call_ready) fact
  have t2: "u_ready t2" unfolding t2_def by (rule utx.call_ready) fact
  have irq: "fst (run_state (u_tx_call Irq_transmit) t1) = []" by (simp add: case_prod_beta)
  obtain x where x: "x @ u_queue t1 = u_queue ?s @ [1, 2, 3]"
    using utx.call_stream [OF \<open>u_ready ?s\<close>, of "Call_write [1, 2, 3]"] w unfolding t1_def by auto
  obtain y where y: "y @ u_queue t2 = u_queue t1 @ []"
    using utx.call_stream [OF t1, of Irq_transmit] irq unfolding t2_def by metis
  have "length (u_queue t2) \<le> 3"
    using arg_cong [OF x, of length] arg_cong [OF y, of length] rdy(5) by simp
  then have "i_xmit_cnt t2 < 4095"
    by (simp add: u_queue_eq)
  then have "fst (run_state (u_tx_call (Call_put_char 4)) t2) = [4]"
    using u_put_char_moved(1) [of t2 4, OF _ _ prod.collapse [symmetric]] t2
    by (simp add: case_prod_beta u_ready_def)
  then have acc: "fst ?r = [1, 2, 3, 4]"
    using w irq by (simp add: case_prod_beta t2_def t1_def del: u_tx_call.simps)
  show ?thesis
    using u_tx_stream [OF rdy(1-4) prod.collapse [symmetric], of "[Call_write [1, 2, 3], Irq_transmit, Call_put_char 4]"]
      acc rdy(5) by (auto simp: Let_def simp del: run_calls.simps)
qed

section \<open>What reception delivers\<close>

text \<open>Reads of the receive register or window, and the characters handed to the tty layer.\<close>

fun u_reads :: "port \<Rightarrow> io_event list \<Rightarrow> u8 list" where
  "u_reads b [] = []"
| "u_reads b (In_b p v # h) = u_reads b h @ (if p = b \<or> b + 0x100 \<le> p \<and> p < b + 0x200 then [v] else [])"
| "u_reads b (_ # h) = u_reads b h"

fun u_delivered :: "io_event list \<Rightarrow> int list" where
  "u_delivered [] = []"
| "u_delivered (Kernel_call f as r # h) = u_delivered h @
     (if f = ''tty_insert_flip_char'' then [as ! 0] else if f = ''tty_insert_flip_string'' then as else [])"
| "u_delivered (_ # h) = u_delivered h"

definition u_received :: "u8 list \<Rightarrow> int list \<Rightarrow> mxuport \<Rightarrow> mxuport \<Rightarrow> bool" where
  "u_received xs ds s t \<longleftrightarrow> u_reads (i_base s) (ihist t) = u_reads (i_base s) (ihist s) @ xs \<and>
     u_delivered (ihist t) = u_delivered (ihist s) @ ds \<and> i_base t = i_base s \<and> g_rxcnt t = g_rxcnt s"

lemma u_received_trans:
  "u_received xs ds s t \<Longrightarrow> u_received ys es t u \<Longrightarrow> u_received (xs @ ys) (ds @ es) s u"
  by (simp add: u_received_def)

lemma mem_in_received:
  assumes "0x100 \<le> off" "off + n \<le> 0x200" "run_state (mem_in off n) s = (bs, t)"
  shows "length bs = n \<and> u_received bs [] s t"
  using assms
proof (induction n arbitrary: off s bs t)
  case (Suc n)
  define v where "v = env_b (ienv s) (ihist s) (i_base s + off)"
  define s1 where "s1 = s\<lparr>ihist := In_b (i_base s + off) v # ihist s\<rparr>"
  obtain cs u where r: "run_state (mem_in (off + 1) n) s1 = (cs, u)"
    by (cases "run_state (mem_in (off + 1) n) s1")
  have "bs = v # cs" "t = u"
    using Suc.prems(3) r by (auto simp: v_def s1_def)
  moreover have "u_received [v] [] s s1"
    using Suc.prems(1,2) by (simp add: u_received_def s1_def)
  ultimately show ?case
    using Suc.IH [OF _ _ r] Suc.prems(1,2) u_received_trans by fastforce
qed (simp add: u_received_def)

lemma u_rx_flag_received:
  "u_received [] [uint ch] s (snd (run_state (up (do { fl \<leftarrow> rx_flag status; tty_insert_flip_char ch fl })) s))"
  by (auto simp: run_up rx_flag_def tty_insert_flip_char_def upd_icount_def u_received_def)

declare u_rx_old.simps [simp del]

lemma u_rx_old_received:
  assumes "run_state (u_rx_old n status cnt) s = ((st, k), t)"
  shows "\<exists>xs. u_received xs (map uint xs) s t \<and> k = cnt + int (length xs) \<and> length xs \<le> n"
  using assms
proof (induction n arbitrary: status cnt s)
  case 0
  then show ?case
    by (intro exI [of _ "[]"]) (auto simp: u_rx_old.simps u_received_def)
next
  case (Suc n)
  define v where "v = env_b (ienv s) (ihist s) (i_base s)"
  define s1 where "s1 = s\<lparr>ihist := In_b (i_base s) v # ihist s\<rparr>"
  define s2 where "s2 = snd (run_state (up (do { fl \<leftarrow> rx_flag status; tty_insert_flip_char v fl })) s1)"
  define l where "l = env_b (ienv s2) (ihist s2) (i_base s2 + UART_LSR)"
  define s3 where "s3 = s2\<lparr>ihist := In_b (i_base s2 + UART_LSR) l # ihist s2\<rparr>"
  have "u_received [v] [] s s1" by (simp add: u_received_def s1_def)
  moreover have "u_received [] [uint v] s1 s2" unfolding s2_def by (rule u_rx_flag_received)
  moreover have "u_received [] [] s2 s3" by (simp add: u_received_def s3_def)
  ultimately have one: "u_received [v] [uint v] s s3"
    by (force dest: u_received_trans)
  have step: "run_state (u_rx_old (Suc n) status cnt) s =
      (if ucast l AND UART_LSR_DR \<noteq> 0 then run_state (u_rx_old n (ucast l) (cnt + 1)) s3 else ((ucast l, cnt + 1), s3))"
    by (subst u_rx_old.simps) (simp add: case_prod_beta v_def s1_def s2_def l_def s3_def)
  show ?case
  proof (cases "ucast l AND UART_LSR_DR \<noteq> 0")
    case True
    then obtain xs where "u_received xs (map uint xs) s3 t" "k = cnt + 1 + int (length xs)" "length xs \<le> n"
      using Suc step by fastforce
    then show ?thesis
      using u_received_trans [OF one] by (intro exI [of _ "v # xs"]) fastforce
  next
    case False
    then show ?thesis
      using Suc.prems step one by (intro exI [of _ "[v]"]) auto
  qed
qed

lemma clamp_room_le: "0 \<le> room \<Longrightarrow> int (unat (clamp_room g room)) \<le> room"
proof -
  assume "0 \<le> room"
  moreover have "uint g < 2 ^ len_of TYPE(8)" by (rule unsigned_less)
  ultimately show ?thesis
    by (simp add: clamp_room_def unsigned_of_int take_bit_int_eq_self)
qed

lemma burst_copy_received:
  assumes "run_state (burst_copy g) s = (k, t)"
  shows "\<exists>xs. u_received xs (map uint xs) s t \<and> k = int (length xs) \<and> length xs = unat g"
proof (cases "g = 0")
  case True
  then show ?thesis
    using assms by (intro exI [of _ "[]"]) (auto simp: burst_copy_def u_received_def)
next
  case False
  obtain bs s3 where r: "run_state (mem_in MOXA_PUART_MEMRBR (unat g)) s = (bs, s3)"
    by (cases "run_state (mem_in MOXA_PUART_MEMRBR (unat g)) s")
  have "unat g < 2 ^ len_of TYPE(8)" by (rule unsigned_less)
  then have b: "length bs = unat g" "u_received bs [] s s3"
    using mem_in_received [OF _ _ r] by auto
  have kt: "k = uint g" "t = snd (run_state (knote ''tty_insert_flip_string'' (map uint bs)) s3)"
    using assms False r by (simp_all add: burst_copy_def)
  have "u_received [] (map uint bs) s3 t" by (simp add: u_received_def kt)
  from u_received_trans [OF b(2) this] show ?thesis
    using b(1) kt(1) by (intro exI [of _ bs]) simp
qed

lemma rx_burst_received:
  assumes "run_state u_rx_burst s = (k, t)"
  defines "room \<equiv> env_k (ienv s) (ihist s) ''tty_buffer_request_room'' [128]"
  shows "\<exists>xs. u_received xs (map uint xs) s t \<and> k = int (length xs) \<and> length xs \<le> 255 \<and>
    (0 \<le> room \<longrightarrow> int (length xs) \<le> room)"
proof (cases "room = 0")
  case True
  then show ?thesis
    using assms by (intro exI [of _ "[]"]) (auto simp: u_rx_burst_def run_up u_received_def)
next
  case False
  define s1 where "s1 = s\<lparr>ihist := Kernel_call ''tty_buffer_request_room'' [128] room # ihist s\<rparr>"
  define v where "v = env_b (ienv s) (ihist s1) (i_base s + MOXA_PUART_RCNT)"
  define s2 where "s2 = s1\<lparr>ihist := In_b (i_base s + MOXA_PUART_RCNT) v # ihist s1\<rparr>"
  have r: "run_state (burst_copy (clamp_room v room)) s2 = (k, t)"
    using assms False by (simp add: u_rx_burst_def s2_def v_def s1_def)
  have "unat (clamp_room v room) < 2 ^ len_of TYPE(8)" by (rule unsigned_less)
  moreover have "u_received [] [] s s2" by (simp add: u_received_def s2_def s1_def)
  moreover obtain xs where "u_received xs (map uint xs) s2 t" "k = int (length xs)" "length xs = unat (clamp_room v room)"
    using burst_copy_received [OF r] by blast
  ultimately show ?thesis
    using clamp_room_le [of room v] u_received_trans [of "[]" "[]" s s2 xs "map uint xs" t] by auto
qed

text \<open>
  C17. Reception on the PCI Express boards, by burst or character by character: the characters handed to
  the tty layer are the characters read from the chip, in order, each once; the counter of the
  port grows by their number, and a burst brings no more than the tty layer has room for.
\<close>

theorem u_receive_in_order:
  assumes "run_state (mx_receive_chars status) s = (st, t)"
  shows "\<exists>xs. u_reads (i_base s) (ihist t) = u_reads (i_base s) (ihist s) @ xs \<and>
    u_delivered (ihist t) = u_delivered (ihist s) @ map uint xs \<and>
    g_rxcnt t = g_rxcnt s + of_nat (length xs) \<and> length xs \<le> 257 \<and>
    (status AND UART_LSR_SPECIAL = 0 \<and> 0 \<le> env_k (ienv s) (ihist s) ''tty_buffer_request_room'' [128] \<longrightarrow>
       int (length xs) \<le> env_k (ienv s) (ihist s) ''tty_buffer_request_room'' [128])"
proof -
  let ?m = "if status AND UART_LSR_SPECIAL \<noteq> 0 then u_rx_old 257 status 0
       else do { n \<leftarrow> u_rx_burst; ret (status, n) }"
  obtain st' k u where m: "run_state ?m s = ((st', k), u)"
    by (cases "run_state ?m s") auto
  obtain xs where xs: "u_received xs (map uint xs) s u" "k = int (length xs)" "length xs \<le> 257"
    "status AND UART_LSR_SPECIAL = 0 \<and> 0 \<le> env_k (ienv s) (ihist s) ''tty_buffer_request_room'' [128] \<longrightarrow>
       int (length xs) \<le> env_k (ienv s) (ihist s) ''tty_buffer_request_room'' [128]"
  proof (cases "status AND UART_LSR_SPECIAL = 0")
    case True
    obtain k' u' where r: "run_state u_rx_burst s = (k', u')" by (cases "run_state u_rx_burst s")
    with True m have "k' = k" "u' = u" by auto
    then show thesis using rx_burst_received [OF r] that by force
  next
    case False
    then show thesis using u_rx_old_received [of 257 status 0 s st' k u] m that by auto
  qed
  have "ihist t = Kernel_call ''tty_flip_buffer_push'' [] (env_k (ienv u) (ihist u) ''tty_flip_buffer_push'' []) # ihist u"
    "g_rxcnt t = g_rxcnt u + word_of_int k"
    using assms m by (auto simp: mx_receive_chars_def run_up count_rx_def)
  then show ?thesis
    using xs by (intro exI [of _ xs]) (simp add: u_received_def)
qed

section \<open>Whose interrupt\<close>

text \<open>A port that has something to serve: its IIR shows an interrupt and a tty is attached.\<close>

definition iir_pending :: "env \<Rightarrow> mxuport \<Rightarrow> bool" where
  "iir_pending e p \<longleftrightarrow> (\<forall>h. env_b e h (i_base p + UART_IIR) \<noteq> MOXA_IIR_NO_INT)"

definition iir_quiet :: "env \<Rightarrow> mxuport \<Rightarrow> bool" where
  "iir_quiet e p \<longleftrightarrow> (\<forall>h. env_b e h (i_base p + UART_IIR) = MOXA_IIR_NO_INT)"

definition claims :: "env \<Rightarrow> mxuport \<Rightarrow> bool" where
  "claims e p \<longleftrightarrow> iir_pending e p \<and> i_has_tty p"

definition port_of :: "mxuport \<Rightarrow> mxuport" where
  "port_of p = p\<lparr>ienv := latch_env (\<lambda>_. 0), ihist := []\<rparr>"

lemma pass_unclaimed:
  assumes "iir_quiet (ienv s) s \<or> \<not> i_has_tty s"
  obtains h r where "run_state u_isr_pass s = (r, s\<lparr>ihist := h\<rparr>)" "r \<noteq> Served"
  using assms
  by (cases "env_b (ienv s) (ihist s) (i_base s + UART_IIR) = MOXA_IIR_NO_INT")
    (auto simp: u_isr_pass_def iir_quiet_def)

lemma pass_claimed:
  assumes "claims (ienv s) s"
  shows "fst (run_state u_isr_pass s) = Served"
  using assms by (simp add: u_isr_pass_def claims_def iir_pending_def case_prod_beta)

lemma isr_port_unclaimed:
  assumes "iir_quiet (ienv s) s \<or> \<not> i_has_tty s"
  obtains h q where "run_state (u_isr_port n b) s = ((q, b), s\<lparr>ihist := h\<rparr>)"
proof -
  obtain h r where "run_state u_isr_pass s = (r, s\<lparr>ihist := h\<rparr>)" "r \<noteq> Served"
    using pass_unclaimed [OF assms] .
  then have "\<exists>q. run_state (u_isr_port n b) s = ((q, b), s\<lparr>ihist := h\<rparr>)"
    by (cases r) (auto simp: u_isr_port.simps [of n])
  then show ?thesis using that by blast
qed

lemma isr_port_handled: "snd (fst (run_state (u_isr_port n True) s))"
proof (induction n arbitrary: s)
  case 0
  show ?case by (subst u_isr_port.simps) (simp add: case_prod_beta split: isr_result.split)
next
  case (Suc n)
  then show ?case by (subst u_isr_port.simps) (simp add: case_prod_beta split: isr_result.split)
qed

lemma isr_port_claimed:
  assumes "claims (ienv s) s"
  shows "snd (fst (run_state (u_isr_port n b) s))"
  using pass_claimed [OF assms]
  by (subst u_isr_port.simps) (simp add: case_prod_beta isr_port_handled split: nat.split)

lemma isr_scan_handled: "snd (fst (run_state (u_isr_scan first i k v True) d))"
  by (induction k arbitrary: i v d) (simp_all add: case_prod_beta isr_port_handled)

lemma claims_frame [simp]:
  "claims e (p\<lparr>ienv := e', ihist := h\<rparr>) = claims e p" "claims e (p\<lparr>ienv := e'\<rparr>) = claims e p"
  by (simp_all add: claims_def iir_pending_def)

lemma isr_scan_claimed:
  assumes "j < k" "first + i + k \<le> length (ud_ports d)" "claims (ienv d) (ud_ports d ! (first + i + j))"
  shows "snd (fst (run_state (u_isr_scan first i k v b) d))"
  using assms
proof (induction k arbitrary: i j v b d)
  case (Suc k)
  let ?p = "(ud_ports d ! (first + i))\<lparr>ienv := ienv d, ihist := ihist d\<rparr>"
  obtain q b' p' where r: "run_state (u_isr_port MXUPCIE_ISR_PASS_LIMIT b) ?p = ((q, b'), p')"
    by (cases "run_state (u_isr_port MXUPCIE_ISR_PASS_LIMIT b) ?p") auto
  define d' where "d' = d\<lparr>ihist := ihist p', ud_ports := (ud_ports d)[first + i := p']\<rparr>"
  have step: "run_state (u_isr_scan first i (Suc k) v b) d
      = run_state (u_isr_scan first (i + 1) k (if q then v + 1 else v) b') d'"
    using Suc.prems(1,2) r by (simp add: d'_def)
  show ?case
  proof (cases j)
    case 0
    then have "claims (ienv ?p) ?p" using Suc.prems(3) by simp
    from isr_port_claimed [OF this, of MXUPCIE_ISR_PASS_LIMIT b] have b' using r by simp
    then show ?thesis unfolding step by (simp add: isr_scan_handled)
  next
    case (Suc j')
    then show ?thesis
      unfolding step using Suc.prems by (intro Suc.IH [of j']) (simp_all add: d'_def)
  qed
qed simp

definition unclaimed :: "env \<Rightarrow> mxuport \<Rightarrow> bool" where
  "unclaimed e p \<longleftrightarrow> iir_quiet e p \<or> \<not> i_has_tty p"

lemma unclaimed_frame [simp]:
  "unclaimed e (p\<lparr>ienv := e'\<rparr>) = unclaimed e p" "port_of (p\<lparr>ienv := e'\<rparr>) = port_of p"
  "unclaimed e (p\<lparr>ienv := e', ihist := h\<rparr>) = unclaimed e p" "unclaimed e (p\<lparr>ihist := h\<rparr>) = unclaimed e p"
  "port_of (p\<lparr>ienv := e', ihist := h\<rparr>) = port_of p" "port_of (p\<lparr>ihist := h\<rparr>) = port_of p"
  by (simp_all add: unclaimed_def iir_quiet_def port_of_def)

lemma unclaimed_port_of: "unclaimed e p = unclaimed e (port_of p)"
  by (simp add: unclaimed_def iir_quiet_def port_of_def)

lemma isr_scan_unclaimed:
  assumes "first + i + k \<le> length (ud_ports d)" "\<forall>j < k. unclaimed (ienv d) (ud_ports d ! (first + i + j))"
  shows "\<exists>v' h ps. run_state (u_isr_scan first i k v b) d = ((v', b), d\<lparr>ihist := h, ud_ports := ps\<rparr>) \<and>
    map port_of ps = map port_of (ud_ports d)"
  using assms
proof (induction k arbitrary: i v d)
  case 0
  show ?case by (intro exI [of _ v] exI [of _ "ihist d"] exI [of _ "ud_ports d"]) simp
next
  case (Suc k)
  let ?p = "(ud_ports d ! (first + i))\<lparr>ienv := ienv d, ihist := ihist d\<rparr>"
  have "unclaimed (ienv ?p) ?p" using Suc.prems(2) [rule_format, of 0] by simp
  then obtain h q where r: "run_state (u_isr_port MXUPCIE_ISR_PASS_LIMIT b) ?p = ((q, b), ?p\<lparr>ihist := h\<rparr>)"
    using isr_port_unclaimed unfolding unclaimed_def by blast
  define d' where "d' = d\<lparr>ihist := h, ud_ports := (ud_ports d)[first + i := ?p\<lparr>ihist := h\<rparr>]\<rparr>"
  have step: "run_state (u_isr_scan first i (Suc k) v b) d
      = run_state (u_isr_scan first (i + 1) k (if q then v + 1 else v) b) d'"
    using Suc.prems(1) r by (simp add: d'_def)
  have "\<forall>j < k. unclaimed (ienv d') (ud_ports d' ! (first + (i + 1) + j))"
  proof (intro allI impI)
    fix j assume "j < k"
    then show "unclaimed (ienv d') (ud_ports d' ! (first + (i + 1) + j))"
      using Suc.prems(2) [rule_format, of "Suc j"] by (simp add: d'_def)
  qed
  moreover have "first + (i + 1) + k \<le> length (ud_ports d')" using Suc.prems(1) by (simp add: d'_def)
  ultimately obtain v' h' ps where
    "run_state (u_isr_scan first (i + 1) k (if q then v + 1 else v) b) d' = ((v', b), d'\<lparr>ihist := h', ud_ports := ps\<rparr>)"
    "map port_of ps = map port_of (ud_ports d')"
    using Suc.IH by blast
  moreover have "map port_of (ud_ports d') = map port_of (ud_ports d)"
    using Suc.prems(1) by (simp add: d'_def list_eq_iff_nth_eq nth_list_update)
  ultimately show ?case
    unfolding step by (auto simp: d'_def)
qed

lemma isr_board_handled: "fst (run_state (u_isr_board n first k True) d)"
proof (induction n arbitrary: d)
  case 0
  show ?case
    using isr_scan_handled [of first 0 k 0 d] by (subst u_isr_board.simps) (simp add: case_prod_beta)
next
  case (Suc n)
  show ?case
    using isr_scan_handled [of first 0 k 0 d] Suc by (subst u_isr_board.simps) (simp add: case_prod_beta)
qed

lemma isr_board_unclaimed:
  assumes "first + k \<le> length (ud_ports d)" "\<forall>j < k. unclaimed (ienv d) (ud_ports d ! (first + j))"
  shows "\<exists>h ps. run_state (u_isr_board n first k b) d = (b, d\<lparr>ihist := h, ud_ports := ps\<rparr>) \<and>
    map port_of ps = map port_of (ud_ports d)"
  using assms
proof (induction n arbitrary: d)
  case 0
  obtain v h ps where "run_state (u_isr_scan first 0 k 0 b) d = ((v, b), d\<lparr>ihist := h, ud_ports := ps\<rparr>)"
    "map port_of ps = map port_of (ud_ports d)"
    using isr_scan_unclaimed [of first 0 k d 0 b] 0 by auto
  then show ?case
    by (subst u_isr_board.simps) (intro exI [of _ h] exI [of _ ps], simp)
next
  case (Suc n)
  obtain v h ps where s: "run_state (u_isr_scan first 0 k 0 b) d = ((v, b), d\<lparr>ihist := h, ud_ports := ps\<rparr>)"
    "map port_of ps = map port_of (ud_ports d)"
    using isr_scan_unclaimed [of first 0 k d 0 b] Suc.prems by auto
  have len: "length ps = length (ud_ports d)" using s(2) by (rule map_eq_imp_length_eq)
  let ?d = "d\<lparr>ihist := h, ud_ports := ps\<rparr>"
  have "\<forall>j < k. unclaimed (ienv d) (ps ! (first + j))"
  proof (intro allI impI)
    fix j assume "j < k"
    then have "port_of (ps ! (first + j)) = port_of (ud_ports d ! (first + j))"
      using s(2) len Suc.prems(1) by (metis add_less_cancel_left nth_map order_less_le_trans)
    then show "unclaimed (ienv d) (ps ! (first + j))"
      using Suc.prems(2) \<open>j < k\<close> by (metis unclaimed_port_of)
  qed
  then obtain h' ps' where "run_state (u_isr_board n first k b) ?d = (b, ?d\<lparr>ihist := h', ud_ports := ps'\<rparr>)"
    "map port_of ps' = map port_of (ud_ports ?d)"
    using Suc.IH [of ?d] Suc.prems(1) len by auto
  then show ?case
    using s by (cases "v = k") (subst u_isr_board.simps, force)+
qed



lemma u_receive_in_order_witness:
  "let h = ihist (snd (run_state (mx_receive_chars 1) uport_example)) in
    u_delivered h = map uint (u_reads 0x100 h) \<and> length (u_reads 0x100 h) \<le> 257"
  using u_receive_in_order [of 1 uport_example, OF prod.collapse [symmetric]] by (auto simp: Let_def)

end
