(* ===== verification/Mxu_Ops.thy ===== *)
theory Mxu_Ops
  imports Mxu_Port
begin

text \<open>
  The life and the requests of a port of the PCI Express serial driver,
  \<open>modules/mxser/mxupcie.c\<close>: start-up and shut-down, open, close and hang-up, waiting for the
  transmitter, the requests on a port and on the control device.

  As in the older driver a loop that ends only when the hardware, a signal or the clock lets it
  takes the number of rounds it may run and says when it was not enough; a failed \<open>access_ok\<close>
  makes a request return 0.  Wherever the two drivers have the same statements the definition is
  the older one's, lifted by \<open>up\<close>.
\<close>

section \<open>Start-up and shut-down\<close>

definition u_clear_fifos :: "unit mxu_m" where
  "u_clear_fifos = reg_out (UART_FCR_CLEAR_RCVR OR UART_FCR_CLEAR_XMIT) UART_FCR"

definition u_program_uart :: "unit mxu_m" where
  "u_program_uart = do {
     up clear_pending;
     reg_out UART_LCR_WLEN8 UART_LCR;
     u_set_MCR (\<lambda>_. UART_MCR_DTR OR UART_MCR_RTS);
     u_out_MCR;
     reg_out MOXA_EFR_ENHANCE MOXA_PUART_EFR;
     reg_out (MOXA_SFR_950 OR MOXA_SFR_ENABLE_TCNT) MOXA_PUART_SFR;
     s \<leftarrow> gets id;
     reg_out (word_of_int (i_xmit_fifo_size s)) MOXA_PUART_TTL;
     reg_out (word_of_int (i_rx_trigger s)) MOXA_PUART_RTL;
     reg_out (word_of_int (i_rx_low_water s)) MOXA_PUART_FCL;
     reg_out (word_of_int (i_rx_high_water s)) MOXA_PUART_FCH;
     u_set_IER (\<lambda>_. UART_IER_MSI OR UART_IER_RLSI OR UART_IER_RDI);
     u_out_IER;
     up clear_pending;
     up clear_io_error;
     up clear_ring;
     modify (\<lambda>s. s\<lparr>i_flags := i_flags s OR ASYNC_INITIALIZED\<rparr>) }"

definition mx_startup :: "int mxu_m" where
  "mx_startup = do {
     page \<leftarrow> kcall ''__get_free_page'' [];
     if page = 0 then ret (-ENOMEM)
     else do {
       s \<leftarrow> gets id;
       if i_flags s AND ASYNC_INITIALIZED \<noteq> 0 then do { knote ''free_page'' [page]; ret 0 }
       else if i_base s = 0 \<or> i_type s = 0 then do {
         up set_io_error; knote ''free_page'' [page]; ret 0 }
       else do {
         up (use_page page);
         u_clear_fifos;
         lsr \<leftarrow> reg_in UART_LSR;
         if lsr = 0xff then do {
           cap \<leftarrow> kcall ''capable(CAP_SYS_ADMIN)'' [];
           if cap \<noteq> 0 then do { up set_io_error; ret 0 } else ret (-ENODEV) }
         else do { u_program_uart; ret 0 } } } }"

definition mx_shutdown :: "unit mxu_m" where
  "mx_shutdown = do {
     s \<leftarrow> gets id;
     whenM (i_flags s AND ASYNC_INITIALIZED \<noteq> 0) (do {
       knote ''wake_up_interruptible(delta_msr_wait)'' [];
       up release_page;
       reg_out 0 MOXA_PUART_EFR;
       reg_out 0 MOXA_PUART_SFR;
       u_set_IER (\<lambda>_. 0);
       reg_out 0 UART_IER;
       whenM (\<not> i_has_tty s \<or> c_cflag (t_termios (i_t s)) AND HUPCL \<noteq> 0)
         (u_set_MCR (\<lambda>x. x AND NOT (UART_MCR_DTR OR UART_MCR_RTS)));
       u_out_MCR;
       u_clear_fifos;
       _ \<leftarrow> reg_in UART_RX;
       up set_io_error;
       modify (\<lambda>s. s\<lparr>i_flags := i_flags s AND NOT ASYNC_INITIALIZED\<rparr>) }) }"

section \<open>Open, close, hang up\<close>

definition u_open_port :: "nat \<Rightarrow> bool \<Rightarrow> int option mxu_m" where
  "u_open_port rounds nonblock = do {
     modify (\<lambda>s. s\<lparr>i_has_tty := True, i_count := i_count s + 1\<rparr>);
     retval \<leftarrow> mx_startup;
     if retval \<noteq> 0 then ret (Some retval)
     else do {
       r \<leftarrow> up (mxser_block_til_ready rounds nonblock);
       if r \<noteq> Some 0 then ret r
       else do {
         n \<leftarrow> gets i_count;
         whenM (n = 1) (do {
           modify (\<lambda>s. s\<lparr>i_t := (i_t s)\<lparr>t_termios := i_normal_termios s\<rparr>\<rparr>);
           _ \<leftarrow> mx_change_speed;
           ret () });
         up (set_t (\<lambda>t. t\<lparr>t_low_latency := 1\<rparr>));
         ret (Some 0) } } }"

definition mxupcie_open :: "nat \<Rightarrow> int \<Rightarrow> bool \<Rightarrow> int option udrv_m" where
  "mxupcie_open rounds line nonblock =
    (if line = MXUPCIE_PORTS then ret (Some 0)
     else do {
       knote ''try_module_get'' [];
       if line < 0 \<or> line > MXUPCIE_PORTS then ret (Some (-ENODEV))
       else do {
         ports \<leftarrow> gets ud_ports;
         if i_base (ports ! nat line) = 0 then ret (Some (-ENODEV))
         else on_uport (nat line) None (u_open_port rounds nonblock) } })"

fun u_drain :: "nat \<Rightarrow> 64 word \<Rightarrow> bool mxu_m" where
  "u_drain 0 timeout = ret False"
| "u_drain (Suc n) timeout = do {
     len \<leftarrow> mxupcie_chars_in_buffer;
     if len = 0 then ret True
     else do {
       knote ''schedule_timeout'' [5];
       now \<leftarrow> up jiffies;
       if time_after now timeout then ret True else u_drain n timeout } }"

text \<open>The part of a close that only the last reference runs; RTS is no longer driven by the chip.\<close>

definition u_close_last :: "nat \<Rightarrow> bool mxu_m" where
  "u_close_last rounds = do {
     modify (\<lambda>s. s\<lparr>i_flags := i_flags s OR ASYNC_CLOSING\<rparr>);
     s \<leftarrow> gets id;
     whenM (i_flags s AND ASYNC_NORMAL_ACTIVE \<noteq> 0)
       (modify (\<lambda>s. s\<lparr>i_normal_termios := t_termios (i_t s)\<rparr>));
     efr \<leftarrow> reg_in MOXA_PUART_EFR;
     reg_out (efr AND NOT MOXA_EFR_AUTO_RTS) MOXA_PUART_EFR;
     up (set_t (\<lambda>t. t\<lparr>t_closing := True\<rparr>));
     whenM (i_closing_wait s \<noteq> ASYNC_CLOSING_WAIT_NONE) (knote ''tty_wait_until_sent'' [i_closing_wait s]);
     u_set_IER (\<lambda>x. x AND NOT UART_IER_RLSI);
     done_in_time \<leftarrow> (if i_flags s AND ASYNC_INITIALIZED \<noteq> 0 then do {
         u_out_IER;
         now \<leftarrow> up jiffies;
         u_drain rounds (now + word_of_int HZ) }
       else ret True);
     mx_shutdown;
     mxupcie_flush_buffer;
     knote ''tty_ldisc_flush'' [];
     up (set_t (\<lambda>t. t\<lparr>t_closing := False\<rparr>));
     modify (\<lambda>s. s\<lparr>i_event := 0, i_has_tty := False\<rparr>);
     whenM (i_blocked_open s \<noteq> 0) (do {
       whenM (i_close_delay s \<noteq> 0) (knote ''schedule_timeout'' [i_close_delay s]);
       knote ''wake_up_interruptible(open_wait)'' [] });
     modify (\<lambda>s. s\<lparr>i_flags := i_flags s AND NOT (ASYNC_NORMAL_ACTIVE OR ASYNC_CALLOUT_ACTIVE OR ASYNC_CLOSING)\<rparr>);
     knote ''wake_up_interruptible(close_wait)'' [];
     ret done_in_time }"

definition u_close_port :: "nat \<Rightarrow> bool mxu_m" where
  "u_close_port rounds = do {
     hup \<leftarrow> up hung_up;
     ok \<leftarrow> (if hup then ret True
       else do {
         modify (\<lambda>s. if t_count (i_t s) = 1 \<and> i_count s \<noteq> 1 then s\<lparr>i_count := 1\<rparr> else s);
         modify (\<lambda>s. s\<lparr>i_count := i_count s - 1\<rparr>);
         modify (\<lambda>s. if i_count s < 0 then s\<lparr>i_count := 0\<rparr> else s);
         n \<leftarrow> gets i_count;
         if n \<noteq> 0 then ret True else u_close_last rounds });
     knote ''module_put'' [];
     ret ok }"

definition mxupcie_close :: "nat \<Rightarrow> int \<Rightarrow> bool udrv_m" where
  "mxupcie_close rounds line =
    (if line = MXUPCIE_PORTS then ret True else on_uport (nat line) True (u_close_port rounds))"

definition mxupcie_hangup :: "unit mxu_m" where
  "mxupcie_hangup = do {
     mxupcie_flush_buffer;
     mx_shutdown;
     modify (\<lambda>s. s\<lparr>i_event := 0, i_count := 0,
       i_flags := i_flags s AND NOT (ASYNC_NORMAL_ACTIVE OR ASYNC_CALLOUT_ACTIVE), i_has_tty := False\<rparr>);
     knote ''wake_up_interruptible(open_wait)'' [] }"

section \<open>Flow control, line settings, waiting\<close>

definition mx_stoprx :: "unit mxu_m" where
  "mx_stoprx = do { u_set_IER (\<lambda>x. x AND NOT UART_IER_RDI); u_out_IER }"

definition mx_startrx :: "unit mxu_m" where
  "mx_startrx = do { u_set_IER (\<lambda>x. x OR UART_IER_RDI); u_out_IER }"

definition mxupcie_throttle :: "unit mxu_m" where
  "mxupcie_throttle = mx_stoprx"

definition mxupcie_unthrottle :: "unit mxu_m" where
  "mxupcie_unthrottle = mx_startrx"

definition mxupcie_set_termios :: "ktermios \<Rightarrow> unit mxu_m" where
  "mxupcie_set_termios old = do {
     new \<leftarrow> gets (\<lambda>s. t_termios (i_t s));
     whenM (c_cflag new \<noteq> c_cflag old \<or> relevant_iflag (c_iflag new) \<noteq> relevant_iflag (c_iflag old)) (do {
       _ \<leftarrow> mx_change_speed;
       whenM (c_cflag old AND CRTSCTS \<noteq> 0 \<and> c_cflag new AND CRTSCTS = 0) (do {
         up (set_t (\<lambda>t. t\<lparr>t_hw_stopped := False\<rparr>));
         mxupcie_start }) });
     whenM (c_iflag old AND IXON \<noteq> 0 \<and> c_iflag new AND IXON = 0) (do {
       up (set_t (\<lambda>t. t\<lparr>t_stopped := False\<rparr>));
       mxupcie_start }) }"

fun u_wait_temt :: "nat \<Rightarrow> int \<Rightarrow> 64 word \<Rightarrow> 64 word \<Rightarrow> bool mxu_m" where
  "u_wait_temt 0 timeout char_time orig = ret False"
| "u_wait_temt (Suc n) timeout char_time orig = do {
     lsr \<leftarrow> reg_in UART_LSR;
     if ucast lsr AND UART_LSR_TEMT \<noteq> 0 then ret True
     else do {
       knote ''schedule_timeout'' [uint char_time];
       sig \<leftarrow> kcall ''signal_pending'' [];
       if sig \<noteq> 0 then ret True
       else if timeout \<noteq> 0 then do {
         now \<leftarrow> up jiffies;
         if time_after now (orig + word_of_int timeout) then ret True
         else u_wait_temt n timeout char_time orig }
       else u_wait_temt n timeout char_time orig } }"

definition mxupcie_wait_until_sent :: "nat \<Rightarrow> int \<Rightarrow> bool mxu_m" where
  "mxupcie_wait_until_sent rounds timeout = do {
     s \<leftarrow> gets id;
     if i_type s = PORT_UNKNOWN \<or> i_xmit_fifo_size s = 0 then ret True
     else do {
       orig \<leftarrow> up jiffies;
       let char_time = (word_of_int ((i_timeout s - HZ sdiv 50) sdiv i_xmit_fifo_size s) :: 64 word) div 5;
       let char_time = (if char_time = 0 then 1 else char_time);
       let char_time = (if timeout \<noteq> 0 \<and> word_of_int timeout < char_time then word_of_int timeout else char_time);
       let timeout = (if timeout = 0 \<or> timeout > 2 * i_timeout s then 2 * i_timeout s else timeout);
       u_wait_temt rounds timeout char_time orig } }"

section \<open>An opened port\<close>

lemma clear_pending_effect:
  obtains h where "run_state (up clear_pending) s = ((), s\<lparr>ihist := h\<rparr>)" "\<And>b. u_wire b h = u_wire b (ihist s)"
  by (rule that [of "ihist (snd (run_state (up clear_pending) s))"]) (simp_all add: run_up clear_pending_def)

text \<open>What programming the UART leaves behind.\<close>

lemma program_uart_effect:
  obtains h m t where "run_state u_program_uart s = ((), s\<lparr>ihist := h, i_MCR := m, i_IER := 0xD, i_t := t,
      i_xmit_cnt := 0, i_xmit_head := 0, i_xmit_tail := 0, i_flags := i_flags s OR ASYNC_INITIALIZED\<rparr>)"
    "u_wire (i_base s) h = u_wire (i_base s) (ihist s)"
proof -
  obtain h1 where h1: "run_state (up clear_pending) s = ((), s\<lparr>ihist := h1\<rparr>)"
    "\<And>b. u_wire b h1 = u_wire b (ihist s)"
    using clear_pending_effect [of s] by blast
  define h2 where "h2 = map (\<lambda>(v, off). Out_b v (i_base s + off)) [(0xD, UART_IER),
      (word_of_int (i_rx_high_water s), MOXA_PUART_FCH), (word_of_int (i_rx_low_water s), MOXA_PUART_FCL),
      (word_of_int (i_rx_trigger s), MOXA_PUART_RTL), (word_of_int (i_xmit_fifo_size s), MOXA_PUART_TTL),
      (0xA0, MOXA_PUART_SFR), (MOXA_EFR_ENHANCE, MOXA_PUART_EFR), (3, UART_MCR), (UART_LCR_WLEN8, UART_LCR)] @ h1"
  define u where "u = s\<lparr>i_MCR := 3, i_IER := 0xD, ihist := h2\<rparr>"
  obtain h3 where h3: "run_state (up clear_pending) u = ((), u\<lparr>ihist := h3\<rparr>)"
    "\<And>b. u_wire b h3 = u_wire b (ihist u)"
    using clear_pending_effect [of u] by blast
  have wire: "u_wire (i_base s) h3 = u_wire (i_base s) (ihist s)"
    unfolding h3(2) h1(2) [symmetric] by (simp add: u_def h2_def)
  have run: "run_state u_program_uart s = run_state (do { up clear_pending; up clear_io_error; up clear_ring;
      modify (\<lambda>s. s\<lparr>i_flags := i_flags s OR ASYNC_INITIALIZED\<rparr>) }) u"
    by (simp add: u_program_uart_def h1 u_def h2_def)
  show thesis
    using wire
    by (intro that [of "if i_has_tty s then (i_t s)\<lparr>t_flags := unset_bit TTY_IO_ERROR (t_flags (i_t s))\<rparr> else i_t s" 3 h3])
      (simp add: run h3, simp add: run_up clear_io_error_def clear_ring_def u_def)
qed

lemma use_page_effect:
  obtains h where "run_state (up (use_page page)) s = ((), s\<lparr>i_has_buf := True, ihist := h\<rparr>)"
    "\<And>b. u_wire b h = u_wire b (ihist s)"
proof (cases "i_has_buf s")
  case True
  then have "s\<lparr>i_has_buf := True, ihist := h\<rparr> = s\<lparr>ihist := h\<rparr>" for h by (cases s) simp
  then show thesis
    using True by (intro that [of "Kernel_call ''free_page'' [page] (env_k (ienv s) (ihist s) ''free_page'' [page]) # ihist s"])
      (simp_all add: run_up use_page_def)
next
  case False
  then show thesis by (intro that [of "ihist s"]) (simp_all add: run_up use_page_def)
qed

text \<open>A start-up that gets past its checks, up to the last one: is there a chip?\<close>

lemma startup_run:
  assumes "env_k (ienv s) (ihist s) ''__get_free_page'' [] \<noteq> 0" "i_flags s AND ASYNC_INITIALIZED = 0"
    "i_base s \<noteq> 0" "i_type s \<noteq> 0"
  obtains h lsr h' where "run_state mx_startup s = run_state (if lsr = 0xff then do {
           cap \<leftarrow> kcall ''capable(CAP_SYS_ADMIN)'' [];
           if cap \<noteq> 0 then do { up set_io_error; ret 0 } else ret (-ENODEV) }
         else do { u_program_uart; ret 0 }) (s\<lparr>i_has_buf := True, ihist := h\<rparr>)"
    "u_wire (i_base s) h = u_wire (i_base s) (ihist s)" "lsr = env_b (ienv s) h' (i_base s + UART_LSR)"
proof -
  define page where "page = env_k (ienv s) (ihist s) ''__get_free_page'' []"
  define s1 where "s1 = s\<lparr>ihist := Kernel_call ''__get_free_page'' [] page # ihist s\<rparr>"
  obtain h where h: "run_state (up (use_page page)) s1 = ((), s1\<lparr>i_has_buf := True, ihist := h\<rparr>)"
    "\<And>b. u_wire b h = u_wire b (ihist s1)"
    using use_page_effect [of page s1] by blast
  define f where "f = Out_b (UART_FCR_CLEAR_RCVR OR UART_FCR_CLEAR_XMIT) (i_base s + UART_FCR) # h"
  define lsr where "lsr = env_b (ienv s) f (i_base s + UART_LSR)"
  have "u_wire (i_base s) (In_b (i_base s + UART_LSR) lsr # f) = u_wire (i_base s) (ihist s)"
    by (simp add: f_def h(2) s1_def)
  moreover have "run_state mx_startup s = run_state (if lsr = 0xff then do {
           cap \<leftarrow> kcall ''capable(CAP_SYS_ADMIN)'' [];
           if cap \<noteq> 0 then do { up set_io_error; ret 0 } else ret (-ENODEV) }
         else do { u_program_uart; ret 0 }) (s\<lparr>i_has_buf := True, ihist := In_b (i_base s + UART_LSR) lsr # f\<rparr>)"
    using assms h(1)
    by (simp add: mx_startup_def page_def [symmetric] s1_def u_clear_fifos_def lsr_def f_def)
  ultimately show thesis using that lsr_def by blast
qed

text \<open>A start-up that initialised the port has cleared the ring and left the rest as programmed.\<close>

lemma startup_effect:
  assumes "run_state mx_startup s = (r, t)" "i_flags s AND ASYNC_INITIALIZED = 0" "i_flags t AND ASYNC_INITIALIZED \<noteq> 0"
  shows "r = 0" "i_has_buf t" "u_ring t" "u_queue t = []" "i_has_tty t = i_has_tty s" "i_base t = i_base s"
    "ienv t = ienv s" "u_wire (i_base s) (ihist t) = u_wire (i_base s) (ihist s)" "i_IER t = 0xD"
proof -
  have go: "env_k (ienv s) (ihist s) ''__get_free_page'' [] \<noteq> 0" "i_base s \<noteq> 0" "i_type s \<noteq> 0"
    using assms by (auto simp: mx_startup_def run_up set_io_error_def split: if_splits)
  obtain h lsr h' where s2: "run_state mx_startup s = run_state (if lsr = 0xff then do {
           cap \<leftarrow> kcall ''capable(CAP_SYS_ADMIN)'' [];
           if cap \<noteq> 0 then do { up set_io_error; ret 0 } else ret (-ENODEV) }
         else do { u_program_uart; ret 0 }) (s\<lparr>i_has_buf := True, ihist := h\<rparr>)"
    "u_wire (i_base s) h = u_wire (i_base s) (ihist s)" "lsr = env_b (ienv s) h' (i_base s + UART_LSR)"
    using startup_run [OF go(1) assms(2) go(2,3)] by blast
  define u where "u = s\<lparr>i_has_buf := True, ihist := h\<rparr>"
  note run = s2(1) [folded u_def]
  have "lsr \<noteq> 0xff"
  proof
    assume "lsr = 0xff"
    then have "i_flags t = i_flags s"
      using assms(1) unfolding run by (auto simp: run_up set_io_error_def u_def split: if_splits)
    with assms(2,3) show False by simp
  qed
  obtain h' m tt where p: "run_state u_program_uart u = ((), u\<lparr>ihist := h', i_MCR := m, i_IER := 0xD, i_t := tt,
      i_xmit_cnt := 0, i_xmit_head := 0, i_xmit_tail := 0, i_flags := i_flags u OR ASYNC_INITIALIZED\<rparr>)"
    "u_wire (i_base u) h' = u_wire (i_base u) (ihist u)"
    using program_uart_effect [of u] by blast
  have rt: "r = 0" "t = u\<lparr>ihist := h', i_MCR := m, i_IER := 0xD, i_t := tt,
      i_xmit_cnt := 0, i_xmit_head := 0, i_xmit_tail := 0, i_flags := i_flags u OR ASYNC_INITIALIZED\<rparr>"
    using assms(1) \<open>lsr \<noteq> 0xff\<close> unfolding run by (simp_all add: p(1))
  show "r = 0" "i_has_buf t" "u_ring t" "u_queue t = []" "i_has_tty t = i_has_tty s" "i_base t = i_base s"
    "ienv t = ienv s" "u_wire (i_base s) (ihist t) = u_wire (i_base s) (ihist s)" "i_IER t = 0xD"
    using rt p(2) s2(2) by (simp_all add: u_ring_eq u_queue_eq u_def)
qed

lemma startup_succeeds:
  assumes "env_k (ienv s) (ihist s) ''__get_free_page'' [] \<noteq> 0" "i_flags s AND ASYNC_INITIALIZED = 0"
    "i_base s \<noteq> 0" "i_type s \<noteq> 0" "\<forall>h. env_b (ienv s) h (i_base s + UART_LSR) \<noteq> 0xff"
  shows "i_flags (snd (run_state mx_startup s)) = i_flags s OR ASYNC_INITIALIZED"
proof -
  obtain h lsr h' where s2: "run_state mx_startup s = run_state (if lsr = 0xff then do {
           cap \<leftarrow> kcall ''capable(CAP_SYS_ADMIN)'' [];
           if cap \<noteq> 0 then do { up set_io_error; ret 0 } else ret (-ENODEV) }
         else do { u_program_uart; ret 0 }) (s\<lparr>i_has_buf := True, ihist := h\<rparr>)"
    "lsr = env_b (ienv s) h' (i_base s + UART_LSR)"
    using startup_run [OF assms(1-4)] by blast
  define u where "u = s\<lparr>i_has_buf := True, ihist := h\<rparr>"
  have "i_flags (snd (run_state u_program_uart u)) = i_flags u OR ASYNC_INITIALIZED"
    using program_uart_effect [of u] by (metis (no_types, lifting) mxport.select_convs(10) mxport.surjective mxport.update_convs(10) snd_conv)
  then show ?thesis
    using s2 assms(5) by (simp add: case_prod_beta flip: u_def) (simp add: u_def)
qed

text \<open>
  C30. An opened port starts with an empty stream: after a start-up that initialised the port, whatever the
  transmit side does, the bytes that reach the chip are a prefix of the bytes accepted since, and the
  rest waits in the ring; nothing written before the port was opened is sent.
\<close>

theorem opened_port_streams:
  assumes "run_state mx_startup s = (r, t)" "i_flags s AND ASYNC_INITIALIZED = 0" "i_flags t AND ASYNC_INITIALIZED \<noteq> 0"
    and "i_has_tty s" "tcnt_ok s" "run_state (run_calls u_tx_call calls) t = (accepted, u)"
  shows "r = 0 \<and> (\<exists>sent. u_wire (i_base u) (ihist u) = u_wire (i_base s) (ihist s) @ sent \<and>
    sent @ u_queue u = accepted)"
proof -
  note e = startup_effect [OF assms(1-3)]
  have "u_ready t"
    using e assms(4,5) by (simp add: u_ready_def tcnt_ok_def)
  from utx.stream [OF this, of calls] show ?thesis
    using e assms(6) by simp
qed


definition fresh_uport :: mxuport where
  "fresh_uport = uport_example\<lparr>ienv := \<lparr>env_b = (\<lambda>_ _. 0), env_w = (\<lambda>_ _. 0), env_l = (\<lambda>_ _. 0), env_k = (\<lambda>_ _ _. 1)\<rparr>,
     i_flags := 0, i_type := PORT_16550A\<rparr>"

lemma opened_port_streams_witness:
  "let t = snd (run_state mx_startup fresh_uport);
       (accepted, u) = run_state (run_calls u_tx_call [Call_write [7, 8], Irq_transmit]) t
   in \<exists>sent. u_wire (i_base u) (ihist u) = sent \<and> sent @ u_queue u = accepted"
proof -
  have c: "env_k (ienv fresh_uport) (ihist fresh_uport) ''__get_free_page'' [] \<noteq> 0"
    "i_flags fresh_uport AND ASYNC_INITIALIZED = 0" "i_base fresh_uport \<noteq> 0" "i_type fresh_uport \<noteq> 0"
    "\<forall>h. env_b (ienv fresh_uport) h (i_base fresh_uport + UART_LSR) \<noteq> 0xff" "i_has_tty fresh_uport"
    "tcnt_ok fresh_uport" "ihist fresh_uport = []"
    by (simp_all add: fresh_uport_def tcnt_ok_def)
  let ?t = "snd (run_state mx_startup fresh_uport)"
  have "i_flags ?t AND ASYNC_INITIALIZED \<noteq> 0"
    using startup_succeeds [OF c(1-5)] by (simp add: fresh_uport_def)
  from opened_port_streams [OF prod.collapse [symmetric] c(2) this c(6,7) prod.collapse [symmetric]]
  show ?thesis using c(8) by (auto simp: Let_def case_prod_beta simp del: run_calls.simps)
qed

end
