(* ===== verification/Mxu_Ioctl.thy ===== *)
theory Mxu_Ioctl
  imports Mxu_Ops Mxser_IoctlProps
begin

text \<open>
  The device controls of the PCI Express serial driver, \<open>modules/mxser/mxupcie.c\<close>: modem control lines,
  serial info, special baud rates, interface and terminator requests, and the requests on the
  control device.

  The requests the driver shares with the older one are the constructors of \<open>mx_cmd\<close>; those it does
  not know are answered as unknown.  \<open>MOXA_SET_SPECIAL_BAUD_RATE\<close> and \<open>SMARTIO_SET_SPECIAL_BAUD_RATE\<close>
  are two numbers of one request.
\<close>

section \<open>Modem control lines\<close>

definition u_tiocmget :: "int mxu_m" where
  "u_tiocmget = do {
     s \<leftarrow> gets id;
     if bit (t_flags (i_t s)) TTY_IO_ERROR then ret (-EIO)
     else do {
       let control = i_MCR s;
       status \<leftarrow> reg_in UART_MSR;
       let status = (ucast status :: u32);
       whenM (status AND UART_MSR_ANY_DELTA \<noteq> 0) (mx_check_modem_status status);
       ret (uint ((if control AND UART_MCR_RTS \<noteq> 0 then TIOCM_RTS else 0)
         OR (if control AND UART_MCR_DTR \<noteq> 0 then TIOCM_DTR else 0)
         OR (if status AND UART_MSR_DCD \<noteq> 0 then TIOCM_CAR else 0)
         OR (if status AND UART_MSR_RI \<noteq> 0 then TIOCM_RNG else 0)
         OR (if status AND UART_MSR_DSR \<noteq> 0 then TIOCM_DSR else 0)
         OR (if status AND UART_MSR_CTS \<noteq> 0 then TIOCM_CTS else 0))) } }"

definition mxupcie_tiocmget :: "nat \<Rightarrow> int udrv_m" where
  "mxupcie_tiocmget line = (if line = 32 then ret (-ENOIOCTLCMD) else on_uport line (-1) u_tiocmget)"

definition mxupcie_tiocmset :: "nat \<Rightarrow> u32 \<Rightarrow> u32 \<Rightarrow> int udrv_m" where
  "mxupcie_tiocmset line to_set to_clear =
    (if line = 32 then ret (-ENOIOCTLCMD) else on_uport line (-1) (up (mxser_tiocmset to_set to_clear)))"

section \<open>Serial info\<close>

text \<open>The C expression \<open>*info->base\<close> reads the first register of the chip, the receive register.\<close>

definition deref_base :: "u8 mxu_m" where
  "deref_base = do {
     b \<leftarrow> gets i_base;
     whenM (b = 0) (undefined_c ''info->base is null'');
     reg_in 0 }"

definition mx_get_serial_info :: "'u uarg \<Rightarrow> int mxu_m" where
  "mx_get_serial_info u = do {
     s \<leftarrow> gets id;
     p \<leftarrow> deref_base;
     n \<leftarrow> copy_to_user u [i_type s, int (i_port s), uint p, i_irq s, uint (i_flags s),
       i_baud_base s, i_close_delay s, i_closing_wait s, i_custom_divisor s, 0];
     ret (if n \<noteq> 0 then -EFAULT else 0) }"

definition mx_process_txrx_fifo :: "unit mxu_m" where
  "mx_process_txrx_fifo = modify (\<lambda>s.
     if i_type s = PORT_16450 \<or> i_type s = PORT_8250 then
       s\<lparr>i_rx_trigger := 1, i_rx_high_water := 1, i_rx_low_water := 1, i_xmit_fifo_size := 1\<rparr>
     else s\<lparr>i_rx_trigger := 96, i_rx_high_water := 110, i_rx_low_water := 16, i_xmit_fifo_size := MX_TX_FIFO_SIZE\<rparr>)"

definition u_ser_apply :: "u32 \<Rightarrow> serial_struct \<Rightarrow> int mxu_m" where
  "u_ser_apply old_spd new = do {
     modify (\<lambda>s. s\<lparr>i_type := ser_type new\<rparr>);
     mx_process_txrx_fifo;
     s \<leftarrow> gets id;
     if i_flags s AND ASYNC_INITIALIZED \<noteq> 0 then do {
       whenM (old_spd \<noteq> i_flags s AND ASYNC_SPD_MASK) (do { _ \<leftarrow> mx_change_speed; ret () });
       ret 0 }
     else mx_startup }"

definition mx_set_serial_info :: "serial_struct uarg \<Rightarrow> int mxu_m" where
  "mx_set_serial_info u = do {
     s \<leftarrow> gets id;
     if i_base s = 0 then ret (-EFAULT)
     else if ua_left u \<noteq> 0 then ret (-EFAULT)
     else do {
       let new = ua_in u;
       refused \<leftarrow> (if ser_irq new \<noteq> i_irq s then ret True
         else do { p \<leftarrow> deref_base; ret (ser_port new \<noteq> unat p) });
       if refused then ret (-EPERM)
       else do {
         cap \<leftarrow> kcall ''capable(CAP_SYS_ADMIN)'' [];
         let old_spd = i_flags s AND ASYNC_SPD_MASK;
         if cap = 0 then
           (if ser_baud_base new \<noteq> i_baud_base s \<or> ser_close_delay new \<noteq> i_close_delay s \<or>
               ser_flags new AND NOT ASYNC_USR_MASK \<noteq> i_flags s AND NOT ASYNC_USR_MASK
            then ret (-EPERM)
            else do {
              modify (\<lambda>s. s\<lparr>i_flags := i_flags s AND NOT ASYNC_USR_MASK OR (ser_flags new AND ASYNC_USR_MASK)\<rparr>);
              u_ser_apply old_spd new })
         else do {
           up (ser_privileged new);
           u_ser_apply old_spd new } } } }"

definition mx_get_lsr_info :: "'u uarg \<Rightarrow> int mxu_m" where
  "mx_get_lsr_info u = up (mxser_get_lsr_info u)"

section \<open>Requests on a port\<close>

definition u_set_special_baud :: "int uarg \<Rightarrow> int mxu_m" where
  "u_set_special_baud u = access_ok (do {
     s \<leftarrow> gets id;
     let speed = from_user u;
     if speed \<le> 0 \<or> speed > i_MaxCanSetBaudRate s then ret (-EFAULT)
     else if \<not> i_has_tty s \<or> i_base s = 0 then ret 0
     else do {
       up (set_t (\<lambda>t. t\<lparr>t_termios := (t_termios t)\<lparr>c_cflag := c_cflag (t_termios t) AND NOT CBAUD_CBAUDEX
         OR (if speed \<notin> set mxvar_baud_table then 0x100F else termios_code speed)\<rparr>\<rparr>));
       modify (\<lambda>s. s\<lparr>i_speed := speed\<rparr>);
       _ \<leftarrow> mx_change_speed;
       ret 0 } })"

datatype mxu_cmd =
    Serial_cmd mx_cmd
  | SMARTIO_PUART_SET_INTERFACE u8 | SMARTIO_PUART_GET_INTERFACE "unit uarg"
  | SMARTIO_PUART_SET_TERMINATOR u8 | SMARTIO_PUART_GET_TERMINATOR "unit uarg"

definition u_some :: "int mxu_m \<Rightarrow> int option mxu_m" where
  "u_some m = do { r \<leftarrow> m; ret (Some r) }"

definition u_checked_break :: "bool \<Rightarrow> int \<Rightarrow> int mxu_m" where
  "u_checked_break send duration = do {
     retval \<leftarrow> kcall ''tty_check_change'' [];
     if retval \<noteq> 0 then ret retval
     else do {
       knote ''tty_wait_until_sent'' [0];
       whenM send (mx_send_break duration);
       ret 0 } }"

definition u_reply :: "'u uarg \<Rightarrow> u8 \<Rightarrow> int mxu_m" where
  "u_reply u v = do { n \<leftarrow> copy_to_user u [uint v]; ret (if n \<noteq> 0 then -EFAULT else 0) }"

text \<open>\<open>sched\<close> and \<open>rounds\<close>: what happens to the port while \<open>TIOCMIWAIT\<close> sleeps, and how often it may.\<close>

definition u_serial_cmd :: "unit mx_m \<Rightarrow> nat \<Rightarrow> mx_cmd \<Rightarrow> int option mxu_m" where
  "u_serial_cmd sched rounds cmd = (case cmd of
     TCSBRK arg \<Rightarrow> u_some (u_checked_break (arg = 0) (HZ sdiv 4))
   | TCSBRKP arg \<Rightarrow> u_some (u_checked_break True (if arg \<noteq> 0 then arg * (HZ sdiv 10) else HZ sdiv 4))
   | TIOCGSOFTCAR u \<Rightarrow> up (mxser_ioctl_tty sched rounds (TIOCGSOFTCAR u))
   | TIOCSSOFTCAR u \<Rightarrow> up (mxser_ioctl_tty sched rounds (TIOCSSOFTCAR u))
   | TIOCGSERIAL u \<Rightarrow> u_some (access_ok (mx_get_serial_info u))
   | TIOCSSERIAL u \<Rightarrow> u_some (access_ok (mx_set_serial_info u))
   | TIOCSERGETLSR u \<Rightarrow> u_some (access_ok (mx_get_lsr_info u))
   | TIOCMIWAIT arg \<Rightarrow> up (mxser_ioctl_tty sched rounds (TIOCMIWAIT arg))
   | TIOCGICOUNT u \<Rightarrow> u_some (up (get_icount u))
   | _ \<Rightarrow> ret (Some (-ENOIOCTLCMD)))"

definition u_port_cmd :: "bool \<Rightarrow> unit mx_m \<Rightarrow> nat \<Rightarrow> mxu_cmd \<Rightarrow> int option mxu_m" where
  "u_port_cmd v2616a sched rounds cmd = (case cmd of
     Serial_cmd c \<Rightarrow> u_serial_cmd sched rounds c
   | SMARTIO_PUART_SET_INTERFACE v \<Rightarrow> u_some (mx_set_interface v2616a v)
   | SMARTIO_PUART_GET_INTERFACE u \<Rightarrow> u_some (do { v \<leftarrow> gets u_UIR; u_reply u v })
   | SMARTIO_PUART_SET_TERMINATOR v \<Rightarrow> u_some (mx_set_terminator v)
   | SMARTIO_PUART_GET_TERMINATOR u \<Rightarrow> u_some (do { v \<leftarrow> gets u_terminator_flag; u_reply u v }))"

definition u_ioctl_port :: "bool \<Rightarrow> unit mx_m \<Rightarrow> nat \<Rightarrow> mxu_cmd \<Rightarrow> int option mxu_m" where
  "u_ioctl_port v2616a sched rounds cmd = (case cmd of
     Serial_cmd (MOXA_SET_SPECIAL_BAUD_RATE u) \<Rightarrow> u_some (u_set_special_baud u)
   | Serial_cmd (MOXA_GET_SPECIAL_BAUD_RATE u) \<Rightarrow> up (some_m (get_special_baud u))
   | _ \<Rightarrow> do {
       t \<leftarrow> gets i_t;
       let exempt = (case cmd of Serial_cmd (TIOCGSERIAL _) \<Rightarrow> True | Serial_cmd (TIOCMIWAIT _) \<Rightarrow> True
         | Serial_cmd (TIOCGICOUNT _) \<Rightarrow> True | _ \<Rightarrow> False);
       if \<not> exempt \<and> bit (t_flags t) TTY_IO_ERROR then ret (Some (-EIO))
       else u_port_cmd v2616a sched rounds cmd })"

section \<open>Requests on the control device\<close>

definition uhw_words :: "mxupcie_hwconf \<Rightarrow> int list" where
  "uhw_words h = [uh_board_type h, int (uh_ports h), uh_irq h, int (uh_iobar3_addr h), uint (uh_vector_mask h),
     uh_uart_type h] @ map int (uh_ioaddr h) @ uh_baud_base h @ [uh_busNum h, uh_devNum h, uh_pdev h,
     uh_IsMoxaMustChipFlag h] @ uh_MaxCanSetBaudRate h @ map int (uh_opmode_ioaddr h)"

definition u_drv_reply :: "unit uarg \<Rightarrow> int list \<Rightarrow> int udrv_m" where
  "u_drv_reply u vs = do { n \<leftarrow> copy_to_user u vs; ret (if n \<noteq> 0 then -EFAULT else 0) }"

definition upd_uGMStatus :: "nat \<Rightarrow> (mxser_mstatus \<Rightarrow> mxser_mstatus) \<Rightarrow> unit udrv_m" where
  "upd_uGMStatus i f = modify (\<lambda>d. d\<lparr>ud_GMStatus := (ud_GMStatus d)[i := f (ud_GMStatus d ! i)]\<rparr>)"

definition u_gm_status :: "nat \<Rightarrow> unit udrv_m" where
  "u_gm_status i = do {
     upd_uGMStatus i (\<lambda>g. g\<lparr>ms_ri := 0\<rparr>);
     p \<leftarrow> gets (\<lambda>d. ud_ports d ! i);
     if i_base p = 0 then upd_uGMStatus i (\<lambda>g. g\<lparr>ms_dcd := 0, ms_dsr := 0, ms_cts := 0\<rparr>)
     else do {
       upd_uGMStatus i (\<lambda>g. g\<lparr>ms_cflag := c_cflag (termios_now (mxport.truncate p))\<rparr>);
       status \<leftarrow> inb (i_base p + UART_MSR);
       upd_uGMStatus i (\<lambda>g. g\<lparr>ms_dcd := line_of status 0x80, ms_dsr := line_of status 0x20,
         ms_cts := line_of status 0x10\<rparr>) } }"

fun for_uports :: "(nat \<Rightarrow> unit udrv_m) \<Rightarrow> nat \<Rightarrow> nat \<Rightarrow> unit udrv_m" where
  "for_uports f i 0 = ret ()"
| "for_uports f i (Suc k) = do { f i; for_uports f (i + 1) k }"

definition mx_ioctl_special :: "special_cmd \<Rightarrow> int udrv_m" where
  "mx_ioctl_special cmd = (case cmd of
     MOXA_GET_CONF u \<Rightarrow> access_ok (do { c \<leftarrow> gets ud_cfg; u_drv_reply u (concat (map uhw_words c)) })
   | MOXA_GET_MAJOR u \<Rightarrow> access_ok (do { n \<leftarrow> gets ud_ttymajor; u_drv_reply u [n] })
   | MOXA_GET_CUMAJOR u \<Rightarrow> access_ok (do { n \<leftarrow> gets ud_calloutmajor; u_drv_reply u [n] })
   | MOXA_CHKPORTENABLE u \<Rightarrow> access_ok (do {
       ps \<leftarrow> gets ud_ports;
       _ \<leftarrow> put_user u (uint (ports_enabled (map mxport.truncate ps)));
       ret 0 })
   | MOXA_GETDATACOUNT u \<Rightarrow> access_ok (do {
       ps \<leftarrow> gets ud_ports;
       u_drv_reply u (0 # map (uint \<circ> g_rxcnt) ps @ map (uint \<circ> g_txcnt) ps) })
   | MOXA_GETMSTATUS u \<Rightarrow> access_ok (do {
       for_uports u_gm_status 0 32;
       g \<leftarrow> gets ud_GMStatus;
       u_drv_reply u (concat (map gm_words g)) })
   | _ \<Rightarrow> ret (-ENOIOCTLCMD))"

text \<open>The request on line 32 goes to the control device, the others to their port.\<close>

definition mxupcie_ioctl :: "bool \<Rightarrow> unit mx_m \<Rightarrow> nat \<Rightarrow> nat \<Rightarrow> special_cmd \<Rightarrow> mxu_cmd \<Rightarrow> int option udrv_m" where
  "mxupcie_ioctl v2616a sched rounds line special cmd =
    (if line = 32 then do { r \<leftarrow> mx_ioctl_special special; ret (Some r) }
     else on_uport line None (u_ioctl_port v2616a sched rounds cmd))"

section \<open>A special baud rate is read back\<close>

lemma same_but_trace: "t\<lparr>ihist := []\<rparr> = s\<lparr>ihist := []\<rparr> \<Longrightarrow> t = s\<lparr>ihist := ihist t\<rparr>"
  by (cases t; cases s) simp

lemma write_div_scr_frame: "(snd (run_state (write_div_scr d v) s))\<lparr>ihist := []\<rparr> = s\<lparr>ihist := []\<rparr>"
  by (simp add: write_div_scr_def)

lemma set_linear_frame:
  obtains r h where "run_state (set_linear_baud n) s = (r, s\<lparr>ihist := h\<rparr>)"
proof (cases "run_state (set_linear_baud n) s")
  case (Pair r t)
  obtain scr dv cpr where l: "linear_regs n = (scr, dv, cpr)" by (cases "linear_regs n") auto
  have "t\<lparr>ihist := []\<rparr> = s\<lparr>ihist := []\<rparr>"
    using arg_cong [OF Pair, of snd]
    by (auto simp: set_linear_baud_def l write_div_scr_frame whenM_def undefined_c_def case_prod_beta split: if_splits)
  then have "t = s\<lparr>ihist := ihist t\<rparr>" by (rule same_but_trace)
  then have "(r, t) = (r, s\<lparr>ihist := ihist t\<rparr>)" by (rule arg_cong)
  with Pair have "run_state (set_linear_baud n) s = (r, s\<lparr>ihist := ihist t\<rparr>)" by (rule trans)
  then show thesis by (rule that)
qed

text \<open>Programming a rate keeps the stored speed, but for 134, which it stores itself.\<close>

lemma set_baud_keeps:
  shows "i_speed (snd (run_state (mx_set_baud n) s)) \<in> {i_speed s, n}"
    "ienv (snd (run_state (mx_set_baud n) s)) = ienv s"
proof -
  obtain r h where l: "run_state (set_linear_baud n) (s\<lparr>i_realbaud := n\<rparr>) = (r, s\<lparr>i_realbaud := n, ihist := h\<rparr>)"
    using set_linear_frame [of n "s\<lparr>i_realbaud := n\<rparr>"] by force
  show "i_speed (snd (run_state (mx_set_baud n) s)) \<in> {i_speed s, n}"
    "ienv (snd (run_state (mx_set_baud n) s)) = ienv s"
    by (auto simp: mx_set_baud_def u_baud_quot_def l table_divisor_def whenM_def undefined_c_def Let_def)
qed

lemma set_termios_speed_effect:
  assumes "run_state (u_set_termios_speed cflag) s = (r, t)"
  shows "i_speed t = (case termios_baud cflag (i_flags s) (i_custom_baud_rate s) of None \<Rightarrow> i_speed s | Some b \<Rightarrow> b)"
    "ienv t = ienv s"
  using assms set_baud_keeps [of "i_speed s" s] set_baud_keeps [of b "s\<lparr>i_speed := b\<rparr>" for b]
  by (auto simp: u_set_termios_speed_def case_prod_beta split: option.splits)

lemma change_speed_effect:
  assumes "i_has_tty s" "i_base s \<noteq> 0"
  shows "i_speed (snd (run_state mx_change_speed s)) =
      (case termios_baud (c_cflag (t_termios (i_t s))) (i_flags s) (i_custom_baud_rate s) of
         None \<Rightarrow> i_speed s | Some b \<Rightarrow> b)"
    "ienv (snd (run_state mx_change_speed s)) = ienv s"
proof -
  obtain r t where t: "run_state (u_set_termios_speed (c_cflag (t_termios (i_t s)))) s = (r, t)"
    by (cases "run_state (u_set_termios_speed (c_cflag (t_termios (i_t s)))) s")
  show "i_speed (snd (run_state mx_change_speed s)) =
      (case termios_baud (c_cflag (t_termios (i_t s))) (i_flags s) (i_custom_baud_rate s) of
         None \<Rightarrow> i_speed s | Some b \<Rightarrow> b)"
    "ienv (snd (run_state mx_change_speed s)) = ienv s"
    using assms set_termios_speed_effect [OF t] by (simp_all add: mx_change_speed_def t Let_def)
qed

text \<open>
  Special baud rates.  On an open port whose flags do not divert 38400 baud, a rate within the
  port's limit is accepted, listed or not, and the request that reads the rate answers it; the
  termios code set, the decoding by the line settings and the stored speed agree.
\<close>

theorem u_special_baud_read_back:
  assumes "i_has_tty s" "i_base s \<noteq> 0" "i_flags s AND ASYNC_SPD_MASK = 0" "ua_left w = 0" "ua_out v = 0"
    "0 < ua_in w" "ua_in w \<le> i_MaxCanSetBaudRate s" "\<forall>h. env_k (ienv s) h ''access_ok'' [] \<noteq> 0"
  shows "let (r, t) = run_state (u_ioctl_port v2616a sched n (Serial_cmd (MOXA_SET_SPECIAL_BAUD_RATE w))) s;
      (r', t') = run_state (u_ioctl_port v2616a sched n (Serial_cmd (MOXA_GET_SPECIAL_BAUD_RATE v))) t
    in r = Some 0 \<and> r' = Some 0 \<and> hd (ihist t') = To_user [ua_in w]"
proof -
  let ?code = "if ua_in w \<notin> set mxvar_baud_table then 0x100F else termios_code (ua_in w)"
  define c where "c = c_cflag (t_termios (i_t s)) AND NOT CBAUD_CBAUDEX"
  have c: "c AND CBAUD_CBAUDEX = 0" by (simp add: c_def and.assoc)
  define u where "u = s\<lparr>ihist := Kernel_call ''access_ok'' [] (env_k (ienv s) (ihist s) ''access_ok'' []) # ihist s,
    i_t := (i_t s)\<lparr>t_termios := (t_termios (i_t s))\<lparr>c_cflag := c OR ?code\<rparr>\<rparr>, i_speed := ua_in w\<rparr>"
  obtain r t where t: "run_state mx_change_speed u = (r, t)" by (cases "run_state mx_change_speed u")
  have "i_speed t = ua_in w" "ienv t = ienv s"
    using change_speed_effect [of u] t baud_code_roundtrip [OF assms(3) c assms(6), of "i_custom_baud_rate s"] assms(1,2)
    by (simp_all add: u_def split: if_splits)
  moreover have "run_state (u_ioctl_port v2616a sched n (Serial_cmd (MOXA_SET_SPECIAL_BAUD_RATE w))) s = (Some 0, t)"
    using assms t by (simp add: u_ioctl_port_def u_some_def u_set_special_baud_def access_ok_def from_user_def
        Let_def run_up c_def u_def)
  ultimately show ?thesis
    using assms(5,8) by (simp add: u_ioctl_port_def get_special_baud_def access_ok_def run_up some_m_def)
qed

lemma u_special_baud_read_back_witness:
  "let s = uport_example\<lparr>i_MaxCanSetBaudRate := 921600, i_flags := 0, ienv := mode_env\<rparr>;
     w = \<lparr>ua_left = 0, ua_in = 500000, ua_out = 0\<rparr>;
     (r, t) = run_state (u_ioctl_port False (ret ()) 1 (Serial_cmd (MOXA_SET_SPECIAL_BAUD_RATE w))) s;
     (r', t') = run_state (u_ioctl_port False (ret ()) 1 (Serial_cmd (MOXA_GET_SPECIAL_BAUD_RATE w))) t
   in r = Some 0 \<and> r' = Some 0 \<and> hd (ihist t') = To_user [500000]"
  using u_special_baud_read_back [of "uport_example\<lparr>i_MaxCanSetBaudRate := 921600, i_flags := 0, ienv := mode_env\<rparr>"
      "\<lparr>ua_left = 0, ua_in = 500000, ua_out = 0\<rparr>" "\<lparr>ua_left = 0, ua_in = 500000, ua_out = 0\<rparr>" False "ret ()" 1]
  by (simp add: mode_env_def latch_env_def)


section \<open>Serial info\<close>

lemma startup_result: "fst (run_state mx_startup s) \<in> {0, -ENOMEM, -ENODEV}"
  by (auto simp: mx_startup_def case_prod_beta)

lemma ser_apply_result: "fst (run_state (u_ser_apply old new) s) \<in> {0, -ENOMEM, -ENODEV}"
  using startup_result by (auto simp: u_ser_apply_def case_prod_beta mx_process_txrx_fifo_def)

text \<open>
  Setting the serial info.  A request that is refused changes nothing of the port but takes a
  byte from the receive register; one that is not refused names the port's interrupt and, as the
  port's address, the byte the receive register held: \<open>*info->base\<close> is the register and
  not the address that the reply of \<open>TIOCGSERIAL\<close> should carry.
\<close>

theorem u_serial_info_guard:
  "let (r, t) = run_state (mx_set_serial_info u) s in
     if r = -EFAULT \<or> r = -EPERM then t\<lparr>ihist := []\<rparr> = s\<lparr>ihist := []\<rparr>
     else i_base s \<noteq> 0 \<and> ua_left u = 0 \<and> ser_irq (ua_in u) = i_irq s \<and>
       ser_port (ua_in u) = unat (env_b (ienv s) (ihist s) (i_base s))"
proof -
  have r: "fst (run_state (u_ser_apply old new) x) \<noteq> -EFAULT" "fst (run_state (u_ser_apply old new) x) \<noteq> -EPERM"
    for old new x using ser_apply_result [of old new x] by auto
  show ?thesis
    using r by (auto simp: mx_set_serial_info_def deref_base_def case_prod_beta Let_def whenM_def
        split: if_splits)
qed

end
