(* ===== verification/Mxu11_Buf.thy ===== *)
theory Mxu11_Buf
  imports Interfaces
begin

text \<open>
  The write buffer of the USB serial driver, \<open>modules/mxu11x0/driver/mxu11x0.c\<close>: a circular buffer of
  1024 bytes of which one is never used, filled and emptied in at most two blocks.  The index arithmetic
  is the kernel's (\<open>linux/circ_buf.h\<close>, not in the repository): the four macros are a parameter, and
  \<open>circ_ok\<close> is what their documentation says of them.
\<close>

abbreviation "MXU1_WRITE_BUF_SIZE \<equiv> 1024 :: int"

record circ_macros =
  CIRC_CNT :: "int \<Rightarrow> int \<Rightarrow> int \<Rightarrow> int"
  CIRC_SPACE :: "int \<Rightarrow> int \<Rightarrow> int \<Rightarrow> int"
  CIRC_CNT_TO_END :: "int \<Rightarrow> int \<Rightarrow> int \<Rightarrow> int"
  CIRC_SPACE_TO_END :: "int \<Rightarrow> int \<Rightarrow> int \<Rightarrow> int"

record circ_buf =
  cb_buf :: "int \<Rightarrow> u8"
  cb_head :: int
  cb_tail :: int

section \<open>Operations\<close>

definition mxu1_buf_clear :: "circ_buf \<Rightarrow> circ_buf" where
  "mxu1_buf_clear cb = cb\<lparr>cb_head := 0, cb_tail := 0\<rparr>"

definition mxu1_buf_data_avail :: "circ_macros \<Rightarrow> circ_buf \<Rightarrow> int" where
  "mxu1_buf_data_avail cm cb = CIRC_CNT cm (cb_head cb) (cb_tail cb) MXU1_WRITE_BUF_SIZE"

definition mxu1_buf_space_avail :: "circ_macros \<Rightarrow> circ_buf \<Rightarrow> int" where
  "mxu1_buf_space_avail cm cb = CIRC_SPACE cm (cb_head cb) (cb_tail cb) MXU1_WRITE_BUF_SIZE"

definition copy_in :: "u8 list \<Rightarrow> circ_buf \<Rightarrow> circ_buf" where
  "copy_in bs cb = cb\<lparr>cb_buf := (\<lambda>i. if cb_head cb \<le> i \<and> i < cb_head cb + int (length bs)
       then bs ! nat (i - cb_head cb) else cb_buf cb i),
     cb_head := (cb_head cb + int (length bs)) AND (MXU1_WRITE_BUF_SIZE - 1)\<rparr>"

definition copy_out :: "nat \<Rightarrow> circ_buf \<Rightarrow> u8 list \<times> circ_buf" where
  "copy_out c cb = (map (\<lambda>k. cb_buf cb (cb_tail cb + int k)) [0..<c],
     cb\<lparr>cb_tail := (cb_tail cb + int c) AND (MXU1_WRITE_BUF_SIZE - 1)\<rparr>)"

text \<open>The count copied, and the buffer.\<close>

function mxu1_buf_put :: "circ_macros \<Rightarrow> u8 list \<Rightarrow> circ_buf \<Rightarrow> int \<times> circ_buf" where
  "mxu1_buf_put cm buf cb =
    (let c = CIRC_SPACE_TO_END cm (cb_head cb) (cb_tail cb) MXU1_WRITE_BUF_SIZE;
         c = (if int (length buf) < c then int (length buf) else c)
     in if c \<le> 0 then (0, cb)
        else let (r, cb') = mxu1_buf_put cm (drop (nat c) buf) (copy_in (take (nat c) buf) cb)
          in (c + r, cb'))"
  by pat_completeness auto
termination
  by (relation "measure (\<lambda>(cm, buf, cb). length buf)") (auto split: if_splits)

function mxu1_buf_get :: "circ_macros \<Rightarrow> int \<Rightarrow> circ_buf \<Rightarrow> u8 list \<times> circ_buf" where
  "mxu1_buf_get cm count cb =
    (let c = CIRC_CNT_TO_END cm (cb_head cb) (cb_tail cb) MXU1_WRITE_BUF_SIZE;
         c = (if count < c then count else c)
     in if c \<le> 0 then ([], cb)
        else let (bs, cb') = copy_out (nat c) cb;
                 (bs', cb'') = mxu1_buf_get cm (count - c) cb'
          in (bs @ bs', cb''))"
  by pat_completeness auto
termination
  by (relation "measure (\<lambda>(cm, count, cb). nat count)") (auto split: if_splits)

declare mxu1_buf_put.simps [simp del] mxu1_buf_get.simps [simp del]

section \<open>The buffer is a queue\<close>

definition circ_ok :: "circ_macros \<Rightarrow> bool" where
  "circ_ok cm \<longleftrightarrow> (\<forall>h t. 0 \<le> h \<and> h < 1024 \<and> 0 \<le> t \<and> t < 1024 \<longrightarrow>
     CIRC_CNT cm h t 1024 = (h - t) mod 1024 \<and>
     CIRC_SPACE cm h t 1024 = (t - h - 1) mod 1024 \<and>
     CIRC_CNT_TO_END cm h t 1024 = min ((h - t) mod 1024) (1024 - t) \<and>
     CIRC_SPACE_TO_END cm h t 1024 = min ((t - h - 1) mod 1024) (1024 - h))"

definition linux_circ :: circ_macros where
  "linux_circ = \<lparr>CIRC_CNT = (\<lambda>h t n. (h - t) mod n), CIRC_SPACE = (\<lambda>h t n. (t - h - 1) mod n),
     CIRC_CNT_TO_END = (\<lambda>h t n. min ((h - t) mod n) (n - t)),
     CIRC_SPACE_TO_END = (\<lambda>h t n. min ((t - h - 1) mod n) (n - h))\<rparr>"

lemma linux_circ_ok [simp]: "circ_ok linux_circ"
  by (simp add: circ_ok_def linux_circ_def)

definition cb_ok :: "circ_buf \<Rightarrow> bool" where
  "cb_ok cb \<longleftrightarrow> 0 \<le> cb_head cb \<and> cb_head cb < 1024 \<and> 0 \<le> cb_tail cb \<and> cb_tail cb < 1024"

definition cb_count :: "circ_buf \<Rightarrow> int" where
  "cb_count cb = (cb_head cb - cb_tail cb) mod 1024"

definition cb_queue :: "circ_buf \<Rightarrow> u8 list" where
  "cb_queue cb = map (\<lambda>k. cb_buf cb ((cb_tail cb + int k) mod 1024)) [0..<nat (cb_count cb)]"

lemma and_1023: "(x :: int) AND 1023 = x mod 1024"
  using take_bit_eq_mask [of 10 x] by (simp add: take_bit_eq_mod mask_eq_exp_minus_1)

lemma wrap: "0 \<le> x \<Longrightarrow> x < 2048 \<Longrightarrow> x mod (1024 :: int) = (if x < 1024 then x else x - 1024)"
  by (cases "x < 1024", simp) (metis diff_ge_0_iff_ge diff_less_eq minus_mod_self2 mod_pos_pos_trivial
    not_less one_add_one numeral_Bit0 add.commute)

lemma wrap_neg: "- 1024 \<le> x \<Longrightarrow> x < 1024 \<Longrightarrow> x mod (1024 :: int) = (if 0 \<le> x then x else x + 1024)"
  using wrap [of "x + 1024"] by (simp add: split: if_splits)

lemma cb_count_eq: "cb_ok cb \<Longrightarrow> cb_count cb = (if cb_tail cb \<le> cb_head cb then cb_head cb - cb_tail cb
    else cb_head cb - cb_tail cb + 1024)"
  by (simp add: cb_count_def cb_ok_def wrap_neg)

lemma cb_count_bounds: "0 \<le> cb_count cb" "cb_count cb < 1024"
  by (simp_all add: cb_count_def)

lemma length_cb_queue [simp]: "length (cb_queue cb) = nat (cb_count cb)"
  by (simp add: cb_queue_def)

lemma nth_cb_queue: "int k < cb_count cb \<Longrightarrow> cb_queue cb ! k = cb_buf cb ((cb_tail cb + int k) mod 1024)"
  by (simp add: cb_queue_def zless_nat_eq_int_zless)

lemma macros:
  assumes "circ_ok cm" "cb_ok cb"
  shows "mxu1_buf_data_avail cm cb = cb_count cb" "mxu1_buf_space_avail cm cb = 1023 - cb_count cb"
    "CIRC_CNT_TO_END cm (cb_head cb) (cb_tail cb) 1024 = min (cb_count cb) (1024 - cb_tail cb)"
    "CIRC_SPACE_TO_END cm (cb_head cb) (cb_tail cb) 1024 = min (1023 - cb_count cb) (1024 - cb_head cb)"
proof -
  have "(cb_tail cb - cb_head cb - 1) mod 1024 = 1023 - cb_count cb"
    using assms(2) by (simp add: cb_count_eq) (simp add: cb_ok_def wrap_neg)
  then show "mxu1_buf_data_avail cm cb = cb_count cb" "mxu1_buf_space_avail cm cb = 1023 - cb_count cb"
    "CIRC_CNT_TO_END cm (cb_head cb) (cb_tail cb) 1024 = min (cb_count cb) (1024 - cb_tail cb)"
    "CIRC_SPACE_TO_END cm (cb_head cb) (cb_tail cb) 1024 = min (1023 - cb_count cb) (1024 - cb_head cb)"
    using assms(1) [unfolded circ_ok_def, rule_format, of "cb_head cb" "cb_tail cb"] assms(2)
    by (simp_all only: cb_ok_def mxu1_buf_data_avail_def mxu1_buf_space_avail_def cb_count_def simp_thms)
qed

text \<open>One block in, one block out.\<close>

lemma copy_in_queue:
  assumes "cb_ok cb" "int (length bs) \<le> 1023 - cb_count cb" "int (length bs) \<le> 1024 - cb_head cb"
  shows "cb_ok (copy_in bs cb)" "cb_count (copy_in bs cb) = cb_count cb + int (length bs)"
    "cb_queue (copy_in bs cb) = cb_queue cb @ bs"
proof -
  show ok: "cb_ok (copy_in bs cb)"
    using assms(1) by (simp add: cb_ok_def copy_in_def and_1023)
  have "((cb_head cb + int (length bs)) mod 1024 - cb_tail cb) mod 1024 = (cb_count cb + int (length bs)) mod 1024"
    by (simp add: cb_count_def mod_simps algebra_simps)
  moreover have "cb_count (copy_in bs cb) = ((cb_head cb + int (length bs)) mod 1024 - cb_tail cb) mod 1024"
    by (simp add: cb_count_def copy_in_def and_1023)
  ultimately show cnt: "cb_count (copy_in bs cb) = cb_count cb + int (length bs)"
    using assms(2) cb_count_bounds [of cb] by simp
  have head: "cb_head cb = (cb_tail cb + cb_count cb) mod 1024"
    using assms(1) by (simp add: cb_count_def cb_ok_def mod_simps)
  show "cb_queue (copy_in bs cb) = cb_queue cb @ bs"
  proof (rule nth_equalityI)
    show "length (cb_queue (copy_in bs cb)) = length (cb_queue cb @ bs)"
      using cnt cb_count_bounds [of cb] by simp
  next
    fix k assume "k < length (cb_queue (copy_in bs cb))"
    then have k: "int k < cb_count cb + int (length bs)" using cnt by simp
    define i where "i = (cb_tail cb + int k) mod 1024"
    have i: "cb_queue (copy_in bs cb) ! k = (if cb_head cb \<le> i \<and> i < cb_head cb + int (length bs)
        then bs ! nat (i - cb_head cb) else cb_buf cb i)"
      using k cnt by (simp add: nth_cb_queue copy_in_def i_def)
    have w: "i = (if cb_tail cb + int k < 1024 then cb_tail cb + int k else cb_tail cb + int k - 1024)"
      using wrap [of "cb_tail cb + int k"] assms k unfolding i_def cb_ok_def by linarith
    show "cb_queue (copy_in bs cb) ! k = (cb_queue cb @ bs) ! k"
    proof (cases "int k < cb_count cb")
      case True
      then have "\<not> (cb_head cb \<le> i \<and> i < cb_head cb + int (length bs))"
        using w assms unfolding cb_ok_def cb_count_eq [OF assms(1)] by (auto split: if_splits)
      with i have "cb_queue (copy_in bs cb) ! k = cb_buf cb i" by auto
      also have "\<dots> = cb_queue cb ! k" using nth_cb_queue [OF True] by (simp add: i_def)
      finally show ?thesis using True by (simp add: nth_append zless_nat_eq_int_zless)
    next
      case False
      then have "i = cb_head cb + (int k - cb_count cb)"
        using w k assms unfolding cb_ok_def cb_count_eq [OF assms(1)] by (auto split: if_splits)
      moreover have "nat (int k - cb_count cb) = k - nat (cb_count cb)" "\<not> k < nat (cb_count cb)"
        using False cb_count_bounds(1) [of cb] by auto
      ultimately show ?thesis
        using False k i by (simp add: nth_append)
    qed
  qed
qed

lemma copy_out_queue:
  assumes "cb_ok cb" "int c \<le> cb_count cb" "int c \<le> 1024 - cb_tail cb" "copy_out c cb = (bs, cb')"
  shows "cb_ok cb'" "cb_count cb' = cb_count cb - int c" "bs = take c (cb_queue cb)" "cb_queue cb' = drop c (cb_queue cb)"
proof -
  have cb': "cb' = cb\<lparr>cb_tail := (cb_tail cb + int c) mod 1024\<rparr>" "bs = map (\<lambda>k. cb_buf cb (cb_tail cb + int k)) [0..<c]"
    using assms(4) by (auto simp: copy_out_def and_1023)
  show "cb_ok cb'" using assms(1) by (simp add: cb' cb_ok_def)
  have "(cb_head cb - (cb_tail cb + int c) mod 1024) mod 1024 = (cb_count cb - int c) mod 1024"
    by (simp add: cb_count_def mod_simps algebra_simps)
  moreover have "cb_count cb' = (cb_head cb - (cb_tail cb + int c) mod 1024) mod 1024"
    by (simp add: cb_count_def cb')
  ultimately show cnt: "cb_count cb' = cb_count cb - int c"
    using assms(2) cb_count_bounds [of cb] by simp
  have "(cb_tail cb + int k) mod 1024 = cb_tail cb + int k" if "k < c" for k
    using that assms(1,3) by (simp add: cb_ok_def)
  then show "bs = take c (cb_queue cb)"
    using assms(2) by (simp add: cb'(2) cb_queue_def take_map min_def nat_le_iff)
  show "cb_queue cb' = drop c (cb_queue cb)"
  proof (rule nth_equalityI)
    show "length (cb_queue cb') = length (drop c (cb_queue cb))"
      using cnt by (simp add: nat_diff_distrib')
  next
    fix k assume k: "k < length (cb_queue cb')"
    have "((cb_tail cb + int c) mod 1024 + int k) mod 1024 = (cb_tail cb + int (c + k)) mod 1024"
      by (simp add: mod_simps algebra_simps)
    then show "cb_queue cb' ! k = drop c (cb_queue cb) ! k"
      using k cnt by (simp add: nth_cb_queue cb'(1))
  qed
qed

lemma buf_put_queue:
  assumes "circ_ok cm" "cb_ok cb" "mxu1_buf_put cm xs cb = (n, cb')"
  shows "cb_ok cb' \<and> n = min (int (length xs)) (1023 - cb_count cb) \<and> cb_queue cb' = cb_queue cb @ take (nat n) xs"
  using assms
proof (induction cm xs cb arbitrary: n cb' rule: mxu1_buf_put.induct)
  case (1 cm xs cb)
  define c where "c = min (int (length xs)) (min (1023 - cb_count cb) (1024 - cb_head cb))"
  have c: "(if int (length xs) < CIRC_SPACE_TO_END cm (cb_head cb) (cb_tail cb) 1024 then int (length xs)
      else CIRC_SPACE_TO_END cm (cb_head cb) (cb_tail cb) 1024) = c"
    using 1(2,3) by (auto simp: macros(4) c_def)
  show ?case
  proof (cases "c \<le> 0")
    case True
    then have "min (int (length xs)) (1023 - cb_count cb) = 0"
      using 1(3) cb_count_bounds [of cb] unfolding c_def cb_ok_def by linarith
    moreover have "n = 0" "cb' = cb"
      using True 1(4) c by (subst (asm) mxu1_buf_put.simps, simp add: Let_def)+
    ultimately show ?thesis using 1(3) by simp
  next
    case False
    define b where "b = copy_in (take (nat c) xs) cb"
    have le: "c \<le> int (length xs)" "c \<le> 1023 - cb_count cb" "c \<le> 1024 - cb_head cb" by (simp_all add: c_def)
    then have len: "int (length (take (nat c) xs)) = c" using False by simp
    have b: "cb_ok b" "cb_count b = cb_count cb + c" "cb_queue b = cb_queue cb @ take (nat c) xs"
      using copy_in_queue [OF 1(3), of "take (nat c) xs"] len le(2,3) by (simp_all add: b_def)
    obtain r where r: "mxu1_buf_put cm (drop (nat c) xs) b = (r, cb')" "n = c + r"
      using False 1(4) c by (subst (asm) mxu1_buf_put.simps) (auto simp: Let_def b_def split: prod.splits)
    have ih: "cb_ok cb' \<and> r = min (int (length (drop (nat c) xs))) (1023 - cb_count b) \<and>
        cb_queue cb' = cb_queue b @ take (nat r) (drop (nat c) xs)"
      using 1(1) [OF refl refl] False c r(1) b(1) 1(2) by (simp add: b_def)
    have "0 \<le> r" using ih cb_count_bounds [of b] by auto
    then have "take (nat c) xs @ take (nat r) (drop (nat c) xs) = take (nat n) xs"
      using False r(2) by (simp add: take_add nat_add_distrib)
    moreover have "n = min (int (length xs)) (1023 - cb_count cb)"
      using ih r(2) b(2) le False by (simp add: of_nat_diff min_def split: if_splits)
    ultimately show ?thesis using ih b(3) by simp
  qed
qed

lemma buf_get_queue:
  assumes "circ_ok cm" "cb_ok cb" "mxu1_buf_get cm n cb = (bs, cb')"
  shows "cb_ok cb' \<and> bs = take (nat n) (cb_queue cb) \<and> cb_queue cb' = drop (nat n) (cb_queue cb)"
  using assms
proof (induction cm n cb arbitrary: bs cb' rule: mxu1_buf_get.induct)
  case (1 cm n cb)
  define c where "c = min n (min (cb_count cb) (1024 - cb_tail cb))"
  have c: "(if n < CIRC_CNT_TO_END cm (cb_head cb) (cb_tail cb) 1024 then n
      else CIRC_CNT_TO_END cm (cb_head cb) (cb_tail cb) 1024) = c"
    using 1(2,3) by (auto simp: macros(3) c_def)
  show ?case
  proof (cases "c \<le> 0")
    case True
    then have "n \<le> 0 \<or> cb_count cb = 0"
      using 1(3) cb_count_bounds [of cb] unfolding c_def cb_ok_def by linarith
    then have "take (nat n) (cb_queue cb) = [] \<and> drop (nat n) (cb_queue cb) = cb_queue cb"
      by (auto simp: cb_queue_def)
    moreover have "bs = []" "cb' = cb"
      using True 1(4) c by (subst (asm) mxu1_buf_get.simps, simp add: Let_def)+
    ultimately show ?thesis using 1(3) by simp
  next
    case False
    obtain x b where x: "copy_out (nat c) cb = (x, b)" by (cases "copy_out (nat c) cb")
    have le: "c \<le> n" "int (nat c) \<le> cb_count cb" "int (nat c) \<le> 1024 - cb_tail cb"
      using False unfolding c_def by linarith+
    note b = copy_out_queue(1,3,4) [OF 1(3) le(2,3) x]
    obtain y where y: "mxu1_buf_get cm (n - c) b = (y, cb')" "bs = x @ y"
      using False 1(4) c x by (subst (asm) mxu1_buf_get.simps) (auto simp: Let_def split: prod.splits)
    have "cb_ok cb' \<and> y = take (nat (n - c)) (cb_queue b) \<and> cb_queue cb' = drop (nat (n - c)) (cb_queue b)"
      using 1(1) [OF refl refl _ _ refl] False c x y(1) b(1) 1(2) by simp
    moreover have "nat n = nat c + nat (n - c)" using False le(1) by simp
    ultimately show ?thesis
      using y(2) b(2,3) by (simp add: take_add add.commute)
  qed
qed

end
