(* ===== verification/Mxu11_Usb.thy ===== *)
theory Mxu11_Usb
  imports Mxu11_Buf Mxser_Ioctl
begin

text \<open>
  The USB serial driver, \<open>modules/mxu11x0/driver/mxu11x0.c\<close> and \<open>mxu11x0.h\<close>, as compiled for kernels from
  3.11 on: the state of a device with its one port, the commands on the control pipe and the download of
  the firmware.

  Every driver structure declares one port, so the device and the port are one record.  A USB
  call is a kernel call whose arguments are the bytes it carries; what a call leaves in a buffer of the
  driver (the bytes an IN transfer filled, the count \<open>usb_bulk_msg\<close> transferred) is a further question to
  the environment, \<open>transfer_buffer\<close> and \<open>actual_length\<close>.  Memory from \<open>kmalloc\<close> that is read before it
  is written is the question \<open>uninitialised\<close>.  Two fields that the code does not have, \<open>g_read_urb\<close>
  and \<open>g_write_urb\<close>, say whether the kernel holds the URB.
\<close>

section \<open>Constants\<close>

abbreviation "MXU1_FIRMWARE_BUF_SIZE \<equiv> 16284 :: nat"
abbreviation "MXU1_DOWNLOAD_MAX_PACKET_SIZE \<equiv> 64 :: nat"
abbreviation "MXU1_TRANSFER_TIMEOUT \<equiv> 2 :: u16"
abbreviation "MXU1_DEFAULT_CLOSING_WAIT \<equiv> 4000 :: int"
abbreviation "MXU1_SET_SERIAL_FLAGS \<equiv> ASYNC_LOW_LATENCY"

abbreviation "MXU1_GET_PORT_STATUS \<equiv> 0x02 :: u8"
abbreviation "MXU1_SET_CONFIG \<equiv> 0x05 :: u8"
abbreviation "MXU1_OPEN_PORT \<equiv> 0x06 :: u8"
abbreviation "MXU1_CLOSE_PORT \<equiv> 0x07 :: u8"
abbreviation "MXU1_START_PORT \<equiv> 0x08 :: u8"
abbreviation "MXU1_PURGE_PORT \<equiv> 0x0B :: u8"
abbreviation "MXU1_RESET_EXT_DEVICE \<equiv> 0x0C :: u8"
abbreviation "MXU1_GET_OUTQUEUE \<equiv> 0x0D :: u8"
abbreviation "MXU1_WRITE_DATA \<equiv> 0x80 :: u8"
abbreviation "MXU1_UART1_PORT \<equiv> 3 :: nat"
abbreviation "MXU1_RAM_PORT \<equiv> 0x05 :: u16"
abbreviation "MXU1_PURGE_OUTPUT \<equiv> 0x00 :: u16"
abbreviation "MXU1_PURGE_INPUT \<equiv> 0x80 :: u16"
abbreviation "MXU1_RW_DATA_ADDR_XDATA \<equiv> 0x30 :: u8"
abbreviation "MXU1_RW_DATA_BYTE \<equiv> 0x01 :: u8"
abbreviation "MXU1_UART1_BASE_ADDR \<equiv> 0xFFA0 :: u32"
abbreviation "MXU1_UART_OFFSET_MCR \<equiv> 4 :: u32"
abbreviation "MXU1_LCR_BREAK \<equiv> 0x40 :: u32"
abbreviation "MXU1_MCR_LOOP \<equiv> 0x04 :: u8"
abbreviation "MXU1_MCR_DTR \<equiv> 0x10 :: u8"
abbreviation "MXU1_MCR_RTS \<equiv> 0x20 :: u8"
abbreviation "MXU1_MSR_CTS \<equiv> 0x10 :: u8"
abbreviation "MXU1_MSR_DSR \<equiv> 0x20 :: u8"
abbreviation "MXU1_MSR_RI \<equiv> 0x40 :: u8"
abbreviation "MXU1_MSR_CD \<equiv> 0x80 :: u8"
abbreviation "MXU1_LSR_TX_EMPTY \<equiv> 0x20 :: u8"

abbreviation "MXU1_UART_232 \<equiv> 0 :: u8"
abbreviation "MXU1_UART_485_RECEIVER_DISABLED \<equiv> 1 :: u8"
abbreviation "MXU1_UART_485_RECEIVER_ENABLED \<equiv> 2 :: u8"
abbreviation "MXU1_RS232 \<equiv> 0 :: int"
abbreviation "MXU1_RS4852W \<equiv> 1 :: int"
abbreviation "MXU1_RS422 \<equiv> 2 :: int"
abbreviation "MXU1_RS4854W \<equiv> 3 :: int"

abbreviation "EPIPE \<equiv> 32 :: int"
abbreviation "ECOMM \<equiv> 70 :: int"
abbreviation "ENOENT \<equiv> 2 :: int"
abbreviation "ECONNRESET \<equiv> 104 :: int"
abbreviation "ESHUTDOWN \<equiv> 108 :: int"

section \<open>State\<close>

datatype u1_model = U1110 | U1130 | U1131 | U1150 | U1151 | U3001

datatype read_urb_state = READ_URB_RUNNING | READ_URB_STOPPING | READ_URB_STOPPED

record mxu1 = io +
  u1_circ :: circ_macros
  has_dev :: bool
  has_port :: bool
  pt_number :: nat
  pt_minor :: nat
  pt_has_tty :: bool
  pt_tty :: tty
  pt_bulk_out_size :: int
  pt_has_read_urb :: bool
  pt_has_int_urb :: bool
  mxd_open_port_count :: int
  mxd_model_name :: u1_model
  mxd_urb_error :: bool
  mxp_is_open :: bool
  mxp_msr :: u8
  mxp_lsr :: u8
  mxp_shadow_mcr :: u8
  mxp_uart_mode :: u8
  mxp_user_get_uart_mode :: u8
  mxp_uart_base_addr :: u32
  mxp_flags :: u32
  mxp_msr_wait_flags :: bool
  mxp_closing_wait :: int
  mxp_icount :: async_icount
  mxp_read_urb_state :: read_urb_state
  mxp_write_urb_in_use :: bool
  mxp_write_buf :: circ_buf
  mxp_send_break :: u32
  mxp_set_B0 :: bool
  g_read_urb :: bool
  g_write_urb :: bool

type_synonym 'a u1_m = "(mxu1, 'a) state"

section \<open>Commands\<close>

text \<open>The outcome of a control message: the whole size is success, less is a communication error.\<close>

definition command_status :: "int \<Rightarrow> int \<Rightarrow> int" where
  "command_status status sz =
    (let status = (if status = sz then 0 else status) in if status > 0 then -ECOMM else status)"

definition mxu1_command_out_sync :: "u8 \<Rightarrow> u16 \<Rightarrow> u16 \<Rightarrow> u8 list \<Rightarrow> int u1_m" where
  "mxu1_command_out_sync command moduleid val data = do {
     status \<leftarrow> kcall ''usb_control_msg(out)'' (uint command # uint val # uint moduleid # map uint data);
     ret (command_status status (int (length data))) }"

definition mxu1_command_in_sync :: "u8 \<Rightarrow> u16 \<Rightarrow> u16 \<Rightarrow> int \<Rightarrow> int u1_m" where
  "mxu1_command_in_sync command moduleid val sz = do {
     status \<leftarrow> kcall ''usb_control_msg(in)'' [uint command, uint val, uint moduleid, sz];
     ret (command_status status sz) }"

definition transfer_byte :: "nat \<Rightarrow> u8 u1_m" where
  "transfer_byte i = do { v \<leftarrow> kcall ''transfer_buffer'' [int i]; ret (word_of_int v) }"

definition be16_bytes :: "u16 \<Rightarrow> u8 list" where
  "be16_bytes w = [ucast (drop_bit 8 w), ucast w]"

definition mxu1_write_byte :: "u32 \<Rightarrow> u8 \<Rightarrow> u8 \<Rightarrow> int u1_m" where
  "mxu1_write_byte addr msk b = do {
     data \<leftarrow> kcall ''kmalloc'' [9];
     if data = 0 then ret (-ENOMEM)
     else do {
       status \<leftarrow> mxu1_command_out_sync MXU1_WRITE_DATA MXU1_RAM_PORT 0
         ([MXU1_RW_DATA_ADDR_XDATA, MXU1_RW_DATA_BYTE, 1] @ be16_bytes (ucast (drop_bit 16 addr)) @
          be16_bytes (ucast addr) @ [msk, b]);
       knote ''kfree'' [data];
       ret status } }"

definition mxu1_set_mcr :: "u8 \<Rightarrow> int u1_m" where
  "mxu1_set_mcr mcr = do {
     base \<leftarrow> gets mxp_uart_base_addr;
     status \<leftarrow> mxu1_write_byte (base + MXU1_UART_OFFSET_MCR) (MXU1_MCR_RTS OR MXU1_MCR_DTR OR MXU1_MCR_LOOP) mcr;
     whenM (status = 0) (modify (\<lambda>s. s\<lparr>mxp_shadow_mcr := mcr\<rparr>));
     ret status }"

definition uart_module :: "u16 u1_m" where
  "uart_module = do { n \<leftarrow> gets pt_number; ret (ucast (of_nat (MXU1_UART1_PORT + n) :: u8)) }"

definition mxu1_get_lsr :: "int u1_m" where
  "mxu1_get_lsr = do {
     data \<leftarrow> kcall ''kmalloc'' [5];
     if data = 0 then ret (-ENOMEM)
     else do {
       m \<leftarrow> uart_module;
       status \<leftarrow> mxu1_command_in_sync MXU1_GET_PORT_STATUS m 0 5;
       whenM (status = 0) (do {
         lsr \<leftarrow> transfer_byte 4;
         modify (\<lambda>s. s\<lparr>mxp_lsr := lsr\<rparr>) });
       knote ''kfree'' [data];
       ret status } }"

text \<open>An error of the command is answered with the size of the structure, 4.\<close>

definition mxu1_get_oqueue :: "int u1_m" where
  "mxu1_get_oqueue = do {
     data \<leftarrow> kcall ''kmalloc'' [4];
     if data = 0 then ret (-ENOMEM)
     else do {
       m \<leftarrow> uart_module;
       status \<leftarrow> mxu1_command_in_sync MXU1_GET_OUTQUEUE m 0 4;
       sz \<leftarrow> (if status \<noteq> 0 then ret 4 else do { b \<leftarrow> transfer_byte 3; ret (uint b) });
       knote ''kfree'' [data];
       ret sz } }"

section \<open>Firmware\<close>

text \<open>
  The image is padded with ones; its first three bytes are replaced by the header, the length of what
  follows (low byte first) and the sum of its bytes.
\<close>

definition firmware_buffer :: "u8 list \<Rightarrow> u8 list" where
  "firmware_buffer firmware =
    (let buffer_size = MXU1_FIRMWARE_BUF_SIZE + 3;
         buffer = firmware @ replicate (buffer_size - length firmware) 0xff;
         cs = foldl (\<lambda>cs pos. cs + buffer ! pos) 0 [3..<buffer_size];
         wLength = of_nat (buffer_size - 3) :: u16
     in buffer[0 := ucast wLength, 1 := ucast (drop_bit 8 wLength), 2 := cs])"

text \<open>
  The download loop; \<open>n\<close> bounds its rounds, \<open>None\<close> says that they were not enough.  The position
  moves by what the call reports as transferred.
\<close>

fun download_loop :: "nat \<Rightarrow> u8 list \<Rightarrow> int \<Rightarrow> int option u1_m" where
  "download_loop n buffer pos =
    (if pos \<ge> int (length buffer) then ret (Some 0)
     else (case n of 0 \<Rightarrow> ret None | Suc m \<Rightarrow> do {
       let len = min (length buffer - nat pos) MXU1_DOWNLOAD_MAX_PACKET_SIZE;
       status \<leftarrow> kcall ''usb_bulk_msg'' (map uint (take len (drop (nat pos) buffer)));
       actual \<leftarrow> kcall ''actual_length'' [];
       if status \<noteq> 0 then ret (Some status) else download_loop m buffer (pos + actual) }))"

declare download_loop.simps [simp del]

definition mxu1_download_firmware :: "nat \<Rightarrow> u8 list \<Rightarrow> int option u1_m" where
  "mxu1_download_firmware rounds firmware = do {
     buffer \<leftarrow> kcall ''kmalloc'' [int MXU1_FIRMWARE_BUF_SIZE + 3];
     if buffer = 0 then ret (Some (-ENOMEM))
     else do {
       whenM (length firmware > MXU1_FIRMWARE_BUF_SIZE + 3) (undefined_c ''firmware larger than the buffer'');
       status \<leftarrow> download_loop rounds (firmware_buffer firmware) 0;
       knote ''kfree'' [buffer];
       ret status } }"

end
