(* ===== verification/Mxu11_Port.thy ===== *)
theory Mxu11_Port
  imports Mxu11_Usb
begin

text \<open>
  The USB serial driver, \<open>modules/mxu11x0/driver/mxu11x0.c\<close>: sending and receiving, the three URB
  callbacks, the state of the read URB, draining, and the line settings.

  While an operation sleeps the kernel delivers URBs.  What it delivers in each sleep is a parameter, a
  list of events per sleep; \<open>None\<close> or \<open>False\<close> says that the operation slept more often than the
  list is long.  \<open>usb_kill_urb\<close> hands an active URB back with \<open>-ENOENT\<close> before it returns, as the kernel
  documents.
\<close>

section \<open>Sending\<close>

definition wake_writers :: "unit u1_m" where
  "wake_writers = knote ''wake_up_interruptible(mxp_write_wait)'' []"

definition submit_write_urb :: "u8 list \<Rightarrow> int u1_m" where
  "submit_write_urb bs = do {
     result \<leftarrow> kcall ''usb_submit_urb(write)'' (map uint bs);
     whenM (result = 0) (modify (\<lambda>s. s\<lparr>g_write_urb := True\<rparr>));
     ret result }"

definition mxu1_send :: "unit u1_m" where
  "mxu1_send = do {
     s \<leftarrow> gets id;
     if mxp_write_urb_in_use s then ret ()
     else do {
       let (bs, cb) = mxu1_buf_get (u1_circ s) (pt_bulk_out_size s) (mxp_write_buf s);
       modify (\<lambda>s. s\<lparr>mxp_write_buf := cb\<rparr>);
       if bs = [] then ret ()
       else do {
         modify (\<lambda>s. s\<lparr>mxp_write_urb_in_use := True\<rparr>);
         result \<leftarrow> submit_write_urb bs;
         (if result \<noteq> 0 then modify (\<lambda>s. s\<lparr>mxp_write_urb_in_use := False\<rparr>)
          else modify (\<lambda>s. s\<lparr>mxp_icount := (mxp_icount s)\<lparr>ic_tx := ic_tx (mxp_icount s) + of_nat (length bs)\<rparr>\<rparr>));
         whenM (pt_has_tty s) (knote ''tty_wakeup'' []);
         wake_writers } } }"

definition mxu1_write :: "u8 list \<Rightarrow> int u1_m" where
  "mxu1_write data = (if data = [] then ret 0
     else do {
       s \<leftarrow> gets id;
       if \<not> has_port s \<or> \<not> mxp_is_open s then ret (-ENODEV)
       else do {
         let (n, cb) = mxu1_buf_put (u1_circ s) data (mxp_write_buf s);
         modify (\<lambda>s. s\<lparr>mxp_write_buf := cb\<rparr>);
         mxu1_send;
         ret n } })"

definition mxu1_write_room :: "int u1_m" where
  "mxu1_write_room = gets (\<lambda>s. if has_port s then mxu1_buf_space_avail (u1_circ s) (mxp_write_buf s) else -ENODEV)"

definition mxu1_chars_in_buffer :: "int u1_m" where
  "mxu1_chars_in_buffer = gets (\<lambda>s. if has_port s then mxu1_buf_data_avail (u1_circ s) (mxp_write_buf s) else -ENODEV)"

section \<open>Receiving\<close>

text \<open>The tty layer takes as many of the characters as it has room for and says how many.\<close>

function mxu1_recv :: "u8 list \<Rightarrow> unit u1_m" where
  "mxu1_recv data = do {
     cnt \<leftarrow> kcall ''tty_insert_flip_string'' (map uint data);
     if cnt < int (length data) \<and> cnt = 0 then ret ()
     else do {
       knote ''tty_flip_buffer_push'' [];
       if cnt < 0 then undefined_c ''negative count''
       else if int (length data) - cnt > 0 then mxu1_recv (drop (nat cnt) data)
       else ret () } }"
  by pat_completeness auto
termination
  by (relation "measure length") auto

declare mxu1_recv.simps [simp del]

definition submit_read_urb :: "int u1_m" where
  "submit_read_urb = do {
     active \<leftarrow> gets g_read_urb;
     whenM active (undefined_c ''read urb submitted while active'');
     status \<leftarrow> kcall ''usb_submit_urb(read)'' [];
     whenM (status = 0) (modify (\<lambda>s. s\<lparr>g_read_urb := True\<rparr>));
     ret status }"

definition urb_failed :: "unit u1_m" where
  "urb_failed = do { modify (\<lambda>s. s\<lparr>mxd_urb_error := True\<rparr>); wake_writers }"

definition shutting_down :: "int \<Rightarrow> bool" where
  "shutting_down status \<longleftrightarrow> status = -ECONNRESET \<or> status = -ENOENT \<or> status = -ESHUTDOWN"

definition continue_read :: "unit u1_m" where
  "continue_read = do {
     st \<leftarrow> gets mxp_read_urb_state;
     (case st of
        READ_URB_RUNNING \<Rightarrow> do { _ \<leftarrow> submit_read_urb; ret () }
      | READ_URB_STOPPING \<Rightarrow> modify (\<lambda>s. s\<lparr>mxp_read_urb_state := READ_URB_STOPPED\<rparr>)
      | READ_URB_STOPPED \<Rightarrow> ret ()) }"

definition take_data :: "u8 list \<Rightarrow> unit u1_m" where
  "take_data data = do {
     s \<leftarrow> gets id;
     whenM (pt_has_tty s \<and> data \<noteq> []) (do {
       whenM (mxp_is_open s) (mxu1_recv data);
       modify (\<lambda>s. s\<lparr>mxp_icount := (mxp_icount s)\<lparr>ic_rx := ic_rx (mxp_icount s) + of_nat (length data)\<rparr>\<rparr>) }) }"

definition mxu1_bulk_in_callback :: "int \<Rightarrow> u8 list \<Rightarrow> unit u1_m" where
  "mxu1_bulk_in_callback status data =
    (if shutting_down status then urb_failed
     else do {
       whenM (status \<noteq> 0) urb_failed;
       if status = -EPIPE then continue_read
       else if status \<noteq> 0 then ret ()
       else do { take_data data; continue_read } })"

definition mxu1_bulk_out_callback :: "int \<Rightarrow> unit u1_m" where
  "mxu1_bulk_out_callback status = do {
     modify (\<lambda>s. s\<lparr>mxp_write_urb_in_use := False\<rparr>);
     if shutting_down status then urb_failed
     else do {
       whenM (status \<noteq> 0) urb_failed;
       mxu1_send } }"

section \<open>Modem status\<close>

definition count_line :: "bool \<Rightarrow> u32 \<Rightarrow> u32" where
  "count_line b n = (if b then n + 1 else n)"

definition count_deltas :: "u8 \<Rightarrow> async_icount \<Rightarrow> async_icount" where
  "count_deltas msr ic = ic\<lparr>ic_cts := count_line (bit msr 0) (ic_cts ic), ic_dsr := count_line (bit msr 1) (ic_dsr ic),
     ic_dcd := count_line (bit msr 3) (ic_dcd ic), ic_rng := count_line (bit msr 2) (ic_rng ic)\<rparr>"

definition hw_stop :: "bool \<Rightarrow> unit u1_m" where
  "hw_stop b = modify (\<lambda>s. s\<lparr>pt_tty := (pt_tty s)\<lparr>t_hw_stopped := b\<rparr>\<rparr>)"

definition mxu1_handle_new_msr :: "u8 \<Rightarrow> unit u1_m" where
  "mxu1_handle_new_msr msr = do {
     whenM (msr AND 0x0F \<noteq> 0) (do {
       modify (\<lambda>s. s\<lparr>mxp_icount := count_deltas msr (mxp_icount s)\<rparr>);
       w \<leftarrow> gets mxp_msr_wait_flags;
       whenM w (do {
         modify (\<lambda>s. s\<lparr>mxp_msr_wait_flags := False\<rparr>);
         knote ''wake_up_interruptible(mxp_msr_wait)'' [] }) });
     modify (\<lambda>s. s\<lparr>mxp_msr := msr AND 0xF0\<rparr>);
     s \<leftarrow> gets id;
     whenM (pt_has_tty s \<and> c_cflag (t_termios (pt_tty s)) AND CRTSCTS \<noteq> 0)
       (if msr AND MXU1_MSR_CTS \<noteq> 0 then do { hw_stop False; knote ''tty_wakeup'' [] }
        else hw_stop True) }"

text \<open>The port number of an interrupt packet is compared with the number of ports, 1, from above only.\<close>

definition interrupt_packet :: "u8 \<Rightarrow> u8 \<Rightarrow> unit u1_m" where
  "interrupt_packet code info =
    (if code = 0xFF then ret ()
     else do {
       let port_number = uint (drop_bit 4 code) - 3;
       p \<leftarrow> gets has_port;
       if port_number \<ge> 1 then ret ()
       else if port_number < 0 then undefined_c ''serial->port index''
       else if \<not> p then ret ()
       else whenM (code AND 0x0F = 4) (mxu1_handle_new_msr info) })"

definition mxu1_interrupt_callback :: "int \<Rightarrow> u8 list \<Rightarrow> unit u1_m" where
  "mxu1_interrupt_callback status data = do {
     whenM (status \<noteq> 0) (modify (\<lambda>s. s\<lparr>mxd_urb_error := True\<rparr>));
     if shutting_down status then ret ()
     else do {
       whenM (status = 0 \<and> length data = 2) (interrupt_packet (data ! 0) (data ! 1));
       knote ''usb_submit_urb(interrupt)'' [] } }"

section \<open>What the kernel delivers\<close>

datatype u1_event = Bulk_in int "u8 list" | Bulk_out int | Interrupt_in int "u8 list"

fun u1_deliver :: "u1_event \<Rightarrow> unit u1_m" where
  "u1_deliver (Bulk_in status data) = do {
     active \<leftarrow> gets g_read_urb;
     whenM active (do { modify (\<lambda>s. s\<lparr>g_read_urb := False\<rparr>); mxu1_bulk_in_callback status data }) }"
| "u1_deliver (Bulk_out status) = do {
     active \<leftarrow> gets g_write_urb;
     whenM active (do { modify (\<lambda>s. s\<lparr>g_write_urb := False\<rparr>); mxu1_bulk_out_callback status }) }"
| "u1_deliver (Interrupt_in status data) = mxu1_interrupt_callback status data"

fun u1_deliver_all :: "u1_event list \<Rightarrow> unit u1_m" where
  "u1_deliver_all [] = ret ()"
| "u1_deliver_all (e # es) = do { u1_deliver e; u1_deliver_all es }"

definition kill_read_urb :: "unit u1_m" where
  "kill_read_urb = do { knote ''usb_kill_urb(read)'' []; u1_deliver (Bulk_in (-ENOENT) []) }"

definition kill_write_urb :: "unit u1_m" where
  "kill_write_urb = do { knote ''usb_kill_urb(write)'' []; u1_deliver (Bulk_out (-ENOENT)) }"

section \<open>Stopping and restarting the read URB\<close>

definition mxu1_stop_read :: "unit u1_m" where
  "mxu1_stop_read = modify (\<lambda>s. if mxp_read_urb_state s = READ_URB_RUNNING
     then s\<lparr>mxp_read_urb_state := READ_URB_STOPPING\<rparr> else s)"

definition mxu1_restart_read :: "int u1_m" where
  "mxu1_restart_read = do {
     s \<leftarrow> gets id;
     if \<not> mxp_is_open s then ret 0
     else do {
       modify (\<lambda>s. s\<lparr>mxp_read_urb_state := READ_URB_RUNNING\<rparr>);
       if mxp_read_urb_state s = READ_URB_STOPPED then submit_read_urb else ret 0 } }"

definition flow_controlled :: "mxu1 \<Rightarrow> bool" where
  "flow_controlled s \<longleftrightarrow> c_iflag (t_termios (pt_tty s)) AND IXOFF \<noteq> 0 \<or> c_cflag (t_termios (pt_tty s)) AND CRTSCTS \<noteq> 0"

definition mxu1_throttle :: "unit u1_m" where
  "mxu1_throttle = do {
     s \<leftarrow> gets id;
     whenM (has_port s \<and> pt_has_tty s \<and> flow_controlled s) mxu1_stop_read }"

definition mxu1_unthrottle :: "unit u1_m" where
  "mxu1_unthrottle = do {
     s \<leftarrow> gets id;
     whenM (has_port s \<and> pt_has_tty s \<and> flow_controlled s) (do { _ \<leftarrow> mxu1_restart_read; ret () }) }"

section \<open>Draining\<close>

definition drain_stops :: "64 word \<Rightarrow> bool u1_m" where
  "drain_stops timeout = do {
     s \<leftarrow> gets id;
     if mxu1_buf_data_avail (u1_circ s) (mxp_write_buf s) = 0 \<or> timeout = 0 then ret True
     else do {
       sig \<leftarrow> kcall ''signal_pending'' [];
       if sig \<noteq> 0 \<or> mxd_urb_error s then ret True
       else do { intf \<leftarrow> kcall ''usb_get_intfdata'' []; ret (intf = 0) } } }"

fun drain_buffer :: "u1_event list list \<Rightarrow> 64 word \<Rightarrow> (64 word \<times> u1_event list list) option u1_m" where
  "drain_buffer sleeps timeout = do {
     stop \<leftarrow> drain_stops timeout;
     if stop then ret (Some (timeout, sleeps))
     else (case sleeps of [] \<Rightarrow> ret None | es # sleeps' \<Rightarrow> do {
       u1_deliver_all es;
       t \<leftarrow> kcall ''schedule_timeout'' [uint timeout];
       drain_buffer sleeps' (word_of_int t) }) }"

definition device_busy :: "64 word \<Rightarrow> bool u1_m" where
  "device_busy timeout = do {
     now \<leftarrow> kcall ''jiffies'' [];
     if \<not> sint (word_of_int now - timeout) < 0 then ret False
     else do {
       sig \<leftarrow> kcall ''signal_pending'' [];
       s \<leftarrow> gets id;
       if sig \<noteq> 0 \<or> mxp_lsr s AND MXU1_LSR_TX_EMPTY \<noteq> 0 \<or> mxd_urb_error s then ret False
       else do { intf \<leftarrow> kcall ''usb_get_intfdata'' []; ret (intf \<noteq> 0) } } }"

fun drain_device :: "u1_event list list \<Rightarrow> 64 word \<Rightarrow> bool u1_m" where
  "drain_device sleeps timeout = do {
     busy \<leftarrow> device_busy timeout;
     if \<not> busy then ret True
     else do {
       r \<leftarrow> mxu1_get_lsr;
       if r \<noteq> 0 then ret True
       else (case sleeps of [] \<Rightarrow> ret False | es # sleeps' \<Rightarrow> do {
         knote ''msleep_interruptible'' [20];
         u1_deliver_all es;
         drain_device sleeps' timeout }) } }"

declare drain_buffer.simps [simp del] drain_device.simps [simp del]

definition mxu1_drain :: "u1_event list list \<Rightarrow> 64 word \<Rightarrow> bool \<Rightarrow> bool u1_m" where
  "mxu1_drain sleeps timeout flush = do {
     modify (\<lambda>s. s\<lparr>mxd_urb_error := False\<rparr>);
     r \<leftarrow> drain_buffer sleeps timeout;
     (case r of
        None \<Rightarrow> ret False
      | Some (t, sleeps') \<Rightarrow> do {
          whenM flush (modify (\<lambda>s. s\<lparr>mxp_write_buf := mxu1_buf_clear (mxp_write_buf s)\<rparr>));
          now \<leftarrow> kcall ''jiffies'' [];
          modify (\<lambda>s. s\<lparr>mxp_lsr := mxp_lsr s AND NOT MXU1_LSR_TX_EMPTY\<rparr>);
          drain_device sleeps' (t + word_of_int now) }) }"

definition closing_jiffies :: "mxu1 \<Rightarrow> 64 word" where
  "closing_jiffies s = word_of_int ((mxp_closing_wait s * HZ) sdiv 100)"

end
