(* ===== verification/Mxu11_Ops.thy ===== *)
theory Mxu11_Ops
  imports Mxu11_Port
begin

text \<open>
  The USB serial driver, \<open>modules/mxu11x0/driver/mxu11x0.c\<close>: line settings, modem lines, break, waiting,
  open and close, the requests, attaching and releasing a device, module initialisation and exit.
\<close>

section \<open>Line settings\<close>

record mxu1_uart_config =
  wBaudRate :: u16
  wFlags :: u16
  bDataBits :: u8
  bParity :: u8
  bStopBits :: u8
  cXon :: u8
  cXoff :: u8
  bUartMode :: u8

abbreviation "MXU1_UART_ENABLE_RTS_IN \<equiv> 0x0001 :: u16"
abbreviation "MXU1_UART_ENABLE_PARITY_CHECKING \<equiv> 0x0008 :: u16"
abbreviation "MXU1_UART_ENABLE_CTS_OUT \<equiv> 0x0020 :: u16"
abbreviation "MXU1_UART_ENABLE_X_OUT \<equiv> 0x0040 :: u16"
abbreviation "MXU1_UART_ENABLE_X_IN \<equiv> 0x0100 :: u16"
abbreviation "MXU1_UART_ENABLE_MS_INTS \<equiv> 0x2000 :: u16"
abbreviation "MXU1_UART_ENABLE_AUTO_START_DMA \<equiv> 0x4000 :: u16"
abbreviation "MXU1_UART_SEND_BREAK_SIGNAL \<equiv> 0x8000 :: u16"

definition data_bits :: "u32 \<Rightarrow> u8" where
  "data_bits cflag = (let c = cflag AND CSIZE in if c = 0x00 then 0 else if c = 0x10 then 1 else if c = 0x20 then 2 else 3)"

definition parity_code :: "u32 \<Rightarrow> u8" where
  "parity_code cflag = (if cflag AND PARENB = 0 then 0 else if cflag AND PARODD \<noteq> 0 then 1 else 2)"

definition config_flags :: "u32 \<Rightarrow> u32 \<Rightarrow> u32 \<Rightarrow> u16" where
  "config_flags send_break cflag iflag =
     MXU1_UART_ENABLE_MS_INTS OR MXU1_UART_ENABLE_AUTO_START_DMA
     OR (if send_break = MXU1_LCR_BREAK then MXU1_UART_SEND_BREAK_SIGNAL else 0)
     OR (if cflag AND PARENB \<noteq> 0 then MXU1_UART_ENABLE_PARITY_CHECKING else 0)
     OR (if cflag AND CRTSCTS \<noteq> 0 \<and> cflag AND CBAUD_CBAUDEX \<noteq> 0 then MXU1_UART_ENABLE_RTS_IN else 0)
     OR (if cflag AND CRTSCTS \<noteq> 0 then MXU1_UART_ENABLE_CTS_OUT else 0)
     OR (if iflag AND IXOFF \<noteq> 0 then MXU1_UART_ENABLE_X_IN else 0)
     OR (if iflag AND IXON \<noteq> 0 then MXU1_UART_ENABLE_X_OUT else 0)"

definition baud_code :: "int \<Rightarrow> u16" where
  "baud_code baud = word_of_int (923077 sdiv (if baud = 0 then 9600 else baud))"

definition config_bytes :: "mxu1_uart_config \<Rightarrow> u8 list" where
  "config_bytes c = be16_bytes (wBaudRate c) @ be16_bytes (wFlags c) @
     [bDataBits c, bParity c, bStopBits c, cXon c, cXoff c, bUartMode c]"

text \<open>Without flow control the hold is lifted; the read URB is restarted when the line may send again.\<close>

definition lift_holds :: "u32 \<Rightarrow> u32 \<Rightarrow> unit u1_m" where
  "lift_holds cflag iflag = do {
     whenM (cflag AND CRTSCTS = 0) (do { hw_stop False; _ \<leftarrow> mxu1_restart_read; ret () });
     whenM (iflag AND IXON \<noteq> 0 \<and> iflag AND IXOFF = 0) (do { _ \<leftarrow> mxu1_restart_read; ret () }) }"

definition xon_xoff :: "u32 \<Rightarrow> (u8 \<times> u8) u1_m" where
  "xon_xoff iflag = do {
     s \<leftarrow> gets id;
     if iflag AND IXOFF \<noteq> 0 \<or> iflag AND IXON \<noteq> 0
     then ret (c_start (t_termios (pt_tty s)), c_stop (t_termios (pt_tty s)))
     else do {
       a \<leftarrow> kcall ''uninitialised'' [7];
       b \<leftarrow> kcall ''uninitialised'' [8];
       ret (word_of_int a, word_of_int b) } }"

text \<open>\<open>SET_CONFIG\<close> asserts RTS and DTR; they are set again, and dropped at B0.\<close>

definition restore_mcr :: "u32 \<Rightarrow> unit u1_m" where
  "restore_mcr cflag = do {
     s \<leftarrow> gets id;
     let mcr = mxp_shadow_mcr s;
     let b0 = (cflag AND CBAUD_CBAUDEX = 0);
     modify (\<lambda>s. s\<lparr>mxp_set_B0 := b0\<rparr>);
     _ \<leftarrow> mxu1_set_mcr (if b0 then mcr AND NOT (MXU1_MCR_DTR OR MXU1_MCR_RTS)
       else if mxp_set_B0 s then mcr OR MXU1_MCR_DTR else mcr);
     ret () }"

definition unchanged_termios :: "ktermios option \<Rightarrow> ktermios \<Rightarrow> bool" where
  "unchanged_termios old new = (case old of None \<Rightarrow> False
     | Some t \<Rightarrow> c_cflag new = c_cflag t \<and> c_iflag new = c_iflag t)"

definition mxu1_set_termios :: "ktermios option \<Rightarrow> unit u1_m" where
  "mxu1_set_termios old = do {
     s \<leftarrow> gets id;
     let cflag = c_cflag (t_termios (pt_tty s));
     let iflag = c_iflag (t_termios (pt_tty s));
     if \<not> pt_has_tty s \<or> unchanged_termios old (t_termios (pt_tty s)) \<or> \<not> has_port s then ret ()
     else do {
       config \<leftarrow> kcall ''kmalloc'' [10];
       if config = 0 then ret ()
       else do {
         lift_holds cflag iflag;
         (xon, xoff) \<leftarrow> xon_xoff iflag;
         baud \<leftarrow> kcall ''tty_get_baud_rate'' [];
         m \<leftarrow> uart_module;
         _ \<leftarrow> mxu1_command_out_sync MXU1_SET_CONFIG m 0 (config_bytes
           \<lparr>wBaudRate = baud_code baud, wFlags = config_flags (mxp_send_break s) cflag iflag,
            bDataBits = data_bits cflag, bParity = parity_code cflag,
            bStopBits = (if cflag AND CSTOPB \<noteq> 0 then 2 else 0), cXon = xon, cXoff = xoff,
            bUartMode = mxp_uart_mode s\<rparr>);
         restore_mcr cflag;
         knote ''kfree'' [config] } } }"

section \<open>Modem lines, break, waiting\<close>

abbreviation "TIOCM_LOOP \<equiv> 0x8000 :: u32"

definition mxu1_tiocmget :: "int u1_m" where
  "mxu1_tiocmget = do {
     s \<leftarrow> gets id;
     let mcr = mxp_shadow_mcr s;
     let msr = mxp_msr s;
     ret (if \<not> has_port s then -ENODEV else
       uint ((if mcr AND MXU1_MCR_DTR \<noteq> 0 then TIOCM_DTR else 0)
         OR (if mcr AND MXU1_MCR_RTS \<noteq> 0 then TIOCM_RTS else 0)
         OR (if mcr AND MXU1_MCR_LOOP \<noteq> 0 then TIOCM_LOOP else 0)
         OR (if msr AND MXU1_MSR_CTS \<noteq> 0 then TIOCM_CTS else 0)
         OR (if msr AND MXU1_MSR_CD \<noteq> 0 then TIOCM_CAR else 0)
         OR (if msr AND MXU1_MSR_RI \<noteq> 0 then TIOCM_RNG else 0)
         OR (if msr AND MXU1_MSR_DSR \<noteq> 0 then TIOCM_DSR else 0))) }"

definition raise_lines :: "u32 \<Rightarrow> u8 \<Rightarrow> u8" where
  "raise_lines w mcr = mcr OR (if w AND TIOCM_RTS \<noteq> 0 then MXU1_MCR_RTS else 0)
     OR (if w AND TIOCM_DTR \<noteq> 0 then MXU1_MCR_DTR else 0) OR (if w AND TIOCM_LOOP \<noteq> 0 then MXU1_MCR_LOOP else 0)"

definition drop_lines :: "u32 \<Rightarrow> u8 \<Rightarrow> u8" where
  "drop_lines w mcr = mcr AND NOT (if w AND TIOCM_RTS \<noteq> 0 then MXU1_MCR_RTS else 0)
     AND NOT (if w AND TIOCM_DTR \<noteq> 0 then MXU1_MCR_DTR else 0)
     AND NOT (if w AND TIOCM_LOOP \<noteq> 0 then MXU1_MCR_LOOP else 0)"

definition mxu1_tiocmset :: "u32 \<Rightarrow> u32 \<Rightarrow> int u1_m" where
  "mxu1_tiocmset to_set to_clear = do {
     s \<leftarrow> gets id;
     if \<not> has_port s then ret (-ENODEV)
     else mxu1_set_mcr (drop_lines to_clear (raise_lines to_set (mxp_shadow_mcr s))) }"

definition mxu1_break :: "u1_event list list \<Rightarrow> int \<Rightarrow> bool u1_m" where
  "mxu1_break sleeps break_state = do {
     s \<leftarrow> gets id;
     if \<not> has_port s then ret True
     else do {
       ok \<leftarrow> mxu1_drain sleeps (closing_jiffies s) False;
       if \<not> ok then ret False
       else do {
         modify (\<lambda>s. s\<lparr>mxp_send_break := (if break_state = -1 then MXU1_LCR_BREAK else 0)\<rparr>);
         mxu1_set_termios None;
         ret True } } }"

definition sleep_jiffies :: "int \<Rightarrow> int \<Rightarrow> int" where
  "sleep_jiffies len baud = (HZ * len * 10) sdiv (if baud = 0 then 9600 else baud) + HZ sdiv 50"

fun wait_oqueue :: "u1_event list list \<Rightarrow> int \<Rightarrow> 64 word \<Rightarrow> bool u1_m" where
  "wait_oqueue sleeps timeout orig = do {
     len \<leftarrow> mxu1_get_oqueue;
     if len = 0 then ret True
     else (case sleeps of [] \<Rightarrow> ret False | es # sleeps' \<Rightarrow> do {
       baud \<leftarrow> kcall ''tty_get_baud_rate'' [];
       u1_deliver_all es;
       knote ''schedule_timeout'' [sleep_jiffies len baud];
       sig \<leftarrow> kcall ''signal_pending'' [];
       if sig \<noteq> 0 then ret True
       else if timeout \<noteq> 0 then do {
         now \<leftarrow> kcall ''jiffies'' [];
         if time_after (word_of_int now) (orig + word_of_int timeout) then ret True
         else wait_oqueue sleeps' timeout orig }
       else wait_oqueue sleeps' timeout orig }) }"

declare wait_oqueue.simps [simp del]

definition mxul_wait_until_sent :: "u1_event list list \<Rightarrow> int \<Rightarrow> bool u1_m" where
  "mxul_wait_until_sent sleeps timeout = do {
     orig \<leftarrow> kcall ''jiffies'' [];
     wait_oqueue sleeps timeout (word_of_int orig) }"

section \<open>Open and close\<close>

definition no_icount :: async_icount where
  "no_icount = \<lparr>ic_cts = 0, ic_dsr = 0, ic_rng = 0, ic_dcd = 0, ic_rx = 0, ic_tx = 0, ic_frame = 0,
     ic_overrun = 0, ic_parity = 0, ic_brk = 0, ic_buf_overrun = 0\<rparr>"

text \<open>The interrupt URB runs from the first open of the device on.\<close>

definition start_interrupts :: "int u1_m" where
  "start_interrupts = do {
     s \<leftarrow> gets id;
     if mxd_open_port_count s \<noteq> 0 then ret 0
     else if \<not> pt_has_int_urb s then ret (-EINVAL)
     else kcall ''usb_submit_urb(interrupt)'' [] }"

fun commands :: "(u8 \<times> u16) list \<Rightarrow> int u1_m" where
  "commands [] = ret 0"
| "commands ((c, v) # cs) = do {
     m \<leftarrow> uart_module;
     status \<leftarrow> mxu1_command_out_sync c m v [];
     if status \<noteq> 0 then ret status else commands cs }"

definition open_commands :: "(u8 \<times> u16) list" where
  "open_commands = [(MXU1_OPEN_PORT, 0x01 OR 0x80 OR push_bit 2 MXU1_TRANSFER_TIMEOUT), (MXU1_START_PORT, 0),
     (MXU1_PURGE_PORT, MXU1_PURGE_INPUT), (MXU1_PURGE_PORT, MXU1_PURGE_OUTPUT)]"

definition start_reading :: "int u1_m" where
  "start_reading = do {
     s \<leftarrow> gets id;
     if \<not> pt_has_read_urb s then ret (-EINVAL)
     else do {
       modify (\<lambda>s. s\<lparr>mxp_read_urb_state := READ_URB_RUNNING\<rparr>);
       submit_read_urb } }"

definition open_device :: "int u1_m" where
  "open_device = do {
     mxu1_set_termios None;
     status \<leftarrow> commands open_commands;
     status \<leftarrow> (if status \<noteq> 0 then ret status else start_reading);
     if status = 0 then do {
       modify (\<lambda>s. s\<lparr>mxp_is_open := True, mxd_open_port_count := mxd_open_port_count s + 1\<rparr>);
       ret 0 }
     else do {
       n \<leftarrow> gets mxd_open_port_count;
       whenM (n = 0) (knote ''usb_kill_urb(interrupt)'' []);
       ret status } }"

definition mxu1_open :: "int u1_m" where
  "mxu1_open = do {
     s \<leftarrow> gets id;
     if \<not> has_port s then ret (-ENODEV)
     else do {
       knote ''usb_clear_halt(write)'' [];
       knote ''usb_clear_halt(read)'' [];
       knote ''usb_set_interface'' [];
       interrupted \<leftarrow> kcall ''down_interruptible'' [];
       if interrupted \<noteq> 0 then ret (-ERESTARTSYS)
       else do {
         modify (\<lambda>s. s\<lparr>mxp_icount := no_icount, mxp_msr := 0,
           mxp_shadow_mcr := mxp_shadow_mcr s OR (MXU1_MCR_RTS OR MXU1_MCR_DTR)\<rparr>);
         status \<leftarrow> start_interrupts;
         status \<leftarrow> (if status \<noteq> 0 then ret status else open_device);
         knote ''up'' [];
         ret status } } }"

definition mxu1_close :: "u1_event list list \<Rightarrow> bool u1_m" where
  "mxu1_close sleeps = do {
     s \<leftarrow> gets id;
     if \<not> has_dev s \<or> \<not> has_port s then ret True
     else do {
       modify (\<lambda>s. s\<lparr>mxp_is_open := False\<rparr>);
       ok \<leftarrow> mxu1_drain sleeps (closing_jiffies s) True;
       if \<not> ok then ret False
       else do {
         kill_read_urb;
         kill_write_urb;
         modify (\<lambda>s. s\<lparr>mxp_write_urb_in_use := False, mxp_read_urb_state := READ_URB_STOPPED\<rparr>);
         m \<leftarrow> uart_module;
         _ \<leftarrow> mxu1_command_out_sync MXU1_CLOSE_PORT m 0 [];
         interrupted \<leftarrow> kcall ''down_interruptible'' [];
         n \<leftarrow> gets mxd_open_port_count;
         modify (\<lambda>s. s\<lparr>mxd_open_port_count := (if n - 1 \<le> 0 then 0 else n - 1)\<rparr>);
         whenM (n - 1 \<le> 0) (knote ''usb_kill_urb(interrupt)'' []);
         whenM (interrupted = 0) (knote ''up'' []);
         ret True } } }"

section \<open>Requests\<close>

text \<open>The interface a user names, as the driver's mode: only the RS-232 models take RS-232 alone.\<close>

definition rs232_only :: "u1_model \<Rightarrow> bool" where
  "rs232_only m \<longleftrightarrow> m = U1110 \<or> m = U3001"

definition rs485_only :: "u1_model \<Rightarrow> bool" where
  "rs485_only m \<longleftrightarrow> m = U1130 \<or> m = U1131"

definition uart_mode_of :: "u1_model \<Rightarrow> u8 \<Rightarrow> int \<Rightarrow> u8 option" where
  "uart_mode_of model current v =
    (if rs232_only model then (if v = MXU1_RS232 then Some current else None)
     else if v = MXU1_RS232 then (if rs485_only model then None else Some MXU1_UART_232)
     else if v = MXU1_RS422 \<or> v = MXU1_RS4854W then Some MXU1_UART_485_RECEIVER_ENABLED
     else if v = MXU1_RS4852W then Some MXU1_UART_485_RECEIVER_DISABLED
     else None)"

definition mxu1_get_serial_info :: "'u uarg \<Rightarrow> int u1_m" where
  "mxu1_get_serial_info u = do {
     baud \<leftarrow> kcall ''tty_get_baud_rate'' [];
     s \<leftarrow> gets id;
     n \<leftarrow> copy_to_user u [PORT_16550A, int (pt_minor s), uint (mxp_user_get_uart_mode s), uint (mxp_flags s),
       MXU1_WRITE_BUF_SIZE, baud, mxp_closing_wait s];
     ret (if n \<noteq> 0 then -EFAULT else 0) }"

text \<open>The flags and the waiting time are stored before the interface is looked at.\<close>

definition mxu1_set_serial_info :: "serial_struct uarg \<Rightarrow> int u1_m" where
  "mxu1_set_serial_info u = (if ua_left u \<noteq> 0 then ret (-EFAULT)
     else do {
       let new = ua_in u;
       modify (\<lambda>s. s\<lparr>mxp_flags := ser_flags new AND MXU1_SET_SERIAL_FLAGS, mxp_closing_wait := ser_closing_wait new\<rparr>);
       s \<leftarrow> gets id;
       (case uart_mode_of (mxd_model_name s) (mxp_uart_mode s) (int (ser_port new)) of
          None \<Rightarrow> ret (-EINVAL)
        | Some m \<Rightarrow> do {
            modify (\<lambda>s. s\<lparr>mxp_uart_mode := m\<rparr>);
            whenM (\<not> rs232_only (mxd_model_name s))
              (modify (\<lambda>s. s\<lparr>mxp_user_get_uart_mode := of_nat (ser_port new)\<rparr>));
            mxu1_set_termios None;
            ret 0 }) })"

text \<open>A request that is carried out leaves the \<open>switch\<close> at its end and is answered as unknown.\<close>

definition set_interface :: "int \<Rightarrow> int u1_m" where
  "set_interface v = do {
     s \<leftarrow> gets id;
     (case uart_mode_of (mxd_model_name s) (mxp_uart_mode s) v of
        None \<Rightarrow> ret (-EINVAL)
      | Some m \<Rightarrow> do {
          modify (\<lambda>s. s\<lparr>mxp_uart_mode := m\<rparr>);
          mxu1_set_termios None;
          ret (-ENOIOCTLCMD) }) }"

definition same_lines :: "async_icount \<Rightarrow> async_icount \<Rightarrow> bool" where
  "same_lines a b \<longleftrightarrow> ic_rng a = ic_rng b \<and> ic_dsr a = ic_dsr b \<and> ic_dcd a = ic_dcd b \<and> ic_cts a = ic_cts b"

text \<open>A wait whose flag is already lowered returns at once and delivers nothing.\<close>

fun miwait_loop :: "u1_event list list \<Rightarrow> u32 \<Rightarrow> async_icount \<Rightarrow> int option u1_m" where
  "miwait_loop [] arg cprev = ret None"
| "miwait_loop (es # sleeps) arg cprev = do {
     w \<leftarrow> gets mxp_msr_wait_flags;
     whenM w (u1_deliver_all es);
     sig \<leftarrow> kcall ''signal_pending'' [];
     if sig \<noteq> 0 then ret (Some (-ERESTARTSYS))
     else do {
       cnow \<leftarrow> gets mxp_icount;
       if same_lines cnow cprev then ret (Some (-EIO))
       else if lines_changed arg cprev cnow then ret (Some 0)
       else miwait_loop sleeps arg cnow } }"

definition icount_words :: "async_icount \<Rightarrow> int list" where
  "icount_words c = map uint [ic_cts c, ic_dsr c, ic_rng c, ic_dcd c, ic_tx c, ic_rx c, ic_frame c,
     ic_parity c, ic_overrun c, ic_brk c, ic_buf_overrun c]"

datatype u1_cmd =
    U1_TIOCGSERIAL "unit uarg" | U1_TIOCSSERIAL "serial_struct uarg" | U1_TIOCMIWAIT u32
  | U1_TIOCGICOUNT "unit uarg" | U1_SET_INTERFACE int | U1_other

definition u1_some :: "int u1_m \<Rightarrow> int option u1_m" where
  "u1_some m = do { r \<leftarrow> m; ret (Some r) }"

definition mxu1_ioctl :: "u1_event list list \<Rightarrow> u1_cmd \<Rightarrow> int option u1_m" where
  "mxu1_ioctl sleeps cmd = do {
     p \<leftarrow> gets has_port;
     if \<not> p then ret (Some (-ENODEV))
     else (case cmd of
       U1_TIOCGSERIAL u \<Rightarrow> u1_some (mxu1_get_serial_info u)
     | U1_TIOCSSERIAL u \<Rightarrow> u1_some (mxu1_set_serial_info u)
     | U1_TIOCMIWAIT arg \<Rightarrow> do {
         cprev \<leftarrow> gets mxp_icount;
         modify (\<lambda>s. s\<lparr>mxp_msr_wait_flags := True\<rparr>);
         miwait_loop sleeps arg cprev }
     | U1_TIOCGICOUNT u \<Rightarrow> u1_some (do {
         c \<leftarrow> gets mxp_icount;
         n \<leftarrow> copy_to_user u (icount_words c);
         ret (if n \<noteq> 0 then -EFAULT else 0) })
     | U1_SET_INTERFACE v \<Rightarrow> u1_some (set_interface v)
     | U1_other \<Rightarrow> ret (Some (-ENOIOCTLCMD))) }"

definition mxu1_get_icount :: "(int \<times> async_icount) u1_m" where
  "mxu1_get_icount = do { c \<leftarrow> gets mxp_icount; ret (0, c) }"

section \<open>Attaching and releasing a device\<close>

definition product_model :: "int \<Rightarrow> u1_model option" where
  "product_model product = (if product = 0x1110 then Some U1110 else if product = 0x1130 then Some U1130
     else if product = 0x1131 then Some U1131 else if product = 0x1150 then Some U1150
     else if product = 0x1151 then Some U1151 else if product = 0x3001 then Some U3001 else None)"

definition free_mxdev :: "int \<Rightarrow> int option u1_m" where
  "free_mxdev status = do {
     knote ''kfree(mxdev)'' [];
     modify (\<lambda>s. s\<lparr>has_dev := False\<rparr>);
     ret (Some status) }"

definition mxu1_buf_alloc :: "bool u1_m" where
  "mxu1_buf_alloc = do {
     cb \<leftarrow> kcall ''kmalloc(circ_buf)'' [];
     if cb = 0 then ret False
     else do {
       b \<leftarrow> kcall ''kmalloc'' [MXU1_WRITE_BUF_SIZE];
       if b = 0 then do { knote ''kfree'' [cb]; ret False }
       else do {
         modify (\<lambda>s. s\<lparr>mxp_write_buf := mxu1_buf_clear (mxp_write_buf s)\<rparr>);
         ret True } } }"

definition mxu1_buf_free :: "unit u1_m" where
  "mxu1_buf_free = do { knote ''kfree(cb->buf)'' []; knote ''kfree(cb)'' [] }"

definition fresh_port :: "mxu1 \<Rightarrow> mxu1" where
  "fresh_port s = s\<lparr>mxp_is_open := False, mxp_msr := 0, mxp_lsr := 0, mxp_shadow_mcr := 0,
     mxp_uart_mode := (if rs485_only (mxd_model_name s) then MXU1_UART_485_RECEIVER_DISABLED else MXU1_UART_232),
     mxp_user_get_uart_mode := (if rs485_only (mxd_model_name s) then 1 else 0),
     mxp_uart_base_addr := MXU1_UART1_BASE_ADDR, mxp_flags := ASYNC_LOW_LATENCY, mxp_msr_wait_flags := False,
     mxp_closing_wait := MXU1_DEFAULT_CLOSING_WAIT, mxp_icount := no_icount,
     mxp_read_urb_state := READ_URB_RUNNING, mxp_write_urb_in_use := False, mxp_send_break := 0, mxp_set_B0 := False\<rparr>"

definition create_port :: "int option u1_m" where
  "create_port = do {
     p \<leftarrow> kcall ''kzalloc(mxport)'' [];
     if p = 0 then free_mxdev (-ENOMEM)
     else do {
       ok \<leftarrow> mxu1_buf_alloc;
       if \<not> ok then do { knote ''kfree(mxport)'' []; free_mxdev (-ENOMEM) }
       else do {
         modify (\<lambda>s. (fresh_port s)\<lparr>has_port := True\<rparr>);
         ret (Some 0) } } }"

text \<open>A device with one endpoint still runs its boot loader: it is given its firmware and resets.\<close>

definition boot_device :: "nat \<Rightarrow> u8 list \<Rightarrow> int option u1_m" where
  "boot_device rounds firmware = do {
     r \<leftarrow> mxu1_download_firmware rounds firmware;
     (case r of
        None \<Rightarrow> ret None
      | Some status \<Rightarrow>
          if status \<noteq> 0 then free_mxdev status
          else do {
            knote ''msleep_interruptible'' [100];
            _ \<leftarrow> mxu1_command_out_sync MXU1_RESET_EXT_DEVICE 0 0 [];
            free_mxdev (-ENODEV) }) }"

text \<open>\<open>fw\<close>: the firmware image of each model, a table of the header files.\<close>

definition mxu1_startup :: "nat \<Rightarrow> (u1_model \<Rightarrow> u8 list) \<Rightarrow> int option u1_m" where
  "mxu1_startup rounds fw = do {
     p \<leftarrow> kcall ''kmalloc(mxdev)'' [];
     if p = 0 then ret (Some (-ENOMEM))
     else do {
       modify (\<lambda>s. s\<lparr>has_dev := True, mxd_open_port_count := 0, mxd_urb_error := False\<rparr>);
       known \<leftarrow> kcall ''usb_match_id'' [];
       if known = 0 then ret (Some 0)
       else do {
         product \<leftarrow> kcall ''idProduct'' [];
         (case product_model product of
            None \<Rightarrow> ret (Some (-ENODEV))
          | Some model \<Rightarrow> do {
              modify (\<lambda>s. s\<lparr>mxd_model_name := model\<rparr>);
              endpoints \<leftarrow> kcall ''bNumEndpoints'' [];
              if endpoints = 1 then boot_device rounds (fw model) else create_port }) } } }"

definition mxu1_disconnect :: "unit u1_m" where
  "mxu1_disconnect = do { kill_read_urb; kill_write_urb }"

definition mxu1_release :: "unit u1_m" where
  "mxu1_release = do {
     p \<leftarrow> gets has_port;
     whenM p (do {
       mxu1_buf_free;
       knote ''kfree(mxport)'' [];
       modify (\<lambda>s. s\<lparr>has_port := False\<rparr>) });
     knote ''kfree(mxdev)'' [];
     modify (\<lambda>s. s\<lparr>has_dev := False\<rparr>) }"

section \<open>Module\<close>

definition mxu1_init :: "int u1_m" where
  "mxu1_init = do {
     r \<leftarrow> kcall ''usb_serial_register_drivers'' [0x1110, 0x1130, 0x1150, 0x1151, 0x1131, 0x3001];
     whenM (r = 0) (knote ''printk'' []);
     ret r }"

definition mxu1_exit :: "unit u1_m" where
  "mxu1_exit = knote ''usb_serial_deregister_drivers'' [0x1110, 0x1130, 0x1150, 0x1151, 0x1131, 0x3001]"

end
