(* ===== verification/Mxu11_Frame.thy ===== *)
theory Mxu11_Frame
  imports Mxu11_Ops
begin

text \<open>
  What the operations of the USB serial driver keep.  The locale \<open>u1_frame\<close> is the contract of a
  predicate that looks only at the write buffer, the read URB and the submissions: kernel calls of any other
  kind and every other field leave it alone.  \<open>u1_invariant\<close> adds that sending and the
  two moves of the read URB keep it; then all operations do, whatever the kernel delivers while
  they sleep.  The transmit stream and the state of the read URB are its interpretations.
\<close>

lemma preserves_modify: "(\<And>s. P s \<Longrightarrow> P (f s)) \<Longrightarrow> preserves P (modify f)"
  by (simp add: preserves_def)

lemma preserves_if: "(b \<Longrightarrow> preserves P k) \<Longrightarrow> (\<not> b \<Longrightarrow> preserves P l) \<Longrightarrow> preserves P (if b then k else l)"
  by simp

lemma preserves_id: "(\<And>s. P s \<Longrightarrow> P (snd (run_state (f s) s))) \<Longrightarrow> preserves P (State_Monad.bind (gets id) f)"
  by (simp add: preserves_def)

text \<open>\<open>leads P m Q\<close>: a run of \<open>m\<close> from a state with \<open>P\<close> ends in one with \<open>Q\<close>.\<close>

definition leads :: "('s \<Rightarrow> bool) \<Rightarrow> ('s, 'a) state \<Rightarrow> ('s \<Rightarrow> bool) \<Rightarrow> bool" where
  "leads P m Q \<longleftrightarrow> (\<forall>s. P s \<longrightarrow> Q (snd (run_state m s)))"

lemma leads_bind: "leads P m R \<Longrightarrow> (\<And>x. leads R (f x) Q) \<Longrightarrow> leads P (State_Monad.bind m f) Q"
  by (simp add: leads_def case_prod_beta)

lemma leads_keep: "preserves P m \<Longrightarrow> (\<And>x. leads P (f x) Q) \<Longrightarrow> leads P (State_Monad.bind m f) Q"
  by (simp add: leads_def preserves_def case_prod_beta)

lemma leads_if: "leads P m Q \<Longrightarrow> leads P n Q \<Longrightarrow> leads P (if b then m else n) Q"
  by simp

lemma leads_ret: "(\<And>s. P s \<Longrightarrow> Q s) \<Longrightarrow> leads P (ret x) Q"
  by (simp add: leads_def)

lemma leads_preserves: "preserves Q m \<Longrightarrow> (\<And>s. P s \<Longrightarrow> Q s) \<Longrightarrow> leads P m Q"
  by (simp add: leads_def preserves_def)

lemma leadsD: "leads P m Q \<Longrightarrow> P s \<Longrightarrow> Q (snd (run_state m s))"
  by (simp add: leads_def)

locale u1_frame =
  fixes P :: "mxu1 \<Rightarrow> bool"
  assumes call: "f \<noteq> ''usb_submit_urb(write)'' \<Longrightarrow> P s \<Longrightarrow> P (s\<lparr>ihist := Kernel_call f as r # ihist s\<rparr>)"
    and undef: "w \<noteq> ''read urb submitted while active'' \<Longrightarrow> P s \<Longrightarrow> P (s\<lparr>ihist := Undefined w # ihist s\<rparr>)"
    and user: "P s \<Longrightarrow> P (s\<lparr>ihist := To_user vs # ihist s\<rparr>)"
    and status_fields: "P s \<Longrightarrow> P (s\<lparr>mxp_lsr := a\<rparr>)" "P s \<Longrightarrow> P (s\<lparr>mxp_msr := a\<rparr>)" "P s \<Longrightarrow> P (s\<lparr>mxp_shadow_mcr := a\<rparr>)"
      "P s \<Longrightarrow> P (s\<lparr>mxd_urb_error := b\<rparr>)" "P s \<Longrightarrow> P (s\<lparr>mxp_icount := ic\<rparr>)" "P s \<Longrightarrow> P (s\<lparr>mxp_msr_wait_flags := b\<rparr>)"
    and line_fields: "P s \<Longrightarrow> P (s\<lparr>pt_tty := t\<rparr>)" "P s \<Longrightarrow> P (s\<lparr>mxp_set_B0 := b\<rparr>)" "P s \<Longrightarrow> P (s\<lparr>mxp_send_break := wd\<rparr>)"
      "P s \<Longrightarrow> P (s\<lparr>mxp_uart_mode := a\<rparr>)" "P s \<Longrightarrow> P (s\<lparr>mxp_user_get_uart_mode := a\<rparr>)"
      "P s \<Longrightarrow> P (s\<lparr>mxp_flags := wd\<rparr>)" "P s \<Longrightarrow> P (s\<lparr>mxp_closing_wait := k\<rparr>)"
      "P s \<Longrightarrow> P (s\<lparr>mxd_open_port_count := k\<rparr>)"
begin

lemmas fields = status_fields line_fields

lemma frame_primitives:
  "f \<noteq> ''usb_submit_urb(write)'' \<Longrightarrow> preserves P (kcall f as)"
  "f \<noteq> ''usb_submit_urb(write)'' \<Longrightarrow> preserves P (knote f as)"
  "w \<noteq> ''read urb submitted while active'' \<Longrightarrow> preserves P (undefined_c w)"
  "preserves P (copy_to_user u vs)"
  by (simp_all add: preserves_def call undef user)

lemmas frame_rules = preserves_structure frame_primitives preserves_modify

lemma command_out [simp]: "preserves P (mxu1_command_out_sync c m v d)"
  unfolding mxu1_command_out_sync_def by (intro frame_rules) simp

lemma command_in [simp]: "preserves P (mxu1_command_in_sync c m v n)"
  unfolding mxu1_command_in_sync_def by (intro frame_rules) simp

lemma small_calls [simp]: "preserves P (transfer_byte i)" "preserves P uart_module" "preserves P wake_writers"
    "preserves P urb_failed" "preserves P (hw_stop b)"
  unfolding transfer_byte_def uart_module_def wake_writers_def urb_failed_def hw_stop_def
  by (intro frame_rules; simp add: fields)+

lemma write_byte [simp]: "preserves P (mxu1_write_byte a m b)"
  unfolding mxu1_write_byte_def by (intro frame_rules; simp)

lemma set_mcr [simp]: "preserves P (mxu1_set_mcr m)"
  unfolding mxu1_set_mcr_def by (intro frame_rules; simp add: fields)

lemma get_lsr [simp]: "preserves P mxu1_get_lsr"
  unfolding mxu1_get_lsr_def by (intro frame_rules; simp add: fields)

lemma get_oqueue [simp]: "preserves P mxu1_get_oqueue"
  unfolding mxu1_get_oqueue_def by (intro frame_rules; simp)

lemma recv [simp]: "preserves P (mxu1_recv data)"
proof (induction data rule: mxu1_recv.induct)
  case (1 data)
  show ?case
    by (subst mxu1_recv.simps) (intro preserves_if frame_rules 1; simp)
qed

lemma take_data [simp]: "preserves P (take_data data)"
  unfolding take_data_def by (intro frame_rules; simp add: fields)

lemma handle_new_msr [simp]: "preserves P (mxu1_handle_new_msr msr)"
  unfolding mxu1_handle_new_msr_def by (intro frame_rules; simp add: fields)

lemma interrupt_callback [simp]: "preserves P (mxu1_interrupt_callback st data)"
  unfolding mxu1_interrupt_callback_def interrupt_packet_def Let_def
  by (intro frame_rules; simp add: fields)

lemma restore_mcr [simp]: "preserves P (restore_mcr cflag)"
  unfolding restore_mcr_def Let_def by (intro frame_rules; simp add: fields)

lemma xon_xoff [simp]: "preserves P (xon_xoff iflag)"
  unfolding xon_xoff_def by (intro frame_rules; simp)

lemma commands [simp]: "preserves P (commands cs)"
proof (induction cs)
  case (Cons c cs)
  then show ?case by (cases c) (simp, intro frame_rules; simp)
qed (simp add: frame_rules)

lemma start_interrupts [simp]: "preserves P start_interrupts"
  unfolding start_interrupts_def by (intro frame_rules; simp)

lemma drain_stops [simp]: "preserves P (drain_stops t)"
  unfolding drain_stops_def by (intro frame_rules; simp)

lemma device_busy [simp]: "preserves P (device_busy t)"
  unfolding device_busy_def by (intro frame_rules; simp)

lemma get_serial_info [simp]: "preserves P (mxu1_get_serial_info u)"
  unfolding mxu1_get_serial_info_def by (intro frame_rules; simp)

lemma tiocmset [simp]: "preserves P (mxu1_tiocmset a b)"
  unfolding mxu1_tiocmset_def by (intro frame_rules; simp)

end

locale u1_invariant = u1_frame +
  assumes send: "preserves P mxu1_send"
    and bulk_in: "P s \<Longrightarrow> g_read_urb s \<Longrightarrow> P (snd (run_state (mxu1_bulk_in_callback st d) (s\<lparr>g_read_urb := False\<rparr>)))"
    and write_urb: "P s \<Longrightarrow> P (s\<lparr>g_write_urb := False\<rparr>)" "P s \<Longrightarrow> P (s\<lparr>mxp_write_urb_in_use := False\<rparr>)"
    and restart: "preserves P mxu1_restart_read"
    and stop: "preserves P mxu1_stop_read"
begin

lemma bulk_out [simp]: "preserves P (mxu1_bulk_out_callback st)"
  unfolding mxu1_bulk_out_callback_def by (intro frame_rules; simp add: write_urb send)

lemma deliver [simp]: "preserves P (u1_deliver e)"
proof (cases e)
  case (Bulk_in st d)
  then show ?thesis by (auto simp: preserves_def bulk_in)
next
  case (Bulk_out st)
  then show ?thesis by (simp, intro frame_rules) (simp_all add: write_urb)
qed simp

lemma deliver_all [simp]: "preserves P (u1_deliver_all es)"
  by (induction es) (simp_all add: frame_rules)

lemma drain_buffer [simp]: "preserves P (drain_buffer sleeps t)"
proof (induction sleeps arbitrary: t)
  case Nil
  show ?case by (subst drain_buffer.simps) (simp only: list.case, intro frame_rules; simp)
next
  case (Cons es sleeps)
  show ?case by (subst drain_buffer.simps) (simp only: list.case, intro frame_rules Cons; simp)
qed

lemma drain_device [simp]: "preserves P (drain_device sleeps t)"
proof (induction sleeps arbitrary: t)
  case Nil
  show ?case by (subst drain_device.simps) (simp only: list.case, intro frame_rules; simp)
next
  case (Cons es sleeps)
  show ?case by (subst drain_device.simps) (simp only: list.case, intro frame_rules Cons; simp)
qed

lemma drain [simp]: "preserves P (mxu1_drain sleeps t False)"
  unfolding mxu1_drain_def whenM_def if_False by (intro frame_rules; simp add: fields)

lemma lift_holds [simp]: "preserves P (lift_holds c i)"
  unfolding lift_holds_def by (intro frame_rules restart; simp)

lemma set_termios [simp]: "preserves P (mxu1_set_termios old)"
  unfolding mxu1_set_termios_def Let_def by (intro frame_rules; simp)

lemma flow_calls [simp]: "preserves P mxu1_throttle" "preserves P mxu1_unthrottle"
  unfolding mxu1_throttle_def mxu1_unthrottle_def by (intro frame_rules restart stop)+

lemma break_ctl [simp]: "preserves P (mxu1_break sleeps b)"
  unfolding mxu1_break_def by (intro frame_rules; simp add: fields)

lemma wait_oqueue [simp]: "preserves P (wait_oqueue sleeps t orig)"
proof (induction sleeps arbitrary: t)
  case Nil
  show ?case by (subst wait_oqueue.simps) (simp only: list.case, intro frame_rules; simp)
next
  case (Cons es sleeps)
  show ?case by (subst wait_oqueue.simps) (simp only: list.case, intro frame_rules Cons; simp)
qed

lemma wait_until_sent [simp]: "preserves P (mxul_wait_until_sent sleeps t)"
  unfolding mxul_wait_until_sent_def by (intro frame_rules; simp)

lemma miwait [simp]: "preserves P (miwait_loop sleeps arg c)"
  by (induction sleeps arbitrary: c) (simp_all add: frame_rules)

lemma set_serial_info [simp]: "preserves P (mxu1_set_serial_info u)"
  unfolding mxu1_set_serial_info_def Let_def by (intro frame_rules; simp add: fields)

lemma set_interface [simp]: "preserves P (set_interface v)"
  unfolding set_interface_def by (intro frame_rules; simp add: fields)

lemma ioctl [simp]: "preserves P (mxu1_ioctl sleeps cmd)"
  unfolding mxu1_ioctl_def u1_some_def
  by (cases cmd) (simp_all only: u1_cmd.case, (intro frame_rules; simp add: fields)+)

end

end
