(* ===== verification/Mxu11_Stream.thy ===== *)
theory Mxu11_Stream
  imports Mxu11_Frame
begin

text \<open>
  The transmit side of the USB serial driver: the bytes handed to the USB core, in URBs it accepts or
  refuses, followed by those in the buffer are the bytes accepted, in order; as long as URBs are accepted
  and complete, the buffer empties.
\<close>

section \<open>Bytes handed over\<close>

fun u1_handed :: "io_event list \<Rightarrow> u8 list" where
  "u1_handed [] = []"
| "u1_handed (Kernel_call f as r # h) = u1_handed h @ (if f = ''usb_submit_urb(write)'' then map word_of_int as else [])"
| "u1_handed (_ # h) = u1_handed h"

definition tx_const :: "u8 list \<Rightarrow> u8 list \<Rightarrow> mxu1 \<Rightarrow> bool" where
  "tx_const w k s \<longleftrightarrow> circ_ok (u1_circ s) \<and> cb_ok (mxp_write_buf s) \<and>
     u1_handed (ihist s) @ cb_queue (mxp_write_buf s) = k \<and> (\<exists>sent. u1_handed (ihist s) = w @ sent)"

lemma word_of_int_uint_list [simp]: "map (word_of_int \<circ> uint) (bs :: u8 list) = bs"
  by (simp add: o_def)

lemma buf_get_stream:
  assumes "circ_ok cm" "cb_ok cb" "mxu1_buf_get cm n cb = (bs, cb')"
  shows "cb_ok cb'" "bs @ cb_queue cb' = cb_queue cb"
  using buf_get_queue [OF assms] by simp_all

lemma send_const: "preserves (tx_const w k) mxu1_send"
proof (rule preservesI)
  fix s assume s: "tx_const w k s"
  obtain bs cb where g: "mxu1_buf_get (u1_circ s) (pt_bulk_out_size s) (mxp_write_buf s) = (bs, cb)"
    by (cases "mxu1_buf_get (u1_circ s) (pt_bulk_out_size s) (mxp_write_buf s)")
  have "cb_ok cb" "bs @ cb_queue cb = cb_queue (mxp_write_buf s)"
    using buf_get_stream [OF _ _ g] s by (auto simp: tx_const_def)
  then show "tx_const w k (snd (run_state mxu1_send s))"
    using s g by (auto simp: mxu1_send_def submit_write_urb_def wake_writers_def tx_const_def)
qed

lemma read_const: "preserves (tx_const w k) submit_read_urb" "preserves (tx_const w k) mxu1_restart_read"
    "preserves (tx_const w k) continue_read"
  by (auto simp: preserves_def submit_read_urb_def mxu1_restart_read_def continue_read_def tx_const_def
      split: read_urb_state.splits)

interpretation txf: u1_frame "tx_const w k" for w k
  by unfold_locales (simp_all add: tx_const_def)

lemma bulk_in_const: "preserves (tx_const w k) (mxu1_bulk_in_callback st d)"
  unfolding mxu1_bulk_in_callback_def by (intro txf.frame_rules read_const; simp)

interpretation txi: u1_invariant "tx_const w k" for w k
proof unfold_locales
  fix s st d assume "tx_const w k s"
  then have "tx_const w k (s\<lparr>g_read_urb := False\<rparr>)" by (simp add: tx_const_def)
  then show "tx_const w k (snd (run_state (mxu1_bulk_in_callback st d) (s\<lparr>g_read_urb := False\<rparr>)))"
    by (rule preservesD [OF bulk_in_const])
qed (simp_all add: send_const read_const, simp_all add: tx_const_def mxu1_stop_read_def preserves_def)

section \<open>The stream\<close>

datatype u1_call = U1_write "u8 list" | U1_throttle | U1_unthrottle | U1_set_termios ktermios
  | U1_break "u1_event list list" int | U1_tiocmset u32 u32 | U1_ioctl "u1_event list list" u1_cmd
  | U1_wait "u1_event list list" int | U1_kernel u1_event

fun u1_do :: "u1_call \<Rightarrow> u8 list u1_m" where
  "u1_do (U1_write bs) = do { n \<leftarrow> mxu1_write bs; ret (take (nat n) bs) }"
| "u1_do U1_throttle = do { mxu1_throttle; ret [] }"
| "u1_do U1_unthrottle = do { mxu1_unthrottle; ret [] }"
| "u1_do (U1_set_termios new) = do {
     old \<leftarrow> gets (\<lambda>s. t_termios (pt_tty s));
     modify (\<lambda>s. s\<lparr>pt_tty := (pt_tty s)\<lparr>t_termios := new\<rparr>\<rparr>);
     mxu1_set_termios (Some old);
     ret [] }"
| "u1_do (U1_break sleeps b) = do { _ \<leftarrow> mxu1_break sleeps b; ret [] }"
| "u1_do (U1_tiocmset a b) = do { _ \<leftarrow> mxu1_tiocmset a b; ret [] }"
| "u1_do (U1_ioctl sleeps cmd) = do { _ \<leftarrow> mxu1_ioctl sleeps cmd; ret [] }"
| "u1_do (U1_wait sleeps t) = do { _ \<leftarrow> mxul_wait_until_sent sleeps t; ret [] }"
| "u1_do (U1_kernel e) = do { u1_deliver e; ret [] }"

definition u1_ready :: "mxu1 \<Rightarrow> bool" where
  "u1_ready s \<longleftrightarrow> circ_ok (u1_circ s) \<and> cb_ok (mxp_write_buf s)"

lemma write_const:
  assumes "u1_ready s" "run_state (mxu1_write bs) s = (n, t)"
  shows "tx_const (u1_handed (ihist s)) (u1_handed (ihist s) @ cb_queue (mxp_write_buf s) @ take (nat n) bs) t"
proof (cases "bs = [] \<or> \<not> has_port s \<or> \<not> mxp_is_open s")
  case True
  then show ?thesis using assms by (auto simp: mxu1_write_def tx_const_def u1_ready_def split: if_splits)
next
  case False
  obtain k cb where p: "mxu1_buf_put (u1_circ s) bs (mxp_write_buf s) = (k, cb)"
    by (cases "mxu1_buf_put (u1_circ s) bs (mxp_write_buf s)")
  have t: "n = k" "t = snd (run_state mxu1_send (s\<lparr>mxp_write_buf := cb\<rparr>))"
    using False p assms(2) by (auto simp: mxu1_write_def case_prod_beta)
  have "tx_const (u1_handed (ihist s)) (u1_handed (ihist s) @ cb_queue (mxp_write_buf s) @ take (nat k) bs)
      (s\<lparr>mxp_write_buf := cb\<rparr>)"
    using buf_put_queue [OF _ _ p] assms(1) by (simp add: tx_const_def u1_ready_def)
  then show ?thesis
    unfolding t by (rule preservesD [OF send_const])
qed

lemma call_const:
  assumes "u1_ready s"
  shows "tx_const (u1_handed (ihist s)) (u1_handed (ihist s) @ cb_queue (mxp_write_buf s) @ fst (run_state (u1_do c) s))
    (snd (run_state (u1_do c) s))"
proof -
  let ?P = "tx_const (u1_handed (ihist s)) (u1_handed (ihist s) @ cb_queue (mxp_write_buf s))"
  have s: "?P s" using assms by (simp add: tx_const_def u1_ready_def)
  show ?thesis
  proof (cases c)
    case (U1_write bs)
    then show ?thesis
      using write_const [OF assms, of bs] by (cases "run_state (mxu1_write bs) s") simp
  next
    case (U1_set_termios new)
    let ?u = "s\<lparr>pt_tty := (pt_tty s)\<lparr>t_termios := new\<rparr>\<rparr>"
    have "?P ?u" using s by (simp add: tx_const_def)
    then have "?P (snd (run_state (mxu1_set_termios (Some (t_termios (pt_tty s)))) ?u))"
      by (rule preservesD [OF txi.set_termios])
    with U1_set_termios show ?thesis by (simp add: case_prod_beta)
  qed (simp_all add: case_prod_beta preservesD [where P = ?P, OF _ s])
qed

interpretation u1tx: stream_device u1_do "\<lambda>s. cb_queue (mxp_write_buf s)" "\<lambda>s. u1_handed (ihist s)" u1_ready
proof unfold_locales
  fix s c assume s: "u1_ready s"
  note c = call_const [OF s, of c]
  show "u1_ready (snd (run_state (u1_do c) s))"
    using c by (simp add: tx_const_def u1_ready_def)
  show "\<exists>sent. u1_handed (ihist (snd (run_state (u1_do c) s))) = u1_handed (ihist s) @ sent \<and>
      sent @ cb_queue (mxp_write_buf (snd (run_state (u1_do c) s))) =
      cb_queue (mxp_write_buf s) @ fst (run_state (u1_do c) s)"
    using c by (auto simp: tx_const_def)
qed

text \<open>
  C7. The transmit stream of the USB driver.  Whatever is called on the port (writes, flow control, line
  settings, breaks, requests) and whatever the kernel delivers in between and while the calls sleep, the bytes
  handed to the USB core followed by those in the buffer are the bytes buffered before followed by those
  accepted, and the buffer stays well formed.
\<close>

theorem u1_tx_stream:
  assumes "circ_ok (u1_circ s)" "cb_ok (mxp_write_buf s)" "run_state (run_calls u1_do calls) s = (accepted, t)"
  shows "cb_ok (mxp_write_buf t) \<and> (\<exists>sent. u1_handed (ihist t) = u1_handed (ihist s) @ sent \<and>
    sent @ cb_queue (mxp_write_buf t) = cb_queue (mxp_write_buf s) @ accepted)"
proof -
  have r: "u1_ready s" using assms(1,2) by (simp add: u1_ready_def)
  show ?thesis
    using u1tx.run_ready [OF r, of calls] u1tx.stream [OF r, of calls] assms(3) by (simp add: u1_ready_def)
qed

definition u1_example :: mxu1 where
  "u1_example = \<lparr>ienv = latch_env (\<lambda>_. 0), ihist = [], u1_circ = linux_circ, has_dev = True, has_port = True,
     pt_number = 0, pt_minor = 0, pt_has_tty = False, pt_tty = i_t port_example, pt_bulk_out_size = 64,
     pt_has_read_urb = True, pt_has_int_urb = True, mxd_open_port_count = 1, mxd_model_name = U1150,
     mxd_urb_error = False, mxp_is_open = True, mxp_msr = 0, mxp_lsr = 0, mxp_shadow_mcr = 0, mxp_uart_mode = 0,
     mxp_user_get_uart_mode = 0, mxp_uart_base_addr = MXU1_UART1_BASE_ADDR, mxp_flags = 0,
     mxp_msr_wait_flags = False, mxp_closing_wait = 0, mxp_icount = no_icount,
     mxp_read_urb_state = READ_URB_RUNNING, mxp_write_urb_in_use = False,
     mxp_write_buf = \<lparr>cb_buf = (\<lambda>_. 0), cb_head = 0, cb_tail = 0\<rparr>, mxp_send_break = 0, mxp_set_B0 = False,
     g_read_urb = True, g_write_urb = False\<rparr>"

lemma u1_tx_stream_witness:
  "\<exists>accepted t sent. run_state (run_calls u1_do [U1_write [65, 66], U1_kernel (Bulk_out 0), U1_throttle]) u1_example = (accepted, t) \<and>
    sent @ cb_queue (mxp_write_buf t) = accepted"
proof -
  obtain acc t where r: "run_state (run_calls u1_do [U1_write [65, 66], U1_kernel (Bulk_out 0), U1_throttle]) u1_example = (acc, t)"
    by (cases "run_state (run_calls u1_do [U1_write [65, 66], U1_kernel (Bulk_out 0), U1_throttle]) u1_example")
  have "circ_ok (u1_circ u1_example)" "cb_ok (mxp_write_buf u1_example)" "cb_queue (mxp_write_buf u1_example) = []"
    by (simp_all add: u1_example_def cb_ok_def cb_queue_def cb_count_def)
  with u1_tx_stream [OF this(1,2) r] r show ?thesis by auto
qed

section \<open>Progress\<close>

text \<open>The USB core accepts every URB, and one carries at least a byte.\<close>

definition urbs_accepted :: "mxu1 \<Rightarrow> bool" where
  "urbs_accepted s \<longleftrightarrow> (\<forall>h bs. env_k (ienv s) h ''usb_submit_urb(write)'' bs = 0) \<and> 0 < pt_bulk_out_size s"

definition tx_live :: "mxu1 \<Rightarrow> bool" where
  "tx_live s \<longleftrightarrow> u1_ready s \<and> urbs_accepted s \<and> mxp_write_urb_in_use s = g_write_urb s \<and>
     (cb_queue (mxp_write_buf s) \<noteq> [] \<longrightarrow> g_write_urb s)"

lemma send_effect:
  assumes "u1_ready s" "urbs_accepted s" "\<not> mxp_write_urb_in_use s" "\<not> g_write_urb s" "t = snd (run_state mxu1_send s)"
  shows "tx_live t" "cb_queue (mxp_write_buf t) = drop (nat (pt_bulk_out_size s)) (cb_queue (mxp_write_buf s))"
    "pt_bulk_out_size t = pt_bulk_out_size s"
proof -
  obtain bs cb where g: "mxu1_buf_get (u1_circ s) (pt_bulk_out_size s) (mxp_write_buf s) = (bs, cb)"
    by (cases "mxu1_buf_get (u1_circ s) (pt_bulk_out_size s) (mxp_write_buf s)")
  have q: "cb_ok cb" "bs = take (nat (pt_bulk_out_size s)) (cb_queue (mxp_write_buf s))"
    "cb_queue cb = drop (nat (pt_bulk_out_size s)) (cb_queue (mxp_write_buf s))"
    using buf_get_queue [OF _ _ g] assms(1) by (auto simp: u1_ready_def)
  have "bs = [] \<Longrightarrow> cb_queue cb = []"
    using q assms(2) by (auto simp: urbs_accepted_def)
  then show "tx_live t" "cb_queue (mxp_write_buf t) = drop (nat (pt_bulk_out_size s)) (cb_queue (mxp_write_buf s))"
    "pt_bulk_out_size t = pt_bulk_out_size s"
    using assms g q by (auto simp: mxu1_send_def submit_write_urb_def wake_writers_def tx_live_def u1_ready_def urbs_accepted_def)
qed

lemma write_live:
  assumes "tx_live s" "run_state (mxu1_write bs) s = (n, t)"
  shows "tx_live t" "pt_bulk_out_size t = pt_bulk_out_size s"
proof -
  obtain k cb where p: "mxu1_buf_put (u1_circ s) bs (mxp_write_buf s) = (k, cb)"
    by (cases "mxu1_buf_put (u1_circ s) bs (mxp_write_buf s)")
  let ?u = "s\<lparr>mxp_write_buf := cb\<rparr>"
  have u: "u1_ready ?u" "urbs_accepted ?u" 
    using buf_put_queue [OF _ _ p] assms(1) by (auto simp: tx_live_def u1_ready_def urbs_accepted_def)
  have t: "t = s \<or> t = snd (run_state mxu1_send ?u)"
    using p assms(2) by (auto simp: mxu1_write_def case_prod_beta split: if_splits)
  have "tx_live t \<and> pt_bulk_out_size t = pt_bulk_out_size s"
  proof (cases "mxp_write_urb_in_use s")
    case True
    then have "snd (run_state mxu1_send ?u) = ?u" by (simp add: mxu1_send_def)
    with t True u assms(1) show ?thesis by (auto simp: tx_live_def)
  next
    case False
    then have "tx_live (snd (run_state mxu1_send ?u))" "pt_bulk_out_size (snd (run_state mxu1_send ?u)) = pt_bulk_out_size s"
      using send_effect [OF u _ _ refl] assms(1) by (auto simp: tx_live_def)
    with t assms(1) show ?thesis by auto
  qed
  then show "tx_live t" "pt_bulk_out_size t = pt_bulk_out_size s" by auto
qed

lemma completion_live:
  assumes "tx_live s" "t = snd (run_state (u1_deliver (Bulk_out 0)) s)"
  shows "tx_live t \<and> pt_bulk_out_size t = pt_bulk_out_size s \<and>
    cb_queue (mxp_write_buf t) = drop (nat (pt_bulk_out_size s)) (cb_queue (mxp_write_buf s))"
proof (cases "g_write_urb s")
  case True
  let ?u = "s\<lparr>g_write_urb := False, mxp_write_urb_in_use := False\<rparr>"
  have t: "t = snd (run_state mxu1_send ?u)"
    using True assms(2) by (simp add: mxu1_bulk_out_callback_def shutting_down_def)
  have u: "u1_ready ?u" "urbs_accepted ?u" "\<not> mxp_write_urb_in_use ?u" "\<not> g_write_urb ?u"
    using assms(1) by (simp_all add: tx_live_def u1_ready_def urbs_accepted_def)
  show ?thesis
    using send_effect [OF u t] by simp
next
  case False
  then show ?thesis using assms by (auto simp: tx_live_def)
qed

lemma completions_live:
  "tx_live s \<Longrightarrow> cb_queue (mxp_write_buf (snd (run_state (u1_deliver_all (replicate k (Bulk_out 0))) s))) =
    drop (k * nat (pt_bulk_out_size s)) (cb_queue (mxp_write_buf s))"
proof (induction k arbitrary: s)
  case (Suc k)
  let ?t = "snd (run_state (u1_deliver (Bulk_out 0)) s)"
  note t = completion_live [OF Suc.prems refl]
  have "snd (run_state (u1_deliver_all (replicate (Suc k) (Bulk_out 0))) s) =
      snd (run_state (u1_deliver_all (replicate k (Bulk_out 0))) ?t)"
    by (simp add: case_prod_beta del: u1_deliver.simps)
  then show ?case
    using t Suc.IH [of ?t] by (simp add: add.commute)
qed simp

text \<open>
  C14. Progress of the USB driver.  As long as the USB core accepts the URBs, a byte waits in the buffer
  only while an URB is on its way, and this holds after every write and every completion; once \<open>k\<close> URBs of
  \<open>bulk_out_size\<close> bytes have completed, with \<open>k\<close> of them enough for the whole buffer, nothing is left in it.
\<close>

theorem u1_buffer_drains:
  assumes "tx_live s" "run_state (mxu1_write bs) s = (n, t)" "1023 \<le> k * nat (pt_bulk_out_size s)"
  shows "tx_live t \<and> cb_queue (mxp_write_buf (snd (run_state (u1_deliver_all (replicate k (Bulk_out 0))) t))) = []"
proof -
  note t = write_live [OF assms(1,2)]
  have "length (cb_queue (mxp_write_buf t)) \<le> 1023"
    using cb_count_bounds(2) [of "mxp_write_buf t"] by simp
  then show ?thesis
    using t completions_live [OF t(1), of k] assms(3) by simp
qed

lemma u1_buffer_drains_witness:
  "\<exists>t. cb_queue (mxp_write_buf (snd (run_state (u1_deliver_all (replicate 16 (Bulk_out 0))) t))) = [] \<and>
    (\<exists>n. run_state (mxu1_write [65, 66]) u1_example = (n, t))"
proof -
  obtain n t where r: "run_state (mxu1_write [65, 66]) u1_example = (n, t)"
    by (cases "run_state (mxu1_write [65, 66]) u1_example")
  have "tx_live u1_example"
    by (simp add: tx_live_def u1_example_def u1_ready_def urbs_accepted_def cb_ok_def cb_queue_def cb_count_def latch_env_def)
  from u1_buffer_drains [OF this r, of 16] r show ?thesis
    by (auto simp: u1_example_def)
qed

section \<open>A refused URB\<close>

text \<open>
  C31. A refused URB loses its bytes.  When the USB core refuses the URB, a write that fits one URB
  reports all its bytes as accepted, although afterwards the buffer is empty, no URB is on its way and
  nothing is sent again by itself.
\<close>

theorem u1_refused_lost:
  assumes "circ_ok (u1_circ s)" "cb_ok (mxp_write_buf s)" "cb_queue (mxp_write_buf s) = []" "has_port s" "mxp_is_open s"
    and "\<not> mxp_write_urb_in_use s" "\<not> g_write_urb s" "bs \<noteq> []" "int (length bs) \<le> min 1023 (pt_bulk_out_size s)"
    and "env_k (ienv s) (ihist s) ''usb_submit_urb(write)'' (map uint bs) \<noteq> 0"
  shows "let (n, t) = run_state (mxu1_write bs) s in
    n = int (length bs) \<and> cb_queue (mxp_write_buf t) = [] \<and> \<not> g_write_urb t \<and> \<not> mxp_write_urb_in_use t"
proof -
  obtain k cb where p: "mxu1_buf_put (u1_circ s) bs (mxp_write_buf s) = (k, cb)"
    by (cases "mxu1_buf_put (u1_circ s) bs (mxp_write_buf s)")
  have "cb_count (mxp_write_buf s) = 0"
    using assms(3) length_cb_queue [of "mxp_write_buf s"] cb_count_bounds(1) [of "mxp_write_buf s"] by simp
  then have cb: "k = int (length bs)" "cb_ok cb" "cb_queue cb = bs"
    using buf_put_queue [OF assms(1,2) p] assms(3,9) by auto
  obtain xs cb' where g: "mxu1_buf_get (u1_circ s) (pt_bulk_out_size s) cb = (xs, cb')"
    by (cases "mxu1_buf_get (u1_circ s) (pt_bulk_out_size s) cb")
  have "xs = bs" "cb_queue cb' = []"
    using buf_get_queue [OF assms(1) cb(2) g] cb(3) assms(9) by auto
  then show ?thesis
    using assms(4-8,10) p g cb(1) by (simp add: mxu1_write_def mxu1_send_def submit_write_urb_def wake_writers_def)
qed

definition refusing_env :: env where
  "refusing_env = (latch_env (\<lambda>_. 0))\<lparr>env_k := (\<lambda>_ _ _. -19)\<rparr>"

lemma u1_refused_lost_witness:
  "fst (run_state (mxu1_write [65, 66]) (u1_example\<lparr>ienv := refusing_env\<rparr>)) = 2"
  using u1_refused_lost [of "u1_example\<lparr>ienv := refusing_env\<rparr>" "[65, 66]"]
  by (simp add: u1_example_def refusing_env_def cb_ok_def cb_queue_def cb_count_def case_prod_beta)

end
