(* ===== verification/Mxu11_Device.thy ===== *)
theory Mxu11_Device
  imports Mxu11_Stream
begin

text \<open>
  The USB serial driver as a whole: the life of the read URB over every sequence of calls, the firmware a
  device is given, and the interface requests.
\<close>

section \<open>The read URB\<close>

definition double_submit :: "mxu1 \<Rightarrow> bool" where
  "double_submit s \<longleftrightarrow> Undefined ''read urb submitted while active'' \<in> set (ihist s)"

text \<open>While a port is being closed its URB may still be on its way: \<open>rd_state\<close> alone holds then.\<close>

definition rd_state :: "mxu1 \<Rightarrow> bool" where
  "rd_state s \<longleftrightarrow> \<not> double_submit s \<and> (mxp_read_urb_state s = READ_URB_STOPPED \<longrightarrow> \<not> g_read_urb s)"

definition rd_inv :: "mxu1 \<Rightarrow> bool" where
  "rd_inv s \<longleftrightarrow> rd_state s \<and> (g_read_urb s \<longrightarrow> mxp_is_open s)"

definition rd_idle :: "mxu1 \<Rightarrow> bool" where
  "rd_idle s \<longleftrightarrow> \<not> double_submit s \<and> \<not> g_read_urb s"

lemmas rd_defs = rd_state_def rd_inv_def rd_idle_def double_submit_def

interpretation rdsf: u1_frame rd_state by unfold_locales (auto simp: rd_defs)

interpretation rdif: u1_frame rd_inv by unfold_locales (auto simp: rd_defs)

interpretation rdlf: u1_frame rd_idle by unfold_locales (auto simp: rd_defs)

interpretation rdof: u1_frame "\<lambda>s. mxp_is_open s = b" for b by unfold_locales auto

lemma submit_idle:
  assumes "rd_idle s" "run_state submit_read_urb s = (r, t)"
  shows "\<not> double_submit t" "g_read_urb t = (r = 0)" "mxp_is_open t = mxp_is_open s"
    "mxp_read_urb_state t = mxp_read_urb_state s"
  using assms by (auto simp: submit_read_urb_def rd_defs split: if_splits)

lemma continue_idle:
  assumes "rd_idle s" "mxp_read_urb_state s = READ_URB_STOPPED \<longrightarrow> \<not> g_read_urb s"
  shows "rd_state (snd (run_state continue_read s))"
    "mxp_is_open (snd (run_state continue_read s)) = mxp_is_open s"
proof -
  obtain r t where t: "run_state submit_read_urb s = (r, t)" by (cases "run_state submit_read_urb s")
  show "rd_state (snd (run_state continue_read s))"
    "mxp_is_open (snd (run_state continue_read s)) = mxp_is_open s"
    using submit_idle [OF assms(1) t] assms by (auto simp: continue_read_def t rd_defs split: read_urb_state.splits)
qed

lemma bulk_in_state:
  assumes "rd_idle s"
  shows "rd_state (snd (run_state (mxu1_bulk_in_callback st d) s))"
    "mxp_is_open (snd (run_state (mxu1_bulk_in_callback st d) s)) = mxp_is_open s"
proof -
  define u where "u = snd (run_state (if shutting_down st \<or> st \<noteq> 0 then urb_failed else take_data d) s)"
  have u: "rd_idle u" "mxp_is_open u = mxp_is_open s"
    unfolding u_def using assms preservesD [OF rdlf.small_calls(4) assms] preservesD [OF rdlf.take_data assms]
      preservesD [OF rdof.small_calls(4) [of "mxp_is_open s"], of s] preservesD [OF rdof.take_data [of "mxp_is_open s"], of s]
    by auto
  then have t: "rd_state u" by (simp add: rd_defs)
  have c: "rd_state (snd (run_state continue_read u))" "mxp_is_open (snd (run_state continue_read u)) = mxp_is_open s"
    using continue_idle [OF u(1)] u t by (auto simp: rd_state_def)
  show "rd_state (snd (run_state (mxu1_bulk_in_callback st d) s))"
    "mxp_is_open (snd (run_state (mxu1_bulk_in_callback st d) s)) = mxp_is_open s"
    using c u t by (auto simp: mxu1_bulk_in_callback_def u_def case_prod_beta shutting_down_def split: if_splits)
qed

lemma send_read: "preserves rd_state mxu1_send" "preserves rd_inv mxu1_send" "preserves rd_idle mxu1_send"
  by (auto simp: preserves_def mxu1_send_def submit_write_urb_def wake_writers_def case_prod_beta rd_defs)

lemma restart_read: "preserves rd_state mxu1_restart_read" "preserves rd_inv mxu1_restart_read"
  by (auto simp: preserves_def mxu1_restart_read_def submit_read_urb_def rd_defs split: if_splits)

interpretation rds: u1_invariant rd_state
proof unfold_locales
  fix s st d assume "rd_state s" "g_read_urb s"
  then have "rd_idle (s\<lparr>g_read_urb := False\<rparr>)" by (simp add: rd_defs)
  then show "rd_state (snd (run_state (mxu1_bulk_in_callback st d) (s\<lparr>g_read_urb := False\<rparr>)))"
    by (rule bulk_in_state)
qed (simp_all add: send_read restart_read, simp_all add: rd_defs mxu1_stop_read_def preserves_def)

interpretation rdi: u1_invariant rd_inv
proof unfold_locales
  fix s st d assume s: "rd_inv s" "g_read_urb s"
  then have "rd_idle (s\<lparr>g_read_urb := False\<rparr>)" "mxp_is_open (s\<lparr>g_read_urb := False\<rparr>)" by (auto simp: rd_defs)
  then show "rd_inv (snd (run_state (mxu1_bulk_in_callback st d) (s\<lparr>g_read_urb := False\<rparr>)))"
    using bulk_in_state [of "s\<lparr>g_read_urb := False\<rparr>" st d] by (simp add: rd_inv_def)
qed (simp_all add: send_read restart_read, simp_all add: rd_defs mxu1_stop_read_def preserves_def)

text \<open>A closed port: nothing of it is on its way, and line settings do not start reading.\<close>

definition rd_closed :: "mxu1 \<Rightarrow> bool" where
  "rd_closed s \<longleftrightarrow> rd_idle s \<and> \<not> mxp_is_open s"

interpretation rdc: u1_frame rd_closed by unfold_locales (auto simp: rd_closed_def rd_defs)

lemma closed_termios: "preserves rd_closed (mxu1_set_termios old)"
proof -
  have r: "preserves rd_closed mxu1_restart_read"
    by (auto simp: preserves_def mxu1_restart_read_def rd_closed_def)
  have "preserves rd_closed (lift_holds c i)" for c i
    unfolding lift_holds_def by (intro rdc.frame_rules r; simp)
  then show ?thesis
    unfolding mxu1_set_termios_def Let_def by (intro rdc.frame_rules; simp)
qed

lemma start_reading_closed:
  assumes "rd_closed s" "run_state start_reading s = (r, t)"
  shows "\<not> double_submit t" "g_read_urb t \<longrightarrow> r = 0" "\<not> mxp_is_open t"
    "g_read_urb t \<longrightarrow> mxp_read_urb_state t \<noteq> READ_URB_STOPPED"
proof -
  let ?u = "s\<lparr>mxp_read_urb_state := READ_URB_RUNNING\<rparr>"
  have "rd_idle ?u" using assms(1) by (simp add: rd_closed_def rd_defs)
  moreover have "t = s \<or> run_state submit_read_urb ?u = (r, t)"
    using assms(2) by (auto simp: start_reading_def split: if_splits)
  ultimately have "\<not> double_submit t \<and> (g_read_urb t \<longrightarrow> r = 0) \<and> \<not> mxp_is_open t \<and>
      (g_read_urb t \<longrightarrow> mxp_read_urb_state t \<noteq> READ_URB_STOPPED)"
    using assms(1) submit_idle [of ?u r t] by (auto simp: rd_closed_def rd_idle_def)
  then show "\<not> double_submit t" "g_read_urb t \<longrightarrow> r = 0" "\<not> mxp_is_open t"
    "g_read_urb t \<longrightarrow> mxp_read_urb_state t \<noteq> READ_URB_STOPPED" by auto
qed

lemma open_device_read:
  assumes "rd_closed s"
  shows "rd_inv (snd (run_state open_device s))"
proof -
  define u where "u = snd (run_state (mxu1_set_termios None) s)"
  have u: "rd_closed u" unfolding u_def by (rule preservesD [OF closed_termios assms])
  obtain c v where v: "run_state (commands open_commands) u = (c, v)" by (cases "run_state (commands open_commands) u")
  have vc: "rd_closed v" using preservesD [OF rdc.commands u, of open_commands] v by simp
  obtain r t where t: "run_state start_reading v = (r, t)" by (cases "run_state start_reading v")
  note st = start_reading_closed [OF vc t]
  show ?thesis
    using v t st vc by (auto simp: open_device_def u_def [symmetric] case_prod_beta rd_inv_def rd_state_def rd_closed_def rd_idle_def
        double_submit_def)
qed

lemma closed_inv: "rd_closed s \<Longrightarrow> rd_inv s"
  by (auto simp: rd_closed_def rd_defs)

lemma open_read: "leads rd_closed mxu1_open rd_inv"
proof -
  have "leads rd_closed (if st \<noteq> 0 then ret st else open_device) rd_inv" for st
    by (simp add: leads_def open_device_read closed_inv)
  then have tail: "leads rd_closed (do { status \<leftarrow> (if st \<noteq> 0 then ret st else open_device); knote ''up'' []; ret status }) rd_inv" for st
    by (rule leads_bind) (simp add: leads_def rd_defs)
  show ?thesis
    unfolding mxu1_open_def
    by (intro tail leads_keep leads_if leads_ret closed_inv) (simp_all add: rdc.frame_rules rdc.fields)
qed

text \<open>A close that came to its end leaves nothing on its way.\<close>

lemma kill_read: "leads rd_state kill_read_urb (\<lambda>s. rd_state s \<and> \<not> g_read_urb s)"
proof -
  have "rd_state s \<Longrightarrow> rd_state (snd (run_state kill_read_urb s)) \<and> \<not> g_read_urb (snd (run_state kill_read_urb s))" for s
    by (auto simp: kill_read_urb_def mxu1_bulk_in_callback_def shutting_down_def urb_failed_def wake_writers_def rd_defs)
  then show ?thesis by (simp add: leads_def)
qed

text \<open>Once the URB is back it stays so until the port is opened.\<close>

definition rd_back :: "mxu1 \<Rightarrow> bool" where
  "rd_back s \<longleftrightarrow> rd_state s \<and> \<not> g_read_urb s"

interpretation rdb: u1_frame rd_back by unfold_locales (auto simp: rd_back_def rd_defs)

lemma kill_write_back: "preserves rd_back kill_write_urb"
  by (auto simp: preserves_def kill_write_urb_def mxu1_bulk_out_callback_def shutting_down_def urb_failed_def
      wake_writers_def rd_back_def rd_defs)

text \<open>The rest of a close, after the drain.\<close>

definition close_tail :: "bool u1_m" where
  "close_tail = do {
     kill_read_urb;
     kill_write_urb;
     modify (\<lambda>s. s\<lparr>mxp_write_urb_in_use := False, mxp_read_urb_state := READ_URB_STOPPED\<rparr>);
     m \<leftarrow> uart_module;
     _ \<leftarrow> mxu1_command_out_sync MXU1_CLOSE_PORT m 0 [];
     interrupted \<leftarrow> kcall ''down_interruptible'' [];
     n \<leftarrow> gets mxd_open_port_count;
     modify (\<lambda>s. s\<lparr>mxd_open_port_count := (if n - 1 \<le> 0 then 0 else n - 1)\<rparr>);
     whenM (n - 1 \<le> 0) (knote ''usb_kill_urb(interrupt)'' []);
     whenM (interrupted = 0) (knote ''up'' []);
     ret True }"

lemma close_tail_inv: "leads rd_state close_tail rd_inv"
proof -
  have k: "leads rd_state kill_read_urb rd_back" using kill_read by (simp add: leads_def rd_back_def)
  have inv: "rd_back s \<Longrightarrow> rd_inv s" for s by (simp add: rd_back_def rd_inv_def)
  have closed: "rd_back s \<Longrightarrow> rd_back (s\<lparr>mxp_write_urb_in_use := False, mxp_read_urb_state := READ_URB_STOPPED\<rparr>)" for s
    by (simp add: rd_back_def rd_defs)
  show ?thesis
    unfolding close_tail_def
    by (rule leads_bind [OF k], intro leads_keep leads_ret inv)
      (simp_all add: kill_write_back rdb.frame_rules rdb.fields closed)
qed

lemma drain_state: "preserves rd_state (mxu1_drain sleeps t True)"
  unfolding mxu1_drain_def by (intro rdsf.frame_rules) (simp_all add: rdsf.fields, simp add: rd_defs)

lemma close_read:
  assumes "rd_inv s" "run_state (mxu1_close sleeps) s = (True, t)"
  shows "rd_inv t"
proof (cases "has_dev s \<and> has_port s")
  case True
  let ?u = "s\<lparr>mxp_is_open := False\<rparr>"
  obtain ok v where v: "run_state (mxu1_drain sleeps (closing_jiffies s) True) ?u = (ok, v)"
    by (cases "run_state (mxu1_drain sleeps (closing_jiffies s) True) ?u")
  have "rd_state ?u" using assms(1) by (simp add: rd_defs)
  then have "rd_state v"
    using preservesD [OF drain_state [of sleeps "closing_jiffies s"]] v by (metis snd_conv)
  then have "rd_inv (snd (run_state close_tail v))" by (rule leadsD [OF close_tail_inv])
  moreover have "t = snd (run_state close_tail v)"
    using True assms(2) v by (auto simp: mxu1_close_def close_tail_def case_prod_beta split: if_splits)
  ultimately show ?thesis by simp
next
  case False
  then show ?thesis using assms by (auto simp: mxu1_close_def)
qed

section \<open>Every sequence of calls\<close>

text \<open>
  A step is a call that came to its end, of an attached device; the tty layer opens a port that
  is not open, and may take its tty away.
\<close>

inductive u1_step :: "mxu1 \<Rightarrow> mxu1 \<Rightarrow> bool" where
  step_open: "\<not> mxp_is_open s \<Longrightarrow> run_state mxu1_open s = (r, t) \<Longrightarrow> u1_step s t"
| step_close: "run_state (mxu1_close sleeps) s = (True, t) \<Longrightarrow> u1_step s t"
| step_call: "run_state (u1_do c) s = (a, t) \<Longrightarrow> u1_step s t"
| step_disconnect: "run_state mxu1_disconnect s = ((), t) \<Longrightarrow> u1_step s t"
| step_tty: "u1_step s (s\<lparr>pt_has_tty := b\<rparr>)"

inductive u1_reach :: "mxu1 \<Rightarrow> mxu1 \<Rightarrow> bool" for s0 where
  reach_start: "u1_reach s0 s0"
| reach_step: "u1_reach s0 s \<Longrightarrow> u1_step s t \<Longrightarrow> u1_reach s0 t"

lemma write_read: "preserves rd_inv (mxu1_write bs)"
proof -
  have b: "rd_inv s \<Longrightarrow> rd_inv (s\<lparr>mxp_write_buf := cb\<rparr>)" for s cb by (simp add: rd_defs)
  show ?thesis unfolding mxu1_write_def Let_def by (intro rdif.frame_rules send_read) (simp_all add: b)
qed

lemma call_read: "preserves rd_inv (u1_do c)"
  by (cases c) (simp_all only: u1_do.simps, (intro rdif.frame_rules write_read; simp add: rdif.fields)+)

lemma disconnect_read: "preserves rd_inv mxu1_disconnect"
  unfolding mxu1_disconnect_def kill_read_urb_def kill_write_urb_def by (intro rdif.frame_rules rdi.deliver) simp_all

lemma step_read: "u1_step s t \<Longrightarrow> rd_inv s \<Longrightarrow> rd_inv t"
proof (induction rule: u1_step.induct)
  case (step_open s r t)
  then have "rd_closed s" by (auto simp: rd_closed_def rd_defs)
  then show ?case using leadsD [OF open_read, of s] step_open(2) by simp
next
  case (step_call c s a t)
  then show ?case using preservesD [OF call_read, of s c] by simp
next
  case (step_disconnect s t)
  then show ?case using preservesD [OF disconnect_read, of s] by simp
qed (auto intro: close_read, simp add: rd_defs)

text \<open>
  C3. The read URB.  From a device just attached, whatever is opened, called, delivered and closed: the
  read URB is never submitted while the kernel holds it, and it is held only while the port is
  open and reading has not stopped.
\<close>

theorem u1_read_urb_once:
  assumes "run_state create_port s = (Some 0, s0)" "\<not> g_read_urb s" "\<not> double_submit s" "u1_reach s0 t"
  shows "\<not> double_submit t \<and> (g_read_urb t \<longrightarrow> mxp_is_open t \<and> mxp_read_urb_state t \<noteq> READ_URB_STOPPED)"
proof -
  have "rd_inv s0"
    using assms(1-3) by (auto simp: create_port_def mxu1_buf_alloc_def free_mxdev_def fresh_port_def rd_defs split: if_splits)
  with assms(4) have "rd_inv t"
    by (induction rule: u1_reach.induct) (auto intro: step_read)
  then show ?thesis by (auto simp: rd_defs)
qed

text \<open>A device that answers every command in full, allocates and accepts, and is never interrupted.\<close>

definition willing_env :: env where
  "willing_env = (latch_env (\<lambda>_. 0))\<lparr>env_k := (\<lambda>_ f _. if f = ''kzalloc(mxport)'' \<or> f = ''kmalloc(circ_buf)'' \<or> f = ''kmalloc'' then 1 else 0)\<rparr>"

lemma u1_read_urb_once_witness:
  "\<exists>s0 t. run_state create_port (u1_example\<lparr>ienv := willing_env, g_read_urb := False\<rparr>) = (Some 0, s0) \<and>
    t = snd (run_state mxu1_open s0) \<and> \<not> double_submit t \<and> (g_read_urb t \<longrightarrow> mxp_is_open t)"
proof -
  let ?s = "u1_example\<lparr>ienv := willing_env, g_read_urb := False\<rparr>"
  obtain s0 where s0: "run_state create_port ?s = (Some 0, s0)" "\<not> mxp_is_open s0"
    by (simp add: create_port_def mxu1_buf_alloc_def willing_env_def fresh_port_def u1_example_def)
  obtain r t where t: "run_state mxu1_open s0 = (r, t)" by (cases "run_state mxu1_open s0")
  have "u1_reach s0 t"
    by (rule reach_step [OF reach_start], rule step_open [OF s0(2) t])
  with u1_read_urb_once [OF s0(1) _ _ this] show ?thesis
    using s0(1) t by (auto simp: u1_example_def double_submit_def)
qed

section \<open>Firmware\<close>

text \<open>What the device has taken: of each packet the bytes the call reports as transferred.\<close>

fun u1_loaded :: "io_event list \<Rightarrow> u8 list" where
  "u1_loaded (Kernel_call g bs n # Kernel_call f as r # h) =
    (if f = ''usb_bulk_msg'' \<and> g = ''actual_length'' then u1_loaded h @ take (nat n) (map word_of_int as)
     else u1_loaded (Kernel_call f as r # h))"
| "u1_loaded (e # h) = u1_loaded h"
| "u1_loaded [] = []"

lemma loaded_other [simp]: "g \<noteq> ''actual_length'' \<Longrightarrow> u1_loaded (Kernel_call g bs n # h) = u1_loaded h"
proof (cases h)
  case (Cons e h')
  then show "g \<noteq> ''actual_length'' \<Longrightarrow> ?thesis" by (cases e) simp_all
qed simp

definition takes_packets :: "env \<Rightarrow> bool" where
  "takes_packets e \<longleftrightarrow> (\<forall>h as. env_k e h ''usb_bulk_msg'' as = 0) \<and>
     (\<forall>h as r. as \<noteq> [] \<longrightarrow> 1 \<le> env_k e (Kernel_call ''usb_bulk_msg'' as r # h) ''actual_length'' [] \<and>
        env_k e (Kernel_call ''usb_bulk_msg'' as r # h) ''actual_length'' [] \<le> int (length as))"

lemma length_firmware_buffer: "length fw \<le> 16287 \<Longrightarrow> length (firmware_buffer fw) = 16287"
  by (simp add: firmware_buffer_def Let_def del: upt_rec_numeral)

lemma download_loop_loads:
  assumes "takes_packets (ienv s)" "0 \<le> pos" "pos \<le> int (length buffer)" "int (length buffer) - pos \<le> int n"
  shows "\<exists>t. run_state (download_loop n buffer pos) s = (Some 0, t) \<and>
    u1_loaded (ihist t) = u1_loaded (ihist s) @ drop (nat pos) buffer"
  using assms
proof (induction n arbitrary: pos s)
  case 0
  then show ?case by (subst download_loop.simps) simp
next
  case (Suc n)
  show ?case
  proof (cases "pos = int (length buffer)")
    case True
    then show ?thesis by (subst download_loop.simps) simp
  next
    case False
    define len where "len = min (length buffer - nat pos) 64"
    define as where "as = map uint (take len (drop (nat pos) buffer))"
    define s1 where "s1 = s\<lparr>ihist := Kernel_call ''usb_bulk_msg'' as 0 # ihist s\<rparr>"
    define a where "a = env_k (ienv s) (ihist s1) ''actual_length'' []"
    define s2 where "s2 = s1\<lparr>ihist := Kernel_call ''actual_length'' [] a # ihist s1\<rparr>"
    have st: "env_k (ienv s) (ihist s) ''usb_bulk_msg'' as = 0"
      using Suc.prems(1) by (simp add: takes_packets_def)
    have "0 < len" "len \<le> length buffer - nat pos"
      using False Suc.prems(2,3) by (auto simp: len_def)
    then have l: "length as = len" "as \<noteq> []" and le: "int len \<le> int (length buffer) - pos"
      using Suc.prems(2,3) by (auto simp: as_def)
    then have a: "1 \<le> a" "a \<le> int len"
      using Suc.prems(1) by (auto simp: a_def s1_def takes_packets_def)
    have run: "run_state (download_loop (Suc n) buffer pos) s = run_state (download_loop n buffer (pos + a)) s2"
      using False Suc.prems(3) st by (subst download_loop.simps) (simp add: Let_def as_def [symmetric] len_def [symmetric] s2_def s1_def a_def)
    obtain t where t: "run_state (download_loop n buffer (pos + a)) s2 = (Some 0, t)"
        "u1_loaded (ihist t) = u1_loaded (ihist s2) @ drop (nat (pos + a)) buffer"
      using Suc.IH [of s2 "pos + a"] Suc.prems(1,2,4) a le by (auto simp: s2_def s1_def)
    have "u1_loaded (ihist s2) = u1_loaded (ihist s) @ take (nat a) (drop (nat pos) buffer)"
      using a by (simp add: s2_def s1_def as_def min_absorb1 nat_le_iff o_def take_map)
    moreover have "nat (pos + a) = nat pos + nat a" using a Suc.prems(2) by (simp add: nat_add_distrib)
    moreover have "take (nat a) (drop (nat pos) buffer) @ drop (nat pos + nat a) buffer = drop (nat pos) buffer"
      by (metis append_take_drop_id drop_drop add.commute)
    ultimately show ?thesis
      using run t by simp
  qed
qed

lemma foldl_sum: "foldl (\<lambda>cs p. cs + f p) a ps = a + sum_list (map f ps)"
  for a :: "'a :: comm_monoid_add"
  by (induction ps arbitrary: a) (simp_all add: ac_simps)

lemma firmware_header:
  assumes "length fw \<le> 16287"
  shows "unat (firmware_buffer fw ! 0) + 256 * unat (firmware_buffer fw ! 1) = 16284"
    "firmware_buffer fw ! 2 = sum_list (drop 3 (firmware_buffer fw))"
    "3 \<le> i \<Longrightarrow> i < length fw \<Longrightarrow> firmware_buffer fw ! i = fw ! i"
proof -
  define buf where "buf = fw @ replicate (16287 - length fw) 0xff"
  have len: "length buf = 16287" using assms by (simp add: buf_def)
  define cs where "cs = foldl (\<lambda>cs pos. cs + buf ! pos) 0 [3..<16287]"
  have b: "firmware_buffer fw = buf[0 := 16284, 1 := 0x3F, 2 := cs]"
    by (simp add: firmware_buffer_def Let_def buf_def cs_def del: upt_rec_numeral)
  show "unat (firmware_buffer fw ! 0) + 256 * unat (firmware_buffer fw ! 1) = 16284"
    using len by (simp add: b)
  have "map ((!) buf) [3..<16287] = drop 3 buf"
    using len by (metis drop_map map_nth drop_upt add_0)
  moreover have "drop 3 (firmware_buffer fw) = drop 3 buf"
    by (simp add: b)
  ultimately show "firmware_buffer fw ! 2 = sum_list (drop 3 (firmware_buffer fw))"
    using len by (simp add: b cs_def foldl_sum del: upt_rec_numeral)
  show "3 \<le> i \<Longrightarrow> i < length fw \<Longrightarrow> firmware_buffer fw ! i = fw ! i"
    by (simp add: b) (simp add: buf_def nth_append)
qed

text \<open>
  C12. The firmware download.  A device that takes at least a byte of every packet, and no more than
  it was offered, receives the whole image, byte for byte and in order, however it divides the packets; 16287
  rounds are enough, and the header it finds holds the length and the sum of the bytes that follow.
\<close>

theorem firmware_delivered:
  assumes "takes_packets (ienv s)" "env_k (ienv s) (ihist s) ''kmalloc'' [16287] \<noteq> 0" "length fw \<le> 16287"
  shows "let (r, t) = run_state (mxu1_download_firmware 16287 fw) s; image = firmware_buffer fw in
    r = Some 0 \<and> u1_loaded (ihist t) = u1_loaded (ihist s) @ image \<and>
    unat (image ! 0) + 256 * unat (image ! 1) = length image - 3 \<and> image ! 2 = sum_list (drop 3 image) \<and>
    (\<forall>i. 3 \<le> i \<longrightarrow> i < length fw \<longrightarrow> image ! i = fw ! i)"
proof -
  let ?k = "env_k (ienv s) (ihist s) ''kmalloc'' [16287]"
  let ?u = "s\<lparr>ihist := Kernel_call ''kmalloc'' [16287] ?k # ihist s\<rparr>"
  have len: "length (firmware_buffer fw) = 16287" by (rule length_firmware_buffer [OF assms(3)])
  obtain t where t: "run_state (download_loop 16287 (firmware_buffer fw) 0) ?u = (Some 0, t)"
    "u1_loaded (ihist t) = u1_loaded (ihist ?u) @ firmware_buffer fw"
    using download_loop_loads [of ?u 0 "firmware_buffer fw" 16287] assms(1) len by auto
  show ?thesis
    using assms(2,3) t len firmware_header [OF assms(3)]
    by (simp add: mxu1_download_firmware_def case_prod_beta Let_def)
qed

lemma firmware_delivered_witness:
  "\<exists>e. takes_packets e \<and> (let (r, t) = run_state (mxu1_download_firmware 16287 [0, 0, 0, 2]) (u1_example\<lparr>ienv := e\<rparr>)
    in r = Some 0 \<and> u1_loaded (ihist t) ! 3 = 2)"
proof -
  define e where "e = (latch_env (\<lambda>_. 0))\<lparr>env_k := (\<lambda>h f as. if f = ''kmalloc'' then 1 else if f = ''actual_length''
    then (case h of Kernel_call _ bs _ # _ \<Rightarrow> int (length bs) | _ \<Rightarrow> 0) else 0)\<rparr>"
  have e: "takes_packets e" "env_k e h ''kmalloc'' as \<noteq> 0" for h as
    by (auto simp: takes_packets_def e_def Suc_le_eq)
  have "ihist u1_example = []" by (simp add: u1_example_def)
  then have "let (r, t) = run_state (mxu1_download_firmware 16287 [0, 0, 0, 2]) (u1_example\<lparr>ienv := e\<rparr>)
      in r = Some 0 \<and> u1_loaded (ihist t) ! 3 = 2"
    using firmware_delivered [of "u1_example\<lparr>ienv := e\<rparr>" "[0, 0, 0, 2]"] e
    by (auto simp: Let_def case_prod_beta)
  with e(1) show ?thesis by blast
qed

section \<open>Interfaces\<close>

definition supported :: "u1_model \<Rightarrow> int \<Rightarrow> bool" where
  "supported m v \<longleftrightarrow> (if rs232_only m then v = MXU1_RS232 else if rs485_only m then v \<in> {1, 2, 3} else v \<in> {0, 1, 2, 3})"

lemma uart_mode_supported: "uart_mode_of m c v \<noteq> None \<longleftrightarrow> supported m v"
  by (auto simp: uart_mode_of_def supported_def)

text \<open>What line settings leave alone.\<close>

definition same_mode :: "u8 \<Rightarrow> u1_model \<Rightarrow> env \<Rightarrow> mxu1 \<Rightarrow> bool" where
  "same_mode g m e s \<longleftrightarrow> mxp_user_get_uart_mode s = g \<and> ienv s = e \<and> mxd_model_name s = m \<and> has_port s"

lemma termios_mode: "preserves (same_mode g m e) (mxu1_set_termios old)"
proof -
  have k: "preserves (same_mode g m e) (kcall f as)" "preserves (same_mode g m e) (knote f as)"
    "preserves (same_mode g m e) (undefined_c w)" for f as w
    by (simp_all add: preserves_def same_mode_def)
  have mo: "preserves (same_mode g m e) (modify f)" if "\<And>s. same_mode g m e s \<Longrightarrow> same_mode g m e (f s)" for f
    using that by (rule preserves_modify)
  note rules = preserves_structure k mo
  have "preserves (same_mode g m e) mxu1_restart_read"
    unfolding mxu1_restart_read_def submit_read_urb_def by (intro rules; simp add: same_mode_def)
  moreover have "preserves (same_mode g m e) (mxu1_set_mcr b)" for b
    unfolding mxu1_set_mcr_def mxu1_write_byte_def mxu1_command_out_sync_def by (intro rules; simp add: same_mode_def)
  ultimately show ?thesis
    unfolding mxu1_set_termios_def lift_holds_def xon_xoff_def restore_mcr_def hw_stop_def uart_module_def
      mxu1_command_out_sync_def Let_def
    by (intro rules; simp add: same_mode_def)
qed

lemma set_info_effect:
  fixes sl :: "u1_event list list"
  assumes "has_port s" "ua_left w = 0"
  defines "p \<equiv> ser_port (ua_in w)" and "v \<equiv> run_state (mxu1_ioctl sl (U1_TIOCSSERIAL w)) s"
  shows "if supported (mxd_model_name s) (int p)
    then fst v = Some 0 \<and> same_mode (if rs232_only (mxd_model_name s) then mxp_user_get_uart_mode s else of_nat p)
      (mxd_model_name s) (ienv s) (snd v)
    else fst v = Some (-EINVAL) \<and> has_port (snd v)"
proof (cases "uart_mode_of (mxd_model_name s) (mxp_uart_mode s) (int p)")
  case None
  then have "\<not> supported (mxd_model_name s) (int p)" using uart_mode_supported by metis
  then show ?thesis
    using None assms(1,2) by (simp add: v_def mxu1_ioctl_def u1_some_def mxu1_set_serial_info_def p_def Let_def)
next
  case (Some m)
  then have sup: "supported (mxd_model_name s) (int p)" using uart_mode_supported by (metis option.distinct(1))
  define g :: u8 where "g = (if rs232_only (mxd_model_name s) then mxp_user_get_uart_mode s else of_nat p)"
  define u where "u = s\<lparr>mxp_flags := ser_flags (ua_in w) AND MXU1_SET_SERIAL_FLAGS,
    mxp_closing_wait := ser_closing_wait (ua_in w), mxp_uart_mode := m, mxp_user_get_uart_mode := g\<rparr>"
  have v: "v = (Some 0, snd (run_state (mxu1_set_termios None) u))"
    using Some assms(1,2) by (auto simp: v_def mxu1_ioctl_def u1_some_def mxu1_set_serial_info_def p_def [symmetric]
        Let_def case_prod_beta u_def g_def split: if_splits)
  have "same_mode g (mxd_model_name s) (ienv s) u" using assms(1) by (simp add: same_mode_def u_def)
  then show ?thesis
    using sup preservesD [OF termios_mode] by (simp add: v g_def)
qed

text \<open>
  Interfaces of the USB adapters.  \<open>TIOCSSERIAL\<close> accepts exactly the interfaces of the model (the UPort
  1110 and the console RS-232 alone, the 1130 all but it), and the interface accepted is the port
  that \<open>TIOCGSERIAL\<close> reports.
\<close>

theorem u1_interface_read_back:
  assumes "has_port s" "ua_left w = 0" "ua_out v = 0" "rs232_only (mxd_model_name s) \<longrightarrow> mxp_user_get_uart_mode s = 0"
  shows "let (r, t) = run_state (mxu1_ioctl sl (U1_TIOCSSERIAL w)) s;
      (r', t') = run_state (mxu1_ioctl sl (U1_TIOCGSERIAL v)) t in
    r = Some (if supported (mxd_model_name s) (int (ser_port (ua_in w))) then 0 else -EINVAL) \<and> r' = Some 0 \<and>
    (r = Some 0 \<longrightarrow> (\<exists>ws. hd (ihist t') = To_user ws \<and> ws ! 2 = int (ser_port (ua_in w))))"
proof -
  define p where "p = ser_port (ua_in w)"
  obtain r t where rt: "run_state (mxu1_ioctl sl (U1_TIOCSSERIAL w)) s = (r, t)"
    by (cases "run_state (mxu1_ioctl sl (U1_TIOCSSERIAL w)) s")
  show ?thesis
  proof (cases "supported (mxd_model_name s) (int p)")
    case False
    then have "r = Some (-EINVAL)" "has_port t"
      using set_info_effect [OF assms(1,2), of sl] rt by (simp_all add: p_def)
    then show ?thesis
      using rt False assms(3) by (simp add: p_def mxu1_ioctl_def u1_some_def mxu1_get_serial_info_def case_prod_beta)
  next
    case True
    define g :: u8 where "g = (if rs232_only (mxd_model_name s) then mxp_user_get_uart_mode s else of_nat p)"
    have t: "r = Some 0" "same_mode g (mxd_model_name s) (ienv s) t"
      using set_info_effect [OF assms(1,2), of sl] rt True by (auto simp: p_def g_def)
    moreover have "uint g = int p"
      using True assms(4) by (auto simp: g_def supported_def split: if_splits)
    ultimately show ?thesis
      using rt True assms(3) by (auto simp: mxu1_ioctl_def u1_some_def mxu1_get_serial_info_def same_mode_def p_def)
  qed
qed

lemma u1_interface_read_back_witness:
  "let w = \<lparr>ua_left = 0, ua_in = \<lparr>ser_type = 4, ser_port = 2, ser_irq = 0, ser_flags = 0, ser_baud_base = 0, ser_close_delay = 0,
       ser_closing_wait = 0, ser_custom_divisor = 0\<rparr>, ua_out = 0\<rparr>
   in fst (run_state (mxu1_ioctl [] (U1_TIOCSSERIAL w)) u1_example) = Some 0"
proof -
  let ?w = "\<lparr>ua_left = 0, ua_in = \<lparr>ser_type = 4, ser_port = 2, ser_irq = 0, ser_flags = 0, ser_baud_base = 0, ser_close_delay = 0,
       ser_closing_wait = 0, ser_custom_divisor = 0\<rparr>, ua_out = 0\<rparr>"
  have "has_port u1_example" "mxd_model_name u1_example = U1150" by (simp_all add: u1_example_def)
  then show ?thesis
    using u1_interface_read_back [of u1_example ?w "\<lparr>ua_left = 0, ua_in = (), ua_out = 0\<rparr>" "[]"]
    by (auto simp: supported_def rs232_only_def rs485_only_def case_prod_beta Let_def)
qed

section \<open>Further facts\<close>

text \<open>The divisor of a rate fits its 16 bits from 15 baud on.\<close>

lemma baud_code_exact: "15 \<le> baud \<Longrightarrow> uint (baud_code baud) = 923077 div baud"
proof -
  assume "15 \<le> baud"
  then have "923077 div baud \<le> 923077 div 15" by (intro zdiv_mono2) simp_all
  then show ?thesis
    using \<open>15 \<le> baud\<close> by (simp add: baud_code_def uint_word_of_int signed_divide_int_def pos_imp_zdiv_nonneg_iff)
qed

text \<open>\<open>MOXA_SET_INTERFACE\<close> never reports success, though it stores the mode.\<close>

lemma set_interface_result: "fst (run_state (set_interface v) s) \<in> {-EINVAL, -ENOIOCTLCMD}"
  by (auto simp: set_interface_def case_prod_beta split: option.splits)

text \<open>A wait for one line ends with an error when another line changed first.\<close>

lemma miwait_other_line:
  assumes "\<not> mxp_msr_wait_flags s" "mxp_icount s = c" "env_k (ienv s) (ihist s) ''signal_pending'' [] = 0"
  shows "fst (run_state (miwait_loop (es # sl) arg c) s) = Some (-EIO)"
  using assms by (simp add: same_lines_def)

end
