(* ===== verification/Hotswap.thy ===== *)
theory Hotswap
  imports Interfaces
begin

text \<open>
  The disk hotswap driver, \<open>modules/moxa_v2616A_hotswap/main.c\<close>, and the library the daemon
  calls it through, \<open>user/mxhtspd/mxhtsp_lx.c\<close>.

  A timer samples a status register of each disk's SATA port: a disk is busy from a change of its
  register until twelve samples in a row show no change.  The requests of the device file report
  that, the buttons and the presence of the disks, and switch the two LEDs.

  \<open>moxa_hotswap.h\<close> defines \<open>V2416A\<close> unconditionally, so the bits are those of that product.
\<close>

section \<open>The driver\<close>

abbreviation "LED_BTN_ADDR \<equiv> 0x301 :: port"
abbreviation "BIT_DISK1_LED \<equiv> 0x10 :: u8"
abbreviation "BIT_DISK2_LED \<equiv> 0x20 :: u8"
abbreviation "BIT_DISK1_BTN \<equiv> 0x01 :: u8"
abbreviation "BIT_DISK2_BTN \<equiv> 0x02 :: u8"

record disk_info =
  dk_status :: u32
  dk_busy :: int
  dk_idle_cnt :: int

record hotswap = io +
  hs_vaddr :: nat
  hs_d1 :: disk_info
  hs_d2 :: disk_info

record mxhtsp_param =
  disk_num :: int
  p_val :: int

definition hotswap_led_control :: "int \<Rightarrow> int \<Rightarrow> ('x, int) io_m" where
  "hotswap_led_control led_num on =
    (if led_num \<noteq> 1 \<and> led_num \<noteq> 2 \<or> on \<noteq> 1 \<and> on \<noteq> 0 then ret (-1)
     else do {
       let led_bit = (if led_num = 1 then BIT_DISK1_LED else BIT_DISK2_LED);
       pled_status \<leftarrow> inb LED_BTN_ADDR;
       outb (if on = 1 then pled_status AND NOT led_bit else pled_status OR led_bit) LED_BTN_ADDR;
       ret 0 })"

text \<open>
  \<open>_IOC_TYPE\<close> and \<open>_IOC_NR\<close> are checked first, then the access to the argument where the command
  has a direction.  The result is the return value and the caller's structure after the call.
\<close>

datatype hotswap_cmd = Hs_bad_type | Hs_bad_nr | GET_DISK_STATUS | SET_DISK_LED | GET_DISK_BTN
  | CHECK_DISK_PLUGGED | Hs_other bool

definition hs_give :: "mxhtsp_param uarg \<Rightarrow> int \<Rightarrow> ('x, int \<times> mxhtsp_param) io_m" where
  "hs_give u v = do {
     let p = (ua_in u)\<lparr>p_val := v\<rparr>;
     n \<leftarrow> copy_to_user u [disk_num p, p_val p];
     ret (if n \<noteq> 0 then (-1, ua_in u) else (0, p)) }"

definition hs_button :: "mxhtsp_param uarg \<Rightarrow> u8 \<Rightarrow> ('x, int \<times> mxhtsp_param) io_m" where
  "hs_button u m = do {
     v \<leftarrow> inb LED_BTN_ADDR;
     hs_give u (if NOT v AND m \<noteq> 0 then 1 else 0) }"

definition hs_plugged :: "mxhtsp_param uarg \<Rightarrow> nat \<Rightarrow> ('x hotswap_scheme, int \<times> mxhtsp_param) state" where
  "hs_plugged u off = do {
     a \<leftarrow> gets hs_vaddr;
     v \<leftarrow> readl (a + off);
     hs_give u (if v = 0x7f then 0 else 1) }"

definition hs_dispatch :: "hotswap_cmd \<Rightarrow> mxhtsp_param uarg \<Rightarrow> ('x hotswap_scheme, int \<times> mxhtsp_param) state" where
  "hs_dispatch cmd u =
    (let p = ua_in u; disks = (\<lambda>a b. if disk_num p = 1 then a else if disk_num p = 2 then b else ret (-EINVAL, p))
     in case cmd of
       GET_DISK_STATUS \<Rightarrow> disks
         (do { b \<leftarrow> gets (\<lambda>s. dk_busy (hs_d1 s)); hs_give u b })
         (do { b \<leftarrow> gets (\<lambda>s. dk_busy (hs_d2 s)); hs_give u b })
     | SET_DISK_LED \<Rightarrow> do { r \<leftarrow> hotswap_led_control (disk_num p) (p_val p); ret (r, p) }
     | GET_DISK_BTN \<Rightarrow> disks (hs_button u BIT_DISK1_BTN) (hs_button u BIT_DISK2_BTN)
     | CHECK_DISK_PLUGGED \<Rightarrow> disks (hs_plugged u 0x220) (hs_plugged u 0x2A0)
     | _ \<Rightarrow> ret (-EINVAL, p))"

definition hotswap_ioctl :: "hotswap_cmd \<Rightarrow> mxhtsp_param uarg \<Rightarrow> ('x hotswap_scheme, int \<times> mxhtsp_param) state" where
  "hotswap_ioctl cmd u =
    (if cmd = Hs_bad_type \<or> cmd = Hs_bad_nr then ret (-ENOTTY, ua_in u)
     else do {
       ok \<leftarrow> (if cmd = Hs_other False then ret 1 else kcall ''access_ok'' []);
       if ok = 0 then ret (-EFAULT, ua_in u)
       else if cmd \<noteq> Hs_other True \<and> cmd \<noteq> Hs_other False \<and> ua_left u \<noteq> 0 then ret (-1, ua_in u)
       else hs_dispatch cmd u })"

text \<open>
  \<open>echo "n m" > /dev/hotswap\<close>: \<open>led_num\<close> and \<open>on\<close> are what \<open>sscanf\<close> finds in the four bytes.
\<close>

definition hotswap_write :: "nat \<Rightarrow> (int \<times> int) uarg \<Rightarrow> ('x, int) io_m" where
  "hotswap_write count u =
    (if count \<noteq> 4 then ret (-1)
     else if ua_left u \<noteq> 0 then ret (-1)
     else do {
       r \<leftarrow> hotswap_led_control (fst (ua_in u)) (snd (ua_in u));
       ret (if r \<noteq> 0 then -1 else int count) })"

subsection \<open>The activity timer\<close>

definition check_one :: "u32 \<Rightarrow> disk_info \<Rightarrow> disk_info" where
  "check_one now d =
    (if now \<noteq> dk_status d then \<lparr>dk_status = now, dk_busy = 1, dk_idle_cnt = 0\<rparr>
     else if dk_idle_cnt d > 10 then d\<lparr>dk_busy := 0, dk_idle_cnt := 0\<rparr>
     else d\<lparr>dk_idle_cnt := dk_idle_cnt d + 1\<rparr>)"

definition hotswap_check_disk :: "('x hotswap_scheme, unit) state" where
  "hotswap_check_disk = do {
     a \<leftarrow> gets hs_vaddr;
     now \<leftarrow> readl (a + 0x219);
     modify (\<lambda>s. s\<lparr>hs_d1 := check_one now (hs_d1 s)\<rparr>);
     now \<leftarrow> readl (a + 0x2A0);
     modify (\<lambda>s. s\<lparr>hs_d2 := check_one now (hs_d2 s)\<rparr>);
     knote ''mod_timer'' [] }"

definition hotswap_init_module :: "('x hotswap_scheme, int) state" where
  "hotswap_init_module = do {
     dev \<leftarrow> kcall ''pci_get_device'' [0x8086, 0x1c03];
     if dev = 0 then ret (-1)
     else do {
       paddr \<leftarrow> kcall ''pci_resource_start'' [dev, 5];
       va \<leftarrow> kcall ''ioremap'' [paddr, 1024];
       modify (\<lambda>s. s\<lparr>hs_vaddr := nat va\<rparr>);
       r \<leftarrow> kcall ''misc_register'' [110];
       if r \<noteq> 0 then ret (-1)
       else do {
         v1 \<leftarrow> readl (nat va + 0x219);
         modify (\<lambda>s. s\<lparr>hs_d1 := (hs_d1 s)\<lparr>dk_status := v1, dk_idle_cnt := 0\<rparr>\<rparr>);
         v2 \<leftarrow> readl (nat va + 0x299);
         modify (\<lambda>s. s\<lparr>hs_d2 := (hs_d2 s)\<lparr>dk_status := v2, dk_idle_cnt := 0\<rparr>\<rparr>);
         _ \<leftarrow> hotswap_led_control 1 0;
         _ \<leftarrow> hotswap_led_control 2 0;
         knote ''add_timer'' [];
         ret 0 } } }"

definition hotswap_cleanup_module :: "('x hotswap_scheme, unit) state" where
  "hotswap_cleanup_module = do {
     knote ''misc_deregister'' [110];
     va \<leftarrow> gets hs_vaddr;
     knote ''iounmap'' [int va];
     knote ''del_timer'' [] }"

section \<open>The library\<close>

definition user_arg :: "'a \<Rightarrow> 'a uarg" where
  "user_arg p = \<lparr>ua_left = 0, ua_in = p, ua_out = 0\<rparr>"

definition mxhtsp_set_led :: "int \<Rightarrow> int \<Rightarrow> ('x hotswap_scheme, int) state" where
  "mxhtsp_set_led led_num on = do {
     (r, _) \<leftarrow> hotswap_ioctl SET_DISK_LED (user_arg \<lparr>disk_num = led_num, p_val = on\<rparr>);
     ret (if r < 0 then -1 else r) }"

definition mxhtsp_query :: "hotswap_cmd \<Rightarrow> mxhtsp_param \<Rightarrow> ('x hotswap_scheme, int) state" where
  "mxhtsp_query cmd p = do {
     (r, q) \<leftarrow> hotswap_ioctl cmd (user_arg p);
     ret (if r \<noteq> 0 then -1 else p_val q) }"

definition mxhtsp_is_button_pressed :: "int \<Rightarrow> ('x hotswap_scheme, int) state" where
  "mxhtsp_is_button_pressed btn_num = mxhtsp_query GET_DISK_BTN \<lparr>disk_num = btn_num, p_val = 1\<rparr>"

definition mxhtsp_is_disk_busy :: "int \<Rightarrow> ('x hotswap_scheme, int) state" where
  "mxhtsp_is_disk_busy n = mxhtsp_query GET_DISK_STATUS \<lparr>disk_num = n, p_val = 0\<rparr>"

definition mxhtsp_is_disk_plugged :: "int \<Rightarrow> ('x hotswap_scheme, int) state" where
  "mxhtsp_is_disk_plugged n = mxhtsp_query CHECK_DISK_PLUGGED \<lparr>disk_num = n, p_val = 0\<rparr>"

section \<open>The activity of a disk\<close>

text \<open>
  The samples are listed newest first; \<open>last_change\<close> is the number of samples since the last one
  that differed from its predecessor, the initial status being the first predecessor.
\<close>

definition before :: "u32 \<Rightarrow> u32 list \<Rightarrow> u32" where
  "before st vs = (case vs of [] \<Rightarrow> st | v # _ \<Rightarrow> v)"

lemma before_Cons [simp]: "before st (v # vs) = v"
  by (simp add: before_def)

fun last_change :: "u32 \<Rightarrow> u32 list \<Rightarrow> nat option" where
  "last_change st [] = None"
| "last_change st (v # vs) = (if v \<noteq> before st vs then Some 0 else map_option Suc (last_change st vs))"

definition busy_inv :: "nat option \<Rightarrow> disk_info \<Rightarrow> bool" where
  "busy_inv c d \<longleftrightarrow> 0 \<le> dk_idle_cnt d \<and> dk_idle_cnt d \<le> 11 \<and>
     (case c of None \<Rightarrow> dk_busy d = 0
      | Some k \<Rightarrow> if k \<le> 11 then dk_busy d = 1 \<and> dk_idle_cnt d = int k else dk_busy d = 0)"

lemma check_one_inv:
  "busy_inv c d \<Longrightarrow> busy_inv (map_option Suc c) (check_one (dk_status d) d)"
  "busy_inv c d \<Longrightarrow> v \<noteq> dk_status d \<Longrightarrow> busy_inv (Some 0) (check_one v d)"
  "dk_status (check_one v d) = v"
  by (auto simp: busy_inv_def check_one_def split: option.splits if_splits)

lemma busy_samples:
  assumes "dk_busy d = 0" "dk_idle_cnt d = 0"
  shows "dk_status (foldr check_one vs d) = before (dk_status d) vs \<and>
    busy_inv (last_change (dk_status d) vs) (foldr check_one vs d)"
proof (induction vs)
  case Nil
  then show ?case
    using assms by (simp add: before_def busy_inv_def)
next
  case (Cons v vs)
  then show ?case
    using check_one_inv(1) [of _ "foldr check_one vs d"] check_one_inv(2) [of _ "foldr check_one vs d" v]
    by (cases "v = before (dk_status d) vs") (auto simp: check_one_inv(3))
qed

text \<open>The samples of a register in a history.\<close>

fun samples :: "nat \<Rightarrow> io_event list \<Rightarrow> u32 list" where
  "samples a [] = []"
| "samples a (Read_l b v # h) = (if b = a then v # samples a h else samples a h)"
| "samples a (_ # h) = samples a h"

fun ticks :: "nat \<Rightarrow> ('x hotswap_scheme, unit) state" where
  "ticks 0 = ret ()"
| "ticks (Suc n) = do { ticks n; hotswap_check_disk }"

lemma ticks_samples:
  "\<exists>h. snd (run_state (ticks n) s) = s\<lparr>ihist := h @ ihist s,
      hs_d1 := foldr check_one (samples (hs_vaddr s + 0x219) h) (hs_d1 s),
      hs_d2 := foldr check_one (samples (hs_vaddr s + 0x2A0) h) (hs_d2 s)\<rparr> \<and>
    length (samples (hs_vaddr s + 0x219) h) = n"
proof (induction n)
  case 0
  show ?case by (intro exI [of _ "[]"]) simp
next
  case (Suc n)
  then obtain h where h: "snd (run_state (ticks n) s) = s\<lparr>ihist := h @ ihist s,
      hs_d1 := foldr check_one (samples (hs_vaddr s + 0x219) h) (hs_d1 s),
      hs_d2 := foldr check_one (samples (hs_vaddr s + 0x2A0) h) (hs_d2 s)\<rparr>"
    "length (samples (hs_vaddr s + 0x219) h) = n"
    by blast
  define s1 where "s1 = s\<lparr>ihist := h @ ihist s,
      hs_d1 := foldr check_one (samples (hs_vaddr s + 0x219) h) (hs_d1 s),
      hs_d2 := foldr check_one (samples (hs_vaddr s + 0x2A0) h) (hs_d2 s)\<rparr>"
  define a where "a = env_l (ienv s) (ihist s1) (hs_vaddr s + 0x219)"
  define b where "b = env_l (ienv s) (Read_l (hs_vaddr s + 0x219) a # ihist s1) (hs_vaddr s + 0x2A0)"
  define k where "k = env_k (ienv s) (Read_l (hs_vaddr s + 0x2A0) b # Read_l (hs_vaddr s + 0x219) a # ihist s1) ''mod_timer'' []"
  have step: "snd (run_state hotswap_check_disk s1) = s1\<lparr>ihist := [Kernel_call ''mod_timer'' [] k,
      Read_l (hs_vaddr s + 0x2A0) b, Read_l (hs_vaddr s + 0x219) a] @ ihist s1,
      hs_d1 := check_one a (hs_d1 s1), hs_d2 := check_one b (hs_d2 s1)\<rparr>"
    by (simp add: hotswap_check_disk_def s1_def a_def b_def k_def)
  have "snd (run_state (ticks (Suc n)) s) = snd (run_state hotswap_check_disk s1)"
    using h(1) by (simp add: case_prod_beta s1_def)
  then show ?case
    unfolding step using h(2)
    by (intro exI [of _ "[Kernel_call ''mod_timer'' [] k, Read_l (hs_vaddr s + 0x2A0) b,
        Read_l (hs_vaddr s + 0x219) a] @ h"]) (simp add: s1_def)
qed

section \<open>Properties\<close>


definition hotswap_example :: hotswap where
  "hotswap_example = \<lparr>ienv = (latch_env (\<lambda>_. 0xFF)), ihist = [], hs_vaddr = 0x1000,
     hs_d1 = \<lparr>dk_status = 5, dk_busy = 0, dk_idle_cnt = 0\<rparr>, hs_d2 = \<lparr>dk_status = 0, dk_busy = 0, dk_idle_cnt = 0\<rparr>\<rparr>"


text \<open>The LEDs: a request switches the LED of the disk and leaves the other lines of the port.\<close>

lemma led_control_effect:
  assumes "latches d LED_BTN_ADDR (ienv s)" "n = 1 \<or> n = 2" "on = 0 \<or> on = 1"
  shows "fst (run_state (hotswap_led_control n on) s) = 0"
    "bit (last_out d (ihist (snd (run_state (hotswap_led_control n on) s))) LED_BTN_ADDR) k =
      (if k = (if n = 1 then 4 else 5) then on = 0 else bit (last_out d (ihist s) LED_BTN_ADDR) k)"
proof -
  show "fst (run_state (hotswap_led_control n on) s) = 0"
    using assms by (auto simp: hotswap_led_control_def)
  show "bit (last_out d (ihist (snd (run_state (hotswap_led_control n on) s))) LED_BTN_ADDR) k =
      (if k = (if n = 1 then 4 else 5) then on = 0 else bit (last_out d (ihist s) LED_BTN_ADDR) k)"
    using assms by (auto simp: hotswap_led_control_def Let_def line_masks latches_def bit_reg)
qed

end
