(* ===== verification/C_Library.thy ===== *)
theory C_Library
  imports Prelude
begin

text \<open>
  What the programs of \<open>user\<close> use of C and its library: variables that are not initialised, what a
  request wrote back, the conversions of \<open>sscanf\<close>, \<open>atoi\<close> and \<open>strtol\<close>, and \<open>getopt\<close>.
\<close>

section \<open>Variables and requests\<close>

text \<open>A local variable that was not initialised holds what the environment says.\<close>

definition uninitialised :: "string \<Rightarrow> ('x, int) io_m" where
  "uninitialised x = gets (\<lambda>s. env_k (ienv s) (ihist s) x [])"

text \<open>A request, with what it copied to the program last, if anything.\<close>

fun find_reply :: "io_event list \<Rightarrow> int list option" where
  "find_reply [] = None"
| "find_reply (To_user vs # h) = Some vs"
| "find_reply (_ # h) = find_reply h"

definition with_reply :: "('x, 'a) io_m \<Rightarrow> ('x, 'a \<times> int list option) io_m" where
  "with_reply m = do {
     h0 \<leftarrow> gets ihist;
     r \<leftarrow> m;
     h \<leftarrow> gets ihist;
     ret (r, find_reply (take (length h - length h0) h)) }"

section \<open>Numbers\<close>

definition is_blank :: "char \<Rightarrow> bool" where
  "is_blank c \<longleftrightarrow> c \<in> {CHR '' '', CHR 0x09, CHR 0x0A, CHR 0x0B, CHR 0x0C, CHR 0x0D}"

definition is_digit :: "char \<Rightarrow> bool" where
  "is_digit c \<longleftrightarrow> c \<in> set ''0123456789''"

definition digit_val :: "char \<Rightarrow> int" where
  "digit_val c = of_char c - 48"

fun scan_digits :: "int \<Rightarrow> string \<Rightarrow> int \<times> string" where
  "scan_digits acc [] = (acc, [])"
| "scan_digits acc (c # cs) =
    (if is_digit c then scan_digits (10 * acc + digit_val c) cs else (acc, c # cs))"

text \<open>The conversion \<open>%d\<close> of \<open>sscanf\<close>: the number and the rest of the input.\<close>

definition scan_number :: "string \<Rightarrow> (int \<times> string) option" where
  "scan_number s = (case s of c # cs \<Rightarrow> if is_digit c then Some (scan_digits 0 s) else None | [] \<Rightarrow> None)"

definition scan_int :: "string \<Rightarrow> (int \<times> string) option" where
  "scan_int s = (case dropWhile is_blank s of
     [] \<Rightarrow> None
   | c # cs \<Rightarrow>
       if c = CHR ''-'' then map_option (\<lambda>(v, r). (- v, r)) (scan_number cs)
       else if c = CHR ''+'' then scan_number cs
       else scan_number (c # cs))"

definition c_atoi :: "string \<Rightarrow> int" where
  "c_atoi s = (case scan_int s of Some (v, _) \<Rightarrow> v | None \<Rightarrow> 0)"

text \<open>
  An \<open>int\<close> of 32 bits: \<open>strtol\<close> stops at the bounds of a \<open>long\<close> of 64 bits, and storing the
  result in an \<open>int\<close> keeps the low 32 bits; glibc's \<open>atoi\<close> is the same.
\<close>

definition long_to_int :: "int \<Rightarrow> int" where
  "long_to_int v = sint (word_of_int (max (- (2 ^ 63)) (min (2 ^ 63 - 1) v)) :: 32 word)"

definition atoi :: "string \<Rightarrow> int" where
  "atoi s = long_to_int (c_atoi s)"

text \<open>The number, and the part of the string \<open>endptr\<close> is left at.\<close>

definition strtol :: "string \<Rightarrow> int \<times> string" where
  "strtol s = (case scan_int s of Some (v, r) \<Rightarrow> (long_to_int v, r) | None \<Rightarrow> (0, s))"

section \<open>Options\<close>

datatype opt_arg = No_arg | Required_arg | Optional_arg

text \<open>The entry of an option character in the option string: one or two colons follow it.\<close>

fun find_opt :: "string \<Rightarrow> char \<Rightarrow> opt_arg option" where
  "find_opt [] c = None"
| "find_opt (x # xs) c =
    (if x = c \<and> c \<noteq> CHR '':'' then
       Some (if take 2 xs = ''::'' then Optional_arg else if take 1 xs = '':'' then Required_arg else No_arg)
     else find_opt xs c)"

text \<open>
  The options a loop over \<open>getopt\<close> sees, each with \<open>optarg\<close> (\<open>None\<close> for a null pointer).  The first
  string is what is left of the argument being scanned.  As the GNU library does, arguments that
  are not options are passed over, and \<open>--\<close> ends the options; an unknown option or a missing
  argument yields a question mark.
\<close>

function getopt :: "string \<Rightarrow> string \<Rightarrow> string list \<Rightarrow> (char \<times> string option) list" where
  "getopt os [] [] = []"
| "getopt os [] (a # rest) =
    (if a = ''--'' then []
     else if take 1 a = ''-'' \<and> a \<noteq> ''-'' then getopt os (tl a) rest
     else getopt os [] rest)"
| "getopt os (c # cs) rest = (case find_opt os c of
     None \<Rightarrow> (CHR ''?'', None) # getopt os cs rest
   | Some No_arg \<Rightarrow> (c, None) # getopt os cs rest
   | Some Optional_arg \<Rightarrow> (c, if cs = [] then None else Some cs) # getopt os [] rest
   | Some Required_arg \<Rightarrow>
       if cs \<noteq> [] then (c, Some cs) # getopt os [] rest
       else (case rest of [] \<Rightarrow> [(CHR ''?'', None)] | b # bs \<Rightarrow> (c, Some b) # getopt os [] bs))"
  by pat_completeness auto
termination
  by (relation "measure (\<lambda>(os, cs, rest). length cs + sum_list (map (\<lambda>a. Suc (length a)) rest))") auto

section \<open>Decimal notation\<close>

function show_nat :: "nat \<Rightarrow> string" where
  "show_nat n = (if n < 10 then [char_of (48 + n)] else show_nat (n div 10) @ [char_of (48 + n mod 10)])"
  by auto
termination
  by (relation "measure id") auto

declare show_nat.simps [simp del]

lemma digit_char: "k < 10 \<Longrightarrow> is_digit (char_of (48 + k)) \<and> digit_val (char_of (48 + k)) = int k"
proof -
  assume "k < 10"
  then have "k \<in> set [0..<10]" by simp
  moreover have "\<forall>k \<in> set [0..<10]. is_digit (char_of (48 + k)) \<and> digit_val (char_of (48 + k)) = int k"
    by code_simp
  ultimately show ?thesis by blast
qed

lemma show_nat_digits: "show_nat n \<noteq> [] \<and> (\<forall>c \<in> set (show_nat n). is_digit c)"
proof (induction n rule: show_nat.induct)
  case (1 n)
  then show ?case
    by (subst (1 2) show_nat.simps) (auto simp: digit_char [THEN conjunct1])
qed

lemma scan_digits_append: "\<forall>c \<in> set ds. is_digit c \<Longrightarrow>
    scan_digits acc (ds @ r) = scan_digits (foldl (\<lambda>a c. 10 * a + digit_val c) acc ds) r"
  by (induction ds arbitrary: acc) auto

lemma foldl_show_nat: "foldl (\<lambda>a c. 10 * a + digit_val c) 0 (show_nat n) = int n"
proof (induction n rule: show_nat.induct)
  case (1 n)
  show ?case
  proof (cases "n < 10")
    case True
    then show ?thesis by (subst show_nat.simps) (simp add: digit_char)
  next
    case False
    then have "foldl (\<lambda>a c. 10 * a + digit_val c) 0 (show_nat n) = 10 * int (n div 10) + int (n mod 10)"
      using 1 by (subst show_nat.simps) (simp add: digit_char)
    also have "\<dots> = int n"
      by (simp add: zdiv_int zmod_int)
    finally show ?thesis .
  qed
qed

lemma scan_show_nat:
  assumes "r = [] \<or> \<not> is_digit (hd r)"
  shows "scan_int (show_nat n @ r) = Some (int n, r)"
proof -
  obtain c cs where c: "show_nat n = c # cs" "is_digit c"
    using show_nat_digits [of n] by (cases "show_nat n") auto
  have "\<not> is_blank c" "c \<noteq> CHR ''-''" "c \<noteq> CHR ''+''"
    using c(2) by (auto simp: is_digit_def is_blank_def)
  then have "scan_int (show_nat n @ r) = Some (scan_digits 0 (show_nat n @ r))"
    using c by (simp add: scan_int_def scan_number_def)
  also have "scan_digits 0 (show_nat n @ r) = scan_digits (int n) r"
    using show_nat_digits [of n] by (simp add: scan_digits_append foldl_show_nat)
  also have "scan_digits (int n) r = (int n, r)"
    using assms by (cases r) auto
  finally show ?thesis .
qed

lemma long_to_int_id: "- (2 ^ 31) \<le> v \<Longrightarrow> v < 2 ^ 31 \<Longrightarrow> long_to_int v = v"
  by (simp add: long_to_int_def signed_of_int signed_take_bit_int_eq_self)

lemma atoi_show_nat: "n < 2 ^ 31 \<Longrightarrow> atoi (show_nat n) = int n"
  using scan_show_nat [of "[]" n] by (simp add: atoi_def c_atoi_def long_to_int_id)

lemma strtol_show_nat: "n < 2 ^ 31 \<Longrightarrow> strtol (show_nat n) = (int n, [])"
  using scan_show_nat [of "[]" n] by (simp add: strtol_def long_to_int_id)

end
