(* ===== verification/Hotswap_Daemon.thy ===== *)
theory Hotswap_Daemon
  imports Hotswap C_Library
begin

text \<open>
  The hotswap daemon, \<open>user/mxhtspd/mxhtspd.c\<close>, on top of the driver and the library of \<open>Hotswap\<close>:
  the daemon's state extends the driver's, and every request of the daemon runs the driver's
  \<open>hotswap_ioctl\<close>.

  The \<open>#if\<close>s on \<open>CONFIG_PRODUCT\<close> compare two undefined identifiers, so the branch of the V2616A is
  compiled for both products.  The scripts the daemon starts are kernel calls of their names.
  The output of \<open>df\<close> is a parameter: for a history and a mount point, the lines, if \<open>popen\<close> works.
  Numbers are unbounded; C leaves the conversion of one beyond 32 bits undefined.
\<close>

section \<open>Strings\<close>

definition is_delim :: "char \<Rightarrow> bool" where
  "is_delim c \<longleftrightarrow> c = CHR '' '' \<or> c = CHR 0x0A"

text \<open>The words \<open>strtok\<close> finds with the delimiters blank and newline.\<close>

function strtok_words :: "string \<Rightarrow> string list" where
  "strtok_words s = (case dropWhile is_delim s of [] \<Rightarrow> []
     | c # cs \<Rightarrow> takeWhile (\<lambda>x. \<not> is_delim x) (c # cs) # strtok_words (dropWhile (\<lambda>x. \<not> is_delim x) cs))"
  by auto
termination
proof (relation "measure length", simp)
  fix s :: string and c cs
  assume "dropWhile is_delim s = c # cs"
  then have "Suc (length cs) \<le> length s"
    using length_dropWhile_le [of is_delim s] by simp
  then show "(dropWhile (\<lambda>x. \<not> is_delim x) cs, s) \<in> measure length"
    using length_dropWhile_le [of "\<lambda>x. \<not> is_delim x" cs] by simp
qed

declare strtok_words.simps [simp del]

fun strip_prefix :: "string \<Rightarrow> string \<Rightarrow> string option" where
  "strip_prefix [] s = Some s"
| "strip_prefix (p # ps) [] = None"
| "strip_prefix (p # ps) (c # cs) = (if p = c then strip_prefix ps cs else None)"

text \<open>\<open>sscanf(mpoint, "/media/disk%dp%d", &n, &m)\<close> with both numbers found.\<close>

definition scan_mpoint :: "string \<Rightarrow> (int \<times> int) option" where
  "scan_mpoint s = (case strip_prefix ''/media/disk'' s of None \<Rightarrow> None
     | Some r \<Rightarrow> (case scan_int r of None \<Rightarrow> None
       | Some (n, r) \<Rightarrow> (case strip_prefix ''p'' r of None \<Rightarrow> None
         | Some r \<Rightarrow> (case scan_int r of None \<Rightarrow> None | Some (m, _) \<Rightarrow> Some (n, m)))))"

section \<open>The configuration file\<close>

type_synonym clist = "(string \<times> int) list"

datatype conf_result = Conf_ok clist | Conf_error | Conf_exit | Conf_null_file

text \<open>The loop of \<open>clist_check_insert\<close> stops at the last element without comparing it.\<close>

definition clist_check_insert :: "clist \<Rightarrow> string \<times> int \<Rightarrow> clist option" where
  "clist_check_insert cl new =
    (if cl = [] then Some [new]
     else if fst new \<in> set (map fst (butlast cl)) then None
     else Some (cl @ [new]))"

definition bad_mpoint :: "string \<Rightarrow> bool" where
  "bad_mpoint t = (case scan_mpoint t of None \<Rightarrow> True | Some (n, m) \<Rightarrow> n \<noteq> 1 \<and> n \<noteq> 2 \<or> m < 0)"

fun read_lines :: "clist \<Rightarrow> string list \<Rightarrow> conf_result" where
  "read_lines cl [] = Conf_ok cl"
| "read_lines cl (line # rest) = (case strtok_words line of
     [] \<Rightarrow> Conf_error
   | t # ts \<Rightarrow>
       if hd t = CHR ''#'' then read_lines cl rest
       else if bad_mpoint t then Conf_exit
       else (case ts of [] \<Rightarrow> Conf_error
         | p # _ \<Rightarrow>
             if c_atoi p > 100 \<or> c_atoi p < 0 then Conf_exit
             else (case clist_check_insert cl (t, c_atoi p) of
                 None \<Rightarrow> Conf_exit
               | Some cl \<Rightarrow> read_lines cl rest)))"

text \<open>When the file cannot be opened the code goes on with a null pointer.\<close>

definition read_conf :: "string list option \<Rightarrow> conf_result" where
  "read_conf file = (case file of None \<Rightarrow> Conf_null_file | Some ls \<Rightarrow> read_lines [] ls)"

section \<open>Usage of a partition\<close>

text \<open>The result \<open>None\<close>: the percentage is an uninitialised variable.\<close>

fun df_percent :: "string \<Rightarrow> string list \<Rightarrow> int option" where
  "df_percent mp [] = Some (-1)"
| "df_percent mp (line # rest) =
    (let ts = strtok_words line in
     if length ts < 6 then Some (-1)
     else if ts ! 5 = mp then map_option fst (scan_int (ts ! 4))
     else df_percent mp rest)"

definition usage_of :: "string \<Rightarrow> string list option \<Rightarrow> int option" where
  "usage_of mp out = (case out of None \<Rightarrow> Some (-1) | Some [] \<Rightarrow> Some (-1) | Some (_ # ls) \<Rightarrow> df_percent mp ls)"

section \<open>The daemon\<close>

record htsp_info =
  disk_plugged :: int
  btn_last_pressed :: int
  btn_event_start :: int
  led_on :: int
  led_warn :: int
  led_last_warn :: int
  first_insert :: int

record daemon = hotswap +
  dm_info :: "htsp_info list"
  dm_time_chk_part :: int
  dm_force_chk_part :: int
  dm_cnt_chk_part :: int
  dm_exit :: int
  dm_cnt :: int

type_synonym 'a dm_m = "(daemon, 'a) state"

abbreviation "TIME_SLEEP_MS \<equiv> 100 :: int"
abbreviation "TIME_DELAY_CHECK_USAGE \<equiv> 10 :: int"

definition info :: "int \<Rightarrow> daemon \<Rightarrow> htsp_info" where
  "info n s = dm_info s ! nat (n - 1)"

definition set_info :: "int \<Rightarrow> (htsp_info \<Rightarrow> htsp_info) \<Rightarrow> unit dm_m" where
  "set_info n f = modify (\<lambda>s. s\<lparr>dm_info := (dm_info s)[nat (n - 1) := f (info n s)]\<rparr>)"

definition execute_script :: "string \<Rightarrow> int \<Rightarrow> unit dm_m" where
  "execute_script cmd n = knote cmd [n]"

definition handle_disk_plugged :: "int \<Rightarrow> unit dm_m" where
  "handle_disk_plugged n = do {
     r \<leftarrow> mxhtsp_is_disk_plugged n;
     i \<leftarrow> gets (info n);
     (if r = 1 \<and> disk_plugged i = 0 then do {
        execute_script ''action-disk-plugged'' n;
        modify (\<lambda>s. s\<lparr>dm_force_chk_part := 1\<rparr>);
        set_info n (\<lambda>i. i\<lparr>first_insert := 1\<rparr>) }
      else whenM (r = 0 \<and> disk_plugged i = 1) (do {
        execute_script ''action-disk-unplugged'' n;
        modify (\<lambda>s. s\<lparr>dm_force_chk_part := 1\<rparr>) }));
     set_info n (\<lambda>i. i\<lparr>disk_plugged := r\<rparr>) }"

definition handle_disk_busy :: "int \<Rightarrow> unit dm_m" where
  "handle_disk_busy n = do {
     i \<leftarrow> gets (info n);
     if led_warn i \<noteq> 0 then ret ()
     else do {
       b \<leftarrow> mxhtsp_is_disk_busy n;
       if b = 1 then do {
         _ \<leftarrow> mxhtsp_set_led 1 1;
         set_info n (\<lambda>i. i\<lparr>led_on := 1\<rparr>) }
       else whenM (led_on i \<noteq> 0) (do {
         _ \<leftarrow> mxhtsp_set_led 1 0;
         set_info n (\<lambda>i. i\<lparr>led_on := 0\<rparr>) }) } }"

definition handle_button_pressed :: "int \<Rightarrow> int dm_m" where
  "handle_button_pressed n = do {
     now_press \<leftarrow> mxhtsp_is_button_pressed n;
     if now_press < 0 then ret (-1)
     else do {
       i \<leftarrow> gets (info n);
       (if now_press = 1 \<and> btn_last_pressed i = 0 then
          set_info n (\<lambda>i. i\<lparr>btn_event_start := 1, btn_last_pressed := 1\<rparr>)
        else whenM (now_press = 0) (do {
          whenM (btn_event_start i \<noteq> 0 \<and> first_insert i = 0) (do {
            execute_script ''action-btn-pressed'' 1;
            set_info n (\<lambda>i. i\<lparr>btn_event_start := 0\<rparr>) });
          set_info n (\<lambda>i. i\<lparr>btn_last_pressed := 0, first_insert := 0\<rparr>) }));
       ret 0 } }"

definition sig_handler :: "unit dm_m" where
  "sig_handler = modify (\<lambda>s. s\<lparr>dm_exit := 1\<rparr>)"

text \<open>The command line of \<open>df\<close> is written to 50 bytes.\<close>

definition check_entry :: "(io_event list \<Rightarrow> string \<Rightarrow> string list option) \<Rightarrow> string \<times> int \<Rightarrow> unit dm_m" where
  "check_entry df c = do {
     whenM (38 < length (fst c)) (undefined_c ''cmd overflow'');
     h \<leftarrow> gets ihist;
     let u = usage_of (fst c) (df h (fst c));
     whenM (u = None) (undefined_c ''percent uninitialised'');
     let percent = (case u of Some p \<Rightarrow> p | None \<Rightarrow> 0);
     let n = (case scan_mpoint (fst c) of Some (n, _) \<Rightarrow> n | None \<Rightarrow> 0);
     (if percent = -1 then set_info n (\<lambda>i. i\<lparr>led_warn := 1\<rparr>)
      else if percent > snd c then do {
        knote ''action-part-over-usage'' (map of_char (fst c));
        set_info n (\<lambda>i. i\<lparr>led_warn := 1\<rparr>) }
      else set_info n (\<lambda>i. i\<lparr>led_warn := 0\<rparr>)) }"

fun check_entries :: "(io_event list \<Rightarrow> string \<Rightarrow> string list option) \<Rightarrow> clist \<Rightarrow> unit dm_m" where
  "check_entries df [] = ret ()"
| "check_entries df (c # cl) = do { check_entry df c; check_entries df cl }"

text \<open>The compiled branch looks at the second element of \<open>info\<close> and marks the first.\<close>

definition warn_led :: "unit dm_m" where
  "warn_led = do {
     i \<leftarrow> gets (info 2);
     if led_warn i \<noteq> 0 then do {
       _ \<leftarrow> mxhtsp_set_led 1 1;
       set_info 1 (\<lambda>i. i\<lparr>led_on := 1, led_last_warn := 1\<rparr>) }
     else whenM (led_last_warn i \<noteq> 0) (do { _ \<leftarrow> mxhtsp_set_led 1 0; ret () }) }"

definition check_part_usage :: "(io_event list \<Rightarrow> string \<Rightarrow> string list option) \<Rightarrow> clist \<Rightarrow> unit dm_m" where
  "check_part_usage df cl = do {
     modify (\<lambda>s. if dm_force_chk_part s \<noteq> 0
       then s\<lparr>dm_cnt_chk_part := TIME_DELAY_CHECK_USAGE, dm_force_chk_part := 0\<rparr> else s);
     modify (\<lambda>s. s\<lparr>dm_cnt_chk_part := dm_cnt_chk_part s + 1\<rparr>);
     s \<leftarrow> gets id;
     whenM (dm_cnt_chk_part s > dm_time_chk_part s) (do {
       check_entries df cl;
       modify (\<lambda>s. s\<lparr>dm_cnt_chk_part := 0\<rparr>) });
     warn_led }"

text \<open>One turn of the main loop.\<close>

definition handle_disk :: "int \<Rightarrow> unit dm_m" where
  "handle_disk n = do {
     handle_disk_plugged n;
     handle_disk_busy n;
     _ \<leftarrow> handle_button_pressed n;
     ret () }"

definition main_pass :: "(io_event list \<Rightarrow> string \<Rightarrow> string list option) \<Rightarrow> clist \<Rightarrow> unit dm_m" where
  "main_pass df cl = do {
     handle_disk 1;
     handle_disk 2;
     modify (\<lambda>s. s\<lparr>dm_cnt := dm_cnt s + 1\<rparr>);
     cnt \<leftarrow> gets dm_cnt;
     whenM (cnt * TIME_SLEEP_MS > 1000) (do {
       check_part_usage df cl;
       modify (\<lambda>s. s\<lparr>dm_cnt := 0\<rparr>) }) }"

fun main_passes :: "(io_event list \<Rightarrow> string \<Rightarrow> string list option) \<Rightarrow> clist \<Rightarrow> nat \<Rightarrow> unit dm_m" where
  "main_passes df cl 0 = ret ()"
| "main_passes df cl (Suc k) = do {
     stop \<leftarrow> gets dm_exit;
     if stop \<noteq> 0 then ret () else do { main_pass df cl; main_passes df cl k } }"

text \<open>The options: the result is \<open>None\<close> when the program exits.\<close>

record daemon_opts =
  op_time_btn_long :: int
  op_time_chk_part :: int
  op_log_facility :: int
  op_daemonize :: bool
  op_verbose :: bool

fun parse_opt :: "char \<times> string \<Rightarrow> daemon_opts \<Rightarrow> ('x, daemon_opts option) io_m" where
  "parse_opt (c, optarg) opts = (let num = c_atoi optarg in
     if c = CHR ''t'' then ret (if num \<le> 0 then None else Some (opts\<lparr>op_time_btn_long := num\<rparr>))
     else if c = CHR ''i'' then ret (if num \<le> 0 then None else Some (opts\<lparr>op_time_chk_part := num\<rparr>))
     else if c = CHR ''l'' then do {
       whenM (num < 0 \<or> 7 < num) (undefined_c ''facility index'');
       knote ''openlog'' [num];
       ret (Some (opts\<lparr>op_log_facility := num\<rparr>)) }
     else if c = CHR ''d'' then ret (Some (opts\<lparr>op_daemonize := True\<rparr>))
     else if c = CHR ''v'' then ret (Some (opts\<lparr>op_verbose := True\<rparr>))
     else ret None)"

fun parseopt :: "(char \<times> string) list \<Rightarrow> daemon_opts \<Rightarrow> ('x, daemon_opts option) io_m" where
  "parseopt [] opts = ret (Some opts)"
| "parseopt (a # rest) opts = do {
     r \<leftarrow> parse_opt a opts;
     (case r of None \<Rightarrow> ret None | Some opts \<Rightarrow> parseopt rest opts) }"

text \<open>
  The program: the options as \<open>getopt\<close> yields them, the configuration file, and at most \<open>k\<close>
  turns of the main loop; \<open>None\<close> when it is still running then.
\<close>

definition no_info :: htsp_info where
  "no_info = \<lparr>disk_plugged = 0, btn_last_pressed = 0, btn_event_start = 0, led_on = 0, led_warn = 0,
     led_last_warn = 0, first_insert = 0\<rparr>"

definition default_opts :: daemon_opts where
  "default_opts = \<lparr>op_time_btn_long = 5, op_time_chk_part = 60, op_log_facility = -1,
     op_daemonize = False, op_verbose = False\<rparr>"

definition daemon_stop :: "unit dm_m" where
  "daemon_stop = do {
     knote ''unlink(pid file)'' [];
     _ \<leftarrow> mxhtsp_set_led 1 0;
     _ \<leftarrow> mxhtsp_set_led 2 0;
     ret () }"

definition mxhtspd_main :: "(io_event list \<Rightarrow> string \<Rightarrow> string list option) \<Rightarrow> (char \<times> string) list \<Rightarrow>
    string list option \<Rightarrow> nat \<Rightarrow> int option dm_m" where
  "mxhtspd_main df args file k = do {
     r \<leftarrow> parseopt args default_opts;
     (case r of None \<Rightarrow> ret (Some 1)
      | Some opts \<Rightarrow> do {
          modify (\<lambda>s. s\<lparr>dm_time_chk_part := op_time_chk_part opts\<rparr>);
          whenM (op_daemonize opts) (knote ''daemonize'' []);
          (case read_conf file of
             Conf_error \<Rightarrow> ret (Some (-1))
           | Conf_exit \<Rightarrow> ret (Some 1)
           | Conf_null_file \<Rightarrow> do { undefined_c ''fgets(NULL)''; ret None }
           | Conf_ok cl \<Rightarrow> do {
               fd \<leftarrow> kcall ''open(/dev/hotswap)'' [];
               if fd < 0 then ret (Some 1)
               else do {
                 modify (\<lambda>s. s\<lparr>dm_info := [no_info, no_info], dm_cnt := 0, dm_cnt_chk_part := 0,
                   dm_force_chk_part := 0\<rparr>);
                 knote ''create_pid_file'' [];
                 main_passes df cl k;
                 stop \<leftarrow> gets dm_exit;
                 if stop \<noteq> 0 then do { daemon_stop; ret (Some 0) } else ret None } }) }) }"

section \<open>The tool mxhtspd-setled.c\<close>

text \<open>\<open>usage\<close> ends the program with status 1; the status is 0 even when the driver refuses.\<close>

definition mxhtspd_setled :: "string list \<Rightarrow> ('x hotswap_scheme, int) state" where
  "mxhtspd_setled args = do {
     fd \<leftarrow> kcall ''open(/dev/hotswap)'' [];
     if fd < 0 then do { knote ''printf(open)'' []; ret 1 }
     else (case args of
         [a, b] \<Rightarrow> do {
           r \<leftarrow> mxhtsp_set_led (atoi a) (atoi b);
           whenM (r \<noteq> 0) (knote ''printf(error)'' [atoi a, atoi b]);
           ret 0 }
       | _ \<Rightarrow> do { knote ''printf(usage)'' []; ret 1 }) }"

section \<open>The plug scripts\<close>

text \<open>The runs of the two scripts for a disk, newest first; \<open>True\<close> is the one for a plugged disk.\<close>

fun plug_events :: "int \<Rightarrow> io_event list \<Rightarrow> bool list" where
  "plug_events n [] = []"
| "plug_events n (Kernel_call f as r # h) =
    (if as = [n] \<and> f = ''action-disk-plugged'' then True # plug_events n h
     else if as = [n] \<and> f = ''action-disk-unplugged'' then False # plug_events n h
     else plug_events n h)"
| "plug_events n (_ # h) = plug_events n h"

text \<open>They alternate, and the oldest is for a plugged disk.\<close>

fun alternates :: "bool list \<Rightarrow> bool" where
  "alternates [] = True"
| "alternates [x] = x"
| "alternates (x # y # zs) = (x \<noteq> y \<and> alternates (y # zs))"

definition is_plugged :: "bool list \<Rightarrow> bool" where
  "is_plugged es \<longleftrightarrow> es \<noteq> [] \<and> hd es"

lemma alternates_Cons: "alternates (x # es) \<longleftrightarrow> alternates es \<and> x = (\<not> is_plugged es)"
  by (cases es) (auto simp: is_plugged_def)

definition plug_inv :: "daemon \<Rightarrow> bool" where
  "plug_inv s \<longleftrightarrow> (\<forall>h. env_k (ienv s) h ''access_ok'' [] \<noteq> 0) \<and> length (dm_info s) = 2 \<and>
     (\<forall>n \<in> {1, 2}. alternates (plug_events n (ihist s)) \<and>
        disk_plugged (info n s) = (if is_plugged (plug_events n (ihist s)) then 1 else 0))"

named_theorems plug_rules \<open>what preserves \<open>plug_inv\<close>\<close>

declare preserves_structure [plug_rules]

lemma plug_inv_same:
  "plug_inv s \<Longrightarrow> ienv t = ienv s \<Longrightarrow> length (dm_info t) = length (dm_info s) \<Longrightarrow>
   (\<And>n. n \<in> {1, 2} \<Longrightarrow> disk_plugged (info n t) = disk_plugged (info n s)) \<Longrightarrow>
   (\<And>n. plug_events n (ihist t) = plug_events n (ihist s)) \<Longrightarrow> plug_inv t"
  by (simp add: plug_inv_def)

lemma info_frame [simp]:
  "info n (s\<lparr>ihist := h\<rparr>) = info n s" "info n (s\<lparr>hs_d1 := a\<rparr>) = info n s" "info n (s\<lparr>hs_d2 := b\<rparr>) = info n s"
  "info n (s\<lparr>dm_force_chk_part := x\<rparr>) = info n s" "info n (s\<lparr>dm_cnt_chk_part := x\<rparr>) = info n s"
  "info n (s\<lparr>dm_cnt := x\<rparr>) = info n s" "info n (s\<lparr>dm_exit := x\<rparr>) = info n s"
  by (simp_all add: info_def)

lemma info_set [simp]:
  "info n (snd (run_state (set_info m f) s)) =
    (if nat (n - 1) = nat (m - 1) \<and> nat (m - 1) < length (dm_info s) then f (info n s) else info n s)"
proof (cases "nat (m - 1) < length (dm_info s)")
  case True
  then show ?thesis by (simp add: set_info_def info_def nth_list_update)
next
  case False
  then have "length (dm_info s) \<le> nat (m - 1)" by (rule leI)
  with False show ?thesis by (simp add: set_info_def info_def list_update_beyond)
qed

lemma set_info_frame [simp]:
  "length (dm_info (snd (run_state (set_info m f) s))) = length (dm_info s)"
  "ihist (snd (run_state (set_info m f) s)) = ihist s" "ienv (snd (run_state (set_info m f) s)) = ienv s"
  by (simp_all add: set_info_def)

lemma plug_io [plug_rules]:
  "preserves plug_inv (inb p)" "preserves plug_inv (outb v p)" "preserves plug_inv (readl a)"
  "preserves plug_inv (undefined_c w)" "preserves plug_inv (copy_to_user u vs)"
  "f \<noteq> ''action-disk-plugged'' \<Longrightarrow> f \<noteq> ''action-disk-unplugged'' \<Longrightarrow> preserves plug_inv (kcall f as)"
  "f \<noteq> ''action-disk-plugged'' \<Longrightarrow> f \<noteq> ''action-disk-unplugged'' \<Longrightarrow> preserves plug_inv (knote f as)"
  by (auto intro!: preservesI elim!: plug_inv_same)

lemma plug_set_info [plug_rules]:
  "(\<And>i. disk_plugged (f i) = disk_plugged i) \<Longrightarrow> preserves plug_inv (set_info m f)"
  by (auto intro!: preservesI elim!: plug_inv_same)

lemma plug_modify [plug_rules]:
  "preserves plug_inv (modify (\<lambda>s. s\<lparr>dm_force_chk_part := x\<rparr>))"
  "preserves plug_inv (modify (\<lambda>s. s\<lparr>dm_cnt_chk_part := g s\<rparr>))"
  "preserves plug_inv (modify (\<lambda>s. s\<lparr>dm_cnt := k s\<rparr>))"
  "preserves plug_inv (modify (\<lambda>s. if b s then s\<lparr>dm_cnt_chk_part := x, dm_force_chk_part := y\<rparr> else s))"
  by (auto intro!: preservesI elim!: plug_inv_same)

lemma plug_dispatch [plug_rules]: "preserves plug_inv (hs_dispatch cmd u)"
  unfolding hs_dispatch_def hs_button_def hs_plugged_def hs_give_def hotswap_led_control_def Let_def
  by (cases cmd; simp only: hotswap_cmd.case; intro plug_rules)

lemma plug_library [plug_rules]:
  "preserves plug_inv (mxhtsp_query cmd p)" "preserves plug_inv (mxhtsp_set_led n on)"
  "preserves plug_inv (mxhtsp_is_disk_busy m)" "preserves plug_inv (mxhtsp_is_button_pressed m)"
  unfolding mxhtsp_query_def mxhtsp_set_led_def hotswap_ioctl_def mxhtsp_is_disk_busy_def mxhtsp_is_button_pressed_def
  by (intro plug_rules; simp)+

lemma plug_busy [plug_rules]: "preserves plug_inv (handle_disk_busy n)"
  unfolding handle_disk_busy_def by (intro plug_rules) simp_all

lemma plug_button [plug_rules]: "preserves plug_inv (handle_button_pressed n)"
  unfolding handle_button_pressed_def execute_script_def by (intro plug_rules) simp_all

lemma plug_check [plug_rules]: "preserves plug_inv (check_part_usage df cl)"
proof -
  have "preserves plug_inv (check_entries df cl)"
    by (induction cl) (auto simp: check_entry_def Let_def intro!: plug_rules)
  then show ?thesis
    unfolding check_part_usage_def warn_led_def by (intro plug_rules) simp_all
qed

text \<open>The handler itself: the script of the transition, if there is one.\<close>

lemma plugged_run:
  assumes "\<forall>h. env_k (ienv s) h ''access_ok'' [] \<noteq> 0" "n = 1 \<or> n = 2"
  obtains v :: u32 and h where "run_state (mxhtsp_is_disk_plugged n) s = (if v = 0x7f then 0 else 1, s\<lparr>ihist := h @ ihist s\<rparr>)"
    "\<And>m. plug_events m (h @ ihist s) = plug_events m (ihist s)"
proof -
  define k where "k = env_k (ienv s) (ihist s) ''access_ok'' []"
  define a where "a = hs_vaddr s + (if n = 1 then 0x220 else 0x2A0)"
  define v where "v = env_l (ienv s) (Kernel_call ''access_ok'' [] k # ihist s) a"
  define h where "h = [To_user [n, if v = 0x7f then 0 else 1], Read_l a v, Kernel_call ''access_ok'' [] k]"
  show thesis
    by (rule that [of v h])
      (use assms in \<open>auto simp: mxhtsp_is_disk_plugged_def mxhtsp_query_def hotswap_ioctl_def user_arg_def
        hs_dispatch_def hs_plugged_def hs_give_def Let_def case_prod_beta a_def v_def h_def k_def\<close>)
qed

lemma plug_inv_event:
  assumes "plug_inv s" "n = 1 \<or> n = 2" "x = (\<not> is_plugged (plug_events n (ihist s)))"
    and "\<exists>r. ihist t = Kernel_call (if x then ''action-disk-plugged'' else ''action-disk-unplugged'') [n] r # ihist s"
    and "ienv t = ienv s" "length (dm_info t) = length (dm_info s)"
    and "\<And>m. m \<in> {1, 2} \<Longrightarrow> disk_plugged (info m t) = (if m = n then if x then 1 else 0 else disk_plugged (info m s))"
  shows "plug_inv t"
proof -
  have "plug_events m (ihist t) = (if m = n then x # plug_events m (ihist s) else plug_events m (ihist s))" for m
    using assms(4) by auto
  note ev = this
  have old: "alternates (plug_events m (ihist s))"
    "disk_plugged (info m s) = (if is_plugged (plug_events m (ihist s)) then 1 else 0)" if "m \<in> {1, 2}" for m
    using assms(1) that unfolding plug_inv_def by blast+
  have "alternates (plug_events m (ihist t)) \<and>
      disk_plugged (info m t) = (if is_plugged (plug_events m (ihist t)) then 1 else 0)" if "m \<in> {1, 2}" for m
    unfolding ev assms(7) [OF that] using old [OF that] assms(3)
    by (cases "m = n") (simp_all add: alternates_Cons is_plugged_def [of "_ # _"])
  moreover have "\<forall>h. env_k (ienv t) h ''access_ok'' [] \<noteq> 0" "length (dm_info t) = 2"
    using assms(1,5,6) unfolding plug_inv_def by simp_all
  ultimately show ?thesis
    unfolding plug_inv_def by blast
qed

lemma plug_plugged [plug_rules]:
  assumes "n = 1 \<or> n = 2"
  shows "preserves plug_inv (handle_disk_plugged n)"
proof (rule preservesI)
  fix s assume inv: "plug_inv s"
  have acc: "\<forall>h. env_k (ienv s) h ''access_ok'' [] \<noteq> 0"
    using inv unfolding plug_inv_def by blast
  obtain v :: u32 and h where run: "run_state (mxhtsp_is_disk_plugged n) s = (if v = 0x7f then 0 else 1, s\<lparr>ihist := h @ ihist s\<rparr>)"
    and ev: "\<And>m. plug_events m (h @ ihist s) = plug_events m (ihist s)"
    by (rule plugged_run [OF acc assms]) (rule that)
  define s1 where "s1 = s\<lparr>ihist := h @ ihist s\<rparr>"
  define t where "t = snd (run_state (handle_disk_plugged n) s)"
  define P where "P = is_plugged (plug_events n (ihist s1))"
  have inv1: "plug_inv s1"
    using inv by (rule plug_inv_same) (simp_all add: s1_def ev)
  have old: "disk_plugged (info n s1) = (if P then 1 else 0)" and len: "length (dm_info s1) = 2"
    using inv1 assms unfolding plug_inv_def P_def by blast+
  have idx: "nat (m - 1) = nat (n - 1) \<longleftrightarrow> m = n" "nat (n - 1) < 2" if "m \<in> {1, 2}" for m
    using that assms by auto
  have others: "ienv t = ienv s1" "length (dm_info t) = length (dm_info s1)"
    by (simp_all add: t_def handle_disk_plugged_def run case_prod_beta execute_script_def s1_def)
  have plugged: "disk_plugged (info m t) = (if m = n then if v = 0x7f then 0 else 1 else disk_plugged (info m s1))"
    if "m \<in> {1, 2}" for m
    using idx [OF that] len
    by (simp add: t_def handle_disk_plugged_def run case_prod_beta execute_script_def flip: s1_def)
  have hist: "ihist t = (if v \<noteq> 0x7f \<and> \<not> P
      then Kernel_call ''action-disk-plugged'' [n] (env_k (ienv s1) (ihist s1) ''action-disk-plugged'' [n]) # ihist s1
      else if v = 0x7f \<and> P
      then Kernel_call ''action-disk-unplugged'' [n] (env_k (ienv s1) (ihist s1) ''action-disk-unplugged'' [n]) # ihist s1
      else ihist s1)"
    using old
    by (simp add: t_def handle_disk_plugged_def run case_prod_beta execute_script_def flip: s1_def)
  have "plug_inv t"
  proof (cases "(v = 0x7f) = P")
    case True
    then show ?thesis
      using hist assms plugged others P_def by (intro plug_inv_event [OF inv1 assms refl]) auto
  next
    case False
    then show ?thesis
      using hist plugged old others assms by (intro plug_inv_same [OF inv1]) auto
  qed
  then show "plug_inv (snd (run_state (handle_disk_plugged n) s))"
    by (simp add: t_def)
qed

lemma plug_passes: "preserves plug_inv (main_passes df cl k)"
proof (induction k)
  case (Suc k)
  have "preserves plug_inv (main_pass df cl)"
    unfolding main_pass_def handle_disk_def by (intro plug_rules) simp_all
  with Suc show ?case
    by (auto intro!: plug_rules)
qed (simp add: plug_rules)

section \<open>Writing a configuration file\<close>

lemma digit_not_delim: "is_digit c \<Longrightarrow> \<not> is_delim c"
  by (auto simp: is_digit_def is_delim_def)

definition mpoint_of :: "nat \<Rightarrow> nat \<Rightarrow> string" where
  "mpoint_of n m = ''/media/disk'' @ show_nat n @ ''p'' @ show_nat m"

definition conf_line :: "nat \<times> nat \<times> nat \<Rightarrow> string" where
  "conf_line e = (case e of (n, m, pc) \<Rightarrow> mpoint_of n m @ '' '' @ show_nat pc @ [CHR 0x0A])"

lemma scan_mpoint_of: "scan_mpoint (mpoint_of n m) = Some (int n, int m)"
proof -
  have p: "\<not> is_digit CHR ''p''"
    by (simp add: is_digit_def)
  show ?thesis
    using scan_show_nat [of "''p'' @ show_nat m" n] scan_show_nat [of "[]" m] p
    by (simp add: scan_mpoint_def mpoint_of_def)
qed

lemma mpoint_no_delim: "c \<in> set (mpoint_of n m) \<Longrightarrow> \<not> is_delim c"
  using show_nat_digits [of n] show_nat_digits [of m] digit_not_delim
  by (auto simp: mpoint_of_def is_delim_def)

lemma strtok_delim: "is_delim x \<Longrightarrow> strtok_words (x # r) = strtok_words r"
  by (subst (1 2) strtok_words.simps) simp

lemma strtok_word:
  assumes "w \<noteq> []" "\<forall>c \<in> set w. \<not> is_delim c" "is_delim x"
  shows "strtok_words (w @ x # r) = w # strtok_words r"
proof -
  obtain c cs where w: "w = c # cs"
    using assms(1) by (cases w) auto
  have "strtok_words (w @ x # r) = w # strtok_words (x # r)"
    using assms w by (subst strtok_words.simps) (simp add: takeWhile_append dropWhile_append)
  then show ?thesis
    using assms(3) by (simp add: strtok_delim)
qed

lemma conf_line_words: "strtok_words (conf_line (n, m, pc)) = [mpoint_of n m, show_nat pc]"
proof -
  have "mpoint_of n m \<noteq> []" "show_nat pc \<noteq> []" "\<forall>c \<in> set (show_nat pc). \<not> is_delim c"
    using show_nat_digits [of pc] digit_not_delim by (auto simp: mpoint_of_def)
  moreover have "strtok_words [] = []"
    by (subst strtok_words.simps) simp
  ultimately show ?thesis
    using strtok_word [of "mpoint_of n m" "CHR '' ''" "show_nat pc @ [CHR 0x0A]"] mpoint_no_delim
      strtok_word [of "show_nat pc" "CHR 0x0A" "[]"]
    by (simp add: conf_line_def is_delim_def)
qed

definition conf_entry :: "nat \<times> nat \<times> nat \<Rightarrow> string \<times> int" where
  "conf_entry e = (case e of (n, m, pc) \<Rightarrow> (mpoint_of n m, int pc))"

definition good_entry :: "nat \<times> nat \<times> nat \<Rightarrow> bool" where
  "good_entry e = (case e of (n, m, pc) \<Rightarrow> (n = 1 \<or> n = 2) \<and> pc \<le> 100)"

lemma mpoint_of_inj: "mpoint_of n m = mpoint_of n' m' \<Longrightarrow> n = n' \<and> m = m'"
  by (metis scan_mpoint_of option.inject prod.inject of_nat_eq_iff)

lemma read_line:
  assumes "good_entry e" "fst (conf_entry e) \<notin> set (map fst (butlast cl))"
  shows "read_lines cl (conf_line e # rest) = read_lines (cl @ [conf_entry e]) rest"
proof -
  obtain n m pc where e: "e = (n, m, pc)"
    by (cases e)
  have "hd (mpoint_of n m) = CHR ''/''"
    by (simp add: mpoint_of_def)
  moreover have "\<not> bad_mpoint (mpoint_of n m)"
    using assms(1) by (auto simp: bad_mpoint_def scan_mpoint_of good_entry_def e)
  moreover have "c_atoi (show_nat pc) = int pc"
    using scan_show_nat [of "[]" pc] by (simp add: c_atoi_def)
  ultimately show ?thesis
    using assms by (simp add: e conf_line_words good_entry_def clist_check_insert_def conf_entry_def)
qed

lemma read_all:
  assumes "\<forall>e \<in> set es. good_entry e" "distinct (map fst cl @ map (fst \<circ> conf_entry) es)"
  shows "read_lines cl (map conf_line es) = Conf_ok (cl @ map conf_entry es)"
  using assms
proof (induction es arbitrary: cl)
  case (Cons e es)
  have "fst (conf_entry e) \<notin> set (map fst (butlast cl))"
    using Cons.prems(2) by (auto dest: in_set_butlastD)
  then have "read_lines cl (map conf_line (e # es)) = read_lines (cl @ [conf_entry e]) (map conf_line es)"
    using Cons.prems(1) by (simp only: list.map) (rule read_line; simp)
  also have "\<dots> = Conf_ok ((cl @ [conf_entry e]) @ map conf_entry es)"
    using Cons.prems by (intro Cons.IH) auto
  finally show ?case by simp
qed simp

section \<open>Properties\<close>

definition daemon_example :: daemon where
  "daemon_example = \<lparr>ienv = (latch_env (\<lambda>_. 0xFF))\<lparr>env_k := (\<lambda>_ _ _. 1)\<rparr>, ihist = [], hs_vaddr = 0x1000,
     hs_d1 = \<lparr>dk_status = 0, dk_busy = 0, dk_idle_cnt = 0\<rparr>, hs_d2 = \<lparr>dk_status = 0, dk_busy = 0, dk_idle_cnt = 0\<rparr>,
     dm_info = [no_info, no_info], dm_time_chk_part = 60, dm_force_chk_part = 0, dm_cnt_chk_part = 0,
     dm_exit = 0, dm_cnt = 0\<rparr>"

text \<open>
  C5. Driver, library and daemon together: as long as the requests are not refused, the scripts the
  daemon starts for a disk alternate between plugged and unplugged, beginning with plugged,
  whatever the hardware shows and however many turns the main loop makes; the daemon's record of
  the disk is the last of them.
\<close>

theorem plug_scripts_alternate:
  assumes "\<forall>h. env_k (ienv s) h ''access_ok'' [] \<noteq> 0" "dm_info s = [no_info, no_info]"
    and "\<forall>m. plug_events m (ihist s) = []" "n = 1 \<or> n = 2" "t = snd (run_state (main_passes df cl k) s)"
  shows "alternates (plug_events n (ihist t)) \<and>
    disk_plugged (info n t) = (if plug_events n (ihist t) \<noteq> [] \<and> hd (plug_events n (ihist t)) then 1 else 0)"
proof -
  have "plug_inv s"
    unfolding plug_inv_def using assms(1-3) by (auto simp: info_def no_info_def is_plugged_def)
  then have "plug_inv t"
    unfolding assms(5) by (rule preservesD [OF plug_passes])
  then have "alternates (plug_events n (ihist t)) \<and>
      disk_plugged (info n t) = (if is_plugged (plug_events n (ihist t)) then 1 else 0)"
    using assms(4) unfolding plug_inv_def by blast
  then show ?thesis
    by (simp add: is_plugged_def)
qed

lemma plug_scripts_alternate_witness:
  "alternates (plug_events 1 (ihist (snd (run_state (main_passes (\<lambda>_ _. None) [] 1) daemon_example))))"
  using plug_scripts_alternate [OF _ _ _ _ refl, of daemon_example 1 "\<lambda>_ _. None" "[]" 1]
  by (simp add: daemon_example_def del: main_passes.simps)

text \<open>
  A configuration file written with one line for each of several distinct partitions of disks
  1 and 2, with limits up to 100 percent, is read back as exactly that list, in order.
\<close>

theorem conf_roundtrip:
  assumes "\<forall>e \<in> set es. good_entry e" "distinct (map (\<lambda>(n, m, pc). (n, m)) es)"
  shows "read_conf (Some (map conf_line es)) = Conf_ok (map (\<lambda>(n, m, pc). (mpoint_of n m, int pc)) es)"
proof -
  have "distinct (map (fst \<circ> conf_entry) es)"
  proof -
    have "map (fst \<circ> conf_entry) es = map (\<lambda>(n, m). mpoint_of n m) (map (\<lambda>(n, m, pc). (n, m)) es)"
      by (simp add: conf_entry_def comp_def case_prod_beta)
    moreover have "inj (\<lambda>(n, m). mpoint_of n m)"
      by (auto intro!: injI dest: mpoint_of_inj)
    ultimately show ?thesis
      using assms(2) by (metis distinct_map inj_on_subset subset_UNIV)
  qed
  then have "read_lines [] (map conf_line es) = Conf_ok (map conf_entry es)"
    using read_all [of es "[]"] assms(1) by simp
  moreover have "conf_entry = (\<lambda>(n, m, pc). (mpoint_of n m, int pc))"
    by (simp add: fun_eq_iff conf_entry_def)
  ultimately show ?thesis
    by (simp add: read_conf_def)
qed

lemma conf_roundtrip_witness:
  "read_conf (Some [conf_line (1, 1, 80), conf_line (2, 1, 90)]) =
    Conf_ok [(''/media/disk1p1'', 80), (''/media/disk2p1'', 90)]"
proof -
  have "mpoint_of 1 1 = ''/media/disk1p1''" "mpoint_of 2 1 = ''/media/disk2p1''"
    by code_simp+
  then show ?thesis
    using conf_roundtrip [of "[(1, 1, 80), (2, 1, 90)]"] by (simp add: good_entry_def)
qed

text \<open>A line that repeats the last one is accepted: the loop never looks at the last element.\<close>

lemma duplicate_of_last: "clist_check_insert (cl @ [(mp, p)]) (mp, q) = Some (cl @ [(mp, p), (mp, q)]) \<longleftrightarrow>
    mp \<notin> set (map fst cl)"
  by (simp add: clist_check_insert_def)

text \<open>The warning of a disk is the state of its last partition in the list: an earlier full one is forgotten.\<close>

lemma last_partition_wins:
  assumes "scan_mpoint (fst c) = Some (n, m)" "n = 1 \<or> n = 2" "length (dm_info s) = 2"
    and "usage_of (fst c) (df (ihist s) (fst c)) = Some p" "length (fst c) \<le> 38"
  shows "led_warn (info n (snd (run_state (check_entry df c) s))) = (if p = -1 \<or> p > snd c then 1 else 0)"
  using assms by (auto simp: check_entry_def Let_def)

end
