(* ===== verification/Dio_Library.thy ===== *)
theory Dio_Library
  imports Dio C_Library
begin

text \<open>
  The digital I/O library of the command line tools, \<open>user/mx_dio_control/mx_dio_control/dio.c\<close>, on
  top of the driver of \<open>Dio\<close>: the requests, the registration of input events, and the thread that
  polls the inputs and calls back.

  The library's state holds the driver's.  \<open>pthread_mutex_lock\<close> makes a round of the thread and an
  update of the table exclude each other, so each is one step.  \<open>gettimeofday\<close> is a kernel call
  that answers in microseconds.  A callback is recorded; what it does is the program's.
  \<open>polls\<close> is the history of the ports the thread sampled.
\<close>

section \<open>Requests\<close>

abbreviation "MAX_DIN_PORT \<equiv> 4 :: int"
abbreviation "MAX_DOUT_PORT \<equiv> 4 :: int"
abbreviation "DIO_OK \<equiv> 0 :: int"
abbreviation "DIO_ERROR_PORT \<equiv> -1 :: int"
abbreviation "DIO_ERROR_MODE \<equiv> -2 :: int"
abbreviation "DIO_ERROR_CONTROL \<equiv> -3 :: int"
abbreviation "DIO_ERROR_DURATION \<equiv> -4 :: int"
abbreviation "DIO_ERROR_DURATION_20MS \<equiv> -5 :: int"

text \<open>
  Opens the device, makes the request on \<open>dio\<close> and closes: \<open>None\<close> on an error, else \<open>dio.data\<close>.  What
  the driver copies back is the last thing it does.
\<close>

fun data_back :: "io_event list \<Rightarrow> int \<Rightarrow> int" where
  "data_back (To_user [p, d] # h) x = d"
| "data_back h x = x"

definition dio_request :: "dio_board \<Rightarrow> dio_cmd \<Rightarrow> dio_set \<Rightarrow> int option dio_m" where
  "dio_request b cmd dio = do {
     fd \<leftarrow> kcall ''open(/dev/dio)'' [];
     if fd < 0 then ret None
     else do {
       r \<leftarrow> io_ioctl b cmd \<lparr>ua_left = 0, ua_in = dio, ua_out = 0\<rparr>;
       h \<leftarrow> gets ihist;
       knote ''close'' [fd];
       ret (if r \<noteq> 0 then None else Some (data_back h (mode_data dio))) } }"

definition set_dout_state :: "dio_board \<Rightarrow> int \<Rightarrow> int \<Rightarrow> int dio_m" where
  "set_dout_state b doport state =
    (if doport < 0 \<or> MAX_DOUT_PORT \<le> doport then ret DIO_ERROR_PORT
     else if state \<noteq> DIO_HIGH \<and> state \<noteq> DIO_LOW then ret DIO_ERROR_MODE
     else do {
       r \<leftarrow> dio_request b IOCTL_SET_DOUT \<lparr>io_number = doport, mode_data = state\<rparr>;
       ret (if r = None then DIO_ERROR_CONTROL else DIO_OK) })"

text \<open>The second component of the result is what is stored at the caller's pointer, if anything.\<close>

definition get_dout_state :: "dio_board \<Rightarrow> int \<Rightarrow> (int \<times> int option) dio_m" where
  "get_dout_state b doport =
    (if doport < 0 \<or> MAX_DOUT_PORT \<le> doport then ret (DIO_ERROR_PORT, None)
     else do {
       x \<leftarrow> uninitialised ''dio.data'';
       r \<leftarrow> dio_request b IOCTL_GET_DOUT \<lparr>io_number = doport, mode_data = x\<rparr>;
       ret (if r = None then DIO_ERROR_CONTROL else DIO_OK, r) })"

definition get_din_state :: "dio_board \<Rightarrow> int \<Rightarrow> (int \<times> int option) dio_m" where
  "get_din_state b diport =
    (if diport < 0 \<or> MAX_DIN_PORT \<le> diport then ret (DIO_ERROR_PORT, None)
     else do {
       x \<leftarrow> uninitialised ''dio.data'';
       r \<leftarrow> dio_request b IOCTL_GET_DIN \<lparr>io_number = diport, mode_data = x\<rparr>;
       ret (if r = None then DIO_ERROR_CONTROL else DIO_OK, r) })"

section \<open>Input events\<close>

abbreviation "DIN_EVENT_STATE_CHANGE \<equiv> 2 :: int"
abbreviation "DIN_EVENT_HIGH_TO_LOW \<equiv> 1 :: int"
abbreviation "DIN_EVENT_LOW_TO_HIGH \<equiv> 0 :: int"
abbreviation "DIN_EVENT_CLEAR \<equiv> -1 :: int"
abbreviation "MIN_DURATION \<equiv> 40 :: 64 word"
abbreviation "MAX_DURATION \<equiv> 3600000 :: 64 word"
abbreviation "DIN_INACCURACY \<equiv> 24000 :: 64 word"

text \<open>A function is a number; the duration is in microseconds.\<close>

record din_event =
  ev_func :: "nat option"
  ev_mode :: int
  ev_oldstate :: int
  ev_duration :: "64 word"

record timeval =
  tv_sec :: int
  tv_usec :: int

text \<open>The variables of the thread for one port.\<close>

record din_check =
  din_starttime :: timeval
  din_duration :: "64 word"
  bStartDurationCheck :: int

record din_poll_event =
  p_port :: nat
  p_state :: int
  p_clock :: "int option"
  p_call :: "nat option"

record dio_app =
  drv :: dio
  pthread_fork_flag :: int
  din_events :: "din_event list"
  din_checks :: "din_check list"
  polls :: "din_poll_event list"

type_synonym 'a app_m = "(dio_app, 'a) state"

definition on_driver :: "'a dio_m \<Rightarrow> 'a app_m" where
  "on_driver m = do {
     s \<leftarrow> gets drv;
     modify (drv_update (\<lambda>_. snd (run_state m s)));
     ret (fst (run_state m s)) }"

definition upd_event :: "nat \<Rightarrow> (din_event \<Rightarrow> din_event) \<Rightarrow> unit app_m" where
  "upd_event i f = modify (\<lambda>s. s\<lparr>din_events := (din_events s)[i := f (din_events s ! i)]\<rparr>)"

definition upd_check :: "nat \<Rightarrow> (din_check \<Rightarrow> din_check) \<Rightarrow> unit app_m" where
  "upd_check i f = modify (\<lambda>s. s\<lparr>din_checks := (din_checks s)[i := f (din_checks s ! i)]\<rparr>)"

definition to_timeval :: "int \<Rightarrow> timeval" where
  "to_timeval t = \<lparr>tv_sec = t div 1000000, tv_usec = t mod 1000000\<rparr>"

text \<open>The difference as the thread computes it, in unsigned longs.\<close>

definition elapsed :: "timeval \<Rightarrow> timeval \<Rightarrow> 64 word" where
  "elapsed tv start = 1000000 * word_of_int (tv_sec tv - tv_sec start) + word_of_int (tv_usec tv - tv_usec start)"

definition no_check :: din_check where
  "no_check = \<lparr>din_starttime = \<lparr>tv_sec = 0, tv_usec = 0\<rparr>, din_duration = 0, bStartDurationCheck = 0\<rparr>"

subsection \<open>Registration\<close>

definition register_event :: "dio_board \<Rightarrow> nat \<Rightarrow> nat \<Rightarrow> int \<Rightarrow> 64 word \<Rightarrow> unit app_m" where
  "register_event b i func mode duration = do {
     upd_event i (\<lambda>e. e\<lparr>ev_func := Some func, ev_mode := mode, ev_duration := duration * 1000\<rparr>);
     (_, st) \<leftarrow> on_driver (get_din_state b (int i));
     upd_event i (\<lambda>e. case st of Some v \<Rightarrow> e\<lparr>ev_oldstate := v\<rparr> | None \<Rightarrow> e) }"

definition set_din_event :: "dio_board \<Rightarrow> int \<Rightarrow> nat option \<Rightarrow> int \<Rightarrow> 64 word \<Rightarrow> int app_m" where
  "set_din_event b diport func mode duration =
    (if diport < 0 \<or> MAX_DIN_PORT \<le> diport then ret DIO_ERROR_PORT
     else do {
       forked \<leftarrow> gets pthread_fork_flag;
       if func = None \<or> mode = DIN_EVENT_CLEAR then
         (if forked = 0 then ret DIO_OK
          else do {
            upd_event (nat diport) (\<lambda>e. e\<lparr>ev_func := None, ev_mode := DIN_EVENT_CLEAR, ev_duration := 0\<rparr>);
            ret DIO_OK })
       else if mode \<noteq> DIN_EVENT_HIGH_TO_LOW \<and> mode \<noteq> DIN_EVENT_LOW_TO_HIGH \<and> mode \<noteq> DIN_EVENT_STATE_CHANGE
       then ret DIO_ERROR_MODE
       else if duration \<noteq> 0 \<and> (duration < MIN_DURATION \<or> MAX_DURATION < duration) then ret DIO_ERROR_DURATION
       else if duration \<noteq> 0 \<and> duration mod 20 \<noteq> 0 then ret DIO_ERROR_DURATION_20MS
       else if forked = 0 then do {
         register_event b (nat diport) (the func) mode duration;
         modify (pthread_fork_flag_update (\<lambda>_. 1));
         on_driver (knote ''pthread_create'' []);
         modify (din_checks_update (\<lambda>_. replicate 4 no_check));
         ret DIO_OK }
       else do {
         register_event b (nat diport) (the func) mode duration;
         ret DIO_OK } })"

definition get_din_event :: "int \<Rightarrow> (int \<times> (int \<times> 64 word) option) app_m" where
  "get_din_event diport =
    (if diport < 0 \<or> MAX_DIN_PORT \<le> diport then ret (DIO_ERROR_PORT, None)
     else do {
       e \<leftarrow> gets (\<lambda>s. din_events s ! nat diport);
       ret (DIO_OK, Some (ev_mode e, ev_duration e div 1000)) })"

subsection \<open>The thread\<close>

definition reported :: "int \<Rightarrow> int \<Rightarrow> bool" where
  "reported mode state \<longleftrightarrow> mode = DIN_EVENT_HIGH_TO_LOW \<and> state = DIO_LOW \<or>
     mode = DIN_EVENT_LOW_TO_HIGH \<and> state = DIO_HIGH \<or> mode = DIN_EVENT_STATE_CHANGE"

definition not_reported :: "int \<Rightarrow> int \<Rightarrow> bool" where
  "not_reported mode state \<longleftrightarrow> mode = DIN_EVENT_HIGH_TO_LOW \<and> state = DIO_HIGH \<or>
     mode = DIN_EVENT_LOW_TO_HIGH \<and> state = DIO_LOW \<or> mode = DIN_EVENT_STATE_CHANGE"

definition gettimeofday :: "int app_m" where
  "gettimeofday = on_driver (kcall ''gettimeofday'' [])"

text \<open>A new sample of a port without and with a duration; the result is the clock read and the call made.\<close>

definition poll_edge :: "nat \<Rightarrow> nat \<Rightarrow> din_event \<Rightarrow> int \<Rightarrow> (int option \<times> nat option) app_m" where
  "poll_edge i func e state =
    (if state \<noteq> ev_oldstate e then do {
       upd_event i (ev_oldstate_update (\<lambda>_. state));
       ret (None, if reported (ev_mode e) state then Some func else None) }
     else ret (None, None))"

definition poll_duration :: "nat \<Rightarrow> nat \<Rightarrow> din_event \<Rightarrow> int \<Rightarrow> (int option \<times> nat option) app_m" where
  "poll_duration i func e state = do {
     check \<leftarrow> gets (\<lambda>s. din_checks s ! i);
     if state \<noteq> ev_oldstate e then do {
       clock \<leftarrow> (if reported (ev_mode e) state then do {
           t \<leftarrow> gettimeofday;
           upd_check i (\<lambda>c. c\<lparr>bStartDurationCheck := 1, din_starttime := to_timeval t\<rparr>);
           ret (Some t) }
         else do {
           whenM (not_reported (ev_mode e) state) (upd_check i (bStartDurationCheck_update (\<lambda>_. 0)));
           ret None });
       upd_event i (ev_oldstate_update (\<lambda>_. state));
       ret (clock, None) }
     else if bStartDurationCheck check = 1 then do {
       t \<leftarrow> gettimeofday;
       let d = elapsed (to_timeval t) (din_starttime check);
       upd_check i (din_duration_update (\<lambda>_. d));
       (if ev_duration e \<le> d + DIN_INACCURACY then do {
          upd_check i (bStartDurationCheck_update (\<lambda>_. 0));
          ret (Some t, Some func) }
        else ret (Some t, None)) }
     else ret (None, None) }"

definition poll_port :: "dio_board \<Rightarrow> nat \<Rightarrow> unit app_m" where
  "poll_port b i = do {
     e \<leftarrow> gets (\<lambda>s. din_events s ! i);
     (case ev_func e of None \<Rightarrow> ret () | Some func \<Rightarrow>
        if ev_mode e = DIN_EVENT_CLEAR then ret ()
        else do {
          (_, st) \<leftarrow> on_driver (get_din_state b (int i));
          (case st of None \<Rightarrow> ret () | Some state \<Rightarrow> do {
             (clock, call) \<leftarrow> (if ev_duration e = 0 then poll_edge i func e state
               else poll_duration i func e state);
             modify (polls_update (\<lambda>ps. ps @
               [\<lparr>p_port = i, p_state = state, p_clock = clock, p_call = call\<rparr>])) }) }) }"

fun poll_ports :: "dio_board \<Rightarrow> nat list \<Rightarrow> unit app_m" where
  "poll_ports b [] = ret ()"
| "poll_ports b (i # is) = do { poll_port b i; poll_ports b is }"

text \<open>One turn of the loop of \<open>din_poll\<close>, which never ends.\<close>

definition din_poll :: "dio_board \<Rightarrow> unit app_m" where
  "din_poll b = do { poll_ports b [0..<4]; on_driver (knote ''usleep'' [100]) }"

subsection \<open>Steps of a program and its thread\<close>

datatype app_cmd = Poll | Set_event int "nat option" int "64 word" | Set_dout int int | Get_dout int | Get_din int

fun app_call :: "dio_board \<Rightarrow> app_cmd \<Rightarrow> (dio_app, int list) state" where
  "app_call b Poll = do {
     forked \<leftarrow> gets pthread_fork_flag;
     whenM (forked \<noteq> 0) (din_poll b);
     ret [] }"
| "app_call b (Set_event i f m d) = do { r \<leftarrow> set_din_event b i f m d; ret [r] }"
| "app_call b (Set_dout i v) = do { r \<leftarrow> on_driver (set_dout_state b i v); ret [r] }"
| "app_call b (Get_dout i) = do { (r, _) \<leftarrow> on_driver (get_dout_state b i); ret [r] }"
| "app_call b (Get_din i) = do { (r, _) \<leftarrow> on_driver (get_din_state b i); ret [r] }"

definition no_event :: din_event where
  "no_event = \<lparr>ev_func = None, ev_mode = DIN_EVENT_CLEAR, ev_oldstate = DIO_HIGH, ev_duration = 0\<rparr>"

definition app_start :: "dio \<Rightarrow> dio_app" where
  "app_start d = \<lparr>drv = d, pthread_fork_flag = 0, din_events = replicate 4 no_event,
     din_checks = replicate 4 no_check, polls = []\<rparr>"

lemma give_set_run: "run_state (give_set \<lparr>ua_left = l, ua_in = x, ua_out = 0\<rparr> req) s =
    (0, s\<lparr>ihist := To_user [io_number req, mode_data req] # ihist s\<rparr>)"
  by (simp add: give_set_def)

end
