(* ===== verification/Dio_Events.thy ===== *)
theory Dio_Events
  imports Dio_Library
begin

text \<open>
  What the polling thread of \<open>Dio_Library\<close> does for one port.  \<open>port_step\<close> is the step relation of a
  port: its event, the thread's variables for it, and the samples taken of it; whatever a program
  and its thread do without registering another event on the port is a sequence of such steps.
  The properties say exactly which samples are reported.
\<close>

section \<open>Runs\<close>

lemma run_on_driver [simp]: "run_state (on_driver m) s =
    (fst (run_state m (drv s)), s\<lparr>drv := snd (run_state m (drv s))\<rparr>)"
  by (simp add: on_driver_def)

lemma run_upd_event [simp]: "run_state (upd_event i f) s =
    ((), s\<lparr>din_events := (din_events s)[i := f (din_events s ! i)]\<rparr>)"
  by (simp add: upd_event_def)

lemma run_upd_check [simp]: "run_state (upd_check i f) s =
    ((), s\<lparr>din_checks := (din_checks s)[i := f (din_checks s ! i)]\<rparr>)"
  by (simp add: upd_check_def)

lemma run_gettimeofday [simp]: "run_state gettimeofday s =
    (fst (run_state (kcall ''gettimeofday'' []) (drv s)), s\<lparr>drv := snd (run_state (kcall ''gettimeofday'' []) (drv s))\<rparr>)"
  by (simp add: gettimeofday_def)

text \<open>A sample is a level.\<close>

lemma get_din_level:
  assumes "snd (fst (run_state (get_din_state b j) s)) = Some v"
  shows "v = 0 \<or> v = 1"
proof -
  have "0 \<le> j"
    using assms by (auto simp: get_din_state_def split: if_splits)
  then show ?thesis
    using assms
    by (auto simp: get_din_state_def dio_request_def uninitialised_def io_ioctl_def Let_def case_prod_beta
      give_set_run split: if_splits)
qed

section \<open>Steps of a port\<close>

type_synonym port_view = "din_event \<times> din_check \<times> din_poll_event list"

definition port_polls :: "nat \<Rightarrow> dio_app \<Rightarrow> din_poll_event list" where
  "port_polls i s = filter (\<lambda>p. p_port p = i) (polls s)"

definition view :: "nat \<Rightarrow> dio_app \<Rightarrow> port_view" where
  "view i s = (din_events s ! i, din_checks s ! i, port_polls i s)"

definition polling :: "dio_app \<Rightarrow> bool" where
  "polling s \<longleftrightarrow> pthread_fork_flag s \<noteq> 0 \<and> length (din_events s) = 4 \<and> length (din_checks s) = 4"

abbreviation sample :: "nat \<Rightarrow> int \<Rightarrow> int option \<Rightarrow> nat option \<Rightarrow> din_poll_event" where
  "sample i st clock call \<equiv> \<lparr>p_port = i, p_state = st, p_clock = clock, p_call = call\<rparr>"

inductive port_step :: "nat \<Rightarrow> port_view \<Rightarrow> port_view \<Rightarrow> bool" for i where
  at_once: "ev_func e = Some f \<Longrightarrow> ev_duration e = 0 \<Longrightarrow> st = 0 \<or> st = 1 \<Longrightarrow>
    port_step i (e, c, ps) (e\<lparr>ev_oldstate := st\<rparr>, c, ps @ [sample i st None
      (if st \<noteq> ev_oldstate e \<and> reported (ev_mode e) st then Some f else None)])"
| start: "ev_func e = Some f \<Longrightarrow> ev_duration e \<noteq> 0 \<Longrightarrow> st = 0 \<or> st = 1 \<Longrightarrow> st \<noteq> ev_oldstate e \<Longrightarrow>
    reported (ev_mode e) st \<Longrightarrow> port_step i (e, c, ps) (e\<lparr>ev_oldstate := st\<rparr>,
      c\<lparr>bStartDurationCheck := 1, din_starttime := to_timeval t\<rparr>, ps @ [sample i st (Some t) None])"
| stop: "ev_func e = Some f \<Longrightarrow> ev_duration e \<noteq> 0 \<Longrightarrow> st = 0 \<or> st = 1 \<Longrightarrow> st \<noteq> ev_oldstate e \<Longrightarrow>
    \<not> reported (ev_mode e) st \<Longrightarrow> port_step i (e, c, ps) (e\<lparr>ev_oldstate := st\<rparr>,
      if not_reported (ev_mode e) st then c\<lparr>bStartDurationCheck := 0\<rparr> else c, ps @ [sample i st None None])"
| wait: "ev_func e = Some f \<Longrightarrow> ev_duration e \<noteq> 0 \<Longrightarrow> bStartDurationCheck c = 1 \<Longrightarrow>
    d = elapsed (to_timeval t) (din_starttime c) \<Longrightarrow> \<not> ev_duration e \<le> d + DIN_INACCURACY \<Longrightarrow>
    port_step i (e, c, ps) (e, c\<lparr>din_duration := d\<rparr>, ps @ [sample i (ev_oldstate e) (Some t) None])"
| fire: "ev_func e = Some f \<Longrightarrow> ev_duration e \<noteq> 0 \<Longrightarrow> bStartDurationCheck c = 1 \<Longrightarrow>
    d = elapsed (to_timeval t) (din_starttime c) \<Longrightarrow> ev_duration e \<le> d + DIN_INACCURACY \<Longrightarrow>
    port_step i (e, c, ps) (e, c\<lparr>din_duration := d, bStartDurationCheck := 0\<rparr>,
      ps @ [sample i (ev_oldstate e) (Some t) (Some f)])"
| idle: "ev_func e = Some f \<Longrightarrow> ev_duration e \<noteq> 0 \<Longrightarrow> bStartDurationCheck c \<noteq> 1 \<Longrightarrow>
    port_step i (e, c, ps) (e, c, ps @ [sample i (ev_oldstate e) None None])"

abbreviation port_steps :: "nat \<Rightarrow> port_view \<Rightarrow> port_view \<Rightarrow> bool" where
  "port_steps i \<equiv> (port_step i)\<^sup>*\<^sup>*"

lemma poll_other_port:
  "j \<noteq> i \<Longrightarrow> view i (snd (run_state (poll_port b j) s)) = view i s"
  by (auto simp: poll_port_def poll_edge_def poll_duration_def view_def port_polls_def Let_def case_prod_beta
    split: option.splits)

lemma poll_polling: "polling s \<Longrightarrow> polling (snd (run_state (poll_port b j) s))"
  by (auto simp: poll_port_def poll_edge_def poll_duration_def polling_def Let_def case_prod_beta
    split: option.splits)

lemma poll_own_port:
  assumes "polling s" "i < 4"
  shows "port_steps i (view i s) (view i (snd (run_state (poll_port b i) s)))"
proof -
  let ?e = "din_events s ! i" and ?c = "din_checks s ! i" and ?t = "snd (run_state (poll_port b i) s)"
  let ?st = "snd (fst (run_state (get_din_state b (int i)) (drv s)))"
  have len: "i < length (din_events s)" "i < length (din_checks s)"
    using assms by (auto simp: polling_def)
  show ?thesis
  proof (cases "ev_func ?e = None \<or> ev_mode ?e = DIN_EVENT_CLEAR \<or> ?st = None")
    case True
    then have "view i ?t = view i s"
      by (auto simp: poll_port_def view_def port_polls_def case_prod_beta split: option.splits)
    then show ?thesis by simp
  next
    case False
    then obtain f st where f: "ev_func ?e = Some f" and m: "ev_mode ?e \<noteq> DIN_EVENT_CLEAR" and st: "?st = Some st"
      by auto
    have lvl: "st = 0 \<or> st = 1"
      using get_din_level [OF st] .
    define r where "r = snd (run_state (get_din_state b (int i)) (drv s))"
    define t where "t = env_k (ienv r) (ihist r) ''gettimeofday'' []"
    note run = poll_port_def view_def port_polls_def case_prod_beta f m st len r_def [symmetric] t_def [symmetric]
    have "port_step i (view i s) (view i ?t)"
    proof (cases "ev_duration ?e = 0")
      case True
      then have "view i ?t = (?e\<lparr>ev_oldstate := st\<rparr>, ?c, port_polls i s @ [sample i st None
          (if st \<noteq> ev_oldstate ?e \<and> reported (ev_mode ?e) st then Some f else None)])"
        by (simp add: run poll_edge_def)
      then show ?thesis
        using port_step.at_once [OF f True lvl] by (simp add: view_def)
    next
      case dur: False
      consider (start) "st \<noteq> ev_oldstate ?e" "reported (ev_mode ?e) st"
        | (stop) "st \<noteq> ev_oldstate ?e" "\<not> reported (ev_mode ?e) st"
        | (count) "st = ev_oldstate ?e" "bStartDurationCheck ?c = 1"
        | (idle) "st = ev_oldstate ?e" "bStartDurationCheck ?c \<noteq> 1"
        by blast
      then show ?thesis
      proof cases
        case start
        then have "view i ?t = (?e\<lparr>ev_oldstate := st\<rparr>,
            ?c\<lparr>bStartDurationCheck := 1, din_starttime := to_timeval t\<rparr>, port_polls i s @ [sample i st (Some t) None])"
          using dur by (simp add: run poll_duration_def)
        then show ?thesis
          using port_step.start [OF f dur lvl start] by (simp add: view_def)
      next
        case stop
        then have "view i ?t = (?e\<lparr>ev_oldstate := st\<rparr>,
            if not_reported (ev_mode ?e) st then ?c\<lparr>bStartDurationCheck := 0\<rparr> else ?c,
            port_polls i s @ [sample i st None None])"
          using dur by (simp add: run poll_duration_def)
        then show ?thesis
          using port_step.stop [OF f dur lvl stop] by (simp add: view_def)
      next
        case count
        let ?d = "elapsed (to_timeval t) (din_starttime ?c)"
        have "view i ?t = (if ev_duration ?e \<le> ?d + DIN_INACCURACY
            then (?e, ?c\<lparr>din_duration := ?d, bStartDurationCheck := 0\<rparr>, port_polls i s @ [sample i st (Some t) (Some f)])
            else (?e, ?c\<lparr>din_duration := ?d\<rparr>, port_polls i s @ [sample i st (Some t) None]))"
          using dur count by (simp add: run poll_duration_def Let_def)
        then show ?thesis
          using port_step.fire [OF f dur count(2) refl, of t i] port_step.wait [OF f dur count(2) refl, of t i] count(1)
          by (simp add: view_def)
      next
        case idle
        then have "view i ?t = (?e, ?c, port_polls i s @ [sample i st None None])"
          using dur by (simp add: run poll_duration_def)
        then show ?thesis
          using port_step.idle [OF f dur idle(2)] idle(1) by (simp add: view_def)
      qed
    qed
    then show ?thesis by simp
  qed
qed

lemma poll_ports_steps:
  assumes "polling s" "i < 4"
  shows "polling (snd (run_state (poll_ports b js) s)) \<and>
    port_steps i (view i s) (view i (snd (run_state (poll_ports b js) s)))"
  using assms(1)
proof (induction js arbitrary: s)
  case (Cons j js)
  let ?t = "snd (run_state (poll_port b j) s)"
  have "port_steps i (view i s) (view i ?t)"
    using poll_own_port [OF Cons.prems assms(2), of b] poll_other_port [of j i b s] by (cases "j = i") simp_all
  then show ?case
    using Cons.IH [OF poll_polling [OF Cons.prems, of b j]] by (auto simp: case_prod_beta intro: rtranclp_trans)
qed simp

text \<open>Calls that leave the event of port \<open>i\<close> alone.\<close>

fun keeps_event :: "nat \<Rightarrow> app_cmd \<Rightarrow> bool" where
  "keeps_event i (Set_event j f m d) = (j \<noteq> int i)"
| "keeps_event i _ = True"

lemma set_other_event:
  assumes "polling s" "j \<noteq> int i"
  shows "polling (snd (run_state (set_din_event b j f m d) s)) \<and>
    view i (snd (run_state (set_din_event b j f m d) s)) = view i s"
  using assms
  by (auto simp: set_din_event_def register_event_def polling_def view_def port_polls_def case_prod_beta nth_list_update_neq)

lemma app_call_steps:
  assumes "polling s" "i < 4" "keeps_event i c"
  shows "polling (snd (run_state (app_call b c) s)) \<and>
    port_steps i (view i s) (view i (snd (run_state (app_call b c) s)))"
proof (cases c)
  case Poll
  have *: "polling (s\<lparr>drv := d\<rparr>) = polling s" "view i (s\<lparr>drv := d\<rparr>) = view i s" for s d
    by (simp_all add: polling_def view_def port_polls_def)
  show ?thesis
    using Poll assms(1) poll_ports_steps [OF assms(1,2), of b "[0..<4]"] by (simp add: din_poll_def case_prod_beta * del: upt_rec_numeral poll_ports.simps)
next
  case Set_event
  then show ?thesis
    using set_other_event [OF assms(1)] assms(3) by (simp add: case_prod_beta)
qed (use assms(1) in \<open>simp_all add: polling_def view_def port_polls_def case_prod_beta\<close>)

lemma app_steps:
  assumes "polling s" "i < 4" "\<forall>c \<in> set cs. keeps_event i c"
  shows "port_steps i (view i s) (view i (snd (run_state (run_calls (app_call b) cs) s)))"
  using assms(1,3)
proof (induction cs arbitrary: s)
  case (Cons c cs)
  then have "polling (snd (run_state (app_call b c) s))"
    "port_steps i (view i s) (view i (snd (run_state (app_call b c) s)))"
    using app_call_steps [OF Cons.prems(1) assms(2), of c b] by auto
  with Cons show ?case
    by (auto simp: case_prod_beta intro: rtranclp_trans)
qed simp

section \<open>What is reported\<close>

definition last_state :: "int \<Rightarrow> din_poll_event list \<Rightarrow> int" where
  "last_state old ps = (if ps = [] then old else p_state (last ps))"

lemma last_state_simps [simp]: "last_state old [] = old" "last_state old (ps @ [p]) = p_state p"
  by (simp_all add: last_state_def)

text \<open>
  Level \<open>v\<close> was taken by a sample that reads the clock at \<open>t0\<close>, after another level, it is one the
  event reports, and every sample since showed it without a call.
\<close>

definition held :: "int \<Rightarrow> int \<Rightarrow> din_poll_event list \<Rightarrow> int \<Rightarrow> int \<Rightarrow> bool" where
  "held mode old ps v t0 \<longleftrightarrow> (\<exists>pre e mid. ps = pre @ e # mid \<and> p_state e = v \<and> last_state old pre \<noteq> v \<and>
     reported mode v \<and> p_clock e = Some t0 \<and> (\<forall>m \<in> set mid. p_state m = v \<and> p_call m = None))"

lemma held_Nil [simp]: "\<not> held mode old [] v t0"
  by (simp add: held_def)

lemma held_snoc: "held mode old (ps @ [p]) v t0 \<longleftrightarrow> p_state p = v \<and>
    (last_state old ps \<noteq> v \<and> reported mode v \<and> p_clock p = Some t0 \<or> p_call p = None \<and> held mode old ps v t0)"
  (is "?l = ?r")
proof
  assume ?l
  then obtain pre e mid where d: "ps @ [p] = pre @ e # mid" "p_state e = v" "last_state old pre \<noteq> v"
    "reported mode v" "p_clock e = Some t0" "\<forall>m \<in> set mid. p_state m = v \<and> p_call m = None"
    unfolding held_def by blast
  show ?r
  proof (cases mid rule: rev_cases)
    case Nil
    then show ?thesis using d by auto
  next
    case (snoc mid' q)
    then have "ps = pre @ e # mid'" "q = p"
      using d(1) by auto
    then show ?thesis
      using d snoc unfolding held_def by auto
  qed
next
  assume r: ?r
  then show ?l
  proof (elim conjE disjE)
    assume "last_state old ps \<noteq> v" "reported mode v" "p_clock p = Some t0" "p_state p = v"
    then show ?l
      unfolding held_def by (intro exI [of _ ps] exI [of _ p] exI [of _ "[]"]) simp
  next
    assume p: "p_state p = v" "p_call p = None" and "held mode old ps v t0"
    then obtain pre e mid where d: "ps = pre @ e # mid" "p_state e = v" "last_state old pre \<noteq> v"
      "reported mode v" "p_clock e = Some t0" "\<forall>m \<in> set mid. p_state m = v \<and> p_call m = None"
      unfolding held_def by blast
    then show ?l
      unfolding held_def using p by (intro exI [of _ pre] exI [of _ e] exI [of _ "mid @ [p]"]) auto
  qed
qed

lemma held_last: "held mode old ps v t0 \<Longrightarrow> last_state old ps = v"
  by (cases ps rule: rev_cases) (auto simp: held_snoc)

lemma held_unique: "held mode old ps v t0 \<Longrightarrow> held mode old ps v t1 \<Longrightarrow> t0 = t1"
  by (induction ps rule: rev_induct) (auto simp: held_snoc dest: held_last)

text \<open>The call each sample has to make.\<close>

definition due :: "int \<Rightarrow> 64 word \<Rightarrow> int \<Rightarrow> din_poll_event list \<Rightarrow> din_poll_event \<Rightarrow> bool" where
  "due mode duration old pre p \<longleftrightarrow> (if duration = 0 then p_state p \<noteq> last_state old pre \<and> reported mode (p_state p)
     else \<exists>t0 t1. held mode old pre (p_state p) t0 \<and> p_clock p = Some t1 \<and>
       duration \<le> word_of_int (t1 - t0) + DIN_INACCURACY)"

lemma elapsed_exact: "elapsed (to_timeval t) (to_timeval t0) = word_of_int (t - t0)"
proof -
  have "1000000 * (q - q0) + (r - r0) = (q * 1000000 + r) - (q0 * 1000000 + r0)" for q q0 r r0 :: int
    by (simp add: algebra_simps)
  from this [of "t div 1000000" "t0 div 1000000" "t mod 1000000" "t0 mod 1000000"]
  have "1000000 * (t div 1000000 - t0 div 1000000) + (t mod 1000000 - t0 mod 1000000) = t - t0"
    by simp
  then have "word_of_int (1000000 * (t div 1000000 - t0 div 1000000) + (t mod 1000000 - t0 mod 1000000))
      = (word_of_int (t - t0) :: 64 word)"
    by (rule arg_cong)
  then show ?thesis
    by (simp add: elapsed_def to_timeval_def)
qed

definition exact_calls :: "int \<Rightarrow> 64 word \<Rightarrow> int \<Rightarrow> nat \<Rightarrow> din_poll_event list \<Rightarrow> bool" where
  "exact_calls mode duration old f ps \<longleftrightarrow> (\<forall>pre p post. ps = pre @ p # post \<longrightarrow>
     p_call p = (if due mode duration old pre p then Some f else None))"

lemma exact_calls_Nil [simp]: "exact_calls mode d old f []"
  by (simp add: exact_calls_def)

lemma exact_calls_snoc: "exact_calls mode d old f (ps @ [p]) \<longleftrightarrow> exact_calls mode d old f ps \<and>
    p_call p = (if due mode d old ps p then Some f else None)"
proof -
  have "ps @ [p] = pre @ q # post \<longleftrightarrow> (\<exists>post'. post = post' @ [p] \<and> ps = pre @ q # post') \<or>
      post = [] \<and> pre = ps \<and> q = p" for pre q post
    by (cases post rule: rev_cases) auto
  then show ?thesis
    unfolding exact_calls_def by auto
qed

definition armed :: "int \<Rightarrow> int \<Rightarrow> din_poll_event list \<Rightarrow> din_check \<Rightarrow> bool" where
  "armed mode old ps c \<longleftrightarrow> (if bStartDurationCheck c = 1
     then \<exists>t0. held mode old ps (last_state old ps) t0 \<and> din_starttime c = to_timeval t0
     else \<forall>v t0. \<not> held mode old ps v t0)"

definition tracked :: "nat \<Rightarrow> din_event \<Rightarrow> nat \<Rightarrow> din_poll_event list \<Rightarrow> port_view \<Rightarrow> bool" where
  "tracked i e f ps0 v = (case v of (e', c', ps') \<Rightarrow> \<exists>ps. ps' = ps0 @ ps \<and>
     e' = e\<lparr>ev_oldstate := last_state (ev_oldstate e) ps\<rparr> \<and>
     (ev_duration e \<noteq> 0 \<longrightarrow> armed (ev_mode e) (ev_oldstate e) ps c') \<and>
     exact_calls (ev_mode e) (ev_duration e) (ev_oldstate e) f ps)"

lemma tracked_step:
  assumes "tracked i e f ps0 v" "port_step i v w" "ev_func e = Some f" "ev_mode e \<in> {0, 1, 2}"
  shows "tracked i e f ps0 w"
proof -
  obtain e' c' ps where v: "v = (e', c', ps0 @ ps)" and e': "e' = e\<lparr>ev_oldstate := last_state (ev_oldstate e) ps\<rparr>"
    and arm: "ev_duration e \<noteq> 0 \<Longrightarrow> armed (ev_mode e) (ev_oldstate e) ps c'"
    and ex: "exact_calls (ev_mode e) (ev_duration e) (ev_oldstate e) f ps"
    using assms(1) unfolding tracked_def by (cases v) auto
  have next_tracked: "tracked i e f ps0 (e\<lparr>ev_oldstate := p_state p\<rparr>, c'', ps0 @ ps @ [p])"
    if "ev_duration e \<noteq> 0 \<Longrightarrow> armed (ev_mode e) (ev_oldstate e) (ps @ [p]) c''"
      "p_call p = (if due (ev_mode e) (ev_duration e) (ev_oldstate e) ps p then Some f else None)" for p c''
    unfolding tracked_def using that ex by (auto simp: exact_calls_snoc intro!: exI [of _ "ps @ [p]"])
  show ?thesis
    using assms(2) unfolding v
  proof cases
    case (at_once f' st)
    then show ?thesis
      using next_tracked [of "sample i st None (if st \<noteq> ev_oldstate e' \<and> reported (ev_mode e') st then Some f' else None)" c']
        assms(3)
      by (auto simp: e' due_def)
  next
    case (start f' st t)
    have "\<not> held (ev_mode e) (ev_oldstate e) ps st t0" for t0
      using start(5) held_last by (auto simp: e')
    then show ?thesis
      using start next_tracked [of "sample i st (Some t) None" "c'\<lparr>bStartDurationCheck := 1, din_starttime := to_timeval t\<rparr>"]
      by (auto simp: e' armed_def held_snoc due_def)
  next
    case (stop f' st)
    have n: "\<not> held (ev_mode e) (ev_oldstate e) ps st t0" for t0
      using stop(5) held_last by (auto simp: e')
    have "not_reported (ev_mode e) st"
      using stop(4,6) assms(4) by (auto simp: e' reported_def not_reported_def)
    then show ?thesis
      using stop n next_tracked [of "sample i st None None" "c'\<lparr>bStartDurationCheck := 0\<rparr>"]
      by (auto simp: e' armed_def held_snoc due_def)
  next
    case (wait f' d t)
    obtain t0 where t0: "held (ev_mode e) (ev_oldstate e) ps (last_state (ev_oldstate e) ps) t0"
        "din_starttime c' = to_timeval t0"
      using wait arm by (auto simp: e' armed_def)
    then have "held (ev_mode e) (ev_oldstate e) ps (last_state (ev_oldstate e) ps) u \<longleftrightarrow> u = t0" for u
      using held_unique by blast
    then show ?thesis
      using wait t0 next_tracked [of "sample i (ev_oldstate e') (Some t) None" "c'\<lparr>din_duration := d\<rparr>"]
      by (auto simp: e' armed_def held_snoc due_def elapsed_exact)
  next
    case (fire f' d t)
    obtain t0 where t0: "held (ev_mode e) (ev_oldstate e) ps (last_state (ev_oldstate e) ps) t0"
        "din_starttime c' = to_timeval t0"
      using fire arm by (auto simp: e' armed_def)
    then have "held (ev_mode e) (ev_oldstate e) ps (last_state (ev_oldstate e) ps) u \<longleftrightarrow> u = t0" for u
      using held_unique by blast
    then show ?thesis
      using fire t0 assms(3) next_tracked [of "sample i (ev_oldstate e') (Some t) (Some f')" "c'\<lparr>din_duration := d, bStartDurationCheck := 0\<rparr>"]
      by (auto simp: e' armed_def held_snoc due_def elapsed_exact dest: held_last)
  next
    case (idle f')
    then show ?thesis
      using arm next_tracked [of "sample i (ev_oldstate e') None None" c']
      by (auto simp: e' armed_def held_snoc due_def)
  qed
qed

lemma tracked_steps:
  assumes "port_steps i (e, c, ps0) w" "ev_func e = Some f" "ev_mode e \<in> {0, 1, 2}"
    and "ev_duration e \<noteq> 0 \<Longrightarrow> bStartDurationCheck c \<noteq> 1"
  shows "tracked i e f ps0 w"
  using assms(1)
proof (induction rule: rtranclp_induct)
  case base
  then show ?case
    using assms(4) by (auto simp: tracked_def armed_def)
next
  case (step v w)
  then show ?case
    using tracked_step assms(2,3) by blast
qed

section \<open>Properties\<close>

text \<open>
  C19. Whatever a program and the polling thread do without registering another event on the port:
  a sample is reported to the callback exactly when, without a duration, it shows another level
  than the one before and the event reports that level; and with a duration, when the level was
  taken by an earlier change that the event reports, every sample since showed it and none was
  reported, and the time from that change to this sample reaches the duration less 24 ms.
\<close>

theorem din_calls_exact:
  assumes "polling s" "i < 4" "din_events s ! i = e" "ev_func e = Some f" "ev_mode e \<in> {0, 1, 2}"
    and "ev_duration e \<noteq> 0 \<Longrightarrow> bStartDurationCheck (din_checks s ! i) \<noteq> 1"
    and "\<forall>c \<in> set cs. keeps_event i c"
    and "run_state (run_calls (app_call b) cs) s = (r, t)"
  shows "\<exists>ps. port_polls i t = port_polls i s @ ps \<and> (\<forall>pre p post. ps = pre @ p # post \<longrightarrow>
    p_call p = (if due (ev_mode e) (ev_duration e) (ev_oldstate e) pre p then Some f else None))"
proof -
  have "port_steps i (view i s) (view i t)"
    using app_steps [OF assms(1,2,7), of b] assms(8) by simp
  then have "tracked i e f (port_polls i s) (view i t)"
    using tracked_steps assms(3-6) unfolding view_def by metis
  then show ?thesis
    by (auto simp: tracked_def view_def exact_calls_def)
qed

definition app_example :: dio_app where
  "app_example = (app_start dio_example)\<lparr>pthread_fork_flag := 1, din_events := replicate 4
     \<lparr>ev_func = Some 7, ev_mode = DIN_EVENT_STATE_CHANGE, ev_oldstate = DIO_HIGH, ev_duration = 40000\<rparr>\<rparr>"

lemma din_calls_exact_witness:
  "\<exists>ps. port_polls 2 (snd (run_state (run_calls (app_call V2403) [Poll, Set_event 1 None 0 0, Poll]) app_example)) = ps \<and>
    (\<forall>pre p post. ps = pre @ p # post \<longrightarrow> p_call p = (if due 2 40000 1 pre p then Some 7 else None))"
  using din_calls_exact [OF _ _ _ _ _ _ _ prod.collapse [symmetric], of app_example 2 _ 7
      "[Poll, Set_event 1 None 0 0, Poll]" V2403]
  by (simp add: app_example_def app_start_def polling_def port_polls_def no_check_def
    del: run_calls.simps app_call.simps)

lemma registered:
  assumes "length (din_events s) = 4" "i < 4"
  shows "ev_mode (din_events (snd (run_state (register_event b i f mode d) s)) ! i) = mode \<and>
    ev_duration (din_events (snd (run_state (register_event b i f mode d) s)) ! i) = d * 1000"
  using assms by (simp add: register_event_def case_prod_beta split: option.splits)

text \<open>
  An event is accepted exactly for a port of the table, a known mode, and a duration that is 0 or a
  multiple of 20 ms from 40 ms to an hour; it is then read back as it was given.  A refused one
  leaves everything as it was.
\<close>

theorem din_event_set_get:
  assumes "length (din_events s) = 4" "mode \<noteq> DIN_EVENT_CLEAR"
    and "run_state (set_din_event b p (Some f) mode d) s = (r, t)"
  shows "(r \<noteq> DIO_OK \<longrightarrow> t = s) \<and>
    (r = DIO_OK \<longrightarrow> fst (run_state (get_din_event p) t) = (DIO_OK, Some (mode, d))) \<and>
    (r = DIO_OK \<longleftrightarrow> 0 \<le> p \<and> p < 4 \<and> mode \<in> {0, 1, 2} \<and>
       (d = 0 \<or> MIN_DURATION \<le> d \<and> d \<le> MAX_DURATION \<and> d mod 20 = 0))"
proof -
  have ms: "d * 1000 div 1000 = d" if "d \<le> MAX_DURATION"
  proof -
    have "unat d \<le> 3600000" using that by (simp add: word_le_nat_alt)
    then show ?thesis
      by (simp add: word_arith_nat_div unat_mult_lem [THEN iffD1])
  qed
  define ok where "ok \<longleftrightarrow> 0 \<le> p \<and> p < 4 \<and> mode \<in> {0, 1, 2} \<and>
    (d = 0 \<or> MIN_DURATION \<le> d \<and> d \<le> MAX_DURATION \<and> d mod 20 = 0)"
  have "r \<noteq> DIO_OK \<and> t = s" if "\<not> ok"
    using that assms(2,3) unfolding ok_def set_din_event_def
    by (cases "d = 0"; cases "p < 0 \<or> 4 \<le> p"; cases "mode \<in> {0, 1, 2}")
      (auto simp: not_less not_le split: if_splits)
  moreover have "r = DIO_OK \<and> fst (run_state (get_din_event p) t) = (DIO_OK, Some (mode, d))" if "ok"
  proof -
    have c: "(p < 0 \<or> MAX_DIN_PORT \<le> p) = False" "(Some f = None \<or> mode = DIN_EVENT_CLEAR) = False"
      "(mode \<noteq> DIN_EVENT_HIGH_TO_LOW \<and> mode \<noteq> DIN_EVENT_LOW_TO_HIGH \<and> mode \<noteq> DIN_EVENT_STATE_CHANGE) = False"
      "(d \<noteq> 0 \<and> (d < MIN_DURATION \<or> MAX_DURATION < d)) = False" "(d \<noteq> 0 \<and> d mod 20 \<noteq> 0) = False"
      using that assms(2) unfolding ok_def by auto
    have "set_din_event b p (Some f) mode d = do {
        forked \<leftarrow> gets pthread_fork_flag;
        register_event b (nat p) f mode d;
        (if forked = 0 then do {
           modify (pthread_fork_flag_update (\<lambda>_. 1));
           on_driver (knote ''pthread_create'' []);
           modify (din_checks_update (\<lambda>_. replicate 4 no_check));
           ret DIO_OK }
         else ret DIO_OK) }"
      unfolding set_din_event_def c if_False option.sel by (rule arg_cong2 [where f = State_Monad.bind]) auto
    then have "r = DIO_OK" "din_events t = din_events (snd (run_state (register_event b (nat p) f mode d) s))"
      using assms(3) by (auto simp: case_prod_beta split: if_splits)
    moreover have "d \<le> MAX_DURATION" "nat p < 4"
      using that unfolding ok_def by auto
    ultimately show ?thesis
      using registered [OF assms(1), of "nat p" b f mode d] ms c(1) by (simp add: get_din_event_def)
  qed
  ultimately show ?thesis
    unfolding ok_def [symmetric] by blast
qed

lemma din_event_set_get_witness:
  "fst (run_state (get_din_event 3) (snd (run_state (set_din_event V2403 3 (Some 7) 1 60) (app_start dio_example))))
     = (DIO_OK, Some (1, 60))"
  using din_event_set_get [OF _ _ prod.collapse [symmetric], of "app_start dio_example" 1 V2403 3 7 60]
  by (simp add: app_start_def)

text \<open>
  Registering an event leaves the thread's variables for the port as they are: a check that was
  started for the old event goes on for the new one.
\<close>

lemma set_event_keeps_check:
  "pthread_fork_flag s \<noteq> 0 \<Longrightarrow> din_checks (snd (run_state (set_din_event b p f m d) s)) = din_checks s"
  by (simp add: set_din_event_def register_event_def case_prod_beta)

end
