(* ===== verification/Dio_Tool.thy ===== *)
theory Dio_Tool
  imports Dio_Library
begin

text \<open>
  The command line tool \<open>user/mx_dio_control/mx_dio_control/mx_dio_control.c\<close> on the library of
  \<open>Dio_Library\<close> and the driver of \<open>Dio\<close>: \<open>main\<close> gets the arguments after the program's name, and its
  result is the exit status.  A line that is printed is a call of \<open>printf\<close> with its values.
\<close>

section \<open>The tool\<close>

abbreviation "GET \<equiv> 0 :: int"
abbreviation "SET \<equiv> 1 :: int"
abbreviation "DO \<equiv> 0 :: int"
abbreviation "DI \<equiv> 1 :: int"

record dio_args =
  a_gs :: int
  a_val :: int
  a_slot :: int

text \<open>The loop over the options; \<open>None\<close> when \<open>usage\<close> ends the program.\<close>

fun dio_options :: "(char \<times> string option) list \<Rightarrow> dio_args \<Rightarrow> dio_args option" where
  "dio_options [] a = Some a"
| "dio_options ((c, optarg) # os) a =
    (if c = CHR ''g'' then
       if a_gs a = -1 then dio_options os (a\<lparr>a_gs := GET, a_val := atoi (the optarg)\<rparr>) else None
     else if c = CHR ''s'' then
       if a_gs a = -1 then dio_options os (a\<lparr>a_gs := SET, a_val := atoi (the optarg)\<rparr>) else None
     else if c = CHR ''n'' then dio_options os (a\<lparr>a_slot := atoi (the optarg)\<rparr>)
     else None)"

definition good_dio_args :: "dio_args \<Rightarrow> bool" where
  "good_dio_args a \<longleftrightarrow>
     a_gs a = GET \<and> 1 \<le> a_slot a \<and>
       (a_val a = DI \<and> a_slot a \<le> MAX_DIN_PORT \<or> a_val a = DO \<and> a_slot a \<le> MAX_DOUT_PORT) \<or>
     a_gs a = SET \<and> 1 \<le> a_slot a \<and> a_slot a \<le> MAX_DOUT_PORT"

definition dio_usage :: "int dio_m" where
  "dio_usage = do { knote ''printf(usage)'' []; ret (-1) }"

text \<open>The result of the library is not looked at: \<open>state\<close> keeps what it held when nothing was stored.\<close>

definition print_level :: "string \<Rightarrow> int \<Rightarrow> int option \<Rightarrow> int dio_m" where
  "print_level fmt slot st = do {
     x \<leftarrow> uninitialised ''state'';
     let state = (case st of Some v \<Rightarrow> v | None \<Rightarrow> x);
     whenM (state \<noteq> 0 \<and> state \<noteq> 1) (undefined_c ''DataString index'');
     knote fmt [slot, state];
     ret 0 }"

definition mx_dio_control :: "dio_board \<Rightarrow> string list \<Rightarrow> int dio_m" where
  "mx_dio_control b args = do {
     x \<leftarrow> uninitialised ''val'';
     (case dio_options (getopt ''g:s:n:'' [] args) \<lparr>a_gs = -1, a_val = x, a_slot = -1\<rparr> of
        None \<Rightarrow> dio_usage
      | Some a \<Rightarrow>
          if \<not> good_dio_args a then dio_usage
          else if a_gs a = GET then
            (if a_val a = DI then do {
               (_, st) \<leftarrow> get_din_state b (a_slot a - 1);
               print_level ''printf(DIN)'' (a_slot a) st }
             else if a_val a = DO then do {
               (_, st) \<leftarrow> get_dout_state b (a_slot a - 1);
               print_level ''printf(DOUT)'' (a_slot a) st }
             else ret 0)
          else if a_gs a = SET then do {
            retval \<leftarrow> set_dout_state b (a_slot a - 1) (a_val a);
            if retval \<noteq> 0 then do { knote ''printf(SET DO error)'' []; ret (-1) } else ret 0 }
          else ret 0) }"

section \<open>Runs\<close>

lemma getopt_two:
  assumes "find_opt os c = Some Required_arg" "find_opt os c' = Some Required_arg" "c \<noteq> CHR ''-''" "c' \<noteq> CHR ''-''"
  shows "getopt os [] [[CHR ''-'', c], x, [CHR ''-'', c'], y] = [(c, Some x), (c', Some y)]"
  using assms by simp

lemma dio_parsed:
  assumes "c = CHR ''g'' \<or> c = CHR ''s''"
  shows "dio_options (getopt ''g:s:n:'' [] [[CHR ''-'', c], x, ''-n'', y]) \<lparr>a_gs = -1, a_val = v, a_slot = -1\<rparr> =
    Some \<lparr>a_gs = if c = CHR ''g'' then GET else SET, a_val = atoi x, a_slot = atoi y\<rparr>"
  using assms getopt_two [of "''g:s:n:''" c "CHR ''n''" x y] by (elim disjE) (simp_all del: getopt.simps)

lemma ready_note [simp]:
  "dio_ready p d (s\<lparr>ihist := Kernel_call f as r # ihist s\<rparr>) = dio_ready p d s"
  "saved_level p (s\<lparr>ihist := h\<rparr>) j = saved_level p s j"
  by (simp_all add: dio_ready_def saved_level_def)

definition can_open :: "dio \<Rightarrow> bool" where
  "can_open s \<longleftrightarrow> (\<forall>h. 0 \<le> env_k (ienv s) h ''open(/dev/dio)'' [])"

abbreviation set_arg :: "int \<Rightarrow> int \<Rightarrow> dio_set uarg" where
  "set_arg i m \<equiv> \<lparr>ua_left = 0, ua_in = \<lparr>io_number = i, mode_data = m\<rparr>, ua_out = 0\<rparr>"

lemma set_keeps_env:
  assumes "dio_ready p d s" "0 \<le> i" "i < output_count p" "m = 0 \<or> m = 1"
  shows "ienv (snd (run_state (io_ioctl (board_of p) IOCTL_SET_DOUT (set_arg i m)) s)) = ienv s \<and>
    ihist (snd (run_state (io_ioctl (board_of p) IOCTL_SET_DOUT (set_arg i m)) s)) \<noteq> []"
proof -
  have "do_num s = output_count p"
    using assms(1) by (simp add: dio_ready_def)
  then have "snd (run_state (io_ioctl (board_of p) IOCTL_SET_DOUT (set_arg i m)) s)
      = snd (run_state (b_outb (board_of p) \<lparr>io_number = i, mode_data = m\<rparr>) s)"
    using assms(2-4) by (auto simp: io_ioctl_def Let_def case_prod_beta)
  then show ?thesis
    by (rule ssubst) (rule outb_run [OF assms(1-3), of m], simp)
qed

lemma set_dout_run:
  assumes "dio_ready p d s" "can_open s" "0 \<le> i" "i < output_count p" "i < 4" "m = 0 \<or> m = 1"
    and "run_state (set_dout_state (board_of p) i m) s = (r, t)"
  shows "r = DIO_OK \<and> dio_ready p d t \<and> can_open t \<and>
    (\<forall>j. 0 \<le> j \<and> j < output_count p \<longrightarrow> saved_level p t j = (if j = i then m = 1 else saved_level p s j)) \<and>
    bit (last_out d' (ihist t) (fst (pin_of p i))) (snd (pin_of p i)) = (m = 1)"
proof -
  define s1 where "s1 = s\<lparr>ihist := Kernel_call ''open(/dev/dio)'' [] (env_k (ienv s) (ihist s) ''open(/dev/dio)'' []) # ihist s\<rparr>"
  have fd: "\<not> env_k (ienv s) (ihist s) ''open(/dev/dio)'' [] < 0"
    using assms(2) by (simp add: can_open_def not_less)
  obtain r1 t1 where run: "run_state (io_ioctl (board_of p) IOCTL_SET_DOUT (set_arg i m)) s1 = (r1, t1)"
    by (cases "run_state (io_ioctl (board_of p) IOCTL_SET_DOUT (set_arg i m)) s1")
  have ready: "dio_ready p d s1"
    using assms(1) by (simp add: s1_def)
  have set: "r1 = 0 \<and> dio_ready p d t1 \<and>
      (\<forall>j. 0 \<le> j \<and> j < output_count p \<longrightarrow> saved_level p t1 j = (if j = i then m = 1 else saved_level p s1 j)) \<and>
      (\<exists>v. hd (ihist t1) = Out_b v (fst (pin_of p i)) \<and> bit v (snd (pin_of p i)) = (m = 1))"
    using outs.set_dout [OF ready assms(3,4,6) _ _ run] by simp
  have env: "ienv t1 = ienv s" "ihist t1 \<noteq> []"
    using set_keeps_env [OF ready assms(3,4,6)] run by (simp_all add: s1_def)
  then obtain w h where w: "ihist t1 = Out_b w (fst (pin_of p i)) # h" "bit w (snd (pin_of p i)) = (m = 1)"
    using set by (cases "ihist t1") auto
  have r: "r = DIO_OK" and t: "t = t1\<lparr>ihist := Kernel_call ''close'' [env_k (ienv s) (ihist s) ''open(/dev/dio)'' []]
      (env_k (ienv t1) (ihist t1) ''close'' [env_k (ienv s) (ihist s) ''open(/dev/dio)'' []]) # ihist t1\<rparr>"
    using assms(3,5,6,7) run set fd
    by (auto simp: set_dout_state_def dio_request_def case_prod_beta s1_def)
  have "dio_ready p d t"
    using set unfolding t ready_note by blast
  moreover have "bit (last_out d' (ihist t) (fst (pin_of p i))) (snd (pin_of p i)) = (m = 1)"
    using w by (simp add: t)
  moreover have "saved_level p t j = saved_level p t1 j" "saved_level p s1 j = saved_level p s j" for j
    by (simp_all add: t s1_def)
  ultimately show ?thesis
    using r set env(1) assms(2) by (simp add: can_open_def t)
qed

lemma get_dout_run:
  assumes "dio_ready p d s" "can_open s" "0 \<le> i" "i < output_count p" "i < 4"
  shows "fst (run_state (get_dout_state (board_of p) i) s) = (DIO_OK, Some (level (saved_level p s i)))"
proof -
  define s1 where "s1 = s\<lparr>ihist := Kernel_call ''open(/dev/dio)'' [] (env_k (ienv s) (ihist s) ''open(/dev/dio)'' []) # ihist s\<rparr>"
  have "\<not> env_k (ienv s) (ihist s) ''open(/dev/dio)'' [] < 0"
    using assms(2) by (simp add: can_open_def not_less)
  moreover have "dio_ready p d s1"
    using assms(1) by (simp add: s1_def)
  then have "run_state (io_ioctl (board_of p) IOCTL_GET_DOUT (set_arg i m)) s1
      = (0, s1\<lparr>ihist := To_user [i, level (saved_level p s1 i)] # ihist s1\<rparr>)" for m
    using outs.get_saved [of p d s1 i m] outs.num [of p d s1] assms(3,4)
    by (simp add: io_ioctl_def Let_def case_prod_beta give_set_run)
  ultimately show ?thesis
    using assms(3,5)
    by (simp add: get_dout_state_def dio_request_def uninitialised_def case_prod_beta s1_def)
qed

lemma print_level_run:
  "run_state (print_level fmt slot (Some (level l))) s =
    (0, s\<lparr>ihist := Kernel_call fmt [slot, level l] (env_k (ienv s) (ihist s) fmt [slot, level l]) # ihist s\<rparr>)"
  by (simp add: print_level_def uninitialised_def level_def)

lemma zero_arg: "atoi ''0'' = 0"
  by (simp add: atoi_def c_atoi_def scan_int_def scan_number_def is_blank_def is_digit_def digit_val_def long_to_int_id)

lemma tool_set:
  assumes "1 \<le> atoi y" "atoi y \<le> 4"
  shows "run_state (mx_dio_control b [''-s'', x, ''-n'', y]) s =
    (let (r, t) = run_state (set_dout_state b (atoi y - 1) (atoi x)) s in
     if r \<noteq> 0 then run_state (do { knote ''printf(SET DO error)'' []; ret (-1) }) t else (0, t))"
  using assms dio_parsed [of "CHR ''s''" x y]
  by (simp add: mx_dio_control_def uninitialised_def good_dio_args_def case_prod_beta Let_def del: getopt.simps)

lemma tool_get:
  assumes "1 \<le> atoi y" "atoi y \<le> 4" "atoi x = 0"
  shows "run_state (mx_dio_control b [''-g'', x, ''-n'', y]) s =
    (let (st, t) = run_state (get_dout_state b (atoi y - 1)) s in
     run_state (print_level ''printf(DOUT)'' (atoi y) (snd st)) t)"
  using assms dio_parsed [of "CHR ''g''" x y]
  by (simp add: mx_dio_control_def uninitialised_def good_dio_args_def case_prod_beta Let_def del: getopt.simps)

section \<open>Properties\<close>



text \<open>
  On an output the product does not have the driver refuses the request, and the tool prints what
  its variable held and ends with 0: an index beyond the table of names unless it held 0 or 1.
\<close>

lemma dio_tool_unread:
  assumes "dio_ready p d s" "can_open s" "1 \<le> i" "i \<le> 4" "output_count p < int i"
    and "run_state (mx_dio_control (board_of p) [''-g'', ''0'', ''-n'', show_nat i]) s = (r, t)"
    and "\<forall>h. env_k (ienv s) h ''state'' [] \<notin> {0, 1}"
  shows "r = 0 \<and> \<not> defined_run t"
proof -
  have n: "do_num s = output_count p"
    using assms(1) by (simp add: dio_ready_def)
  have "\<not> env_k (ienv s) (ihist s) ''open(/dev/dio)'' [] < 0"
    using assms(2) by (simp add: can_open_def not_less)
  then have "snd (fst (run_state (get_dout_state (board_of p) (int i - 1)) s)) = None"
    "ienv (snd (run_state (get_dout_state (board_of p) (int i - 1)) s)) = ienv s"
    using assms(3-5) n by (auto simp: get_dout_state_def dio_request_def uninitialised_def io_ioctl_def Let_def case_prod_beta)
  moreover have "atoi ''0'' = 0" "atoi (show_nat i) = int i"
    using assms(4) zero_arg by (auto simp: atoi_show_nat)
  ultimately show ?thesis
    using tool_get [of "show_nat i" "''0''" "board_of p" s] assms(3,4,6,7)
    by (auto simp: case_prod_beta print_level_def uninitialised_def defined_run_def)
qed

end
