(* ===== verification/Power_Tools.thy ===== *)
theory Power_Tools
  imports Gpio_Power Dio_Tool
begin

text \<open>
  The command line tools that switch power, each on the driver whose device it opens:
  \<open>user/mx_usb_power\<close>, \<open>user/mxdkcontrol\<close>, the example of \<open>modules/moxa_v2403_minipciepower\<close>,
  \<open>user/mx_pcie_reset\<close> and \<open>user/mx_v2201_usb_power\<close>.  A program is its \<open>main\<close> on the arguments
  after its name; the result is the exit status and a printed line is a call of \<open>printf\<close>.
\<close>

section \<open>USB power: mx_usb_power.c\<close>

definition usb_power_enable_disable :: "int \<Rightarrow> int \<Rightarrow> int \<Rightarrow> ('x, int) io_m" where
  "usb_power_enable_disable bFront bRear bDisable = do {
     let on_off = (if bDisable = 1 then 0 else 1);
     fd \<leftarrow> kcall ''open(/dev/moxa_usb_power)'' [];
     if fd < 0 then do { knote ''printf(No such file)'' []; ret (-1) }
     else do {
       r \<leftarrow> (if bFront = 1 then do {
           knote ''printf(front)'' [on_off];
           usb_power_ioctl SET_FRONT_END (good_arg on_off) }
         else ret 0);
       if r < 0 then do { knote ''perror'' []; knote ''close'' [fd]; ret r }
       else do {
         r \<leftarrow> (if bRear = 1 then do {
             knote ''printf(rear)'' [on_off];
             usb_power_ioctl SET_REAR_END (good_arg on_off) }
           else ret 0);
         if r < 0 then do { knote ''perror'' []; knote ''close'' [fd]; ret r }
         else do { knote ''close'' [fd]; ret 0 } } } }"

text \<open>The state is printed as the value the request stored at \<open>on_off\<close>, zero for \<open>off\<close>.\<close>

definition get_on_off :: "usb_power_cmd \<Rightarrow> ('x, int \<times> int) io_m" where
  "get_on_off cmd = do {
     x \<leftarrow> uninitialised ''on_off'';
     r \<leftarrow> usb_power_ioctl cmd (good_arg x);
     h \<leftarrow> gets ihist;
     ret (r, case h of To_user [v] # _ \<Rightarrow> v | _ \<Rightarrow> x) }"

definition usb_power_status :: "('x, int) io_m" where
  "usb_power_status = do {
     fd \<leftarrow> kcall ''open(/dev/moxa_usb_power)'' [];
     if fd < 0 then do { knote ''printf(No such file)'' []; ret (-1) }
     else do {
       (r, on_off) \<leftarrow> get_on_off GET_FRONT_END;
       if r < 0 then do { knote ''perror'' []; knote ''close'' [fd]; ret 0 }
       else do {
         knote ''printf(front power)'' [if on_off \<noteq> 0 then 1 else 0];
         (r, on_off) \<leftarrow> get_on_off GET_REAR_END;
         if r < 0 then do { knote ''perror'' []; knote ''close'' [fd]; ret (-1) }
         else do {
           knote ''printf(rear power)'' [if on_off \<noteq> 0 then 1 else 0];
           knote ''close'' [fd];
           ret 0 } } } }"

record usb_args =
  bRear :: int
  bFront :: int
  bDisable :: int

text \<open>The loop over the options; \<open>None\<close> when the program prints its usage and returns.\<close>

fun usb_options :: "(char \<times> string option) list \<Rightarrow> usb_args \<Rightarrow> usb_args option" where
  "usb_options [] a = Some a"
| "usb_options ((c, _) # os) a =
    (if c = CHR ''r'' then usb_options os (a\<lparr>bRear := 1\<rparr>)
     else if c = CHR ''f'' then usb_options os (a\<lparr>bFront := 1\<rparr>)
     else if c = CHR ''d'' then usb_options os (a\<lparr>bDisable := 1\<rparr>)
     else if c = CHR ''e'' then usb_options os (a\<lparr>bDisable := 0\<rparr>)
     else None)"

definition mx_usb_power :: "string list \<Rightarrow> ('x, int) io_m" where
  "mx_usb_power args =
    (if args = [] then do { _ \<leftarrow> usb_power_status; ret 0 }
     else (case usb_options (getopt ''hrfde'' [] args) \<lparr>bRear = 0, bFront = 0, bDisable = 0\<rparr> of
         None \<Rightarrow> do { knote ''printf(usage)'' []; ret 0 }
       | Some a \<Rightarrow>
           if bRear a = 0 \<and> bFront a = 0 then do { knote ''printf(usage)'' []; ret 0 }
           else do { _ \<leftarrow> usb_power_enable_disable (bFront a) (bRear a) (bDisable a); ret 0 }))"

section \<open>Slot power: mx-dkcontrol.c, mxdkcontrol_lx.c and the example mx_pcie_power.c\<close>

text \<open>The library: a failed \<open>open\<close> is answered with 0, and the result of the request is passed on.\<close>

definition slot_open :: "string \<Rightarrow> ('x, int) io_m" where
  "slot_open dev = do { fd \<leftarrow> kcall dev []; ret (if fd = -1 then 0 else fd) }"

text \<open>
  The two programs differ in the device and in the slots they accept.  Both end with 0 when the
  request fails.
\<close>

definition slot_tool :: "string \<Rightarrow> int \<Rightarrow> (slot_info uarg \<Rightarrow> ('x, int) io_m) \<Rightarrow> string list \<Rightarrow> ('x, int) io_m" where
  "slot_tool dev slots set_slot args = (case args of
     [a, b] \<Rightarrow>
       if snd (strtol a) \<noteq> [] \<or> snd (strtol b) \<noteq> [] then do { knote ''printf(Error)'' []; ret 1 }
       else do {
         let slot_num = fst (strtol a);
         let val = fst (strtol b);
         if slot_num < 1 \<or> slots < slot_num \<or> val \<noteq> 0 \<and> val \<noteq> 1 then do { knote ''printf(usage)'' []; ret (-1) }
         else do {
           fd \<leftarrow> slot_open dev;
           if fd = 0 then do { knote ''printf(open)'' []; ret (-1) }
           else do {
             r \<leftarrow> set_slot (good_arg \<lparr>slot_num = slot_num, slot_value = val\<rparr>);
             (if r \<noteq> 0 then knote ''printf(Incorrect IOCTL)'' [] else knote ''printf(Power)'' [slot_num, val]);
             knote ''close'' [fd];
             ret 0 } } }
   | _ \<Rightarrow> do { knote ''printf(usage)'' []; ret (-1) })"

definition mx_dkcontrol :: "string list \<Rightarrow> ('x, int) io_m" where
  "mx_dkcontrol = slot_tool ''open(/dev/mxdkcontrol)'' 4 (dkcontrol_ioctl True)"

definition mx_pcie_power_v2403 :: "string list \<Rightarrow> ('x, int) io_m" where
  "mx_pcie_power_v2403 = slot_tool ''open(/dev/mxpciepower)'' 2 (power_control_ioctl True)"

section \<open>Mini-PCIe reset: mx_pcie_reset.c\<close>

text \<open>
  The \<open>#if\<close> on \<open>CONFIG_PRODUCT\<close> compares two undefined identifiers, so the case of \<open>-s\<close> is not
  compiled: option and argument are scanned and answered with the usage, whose \<open>printf\<close> lacks an
  argument.  \<open>bPCIE_Wireless_disable\<close> starts as 1 and no option clears it.
\<close>

fun reset_options :: "(char \<times> string option) list \<Rightarrow> int \<times> int \<Rightarrow> (int \<times> int) option" where
  "reset_options [] a = Some a"
| "reset_options ((c, _) # os) (wdisable, preset) =
    (if c = CHR ''d'' then reset_options os (1, preset)
     else if c = CHR ''r'' then reset_options os (wdisable, 1)
     else None)"

definition pulse_line :: "usb_gpio_cmd \<Rightarrow> ('x, unit) io_m" where
  "pulse_line cmd = do {
     knote ''printf(slot)'' [1];
     _ \<leftarrow> usb_gpio_ioctl cmd (good_arg \<lparr>slot_num = 1, slot_value = 0\<rparr>);
     knote ''sleep'' [1];
     _ \<leftarrow> usb_gpio_ioctl cmd (good_arg \<lparr>slot_num = 1, slot_value = 1\<rparr>);
     ret () }"

text \<open>\<open>main\<close> ends without a \<open>return\<close>, with status 0.\<close>

definition mx_pcie_reset :: "string list \<Rightarrow> ('x, int) io_m" where
  "mx_pcie_reset args =
    (case (if 1 < length args then None else reset_options (getopt ''rds:'' [] args) (1, 0)) of
       None \<Rightarrow> do { undefined_c ''printf argument''; ret 0 }
     | Some (wdisable, preset) \<Rightarrow> do {
         fd \<leftarrow> kcall ''open(/dev/moxa_usb_gpio)'' [];
         if fd < 0 then do { knote ''printf(Open file fail)'' []; ret 1 }
         else do {
           (if wdisable = 1 then pulse_line PCIE_WDISABLE
            else whenM (preset = 1) (pulse_line PCIE_RESET));
           knote ''close'' [fd];
           ret 0 } })"

section \<open>Slot power of the V2201: mx_pcie_power.c\<close>

fun v2201_power_options :: "(char \<times> string option) list \<Rightarrow> slot_info \<Rightarrow> slot_info option" where
  "v2201_power_options [] si = Some si"
| "v2201_power_options ((c, optarg) # os) si =
    (if c = CHR ''d'' then
       if slot_value si = -1 then v2201_power_options os (si\<lparr>slot_value := 0\<rparr>) else None
     else if c = CHR ''e'' then
       if slot_value si = -1 then v2201_power_options os (si\<lparr>slot_value := 1\<rparr>) else None
     else if c = CHR ''s'' then v2201_power_options os (si\<lparr>slot_num := atoi (the optarg)\<rparr>)
     else None)"

definition mx_pcie_power :: "string list \<Rightarrow> ('x, int) io_m" where
  "mx_pcie_power args =
    (case v2201_power_options (getopt ''d::e::s:'' [] args) \<lparr>slot_num = -1, slot_value = -1\<rparr> of
       None \<Rightarrow> do { knote ''printf(usage)'' []; ret (-1) }
     | Some si \<Rightarrow>
         if \<not> (0 \<le> slot_num si \<and> slot_num si \<le> 1 \<and> (slot_value si = 0 \<or> slot_value si = 1))
         then do { knote ''printf(usage)'' []; ret (-1) }
         else do {
           knote ''printf(PCIE)'' [slot_num si, slot_value si];
           fd \<leftarrow> kcall ''open(/dev/pled)'' [];
           if fd < 0 then do { knote ''perror'' []; ret (-1) }
           else do {
             knote ''printf(power)'' [slot_value si];
             r \<leftarrow> pled_ioctl (if slot_value si = 0 then PLED_POWER_OFF else PLED_POWER_ON) (good_arg si);
             if r < 0 then do { knote ''perror'' []; ret (-1) } else ret 0 } })"

section \<open>The lines the tools switch\<close>

datatype power_tool = Usb_tool bool bool | Dk_tool nat nat | V2403_tool nat nat | V2201_tool nat nat

fun tool_run :: "power_tool \<Rightarrow> ('x, int) io_m" where
  "tool_run (Usb_tool front on) = mx_usb_power [if front then ''-f'' else ''-r'', if on then ''-e'' else ''-d'']"
| "tool_run (Dk_tool n v) = mx_dkcontrol [show_nat n, show_nat v]"
| "tool_run (V2403_tool n v) = mx_pcie_power_v2403 [show_nat n, show_nat v]"
| "tool_run (V2201_tool n v) = mx_pcie_power [if v = 1 then ''-e'' else ''-d'', ''-s'', show_nat n]"

fun tool_line :: "power_tool \<Rightarrow> (port \<times> nat \<times> bool) option" where
  "tool_line (Usb_tool front on) = Some (0x303, if front then 6 else 0, on)"
| "tool_line (Dk_tool n v) = request_line (Req_dk \<lparr>slot_num = int n, slot_value = int v\<rparr>)"
| "tool_line (V2403_tool n v) = request_line (Req_v2403 \<lparr>slot_num = int n, slot_value = int v\<rparr>)"
| "tool_line (V2201_tool n v) =
    (if n \<le> 1 \<and> v \<le> 1 then Some (LED_PORT LED_V2201, if n = 0 then 2 else 4, v = 1) else None)"

definition opens :: "'x io_scheme \<Rightarrow> bool" where
  "opens s \<longleftrightarrow> (\<forall>h dev. take 5 dev = ''open('' \<longrightarrow> 0 < env_k (ienv s) h dev [])"

lemma opensD: "opens s \<Longrightarrow> take 5 dev = ''open('' \<Longrightarrow> 0 < env_k (ienv s) h dev []"
  by (simp add: opens_def)

text \<open>A request changes its line; what a program does besides leaves the ports alone.\<close>

lemma request_effect:
  assumes "request_line q = Some (p, b, l)"
  shows "fst (run_state (power_ioctl q) u) = 0"
    and "latching d (ienv u) \<Longrightarrow> bit (last_out d (ihist (snd (run_state (power_ioctl q) u))) a) k
      = (if a = p \<and> k = b then l else bit (last_out d (ihist u) a) k)"
proof -
  show "fst (run_state (power_ioctl q) u) = 0"
    by (simp add: request_rmw [OF assms])
  show "bit (last_out d (ihist (snd (run_state (power_ioctl q) u))) a) k
      = (if a = p \<and> k = b then l else bit (last_out d (ihist u) a) k)" if "latching d (ienv u)"
    using power_lines [OF assms that prod.collapse [symmetric]] by blast
qed

lemmas usb_effect = request_effect [where q = "Req_usb SET_FRONT_END v" for v, simplified]
  request_effect [where q = "Req_usb SET_REAR_END v" for v, simplified]

lemma usb_tool_run:
  assumes "opens s" "latching d (ienv s)"
  shows "fst (run_state (tool_run (Usb_tool front on)) s) = 0 \<and>
    bit (last_out d (ihist (snd (run_state (tool_run (Usb_tool front on)) s))) a) k
      = (if a = 0x303 \<and> k = (if front then 6 else 0) then on else bit (last_out d (ihist s) a) k)"
proof -
  have fd: "\<not> env_k (ienv s) (ihist s) ''open(/dev/moxa_usb_power)'' [] < 0"
    using opensD [OF assms(1), of "''open(/dev/moxa_usb_power)''" "ihist s"] by simp
  show ?thesis
    by (cases front; cases "on") (simp_all add: mx_usb_power_def usb_power_enable_disable_def Let_def
      case_prod_beta fd usb_effect assms(2))
qed

lemma slot_tool_run:
  assumes "opens s" "take 5 dev = ''open(''" "1 \<le> n" "int n \<le> slots" "v \<le> 1" "slots < 2 ^ 31"
    and "\<And>u. fst (run_state (handler (good_arg \<lparr>slot_num = int n, slot_value = int v\<rparr>)) u) = 0"
    and "\<And>u. ienv u = ienv s \<Longrightarrow> last_out d (ihist u) = last_out d (ihist s) \<Longrightarrow>
      P (last_out d (ihist (snd (run_state (handler (good_arg \<lparr>slot_num = int n, slot_value = int v\<rparr>)) u))))"
  shows "fst (run_state (slot_tool dev slots handler [show_nat n, show_nat v]) s) = 0 \<and>
    P (last_out d (ihist (snd (run_state (slot_tool dev slots handler [show_nat n, show_nat v]) s))))"
proof -
  have fd: "0 < env_k (ienv s) (ihist s) dev []"
    using opensD [OF assms(1,2)] .
  have arg: "strtol (show_nat n) = (int n, [])" "strtol (show_nat v) = (int v, [])"
    using assms(4-6) by (auto simp: strtol_show_nat)
  have v: "v = 0 \<or> v = 1" "\<not> slots < int n" "n \<noteq> 0"
    using assms(3-5) by auto
  show ?thesis
    using fd v assms(7,8) by (auto simp: slot_tool_def slot_open_def arg Let_def case_prod_beta)
qed

lemma slot_tool_line:
  assumes "opens s" "latching d (ienv s)" "request_line q = Some (p, b, l)"
    and "\<And>u. run_state (handler (good_arg \<lparr>slot_num = int n, slot_value = int v\<rparr>)) u = run_state (power_ioctl q) u"
    and "take 5 dev = ''open(''" "1 \<le> n" "int n \<le> slots" "v \<le> 1" "slots < 2 ^ 31"
  shows "fst (run_state (slot_tool dev slots handler [show_nat n, show_nat v]) s) = 0 \<and>
    bit (last_out d (ihist (snd (run_state (slot_tool dev slots handler [show_nat n, show_nat v]) s))) a) k
      = (if a = p \<and> k = b then l else bit (last_out d (ihist s) a) k)"
proof (rule slot_tool_run [OF assms(1,5-9), where d = d and
    P = "\<lambda>f. bit (f a) k = (if a = p \<and> k = b then l else bit (last_out d (ihist s) a) k)"])
  show "fst (run_state (handler (good_arg \<lparr>slot_num = int n, slot_value = int v\<rparr>)) u) = 0" for u
    using request_effect(1) [OF assms(3)] by (simp add: assms(4))
  show "bit (last_out d (ihist (snd (run_state (handler (good_arg \<lparr>slot_num = int n, slot_value = int v\<rparr>)) u))) a) k
      = (if a = p \<and> k = b then l else bit (last_out d (ihist s) a) k)"
    if "ienv u = ienv s" "last_out d (ihist u) = last_out d (ihist s)" for u
    using request_effect(2) [OF assms(3), of d u a k] assms(2) that by (simp add: assms(4))
qed

lemma v2201_tool_run:
  assumes "opens s" "latching d (ienv s)" "n = 0 \<or> n = 1" "v = 0 \<or> v = 1"
  shows "fst (run_state (tool_run (V2201_tool n v)) s) = 0 \<and>
    bit (last_out d (ihist (snd (run_state (tool_run (V2201_tool n v)) s))) a) k
      = (if a = LED_PORT LED_V2201 \<and> k = (if n = 0 then 2 else 4) then v = 1 else bit (last_out d (ihist s) a) k)"
proof -
  have fd: "\<not> env_k (ienv s) h ''open(/dev/pled)'' [] < 0" for h
    using opensD [OF assms(1), of "''open(/dev/pled)''" h] by simp
  have "atoi (show_nat n) = int n"
    using assms(3) by (auto simp: atoi_show_nat)
  then have opts: "v2201_power_options (getopt ''d::e::s:'' [] [if v = 1 then ''-e'' else ''-d'', ''-s'', show_nat n])
      \<lparr>slot_num = -1, slot_value = -1\<rparr> = Some \<lparr>slot_num = int n, slot_value = int v\<rparr>"
    using assms(4) by (elim disjE) simp_all
  have range: "int n \<le> 1" "v = 0 \<or> v = Suc 0" "(int v = 0) = (v = 0)"
    using assms(3,4) by auto
  let ?cmd = "if v = 0 then PLED_POWER_OFF else PLED_POWER_ON"
  let ?u = "good_arg \<lparr>slot_num = int n, slot_value = int v\<rparr>"
  have bits: "bit (last_out d (ihist (snd (run_state (pled_ioctl ?cmd ?u) u))) a) k
      = (if a = LED_PORT LED_V2201 \<and> k = (if n = 0 then 2 else 4) then v = 1 else bit (last_out d (ihist u) a) k)"
    "fst (run_state (pled_ioctl ?cmd ?u) u) = 0" if "ienv u = ienv s" for u
  proof -
    have lat: "latches d (LED_PORT LED_V2201) (ienv u)"
      using assms(2) that by (simp add: latches_def latching_def)
    show "fst (run_state (pled_ioctl ?cmd ?u) u) = 0"
      by (simp add: pled_ioctl_def good_arg_def case_prod_beta Let_def)
    show "bit (last_out d (ihist (snd (run_state (pled_ioctl ?cmd ?u) u))) a) k
      = (if a = LED_PORT LED_V2201 \<and> k = (if n = 0 then 2 else 4) then v = 1 else bit (last_out d (ihist u) a) k)"
    proof (cases "a = LED_PORT LED_V2201")
      case True
      then show ?thesis
        using pled_ioctl_effect [OF _ lat, of ?u ?cmd k] assms(3,4) by (auto simp: good_arg_def)
    next
      case False
      then show ?thesis
        by (simp add: pled_ioctl_def good_arg_def Let_def led_in_def led_out_def)
    qed
  qed
  show ?thesis
    unfolding tool_run.simps mx_pcie_power_def opts option.case
    using range by (simp add: case_prod_beta fd bits [simplified])
qed

section \<open>Property\<close>

text \<open>
  Tool and driver together: on latching ports and while the devices can be opened, every command
  line that asks for a line of the product (\<open>mx_usb_power\<close>, \<open>mx-dkcontrol\<close> and both \<open>mx_pcie_power\<close>)
  ends with 0, drives exactly that line to the level asked for and leaves every other bit.
\<close>

theorem power_tool_lines:
  assumes "tool_line c = Some (p, b, l)" "opens s" "latching d (ienv s)" "run_state (tool_run c) s = (r, t)"
  shows "r = 0 \<and> bit (last_out d (ihist t) a) k = (if a = p \<and> k = b then l else bit (last_out d (ihist s) a) k)"
proof -
  have "fst (run_state (tool_run c) s) = 0 \<and> bit (last_out d (ihist (snd (run_state (tool_run c) s))) a) k
      = (if a = p \<and> k = b then l else bit (last_out d (ihist s) a) k)"
  proof (cases c)
    case (Usb_tool front on)
    then show ?thesis
      using usb_tool_run [OF assms(2,3), of front "on" a k] assms(1) by (simp split: if_splits)
  next
    case (Dk_tool n v)
    then have q: "request_line (Req_dk \<lparr>slot_num = int n, slot_value = int v\<rparr>) = Some (p, b, l)"
      using assms(1) by simp
    then show ?thesis
      unfolding Dk_tool tool_run.simps mx_dkcontrol_def
      by (intro slot_tool_line [OF assms(2,3) q]) (auto split: if_splits)
  next
    case (V2403_tool n v)
    then have q: "request_line (Req_v2403 \<lparr>slot_num = int n, slot_value = int v\<rparr>) = Some (p, b, l)"
      using assms(1) by simp
    then show ?thesis
      unfolding V2403_tool tool_run.simps mx_pcie_power_v2403_def
      by (intro slot_tool_line [OF assms(2,3) q]) (auto split: if_splits)
  next
    case (V2201_tool n v)
    then show ?thesis
      using v2201_tool_run [OF assms(2,3), of n v a k] assms(1) by (auto split: if_splits)
  qed
  then show ?thesis
    using assms(4) by simp
qed

lemma power_tool_lines_witness:
  "\<not> bit (last_out (\<lambda>_. 0xff) (ihist (snd (run_state (tool_run (Usb_tool False False))
     \<lparr>ienv = (latch_env (\<lambda>_. 0xff))\<lparr>env_k := \<lambda>_ _ _. 3\<rparr>, ihist = []\<rparr>))) 0x303) 0"
  using power_tool_lines [OF _ _ _ prod.collapse [symmetric], of "Usb_tool False False" "0x303" 0 False
      "\<lparr>ienv = (latch_env (\<lambda>_. 0xff))\<lparr>env_k := \<lambda>_ _ _. 3\<rparr>, ihist = []\<rparr>" "\<lambda>_. 0xff" "0x303" 0]
  by (simp add: opens_def latching_def latch_env_def del: tool_run.simps)

text \<open>
  Whatever its options, \<open>mx_pcie_reset\<close> never requests a reset: it prints its usage, or switches the
  slot off and on through the disable line.
\<close>

lemma reset_only_disables:
  "run_state (mx_pcie_reset args) s = run_state (do { undefined_c ''printf argument''; ret 0 }) s \<or>
   run_state (mx_pcie_reset args) s = run_state (do {
     fd \<leftarrow> kcall ''open(/dev/moxa_usb_gpio)'' [];
     if fd < 0 then do { knote ''printf(Open file fail)'' []; ret 1 }
     else do { pulse_line PCIE_WDISABLE; knote ''close'' [fd]; ret 0 } }) s"
proof -
  have "reset_options os (1, x) = Some (w, y) \<Longrightarrow> w = 1" for os x w y
    by (induction os arbitrary: x) (auto split: if_splits)
  then show ?thesis
    by (auto simp: mx_pcie_reset_def split: option.splits if_splits)
qed

end
