(* ===== verification/Serial_Tools.thy ===== *)
theory Serial_Tools
  imports Power_Tools Uart_Mode Mxser_IoctlProps
begin

text \<open>
  The command line tools that switch the mode of a serial port: \<open>user/setuartmode/setuartmode.c\<close> on
  the driver of \<open>Uart_Mode\<close> for the DA-820 and others, \<open>user/v2201_setinterface/setinterface.c\<close> on the
  driver for the V2201, and \<open>user/setinterface/setinterface.c\<close> on the requests of a serial driver.
  A program is its \<open>main\<close> on the arguments after its name; the result is the exit status and a
  printed line is a call of \<open>printf\<close> with its values.
\<close>

section \<open>setuartmode.c\<close>

definition DEFAULT_PORT_NUMBER :: "um_model \<Rightarrow> int" where
  "DEFAULT_PORT_NUMBER md = (if md = UM_MC7200 then 3 else 1)"

record uartmode_args =
  ua_port :: port_type
  ua_set :: int
  ua_get :: int

text \<open>The loop over the options; \<open>None\<close> when the program prints its usage or an error and returns.\<close>

fun uartmode_options :: "um_model \<Rightarrow> (char \<times> string option) list \<Rightarrow> uartmode_args \<Rightarrow> uartmode_args option" where
  "uartmode_options md [] a = Some a"
| "uartmode_options md ((c, optarg) # os) a =
    (if c = CHR ''n'' then
       let n = atoi (the optarg) in
       if n \<le> DEFAULT_PORT_NUMBER md - 1 \<or> DEFAULT_PORT_NUMBER md + 1 < n then None
       else uartmode_options md os (a\<lparr>ua_port := (ua_port a)\<lparr>port_number := n\<rparr>\<rparr>)
     else if c = CHR ''s'' then
       let ty = atoi (the optarg) in
       if ty < 0 \<or> 2 < ty then None
       else uartmode_options md os (a\<lparr>ua_set := 1, ua_port := (ua_port a)\<lparr>port_type := ty\<rparr>\<rparr>)
     else if c = CHR ''g'' then uartmode_options md os (a\<lparr>ua_get := 1\<rparr>)
     else None)"

text \<open>The two requests; the type that is printed indexes a table of three names.\<close>

definition uartmode_get :: "um_model \<Rightarrow> port_type \<Rightarrow> (io, unit) state" where
  "uartmode_get md port = do {
     (result, reply) \<leftarrow> with_reply (moxa_uart8250_mode_ioctl md IOCTL_GET_8250_MODE (good_arg port));
     (if result < 0 then knote ''printf(ioctl fail)'' []
      else do {
        let port = (case reply of Some [n, ty] \<Rightarrow> \<lparr>port_number = n, port_type = ty\<rparr> | _ \<Rightarrow> port);
        whenM (port_type port < 0 \<or> 2 < port_type port) (undefined_c ''uart_interface_mode index'');
        knote ''printf(Get)'' [port_number port + 1, port_type port] }) }"

definition uartmode_set :: "um_model \<Rightarrow> port_type \<Rightarrow> (io, unit) state" where
  "uartmode_set md port = do {
     knote ''printf(Set)'' [port_number port + 1, port_type port];
     result \<leftarrow> moxa_uart8250_mode_ioctl md IOCTL_SET_8250_MODE (good_arg port);
     whenM (result < 0) (knote ''printf(device_set fail)'' []) }"

definition setuartmode :: "um_model \<Rightarrow> string list \<Rightarrow> (io, int) state" where
  "setuartmode md args =
    (if args = [] then do { knote ''printf(usage)'' []; ret 0 }
     else (case uartmode_options md (getopt ''hn:s:g'' [] args)
             \<lparr>ua_port = \<lparr>port_number = 1, port_type = 0\<rparr>, ua_set = 0, ua_get = 0\<rparr> of
         None \<Rightarrow> do { knote ''printf(usage)'' []; ret 0 }
       | Some a \<Rightarrow> do {
           fd \<leftarrow> kcall ''open(/dev/moxa_uart8250_mode)'' [];
           (if fd < 0 then knote ''printf(Open device fail)'' []
            else do {
              let port = (ua_port a)\<lparr>port_number := port_number (ua_port a) - 1\<rparr>;
              (if DEFAULT_PORT_NUMBER md - 1 \<le> port_number port \<and> port_number port \<le> DEFAULT_PORT_NUMBER md \<and>
                  ua_get a = 0 \<and> ua_set a = 0
               then knote ''printf(usage)'' []
               else if ua_get a = 1 then uartmode_get md port
               else whenM (ua_set a = 1) (uartmode_set md port)) });
           knote ''close'' [fd];
           ret 0 }))"

section \<open>setinterface.c of the V2201\<close>

text \<open>The device node: a name that starts with \<open>/dev/ttyS\<close> and a digit.\<close>

definition good_node :: "string \<Rightarrow> bool" where
  "good_node s \<longleftrightarrow> take 9 s = ''/dev/ttyS'' \<and> 10 \<le> length s \<and> is_digit (s ! 9)"

text \<open>\<open>usage\<close> is reached by a jump: the device stays open and the status is 0.\<close>

definition v2201_usage :: "('x, int) io_m" where
  "v2201_usage = do { knote ''printf(usage)'' []; ret 0 }"

definition v2201_setinterface :: "string list \<Rightarrow> int u22_m" where
  "v2201_setinterface args =
    (if args = [] \<or> \<not> good_node (hd args) then v2201_usage
     else do {
       fd \<leftarrow> kcall ''open(/dev/uart)'' [];
       if fd < 0 then do { knote ''printf(Open device fail)'' []; ret 1 }
       else do {
         let port = (word_of_int (atoi (drop 9 (hd args))) :: u8);
         (case tl args of
            [] \<Rightarrow> do {
              (r, reply) \<leftarrow> with_reply (v2200_ioctl V2200_GET_OP_MODE (good_arg port));
              if r \<noteq> 0 then v2201_usage
              else do {
                knote ''printf(Now setting)'' [case reply of Some [v] \<Rightarrow> v | _ \<Rightarrow> uint port];
                ret 0 } }
          | arg # _ \<Rightarrow> do {
              let interface = push_bit 4 port OR word_of_int (atoi arg);
              r \<leftarrow> v2200_ioctl V2200_SET_OP_MODE (good_arg interface);
              if r \<noteq> 0 then v2201_usage else ret 0 }) } })"

section \<open>setinterface.c\<close>

text \<open>
  The tool on any driver with the requests \<open>MOXA_SET_OP_MODE\<close> and \<open>MOXA_GET_OP_MODE\<close>.  It does not
  look at the results of the requests; the mode is printed by name for 0 to 4.
\<close>

definition setinterface :: "(int uarg \<Rightarrow> ('x, int) io_m) \<Rightarrow> (int uarg \<Rightarrow> ('x, int) io_m) \<Rightarrow> string list \<Rightarrow> ('x, int) io_m" where
  "setinterface set_op get_op args =
    (if args = [] then do { knote ''printf(usage)'' []; ret 0 }
     else do {
       fd \<leftarrow> kcall ''open(device-node)'' [];
       if fd < 0 then do { knote ''printf(Open device node fail)'' []; ret 1 }
       else do {
         x \<leftarrow> uninitialised ''interface'';
         (case tl args of
            [] \<Rightarrow> do {
              (_, reply) \<leftarrow> with_reply (get_op (good_arg x));
              knote ''printf(Now setting)'' [case reply of Some [v] \<Rightarrow> v | _ \<Rightarrow> x];
              knote ''close'' [fd];
              ret 0 }
          | arg # _ \<Rightarrow> do {
              let interface = (case scan_int arg of Some (v, _) \<Rightarrow> long_to_int v | None \<Rightarrow> x);
              if interface < 0 \<or> 3 < interface then do {
                knote ''close'' [fd];
                knote ''printf(Error interface)'' [];
                ret 0 }
              else do {
                _ \<leftarrow> set_op (good_arg interface);
                knote ''printf(Now setting)'' [interface];
                knote ''close'' [fd];
                ret 0 } }) } })"

section \<open>Runs\<close>

lemma run_with_reply [simp]: "run_state (with_reply m) s =
    ((fst (run_state m s), find_reply (take (length (ihist (snd (run_state m s))) - length (ihist s)) (ihist (snd (run_state m s))))),
     snd (run_state m s))"
  by (simp add: with_reply_def case_prod_beta)

lemma run_uninitialised [simp]: "run_state (uninitialised x) s = (env_k (ienv s) (ihist s) x [], s)"
  by (simp add: uninitialised_def)

lemma sio_note [simp]:
  "has_sio r (s\<lparr>ihist := Kernel_call f as v # ihist s\<rparr>) = has_sio r s"
  "sio_peek r (s\<lparr>ihist := Kernel_call f as v # ihist s\<rparr>) k = sio_peek r s k"
  by (simp_all add: has_sio_def sio_peek_def sio_out_def)

subsection \<open>V2201\<close>

definition ttyS :: "nat \<Rightarrow> string" where
  "ttyS p = ''/dev/ttyS'' @ show_nat p"

lemma good_ttyS: "p < 2 ^ 31 \<Longrightarrow> good_node (ttyS p) \<and> atoi (drop 9 (ttyS p)) = int p"
proof -
  assume "p < 2 ^ 31"
  obtain c cs where "show_nat p = c # cs" "is_digit c"
    using show_nat_digits [of p] by (cases "show_nat p") auto
  then show ?thesis
    using atoi_show_nat [OF \<open>p < 2 ^ 31\<close>] by (simp add: good_node_def ttyS_def)
qed

lemma v2201_get_run:
  assumes "q = 0 \<or> q = 1"
  shows "run_state (v2200_ioctl V2200_GET_OP_MODE (good_arg q)) z
    = (0, z\<lparr>ihist := To_user [uint (mode_nibble (unat q) (keep_opmode z))] # ihist z\<rparr>)"
proof -
  have "\<not> q > 1" using assms by auto
  then show ?thesis
    by (simp add: v2200_ioctl_def v2200_get_op_mode_def mode_nibble_def good_arg_def)
qed

lemma set_mode_env:
  assumes "m \<in> {0, 1, 2, 3}" "p = 0 \<or> p = 1"
  shows "ienv (snd (run_state (v2200_set_op_mode (push_bit 4 p OR m)) z)) = ienv z"
proof -
  have "m = 0 \<or> m = 1 \<or> m = 2 \<or> m = 3" using assms(1) by auto
  moreover have "ienv (snd (run_state (set_auto_direction on ld) y)) = ienv y" for on ld and y :: uart22
    using auto_direction_frame [of on ld y] by auto
  ultimately show ?thesis
    by (simp add: set_mode_run [OF _ assms(2)])
qed

subsection \<open>The 8250 mode driver\<close>

lemma um_get_run:
  assumes "in_table md j"
  shows "run_state (moxa_uart8250_mode_ioctl md IOCTL_GET_8250_MODE (good_arg \<lparr>port_number = j, port_type = y\<rparr>)) z
    = (0, z\<lparr>ihist := To_user [j, case um_mode md (env_b (ienv z) (ihist z) (UART_MODE_IO_ADDRESS md)) j of
          Some i \<Rightarrow> i | None \<Rightarrow> y] #
        In_b (UART_MODE_IO_ADDRESS md) (env_b (ienv z) (ihist z) (UART_MODE_IO_ADDRESS md)) # ihist z\<rparr>)"
  using assms by (simp add: moxa_uart8250_mode_ioctl_def um_get_def good_arg_def Let_def um_mode_def
    cong: option.case_cong)

lemma um_set_env:
  assumes "um_port md n" "ty = 0 \<or> ty = 1 \<or> ty = 2"
  shows "ienv (snd (run_state (moxa_uart8250_mode_ioctl md IOCTL_SET_8250_MODE
    (good_arg \<lparr>port_number = n, port_type = ty\<rparr>)) z)) = ienv z"
proof -
  have "ienv (snd (run_state (AutoDirectionControl md on k) y)) = ienv y" for on k and y :: io
    using direction_only_io only_ioE by (metis io.select_convs(1) io.surjective io.update_convs(2))
  then show ?thesis
    by (simp add: um_set_run [OF assms] good_arg_def)
qed

section \<open>Properties\<close>

text \<open>
  On the V2201, tool and driver together: \<open>setinterface /dev/ttySp m\<close> ends with 0, and
  \<open>setinterface /dev/ttySq\<close> then ends with 0 and prints mode \<open>m\<close> for that port, and for the other
  port the mode it had.
\<close>

theorem v2201_tool_set_get:
  assumes "p < 2" "q < 2" "m < 4" "latches d BASEPORT4 (ienv s)" "has_sio r s" "opens s"
    and "run_state (v2201_setinterface [ttyS p, show_nat m]) s = (x, t)"
    and "run_state (v2201_setinterface [ttyS q]) t = (x', t')"
  shows "x = 0 \<and> x' = 0 \<and> (\<exists>k h. ihist t' = Kernel_call ''printf(Now setting)''
    [if q = p then int m else uint (mode_nibble q (keep_opmode s))] k # h)"
proof -
  define s1 where "s1 = s\<lparr>ihist := Kernel_call ''open(/dev/uart)'' [] (env_k (ienv s) (ihist s) ''open(/dev/uart)'' []) # ihist s\<rparr>"
  have fd: "\<not> env_k (ienv s) h ''open(/dev/uart)'' [] < 0" for h
    using opensD [OF assms(6), of "''open(/dev/uart)''" h] by simp
  have args: "good_node (ttyS p)" "atoi (drop 9 (ttyS p)) = int p" "good_node (ttyS q)" "atoi (drop 9 (ttyS q)) = int q"
      "atoi (show_nat m) = int m"
    using assms(1-3) by (simp_all add: good_ttyS atoi_show_nat)
  obtain y u where set: "run_state (v2200_ioctl V2200_SET_OP_MODE (good_arg (push_bit 4 (of_nat p) OR of_nat m))) s1 = (y, u)"
    by (cases "run_state (v2200_ioctl V2200_SET_OP_MODE (good_arg (push_bit 4 (of_nat p) OR of_nat m))) s1")
  have "(of_nat p :: u8) = 0 \<or> (of_nat p :: u8) = 1" "(of_nat m :: u8) \<in> {0, 1, 2, 3}"
      and q: "(of_nat q :: u8) = 0 \<or> (of_nat q :: u8) = 1" "unat (of_nat q :: u8) = q" "((of_nat q :: u8) = of_nat p) = (q = p)"
    using assms(1-3) by (auto simp: less_Suc_eq numeral_eq_Suc)
  moreover have "latches d BASEPORT4 (ienv s1)" "has_sio r s1" "keep_opmode s1 = keep_opmode s"
    using assms(4,5) by (simp_all add: s1_def)
  ultimately have res: "y = 0"
      "uint (mode_nibble q (keep_opmode u)) = (if q = p then int m else uint (mode_nibble q (keep_opmode s)))"
    using v2200_set_get [of "of_nat p" "of_nat m" d s1 r _ y u "of_nat q" "good_arg (of_nat q)", OF _ _ _ _ _ set
        q(1) _ _ v2201_get_run [OF q(1)]] assms(3)
    by (auto simp: good_arg_def q(2,3) unsigned_of_nat take_bit_nat_eq_self)
  have xt: "x = 0 \<and> t = u"
    using assms(7) set res(1) fd args
    by (simp add: v2201_setinterface_def s1_def case_prod_beta Let_def)
  have "ienv u = ienv s"
    using set_mode_env [OF \<open>(of_nat m :: u8) \<in> {0, 1, 2, 3}\<close> \<open>(of_nat p :: u8) = 0 \<or> (of_nat p :: u8) = 1\<close>, of s1] set
    by (simp add: v2200_ioctl_def good_arg_def s1_def)
  then show ?thesis
    using xt assms(8) fd args res v2201_get_run [OF q(1)]
    by (auto simp: v2201_setinterface_def case_prod_beta Let_def q(2))
qed

definition u22_tool_example :: uart22 where
  "u22_tool_example = uart22_example\<lparr>ienv := (ienv uart22_example)\<lparr>env_k := \<lambda>_ _ _. 3\<rparr>\<rparr>"

lemma v2201_tool_set_get_witness:
  "\<exists>k h. ihist (snd (run_state (v2201_setinterface [ttyS 1])
     (snd (run_state (v2201_setinterface [ttyS 1, show_nat 2]) u22_tool_example))))
   = Kernel_call ''printf(Now setting)'' [2] k # h"
  using v2201_tool_set_get [OF _ _ _ _ _ _ prod.collapse [symmetric] prod.collapse [symmetric],
      of 1 1 2 "\<lambda>_. 0" u22_tool_example "\<lambda>_. 0"]
  by (simp add: u22_tool_example_def uart22_example_def latches_def has_sio_def sio_env_def opens_def)

text \<open>A mode above 15 changes the port: \<open>setinterface /dev/ttyS0 17\<close> sets the second port.\<close>

lemma v2201_mode_changes_port:
  "v2201_setinterface [ttyS 0, show_nat 17] = v2201_setinterface [ttyS 1, show_nat 1]"
  by (simp add: v2201_setinterface_def good_ttyS atoi_show_nat Let_def cong: if_cong)

lemma uartmode_numbers:
  "int n = DEFAULT_PORT_NUMBER md \<or> int n = DEFAULT_PORT_NUMBER md + 1 \<Longrightarrow> atoi (show_nat n) = int n"
  by (auto simp: DEFAULT_PORT_NUMBER_def intro!: atoi_show_nat split: if_splits)

text \<open>One run of \<open>setuartmode\<close>: what it does to the mode register, and what it prints.\<close>

lemma uartmode_set_run:
  assumes "um_port md (int n - 1)" "int n = DEFAULT_PORT_NUMBER md \<or> int n = DEFAULT_PORT_NUMBER md + 1" "ty < 3"
    and "latches d (UART_MODE_IO_ADDRESS md) (ienv s)" "has_sio r s" "opens s" "um_port md j"
    and "run_state (setuartmode md [''-n'', show_nat n, ''-s'', show_nat ty]) s = (x, t)"
  shows "x = 0 \<and> ienv t = ienv s \<and>
    (case um_mode md (last_out d (ihist t) (UART_MODE_IO_ADDRESS md)) j of Some i \<Rightarrow> i | None \<Rightarrow> 0) =
      (if j = int n - 1 then int ty else
       (case um_mode md (last_out d (ihist s) (UART_MODE_IO_ADDRESS md)) j of Some i \<Rightarrow> i | None \<Rightarrow> 0))"
proof -
  let ?a = "UART_MODE_IO_ADDRESS md"
  let ?dev = "''open(/dev/moxa_uart8250_mode)''"
  define s1 where "s1 = s\<lparr>ihist := Kernel_call ''printf(Set)'' [int n, int ty] (env_k (ienv s) (Kernel_call ?dev []
      (env_k (ienv s) (ihist s) ?dev []) # ihist s) ''printf(Set)'' [int n, int ty]) #
    Kernel_call ?dev [] (env_k (ienv s) (ihist s) ?dev []) # ihist s\<rparr>"
  define y where "y = snd (run_state (moxa_uart8250_mode_ioctl md IOCTL_SET_8250_MODE
    (good_arg \<lparr>port_number = int n - 1, port_type = int ty\<rparr>)) s1)"
  have fd: "\<not> env_k (ienv s) h ?dev [] < 0" for h
    using opensD [OF assms(6), of ?dev h] by simp
  have ty: "int ty = 0 \<or> int ty = 1 \<or> int ty = 2" using assms(3) by auto
  have s1: "ienv s1 = ienv s" "latches d ?a (ienv s1)" "has_sio r s1" "last_out d (ihist s1) ?a = last_out d (ihist s) ?a"
    using assms(4,5) by (simp_all add: s1_def has_sio_def)
  have y: "ienv y = ienv s"
    using um_set_env [OF assms(1) ty, of s1] s1(1) by (simp add: y_def)
  have set: "run_state (moxa_uart8250_mode_ioctl md IOCTL_SET_8250_MODE
      (good_arg \<lparr>port_number = int n - 1, port_type = int ty\<rparr>)) s1 = (0, y)"
    unfolding y_def um_set_run [OF assms(1) ty] by (simp add: um_set_run [OF assms(1) ty] good_arg_def)
  have opts: "uartmode_options md (getopt ''hn:s:g'' [] [''-n'', show_nat n, ''-s'', show_nat ty])
        \<lparr>ua_port = \<lparr>port_number = 1, port_type = 0\<rparr>, ua_set = 0, ua_get = 0\<rparr>
      = Some \<lparr>ua_port = \<lparr>port_number = int n, port_type = int ty\<rparr>, ua_set = 1, ua_get = 0\<rparr>"
    using assms(2,3) by (auto simp: uartmode_numbers [OF assms(2)] atoi_show_nat Let_def)
  have "x = 0" "ienv t = ienv s" "last_out d (ihist t) ?a = last_out d (ihist y) ?a"
    using assms(8) [unfolded setuartmode_def opts option.case] set y fd
    by (auto simp: uartmode_set_def case_prod_beta Let_def s1_def)
  moreover have j: "in_table md j"
    using assms(7) by (simp add: um_port_def)
  ultimately show ?thesis
    using um_set_get [OF assms(1) ty assms(7) s1(2,3) _ _ _ _ _ set um_get_run [OF j, of 0]] s1(4) assms(4) y
    by (simp add: good_arg_def latches_def)
qed

lemma uartmode_get_run:
  assumes "in_table md (int j - 1)" "int j = DEFAULT_PORT_NUMBER md \<or> int j = DEFAULT_PORT_NUMBER md + 1"
    and "latches d (UART_MODE_IO_ADDRESS md) (ienv t)" "opens t"
    and "run_state (setuartmode md [''-n'', show_nat j, ''-g'']) t = (x', t')"
  shows "x' = 0 \<and> (\<exists>as k k' h. ihist t' = Kernel_call ''close'' as k # Kernel_call ''printf(Get)'' [int j,
    case um_mode md (last_out d (ihist t) (UART_MODE_IO_ADDRESS md)) (int j - 1) of Some i \<Rightarrow> i | None \<Rightarrow> 0] k' # h)"
proof -
  let ?a = "UART_MODE_IO_ADDRESS md"
  have fd: "\<not> env_k (ienv t) h ''open(/dev/moxa_uart8250_mode)'' [] < 0" for h
    using opensD [OF assms(4), of "''open(/dev/moxa_uart8250_mode)''" h] by simp
  have opts: "uartmode_options md (getopt ''hn:s:g'' [] [''-n'', show_nat j, ''-g''])
        \<lparr>ua_port = \<lparr>port_number = 1, port_type = 0\<rparr>, ua_set = 0, ua_get = 0\<rparr>
      = Some \<lparr>ua_port = \<lparr>port_number = int j, port_type = 0\<rparr>, ua_set = 0, ua_get = 1\<rparr>"
    using assms(2) by (auto simp: uartmode_numbers [OF assms(2)] Let_def)
  have "env_b (ienv t) h ?a = last_out d h ?a" for h
    using assms(3) by (simp add: latches_def)
  then show ?thesis
    using assms(5) [unfolded setuartmode_def opts option.case] fd assms(1)
    by (auto simp: uartmode_get_def case_prod_beta Let_def um_get_run)
qed

text \<open>
  On every model the driver supports but the MC-1100, tool and driver together:
  \<open>setuartmode -n n -s ty\<close> ends with 0, and \<open>setuartmode -n j -g\<close> then ends with 0 and prints type
  \<open>ty\<close> for that port, and for the other port the type its lines showed before.
\<close>

theorem setuartmode_set_get:
  assumes "md \<noteq> UM_MC1100" "int n = DEFAULT_PORT_NUMBER md \<or> int n = DEFAULT_PORT_NUMBER md + 1"
    and "int j = DEFAULT_PORT_NUMBER md \<or> int j = DEFAULT_PORT_NUMBER md + 1" "ty < 3"
    and "latches d (UART_MODE_IO_ADDRESS md) (ienv s)" "has_sio r s" "opens s"
    and "run_state (setuartmode md [''-n'', show_nat n, ''-s'', show_nat ty]) s = (x, t)"
    and "run_state (setuartmode md [''-n'', show_nat j, ''-g'']) t = (x', t')"
  shows "x = 0 \<and> x' = 0 \<and> (\<exists>as k k' h. ihist t' = Kernel_call ''close'' as k # Kernel_call ''printf(Get)''
    [int j, if j = n then int ty else (case um_mode md (last_out d (ihist s) (UART_MODE_IO_ADDRESS md)) (int j - 1) of
       Some i \<Rightarrow> i | None \<Rightarrow> 0)] k' # h)"
proof -
  have port: "um_port md (int n - 1)" "um_port md (int j - 1)" "in_table md (int j - 1)"
    using assms(1-3) by (cases md; auto simp: um_port_def in_table_def DEFAULT_PORT_NUMBER_def)+
  note set = uartmode_set_run [OF port(1) assms(2,4-7) port(2) assms(8)]
  have t: "opens t" "latches d (UART_MODE_IO_ADDRESS md) (ienv t)"
    using set assms(5,7) by (simp_all add: opens_def)
  show ?thesis
    using uartmode_get_run [OF port(3) assms(3) t(2,1) assms(9)] set by simp
qed

lemma setuartmode_set_get_witness:
  "\<exists>as k k' h. ihist (snd (run_state (setuartmode UM_DA820 [''-n'', show_nat 2, ''-g''])
     (snd (run_state (setuartmode UM_DA820 [''-n'', show_nat 2, ''-s'', show_nat 1])
       (um_example\<lparr>ienv := (ienv um_example)\<lparr>env_k := \<lambda>_ _ _. 3\<rparr>\<rparr>)))))
   = Kernel_call ''close'' as k # Kernel_call ''printf(Get)'' [2, 1] k' # h"
  using setuartmode_set_get [OF _ _ _ _ _ _ _ prod.collapse [symmetric] prod.collapse [symmetric],
      of UM_DA820 2 2 1 "\<lambda>_. 0" "um_example\<lparr>ienv := (ienv um_example)\<lparr>env_k := \<lambda>_ _ _. 3\<rparr>\<rparr>" "\<lambda>_. 0"]
  by (simp add: um_example_def latches_def has_sio_def sio_env_def opens_def DEFAULT_PORT_NUMBER_def del: getopt.simps)

text \<open>\<open>setinterface\<close> prints the mode it was asked for and ends with 0 whatever the driver answered.\<close>

lemma setinterface_ignores_result:
  assumes "m < 4" "opens s"
  shows "fst (run_state (setinterface set_op get_op [node, show_nat m]) s) = 0 \<and>
    (\<exists>as k k' h. ihist (snd (run_state (setinterface set_op get_op [node, show_nat m]) s)) =
       Kernel_call ''close'' as k # Kernel_call ''printf(Now setting)'' [int m] k' # h)"
proof -
  have "\<not> env_k (ienv s) (ihist s) ''open(device-node)'' [] < 0"
    using opensD [OF assms(2), of "''open(device-node)''" "ihist s"] by simp
  moreover have "scan_int (show_nat m) = Some (int m, [])" "long_to_int (int m) = int m"
    using scan_show_nat [of "[]" m] assms(1) by (simp_all add: long_to_int_id)
  ultimately show ?thesis
    using assms(1) by (simp add: setinterface_def case_prod_beta Let_def)
qed

text \<open>
  On a port of the serial driver \<open>setinterface node m\<close> ends with 0, and \<open>setinterface node\<close> then prints
  mode \<open>m\<close>.
\<close>

lemma setinterface_set_get:
  assumes "latching d (ienv s)" "\<And>h. env_k (ienv s) h ''access_ok'' [] \<noteq> 0" "opens s" "m < 4"
    and "run_state (setinterface set_op_mode get_op_mode [node, show_nat m]) s = (x, t)"
    and "run_state (setinterface set_op_mode get_op_mode [node]) t = (x', t')"
  shows "x = 0 \<and> x' = 0 \<and> (\<exists>as k k' h. ihist t' =
    Kernel_call ''close'' as k # Kernel_call ''printf(Now setting)'' [int m] k' # h)"
proof -
  define z where "z = s\<lparr>ihist := Kernel_call ''open(device-node)'' []
    (env_k (ienv s) (ihist s) ''open(device-node)'' []) # ihist s\<rparr>"
  have fd: "\<not> env_k (ienv s) h ''open(device-node)'' [] < 0" for h
    using opensD [OF assms(3), of "''open(device-node)''" h] by simp
  have arg: "scan_int (show_nat m) = Some (int m, [])" "long_to_int (int m) = int m"
    using scan_show_nat [of "[]" m] assms(4) by (simp_all add: long_to_int_id)
  have u: "0 \<le> from_user (good_arg (int m))" "from_user (good_arg (int m)) \<le> 3" "from_user (good_arg (int m)) = int m"
    using assms(4) by (simp_all add: from_user_def good_arg_def)
  obtain y where y: "run_state (set_op_mode (good_arg (int m))) z = (0, y)" "ienv y = ienv s" "i_port y = i_port s"
      "i_opmode_ioaddr y = i_opmode_ioaddr s"
      "last_out d (ihist y) (i_opmode_ioaddr s)
        = op_update (i_port s mod 4) (int m) (last_out d (ihist s) (i_opmode_ioaddr s))"
    using set_op_mode_run [OF _ u(1,2), of z d] assms(1,2) u(3) by (auto simp: z_def)
  have t: "x = 0" "ienv t = ienv s" "i_port t = i_port s" "i_opmode_ioaddr t = i_opmode_ioaddr s"
      "last_out d (ihist t) = last_out d (ihist y)"
    using assms(4,5) fd arg y by (auto simp: setinterface_def case_prod_beta Let_def z_def)
  have field: "drop_bit (i_port s mod 4 * 2) (last_out d (ihist y) (i_opmode_ioaddr s)) AND 3 = (word_of_int (int m) :: u8)"
    using op_field_update [of "i_port s mod 4" "i_port s mod 4" "int m"] assms(4) y(5) by (simp add: op_field_def)
  have "uint (word_of_int (int m) :: u8) = int m"
    using assms(4) by (simp add: unsigned_of_nat take_bit_nat_eq_self)
  moreover have "env_b (ienv s) h q = last_out d h q" for h q
    using assms(1) by (simp add: latching_def)
  ultimately show ?thesis
    using assms(2,6) t fd field
    by (auto simp: setinterface_def get_op_mode_def access_ok_def case_prod_beta Let_def good_arg_def)
qed

end
