(* ===== verification/Usb_Tools.thy ===== *)
theory Usb_Tools
  imports Serial_Tools Mxu11_Device
begin

text \<open>
  The tool \<open>user/v2403_setinterface/setinterface.c\<close> on the requests \<open>TIOCGSERIAL\<close> and \<open>TIOCSSERIAL\<close> of
  the USB serial driver: the interface is the port of the structure.  The node is that of a port
  that is open already, so opening it again does not reach the driver.
\<close>

section \<open>setinterface.c of the V2403\<close>

text \<open>The structure \<open>TIOCGSERIAL\<close> fills: the members the driver does not set are zero.\<close>

fun serinfo_of :: "int list \<Rightarrow> serial_struct option" where
  "serinfo_of [ty, line, port, flags, fsize, baud, closing] = Some \<lparr>ser_type = ty, ser_port = nat port, ser_irq = 0,
     ser_flags = word_of_int flags, ser_baud_base = baud, ser_close_delay = 0, ser_closing_wait = closing,
     ser_custom_divisor = 0\<rparr>"
| "serinfo_of _ = None"

definition request_serinfo :: "(int \<times> serial_struct option) u1_m" where
  "request_serinfo = do {
     (r, reply) \<leftarrow> with_reply (mxu1_ioctl [] (U1_TIOCGSERIAL (good_arg ())));
     ret (the r, case reply of Some ws \<Rightarrow> serinfo_of ws | None \<Rightarrow> None) }"

text \<open>\<open>get_serial\<close> stores nothing when it fails.\<close>

definition get_serial :: "int option u1_m" where
  "get_serial = do {
     fd \<leftarrow> kcall ''open(device)'' [];
     if fd < 0 then do { knote ''perror'' []; ret None }
     else do {
       (r, info) \<leftarrow> request_serinfo;
       if r < 0 then do { knote ''perror'' []; knote ''close'' [fd]; ret None }
       else do { knote ''close'' [fd]; ret (map_option (\<lambda>i. int (ser_port i)) info) } } }"

text \<open>The status the program exits with when a step of \<open>set_serial\<close> fails.\<close>

definition set_serial :: "int \<Rightarrow> int option u1_m" where
  "set_serial mode = do {
     fd \<leftarrow> kcall ''open(device)'' [];
     if fd < 0 then do { knote ''perror'' []; ret (Some 201) }
     else do {
       (r, info) \<leftarrow> request_serinfo;
       if r < 0 then do { knote ''perror'' []; ret (Some 1) }
       else do {
         r \<leftarrow> mxu1_ioctl [] (U1_TIOCSSERIAL (good_arg ((the info)\<lparr>ser_port := nat mode\<rparr>)));
         if the r < 0 then do { knote ''perror'' []; ret (Some 1) }
         else do { knote ''close'' [fd]; ret None } } } }"

definition v2403_setinterface :: "string list \<Rightarrow> int u1_m" where
  "v2403_setinterface args =
    (if args = [] then do { knote ''printf(usage)'' []; ret 0 }
     else do {
       fd \<leftarrow> kcall ''open(device)'' [];
       if fd < 0 then do { knote ''printf(Open device node fail)'' []; ret 0 }
       else do {
         x \<leftarrow> uninitialised ''interface'';
         (case tl args of
            [] \<Rightarrow> do {
              v \<leftarrow> get_serial;
              knote ''printf(Now setting)'' [case v of Some v \<Rightarrow> v | None \<Rightarrow> x];
              knote ''close'' [fd];
              ret 0 }
          | arg # _ \<Rightarrow> do {
              let interface = (case scan_int arg of Some (v, _) \<Rightarrow> long_to_int v | None \<Rightarrow> x);
              if interface < 0 \<or> 3 < interface then do {
                knote ''close'' [fd];
                knote ''printf(Error interface)'' [];
                ret 0 }
              else do {
                r \<leftarrow> set_serial interface;
                (case r of Some status \<Rightarrow> ret status
                 | None \<Rightarrow> do {
                     knote ''printf(Now setting)'' [interface];
                     knote ''close'' [fd];
                     ret 0 }) } }) } })"

section \<open>Property\<close>

lemmas get_info_defs = request_serinfo_def mxu1_ioctl_def u1_some_def mxu1_get_serial_info_def good_arg_def
  case_prod_beta

lemma get_info_run:
  assumes "has_port z"
  shows "fst (run_state request_serinfo z) = (0, Some \<lparr>ser_type = PORT_16550A, ser_port = unat (mxp_user_get_uart_mode z),
    ser_irq = 0, ser_flags = mxp_flags z, ser_baud_base = env_k (ienv z) (ihist z) ''tty_get_baud_rate'' [],
    ser_close_delay = 0, ser_closing_wait = mxp_closing_wait z, ser_custom_divisor = 0\<rparr>)"
  using assms by (simp add: get_info_defs)

lemma get_info_frame:
  assumes "has_port z"
  shows "\<exists>e f. snd (run_state request_serinfo z) = z\<lparr>ihist := e # f # ihist z\<rparr>"
  using assms by (simp add: get_info_defs) (intro exI, rule refl)

lemma get_serial_run:
  assumes "has_port s" "opens s"
  shows "fst (run_state get_serial s) = Some (uint (mxp_user_get_uart_mode s))"
proof -
  have "\<not> env_k (ienv s) (ihist s) ''open(device)'' [] < 0"
    using opensD [OF assms(2), of "''open(device)''" "ihist s"] by simp
  then show ?thesis
    using assms(1) by (simp add: get_serial_def case_prod_beta get_info_run)
qed

lemma set_serial_run:
  assumes "has_port s" "opens s"
  shows "if supported (mxd_model_name s) (int m)
    then fst (run_state (set_serial (int m)) s) = None \<and>
      same_mode (if rs232_only (mxd_model_name s) then mxp_user_get_uart_mode s else of_nat m)
        (mxd_model_name s) (ienv s) (snd (run_state (set_serial (int m)) s))
    else fst (run_state (set_serial (int m)) s) = Some 1"
proof -
  define z where "z = s\<lparr>ihist := Kernel_call ''open(device)'' [] (env_k (ienv s) (ihist s) ''open(device)'' []) # ihist s\<rparr>"
  have fd: "\<not> env_k (ienv s) (ihist s) ''open(device)'' [] < 0"
    using opensD [OF assms(2), of "''open(device)''" "ihist s"] by simp
  obtain e f where frame: "snd (run_state request_serinfo z) = z\<lparr>ihist := e # f # ihist z\<rparr>"
    using get_info_frame [of z] assms(1) by (auto simp: z_def)
  define w where "w = good_arg ((the (snd (fst (run_state request_serinfo z))))\<lparr>ser_port := m\<rparr>)"
  define y where "y = z\<lparr>ihist := e # f # ihist z\<rparr>"
  have y: "has_port y" "mxd_model_name y = mxd_model_name s" "ienv y = ienv s"
      "mxp_user_get_uart_mode y = mxp_user_get_uart_mode s"
    using assms(1) by (simp_all add: y_def z_def)
  have w: "ua_left w = 0" "ser_port (ua_in w) = m"
    by (simp_all add: w_def good_arg_def)
  obtain r u where set: "run_state (mxu1_ioctl [] (U1_TIOCSSERIAL w)) y = (r, u)"
    by (cases "run_state (mxu1_ioctl [] (U1_TIOCSSERIAL w)) y")
  have first: "fst (fst (run_state request_serinfo z)) = 0"
    using assms(1) by (simp add: get_info_run z_def)
  have run: "run_state (set_serial (int m)) s = (if the r < 0 then run_state (do { knote ''perror'' []; ret (Some 1) }) u
      else run_state (do { knote ''close'' [env_k (ienv s) (ihist s) ''open(device)'' []]; ret None }) u)"
    using fd first frame set
    by (simp add: set_serial_def case_prod_beta z_def [symmetric] w_def [symmetric] y_def [symmetric])
  show ?thesis
    using set_info_effect [OF y(1) w(1), of "[]", unfolded w(2) y set]
    by (auto simp: run same_mode_def split: if_splits)
qed

text \<open>
  On an open port of a USB adapter, tool and driver together: for an interface the model
  supports \<open>setinterface node m\<close> ends with 0, and \<open>setinterface node\<close> then ends with 0 and prints it;
  for another one of the four the first ends with 1.
\<close>

theorem v2403_tool_set_get:
  assumes "has_port s" "opens s" "m < 4" "rs232_only (mxd_model_name s) \<longrightarrow> mxp_user_get_uart_mode s = 0"
    and "run_state (v2403_setinterface [node, show_nat m]) s = (x, t)"
    and "run_state (v2403_setinterface [node]) t = (x', t')"
  shows "x = (if supported (mxd_model_name s) (int m) then 0 else 1) \<and>
    (x = 0 \<longrightarrow> x' = 0 \<and> (\<exists>as k k' h. ihist t' =
       Kernel_call ''close'' as k # Kernel_call ''printf(Now setting)'' [int m] k' # h))"
proof -
  have fd: "\<not> env_k (ienv s) h ''open(device)'' [] < 0" for h
    using opensD [OF assms(2), of "''open(device)''" h] by simp
  have arg: "scan_int (show_nat m) = Some (int m, [])" "long_to_int (int m) = int m"
    using scan_show_nat [of "[]" m] assms(3) by (simp_all add: long_to_int_id)
  define z where "z = s\<lparr>ihist := Kernel_call ''open(device)'' [] (env_k (ienv s) (ihist s) ''open(device)'' []) # ihist s\<rparr>"
  have z: "has_port z" "opens z" "mxd_model_name z = mxd_model_name s" "ienv z = ienv s"
      "mxp_user_get_uart_mode z = mxp_user_get_uart_mode s"
    using assms(1,2) by (simp_all add: z_def opens_def)
  obtain r u where set: "run_state (set_serial (int m)) z = (r, u)"
    by (cases "run_state (set_serial (int m)) z")
  note eff = set_serial_run [OF z(1,2), of m, unfolded set z]
  have main: "x = (case r of None \<Rightarrow> 0 | Some status \<Rightarrow> status)"
      "r = None \<Longrightarrow> \<exists>e f. t = u\<lparr>ihist := e # f # ihist u\<rparr>"
    using assms(3,5) set fd arg
    by (auto simp: v2403_setinterface_def case_prod_beta Let_def z_def intro!: exI split: option.splits)
  show ?thesis
  proof (cases "supported (mxd_model_name s) (int m)")
    case False
    then show ?thesis
      using eff main(1) by simp
  next
    case True
    then have u: "has_port u" "ienv u = ienv s" "uint (mxp_user_get_uart_mode u) = int m" and r: "r = None"
      using eff assms(3,4) by (auto simp: same_mode_def supported_def uint_word_of_int take_bit_int_eq_self unsigned_of_nat split: if_splits)
    obtain e f where t: "t = u\<lparr>ihist := e # f # ihist u\<rparr>"
      using main(2) [OF r] by blast
    define z' where "z' = t\<lparr>ihist := Kernel_call ''open(device)'' [] (env_k (ienv t) (ihist t) ''open(device)'' []) # ihist t\<rparr>"
    have "has_port z'" "opens z'" "uint (mxp_user_get_uart_mode z') = int m" "ienv t = ienv s"
      using u assms(2) by (simp_all add: z'_def t opens_def)
    then show ?thesis
      using assms(6) fd get_serial_run [of z'] True main(1) r
      by (auto simp: v2403_setinterface_def case_prod_beta Let_def z'_def)
  qed
qed

lemma v2403_tool_set_get_witness:
  "fst (run_state (v2403_setinterface [''/dev/ttyM0'', show_nat 2])
     (u1_example\<lparr>ienv := (ienv u1_example)\<lparr>env_k := \<lambda>_ _ _. 3\<rparr>\<rparr>)) = 0"
  using v2403_tool_set_get [OF _ _ _ _ prod.collapse [symmetric] prod.collapse [symmetric],
      of "u1_example\<lparr>ienv := (ienv u1_example)\<lparr>env_k := \<lambda>_ _ _. 3\<rparr>\<rparr>" 2 "''/dev/ttyM0''"]
  by (simp add: u1_example_def opens_def supported_def rs232_only_def rs485_only_def)

end
