(* ===== verification/Muestty_Conf.thy ===== *)
theory Muestty_Conf
  imports Serial_Tools Mxu_Ioctl
begin

text \<open>
  The configuration tool \<open>muestty\<close> of the serial boards for PCI Express,
  \<open>user/muestty_utility/conf/conftool.c\<close>, on the requests of a port of \<open>Mxu_Ioctl\<close>.  The result is the
  exit status; a printed line is a call of \<open>printf\<close> with its values.
\<close>

section \<open>conftool.c\<close>

text \<open>The arguments that are not options: \<open>argv [optind]\<close> is the first of them after \<open>getopt\<close> ended.\<close>

function operands :: "string \<Rightarrow> string \<Rightarrow> string list \<Rightarrow> string list" where
  "operands os [] [] = []"
| "operands os [] (a # rest) =
    (if a = ''--'' then rest
     else if take 1 a = ''-'' \<and> a \<noteq> ''-'' then operands os (tl a) rest
     else a # operands os [] rest)"
| "operands os (c # cs) rest = (case find_opt os c of
     None \<Rightarrow> operands os cs rest
   | Some No_arg \<Rightarrow> operands os cs rest
   | Some Optional_arg \<Rightarrow> operands os [] rest
   | Some Required_arg \<Rightarrow> if cs \<noteq> [] then operands os [] rest
       else (case rest of [] \<Rightarrow> [] | b # bs \<Rightarrow> operands os [] bs))"
  by pat_completeness auto
termination
  by (relation "measure (\<lambda>(os, cs, rest). length cs + sum_list (map (\<lambda>a. Suc (length a)) rest))") auto

abbreviation "OPT_OPEN \<equiv> 1 :: int"
abbreviation "OPT_HELP \<equiv> 2 :: int"
abbreviation "OPT_SET_INTERFACE \<equiv> 4 :: int"
abbreviation "OPT_GET_INTERFACE \<equiv> 8 :: int"
abbreviation "OPT_SET_TERM \<equiv> 16 :: int"
abbreviation "OPT_GET_TERM \<equiv> 32 :: int"

text \<open>\<open>parm\<close> is \<open>None\<close> as long as it is not initialised.\<close>

record muestty_args =
  mu_opt :: int
  mu_parm :: "string option"

fun muestty_options :: "(char \<times> string option) list \<Rightarrow> muestty_args \<Rightarrow> muestty_args" where
  "muestty_options [] a = a"
| "muestty_options ((c, optarg) # os) a = muestty_options os
    (if c = CHR ''i'' then a\<lparr>mu_opt := mu_opt a OR (OPT_OPEN OR OPT_SET_INTERFACE), mu_parm := optarg\<rparr>
     else if c = CHR ''t'' then a\<lparr>mu_opt := mu_opt a OR (OPT_OPEN OR OPT_SET_TERM), mu_parm := optarg\<rparr>
     else if c = CHR ''g'' then a\<lparr>mu_opt := mu_opt a OR (OPT_OPEN OR OPT_GET_INTERFACE OR OPT_GET_TERM)\<rparr>
     else if c = CHR ''h'' \<or> c = CHR ''?'' then a\<lparr>mu_opt := mu_opt a OR OPT_HELP\<rparr>
     else a)"

text \<open>None of the four requests waits.\<close>

definition mu_ioctl :: "bool \<Rightarrow> mxu_cmd \<Rightarrow> int mxu_m" where
  "mu_ioctl v2616a cmd = do {
     r \<leftarrow> u_ioctl_port v2616a (ret ()) 0 cmd;
     ret (case r of Some x \<Rightarrow> x | None \<Rightarrow> 0) }"

definition mx_open_device :: "string option \<Rightarrow> int mxu_m" where
  "mx_open_device dev = (case dev of
     None \<Rightarrow> do { knote ''printf(Open device error)'' [-1]; ret (-1) }
   | Some _ \<Rightarrow> do {
       fd \<leftarrow> kcall ''open(device)'' [];
       if fd < 0 then do { knote ''printf(Open device error)'' [fd]; ret (-1) } else ret fd })"

definition interface_code :: "string \<Rightarrow> int" where
  "interface_code parm =
    (if take 5 parm = ''RS232'' then 0x00
     else if take 5 parm = ''RS422'' then 0x01
     else if take 8 parm = ''RS4852W'' then 0x0f
     else if take 8 parm = ''RS4854W'' then 0x0b
     else -1)"

definition mu_set_interface :: "bool \<Rightarrow> string \<Rightarrow> int mxu_m" where
  "mu_set_interface v2616a parm = do {
     r \<leftarrow> mu_ioctl v2616a (SMARTIO_PUART_SET_INTERFACE (word_of_int (interface_code parm)));
     if r < 0 then do { knote ''printf(Invalid operation)'' []; ret (-5) }
     else do { knote ''printf(Set interface ok)'' []; ret 0 } }"

definition terminator_code :: "string \<Rightarrow> int" where
  "terminator_code parm = (if take 7 parm = ''NONTERM'' then 0 else if take 7 parm = ''120TERM'' then 1 else -1)"

definition mu_set_terminator :: "bool \<Rightarrow> string \<Rightarrow> int mxu_m" where
  "mu_set_terminator v2616a parm = do {
     r \<leftarrow> mu_ioctl v2616a (SMARTIO_PUART_SET_TERMINATOR (word_of_int (terminator_code parm)));
     if r < 0 then do { knote ''printf(Invalid operation)'' []; ret (-1) }
     else do { knote ''printf(Set interface ok)'' []; ret 0 } }"

text \<open>\<open>mode\<close> is an \<open>int\<close> that starts as 0; the driver writes its lowest byte.\<close>

definition low_byte :: "int list option \<Rightarrow> int \<Rightarrow> int" where
  "low_byte w mode = (case w of Some [v] \<Rightarrow> v | _ \<Rightarrow> mode)"

definition mu_get_interface_term :: "bool \<Rightarrow> unit mxu_m" where
  "mu_get_interface_term v2616a = do {
     (_, answer) \<leftarrow> with_reply (mu_ioctl v2616a (SMARTIO_PUART_GET_INTERFACE (good_arg ())));
     let mode = low_byte answer 0;
     whenM (mode = 0x00 \<or> mode = 0x01 \<or> mode = 0x0f \<or> mode = 0x0b) (knote ''printf(interface)'' [mode]);
     (_, answer) \<leftarrow> with_reply (mu_ioctl v2616a (SMARTIO_PUART_GET_TERMINATOR (good_arg ())));
     let mode = low_byte answer mode;
     whenM (mode = 0 \<or> mode = 1) (knote ''printf(terminator)'' [mode]) }"

text \<open>\<open>main\<close> after the loop over the options.\<close>

definition muestty_run :: "bool \<Rightarrow> muestty_args \<Rightarrow> string option \<Rightarrow> int mxu_m" where
  "muestty_run v2616a a dev =
    (let opt = (if mu_opt a = 0 then OPT_HELP else mu_opt a)
     in do {
       fd \<leftarrow> (if opt AND OPT_OPEN \<noteq> 0 then mx_open_device dev else uninitialised ''fd'');
       if opt AND OPT_OPEN \<noteq> 0 \<and> fd < 0 then ret 0
       else do {
         (if opt AND OPT_SET_INTERFACE \<noteq> 0 then do { _ \<leftarrow> mu_set_interface v2616a (the (mu_parm a)); ret () }
          else if opt AND OPT_SET_TERM \<noteq> 0 then do { _ \<leftarrow> mu_set_terminator v2616a (the (mu_parm a)); ret () }
          else if opt AND OPT_GET_INTERFACE \<noteq> 0 \<and> opt AND OPT_GET_TERM \<noteq> 0 then mu_get_interface_term v2616a
          else whenM (opt AND OPT_HELP \<noteq> 0) (knote ''printf(Usage)'' []));
         knote ''close'' [fd];
         ret 0 } })"

definition muestty :: "bool \<Rightarrow> string list \<Rightarrow> int mxu_m" where
  "muestty v2616a args =
    muestty_run v2616a (muestty_options (getopt ''i:t:gh'' [] args) \<lparr>mu_opt = 0, mu_parm = None\<rparr>)
      (case operands ''i:t:gh'' [] args of [] \<Rightarrow> None | d # _ \<Rightarrow> Some d)"

section \<open>Runs\<close>

lemma find_opt_conf:
  "find_opt ''i:t:gh'' CHR ''i'' = Some Required_arg" "find_opt ''i:t:gh'' CHR ''t'' = Some Required_arg"
  "find_opt ''i:t:gh'' CHR ''g'' = Some No_arg"
  by (simp_all add: eval_nat_numeral)

lemma device_argument:
  assumes "take 1 dev \<noteq> ''-''"
  shows "getopt os [] [dev] = []" "operands os [] [dev] = [dev]"
  using assms by (cases dev; auto)+

lemma parse_set:
  assumes "take 1 dev \<noteq> ''-''" "c = CHR ''i'' \<or> c = CHR ''t''"
  shows "getopt ''i:t:gh'' [] [[CHR ''-'', c], parm, dev] = [(c, Some parm)]"
    "operands ''i:t:gh'' [] [[CHR ''-'', c], parm, dev] = [dev]"
proof -
  have "find_opt ''i:t:gh'' c = Some Required_arg" "c \<noteq> CHR ''-''"
    using assms(2) find_opt_conf by (elim disjE; simp del: find_opt.simps)+
  then show "getopt ''i:t:gh'' [] [[CHR ''-'', c], parm, dev] = [(c, Some parm)]"
    "operands ''i:t:gh'' [] [[CHR ''-'', c], parm, dev] = [dev]"
    using device_argument [OF assms(1), of "''i:t:gh''"] by (simp_all del: find_opt.simps)
qed

lemma parse_get:
  assumes "take 1 dev \<noteq> ''-''"
  shows "getopt ''i:t:gh'' [] [''-g'', dev] = [(CHR ''g'', None)]"
    "operands ''i:t:gh'' [] [''-g'', dev] = [dev]"
  using device_argument [OF assms, of "''i:t:gh''"] find_opt_conf(3) by (simp_all del: find_opt.simps)

abbreviation port_ok :: "mxuport \<Rightarrow> bool" where
  "port_ok s \<equiv> \<not> bit (t_flags (i_t s)) TTY_IO_ERROR"

lemma mu_ioctl_run:
  assumes "port_ok s"
  shows "run_state (mu_ioctl v (SMARTIO_PUART_SET_INTERFACE w)) s = run_state (mx_set_interface v w) s"
    "run_state (mu_ioctl v (SMARTIO_PUART_SET_TERMINATOR w)) s = run_state (mx_set_terminator w) s"
    "run_state (mu_ioctl v (SMARTIO_PUART_GET_INTERFACE (good_arg ()))) s = (0, s\<lparr>ihist := To_user [uint (u_UIR s)] # ihist s\<rparr>)"
    "run_state (mu_ioctl v (SMARTIO_PUART_GET_TERMINATOR (good_arg ()))) s =
      (0, s\<lparr>ihist := To_user [uint (u_terminator_flag s)] # ihist s\<rparr>)"
proof -
  have port: "run_state (u_ioctl_port v m n (SMARTIO_PUART_SET_INTERFACE w)) s = run_state (u_port_cmd v m n (SMARTIO_PUART_SET_INTERFACE w)) s"
      "run_state (u_ioctl_port v m n (SMARTIO_PUART_SET_TERMINATOR w)) s = run_state (u_port_cmd v m n (SMARTIO_PUART_SET_TERMINATOR w)) s"
      "run_state (u_ioctl_port v m n (SMARTIO_PUART_GET_INTERFACE u)) s = run_state (u_port_cmd v m n (SMARTIO_PUART_GET_INTERFACE u)) s"
      "run_state (u_ioctl_port v m n (SMARTIO_PUART_GET_TERMINATOR u)) s = run_state (u_port_cmd v m n (SMARTIO_PUART_GET_TERMINATOR u)) s"
    for m n u
    using assms by (simp_all add: u_ioctl_port_def)
  show "run_state (mu_ioctl v (SMARTIO_PUART_SET_INTERFACE w)) s = run_state (mx_set_interface v w) s"
    "run_state (mu_ioctl v (SMARTIO_PUART_SET_TERMINATOR w)) s = run_state (mx_set_terminator w) s"
    by (simp_all add: mu_ioctl_def port u_port_cmd_def u_some_def split: prod.split)
  show "run_state (mu_ioctl v (SMARTIO_PUART_GET_INTERFACE (good_arg ()))) s = (0, s\<lparr>ihist := To_user [uint (u_UIR s)] # ihist s\<rparr>)"
    "run_state (mu_ioctl v (SMARTIO_PUART_GET_TERMINATOR (good_arg ()))) s =
      (0, s\<lparr>ihist := To_user [uint (u_terminator_flag s)] # ihist s\<rparr>)"
    by (simp_all add: mu_ioctl_def port u_port_cmd_def u_some_def u_reply_def good_arg_def)
qed

lemma set_interface_effect:
  assumes "run_state (mx_set_interface v w) s = (r, t)"
  shows "r = (if w \<in> set interfaces \<and> \<not> fixed_interface v (u_board_type s) w then 0 else -EINVAL)"
    "u_UIR t = (if w \<in> set interfaces \<and> \<not> fixed_interface v (u_board_type s) w then w else u_UIR s)"
    "ienv t = ienv s" "i_t t = i_t s" "u_terminator_flag t = u_terminator_flag s"
  using assms by (auto simp: mx_set_interface_def split: if_splits)

text \<open>What the query prints.\<close>

lemma get_interface_term_run:
  assumes "port_ok s" "u_UIR s \<in> set interfaces" "u_terminator_flag s = 0 \<or> u_terminator_flag s = 1"
  shows "\<exists>k k'. snd (run_state (mu_get_interface_term v) s) = s\<lparr>ihist :=
       Kernel_call ''printf(terminator)'' [uint (u_terminator_flag s)] k # To_user [uint (u_terminator_flag s)] #
       Kernel_call ''printf(interface)'' [uint (u_UIR s)] k' # To_user [uint (u_UIR s)] # ihist s\<rparr>"
proof -
  have modes: "uint (u_UIR s) = 0 \<or> uint (u_UIR s) = 1 \<or> uint (u_UIR s) = 15 \<or> uint (u_UIR s) = 11"
      "uint (u_terminator_flag s) = 0 \<or> uint (u_terminator_flag s) = 1"
    using assms(2,3) by (auto simp: interfaces_def)
  have reply1: "run_state (with_reply (mu_ioctl v (SMARTIO_PUART_GET_INTERFACE (good_arg ())))) s
      = ((0, Some [uint (u_UIR s)]), s\<lparr>ihist := To_user [uint (u_UIR s)] # ihist s\<rparr>)"
    by (simp add: mu_ioctl_run(3) [OF assms(1)])
  have reply2: "run_state (with_reply (mu_ioctl v (SMARTIO_PUART_GET_TERMINATOR (good_arg ())))) (s\<lparr>ihist := h\<rparr>)
      = ((0, Some [uint (u_terminator_flag s)]), s\<lparr>ihist := To_user [uint (u_terminator_flag s)] # h\<rparr>)" for h
    using mu_ioctl_run(4) [of "s\<lparr>ihist := h\<rparr>" v] assms(1) by simp
  show ?thesis
    using modes by (simp add: mu_get_interface_term_def reply1 reply2 low_byte_def Let_def del: run_with_reply) (intro exI, rule refl)
qed

lemma muestty_get_run:
  assumes "port_ok s" "opens s" "take 1 dev \<noteq> ''-''" "u_UIR s \<in> set interfaces" "u_terminator_flag s = 0 \<or> u_terminator_flag s = 1"
    and "run_state (muestty v [''-g'', dev]) s = (x, t)"
  shows "x = 0 \<and> (\<exists>fd c k k' h. ihist t = Kernel_call ''close'' fd c # Kernel_call ''printf(terminator)'' [uint (u_terminator_flag s)] k #
       To_user [uint (u_terminator_flag s)] # Kernel_call ''printf(interface)'' [uint (u_UIR s)] k' # h)"
proof -
  define z where "z = s\<lparr>ihist := Kernel_call ''open(device)'' [] (env_k (ienv s) (ihist s) ''open(device)'' []) # ihist s\<rparr>"
  have fd: "\<not> env_k (ienv s) (ihist s) ''open(device)'' [] < 0"
    using opensD [OF assms(2), of "''open(device)''" "ihist s"] by simp
  have main: "muestty v [''-g'', dev] = muestty_run v \<lparr>mu_opt = 41, mu_parm = None\<rparr> (Some dev)"
    unfolding muestty_def parse_get [OF assms(3)] by simp
  obtain k k' where run: "snd (run_state (mu_get_interface_term v) z) = z\<lparr>ihist :=
       Kernel_call ''printf(terminator)'' [uint (u_terminator_flag z)] k # To_user [uint (u_terminator_flag z)] #
       Kernel_call ''printf(interface)'' [uint (u_UIR z)] k' # To_user [uint (u_UIR z)] # ihist z\<rparr>"
    using get_interface_term_run [of z v] assms(1,4,5) by (auto simp: z_def)
  show ?thesis
    using assms(6) fd run
    by (simp add: main muestty_run_def mx_open_device_def case_prod_beta z_def [symmetric])
      (auto simp: z_def)
qed

lemma muestty_set_run:
  assumes "port_ok s" "opens s" "take 1 dev \<noteq> ''-''"
    and "run_state (muestty v [''-i'', parm, dev]) s = (x, t)"
    and "run_state (mx_set_interface v (word_of_int (interface_code parm)))
      (s\<lparr>ihist := Kernel_call ''open(device)'' [] (env_k (ienv s) (ihist s) ''open(device)'' []) # ihist s\<rparr>) = (r, z)"
  shows "x = 0 \<and> (\<exists>as k f k'. t = z\<lparr>ihist := Kernel_call ''close'' as k # Kernel_call f [] k' # ihist z\<rparr>)"
proof -
  define z0 where "z0 = s\<lparr>ihist := Kernel_call ''open(device)'' [] (env_k (ienv s) (ihist s) ''open(device)'' []) # ihist s\<rparr>"
  have fd: "\<not> env_k (ienv s) (ihist s) ''open(device)'' [] < 0"
    using opensD [OF assms(2), of "''open(device)''" "ihist s"] by simp
  have main: "muestty v [''-i'', parm, dev] = muestty_run v \<lparr>mu_opt = 5, mu_parm = Some parm\<rparr> (Some dev)"
    unfolding muestty_def parse_set [OF assms(3) disjI1 [OF refl]] by simp
  have "run_state (mu_ioctl v (SMARTIO_PUART_SET_INTERFACE (word_of_int (interface_code parm)))) z0 = (r, z)"
    using assms(1,5) by (simp add: mu_ioctl_run(1) z0_def)
  then show ?thesis
    using assms(4) fd
    by (auto simp: main muestty_run_def mx_open_device_def mu_set_interface_def case_prod_beta z0_def [symmetric] split: if_splits)
qed

text \<open>
  C40. Tool and driver together.  \<open>muestty -i\<close> with one of the four names ends with 0 whatever happens;
  unless the board has a fixed interface the register of the port then holds the interface, and
  \<open>muestty -g\<close> prints it; otherwise \<open>muestty -g\<close> prints the one the port had.
\<close>

theorem muestty_set_get:
  assumes "port_ok s" "opens s" "take 1 dev \<noteq> ''-''" "u_UIR s \<in> set interfaces"
      "u_terminator_flag s = 0 \<or> u_terminator_flag s = 1" "interface_code parm \<noteq> -1"
      "latches d (u_UIR_addr s) (ienv s)"
    and "run_state (muestty v [''-i'', parm, dev]) s = (x, t)"
    and "run_state (muestty v [''-g'', dev]) t = (x', t')"
  defines "now \<equiv> (if fixed_interface v (u_board_type s) (word_of_int (interface_code parm)) then u_UIR s
    else word_of_int (interface_code parm))"
  shows "x = 0 \<and> x' = 0 \<and>
    (\<not> fixed_interface v (u_board_type s) (word_of_int (interface_code parm)) \<longrightarrow> uir_of d s (ihist t) = now) \<and>
    (\<exists>fd c k k' h. ihist t' = Kernel_call ''close'' fd c # Kernel_call ''printf(terminator)'' [uint (u_terminator_flag s)] k #
       To_user [uint (u_terminator_flag s)] # Kernel_call ''printf(interface)'' [uint now] k' # h)"
proof -
  have code: "word_of_int (interface_code parm) \<in> set interfaces"
    using assms(6) by (auto simp: interface_code_def interfaces_def split: if_splits)
  define z where "z = s\<lparr>ihist := Kernel_call ''open(device)'' [] (env_k (ienv s) (ihist s) ''open(device)'' []) # ihist s\<rparr>"
  obtain r y where set: "run_state (mx_set_interface v (word_of_int (interface_code parm))) z = (r, y)"
    by (cases "run_state (mx_set_interface v (word_of_int (interface_code parm))) z")
  note eff = set_interface_effect [OF set]
  obtain as k f k' where t: "x = 0" "t = y\<lparr>ihist := Kernel_call ''close'' as k # Kernel_call f [] k' # ihist y\<rparr>"
    using muestty_set_run [OF assms(1-3,8) set [unfolded z_def]] by blast
  have u: "u_UIR t = now" "u_terminator_flag t = u_terminator_flag s" "port_ok t" "opens t" "ienv t = ienv s"
    using eff assms(1,2) code by (auto simp: t(2) z_def now_def opens_def)
  have "now \<in> set interfaces"
    using assms(4) code by (simp add: now_def)
  then have get: "x' = 0 \<and> (\<exists>fd c k k' h. ihist t' = Kernel_call ''close'' fd c # Kernel_call ''printf(terminator)'' [uint (u_terminator_flag s)] k #
       To_user [uint (u_terminator_flag s)] # Kernel_call ''printf(interface)'' [uint now] k' # h)"
    using muestty_get_run [OF u(3,4) assms(3) _ _ assms(9)] assms(5) u(1,2) by simp
  have "uir_of d s (ihist t) = now" if "\<not> fixed_interface v (u_board_type s) (word_of_int (interface_code parm))"
  proof -
    have "uir_of d z (ihist y) = word_of_int (interface_code parm)"
      using set_interface_uir(2) [OF code _ _ set, of d] that assms(7) by (simp add: z_def latches_def)
    then show ?thesis
      using that by (simp add: t(2) now_def uir_of_def z_def)
  qed
  with t(1) get show ?thesis by blast
qed

definition conf_example :: mxuport where
  "conf_example = uport_example\<lparr>ienv := (latch_env (\<lambda>_. 0))\<lparr>env_k := \<lambda>_ _ _. 3\<rparr>, u_board_type := MXUPCIE_BOARD_CP118EL_A\<rparr>"

lemma muestty_set_get_witness:
  "\<exists>fd c k k' h. ihist (snd (run_state (muestty False [''-g'', ''/dev/ttyMUE0''])
     (snd (run_state (muestty False [''-i'', ''RS4852W'', ''/dev/ttyMUE0'']) conf_example)))) =
     Kernel_call ''close'' fd c # Kernel_call ''printf(terminator)'' [0] k # To_user [0] # Kernel_call ''printf(interface)'' [15] k' # h"
  using muestty_set_get [OF _ _ _ _ _ _ _ prod.collapse [symmetric] prod.collapse [symmetric],
      of conf_example "''/dev/ttyMUE0''" "''RS4852W''" "\<lambda>_. 0" False]
  by (simp add: conf_example_def uport_example_def mxport.extend_def mxuport.fields_def port_example_def opens_def
      latches_def latch_env_def interfaces_def interface_code_def fixed_interface_def)

end
