(* ===== verification/Muestty_Recv.thy ===== *)
theory Muestty_Recv
  imports Prelude
begin

text \<open>
  The window of received data of the terminal program, \<open>user/muestty_utility/term/recvmon.c\<close>: the buffer
  that is filled by \<open>read\<close>, the layout of its bytes in the box of the columns 1 to 78 and the rows 8 to
  21, and a reference that puts one character after the other on the screen.

  A call of \<open>mw_putstr_xy\<close> is a triple of the string, its column and its row.  The local array
  \<open>temp\<close> with its length \<open>slen\<close> is one string.  \<open>beyond\<close> is the byte behind the buffer.
\<close>

section \<open>recvmon.c\<close>

abbreviation "K_CR \<equiv> CHR 0x0D"
abbreviation "K_LF \<equiv> CHR 0x0A"
abbreviation "K_TAB \<equiv> CHR 0x09"

definition LEN :: nat where
  "LEN = 156"

type_synonym put = "string \<times> nat \<times> nat"

text \<open>The static variables, and the calls of \<open>mw_putstr_xy\<close> so far.\<close>

record recvmon =
  rm_x :: nat
  rm_y :: nat
  rm_buf :: string
  rm_puts :: "put list"

text \<open>\<open>rbuf\<close> up to \<open>rlen\<close> is \<open>rm_buf\<close>; what follows it in the array is left from before.\<close>

definition recvmon_init :: recvmon where
  "recvmon_init = \<lparr>rm_x = 1, rm_y = 8, rm_buf = [], rm_puts = []\<rparr>"

text \<open>The variables of the loop: the string that was not put on the screen yet starts at \<open>v_sx\<close>.\<close>

record layout_vars =
  v_x :: nat
  v_y :: nat
  v_sx :: nat
  v_temp :: string
  v_puts :: "put list"

definition new_line :: "layout_vars \<Rightarrow> layout_vars" where
  "new_line v = (let y = (if 22 \<le> v_y v + 1 then 8 else v_y v + 1) in
    \<lparr>v_x = 1, v_y = y, v_sx = 1, v_temp = [],
     v_puts = v_puts v @ [(v_temp v, v_sx v, v_y v), (replicate 78 CHR '' '', 1, y)]\<rparr>)"

definition tab_stop :: "nat \<Rightarrow> nat" where
  "tab_stop x = (x + 7) div 8 * 8 + 1"

definition do_tab :: "layout_vars \<Rightarrow> layout_vars" where
  "do_tab v = (let x = tab_stop (v_x v) in
    if 79 \<le> x then new_line (v\<lparr>v_x := x\<rparr>)
    else v\<lparr>v_x := x, v_temp := v_temp v @ replicate (x - v_x v) CHR '' ''\<rparr>)"

definition do_char :: "char \<Rightarrow> layout_vars \<Rightarrow> layout_vars" where
  "do_char ch v = (let w = v\<lparr>v_temp := v_temp v @ [ch], v_x := v_x v + 1\<rparr> in
    if 79 \<le> v_x w then new_line w else w)"

text \<open>The loop from index \<open>i\<close>: \<open>rbuf\<close> is the whole array and \<open>rlen\<close> the bytes that count.\<close>

function disp_loop :: "char \<Rightarrow> string \<Rightarrow> nat \<Rightarrow> nat \<Rightarrow> layout_vars \<Rightarrow> layout_vars" where
  "disp_loop beyond rbuf rlen i v =
    (if rlen \<le> i then v
     else
       let ch = rbuf ! i; follow = (if i + 1 < LEN then rbuf ! (i + 1) else beyond) in
       if ch = K_CR then disp_loop beyond rbuf rlen (if follow = K_LF then i + 2 else i + 1) (new_line v)
       else if ch = K_LF then disp_loop beyond rbuf rlen (if follow = K_CR then i + 2 else i + 1) (new_line v)
       else if ch = K_TAB then disp_loop beyond rbuf rlen (i + 1) (do_tab v)
       else disp_loop beyond rbuf rlen (i + 1) (do_char ch v))"
  by pat_completeness auto
termination
  by (relation "measure (\<lambda>(_, _, rlen, i, _). rlen - i)") auto

declare disp_loop.simps [simp del]

definition show_buffer :: "char \<Rightarrow> string \<Rightarrow> recvmon \<Rightarrow> recvmon" where
  "show_buffer beyond old r =
    (let rbuf = rm_buf r @ old;
         v = disp_loop beyond rbuf (length (rm_buf r)) 0
           \<lparr>v_x = rm_x r, v_y = rm_y r, v_sx = rm_x r, v_temp = [], v_puts = rm_puts r\<rparr>
     in \<lparr>rm_x = v_x v, rm_y = v_y v, rm_buf = [],
         rm_puts = v_puts v @ (if v_temp v \<noteq> [] then [(v_temp v, v_sx v, v_y v)] else [])\<rparr>)"

text \<open>
  \<open>recvmon_disp (0)\<close> with the bytes \<open>read\<close> gave (none when it failed), and \<open>recvmon_disp (1)\<close>.  \<open>old\<close>
  is what the array still holds behind the bytes that count.
\<close>

definition recvmon_read :: "char \<Rightarrow> string \<Rightarrow> recvmon \<Rightarrow> recvmon" where
  "recvmon_read beyond bytes r =
    (if bytes = [] then r
     else let r = r\<lparr>rm_buf := rm_buf r @ bytes\<rparr> in
       if length (rm_buf r) < LEN then r else show_buffer beyond [] r)"

definition recvmon_end :: "char \<Rightarrow> string \<Rightarrow> recvmon \<Rightarrow> recvmon" where
  "recvmon_end beyond old r = show_buffer beyond old r"

section \<open>The bounds of the layout\<close>

text \<open>A string that is put stays inside the box, and \<open>temp\<close>, an array of 81 characters, is never full.\<close>

definition in_box :: "put \<Rightarrow> bool" where
  "in_box = (\<lambda>(s, x, y). 1 \<le> x \<and> x + length s \<le> 79 \<and> 8 \<le> y \<and> y < 22)"

definition good_layout :: "layout_vars \<Rightarrow> bool" where
  "good_layout v \<longleftrightarrow> 1 \<le> v_sx v \<and> v_x v = v_sx v + length (v_temp v) \<and> v_x v < 79 \<and> 8 \<le> v_y v \<and> v_y v < 22 \<and>
     list_all in_box (v_puts v)"

definition good_recvmon :: "recvmon \<Rightarrow> bool" where
  "good_recvmon r \<longleftrightarrow> 1 \<le> rm_x r \<and> rm_x r < 79 \<and> 8 \<le> rm_y r \<and> rm_y r < 22 \<and> length (rm_buf r) < LEN \<and>
     list_all in_box (rm_puts r)"

lemma good_new_line: "1 \<le> v_sx v \<Longrightarrow> v_sx v + length (v_temp v) \<le> 79 \<Longrightarrow> 8 \<le> v_y v \<Longrightarrow> v_y v < 22 \<Longrightarrow>
    list_all in_box (v_puts v) \<Longrightarrow> good_layout (new_line v)"
  by (auto simp: good_layout_def new_line_def in_box_def Let_def)

lemma tab_stop_greater: "x < tab_stop x"
  unfolding tab_stop_def by linarith

lemma good_step:
  assumes "good_layout v"
  shows "good_layout (new_line v)" "good_layout (do_tab v)" "good_layout (do_char ch v)"
proof -
  show "good_layout (new_line v)"
    using assms by (intro good_new_line) (auto simp: good_layout_def)
  show "good_layout (do_tab v)"
    using assms tab_stop_greater [of "v_x v"] good_new_line [of "v\<lparr>v_x := tab_stop (v_x v)\<rparr>"]
    by (auto simp: good_layout_def do_tab_def Let_def)
  show "good_layout (do_char ch v)"
    using assms good_new_line [of "v\<lparr>v_temp := v_temp v @ [ch], v_x := v_x v + 1\<rparr>"]
    by (auto simp: good_layout_def do_char_def Let_def)
qed

lemma good_loop: "good_layout v \<Longrightarrow> good_layout (disp_loop beyond rbuf rlen i v)"
proof (induction beyond rbuf rlen i v rule: disp_loop.induct)
  case (1 beyond rbuf rlen i v)
  then show ?case
    by (subst disp_loop.simps) (simp add: Let_def good_step)
qed

lemma good_show: "good_recvmon r \<or> good_recvmon (r\<lparr>rm_buf := []\<rparr>) \<Longrightarrow> good_recvmon (show_buffer beyond old r)"
  using good_loop [of "\<lparr>v_x = rm_x r, v_y = rm_y r, v_sx = rm_x r, v_temp = [], v_puts = rm_puts r\<rparr>"
      beyond "rm_buf r @ old" "length (rm_buf r)" 0]
  by (auto simp: good_recvmon_def good_layout_def show_buffer_def Let_def in_box_def LEN_def)

section \<open>The reference\<close>

text \<open>A screen gives the character of a column and a row; one call of \<open>mw_putstr_xy\<close> overwrites a part of it.\<close>

type_synonym screen = "nat \<Rightarrow> nat \<Rightarrow> char"

definition paint :: "put \<Rightarrow> screen \<Rightarrow> screen" where
  "paint = (\<lambda>(s, x, y) scr c r. if r = y \<and> x \<le> c \<and> c < x + length s then s ! (c - x) else scr c r)"

text \<open>The text: a line end is any of the four sequences.\<close>

datatype glyph = New_line | Tab | Glyph char

fun glyphs :: "string \<Rightarrow> glyph list" where
  "glyphs [] = []"
| "glyphs [c] = [if c = K_CR \<or> c = K_LF then New_line else if c = K_TAB then Tab else Glyph c]"
| "glyphs (c # d # s) =
    (if c = K_CR \<and> d = K_LF \<or> c = K_LF \<and> d = K_CR then New_line # glyphs s
     else (if c = K_CR \<or> c = K_LF then New_line else if c = K_TAB then Tab else Glyph c) # glyphs (d # s))"

text \<open>The cursor and the screen, one glyph at a time.\<close>

type_synonym console = "nat \<times> nat \<times> screen"

definition feed :: "console \<Rightarrow> console" where
  "feed = (\<lambda>(x, y, scr). let y = (if y = 21 then 8 else y + 1) in
     (1, y, \<lambda>c r. if r = y \<and> 1 \<le> c \<and> c < 79 then CHR '' '' else scr c r))"

fun type_glyph :: "glyph \<Rightarrow> console \<Rightarrow> console" where
  "type_glyph New_line k = feed k"
| "type_glyph Tab (x, y, scr) =
    (if 79 \<le> tab_stop x then feed (x, y, scr)
     else (tab_stop x, y, \<lambda>c r. if r = y \<and> x \<le> c \<and> c < tab_stop x then CHR '' '' else scr c r))"
| "type_glyph (Glyph ch) (x, y, scr) =
    (let scr = (\<lambda>c r. if r = y \<and> c = x then ch else scr c r) in
     if x + 1 = 79 then feed (x, y, scr) else (x + 1, y, scr))"

definition type_text :: "string \<Rightarrow> console \<Rightarrow> console" where
  "type_text s k = fold type_glyph (glyphs s) k"

text \<open>The console the variables of the loop stand for.\<close>

definition console_of :: "screen \<Rightarrow> layout_vars \<Rightarrow> console" where
  "console_of scr v = (v_x v, v_y v, paint (v_temp v, v_sx v, v_y v) (fold paint (v_puts v) scr))"

definition recv_console :: "screen \<Rightarrow> recvmon \<Rightarrow> console" where
  "recv_console scr r = (rm_x r, rm_y r, fold paint (rm_puts r) scr)"

lemma console_new_line:
  assumes "good_layout v \<or> v_y v < 22"
  shows "console_of scr (new_line v) = feed (console_of scr v)"
proof -
  have "(22 \<le> v_y v + 1) = (v_y v = 21)"
    using assms by (auto simp: good_layout_def)
  then show ?thesis
    by (auto simp: console_of_def new_line_def feed_def paint_def Let_def fun_eq_iff)
qed

lemma feed_x: "feed (x, k) = feed (x', k)"
  by (cases k) (simp add: feed_def)

lemma console_tab:
  assumes "good_layout v"
  shows "console_of scr (do_tab v) = type_glyph Tab (console_of scr v)"
proof (cases "79 \<le> tab_stop (v_x v)")
  case True
  have "console_of scr (do_tab v) = feed (console_of scr (v\<lparr>v_x := tab_stop (v_x v)\<rparr>))"
    using True assms by (simp add: do_tab_def Let_def console_new_line good_layout_def)
  then show ?thesis
    using True by (simp add: console_of_def feed_x [of "tab_stop (v_x v)" _ "v_x v"])
next
  case False
  let ?n = "tab_stop (v_x v) - v_x v"
  have x: "v_x v = v_sx v + length (v_temp v)" "v_x v < tab_stop (v_x v)"
    using assms tab_stop_greater by (auto simp: good_layout_def)
  have "paint (v_temp v @ replicate ?n CHR '' '', v_sx v, v_y v) w c r =
      (if r = v_y v \<and> v_x v \<le> c \<and> c < tab_stop (v_x v) then CHR '' '' else paint (v_temp v, v_sx v, v_y v) w c r)" for w c r
    using x by (auto simp: paint_def nth_append)
  then show ?thesis
    using False by (simp add: do_tab_def console_of_def Let_def fun_eq_iff)
qed

lemma console_char:
  assumes "good_layout v"
  shows "console_of scr (do_char ch v) = type_glyph (Glyph ch) (console_of scr v)"
proof -
  define w where "w = v\<lparr>v_temp := v_temp v @ [ch], v_x := v_x v + 1\<rparr>"
  have x: "v_x v = v_sx v + length (v_temp v)" "v_y v < 22" "v_x v < 79"
    using assms by (auto simp: good_layout_def)
  have p: "paint (v_temp v @ [ch], v_sx v, v_y v) u =
      (\<lambda>c r. if r = v_y v \<and> c = v_x v then ch else paint (v_temp v, v_sx v, v_y v) u c r)" for u
    using x(1) by (auto simp: paint_def nth_append fun_eq_iff)
  define S where "S = paint (v_temp v, v_sx v, v_y v) (fold paint (v_puts v) scr)"
  define S' where "S' = (\<lambda>c r. if r = v_y v \<and> c = v_x v then ch else S c r)"
  have v: "console_of scr v = (v_x v, v_y v, S)"
    by (simp add: console_of_def S_def)
  have w: "console_of scr w = (v_x v + 1, v_y v, S')"
    by (simp add: console_of_def w_def p S_def S'_def cong: if_cong)
  have ref: "type_glyph (Glyph ch) (console_of scr v) = (if v_x v + 1 = 79 then feed (v_x v, v_y v, S') else (v_x v + 1, v_y v, S'))"
    by (simp add: v S'_def Let_def)
  show ?thesis
  proof (cases "79 \<le> v_x w")
    case True
    have "console_of scr (do_char ch v) = feed (console_of scr w)"
      using True x(2) console_new_line [of w scr] by (simp add: do_char_def Let_def w_def)
    then show ?thesis
      unfolding ref w using True x(3) feed_x [of "v_x v + 1" "(v_y v, S')" "v_x v"] by (simp add: w_def)
  next
    case False
    then have "console_of scr (do_char ch v) = console_of scr w"
      by (simp add: do_char_def Let_def w_def)
    then show ?thesis
      unfolding ref w using False by (simp add: w_def)
  qed
qed

lemma glyphs_drop:
  assumes "i < length s"
  shows "glyphs (drop i s) =
    (if i + 1 < length s \<and> (s ! i = K_CR \<and> s ! (i + 1) = K_LF \<or> s ! i = K_LF \<and> s ! (i + 1) = K_CR)
     then New_line # glyphs (drop (i + 2) s)
     else (if s ! i = K_CR \<or> s ! i = K_LF then New_line else if s ! i = K_TAB then Tab else Glyph (s ! i)) #
       glyphs (drop (i + 1) s))"
proof (cases "i + 1 < length s")
  case True
  then have "drop i s = s ! i # s ! (i + 1) # drop (i + 2) s" "drop (i + 1) s = s ! (i + 1) # drop (i + 2) s"
    by (simp_all add: Cons_nth_drop_Suc)
  then show ?thesis using True by simp
next
  case False
  then have "drop i s = [s ! i]" "drop (i + 1) s = []"
    using assms by (simp_all add: Cons_nth_drop_Suc [symmetric])
  then show ?thesis using False by simp
qed

text \<open>
  The loop is the reference on the bytes that count: neither the bytes left in the array nor the byte
  behind it, which it looks at after a line end, make a difference.
\<close>

lemma loop_is_reference:
  assumes "good_layout v" "rlen \<le> length rbuf" "rlen \<le> LEN"
  shows "console_of scr (disp_loop beyond rbuf rlen i v) = type_text (drop i (take rlen rbuf)) (console_of scr v)"
  using assms
proof (induction beyond rbuf rlen i v rule: disp_loop.induct)
  case (1 beyond rbuf rlen i v)
  show ?case
  proof (cases "rlen \<le> i")
    case True
    then show ?thesis
      by (subst disp_loop.simps) (simp add: type_text_def)
  next
    case False
    then have i: "i < length (take rlen rbuf)" "rbuf ! i = take rlen rbuf ! i"
      using "1.prems" by simp_all
    define follow where "follow = (if i + 1 < LEN then rbuf ! (i + 1) else beyond)"
    have f: "follow = take rlen rbuf ! (i + 1)" if "i + 1 < length (take rlen rbuf)"
      using that "1.prems" by (simp add: follow_def)
    have past: "drop (i + 2) (take rlen rbuf) = []" "drop (i + 1) (take rlen rbuf) = []"
      if "\<not> i + 1 < length (take rlen rbuf)"
      using that by (auto intro!: drop_all simp del: length_take)
    note IH = "1.IH" [OF False refl refl, folded follow_def]
    let ?s = "take rlen rbuf"
    note unfold = disp_loop.simps [of beyond rbuf rlen i v, folded follow_def]
    have step: "type_text (drop i ?s) k = (if i + 1 < length ?s \<and> (?s ! i = K_CR \<and> follow = K_LF \<or> ?s ! i = K_LF \<and> follow = K_CR)
        then type_text (drop (i + 2) ?s) (feed k)
        else type_text (drop (i + 1) ?s) (type_glyph (if ?s ! i = K_CR \<or> ?s ! i = K_LF then New_line
          else if ?s ! i = K_TAB then Tab else Glyph (?s ! i)) k))" for k
      unfolding type_text_def glyphs_drop [OF i(1)] using f by auto
    have last: "type_text (drop (i + 2) ?s) k = type_text (drop (i + 1) ?s) k" if "\<not> i + 1 < length ?s" for k
      by (metis past that)
    show ?thesis
      unfolding step i(2) [symmetric]
      using "1.prems" False IH last
      by (cases "rbuf ! i = K_CR"; cases "rbuf ! i = K_LF"; cases "follow = K_LF"; cases "follow = K_CR")
        (simp_all add: unfold Let_def good_step console_new_line console_tab console_char del: length_take)
  qed
qed

lemma show_is_reference:
  assumes "good_recvmon (r\<lparr>rm_buf := []\<rparr>)" "length (rm_buf r) \<le> LEN"
  shows "recv_console scr (show_buffer beyond old r) = type_text (rm_buf r) (recv_console scr r)"
proof -
  let ?v = "\<lparr>v_x = rm_x r, v_y = rm_y r, v_sx = rm_x r, v_temp = [], v_puts = rm_puts r\<rparr>"
  have none: "paint ([], x, y) u = u" for x y u
    by (auto simp: paint_def fun_eq_iff)
  have "good_layout ?v"
    using assms(1) by (simp add: good_layout_def good_recvmon_def)
  then have "console_of scr (disp_loop beyond (rm_buf r @ old) (length (rm_buf r)) 0 ?v) = type_text (rm_buf r) (console_of scr ?v)"
    using loop_is_reference [of ?v "length (rm_buf r)" "rm_buf r @ old" scr beyond 0] assms(2) by simp
  moreover have "recv_console scr (show_buffer beyond old r)
      = console_of scr (disp_loop beyond (rm_buf r @ old) (length (rm_buf r)) 0 ?v)"
    by (simp add: recv_console_def show_buffer_def console_of_def Let_def none)
  moreover have "console_of scr ?v = recv_console scr r"
    by (simp add: console_of_def recv_console_def none)
  ultimately show ?thesis by simp
qed

section \<open>A whole session\<close>

text \<open>\<open>read\<close> gives at most the bytes that fit behind the ones that are there.\<close>

fun reads_fit :: "nat \<Rightarrow> string list \<Rightarrow> bool" where
  "reads_fit rlen [] = True"
| "reads_fit rlen (b # bs) \<longleftrightarrow> rlen + length b \<le> LEN \<and> reads_fit ((rlen + length b) mod LEN) bs"

text \<open>The text is laid out in blocks of the size of the buffer.\<close>

function blocks :: "string \<Rightarrow> string list" where
  "blocks s = (if s = [] then [] else take LEN s # blocks (drop LEN s))"
  by auto
termination
  by (relation "measure length") (auto simp: LEN_def)

declare blocks.simps [simp del]

definition recv_session :: "char \<Rightarrow> string list \<Rightarrow> string \<Rightarrow> recvmon \<Rightarrow> recvmon" where
  "recv_session beyond reads old r = recvmon_end beyond old (fold (recvmon_read beyond) reads r)"

lemma blocks_short: "s \<noteq> [] \<Longrightarrow> length s < LEN \<Longrightarrow> blocks s = [s]"
  by (subst blocks.simps) (simp add: blocks.simps [of "[]"])

lemma blocks_full: "length s = LEN \<Longrightarrow> blocks (s @ t) = s # blocks t"
  by (subst blocks.simps) (auto simp: LEN_def)

lemma session_invariant:
  assumes "good_recvmon r" "reads_fit (length (rm_buf r)) reads"
  shows "good_recvmon (recv_session beyond reads old r) \<and>
    recv_console scr (recv_session beyond reads old r) = fold type_text (blocks (rm_buf r @ concat reads)) (recv_console scr r)"
  using assms
proof (induction reads arbitrary: r)
  case Nil
  have g: "good_recvmon (r\<lparr>rm_buf := []\<rparr>)"
    using Nil(1) by (simp add: good_recvmon_def LEN_def)
  have "type_text [] k = k" for k
    by (simp add: type_text_def)
  then show ?case
    using Nil(1) g show_is_reference [OF g, of scr beyond old] good_show [of r beyond old]
    by (cases "rm_buf r = []")
      (auto simp: recv_session_def recvmon_end_def good_recvmon_def blocks_short blocks.simps [of "[]"])
next
  case (Cons b bs)
  let ?r = "r\<lparr>rm_buf := rm_buf r @ b\<rparr>"
  have len: "length (rm_buf r) < LEN" "length (rm_buf r @ b) \<le> LEN"
    using Cons.prems by (auto simp: good_recvmon_def)
  consider "b = []" | "b \<noteq> []" "length (rm_buf r @ b) < LEN" | "b \<noteq> []" "length (rm_buf r @ b) = LEN"
    using len(2) by linarith
  then show ?case
  proof cases
    case 1
    then show ?thesis
      using Cons len(1) by (simp add: recv_session_def recvmon_read_def)
  next
    case 2
    then have "good_recvmon ?r" "reads_fit (length (rm_buf ?r)) bs"
      using Cons.prems by (auto simp: good_recvmon_def)
    then show ?thesis
      using Cons.IH [of ?r] 2 by (simp add: recv_session_def recvmon_read_def recv_console_def)
  next
    case 3
    let ?u = "show_buffer beyond [] ?r"
    have g: "good_recvmon (?r\<lparr>rm_buf := []\<rparr>)"
      using Cons.prems(1) by (simp add: good_recvmon_def LEN_def)
    have "rm_buf ?u = []"
      by (simp add: show_buffer_def Let_def)
    moreover have "reads_fit 0 bs"
      using Cons.prems(2) 3(2) by simp
    ultimately show ?thesis
      using Cons.IH [of ?u] 3 good_show [OF disjI2, OF g, of beyond "[]"] show_is_reference [OF g, of scr beyond "[]"]
        blocks_full [of "rm_buf r @ b" "concat bs"]
      by (simp add: recv_session_def recvmon_read_def recv_console_def)
  qed
qed

text \<open>
  C32. The window of received data.  Whatever the sizes of the reads, at the end of a session the screen
  is the one of a console that gets every received byte once and in order, in blocks of 156 bytes; every
  string that is put on the screen lies inside the box, and what the program reads behind the end of
  its buffer makes no difference.
\<close>

theorem received_data_shown:
  assumes "reads_fit 0 reads"
  shows "recv_console scr (recv_session beyond reads old recvmon_init) = fold type_text (blocks (concat reads)) (1, 8, scr) \<and>
    list_all in_box (rm_puts (recv_session beyond reads old recvmon_init))"
  using session_invariant [of recvmon_init reads beyond old scr] assms
  by (simp add: recvmon_init_def good_recvmon_def recv_console_def LEN_def)

lemma received_data_shown_witness:
  "recv_console (\<lambda>_ _. CHR ''.'') (recv_session K_LF [''ab'', K_CR # ''c''] [] recvmon_init)
    = fold type_text (blocks (''ab'' @ K_CR # ''c'')) (1, 8, \<lambda>_ _. CHR ''.'')"
  using received_data_shown [of "[''ab'', K_CR # ''c'']" "\<lambda>_ _. CHR ''.''" K_LF "[]"] by (simp add: LEN_def)

text \<open>A line end of two characters that a block ends in the middle of is shown as two.\<close>

lemma split_line_end:
  "type_text [K_LF] (type_text [K_CR] k) = feed (feed k)" "type_text [K_CR, K_LF] k = feed k"
  by (simp_all add: type_text_def)

end
