(* ===== verification/Muestty_Line.thy ===== *)
theory Muestty_Line
  imports Serial_Tools Mxser_Control
begin

text \<open>
  What the terminal program and the monitor of \<open>user/muestty_utility\<close> say about a line: the menus, the
  settings of the terminal program with the attributes it asks for (\<open>term/termvar.c\<close>, \<open>sio_init\<close> of
  \<open>term/term.c\<close>, \<open>get_ttysetup\<close> of \<open>term/term_s.c\<close>), and the monitor's page of a port
  (\<open>mon/mon_pa.c\<close>) on the control request of the serial driver.

  The library of windows is not in the repository: a page is the list of the strings of its items.
\<close>

section \<open>Menus\<close>

definition BaudRateMenuItem :: "string list" where
  "BaudRateMenuItem = [''50'', ''75'', ''110'', ''134'', ''150'', ''200'', ''300'', ''600'', ''1200'', ''1800'',
     ''2400'', ''4800'', ''9600'', ''19200'', ''38400'', ''57600'', ''115200'', ''230400'', ''460800'', ''921600'']"

definition BaudMapTab :: "u32 list" where
  "BaudMapTab = [0x1, 0x2, 0x3, 0x4, 0x5, 0x6, 0x7, 0x8, 0x9, 0xA, 0xB, 0xC, 0xD, 0xE, 0xF,
     0x1001, 0x1002, 0x1003, 0x1004, 0x1007]"

text \<open>The parity menus of the two programs are not the same.\<close>

definition term_ParityMenuItem :: "string list" where
  "term_ParityMenuItem = ['' None '', ''  Odd '', '' Even '', '' Mark '', '' Space'']"

definition mon_ParityMenuItem :: "string list" where
  "mon_ParityMenuItem = ['' None '', ''  Odd '', '' Even '', '' Even '', '' Mark '', '' Space'']"

definition DataBitMenuItem :: "string list" where
  "DataBitMenuItem = ['' 5 '', '' 6 '', '' 7 '', '' 8 '']"

definition StopBitMenuItem :: "string list" where
  "StopBitMenuItem = ['' 1 '', '' 2 '']"

definition OnOffMenuItem :: "string list" where
  "OnOffMenuItem = [''OFF'', ''ON'']"

section \<open>The settings of the terminal program\<close>

abbreviation "CREAD \<equiv> 0x080 :: u32"
abbreviation "ISTRIP \<equiv> 0x020 :: u32"
abbreviation "ICRNL \<equiv> 0x100 :: u32"
abbreviation "ICANON \<equiv> 0x002 :: u32"
abbreviation "ECHO \<equiv> 0x008 :: u32"

text \<open>The numbers are positions in the menus.\<close>

record dterm_info =
  dt_dname :: string
  dt_rate :: nat
  dt_parity :: nat
  dt_databit :: nat
  dt_stopbit :: nat
  dt_xflow :: nat
  dt_lecho :: nat
  dt_senter :: nat

definition set_dterm :: dterm_info where
  "set_dterm = \<lparr>dt_dname = ''/dev/ttyS0'', dt_rate = 12, dt_parity = 0, dt_databit = 3, dt_stopbit = 0,
     dt_xflow = 0, dt_lecho = 0, dt_senter = 1\<rparr>"

record termios =
  ti_iflag :: u32
  ti_oflag :: u32
  ti_cflag :: u32
  ti_lflag :: u32
  ti_vmin :: u8
  ti_vtime :: u8

definition parity_bits :: "nat \<Rightarrow> u32" where
  "parity_bits p = (if p = 1 then PARENB OR PARODD else if p = 2 then PARENB
     else if p = 3 then PARENB OR CMSPAR OR PARODD else if p = 4 then PARENB OR CMSPAR else 0)"

definition sio_cflag :: "dterm_info \<Rightarrow> u32" where
  "sio_cflag d =
    (let cflag = CREAD OR CLOCAL OR HUPCL OR BaudMapTab ! dt_rate d;
         cflag = cflag AND NOT (PARENB OR PARODD OR CMSPAR);
         cflag = cflag OR parity_bits (dt_parity d);
         cflag = cflag OR of_nat (dt_databit d) * 0x10
     in if dt_stopbit d \<noteq> 0 then cflag OR CSTOPB else cflag)"

definition flow_attr :: "nat \<Rightarrow> termios \<Rightarrow> termios" where
  "flow_attr xflow tty =
    (if xflow = 0 then tty\<lparr>ti_cflag := ti_cflag tty OR CRTSCTS, ti_iflag := ti_iflag tty AND NOT (IXON OR IXOFF)\<rparr>
     else if xflow = 1 then tty\<lparr>ti_iflag := ti_iflag tty OR IXON OR IXOFF, ti_cflag := ti_cflag tty AND NOT CRTSCTS\<rparr>
     else if xflow = 2 then tty\<lparr>ti_iflag := ti_iflag tty OR IXON OR IXOFF, ti_cflag := ti_cflag tty OR CRTSCTS\<rparr>
     else if xflow = 3 then tty\<lparr>ti_iflag := ti_iflag tty AND NOT (IXON OR IXOFF), ti_cflag := ti_cflag tty AND NOT CRTSCTS\<rparr>
     else tty)"

text \<open>The attributes \<open>sio_init\<close> asks for, made from those of the console.\<close>

definition sio_attr :: "dterm_info \<Rightarrow> termios \<Rightarrow> termios" where
  "sio_attr d con =
    (let tty = flow_attr (dt_xflow d) (con\<lparr>ti_cflag := sio_cflag d\<rparr>)
     in tty\<lparr>ti_lflag := ti_lflag tty AND NOT (ICANON OR ECHO), ti_iflag := ti_iflag tty AND NOT (ICRNL OR ISTRIP),
          ti_oflag := 0, ti_vmin := 1, ti_vtime := 0\<rparr>)"

text \<open>\<open>get_ttysetup\<close>: it limits the rate, and writes the line of the settings.\<close>

definition limit_rate :: "dterm_info \<Rightarrow> dterm_info" where
  "limit_rate d = (if 20 \<le> dt_rate d then d\<lparr>dt_rate := 19\<rparr> else d)"

definition pick :: "string \<Rightarrow> nat \<Rightarrow> string" where
  "pick cs n = (if n < length cs then [cs ! n] else [])"

definition get_ttysetup :: "dterm_info \<Rightarrow> string \<times> dterm_info" where
  "get_ttysetup d = (let d = limit_rate d in
    (''Device='' @ dt_dname d @ '', Set='' @ BaudRateMenuItem ! dt_rate d @ '','' @ pick ''NOEMS'' (dt_parity d) @ '','' @
       pick ''5678'' (dt_databit d) @ '','' @ pick ''12'' (dt_stopbit d), d))"

section \<open>The monitor's page of a port\<close>

record pstat_info =
  ps_baud :: nat
  ps_parity :: nat
  ps_databit :: nat
  ps_stopbit :: nat
  ps_CTS :: nat
  ps_DSR :: nat
  ps_DCD :: nat

definition rate_of :: "u32 \<Rightarrow> nat \<Rightarrow> nat" where
  "rate_of cflag old = (case List.find (\<lambda>i. cflag AND CBAUD_CBAUDEX = BaudMapTab ! i) [0..<20] of
     Some i \<Rightarrow> i | None \<Rightarrow> old)"

definition parity_of :: "u32 \<Rightarrow> nat" where
  "parity_of cflag =
    (if cflag AND PARENB \<noteq> 0 then
       if cflag AND PARODD \<noteq> 0 then (if cflag AND CMSPAR \<noteq> 0 then 3 else 1)
       else (if cflag AND CMSPAR \<noteq> 0 then 4 else 2)
     else 0)"

definition databit_of :: "u32 \<Rightarrow> nat" where
  "databit_of cflag = (let b = cflag AND CSIZE in
     if b = 0 then 0 else if b = 0x10 then 1 else if b = 0x20 then 2 else 3)"

definition stopbit_of :: "u32 \<Rightarrow> nat" where
  "stopbit_of cflag = (if cflag AND CSTOPB \<noteq> 0 then 1 else 0)"

text \<open>An entry of the array of statuses: five words from position \<open>5 * idx\<close>.\<close>

definition show_status :: "int list \<Rightarrow> nat \<Rightarrow> pstat_info \<Rightarrow> pstat_info" where
  "show_status mstatus idx p = (let cflag = word_of_int (mstatus ! (5 * idx)) in
    \<lparr>ps_baud = rate_of cflag (ps_baud p), ps_parity = parity_of cflag, ps_databit = databit_of cflag,
     ps_stopbit = stopbit_of cflag, ps_CTS = nat (mstatus ! (5 * idx + 1) mod 256),
     ps_DSR = nat (mstatus ! (5 * idx + 2) mod 256), ps_DCD = nat (mstatus ! (5 * idx + 4) mod 256)\<rparr>)"

text \<open>
  \<open>getstatus\<close> with the request of the driver whose device it opens; \<open>pinfo\<close> is a static variable.  The
  array is on the stack when the request does not fill it.
\<close>

definition getstatus :: "(special_cmd \<Rightarrow> ('x, int) io_m) \<Rightarrow> string \<Rightarrow> nat \<Rightarrow> nat \<Rightarrow> pstat_info \<Rightarrow> ('x, int \<times> pstat_info) io_m" where
  "getstatus request dev now_board port pinfo = do {
     fd \<leftarrow> kcall dev [];
     if fd < 0 then ret (-1, pinfo)
     else do {
       (_, answer) \<leftarrow> with_reply (request (MOXA_GETMSTATUS (good_arg ())));
       x \<leftarrow> uninitialised ''mstatus'';
       let mstatus = (case answer of Some ws \<Rightarrow> ws | None \<Rightarrow> replicate 160 x);
       let idx = now_board * 8 + port;
       whenM (32 \<le> idx) (undefined_c ''mstatus index'');
       knote ''close'' [fd];
       ret (0, show_status mstatus idx pinfo) } }"

definition pad9 :: "string \<Rightarrow> string" where
  "pad9 s = replicate (9 - length s) CHR '' '' @ s"

text \<open>The name ends at the first character up to the blank; \<open>char\<close> is signed.\<close>

definition short_name :: "string \<Rightarrow> string" where
  "short_name devname = takeWhile (\<lambda>c. 32 < (of_char c :: nat) \<and> (of_char c :: nat) < 128) (take 10 devname)"

definition page_of :: "string \<Rightarrow> pstat_info \<Rightarrow> string list" where
  "page_of devname p =
    ['' '' @ pad9 (short_name devname) @ ''   '',
     '' '' @ pad9 (BaudRateMenuItem ! ps_baud p) @ ''   '',
     ''  '' @ pad9 (mon_ParityMenuItem ! ps_parity p) @ ''  '',
     ''  '' @ pad9 (DataBitMenuItem ! ps_databit p) @ ''  '',
     ''  '' @ pad9 (StopBitMenuItem ! ps_stopbit p) @ ''  '',
     ''  '' @ pad9 (OnOffMenuItem ! ps_CTS p) @ ''  '',
     ''  '' @ pad9 (OnOffMenuItem ! ps_DSR p) @ ''  '',
     ''  '' @ pad9 (OnOffMenuItem ! ps_DCD p) @ ''  '']"

definition prepare_menu :: "(special_cmd \<Rightarrow> ('x, int) io_m) \<Rightarrow> string \<Rightarrow> string \<Rightarrow> nat \<Rightarrow> nat \<Rightarrow> pstat_info \<Rightarrow>
    ('x, (string list \<times> pstat_info) option) io_m" where
  "prepare_menu request dev devname now_board port pinfo = do {
     (r, p) \<leftarrow> getstatus request dev now_board port pinfo;
     ret (if r < 0 then None else Some (page_of devname p, p)) }"

section \<open>The settings are read back\<close>

definition menu_choice :: "dterm_info \<Rightarrow> bool" where
  "menu_choice d \<longleftrightarrow> dt_rate d < 20 \<and> dt_parity d < 5 \<and> dt_databit d < 4 \<and> dt_stopbit d < 2 \<and> dt_xflow d < 4"

text \<open>The parts of the word: the code of the rate, and the rest, which has no bit of it.\<close>

definition line_format :: "dterm_info \<Rightarrow> u32" where
  "line_format d = (let f = 0xC80 OR parity_bits (dt_parity d) OR of_nat (dt_databit d) * 0x10
    in if dt_stopbit d \<noteq> 0 then f OR CSTOPB else f)"

lemma choices:
  "(n :: nat) < 4 \<longleftrightarrow> n = 0 \<or> n = 1 \<or> n = 2 \<or> n = 3"
  "n < 5 \<longleftrightarrow> n = 0 \<or> n = 1 \<or> n = 2 \<or> n = 3 \<or> n = 4"
  "n < 2 \<longleftrightarrow> n = 0 \<or> n = 1"
  by auto

lemma rate_codes:
  assumes "r < 20"
  shows "BaudMapTab ! r AND CBAUD_CBAUDEX = BaudMapTab ! r" "rate_of (BaudMapTab ! r) old = r"
    "flags AND ASYNC_SPD_MASK = 0 \<Longrightarrow> termios_baud (BaudMapTab ! r) flags custom = Some (atoi (BaudRateMenuItem ! r))"
proof -
  have r: "r \<in> set [0..<20]" using assms by simp
  have all: "\<forall>r \<in> set [0..<20]. BaudMapTab ! r AND CBAUD_CBAUDEX = BaudMapTab ! r \<and> rate_of (BaudMapTab ! r) old = r"
    by (simp add: upt_rec BaudMapTab_def rate_of_def)
  then show "BaudMapTab ! r AND CBAUD_CBAUDEX = BaudMapTab ! r" "rate_of (BaudMapTab ! r) old = r"
    using r by blast+
  have names: "map atoi BaudRateMenuItem = [50, 75, 110, 134, 150, 200, 300, 600, 1200, 1800, 2400, 4800, 9600, 19200, 38400,
      57600, 115200, 230400, 460800, 921600]"
    by code_simp
  have "\<forall>r \<in> set [0..<20]. termios_baud (BaudMapTab ! r) flags custom = Some (map atoi BaudRateMenuItem ! r)"
    if "flags AND ASYNC_SPD_MASK = 0"
    unfolding names using that by (simp add: upt_rec BaudMapTab_def termios_baud_def Let_def)
  moreover have "map atoi BaudRateMenuItem ! r = atoi (BaudRateMenuItem ! r)"
    by (rule nth_map) (use assms in \<open>simp add: BaudRateMenuItem_def\<close>)
  ultimately show "termios_baud (BaudMapTab ! r) flags custom = Some (atoi (BaudRateMenuItem ! r))"
    if "flags AND ASYNC_SPD_MASK = 0"
    using r that by force
qed

lemma mask_out:
  assumes "(c :: u32) AND CBAUD_CBAUDEX = c" "m AND CBAUD_CBAUDEX = 0"
  shows "c AND m = 0" "c AND NOT m = c"
proof -
  have "c AND m = c AND (CBAUD_CBAUDEX AND m)"
    by (metis assms(1) and.assoc)
  then show "c AND m = 0"
    using assms(2) by (simp add: and.commute)
  moreover have "(c AND m) OR (c AND NOT m) = c"
    by (simp add: bit.conj_disj_distrib [symmetric])
  ultimately show "c AND NOT m = c"
    by simp
qed

lemma clear_bits: "(m :: u32) AND k = 0 \<Longrightarrow> (w AND NOT k) AND m = w AND m"
proof -
  assume "m AND k = 0"
  moreover have "(m AND k) OR (m AND NOT k) = m"
    by (simp add: bit.conj_disj_distrib [symmetric])
  ultimately have "NOT k AND m = m"
    by (simp add: and.commute)
  then show ?thesis by (simp add: and.assoc)
qed

lemma line_format_read:
  assumes "menu_choice d"
  shows "line_format d AND CBAUD_CBAUDEX = 0" "parity_of (line_format d) = dt_parity d"
    "databit_of (line_format d) = dt_databit d" "stopbit_of (line_format d) = dt_stopbit d"
proof -
  have "dt_parity d < 5" "dt_databit d < 4" "dt_stopbit d < 2"
    using assms by (simp_all add: menu_choice_def)
  then show "line_format d AND CBAUD_CBAUDEX = 0" "parity_of (line_format d) = dt_parity d"
    "databit_of (line_format d) = dt_databit d" "stopbit_of (line_format d) = dt_stopbit d"
    unfolding choices line_format_def
    by (elim disjE; simp add: parity_bits_def parity_of_def databit_of_def stopbit_of_def)+
qed

lemma format_bits:
  assumes "\<And>m. m AND CBAUD_CBAUDEX = 0 \<Longrightarrow> m AND CRTSCTS = 0 \<Longrightarrow> f AND m = g AND m"
  shows "parity_of f = parity_of g \<and> databit_of f = databit_of g \<and> stopbit_of f = stopbit_of g"
proof -
  have bits: "f AND PARENB = g AND PARENB" "f AND PARODD = g AND PARODD" "f AND CMSPAR = g AND CMSPAR"
      "f AND CSIZE = g AND CSIZE" "f AND CSTOPB = g AND CSTOPB"
    by (rule assms; simp)+
  show ?thesis
    unfolding parity_of_def databit_of_def stopbit_of_def bits by simp
qed

text \<open>The word the terminal program asks for: the code of the rate and, in other bits, the format.\<close>

lemma sio_word:
  assumes "menu_choice d"
  defines "c \<equiv> BaudMapTab ! dt_rate d"
  shows "\<exists>f. ti_cflag (sio_attr d con) = c OR f \<and> c AND CBAUD_CBAUDEX = c \<and> f AND CBAUD_CBAUDEX = 0 \<and>
    parity_of f = dt_parity d \<and> databit_of f = dt_databit d \<and> stopbit_of f = dt_stopbit d"
proof -
  have c: "c AND CBAUD_CBAUDEX = c"
    using assms rate_codes(1) by (simp add: menu_choice_def)
  have sio: "sio_cflag d = c OR line_format d"
    using mask_out(2) [OF c, of "PARENB OR PARODD OR CMSPAR"]
    by (simp add: sio_cflag_def line_format_def c_def Let_def bit.conj_disj_distrib2 ac_simps)
  define f where "f = (if dt_xflow d = 0 \<or> dt_xflow d = 2 then line_format d OR CRTSCTS else line_format d AND NOT CRTSCTS)"
  have "ti_cflag (sio_attr d con) = c OR f"
    using assms(1) mask_out(2) [OF c, of CRTSCTS]
    by (auto simp: sio_attr_def flow_attr_def f_def sio Let_def bit.conj_disj_distrib2 or.assoc menu_choice_def choices)
  moreover have keep: "f AND m = line_format d AND m" if "m AND CRTSCTS = 0" for m
    using that clear_bits [OF that] by (simp add: f_def bit.conj_disj_distrib2 and.commute [of CRTSCTS m])
  moreover have "f AND CBAUD_CBAUDEX = 0"
    using keep [of CBAUD_CBAUDEX] line_format_read(1) [OF assms(1)] by simp
  moreover have "parity_of f = dt_parity d \<and> databit_of f = dt_databit d \<and> stopbit_of f = dt_stopbit d"
    using format_bits [of f "line_format d"] keep line_format_read [OF assms(1)] by simp
  ultimately show ?thesis using c by blast
qed

text \<open>What the monitor reads from the word, and the rate the driver runs the line at.\<close>

lemma settings_read_back:
  assumes "menu_choice d"
    and "cflag = ti_cflag (sio_attr d con)"
  shows "rate_of cflag old = dt_rate d" "parity_of cflag = dt_parity d" "databit_of cflag = dt_databit d"
    "stopbit_of cflag = dt_stopbit d"
    "flags AND ASYNC_SPD_MASK = 0 \<Longrightarrow> termios_baud cflag flags custom = Some (atoi (BaudRateMenuItem ! dt_rate d))"
proof -
  define c where "c = BaudMapTab ! dt_rate d"
  obtain f where f: "cflag = c OR f" "c AND CBAUD_CBAUDEX = c" "f AND CBAUD_CBAUDEX = 0"
      "parity_of f = dt_parity d" "databit_of f = dt_databit d" "stopbit_of f = dt_stopbit d"
    using sio_word [OF assms(1), of con] by (auto simp: assms(2) c_def)
  have out: "cflag AND m = f AND m" if "m AND CBAUD_CBAUDEX = 0" for m
    using mask_out(1) [OF f(2) that] by (simp add: f(1) bit.conj_disj_distrib2)
  have code: "cflag AND CBAUD_CBAUDEX = c AND CBAUD_CBAUDEX"
    using f(2,3) by (simp add: f(1) bit.conj_disj_distrib2)
  have r: "dt_rate d < 20" using assms(1) by (simp add: menu_choice_def)
  show "rate_of cflag old = dt_rate d"
    using rate_codes(2) [OF r, of old] unfolding rate_of_def code c_def .
  show "parity_of cflag = dt_parity d" "databit_of cflag = dt_databit d" "stopbit_of cflag = dt_stopbit d"
    using f(4-6) format_bits [of cflag f] out by simp_all
  show "termios_baud cflag flags custom = Some (atoi (BaudRateMenuItem ! dt_rate d))" if "flags AND ASYNC_SPD_MASK = 0"
    using rate_codes(3) [OF r that] unfolding termios_baud_def code c_def .
qed

section \<open>The statuses of the driver\<close>

lemma concat_rows:
  assumes "\<And>r. r \<in> set rs \<Longrightarrow> length (f r) = k" "i < length rs" "j < k"
  shows "concat (map f rs) ! (k * i + j) = f (rs ! i) ! j"
  using assms(1,2)
proof (induction rs arbitrary: i)
  case (Cons r rs)
  then show ?case
    using assms(3) by (cases i) (simp_all add: nth_append add.assoc)
qed simp

definition status_row :: "mxport \<Rightarrow> u8 \<Rightarrow> mxser_mstatus" where
  "status_row p st = \<lparr>ms_cflag = c_cflag (termios_now p), ms_cts = line_of st 0x10, ms_dsr = line_of st 0x20, ms_ri = 0,
     ms_dcd = line_of st 0x80\<rparr>"

text \<open>\<open>d\<close> and \<open>e\<close> differ in the statuses and the history; row \<open>j\<close> was filled from the chip.\<close>

definition rows_from :: "nat set \<Rightarrow> mxdrv \<Rightarrow> mxdrv \<Rightarrow> bool" where
  "rows_from J d e \<longleftrightarrow> (\<exists>h g. e = d\<lparr>d_GMStatus := g, ihist := h @ ihist d\<rparr> \<and> length g = length (d_GMStatus d) \<and>
     (\<forall>j. j \<notin> J \<longrightarrow> g ! j = d_GMStatus d ! j) \<and>
     (\<forall>j \<in> J. i_base (d_ports d ! j) \<noteq> 0 \<longrightarrow>
       (\<exists>st. In_b (i_base (d_ports d ! j) + UART_MSR) st \<in> set h \<and> g ! j = status_row (d_ports d ! j) st)))"

lemma row_from_chip:
  assumes "length (d_GMStatus d) = 32" "i < 32"
  shows "rows_from {i} d (snd (run_state (gm_status i) d))"
proof (cases "i_base (d_ports d ! i) = 0")
  case True
  then show ?thesis
    using assms unfolding rows_from_def
    by (intro exI [of _ "[]"] exI [of _ "d_GMStatus (snd (run_state (gm_status i) d))"])
      (simp add: gm_status_def upd_GMStatus_def)
next
  case False
  let ?st = "env_b (ienv d) (ihist d) (i_base (d_ports d ! i) + UART_MSR)"
  show ?thesis
    using assms False unfolding rows_from_def
    by (intro exI [of _ "[In_b (i_base (d_ports d ! i) + UART_MSR) ?st]"] exI [of _ "d_GMStatus (snd (run_state (gm_status i) d))"])
      (simp add: gm_status_def upd_GMStatus_def status_row_def)
qed

lemma rows_from_trans:
  assumes "rows_from J d e" "rows_from K e f" "J \<inter> K = {}"
  shows "rows_from (J \<union> K) d f"
proof -
  obtain h g where e: "e = d\<lparr>d_GMStatus := g, ihist := h @ ihist d\<rparr>" "length g = length (d_GMStatus d)"
    "\<forall>j. j \<notin> J \<longrightarrow> g ! j = d_GMStatus d ! j"
    "\<forall>j \<in> J. i_base (d_ports d ! j) \<noteq> 0 \<longrightarrow>
       (\<exists>st. In_b (i_base (d_ports d ! j) + UART_MSR) st \<in> set h \<and> g ! j = status_row (d_ports d ! j) st)"
    using assms(1) unfolding rows_from_def by blast
  obtain h' g' where f: "f = e\<lparr>d_GMStatus := g', ihist := h' @ ihist e\<rparr>" "length g' = length (d_GMStatus e)"
    "\<forall>j. j \<notin> K \<longrightarrow> g' ! j = d_GMStatus e ! j"
    "\<forall>j \<in> K. i_base (d_ports e ! j) \<noteq> 0 \<longrightarrow>
       (\<exists>st. In_b (i_base (d_ports e ! j) + UART_MSR) st \<in> set h' \<and> g' ! j = status_row (d_ports e ! j) st)"
    using assms(2) unfolding rows_from_def by blast
  have "f = d\<lparr>d_GMStatus := g', ihist := (h' @ h) @ ihist d\<rparr>" "length g' = length (d_GMStatus d)"
    using e(1,2) f(1,2) by simp_all
  moreover have "g' ! j = d_GMStatus d ! j" if "j \<notin> J \<union> K" for j
    using that e(1,3) f(3) by simp
  moreover have "\<exists>st. In_b (i_base (d_ports d ! j) + UART_MSR) st \<in> set (h' @ h) \<and> g' ! j = status_row (d_ports d ! j) st"
    if "j \<in> J \<union> K" "i_base (d_ports d ! j) \<noteq> 0" for j
  proof (cases "j \<in> K")
    case True
    then show ?thesis using f(4) e(1) that(2) by auto
  next
    case False
    then have "j \<in> J" "g' ! j = g ! j" using that(1) f(3) e(1) by auto
    then show ?thesis using e(4) that(2) by auto
  qed
  ultimately show ?thesis
    unfolding rows_from_def by blast
qed

lemma all_rows_from_chip:
  assumes "length (d_GMStatus d) = 32" "i + k \<le> 32"
  shows "rows_from {i..<i + k} d (snd (run_state (for_ports gm_status i k) d))"
  using assms
proof (induction k arbitrary: i d)
  case 0
  show ?case
    unfolding rows_from_def by (rule exI [of _ "[]"], rule exI [of _ "d_GMStatus d"]) simp
next
  case (Suc k)
  define d1 where "d1 = snd (run_state (gm_status i) d)"
  have one: "rows_from {i} d d1"
    unfolding d1_def using Suc.prems by (intro row_from_chip) simp_all
  then have "length (d_GMStatus d1) = 32"
    using Suc.prems(1) unfolding rows_from_def by fastforce
  then have "rows_from {i + 1..<i + 1 + k} d1 (snd (run_state (for_ports gm_status (i + 1) k) d1))"
    using Suc.prems by (intro Suc.IH) simp_all
  then have "rows_from ({i} \<union> {i + 1..<i + 1 + k}) d (snd (run_state (for_ports gm_status (i + 1) k) d1))"
    by (rule rows_from_trans [OF one]) auto
  moreover have "{i} \<union> {i + 1..<i + 1 + k} = {i..<i + Suc k}" by auto
  ultimately show ?case
    by (simp add: d1_def case_prod_beta)
qed

lemma mstatus_run:
  assumes "length (d_GMStatus d) = 32" "\<And>h. env_k (ienv d) h ''access_ok'' [] \<noteq> 0"
  shows "\<exists>h g. run_state (with_reply (mxser_ioctl_special (MOXA_GETMSTATUS (good_arg ())))) d =
      ((0, Some (concat (map gm_words g))), d\<lparr>d_GMStatus := g, ihist := To_user (concat (map gm_words g)) # h @ ihist d\<rparr>) \<and>
    length g = 32 \<and> (\<forall>j < 32. i_base (d_ports d ! j) \<noteq> 0 \<longrightarrow>
      (\<exists>st. In_b (i_base (d_ports d ! j) + UART_MSR) st \<in> set h \<and> g ! j = status_row (d_ports d ! j) st))"
proof -
  define d0 where "d0 = d\<lparr>ihist := Kernel_call ''access_ok'' [] (env_k (ienv d) (ihist d) ''access_ok'' []) # ihist d\<rparr>"
  define e where "e = snd (run_state (for_ports gm_status 0 32) d0)"
  obtain h g where e: "e = d0\<lparr>d_GMStatus := g, ihist := h @ ihist d0\<rparr>" "length g = 32"
    "\<forall>j < 32. i_base (d_ports d0 ! j) \<noteq> 0 \<longrightarrow>
       (\<exists>st. In_b (i_base (d_ports d0 ! j) + UART_MSR) st \<in> set h \<and> g ! j = status_row (d_ports d0 ! j) st)"
    using all_rows_from_chip [of d0 0 32, folded e_def] assms(1)
    unfolding rows_from_def by (auto simp: d0_def atLeast0LessThan)
  have run: "run_state (mxser_ioctl_special (MOXA_GETMSTATUS (good_arg ()))) d =
      (0, e\<lparr>ihist := To_user (concat (map gm_words g)) # ihist e\<rparr>)"
    using assms(2) e(1) by (simp add: mxser_ioctl_special_def access_ok_def reply_def good_arg_def d0_def [symmetric]
        e_def [symmetric] case_prod_beta del: for_ports.simps)
  show ?thesis
    using e by (intro exI [of _ "h @ [Kernel_call ''access_ok'' [] (env_k (ienv d) (ihist d) ''access_ok'' [])]"] exI [of _ g])
      (auto simp: run d0_def)
qed


definition console_example :: termios where
  "console_example = \<lparr>ti_iflag = 0x500, ti_oflag = 5, ti_cflag = 0xBF, ti_lflag = 0x8A3B, ti_vmin = 1, ti_vtime = 0\<rparr>"

definition line_example :: mxdrv where
  "line_example = control_example\<lparr>d_ports := replicate 32 (port_example\<lparr>i_t := (i_t port_example)\<lparr>t_termios :=
     termios_example\<lparr>c_cflag := ti_cflag (sio_attr (set_dterm\<lparr>dt_parity := 1\<rparr>) console_example)\<rparr>\<rparr>\<rparr>)\<rparr>"


text \<open>The names of the parities in the two programs: the monitor's menu has one entry twice.\<close>

lemma mark_shown_as_even:
  "p < 5 \<Longrightarrow> mon_ParityMenuItem ! p = term_ParityMenuItem ! p \<longleftrightarrow> p < 3"
  "mon_ParityMenuItem ! 3 = term_ParityMenuItem ! 2" "mon_ParityMenuItem ! 4 = term_ParityMenuItem ! 3"
  by (auto simp: choices mon_ParityMenuItem_def term_ParityMenuItem_def)

end
