(* ===== verification/Muestty_Term.thy ===== *)
theory Muestty_Term
  imports Muestty_Recv Muestty_Line
begin

text \<open>
  The terminal program \<open>user/muestty_utility/term\<close>: the menus of \<open>term.c\<close> and \<open>term_m.c\<close>, the setup page
  of \<open>term_s.c\<close>, the dumb terminal, and the sending of patterns (\<open>term_mp.c\<close>) and of files (\<open>term_mf.c\<close>).

  What the user and the devices do is an argument: the results of the window library's edit functions
  with the fields they leave, and for the loops over \<open>select\<close> one record per round.
\<close>

section \<open>The rounds of a loop over select\<close>

text \<open>
  \<open>rd_key\<close>: the key when the console is readable.  \<open>rd_recv\<close>: what \<open>read\<close> gives when the port is
  readable (no bytes when it fails).  \<open>rd_room\<close>: how many bytes the port takes when it is writable;
  \<open>write\<close> returns what it took, and 0 stands for an error as well.  A round in which \<open>select\<close> fails or
  times out has none of them.
\<close>

record round =
  rd_key :: "nat option"
  rd_recv :: "string option"
  rd_room :: "nat option"

abbreviation "K_CTRL_D \<equiv> 0x04 :: nat"
abbreviation "K_CTRL_N \<equiv> 0x0E :: nat"
abbreviation "K_CTRL_X \<equiv> 0x18 :: nat"
abbreviation "K_ESC \<equiv> 0x11B :: nat"
abbreviation "K_ENTER \<equiv> 0x10A :: nat"

section \<open>The dumb terminal\<close>

definition enter_bytes :: "nat \<Rightarrow> string" where
  "enter_bytes senter = (if senter = 0 then [K_CR, K_LF] else if senter = 1 then [K_CR]
     else if senter = 2 then [K_LF] else if senter = 3 then [K_LF, K_CR] else [])"

definition key_bytes :: "nat \<Rightarrow> nat \<Rightarrow> string" where
  "key_bytes senter key = (let k = char_of (key mod 256) in if k = K_CR then enter_bytes senter else [k])"

text \<open>
  The loop of \<open>term_mode\<close>: what it gives to \<open>write\<close> on the port and on the console, and whether the user
  has left it.
\<close>

fun term_rounds :: "nat \<Rightarrow> round list \<Rightarrow> bool \<times> string \<times> string" where
  "term_rounds senter [] = (False, [], [])"
| "term_rounds senter (r # rs) =
    (let out = (case rd_key r of Some key \<Rightarrow> if key mod 256 = K_CTRL_N then [] else key_bytes senter key | None \<Rightarrow> []);
         shown = (case rd_recv r of Some bytes \<Rightarrow> bytes | None \<Rightarrow> [])
     in if (case rd_key r of Some key \<Rightarrow> key mod 256 = K_CTRL_N | None \<Rightarrow> False) then (True, out, shown)
       else let (left, out', shown') = term_rounds senter rs in (left, out @ out', shown @ shown'))"

section \<open>Sending a pattern\<close>

record sender =
  sd_wflag :: bool
  sd_slen :: nat
  sd_count :: nat
  sd_oldcnt :: nat
  sd_times :: nat
  sd_sent :: string
  sd_shown :: "nat list"
  sd_recv :: recvmon

definition sender_init :: sender where
  "sender_init = \<lparr>sd_wflag = False, sd_slen = 0, sd_count = 0, sd_oldcnt = 0, sd_times = 100, sd_sent = [],
     sd_shown = [], sd_recv = recvmon_init\<rparr>"

text \<open>Every hundred rounds the count is shown, when it is another one.\<close>

definition show_count :: "'x sender_scheme \<Rightarrow> 'x sender_scheme" where
  "show_count s = (let times = sd_times s + 1 in
    if 100 \<le> times then
      (let s = s\<lparr>sd_times := 0\<rparr> in
       if sd_oldcnt s = sd_count s then s
       else s\<lparr>sd_shown := sd_shown s @ [sd_count s], sd_oldcnt := sd_count s\<rparr>)
    else s\<lparr>sd_times := times\<rparr>)"

definition receive :: "char \<Rightarrow> round \<Rightarrow> 'x sender_scheme \<Rightarrow> 'x sender_scheme" where
  "receive beyond r s = (case rd_recv r of Some bytes \<Rightarrow> s\<lparr>sd_recv := recvmon_read beyond bytes (sd_recv s)\<rparr> | None \<Rightarrow> s)"

definition stop_key :: "round \<Rightarrow> bool" where
  "stop_key r \<longleftrightarrow> rd_key r = Some K_CTRL_X \<or> rd_key r = Some K_CTRL_N"

text \<open>One write of a pattern or of a block of a file from position \<open>slen\<close>: what the port takes.\<close>

definition taken :: "round \<Rightarrow> string \<Rightarrow> nat \<Rightarrow> string" where
  "taken r ptn slen = (case rd_room r of Some n \<Rightarrow> take n (drop slen ptn) | None \<Rightarrow> [])"

definition write_pattern :: "string \<Rightarrow> round \<Rightarrow> sender \<Rightarrow> sender" where
  "write_pattern ptn r s = (let w = taken r ptn (sd_slen s) in
    if \<not> sd_wflag s \<or> w = [] then s
    else let s = s\<lparr>sd_sent := sd_sent s @ w, sd_slen := sd_slen s + length w\<rparr> in
      if sd_slen s = length ptn then s\<lparr>sd_count := sd_count s + 1, sd_wflag := False\<rparr> else s)"

fun pattern_rounds :: "char \<Rightarrow> string \<Rightarrow> round list \<Rightarrow> sender \<Rightarrow> bool \<times> sender" where
  "pattern_rounds beyond ptn [] s = (False, s)"
| "pattern_rounds beyond ptn (r # rs) s =
    (let s = (if sd_wflag s then s else s\<lparr>sd_slen := 0, sd_wflag := True\<rparr>) in
     if stop_key r then (True, s)
     else pattern_rounds beyond ptn rs (show_count (write_pattern ptn r (receive beyond r s))))"

text \<open>After the loop: the count once more, and the end of the window of received data.\<close>

definition finish_sender :: "char \<Rightarrow> string \<Rightarrow> 'x sender_scheme \<Rightarrow> 'x sender_scheme" where
  "finish_sender beyond old s =
    (let s = (if sd_oldcnt s \<noteq> sd_count s then s\<lparr>sd_shown := sd_shown s @ [sd_count s]\<rparr> else s)
     in s\<lparr>sd_recv := recvmon_end beyond old (sd_recv s)\<rparr>)"

definition send_Pattern :: "char \<Rightarrow> string \<Rightarrow> string \<Rightarrow> round list \<Rightarrow> bool \<times> sender" where
  "send_Pattern beyond old ptn rs = (let (left, s) = pattern_rounds beyond ptn rs sender_init
     in (left, if left then finish_sender beyond old s else s))"

section \<open>Sending a file\<close>

text \<open>\<open>fs_rest\<close> is the part of the file behind its position, \<open>fs_rbuf\<close> the block read last.\<close>

record file_sender = sender +
  fs_rest :: string
  fs_rbuf :: string

definition file_init :: "string \<Rightarrow> file_sender" where
  "file_init file = sender.extend sender_init \<lparr>fs_rest = file, fs_rbuf = []\<rparr>"

definition read_block :: "file_sender \<Rightarrow> file_sender" where
  "read_block s = s\<lparr>fs_rbuf := take 128 (fs_rest s), fs_rest := drop 128 (fs_rest s), sd_slen := 0, sd_wflag := True\<rparr>"

text \<open>\<open>sendlen\<close> is \<open>sd_count\<close> here.\<close>

definition write_block :: "round \<Rightarrow> file_sender \<Rightarrow> file_sender" where
  "write_block r s = (let w = taken r (fs_rbuf s) (sd_slen s) in
    if \<not> sd_wflag s \<or> w = [] then s
    else let s = s\<lparr>sd_sent := sd_sent s @ w, sd_count := sd_count s + length w, sd_slen := sd_slen s + length w\<rparr> in
      if sd_slen s = length (fs_rbuf s) then s\<lparr>sd_wflag := False\<rparr> else s)"

text \<open>The loop ends at the end of the file or with a key; \<open>None\<close> when it goes on.\<close>

datatype file_end = End_of_file | Stopped

fun file_rounds :: "char \<Rightarrow> round list \<Rightarrow> file_sender \<Rightarrow> file_end option \<times> file_sender" where
  "file_rounds beyond [] s =
    (if \<not> sd_wflag s \<and> fs_rest s = [] then (Some End_of_file, s) else (None, s))"
| "file_rounds beyond (r # rs) s =
    (if \<not> sd_wflag s \<and> fs_rest s = [] then (Some End_of_file, s)
     else let s = (if sd_wflag s then s else read_block s) in
       if stop_key r then (Some Stopped, s)
       else file_rounds beyond rs (show_count (write_block r (receive beyond r s))))"

definition send_file :: "char \<Rightarrow> string \<Rightarrow> string \<Rightarrow> round list \<Rightarrow> file_end option \<times> file_sender" where
  "send_file beyond old file rs = (let (ended, s) = file_rounds beyond rs (file_init file)
     in (ended, if ended = None then s else finish_sender beyond old s))"

section \<open>What is sent\<close>

lemma count_frame [simp]:
  "sd_wflag (show_count s) = sd_wflag s" "sd_slen (show_count s) = sd_slen s" "sd_sent (show_count s) = sd_sent s"
  "sd_count (show_count s) = sd_count s" "sd_wflag (receive b r s) = sd_wflag s" "sd_slen (receive b r s) = sd_slen s"
  "sd_sent (receive b r s) = sd_sent s" "sd_count (receive b r s) = sd_count s" "sd_shown (receive b r s) = sd_shown s"
  "sd_oldcnt (receive b r s) = sd_oldcnt s"
  by (simp_all add: show_count_def receive_def Let_def split: option.split)

lemma file_frame [simp]:
  "fs_rest (show_count s) = fs_rest s" "fs_rbuf (show_count s) = fs_rbuf s"
  "fs_rest (receive b r s) = fs_rest s" "fs_rbuf (receive b r s) = fs_rbuf s"
  by (simp_all add: show_count_def receive_def Let_def split: option.split)

text \<open>The count that was shown last is \<open>oldcnt\<close>.\<close>

definition shown_ok :: "'x sender_scheme \<Rightarrow> bool" where
  "shown_ok s \<longleftrightarrow> last (0 # sd_shown s) = sd_oldcnt s"

lemma shown_count: "shown_ok s \<Longrightarrow> shown_ok (show_count s)"
  by (auto simp: shown_ok_def show_count_def Let_def)

lemma finish_shown:
  "shown_ok s \<Longrightarrow> last (0 # sd_shown (finish_sender b old s)) = sd_count s"
  "sd_sent (finish_sender b old s) = sd_sent s" "sd_count (finish_sender b old s) = sd_count s"
  by (auto simp: shown_ok_def finish_sender_def Let_def)

definition pattern_ok :: "string \<Rightarrow> sender \<Rightarrow> bool" where
  "pattern_ok ptn s \<longleftrightarrow> shown_ok s \<and> (sd_wflag s \<longrightarrow> sd_slen s = 0 \<or> sd_slen s < length ptn) \<and>
     sd_sent s = concat (replicate (sd_count s) ptn) @ take (if sd_wflag s then sd_slen s else 0) ptn"

lemma taken_drop: "take (length (taken r ptn k)) (drop k ptn) = taken r ptn k \<and> length (taken r ptn k) \<le> length ptn - k"
  by (cases "rd_room r") (auto simp: taken_def min_def)

lemma concat_replicate_end: "concat (replicate (Suc n) p) = concat (replicate n p) @ p"
  by (induction n) simp_all

lemma pattern_ok_write:
  assumes "pattern_ok ptn s" "sd_wflag s"
  shows "pattern_ok ptn (write_pattern ptn r s)"
proof -
  let ?w = "taken r ptn (sd_slen s)"
  have "take (sd_slen s) ptn @ ?w = take (sd_slen s + length ?w) ptn"
    using taken_drop [of r ptn "sd_slen s"] by (metis take_add)
  then show ?thesis
    using assms taken_drop [of r ptn "sd_slen s"] concat_replicate_end [of "sd_count s" ptn]
    by (auto simp: pattern_ok_def write_pattern_def Let_def shown_ok_def)
qed

lemma pattern_ok_rounds: "pattern_ok ptn s \<Longrightarrow> pattern_ok ptn (snd (pattern_rounds beyond ptn rs s))"
proof (induction rs arbitrary: s)
  case (Cons r rs)
  let ?s = "if sd_wflag s then s else s\<lparr>sd_slen := 0, sd_wflag := True\<rparr>"
  have "pattern_ok ptn ?s" "sd_wflag ?s"
    using Cons.prems by (auto simp: pattern_ok_def shown_ok_def)
  moreover from this have "pattern_ok ptn (write_pattern ptn r (receive beyond r ?s))"
    by (intro pattern_ok_write) (simp_all add: pattern_ok_def shown_ok_def)
  then have "pattern_ok ptn (show_count (write_pattern ptn r (receive beyond r ?s)))"
    by (simp add: pattern_ok_def shown_count)
  ultimately show ?case
    using Cons.IH by (simp add: Let_def)
qed simp

text \<open>
  Sending a pattern.  Whatever the port takes in each round and whatever arrives meanwhile, what was
  sent is the pattern as often as the count says and the beginning of one more; when the user stops the
  loop the count that is shown last is that count.
\<close>

theorem send_pattern_exact:
  "let (left, s) = send_Pattern beyond old ptn rs in
    (\<exists>k. (k = 0 \<or> k < length ptn) \<and> sd_sent s = concat (replicate (sd_count s) ptn) @ take k ptn) \<and>
    (left \<longrightarrow> last (0 # sd_shown s) = sd_count s)"
proof -
  define s where "s = snd (pattern_rounds beyond ptn rs sender_init)"
  have ok: "pattern_ok ptn s"
    unfolding s_def by (rule pattern_ok_rounds) (simp add: pattern_ok_def sender_init_def shown_ok_def)
  then have "\<exists>k. (k = 0 \<or> k < length ptn) \<and> sd_sent s = concat (replicate (sd_count s) ptn) @ take k ptn"
    by (intro exI [of _ "if sd_wflag s then sd_slen s else 0"]) (auto simp: pattern_ok_def)
  then show ?thesis
    using ok finish_shown [where s = s and b = beyond and old = old]
    by (auto simp: send_Pattern_def case_prod_beta Let_def s_def [symmetric] pattern_ok_def)
qed

definition round_example :: "nat \<Rightarrow> round" where
  "round_example n = \<lparr>rd_key = None, rd_recv = None, rd_room = Some n\<rparr>"

lemma send_pattern_exact_witness:
  "let (left, s) = send_Pattern K_LF [] ''0123'' [round_example 3, \<lparr>rd_key = Some K_CTRL_X, rd_recv = None, rd_room = None\<rparr>]
   in left \<and> last (0 # sd_shown s) = sd_count s"
proof -
  let ?rs = "[round_example 3, \<lparr>rd_key = Some K_CTRL_X, rd_recv = None, rd_room = None\<rparr>]"
  have "fst (send_Pattern K_LF [] ''0123'' ?rs)"
    by (simp add: send_Pattern_def Let_def stop_key_def round_example_def case_prod_beta)
  then show ?thesis
    using send_pattern_exact [of K_LF "[]" "''0123''" ?rs] by (auto simp: case_prod_beta)
qed

subsection \<open>Files\<close>

definition file_ok :: "string \<Rightarrow> file_sender \<Rightarrow> bool" where
  "file_ok file s \<longleftrightarrow> shown_ok s \<and> (sd_wflag s \<longrightarrow> sd_slen s < length (fs_rbuf s)) \<and> sd_count s = length (sd_sent s) \<and>
     file = sd_sent s @ (if sd_wflag s then drop (sd_slen s) (fs_rbuf s) else []) @ fs_rest s"

lemma file_ok_write:
  assumes "file_ok file s" "sd_wflag s"
  shows "file_ok file (write_block r s) \<and> sd_sent (write_block r s) = sd_sent s @ taken r (fs_rbuf s) (sd_slen s)"
proof -
  define w where "w = taken r (fs_rbuf s) (sd_slen s)"
  define rest where "rest = drop (sd_slen s + length w) (fs_rbuf s)"
  have w: "take (length w) (drop (sd_slen s) (fs_rbuf s)) = w" "length w \<le> length (fs_rbuf s) - sd_slen s"
    unfolding w_def using taken_drop by blast+
  have "drop (sd_slen s) (fs_rbuf s) = take (length w) (drop (sd_slen s) (fs_rbuf s)) @ drop (length w) (drop (sd_slen s) (fs_rbuf s))"
    by (rule append_take_drop_id [symmetric])
  then have split: "drop (sd_slen s) (fs_rbuf s) = w @ rest"
    unfolding w(1) drop_drop add.commute [of "length w"] rest_def .
  have whole: "file = sd_sent s @ w @ rest @ fs_rest s"
    using assms split by (simp add: file_ok_def)
  show ?thesis
  proof (cases "w = []")
    case True
    then show ?thesis
      using assms by (simp add: write_block_def w_def [symmetric])
  next
    case False
    then show ?thesis
      using assms w(2) whole
      by (auto simp: write_block_def w_def [symmetric] file_ok_def shown_ok_def rest_def Let_def)
  qed
qed

lemma file_ok_round:
  assumes "file_ok file s" "\<not> (\<not> sd_wflag s \<and> fs_rest s = [])"
  defines "u \<equiv> (if sd_wflag s then s else read_block s)"
  shows "file_ok file u" "sd_wflag u" "sd_sent u = sd_sent s"
    "file_ok file (show_count (write_block r (receive beyond r u)))"
    "sd_sent (show_count (write_block r (receive beyond r u))) = sd_sent s @ taken r (fs_rbuf u) (sd_slen u)"
    "taken r (fs_rbuf u) (sd_slen u) \<noteq> [] \<longleftrightarrow> (\<exists>n > 0. rd_room r = Some n)"
proof -
  show u: "file_ok file u" "sd_wflag u" "sd_sent u = sd_sent s"
    using assms(1,2) by (auto simp: u_def file_ok_def shown_ok_def read_block_def)
  have ok: "file_ok file (receive beyond r u)" "sd_wflag (receive beyond r u)"
    using u(1,2) by (simp_all add: file_ok_def shown_ok_def)
  show "file_ok file (show_count (write_block r (receive beyond r u)))"
    using file_ok_write [OF ok, of r] by (simp add: file_ok_def shown_count)
  show "sd_sent (show_count (write_block r (receive beyond r u))) = sd_sent s @ taken r (fs_rbuf u) (sd_slen u)"
    using file_ok_write [OF ok, of r] u(3) by simp
  have "drop (sd_slen u) (fs_rbuf u) \<noteq> []"
    using u(1,2) by (simp add: file_ok_def)
  then show "taken r (fs_rbuf u) (sd_slen u) \<noteq> [] \<longleftrightarrow> (\<exists>n > 0. rd_room r = Some n)"
    by (auto simp: taken_def split: option.splits)
qed

lemma file_rounds_ok:
  assumes "file_ok file s"
  shows "file_ok file (snd (file_rounds beyond rs s)) \<and>
    (fst (file_rounds beyond rs s) = Some End_of_file \<longrightarrow> sd_sent (snd (file_rounds beyond rs s)) = file) \<and>
    ((\<forall>r \<in> set rs. \<not> stop_key r \<and> (\<exists>n > 0. rd_room r = Some n)) \<and> length file \<le> length (sd_sent s) + length rs \<longrightarrow>
      fst (file_rounds beyond rs s) = Some End_of_file)"
  using assms
proof (induction rs arbitrary: s)
  case Nil
  then show ?case by (auto simp: file_ok_def)
next
  case (Cons r rs)
  show ?case
  proof (cases "\<not> sd_wflag s \<and> fs_rest s = []")
    case True
    then show ?thesis using Cons.prems by (simp add: file_ok_def)
  next
    case False
    note step = file_ok_round [OF Cons.prems False]
    define u where "u = (if sd_wflag s then s else read_block s)"
    define s' where "s' = show_count (write_block r (receive beyond r u))"
    have go: "file_rounds beyond (r # rs) s = (if stop_key r then (Some Stopped, u) else file_rounds beyond rs s')"
      using False by (auto simp: Let_def u_def s'_def)
    have "length (sd_sent s) < length (sd_sent s')" if "\<exists>n > 0. rd_room r = Some n"
      using step(5,6) [of r] that by (simp add: s'_def u_def)
    then show ?thesis
      using Cons.IH [OF step(4) [of r beyond], folded u_def, folded s'_def] step(1) [folded u_def]
      unfolding go by (cases "stop_key r") (auto simp: Suc_le_eq)
  qed
qed

text \<open>
  C34. Sending a file.  What was sent is the beginning of the file, whatever the port takes in each round;
  when the loop ends at the end of the file it is the whole file, and the length that is shown last is the
  one that was sent.  If the port takes something in every round and no stop key is pressed, as many rounds
  as the file has bytes are enough.
\<close>

theorem send_file_exact:
  "let (ended, s) = send_file beyond old file rs in
    (\<exists>rest. file = sd_sent s @ rest) \<and> (ended = Some End_of_file \<longrightarrow> sd_sent s = file) \<and>
    (ended \<noteq> None \<longrightarrow> last (0 # sd_shown s) = length (sd_sent s)) \<and>
    ((\<forall>r \<in> set rs. \<not> stop_key r \<and> (\<exists>n > 0. rd_room r = Some n)) \<and> length file \<le> length rs \<longrightarrow> ended = Some End_of_file)"
proof -
  define e where "e = fst (file_rounds beyond rs (file_init file))"
  define s where "s = snd (file_rounds beyond rs (file_init file))"
  have init: "file_ok file (file_init file)" "sd_sent (file_init file) = []"
    by (simp_all add: file_ok_def file_init_def shown_ok_def sender_init_def sender.extend_def)
  note ok = file_rounds_ok [OF init(1), of beyond rs, folded s_def e_def, unfolded init(2)]
  have s: "\<exists>rest. file = sd_sent s @ rest" "shown_ok s" "sd_count s = length (sd_sent s)"
    using ok unfolding file_ok_def by blast+
  have run: "send_file beyond old file rs = (e, if e = None then s else finish_sender beyond old s)"
    by (simp add: send_file_def case_prod_beta e_def s_def Let_def)
  have sent: "sd_sent (if e = None then s else finish_sender beyond old s) = sd_sent s"
    by (simp add: finish_shown(2))
  show ?thesis
    unfolding run Let_def prod.case sent using ok s finish_shown(1) [OF s(2), of beyond old] by auto
qed

lemma send_file_exact_witness:
  "sd_sent (snd (send_file K_LF [] ''Hello'' (replicate 5 (round_example 2)))) = ''Hello''"
  using send_file_exact [of K_LF "[]" "''Hello''" "replicate 5 (round_example 2)"]
  by (auto simp: case_prod_beta Let_def stop_key_def round_example_def)

section \<open>User defined patterns\<close>

text \<open>
  The field of the page has 40 characters.  \<open>val\<close> is a signed word of 32 bits; the digits are added without a
  check, and only what a comma ends is compared with 256.
\<close>

definition hex_digit :: "char \<Rightarrow> 32 word option" where
  "hex_digit ch = (let n = (of_char ch :: nat) in
     if 48 \<le> n \<and> n \<le> 57 then Some (of_nat (n - 48))
     else if 97 \<le> n \<and> n \<le> 102 then Some (of_nat (n - 97 + 10))
     else if 65 \<le> n \<and> n \<le> 70 then Some (of_nat (n - 65 + 10))
     else None)"

definition low_char :: "32 word \<Rightarrow> char" where
  "low_char w = char_of (unat w mod 256)"

fun hex_loop :: "string \<Rightarrow> 32 word \<Rightarrow> string \<Rightarrow> string option" where
  "hex_loop [] val upattern = Some (if val \<noteq> 0 then upattern @ [low_char val] else upattern)"
| "hex_loop (ch # cs) val upattern =
    (if ch = CHR '' '' then hex_loop cs val upattern
     else case hex_digit ch of
       Some v \<Rightarrow> hex_loop cs (val * 16 + v) upattern
     | None \<Rightarrow>
         if ch = CHR '','' then (if 256 \<le> sint val then None else hex_loop cs 0 (upattern @ [low_char val]))
         else None)"

text \<open>\<open>None\<close> stands for the result -1, otherwise the pattern with its length is the string.\<close>

definition get_hex_data :: "string \<Rightarrow> string option" where
  "get_hex_data str = hex_loop (take 40 str) 0 []"

definition get_ascii_data :: "string \<Rightarrow> string option" where
  "get_ascii_data str = Some (filter (\<lambda>ch. ch \<noteq> CHR '' '') (take 10 str))"

definition get_menu_pattern :: "bool \<Rightarrow> string \<Rightarrow> string option" where
  "get_menu_pattern hex str = (if hex then get_hex_data str else get_ascii_data str)"

text \<open>\<open>sprintf\<close> with \<open>%02x\<close>; a \<open>char\<close> from 128 on is negative, and the text does not fit \<open>temp\<close>.\<close>

definition hex_char :: "nat \<Rightarrow> char" where
  "hex_char n = (if n < 10 then char_of (48 + n) else char_of (87 + n))"

definition hex_byte :: "char \<Rightarrow> string" where
  "hex_byte ch = (let n = (of_char ch :: nat) in
     if n < 128 then [hex_char (n div 16), hex_char (n mod 16)] else ''ff'')"

definition temp_overflows :: "char \<Rightarrow> bool" where
  "temp_overflows ch \<longleftrightarrow> 128 \<le> (of_char ch :: nat)"

text \<open>\<open>j\<close> counts the digits; the loop ends at 38 of them or at the last byte.\<close>

fun hex_text :: "string \<Rightarrow> nat \<Rightarrow> string" where
  "hex_text [] j = []"
| "hex_text (ch # cs) j = hex_byte ch @ (if 38 \<le> j + 2 \<or> cs = [] then [] else CHR '','' # hex_text cs (j + 2))"

definition blank_to :: "nat \<Rightarrow> string \<Rightarrow> string" where
  "blank_to n s = s @ replicate (n - length s) CHR '' ''"

definition change_data_mode :: "bool \<Rightarrow> string \<Rightarrow> string" where
  "change_data_mode hex upattern = blank_to 40 (if hex then hex_text upattern 0 else take 40 upattern)"

text \<open>
  The page: each element of the list is a key that \<open>mw_edit\<close> returns with the field it leaves.  The result is
  the pattern to send, if any, with the mode; no result when the user stays.
\<close>

fun UPattern_setup :: "(nat \<times> (string \<Rightarrow> string)) list \<Rightarrow> bool \<Rightarrow> string \<Rightarrow> (string option \<times> bool \<times> string) option" where
  "UPattern_setup [] hex str = None"
| "UPattern_setup ((key, edit) # es) hex str =
    (let str = edit str in
     if key = K_ESC then Some (None, hex, str)
     else if key = K_CTRL_D then
       (case get_menu_pattern hex str of
          None \<Rightarrow> UPattern_setup es hex str
        | Some upattern \<Rightarrow> UPattern_setup es (\<not> hex) (change_data_mode (\<not> hex) upattern))
     else if key = K_ENTER then Some (get_menu_pattern hex str, hex, str)
     else UPattern_setup es hex str)"

text \<open>A byte is written and read as itself.\<close>

lemma hex_digits:
  assumes "d < 16"
  shows "hex_digit (hex_char d) = Some (of_nat d)" "hex_char d \<noteq> CHR '' ''"
proof -
  have code: "(of_char (hex_char d) :: nat) = (if d < 10 then 48 + d else 87 + d)"
    using assms by (simp add: hex_char_def)
  then show "hex_digit (hex_char d) = Some (of_nat d)"
    using assms by (auto simp: hex_digit_def Let_def)
  show "hex_char d \<noteq> CHR '' ''"
  proof
    assume "hex_char d = CHR '' ''"
    then have "(of_char (hex_char d) :: nat) = 32" by simp
    with code show False by (simp split: if_splits)
  qed
qed

lemma byte_read:
  assumes "(of_char ch :: nat) < 128"
  shows "hex_loop (hex_byte ch @ cs) 0 up = hex_loop cs (of_nat (of_char ch)) up" "length (hex_byte ch) = 2"
proof -
  let ?n = "of_char ch :: nat"
  have "of_nat (?n div 16) * 16 + of_nat (?n mod 16) = (of_nat (?n div 16 * 16 + ?n mod 16) :: 32 word)"
    by (simp only: of_nat_add of_nat_mult of_nat_numeral)
  then have "of_nat (?n div 16) * 16 + of_nat (?n mod 16) = (of_nat ?n :: 32 word)"
    by simp
  then show "hex_loop (hex_byte ch @ cs) 0 up = hex_loop cs (of_nat (of_char ch)) up"
    using assms hex_digits [of "?n div 16"] hex_digits [of "?n mod 16"] by (simp add: hex_byte_def Let_def)
  show "length (hex_byte ch) = 2"
    by (simp add: hex_byte_def Let_def)
qed

lemma hex_blanks: "hex_loop (replicate k CHR '' '') val up = Some (if val \<noteq> 0 then up @ [low_char val] else up)"
  by (induction k) simp_all

lemma small_byte:
  assumes "(of_char ch :: nat) < 128"
  shows "low_char (of_nat (of_char ch)) = ch" "sint (of_nat (of_char ch) :: 32 word) < 256"
    "(of_nat (of_char ch) :: 32 word) = 0 \<longleftrightarrow> ch = CHR 0x00"
proof -
  have u: "unat (of_nat (of_char ch) :: 32 word) = of_char ch"
    using assms by (simp add: unsigned_of_nat take_bit_nat_eq_self)
  then show "low_char (of_nat (of_char ch)) = ch"
    using assms by (simp add: low_char_def)
  show "sint (of_nat (of_char ch) :: 32 word) < 256"
    using assms by (simp add: signed_of_nat signed_take_bit_int_eq_self)
  have "(of_nat (of_char ch) :: 32 word) = 0 \<longleftrightarrow> (of_char ch :: nat) = 0"
    using u by (metis unat_0 unat_eq_zero)
  also have "\<dots> \<longleftrightarrow> ch = CHR 0x00"
  proof
    assume "(of_char ch :: nat) = 0"
    then have "ch = char_of (0 :: nat)" by (metis char_of_char)
    then show "ch = CHR 0x00" by (simp add: char_of_def)
  qed simp
  finally show "(of_nat (of_char ch) :: 32 word) = 0 \<longleftrightarrow> ch = CHR 0x00" .
qed

lemma hex_text_read:
  assumes "\<forall>ch \<in> set bs. (of_char ch :: nat) < 128" "j + 2 * length bs \<le> 38" "bs \<noteq> []" "last bs \<noteq> CHR 0x00"
  shows "hex_loop (hex_text bs j @ replicate k CHR '' '') 0 up = Some (up @ bs)"
  using assms
proof (induction bs arbitrary: j up)
  case (Cons ch cs)
  have ch: "(of_char ch :: nat) < 128" using Cons.prems(1) by simp
  show ?case
  proof (cases "cs = []")
    case True
    then show ?thesis
      using Cons.prems(4) small_byte [OF ch] by (simp add: byte_read [OF ch] hex_blanks)
  next
    case False
    then have "\<not> 38 \<le> j + 2" using Cons.prems(2) by (cases cs) auto
    moreover have "hex_digit CHR '','' = None" by code_simp
    ultimately show ?thesis
      using False Cons.prems small_byte [OF ch] Cons.IH [of "j + 2" "up @ [ch]"]
      by (simp add: byte_read [OF ch] not_le)
  qed
qed simp

lemma hex_text_length: "length (hex_text bs j) \<le> 3 * length bs"
proof (induction bs arbitrary: j)
  case (Cons ch cs)
  have "length (hex_byte ch) = 2" by (simp add: hex_byte_def Let_def)
  then show ?case using Cons [of "j + 2"] by simp
qed simp

text \<open>
  A pattern that is typed as text and turned to hexadecimal codes is the one that is sent, if it has up
  to ten characters from 1 to 127 without blanks; the page shows its codes.
\<close>

theorem pattern_mode_kept:
  assumes "length bs \<le> 10" "\<forall>ch \<in> set bs. 0 < (of_char ch :: nat) \<and> (of_char ch :: nat) < 128 \<and> ch \<noteq> CHR '' ''"
  shows "UPattern_setup [(K_CTRL_D, \<lambda>_. blank_to 40 bs), (K_ENTER, id)] False str =
    Some (Some bs, True, blank_to 40 (hex_text bs 0))"
proof -
  have "filter (\<lambda>ch. ch \<noteq> CHR '' '') (take 10 (blank_to 40 bs)) = bs"
    using assms by (auto simp: blank_to_def filter_id_conv)
  moreover have "hex_loop (take 40 (blank_to 40 (hex_text bs 0))) 0 [] = Some bs"
  proof (cases "bs = []")
    case True
    then show ?thesis by (simp add: blank_to_def hex_blanks)
  next
    case False
    then have "(of_char (last bs) :: nat) \<noteq> 0"
      using assms(2) last_in_set by blast
    then have "last bs \<noteq> CHR 0x00" by auto
    then show ?thesis
      using False assms hex_text_length [of bs 0] hex_text_read [of bs 0 "40 - length (hex_text bs 0)" "[]"]
      by (simp add: blank_to_def)
  qed
  ultimately show ?thesis
    by (simp add: get_menu_pattern_def get_ascii_data_def get_hex_data_def change_data_mode_def Let_def)
qed

lemma pattern_mode_kept_witness:
  "UPattern_setup [(K_CTRL_D, \<lambda>_. blank_to 40 ''a,Z''), (K_ENTER, id)] False [] =
    Some (Some ''a,Z'', True, blank_to 40 (hex_text ''a,Z'' 0))"
  by (rule pattern_mode_kept) simp_all

text \<open>The last code of the field is not compared with 256, and a last code of 0 is lost.\<close>

lemma last_code:
  "get_hex_data ''1FF,41'' = None" "get_hex_data ''41,1FF'' = Some [CHR ''A'', CHR 0xFF]"
  "get_hex_data ''41,00'' = Some ''A''" "get_hex_data ''100000041,42'' = Some ''AB''"
  by code_simp+

section \<open>The program\<close>

text \<open>
  The attributes of the console and those the program asked for last on the open port are part of the state;
  \<open>tty_old\<close> is \<open>tm_old\<close>.  A descriptor above 0 stands for an open port, as in the code.  The mode of the
  pattern page (\<open>InputModeFlag\<close>), its field and the name of the file to send stay between the visits.
\<close>

record term_st = io +
  tm_SioFd :: int
  tm_DTerm :: dterm_info
  tm_con :: termios
  tm_old :: termios
  tm_port :: termios
  tm_hex :: bool
  tm_field :: string
  tm_filename :: string

type_synonym 'a term_m = "(term_st, 'a) state"

definition sio_init :: "unit term_m" where
  "sio_init = do {
     s \<leftarrow> gets id;
     if 0 < tm_SioFd s then knote ''tcflush'' [tm_SioFd s]
     else do {
       fd \<leftarrow> kcall ''open(DTerm.dname)'' [];
       modify (\<lambda>s. s\<lparr>tm_SioFd := fd\<rparr>);
       if fd = -1 then ret ()
       else do {
         knote ''tcflush(tty_fd)'' [];
         whenM (20 \<le> dt_rate (tm_DTerm s)) (undefined_c ''BaudMapTab index'');
         modify (\<lambda>s. s\<lparr>tm_port := sio_attr (tm_DTerm s) (tm_con s)\<rparr>);
         knote ''tcsetattr'' [fd];
         knote ''tcgetattr'' [fd] } } }"

definition con_attr :: "nat \<Rightarrow> termios \<Rightarrow> termios" where
  "con_attr lecho tty =
    (let l = (if lecho = 0 then ti_lflag tty AND NOT ECHO else if lecho = 1 then ti_lflag tty OR ECHO else ti_lflag tty)
     in tty\<lparr>ti_lflag := l AND NOT ICANON, ti_iflag := ti_iflag tty AND NOT ICRNL, ti_oflag := 0, ti_vmin := 1, ti_vtime := 0\<rparr>)"

definition con_init :: "unit term_m" where
  "con_init = do {
     knote ''tcflush(tty_fd)'' [];
     modify (\<lambda>s. s\<lparr>tm_con := con_attr (dt_lecho (tm_DTerm s)) (tm_con s)\<rparr>);
     knote ''tcsetattr(tty_fd)'' [] }"

definition pattern_file_term :: "int term_m" where
  "pattern_file_term = do {
     sio_init;
     fd \<leftarrow> gets tm_SioFd;
     if fd < 0 then do { knote ''confirm(open error)'' []; ret (-1) }
     else do { con_init; ret 0 } }"

definition terminal_end :: "unit term_m" where
  "terminal_end = do {
     modify (\<lambda>s. s\<lparr>tm_con := tm_old s\<rparr>);
     knote ''tcsetattr(tty_fd)'' [] }"

text \<open>The setup page: a key that \<open>mw_edit2\<close> returns, with the name and the positions it leaves in the page.\<close>

record page =
  pg_key :: nat
  pg_name :: string
  pg_nos :: "int list"

definition get_menu_data :: "page \<Rightarrow> dterm_info \<Rightarrow> dterm_info" where
  "get_menu_data pg d = d\<lparr>dt_dname := takeWhile (\<lambda>c. c \<noteq> CHR '' '') (take 15 (pg_name pg)),
     dt_rate := nat (pg_nos pg ! 0 mod 256), dt_parity := nat (pg_nos pg ! 1 mod 256),
     dt_databit := nat (pg_nos pg ! 2 mod 256), dt_stopbit := nat (pg_nos pg ! 3 mod 256),
     dt_xflow := nat (pg_nos pg ! 4 mod 256), dt_lecho := nat (pg_nos pg ! 5 mod 256),
     dt_senter := nat (pg_nos pg ! 6 mod 256)\<rparr>"

fun edit_pages :: "page list \<Rightarrow> dterm_info \<Rightarrow> bool \<times> dterm_info" where
  "edit_pages [] d = (False, d)"
| "edit_pages (pg # pgs) d =
    (if pg_key pg = K_ESC then (True, get_menu_data pg d)
     else if pg_key pg = K_ENTER then edit_pages pgs (get_menu_data pg d)
     else edit_pages pgs d)"

definition change_setup :: "dterm_info \<Rightarrow> dterm_info \<Rightarrow> bool" where
  "change_setup old d \<longleftrightarrow> dt_dname d \<noteq> dt_dname old \<or> dt_rate d \<noteq> dt_rate old \<or> dt_parity d \<noteq> dt_parity old \<or>
     dt_databit d \<noteq> dt_databit old \<or> dt_stopbit d \<noteq> dt_stopbit old \<or> dt_xflow d \<noteq> dt_xflow old \<or>
     dt_lecho d \<noteq> dt_lecho old \<or> dt_senter d \<noteq> dt_senter old"

definition close_sio :: "unit term_m" where
  "close_sio = do {
     fd \<leftarrow> gets tm_SioFd;
     whenM (0 < fd) (do {
       knote ''tcflush'' [fd];
       knote ''close'' [fd];
       modify (\<lambda>s. s\<lparr>tm_SioFd := -1\<rparr>) }) }"

definition term_s_setup :: "page list \<Rightarrow> bool term_m" where
  "term_s_setup pgs = do {
     old \<leftarrow> gets tm_DTerm;
     let (left, d) = edit_pages pgs old;
     modify (\<lambda>s. s\<lparr>tm_DTerm := d\<rparr>);
     whenM (left \<and> change_setup old d) close_sio;
     ret left }"

definition term_mode :: "round list \<Rightarrow> bool term_m" where
  "term_mode rs = do {
     r \<leftarrow> pattern_file_term;
     if r < 0 then ret True
     else do {
       d \<leftarrow> gets tm_DTerm;
       let (left, out, shown) = term_rounds (dt_senter d) rs;
       knote ''write(SioFd)'' (map of_char out);
       knote ''write(tty_fd)'' (map of_char shown);
       whenM left terminal_end;
       ret left } }"

definition sending :: "(bool \<times> 'b sender_scheme) \<Rightarrow> bool term_m" where
  "sending res = do {
     r \<leftarrow> pattern_file_term;
     if r < 0 then ret True
     else do {
       d \<leftarrow> gets tm_DTerm;
       let (line, d) = get_ttysetup d;
       modify (\<lambda>s. s\<lparr>tm_DTerm := d\<rparr>);
       knote ''printf(settings)'' (map of_char line);
       knote ''write(SioFd)'' (map of_char (sd_sent (snd res)));
       whenM (fst res) terminal_end;
       ret (fst res) } }"

text \<open>
  The page of the default pattern is left with enter or escape.  \<open>None\<close> stands for a user who stays.
\<close>

definition dpattern :: string where
  "dpattern = map (\<lambda>len. char_of (len + 0x30 :: nat)) [0..<40]"

fun default_page :: "nat list \<Rightarrow> bool option" where
  "default_page [] = None"
| "default_page (key # keys) =
    (if key = K_ESC then Some False else if key = K_ENTER then Some True else default_page keys)"

text \<open>
  The menu of the patterns: the choices until escape, each with what the user does on its page and the rounds
  of the loop that sends.  The loops get the character behind the buffer and what is left in it as \<open>beyond\<close>
  and \<open>old\<close>.
\<close>

datatype pattern_act =
    Default "nat list" "round list"
  | User_defined "(nat \<times> (string \<Rightarrow> string)) list" "round list"

fun pattern_choice :: "char \<Rightarrow> string \<Rightarrow> pattern_act \<Rightarrow> bool term_m" where
  "pattern_choice beyond old (Default keys rs) =
    (case default_page keys of
       None \<Rightarrow> ret False
     | Some send \<Rightarrow> if send then sending (send_Pattern beyond old dpattern rs) else ret True)"
| "pattern_choice beyond old (User_defined es rs) = do {
     s \<leftarrow> gets id;
     (case UPattern_setup es (tm_hex s) (tm_field s) of
        None \<Rightarrow> ret False
      | Some (upattern, hex, str) \<Rightarrow> do {
          modify (\<lambda>s. s\<lparr>tm_hex := hex, tm_field := str\<rparr>);
          (case upattern of
             None \<Rightarrow> ret True
           | Some ptn \<Rightarrow> sending (send_Pattern beyond old ptn rs)) }) }"

fun pattern_choices :: "char \<Rightarrow> string \<Rightarrow> pattern_act list \<Rightarrow> bool term_m" where
  "pattern_choices beyond old [] = ret True"
| "pattern_choices beyond old (a # acts) = do {
     ended \<leftarrow> pattern_choice beyond old a;
     if ended then pattern_choices beyond old acts else ret False }"

definition pattern_setup :: "char \<Rightarrow> string \<Rightarrow> pattern_act list \<Rightarrow> bool term_m" where
  "pattern_setup beyond old acts = do {
     modify (\<lambda>s. s\<lparr>tm_field := replicate 40 CHR '' ''\<rparr>);
     pattern_choices beyond old acts }"

text \<open>
  The page of the file name: the keys with the field they leave.  The blanks of the field are dropped, and
  the file has to open; the result tells whether it is sent.
\<close>

definition field_name :: "string \<Rightarrow> string" where
  "field_name str = filter (\<lambda>ch. ch \<noteq> CHR '' '') (take 40 str)"

fun sfile_setup :: "(nat \<times> string) list \<Rightarrow> bool option term_m" where
  "sfile_setup [] = ret None"
| "sfile_setup ((key, str) # es) =
    (if key = K_ESC then ret (Some False)
     else if key = K_CTRL_D \<or> key = K_ENTER then do {
       modify (\<lambda>s. s\<lparr>tm_filename := field_name str\<rparr>);
       i \<leftarrow> kcall ''open(filename)'' (map of_char (field_name str));
       whenM (i \<le> 0) (knote ''confirm(File does not exist)'' []);
       knote ''close'' [i];
       if 0 < i \<and> key = K_CTRL_D then ret (Some True) else sfile_setup es }
     else sfile_setup es)"

definition file_result :: "char \<Rightarrow> string \<Rightarrow> string \<Rightarrow> round list \<Rightarrow> bool \<times> file_sender" where
  "file_result beyond old file rs = (let (ended, s) = send_file beyond old file rs in (ended \<noteq> None, s))"

text \<open>A choice of the two main menus that came to its end; the result says whether it did.\<close>

datatype term_act =
    Comm_setup "page list"
  | Dumb_terminal "round list"
  | Pattern "pattern_act list"
  | File "(nat \<times> string) list" string "round list"

fun menu_choice_run :: "char \<Rightarrow> string \<Rightarrow> term_act \<Rightarrow> bool term_m" where
  "menu_choice_run beyond old (Comm_setup pgs) = term_s_setup pgs"
| "menu_choice_run beyond old (Dumb_terminal rs) = term_mode rs"
| "menu_choice_run beyond old (Pattern acts) = pattern_setup beyond old acts"
| "menu_choice_run beyond old (File es file rs) = do {
     send \<leftarrow> sfile_setup es;
     (case send of
        None \<Rightarrow> ret False
      | Some b \<Rightarrow>
          if b then sending (file_result beyond old file rs) else ret True) }"

definition term_setup_start :: "unit term_m" where
  "term_setup_start = modify (\<lambda>s. s\<lparr>tm_old := tm_con s, tm_DTerm := set_dterm\<rparr>)"

definition term_setup_end :: "unit term_m" where
  "term_setup_end = do { terminal_end; close_sio; knote ''system(clear)'' [] }"

section \<open>The menus keep the port as it is set\<close>

text \<open>The window library leaves positions of the menus in the page.\<close>

definition good_page :: "page \<Rightarrow> bool" where
  "good_page pg \<longleftrightarrow> length (pg_nos pg) = 7 \<and> list_all2 (\<lambda>n m. 0 \<le> n \<and> n < m) (pg_nos pg) [20, 5, 4, 2, 4, 2, 4]"

fun good_act :: "term_act \<Rightarrow> bool" where
  "good_act (Comm_setup pgs) \<longleftrightarrow> list_all good_page pgs"
| "good_act _ \<longleftrightarrow> True"

inductive at_menu :: "termios \<Rightarrow> term_st \<Rightarrow> bool" where
  start: "tm_SioFd s = -1 \<Longrightarrow> at_menu (tm_con s) (snd (run_state term_setup_start s))"
| act: "at_menu con s \<Longrightarrow> good_act a \<Longrightarrow> run_state (menu_choice_run beyond old a) s = (True, t) \<Longrightarrow> at_menu con t"

definition port_as_set :: "termios \<Rightarrow> term_st \<Rightarrow> bool" where
  "port_as_set con s \<longleftrightarrow> tm_con s = con \<and> tm_old s = con \<and> menu_choice (tm_DTerm s) \<and>
     (0 < tm_SioFd s \<longrightarrow> (\<exists>c. tm_port s = sio_attr (tm_DTerm s) c))"

lemma change_setup_iff: "change_setup old d \<longleftrightarrow> d \<noteq> old"
  by (cases old; cases d) (auto simp: change_setup_def)

lemma page_choice: "good_page pg \<Longrightarrow> menu_choice (get_menu_data pg d)"
  by (auto simp: good_page_def list_all2_Cons2 menu_choice_def get_menu_data_def)

lemma pages_choice: "list_all good_page pgs \<Longrightarrow> menu_choice d \<Longrightarrow> menu_choice (snd (edit_pages pgs d))"
  by (induction pgs arbitrary: d) (simp_all add: page_choice)

lemma setup_kept: "menu_choice d \<Longrightarrow> snd (get_ttysetup d) = d"
  by (simp add: get_ttysetup_def limit_rate_def menu_choice_def Let_def)

lemma sio_init_frame:
  "tm_DTerm (snd (run_state sio_init s)) = tm_DTerm s" "tm_con (snd (run_state sio_init s)) = tm_con s"
  "tm_old (snd (run_state sio_init s)) = tm_old s"
  "tm_port (snd (run_state sio_init s)) = tm_port s \<and> tm_SioFd (snd (run_state sio_init s)) \<in> {tm_SioFd s, -1} \<or>
    tm_port (snd (run_state sio_init s)) = sio_attr (tm_DTerm s) (tm_con s)"
proof -
  consider "0 < tm_SioFd s" | "\<not> 0 < tm_SioFd s" "env_k (ienv s) (ihist s) ''open(DTerm.dname)'' [] = -1"
    | "\<not> 0 < tm_SioFd s" "env_k (ienv s) (ihist s) ''open(DTerm.dname)'' [] \<noteq> -1" "20 \<le> dt_rate (tm_DTerm s)"
    | "\<not> 0 < tm_SioFd s" "env_k (ienv s) (ihist s) ''open(DTerm.dname)'' [] \<noteq> -1" "\<not> 20 \<le> dt_rate (tm_DTerm s)" by blast
  then show "tm_DTerm (snd (run_state sio_init s)) = tm_DTerm s" "tm_con (snd (run_state sio_init s)) = tm_con s"
    "tm_old (snd (run_state sio_init s)) = tm_old s"
    "tm_port (snd (run_state sio_init s)) = tm_port s \<and> tm_SioFd (snd (run_state sio_init s)) \<in> {tm_SioFd s, -1} \<or>
      tm_port (snd (run_state sio_init s)) = sio_attr (tm_DTerm s) (tm_con s)"
    by (cases; simp add: sio_init_def)+
qed

lemma sio_init_effect:
  assumes "port_as_set con s"
  shows "port_as_set con (snd (run_state sio_init s))"
  using assms sio_init_frame [of s] unfolding port_as_set_def by auto

lemma pattern_file_term_effect:
  assumes "port_as_set con s" "run_state pattern_file_term s = (r, t)"
  shows "tm_DTerm t = tm_DTerm s \<and> port_as_set con (t\<lparr>tm_con := con\<rparr>) \<and> (r < 0 \<longrightarrow> port_as_set con t)"
proof -
  obtain u where u: "run_state sio_init s = ((), u)"
    by (cases "run_state sio_init s") auto
  show ?thesis
    using sio_init_effect [OF assms(1)] sio_init_frame(1) [of s] assms(2) u
    by (cases "tm_SioFd u < 0") (auto simp: pattern_file_term_def con_init_def port_as_set_def)
qed

lemma setup_effect:
  assumes "port_as_set con s" "list_all good_page pgs" "run_state (term_s_setup pgs) s = (True, t)"
  shows "port_as_set con t"
  using assms pages_choice [OF assms(2), of "tm_DTerm s"]
  by (auto simp: term_s_setup_def close_sio_def port_as_set_def case_prod_beta change_setup_iff split: if_splits)

lemma term_mode_effect:
  assumes "port_as_set con s" "run_state (term_mode rs) s = (True, t)"
  shows "port_as_set con t"
proof -
  obtain r u where u: "run_state pattern_file_term s = (r, u)"
    by (cases "run_state pattern_file_term s")
  show ?thesis
    using pattern_file_term_effect [OF assms(1) u] assms(2) u
    by (auto simp: term_mode_def terminal_end_def case_prod_beta port_as_set_def Let_def split: if_splits)
qed

lemma sending_effect:
  assumes "port_as_set con s" "run_state (sending res) s = (True, t)"
  shows "port_as_set con t"
proof -
  obtain r u where u: "run_state pattern_file_term s = (r, u)"
    by (cases "run_state pattern_file_term s")
  note eff = pattern_file_term_effect [OF assms(1) u]
  have "snd (get_ttysetup (tm_DTerm u)) = tm_DTerm u"
    using eff assms(1) by (intro setup_kept) (simp add: port_as_set_def)
  then show ?thesis
    using eff assms(2) u
    by (auto simp: sending_def terminal_end_def case_prod_beta port_as_set_def Let_def split: if_splits)
qed

lemma pattern_effect:
  assumes "port_as_set con s" "run_state (pattern_choice beyond old a) s = (True, t)"
  shows "port_as_set con t"
proof (cases a)
  case (Default keys rs)
  then show ?thesis
    using assms sending_effect [OF assms(1), of "send_Pattern beyond old dpattern rs"] by (auto split: option.splits if_splits)
next
  case (User_defined es rs)
  show ?thesis
  proof (cases "UPattern_setup es (tm_hex s) (tm_field s)")
    case (Some p)
    obtain upattern hex str where p: "p = (upattern, hex, str)" by (cases p)
    have u: "port_as_set con (s\<lparr>tm_hex := hex, tm_field := str\<rparr>)"
      using assms(1) by (simp add: port_as_set_def)
    show ?thesis
    proof (cases upattern)
      case (Some ptn)
      then show ?thesis
        using assms(2) sending_effect [OF u, of "send_Pattern beyond old ptn rs"] User_defined p
          \<open>UPattern_setup es (tm_hex s) (tm_field s) = Some p\<close> by simp
    qed (use assms(2) u User_defined Some p in simp)
  qed (use assms(2) User_defined in simp)
qed

lemma patterns_effect:
  assumes "port_as_set con s" "run_state (pattern_choices beyond old acts) s = (True, t)"
  shows "port_as_set con t"
  using assms
proof (induction acts arbitrary: s)
  case (Cons a acts)
  then show ?case
    using pattern_effect [OF Cons.prems(1)] by (auto simp: case_prod_beta prod_eq_iff split: if_splits)
qed simp

lemma sfile_effect: "port_as_set con s \<Longrightarrow> port_as_set con (snd (run_state (sfile_setup es) s))"
proof (induction es arbitrary: s)
  case (Cons e es)
  have "port_as_set con (s\<lparr>tm_filename := f, ihist := h\<rparr>)" for f h
    using Cons.prems by (simp add: port_as_set_def)
  with Cons show ?case
    by (cases e) auto
qed simp

lemma choice_effect:
  assumes "port_as_set con s" "good_act a" "run_state (menu_choice_run beyond old a) s = (True, t)"
  shows "port_as_set con t"
proof (cases a)
  case (Pattern acts)
  have "port_as_set con (s\<lparr>tm_field := str\<rparr>)" for str
    using assms(1) by (simp add: port_as_set_def)
  then show ?thesis
    by (rule patterns_effect [where s = "s\<lparr>tm_field := replicate 40 CHR '' ''\<rparr>"])
      (use assms(3) in \<open>simp_all add: Pattern pattern_setup_def\<close>)
next
  case (File es cont rs)
  obtain r u where u: "run_state (sfile_setup es) s = (r, u)"
    by (cases "run_state (sfile_setup es) s")
  then show ?thesis
    using assms(1,3) sfile_effect [OF assms(1), of es] sending_effect [of con u "file_result beyond old cont rs"]
    by (cases r) (simp_all add: File split: if_splits)
qed (use assms in \<open>auto intro: setup_effect term_mode_effect\<close>)

text \<open>
  C33. Whatever is done in the menus of the terminal program, whenever a menu is shown the console has the
  attributes it had when the program started, and if the port is open its attributes are the ones of the
  settings in the menus; leaving the program restores the console and closes the port.
\<close>

theorem port_follows_menus:
  assumes "at_menu con s"
  shows "port_as_set con s \<and> tm_con (snd (run_state term_setup_end s)) = con \<and>
    \<not> 0 < tm_SioFd (snd (run_state term_setup_end s))"
proof -
  have inv: "port_as_set con s"
    using assms
  proof (induction rule: at_menu.induct)
    case (start s)
    then show ?case
      by (simp add: term_setup_start_def port_as_set_def menu_choice_def set_dterm_def)
  next
    case (act con s a beyond old t)
    show ?case
      by (rule choice_effect [OF act.IH act.hyps(2,3)])
  qed
  then show ?thesis
    by (simp add: term_setup_end_def terminal_end_def close_sio_def port_as_set_def)
qed

definition term_example :: term_st where
  "term_example = \<lparr>ienv = \<lparr>env_b = (\<lambda>_ _. 0), env_w = (\<lambda>_ _. 0), env_l = (\<lambda>_ _. 0), env_k = (\<lambda>_ _ _. 4)\<rparr>, ihist = [],
     tm_SioFd = -1, tm_DTerm = set_dterm, tm_con = console_example, tm_old = console_example, tm_port = console_example,
     tm_hex = True, tm_field = [], tm_filename = []\<rparr>"

text \<open>The port is opened by the dumb terminal, which control N leaves.\<close>

lemma port_follows_menus_witness:
  "let t = snd (run_state (menu_choice_run K_LF [] (Dumb_terminal [\<lparr>rd_key = Some K_CTRL_N, rd_recv = None, rd_room = None\<rparr>]))
      (snd (run_state term_setup_start term_example)))
   in 0 < tm_SioFd t \<and> port_as_set console_example t"
proof -
  define s where "s = snd (run_state term_setup_start term_example)"
  let ?a = "Dumb_terminal [\<lparr>rd_key = Some K_CTRL_N, rd_recv = None, rd_room = None\<rparr>]"
  obtain b t where run: "run_state (menu_choice_run K_LF [] ?a) s = (b, t)"
    by (cases "run_state (menu_choice_run K_LF [] ?a) s")
  have s: "at_menu console_example s" "tm_SioFd s = -1" "dt_rate (tm_DTerm s) = 12" "env_k (ienv s) = (\<lambda>_ _ _. 4)"
    using at_menu.start [of term_example] by (simp_all add: s_def term_example_def term_setup_start_def set_dterm_def)
  have "b" "0 < tm_SioFd t"
    using run s(2-4) by (auto simp: term_mode_def pattern_file_term_def sio_init_def con_init_def terminal_end_def Let_def)
  moreover from this have "at_menu console_example t"
    using at_menu.act [OF s(1), of ?a K_LF "[]" t] run by simp
  ultimately show ?thesis
    using port_follows_menus [of console_example t] run by (simp add: s_def Let_def)
qed

end
