(* ===== verification/Muestty_Mon.thy ===== *)
theory Muestty_Mon
  imports Muestty_Line Mxu_Ioctl
begin

text \<open>
  The boards as the utilities of \<open>user/muestty_utility\<close> see them: the tables of \<open>global.c\<close>, the status utility
  \<open>diag/diag.c\<close>, and the monitor \<open>mon/mon_p.c\<close> with its counters, on the control requests of the two serial
  drivers.  What the user does is a list of keys.  A program that uses both drivers gets their requests as two
  arguments on one state.
\<close>

section \<open>global.c\<close>

definition util_mxser_numports :: "int list" where
  "util_mxser_numports = [8, 4, 4, 8, 4, 2, 2, 4, 2, 4, 4, 2, 4, 8, 2, 4, 4, 8, 8, 2, 2, 8, 8, 4, 8, 4, 4, 8, 4, 4, 2, 2]"

definition util_mxupcie_numports :: "int list" where
  "util_mxupcie_numports = [2, 2, 2, 4, 4, 8, 8] @ replicate 25 0"

text \<open>The tables of the utilities are those of the drivers.\<close>

lemma util_tables:
  "util_mxser_numports = mxser_numports" "take 7 util_mxupcie_numports = mxupcie_numports"
  by (simp_all add: util_mxser_numports_def mxser_numports_def util_mxupcie_numports_def mxupcie_numports_def)

text \<open>
  The structures \<open>mxser_hwconf\<close> and \<open>mxupcie_hwconf\<close> as the requests write them: 42 words for a board, the
  fields at the same places in both.
\<close>

definition hc_board_type :: "int list \<Rightarrow> nat \<Rightarrow> int" where
  "hc_board_type ws i = ws ! (42 * i + 0)"

definition hc_ioaddr :: "int list \<Rightarrow> nat \<Rightarrow> nat \<Rightarrow> int" where
  "hc_ioaddr ws i j = ws ! (42 * i + (6 + j))"

definition hc_baud :: "int list \<Rightarrow> nat \<Rightarrow> nat \<Rightarrow> int" where
  "hc_baud ws i j = ws ! (42 * i + (14 + j))"

definition hc_busNum :: "int list \<Rightarrow> nat \<Rightarrow> int" where
  "hc_busNum ws i = ws ! (42 * i + 22)"

definition hc_devNum :: "int list \<Rightarrow> nat \<Rightarrow> int" where
  "hc_devNum ws i = ws ! (42 * i + 23)"

definition hc_MustChipFlag :: "int list \<Rightarrow> nat \<Rightarrow> int" where
  "hc_MustChipFlag ws i = ws ! (42 * i + 25)"

definition hc_MaxBaud :: "int list \<Rightarrow> nat \<Rightarrow> nat \<Rightarrow> int" where
  "hc_MaxBaud ws i j = ws ! (42 * i + (26 + j))"

section \<open>diag.c\<close>

definition port_line :: "bool \<Rightarrow> int list \<Rightarrow> nat \<Rightarrow> nat \<Rightarrow> int list" where
  "port_line isa ws i j = [int j + 1, hc_ioaddr ws i j,
     if isa then (if hc_baud ws i j = 115200 then 115200 else 921600) else hc_MaxBaud ws i j]"

fun print_ports :: "bool \<Rightarrow> int list \<Rightarrow> nat \<Rightarrow> nat list \<Rightarrow> ('x, unit) io_m" where
  "print_ports isa ws i [] = ret ()"
| "print_ports isa ws i (j # js) = do { knote ''printf(Port)'' (port_line isa ws i j); print_ports isa ws i js }"

text \<open>A board is printed with its number and the name at the position of its type, and a PCI board with its place.\<close>

definition board_line :: "bool \<Rightarrow> int list \<Rightarrow> int \<Rightarrow> nat \<Rightarrow> int list" where
  "board_line isa ws base i = [int i + 1 + base, hc_board_type ws i - 1] @
     (if isa then [] else [hc_busNum ws i, drop_bit 3 (hc_devNum ws i)])"

definition is_isa :: "int list \<Rightarrow> nat \<Rightarrow> bool" where
  "is_isa ws i \<longleftrightarrow> hc_busNum ws i = 0 \<and> hc_devNum ws i = 0"

text \<open>The boards from the list; the result is how many there are.\<close>

fun print_boards :: "int list \<Rightarrow> int list \<Rightarrow> int \<Rightarrow> nat list \<Rightarrow> ('x, nat) io_m" where
  "print_boards numports ws base [] = ret 0"
| "print_boards numports ws base (i # is) =
    (if hc_board_type ws i = -1 then print_boards numports ws base is
     else do {
       whenM (hc_board_type ws i < 1 \<or> 32 < hc_board_type ws i) (undefined_c ''numports index'');
       let ports = numports ! nat (hc_board_type ws i - 1);
       knote ''printf(Board)'' (board_line (is_isa ws i) ws base i);
       print_ports (is_isa ws i) ws i [0..<min (nat ports) 8];
       n \<leftarrow> print_boards numports ws base is;
       ret (n + 1) })"

datatype half = No_device | Failed | Shown nat

text \<open>One request into a local variable; the program ends when it fails.\<close>

definition diag_request :: "('x, int) io_m \<Rightarrow> ('x, int list option) io_m" where
  "diag_request m = do {
     (r, answer) \<leftarrow> with_reply m;
     x \<leftarrow> uninitialised ''buffer'';
     ret (if r < 0 then None else Some (case answer of Some ws \<Rightarrow> ws | None \<Rightarrow> replicate 168 x)) }"

definition diag_half :: "(special_cmd \<Rightarrow> ('x, int) io_m) \<Rightarrow> string \<Rightarrow> int list \<Rightarrow> int \<Rightarrow> ('x, half) io_m" where
  "diag_half request dev numports base = do {
     fd \<leftarrow> kcall dev [];
     if fd < 0 then do { knote ''printf(Please run msmknod)'' []; ret No_device }
     else do {
       maj \<leftarrow> diag_request (request (MOXA_GET_MAJOR (good_arg ())));
       (case maj of
          None \<Rightarrow> do { knote ''printf(Cannot get major)'' []; knote ''close'' [fd]; ret Failed }
        | Some v \<Rightarrow> do {
            knote ''printf(major)'' (take 1 v);
            cumaj \<leftarrow> diag_request (request (MOXA_GET_CUMAJOR (good_arg ())));
            (case cumaj of
               None \<Rightarrow> do { knote ''printf(Cannot get callout major)'' []; knote ''close'' [fd]; ret Failed }
             | Some v \<Rightarrow> do {
                 knote ''printf(callout major)'' (take 1 v);
                 conf \<leftarrow> diag_request (request (MOXA_GET_CONF (good_arg ())));
                 (case conf of
                    None \<Rightarrow> do { knote ''printf(Cannot get configuration)'' []; knote ''close'' [fd]; ret Failed }
                  | Some ws \<Rightarrow> do {
                      knote ''close'' [fd];
                      n \<leftarrow> print_boards numports ws base [0..<4];
                      ret (Shown n) }) }) }) } }"

definition diag_main :: "(special_cmd \<Rightarrow> ('x, int) io_m) \<Rightarrow> (special_cmd \<Rightarrow> ('x, int) io_m) \<Rightarrow> ('x, int) io_m" where
  "diag_main mxser mxupcie = do {
     r1 \<leftarrow> diag_half mxser ''open(/dev/mxser)'' util_mxser_numports 0;
     if r1 = Failed then ret 1
     else do {
       r2 \<leftarrow> diag_half mxupcie ''open(/dev/mxupcie)'' util_mxupcie_numports (case r1 of Shown n \<Rightarrow> int n | _ \<Rightarrow> 0);
       ret (if r2 = Failed \<or> r1 = No_device \<and> r2 = No_device then 1 else 0) } }"

section \<open>What diag prints\<close>

text \<open>The lines printed in a history, the oldest first.\<close>

definition is_line :: "io_event \<Rightarrow> (string \<times> int list) option" where
  "is_line e = (case e of Kernel_call f as _ \<Rightarrow> if f = ''printf(Board)'' \<or> f = ''printf(Port)'' then Some (f, as) else None | _ \<Rightarrow> None)"

definition lines_of :: "io_event list \<Rightarrow> (string \<times> int list) list" where
  "lines_of h = rev (List.map_filter is_line h)"

lemma lines_of_Nil [simp]: "lines_of [] = []"
  by (simp add: lines_of_def List.map_filter_def)

lemma lines_of_append [simp]: "lines_of (h2 @ h1) = lines_of h1 @ lines_of h2"
  by (simp add: lines_of_def List.map_filter_def)

lemma lines_of_Cons [simp]: "lines_of (e # h) = lines_of h @ (case is_line e of Some l \<Rightarrow> [l] | None \<Rightarrow> [])"
  by (simp add: lines_of_def List.map_filter_def split: option.split)

text \<open>A run that only adds to the history, and the lines it prints.\<close>

definition prints :: "(string \<times> int list) list \<Rightarrow> 'x io_scheme \<Rightarrow> 'x io_scheme \<Rightarrow> bool" where
  "prints ls s t \<longleftrightarrow> (\<exists>h. t = s\<lparr>ihist := h @ ihist s\<rparr> \<and> lines_of h = ls)"

lemma prints_trans: "prints l1 s t \<Longrightarrow> prints l2 t u \<Longrightarrow> prints (l1 @ l2) s u"
  unfolding prints_def by (elim exE conjE, rule_tac x = "ha @ h" in exI) simp

lemma prints_event: "prints (case is_line e of Some l \<Rightarrow> [l] | None \<Rightarrow> []) s (s\<lparr>ihist := e # ihist s\<rparr>)"
  unfolding prints_def by (rule exI [of _ "[e]"]) simp

lemma prints_refl: "prints [] s s"
  unfolding prints_def by (rule exI [of _ "[]"]) simp

lemma prints_note: "prints (if f = ''printf(Board)'' \<or> f = ''printf(Port)'' then [(f, as)] else []) s (snd (run_state (knote f as) s))"
  using prints_event [of "Kernel_call f as (env_k (ienv s) (ihist s) f as)" s] by (auto simp: is_line_def split: if_splits)

definition board_lines :: "int list \<Rightarrow> int list \<Rightarrow> int \<Rightarrow> nat \<Rightarrow> (string \<times> int list) list" where
  "board_lines numports ws base i = (if hc_board_type ws i = -1 then []
     else (''printf(Board)'', board_line (is_isa ws i) ws base i) #
       map (\<lambda>j. (''printf(Port)'', port_line (is_isa ws i) ws i j)) [0..<min (nat (numports ! nat (hc_board_type ws i - 1))) 8])"

lemma print_ports_run:
  "prints (map (\<lambda>j. (''printf(Port)'', port_line isa ws i j)) js) s (snd (run_state (print_ports isa ws i js) s))"
proof (induction js arbitrary: s)
  case (Cons j js)
  show ?case
    using prints_trans [OF prints_note [of "''printf(Port)''" "port_line isa ws i j" s] Cons] by simp
qed (simp add: prints_refl)

lemma print_boards_run:
  assumes "\<forall>i \<in> set is. hc_board_type ws i = -1 \<or> 1 \<le> hc_board_type ws i \<and> hc_board_type ws i \<le> 32"
  shows "prints (concat (map (board_lines numports ws base) is)) s (snd (run_state (print_boards numports ws base is) s)) \<and>
    fst (run_state (print_boards numports ws base is) s) = length (filter (\<lambda>i. hc_board_type ws i \<noteq> -1) is)"
  using assms
proof (induction "is" arbitrary: s)
  case (Cons i "is")
  show ?case
  proof (cases "hc_board_type ws i = -1")
    case True
    then show ?thesis
      using Cons by (simp add: board_lines_def)
  next
    case False
    let ?isa = "is_isa ws i"
    define s1 where "s1 = snd (run_state (knote ''printf(Board)'' (board_line ?isa ws base i)) s)"
    define s2 where "s2 = snd (run_state (print_ports ?isa ws i [0..<min (nat (numports ! nat (hc_board_type ws i - 1))) 8]) s1)"
    have "prints (board_lines numports ws base i) s s2"
      using prints_trans [OF prints_note [of "''printf(Board)''" "board_line ?isa ws base i" s, folded s1_def]
          print_ports_run [of ?isa ws i "[0..<min (nat (numports ! nat (hc_board_type ws i - 1))) 8]" s1, folded s2_def]] False
      by (simp add: board_lines_def)
    from prints_trans [OF this] Cons.IH [of s2] Cons.prems False show ?thesis
      by (auto simp: Let_def case_prod_beta s2_def s1_def not_less)
  qed
qed (simp add: prints_refl)

text \<open>The lines of a board, from what the driver knows of it.\<close>

definition good_conf :: "mxser_hwconf \<Rightarrow> bool" where
  "good_conf c \<longleftrightarrow> length (hw_ioaddr c) = 8 \<and> length (hw_baud_base c) = 8 \<and> length (hw_MaxCanSetBaudRate c) = 8 \<and>
     length (hw_opmode_ioaddr c) = 8 \<and> (hw_board_type c = -1 \<or> 1 \<le> hw_board_type c \<and> hw_board_type c \<le> 32)"

definition conf_lines :: "int \<Rightarrow> nat \<Rightarrow> mxser_hwconf \<Rightarrow> (string \<times> int list) list" where
  "conf_lines base i c = (let isa = hw_busNum c = 0 \<and> hw_devNum c = 0 in
    if hw_board_type c = -1 then []
    else (''printf(Board)'', [int i + 1 + base, hw_board_type c - 1] @ (if isa then [] else [hw_busNum c, drop_bit 3 (hw_devNum c)])) #
      map (\<lambda>j. (''printf(Port)'', [int j + 1, int (hw_ioaddr c ! j),
          if isa then (if hw_baud_base c ! j = 115200 then 115200 else 921600) else hw_MaxCanSetBaudRate c ! j]))
        [0..<nat (mxser_numports ! nat (hw_board_type c - 1))])"

lemma conf_words:
  assumes "good_conf c"
  shows "length (hw_words c) = 42" "hw_words c ! 0 = hw_board_type c" "hw_words c ! 22 = hw_busNum c"
    "hw_words c ! 23 = hw_devNum c" "hw_words c ! 25 = hw_IsMoxaMustChipFlag c"
    "j < 8 \<Longrightarrow> hw_words c ! (6 + j) = int (hw_ioaddr c ! j)" "j < 8 \<Longrightarrow> hw_words c ! (14 + j) = hw_baud_base c ! j"
    "j < 8 \<Longrightarrow> hw_words c ! (26 + j) = hw_MaxCanSetBaudRate c ! j"
  using assms by (simp_all add: hw_words_def good_conf_def nth_append nth_Cons')

lemma board_lines_conf:
  assumes "length cfg = 4" "\<forall>c \<in> set cfg. good_conf c" "i < 4"
  shows "board_lines util_mxser_numports (concat (map hw_words cfg)) base i = conf_lines base i (cfg ! i)"
    "hc_board_type (concat (map hw_words cfg)) i = hw_board_type (cfg ! i)"
proof -
  let ?c = "cfg ! i"
  have c: "good_conf ?c" using assms by simp
  have w: "concat (map hw_words cfg) ! (42 * i + k) = hw_words ?c ! k" if "k < 42" for k
    using assms that by (intro concat_rows) (auto simp: conf_words(1))
  note words = conf_words [OF c]
  show type: "hc_board_type (concat (map hw_words cfg)) i = hw_board_type ?c"
    using w [of 0] words(2) by (simp add: hc_board_type_def)
  have isa: "is_isa (concat (map hw_words cfg)) i \<longleftrightarrow> hw_busNum ?c = 0 \<and> hw_devNum ?c = 0"
    using w [of 22] w [of 23] words(3,4) by (simp add: is_isa_def hc_busNum_def hc_devNum_def)
  have place: "hc_busNum (concat (map hw_words cfg)) i = hw_busNum ?c" "hc_devNum (concat (map hw_words cfg)) i = hw_devNum ?c"
    using w [of 22] w [of 23] words(3,4) by (simp_all add: hc_busNum_def hc_devNum_def)
  have port: "port_line t (concat (map hw_words cfg)) i j = [int j + 1, int (hw_ioaddr ?c ! j),
      if t then (if hw_baud_base ?c ! j = 115200 then 115200 else 921600) else hw_MaxCanSetBaudRate ?c ! j]" if "j < 8" for t j
    using w [of "6 + j"] w [of "14 + j"] w [of "26 + j"] words(6-8) [OF that] that
    by (simp add: port_line_def hc_ioaddr_def hc_baud_def hc_MaxBaud_def)
  have "nat (mxser_numports ! nat (hw_board_type ?c - 1)) \<le> 8" if "hw_board_type ?c \<noteq> -1"
    using numports_range [of "hw_board_type ?c"] c that by (simp add: good_conf_def)
  then show "board_lines util_mxser_numports (concat (map hw_words cfg)) base i = conf_lines base i ?c"
    by (auto simp: board_lines_def conf_lines_def type isa place port board_line_def util_tables(1) min_absorb1 Let_def)
qed

lemma request_prints:
  assumes "\<And>h. env_k (ienv d) h ''access_ok'' [] \<noteq> 0"
    and "(cmd, ws) \<in> {(MOXA_GET_MAJOR (good_arg ()), [d_ttymajor d]), (MOXA_GET_CUMAJOR (good_arg ()), [d_calloutmajor d]),
      (MOXA_GET_CONF (good_arg ()), concat (map hw_words (d_cfg d)))}"
  shows "\<exists>e. run_state (diag_request (mxser_ioctl_special cmd)) d = (Some ws, e) \<and> prints [] d e"
proof -
  let ?h = "[To_user ws, Kernel_call ''access_ok'' [] (env_k (ienv d) (ihist d) ''access_ok'' [])]"
  have "run_state (diag_request (mxser_ioctl_special cmd)) d = (Some ws, d\<lparr>ihist := ?h @ ihist d\<rparr>)"
    using assms by (auto simp: diag_request_def mxser_ioctl_special_def access_ok_def reply_def good_arg_def case_prod_beta)
  moreover have "prints [] d (d\<lparr>ihist := ?h @ ihist d\<rparr>)"
    unfolding prints_def by (rule exI [of _ ?h]) (simp add: is_line_def)
  ultimately show ?thesis by blast
qed

lemma request_step:
  assumes "prints ls d e" "\<And>h. env_k (ienv d) h ''access_ok'' [] \<noteq> 0"
    and "(cmd, ws) \<in> {(MOXA_GET_MAJOR (good_arg ()), [d_ttymajor d]), (MOXA_GET_CUMAJOR (good_arg ()), [d_calloutmajor d]),
      (MOXA_GET_CONF (good_arg ()), concat (map hw_words (d_cfg d)))}"
  shows "\<exists>f. run_state (diag_request (mxser_ioctl_special cmd)) e = (Some ws, f) \<and> prints ls d f"
proof -
  obtain h where e: "e = d\<lparr>ihist := h @ ihist d\<rparr>" using assms(1) unfolding prints_def by blast
  obtain f where "run_state (diag_request (mxser_ioctl_special cmd)) e = (Some ws, f)" "prints [] e f"
    using request_prints [of e cmd ws] assms(2,3) by (auto simp: e)
  then show ?thesis
    using prints_trans [OF assms(1), of "[]" f] by auto
qed

lemma note_step:
  assumes "prints ls d e" "f \<noteq> ''printf(Board)''" "f \<noteq> ''printf(Port)''"
  shows "prints ls d (snd (run_state (knote f as) e))"
  using prints_trans [OF assms(1), of "[]"] prints_note [of f as e] assms(2,3) by simp

text \<open>The three requests print no line of a board, and the boards are printed after them.\<close>

lemma diag_half_run:
  assumes "\<And>h. env_k (ienv d) h ''access_ok'' [] \<noteq> 0" "opens d"
  obtains d7 where "prints [] d d7"
    "run_state (diag_half mxser_ioctl_special ''open(/dev/mxser)'' util_mxser_numports base) (d :: mxdrv) =
      (let (n, e) = run_state (print_boards util_mxser_numports (concat (map hw_words (d_cfg d))) base [0..<4]) d7 in (Shown n, e))"
proof -
  let ?ws = "concat (map hw_words (d_cfg d))"
  let ?dev = "''open(/dev/mxser)''"
  define fd where "fd = env_k (ienv d) (ihist d) ?dev []"
  have fd: "\<not> fd < 0"
    using opensD [OF assms(2), of ?dev "ihist d"] by (simp add: fd_def)
  define d1 where "d1 = snd (run_state (knote ?dev []) d)"
  have "prints [] d d1"
    unfolding d1_def by (rule note_step [OF prints_refl]) simp_all
  then obtain d2 where d2: "run_state (diag_request (mxser_ioctl_special (MOXA_GET_MAJOR (good_arg ())))) d1 = (Some [d_ttymajor d], d2)"
      "prints [] d d2"
    using request_step [OF _ assms(1), of "[]" d1 "MOXA_GET_MAJOR (good_arg ())"] by blast
  define d3 where "d3 = snd (run_state (knote ''printf(major)'' [d_ttymajor d]) d2)"
  have "prints [] d d3"
    unfolding d3_def by (rule note_step [OF d2(2)]) simp_all
  then obtain d4 where d4: "run_state (diag_request (mxser_ioctl_special (MOXA_GET_CUMAJOR (good_arg ())))) d3 = (Some [d_calloutmajor d], d4)"
      "prints [] d d4"
    using request_step [OF _ assms(1), of "[]" d3 "MOXA_GET_CUMAJOR (good_arg ())"] by blast
  define d5 where "d5 = snd (run_state (knote ''printf(callout major)'' [d_calloutmajor d]) d4)"
  have "prints [] d d5"
    unfolding d5_def by (rule note_step [OF d4(2)]) simp_all
  then obtain d6 where d6: "run_state (diag_request (mxser_ioctl_special (MOXA_GET_CONF (good_arg ())))) d5 = (Some ?ws, d6)"
      "prints [] d d6"
    using request_step [OF _ assms(1), of "[]" d5 "MOXA_GET_CONF (good_arg ())"] by blast
  define d7 where "d7 = snd (run_state (knote ''close'' [fd]) d6)"
  have d7: "prints [] d d7"
    unfolding d7_def by (rule note_step [OF d6(2)]) simp_all
  define boards :: "nat drv_m" where "boards = print_boards util_mxser_numports ?ws base [0..<4]"
  have run: "run_state (diag_half mxser_ioctl_special ?dev util_mxser_numports base) d =
      (let (n, e) = run_state boards d7 in (Shown n, e))"
    using fd d2(1) d4(1) d6(1)
    by (simp add: diag_half_def case_prod_beta d1_def d3_def d5_def d7_def fd_def boards_def Let_def del: print_boards.simps)
  show thesis
    by (rule that [OF d7 run [unfolded boards_def]])
qed

text \<open>
  C39. The status utility on the serial driver: it prints every configured board and no other, in the
  driver's order and under the number of its place, with the ports the board has, their addresses and the
  rates the driver allows.
\<close>

theorem diag_shows_boards:
  assumes "length (d_cfg d) = 4" "\<forall>c \<in> set (d_cfg d). good_conf c" "\<And>h. env_k (ienv d) h ''access_ok'' [] \<noteq> 0" "opens d"
    and "run_state (diag_half mxser_ioctl_special ''open(/dev/mxser)'' util_mxser_numports base) (d :: mxdrv) = (r, e)"
  shows "r = Shown (length (filter (\<lambda>c. hw_board_type c \<noteq> -1) (d_cfg d))) \<and>
    prints (concat (map (\<lambda>i. conf_lines base i (d_cfg d ! i)) [0..<4])) d e"
proof -
  let ?ws = "concat (map hw_words (d_cfg d))"
  obtain d7 where d7: "prints [] d d7" and run: "run_state (diag_half mxser_ioctl_special ''open(/dev/mxser)'' util_mxser_numports base) d =
      (let (n, e) = run_state (print_boards util_mxser_numports ?ws base [0..<4]) d7 in (Shown n, e))"
    using diag_half_run [OF assms(3,4)] by blast
  define boards :: "nat drv_m" where "boards = print_boards util_mxser_numports ?ws base [0..<4]"
  have run: "run_state (diag_half mxser_ioctl_special ''open(/dev/mxser)'' util_mxser_numports base) d =
      (Shown (fst (run_state boards d7)), snd (run_state boards d7))"
    using run by (simp add: boards_def case_prod_beta del: print_boards.simps)
  have conf: "board_lines util_mxser_numports ?ws base i = conf_lines base i (d_cfg d ! i)"
      "hc_board_type ?ws i = hw_board_type (d_cfg d ! i)" "good_conf (d_cfg d ! i)" if "i \<in> set [0..<4]" for i
    using board_lines_conf [OF assms(1,2), of i] assms(1,2) that by simp_all
  have "\<forall>i \<in> set [0..<4]. hc_board_type ?ws i = -1 \<or> 1 \<le> hc_board_type ?ws i \<and> hc_board_type ?ws i \<le> 32"
    using conf by (simp add: good_conf_def)
  note all = print_boards_run [OF this, of util_mxser_numports base d7, folded boards_def]
  have lines: "map (board_lines util_mxser_numports ?ws base) [0..<4] = map (\<lambda>i. conf_lines base i (d_cfg d ! i)) [0..<4]"
    using conf(1) by (intro map_cong) simp_all
  have "filter (\<lambda>i. hc_board_type ?ws i \<noteq> -1) [0..<4] = filter (\<lambda>i. hw_board_type (d_cfg d ! i) \<noteq> -1) [0..<4]"
    using conf(2) by (intro filter_cong) simp_all
  moreover have "length (filter (\<lambda>i. hw_board_type (d_cfg d ! i) \<noteq> -1) [0..<4]) = length (filter (\<lambda>c. hw_board_type c \<noteq> -1) (d_cfg d))"
    using assms(1) by (metis (mono_tags, lifting) filter_map length_map map_nth comp_apply filter_cong)
  ultimately show ?thesis
    using assms(5) all prints_trans [OF d7, of _ e] unfolding run lines by auto
qed

definition diag_example :: mxdrv where
  "diag_example = control_example\<lparr>d_cfg :=
     empty_hwconf\<lparr>hw_board_type := 7, hw_busNum := 2, hw_devNum := 0x18, hw_ioaddr := [0x100, 0x108, 0, 0, 0, 0, 0, 0],
       hw_MaxCanSetBaudRate := replicate 8 921600, hw_baud_base := replicate 8 921600, hw_opmode_ioaddr := replicate 8 0\<rparr> #
     replicate 3 (empty_hwconf\<lparr>hw_board_type := -1, hw_ioaddr := replicate 8 0, hw_baud_base := replicate 8 0,
       hw_MaxCanSetBaudRate := replicate 8 0, hw_opmode_ioaddr := replicate 8 0\<rparr>)\<rparr>"

lemma diag_shows_boards_witness:
  "\<exists>e. run_state (diag_half mxser_ioctl_special ''open(/dev/mxser)'' util_mxser_numports 0) diag_example = (Shown 1, e) \<and>
    prints [(''printf(Board)'', [1, 6, 2, 3]), (''printf(Port)'', [1, 0x100, 921600]), (''printf(Port)'', [2, 0x108, 921600])]
      diag_example e"
  using diag_shows_boards [of diag_example, OF _ _ _ _ prod.collapse [symmetric], of 0]
  by (simp add: diag_example_def control_example_def good_conf_def opens_def prod_eq_iff conf_lines_def mxser_numports_def
      upt_rec nth_Cons')

end
