(* ===== verification/Muestty_Watch.thy ===== *)
theory Muestty_Watch
  imports Muestty_Mon
begin

text \<open>
  The monitor of the utilities, \<open>user/muestty_utility/mon/mon_p.c\<close> with the keys of the port page in
  \<open>mon/mon_pa.c\<close>: the names of the devices from the output of \<open>ls\<close>, the counters of the ports of a board, their
  rates over the interval and since the start, and the moves between boards and ports.

  The monitor's variables are a record beside the state of the drivers, whose requests are arguments.  The
  keys are a list; the keys on a page of a port are a list of their own.  The lines that \<open>ls\<close> prints are an
  argument, since the listing is made by another program.
\<close>

section \<open>The state\<close>

text \<open>\<open>Moniter_str\<close> is a list of 65 words: the tick, 32 receive counters and 32 transmit counters.\<close>

record mon =
  mo_pci :: "int list"
  mo_pcie :: "int list"
  mo_tty :: "string list"
  mo_pcietty :: "string list"
  mo_pcibrds :: nat
  mo_board :: nat
  mo_maxrow :: nat
  mo_names :: "string list"
  mo_row :: nat
  mo_old :: "int list"
  mo_start :: "int list"
  mo_end :: "int list"
  mo_interval :: int
  mo_t1 :: int
  mo_t2 :: int
  mo_rows :: "int list list"
  mo_pinfo :: pstat_info
  mo_page :: "string list"

text \<open>The static variables are zero when the program starts.\<close>

definition mon_init :: mon where
  "mon_init = \<lparr>mo_pci = replicate 168 0, mo_pcie = replicate 336 0, mo_tty = replicate 32 [], mo_pcietty = replicate 32 [],
     mo_pcibrds = 0, mo_board = 0, mo_maxrow = 0, mo_names = [], mo_row = 0, mo_old = replicate 65 0,
     mo_start = replicate 65 0, mo_end = replicate 65 0, mo_interval = 0, mo_t1 = 0, mo_t2 = 0, mo_rows = [],
     mo_pinfo = \<lparr>ps_baud = 0, ps_parity = 0, ps_databit = 0, ps_stopbit = 0, ps_CTS = 0, ps_DSR = 0, ps_DCD = 0\<rparr>,
     mo_page = []\<rparr>"

definition rx_word :: "int list \<Rightarrow> nat \<Rightarrow> int" where
  "rx_word log i = log ! (1 + i)"

definition tx_word :: "int list \<Rightarrow> nat \<Rightarrow> int" where
  "tx_word log i = log ! (33 + i)"

text \<open>The board is one of the PCI Express driver: then its configuration is in \<open>Gmxupciecfg\<close>.\<close>

definition on_pcie :: "mon \<Rightarrow> bool" where
  "on_pcie m \<longleftrightarrow> hc_MustChipFlag (mo_pcie m) (mo_board m) = 3"

definition board_type_of :: "mon \<Rightarrow> int" where
  "board_type_of m = (if on_pcie m then hc_board_type (mo_pcie m) (mo_board m) else hc_board_type (mo_pci m) (mo_board m))"

definition board_ports :: "mon \<Rightarrow> int" where
  "board_ports m = (if on_pcie m then util_mxupcie_numports else util_mxser_numports) ! nat (board_type_of m - 1)"

definition port_id :: "mon \<Rightarrow> nat \<Rightarrow> nat" where
  "port_id m i = (if on_pcie m then nat ((int (mo_board m) - int (mo_pcibrds m)) * 8 + int i) else mo_board m * 8 + i)"

section \<open>The counters\<close>

text \<open>
  The requests of the two drivers are \<open>q1\<close> and \<open>q2\<close>; the time of day is an answer of the environment.  The
  result is that of \<open>getdatacnt\<close> and the counters, which stay as they are when nothing was written.
\<close>

type_synonym 'x request = "special_cmd \<Rightarrow> ('x, int) io_m"

definition getdatacnt :: "'x request \<Rightarrow> 'x request \<Rightarrow> mon \<Rightarrow> int list \<Rightarrow> ('x, int \<times> int list) io_m" where
  "getdatacnt q1 q2 m logdata =
    (if on_pcie m then do {
       fd \<leftarrow> kcall ''open(/dev/mxupcie)'' [];
       if fd < 0 then ret (-1, logdata)
       else do {
         (r, answer) \<leftarrow> with_reply (q2 (MOXA_GETDATACOUNT (good_arg ())));
         let logdata = (case answer of Some ws \<Rightarrow> ws | None \<Rightarrow> logdata);
         if r \<noteq> 0 then do { knote ''printf(pcie ioctl fail)'' [r]; ret (1, logdata) }
         else do { knote ''close'' [fd]; ret (0, logdata) } } }
     else do {
       fd \<leftarrow> kcall ''open(/dev/mxser)'' [];
       if fd < 0 then ret (-1, logdata)
       else do {
         (_, answer) \<leftarrow> with_reply (q1 (MOXA_GETDATACOUNT (good_arg ())));
         knote ''close'' [fd];
         ret (0, case answer of Some ws \<Rightarrow> ws | None \<Rightarrow> logdata) } })"

definition time_now :: "('x, int) io_m" where
  "time_now = kcall ''time'' []"

definition reset_count :: "'x request \<Rightarrow> 'x request \<Rightarrow> mon \<Rightarrow> ('x, mon) io_m" where
  "reset_count q1 q2 m = do {
     (_, log) \<leftarrow> getdatacnt q1 q2 m (mo_old m);
     t \<leftarrow> time_now;
     ret (m\<lparr>mo_old := log, mo_start := log, mo_t1 := t\<rparr>) }"

text \<open>
  The numbers of a row are \<open>unsigned long\<close>, and so are the divisions; the time since the start is an
  \<open>int\<close>, at least 1 unless the clock goes back, and is converted.  A number with more digits than its column has overruns the string.
\<close>

definition counted :: "int \<Rightarrow> int \<Rightarrow> int" where
  "counted b a = (b - a) mod 2 ^ 64"

definition seconds :: "int \<Rightarrow> int" where
  "seconds t = (let b = sint (word_of_int t :: 32 word) in (if b = 0 then 1 else b) mod 2 ^ 64)"

definition count_row :: "mon \<Rightarrow> int \<Rightarrow> nat \<Rightarrow> int list" where
  "count_row m b i =
    [counted (rx_word (mo_end m) i) (rx_word (mo_old m) i),
     counted (rx_word (mo_end m) i) (rx_word (mo_start m) i) div mo_interval m,
     counted (rx_word (mo_end m) i) (rx_word (mo_old m) i) div b,
     counted (tx_word (mo_end m) i) (tx_word (mo_old m) i),
     counted (tx_word (mo_end m) i) (tx_word (mo_start m) i) div mo_interval m,
     counted (tx_word (mo_end m) i) (tx_word (mo_old m) i) div b]"

definition row_fits :: "int list \<Rightarrow> bool" where
  "row_fits r \<longleftrightarrow> list_all2 (\<lambda>v w. v < 10 ^ w) r [10, 8, 8, 10, 8, 8]"

definition flush_menu_data :: "'x request \<Rightarrow> 'x request \<Rightarrow> mon \<Rightarrow> ('x, mon) io_m" where
  "flush_menu_data q1 q2 m = do {
     (_, log) \<leftarrow> getdatacnt q1 q2 m (mo_end m);
     t \<leftarrow> time_now;
     let m = m\<lparr>mo_end := log, mo_t2 := t\<rparr>;
     let b = seconds (mo_t2 m - mo_t1 m);
     whenM (\<exists>i \<in> set [0..<mo_maxrow m]. 32 \<le> port_id m i) (undefined_c ''rxcnt index'');
     let rows = map (\<lambda>i. count_row m b (port_id m i)) [0..<mo_maxrow m];
     whenM (\<exists>r \<in> set rows. \<not> row_fits r) (undefined_c ''sprintf into menu3.item'');
     ret (m\<lparr>mo_rows := rows, mo_start := mo_end m\<rparr>) }"

definition show_timer :: "mon \<Rightarrow> ('x, unit) io_m" where
  "show_timer m = do {
     t \<leftarrow> time_now;
     let i = t - mo_t1 m;
     knote ''sprintf(Time)'' [(i sdiv 60) sdiv 60, (i sdiv 60) smod 60, i smod 60, int (mo_board m) + 1,
       board_type_of m - 1, mo_interval m] }"

section \<open>The page of the counters\<close>

text \<open>
  \<open>init_menu\<close>: the result tells whether the counters could be read; otherwise the page is not made.  A name
  longer than ten characters overruns its string.
\<close>

definition init_menu :: "'x request \<Rightarrow> 'x request \<Rightarrow> mon \<Rightarrow> ('x, bool \<times> mon) io_m" where
  "init_menu q1 q2 m = do {
     whenM (board_type_of m < 1 \<or> 32 < board_type_of m) (undefined_c ''numports index'');
     let m = m\<lparr>mo_maxrow := nat (board_ports m)\<rparr>;
     (r, log) \<leftarrow> getdatacnt q1 q2 m (mo_old m);
     let m = m\<lparr>mo_old := log\<rparr>;
     if r < 0 then ret (False, m)
     else do {
       whenM (\<exists>j \<in> set [0..<mo_maxrow m]. 32 \<le> port_id m j) (undefined_c ''TtyName index'');
       let names = map (\<lambda>j. (if on_pcie m then mo_pcietty m else mo_tty m) ! port_id m j) [0..<mo_maxrow m];
       whenM (\<exists>n \<in> set names. 10 < length n) (undefined_c ''sprintf into menu3.item'');
       ret (True, m\<lparr>mo_start := log, mo_names := names, mo_row := 0\<rparr>) } }"

text \<open>
  The keys of the port page, with what \<open>mon_pa_setup\<close> returns: 1 and -1 for the next and the previous port,
  0 for the end; no result while the user stays.  \<open>c\<close> is the row of the port.  The two page keys take the
  next key away.
\<close>

datatype pa_key = Pa_esc | Pa_down | Pa_up | Pa_other

datatype pa_flag = Mon_top | Mon_bottom | Mon_normal

definition row_flag :: "mon \<Rightarrow> nat \<Rightarrow> pa_flag" where
  "row_flag m c = (if c = 0 then Mon_top else if int c = int (mo_maxrow m) - 1 then Mon_bottom else Mon_normal)"

definition pa_show :: "'x request \<Rightarrow> 'x request \<Rightarrow> nat \<Rightarrow> mon \<Rightarrow> ('x, bool \<times> mon) io_m" where
  "pa_show q1 q2 c m = do {
     r \<leftarrow> (if on_pcie m then prepare_menu q2 ''open(/dev/mxupcie)'' (mo_names m ! c) (mo_board m) c (mo_pinfo m)
       else prepare_menu q1 ''open(/dev/mxser)'' (mo_names m ! c) (mo_board m) c (mo_pinfo m));
     ret (case r of None \<Rightarrow> (False, m) | Some (p, i) \<Rightarrow> (True, m\<lparr>mo_page := p, mo_pinfo := i\<rparr>)) }"

fun pa_loop :: "'x request \<Rightarrow> 'x request \<Rightarrow> nat \<Rightarrow> pa_flag \<Rightarrow> int \<Rightarrow> pa_key list \<Rightarrow> mon \<Rightarrow> ('x, int option \<times> mon) io_m" where
  "pa_loop q1 q2 c flag t1 [] m = ret (None, m)"
| "pa_loop q1 q2 c flag t1 (Pa_esc # ks) m = ret (Some 0, m)"
| "pa_loop q1 q2 c flag t1 (Pa_down # ks) m =
    (if flag = Mon_bottom then pa_loop q1 q2 c flag t1 (tl ks) m else ret (Some 1, m))"
| "pa_loop q1 q2 c flag t1 (Pa_up # ks) m =
    (if flag = Mon_top then pa_loop q1 q2 c flag t1 (tl ks) m else ret (Some (-1), m))"
| "pa_loop q1 q2 c flag t1 (Pa_other # ks) m = do {
     t \<leftarrow> time_now;
     if t - t1 < mo_interval m then pa_loop q1 q2 c flag t1 ks m
     else do {
       t \<leftarrow> time_now;
       (ok, m) \<leftarrow> pa_show q1 q2 c m;
       if ok then pa_loop q1 q2 c flag t ks m else ret (Some 0, m) } }"

definition mon_pa_setup :: "'x request \<Rightarrow> 'x request \<Rightarrow> pa_flag \<Rightarrow> nat \<Rightarrow> pa_key list \<Rightarrow> mon \<Rightarrow> ('x, int option \<times> mon) io_m" where
  "mon_pa_setup q1 q2 flag c ks m = do {
     t \<leftarrow> time_now;
     (ok, m) \<leftarrow> pa_show q1 q2 c m;
     if ok then pa_loop q1 q2 c flag t ks m else ret (Some 0, m) }"

text \<open>The pages of the ports one after the other, each with its keys; the last page leaves its row.\<close>

fun port_pages :: "'x request \<Rightarrow> 'x request \<Rightarrow> nat \<Rightarrow> pa_key list list \<Rightarrow> mon \<Rightarrow> ('x, bool \<times> mon) io_m" where
  "port_pages q1 q2 c [] m = ret (False, m)"
| "port_pages q1 q2 c (ks # kss) m = do {
     (r, m) \<leftarrow> mon_pa_setup q1 q2 (row_flag m c) c ks m;
     (case r of
        None \<Rightarrow> ret (False, m)
      | Some i \<Rightarrow>
          if i = 0 then ret (True, m\<lparr>mo_row := c\<rparr>)
          else do {
            let c = (if i < 0 \<and> 0 < c then c - 1 else c);
            let c = (if 0 < i \<and> int c < int (mo_maxrow m) - 1 then c + 1 else c);
            port_pages q1 q2 c kss m }) }"

text \<open>
  The keys of the monitor.  Enter has the row the user went to and the keys of the pages.  The result of
  \<open>mon_key\<close> is whether the loop goes on, whether the page is made anew, and the variables.
\<close>

datatype user_key = M_esc | M_enter nat "pa_key list list" | M_pgup | M_pgdown | M_plus | M_minus | M_home | M_other

definition to_board :: "'x request \<Rightarrow> 'x request \<Rightarrow> nat \<Rightarrow> mon \<Rightarrow> ('x, bool \<times> bool \<times> mon) io_m" where
  "to_board q1 q2 b m = do {
     m \<leftarrow> reset_count q1 q2 (m\<lparr>mo_board := b\<rparr>);
     (ok, m) \<leftarrow> init_menu q1 q2 m;
     whenM (\<not> ok) (undefined_c ''menu3 after release_space'');
     ret (True, True, m) }"

definition mon_key :: "'x request \<Rightarrow> 'x request \<Rightarrow> nat \<Rightarrow> user_key \<Rightarrow> mon \<Rightarrow> ('x, bool \<times> bool \<times> mon) io_m" where
  "mon_key q1 q2 boards k m = (case k of
     M_esc \<Rightarrow> ret (False, False, m)
   | M_enter c kss \<Rightarrow> do {
       whenM (mo_maxrow m \<le> c) (undefined_c ''row'');
       (ended, m) \<leftarrow> port_pages q1 q2 c kss m;
       ret (ended, ended, m) }
   | M_pgup \<Rightarrow> if mo_board m \<noteq> 0 then to_board q1 q2 (mo_board m - 1) m else ret (True, False, m)
   | M_pgdown \<Rightarrow> if int (mo_board m) < int boards - 1 then to_board q1 q2 (mo_board m + 1) m else ret (True, False, m)
   | M_plus \<Rightarrow> do {
       let m = (if mo_interval m < 10 then m\<lparr>mo_interval := mo_interval m + 1\<rparr> else m);
       show_timer m;
       ret (True, False, m) }
   | M_minus \<Rightarrow> do {
       let m = (if 3 < mo_interval m then m\<lparr>mo_interval := mo_interval m - 1\<rparr> else m);
       show_timer m;
       ret (True, False, m) }
   | M_home \<Rightarrow> do { m \<leftarrow> reset_count q1 q2 m; ret (True, True, m) }
   | M_other \<Rightarrow> do {
       t \<leftarrow> time_now;
       if (t - mo_t2 m) mod 2 ^ 64 < mo_interval m then ret (True, False, m)
       else do { m \<leftarrow> flush_menu_data q1 q2 m; show_timer m; ret (True, False, m) } })"

definition refresh :: "'x request \<Rightarrow> 'x request \<Rightarrow> bool \<Rightarrow> mon \<Rightarrow> ('x, mon) io_m" where
  "refresh q1 q2 need_prepare m =
    (if need_prepare then do { m \<leftarrow> flush_menu_data q1 q2 m; show_timer m; ret m } else ret m)"

fun mon_loop :: "'x request \<Rightarrow> 'x request \<Rightarrow> nat \<Rightarrow> bool \<Rightarrow> user_key list \<Rightarrow> mon \<Rightarrow> ('x, mon) io_m" where
  "mon_loop q1 q2 boards need_prepare [] m = refresh q1 q2 need_prepare m"
| "mon_loop q1 q2 boards need_prepare (k # ks) m = do {
     m \<leftarrow> refresh q1 q2 need_prepare m;
     (going, need_prepare, m) \<leftarrow> mon_key q1 q2 boards k m;
     if going then mon_loop q1 q2 boards need_prepare ks m else ret m }"

definition mon_p_setup :: "'x request \<Rightarrow> 'x request \<Rightarrow> nat \<Rightarrow> user_key list \<Rightarrow> mon \<Rightarrow> ('x, int \<times> mon) io_m" where
  "mon_p_setup q1 q2 boards ks m = do {
     t \<leftarrow> time_now;
     (ok, m) \<leftarrow> init_menu q1 q2 (m\<lparr>mo_interval := 3, mo_t1 := t\<rparr>);
     if \<not> ok then do { knote ''confirm(No monitor message)'' []; ret (-1, m) }
     else do { m \<leftarrow> mon_loop q1 q2 boards True ks m; ret (0, m) } }"

section \<open>The names of the devices\<close>

text \<open>
  \<open>sscanf\<close> with \<open>%s %s %s %s %d, %d %s %s %s %s\<close>: the variables after it that the program reads.  A
  conversion that fails ends it, and the variables after it keep their values from the line before.
\<close>

record ls_vars =
  l_s1 :: string
  l_major :: int
  l_minor :: int
  l_s9 :: string

definition scan_word :: "string \<Rightarrow> (string \<times> string) option" where
  "scan_word s = (let t = dropWhile is_blank s in
    if t = [] then None else Some (takeWhile (\<lambda>c. \<not> is_blank c) t, dropWhile (\<lambda>c. \<not> is_blank c) t))"

fun scan_words :: "nat \<Rightarrow> string \<Rightarrow> string option" where
  "scan_words 0 s = Some s"
| "scan_words (Suc n) s = (case scan_word s of None \<Rightarrow> None | Some (_, t) \<Rightarrow> scan_words n t)"

definition ls_minor :: "string \<Rightarrow> ls_vars \<Rightarrow> ls_vars" where
  "ls_minor s v = (case scan_int s of
     None \<Rightarrow> v
   | Some (n, s) \<Rightarrow>
       (let v = v\<lparr>l_minor := long_to_int n\<rparr> in
        case Option.bind (scan_words 2 s) scan_word of None \<Rightarrow> v | Some (w, _) \<Rightarrow> v\<lparr>l_s9 := w\<rparr>))"

definition ls_scan :: "string \<Rightarrow> ls_vars \<Rightarrow> ls_vars" where
  "ls_scan s v = (case scan_word s of
     None \<Rightarrow> v
   | Some (w, s) \<Rightarrow>
       (let v = v\<lparr>l_s1 := w\<rparr> in
        case Option.bind (scan_words 3 s) scan_int of
          None \<Rightarrow> v
        | Some (n, s) \<Rightarrow>
            (let v = v\<lparr>l_major := long_to_int n\<rparr> in
             case s of c # s \<Rightarrow> if c = CHR '','' then ls_minor s v else v | [] \<Rightarrow> v)))"

text \<open>A line is read into 100 bytes and a word of it into 20, neither with a check.\<close>

fun words_of :: "string \<Rightarrow> nat \<Rightarrow> string list" where
  "words_of s 0 = []"
| "words_of s (Suc n) = (case scan_word s of None \<Rightarrow> [] | Some (w, t) \<Rightarrow> w # words_of t n)"

definition line_fits :: "string \<Rightarrow> bool" where
  "line_fits s \<longleftrightarrow> length s < 100 \<and> (\<forall>w \<in> set (words_of s 9). length w < 20)"

fun read_listing :: "int \<Rightarrow> string list \<Rightarrow> ls_vars \<Rightarrow> string list \<Rightarrow> ('x, string list) io_m" where
  "read_listing now_major [] v names = ret names"
| "read_listing now_major (l # ls) v names = do {
     whenM (\<not> line_fits l) (undefined_c ''sscanf'');
     let v = ls_scan l v;
     if take 1 (l_s1 v) \<noteq> ''c'' \<or> l_major v \<noteq> now_major \<or> 32 \<le> l_minor v then read_listing now_major ls v names
     else do {
       whenM (l_minor v < 0) (undefined_c ''TtyName index'');
       read_listing now_major ls v (names[nat (l_minor v) := l_s9 v]) } }"

text \<open>\<open>read_tty\<close> and \<open>read_pcietty\<close>, which differ in the array; \<open>v0\<close> is what the variables hold at first.\<close>

definition read_tty :: "ls_vars \<Rightarrow> int \<Rightarrow> string list \<Rightarrow> ('x, string list) io_m" where
  "read_tty v0 now_major listing = do {
     let names = map (\<lambda>i. ''Port '' @ show_nat i) [0..<32];
     knote ''system(ls -l /dev)'' [now_major];
     names \<leftarrow> read_listing now_major listing v0 names;
     knote ''system(rm /tmp/mon.tmp)'' [];
     ret names }"

definition read_pcietty :: "ls_vars \<Rightarrow> int \<Rightarrow> string list \<Rightarrow> ('x, string list) io_m" where
  "read_pcietty v0 now_major listing = read_tty v0 now_major listing"

section \<open>The program\<close>

text \<open>The boards of both drivers; no result when the program ends here.\<close>

definition words_or :: "int list \<Rightarrow> int list option \<Rightarrow> int list" where
  "words_or old answer = (case answer of Some ws \<Rightarrow> ws | None \<Rightarrow> old)"

definition monitor_request :: "('x, int) io_m \<Rightarrow> ('x, int) io_m" where
  "monitor_request m = do {
     (_, answer) \<leftarrow> with_reply m;
     x \<leftarrow> uninitialised ''major'';
     ret (case answer of Some (v # _) \<Rightarrow> v | _ \<Rightarrow> x) }"

definition find_pci :: "'x request \<Rightarrow> ls_vars \<Rightarrow> string list \<Rightarrow> ('x, (bool \<times> nat \<times> mon) option) io_m" where
  "find_pci q1 v0 listing = do {
     fd \<leftarrow> kcall ''open(/dev/mxser)'' [];
     if fd < 0 then do { knote ''printf(Please run msmknod first)'' []; ret (Some (False, 0, mon_init)) }
     else do {
       (r, answer) \<leftarrow> with_reply (q1 (MOXA_GET_CONF (good_arg ())));
       if r \<noteq> 0 then do { knote ''printf(pci ioctl fail)'' [r]; ret None }
       else do {
         let conf = words_or (replicate 168 0) answer;
         maj \<leftarrow> monitor_request (q1 (MOXA_GET_MAJOR (good_arg ())));
         knote ''close'' [fd];
         names \<leftarrow> read_tty v0 maj listing;
         let n = length (filter (\<lambda>i. hc_board_type conf i \<noteq> -1) [0..<4]);
         ret (Some (True, n, mon_init\<lparr>mo_pci := conf, mo_tty := names, mo_pcibrds := n\<rparr>)) } } }"

definition find_pcie :: "'x request \<Rightarrow> ls_vars \<Rightarrow> string list \<Rightarrow> bool \<Rightarrow> nat \<Rightarrow> mon \<Rightarrow> ('x, (nat \<times> mon) option) io_m" where
  "find_pcie q2 v0 listing pci boards m = do {
     fd \<leftarrow> kcall ''open(/dev/mxupcie)'' [];
     if fd < 0 then do { knote ''printf(Please run msmknod first)'' []; ret (if pci then Some (boards, m) else None) }
     else do {
       (r, answer) \<leftarrow> with_reply (q2 (MOXA_GET_CONF (good_arg ())));
       if r \<noteq> 0 then do { knote ''printf(pcie ioctl fail)'' [r]; ret None }
       else do {
         let k = mo_pcibrds m;
         let conf = take (42 * k) (mo_pcie m) @ words_or (replicate 168 0) answer @ drop (42 * k + 168) (mo_pcie m);
         maj \<leftarrow> monitor_request (q2 (MOXA_GET_MAJOR (good_arg ())));
         knote ''close'' [fd];
         names \<leftarrow> read_pcietty v0 maj listing;
         let boards = boards + length (filter (\<lambda>i. hc_board_type conf i \<noteq> -1) [k..<4]);
         if boards = 0 then do { knote ''printf(No board)'' []; ret None }
         else ret (Some (boards, m\<lparr>mo_pcie := conf, mo_pcietty := names\<rparr>)) } } }"

definition mon_main :: "'x request \<Rightarrow> 'x request \<Rightarrow> ls_vars \<Rightarrow> string list \<Rightarrow> string list \<Rightarrow> user_key list \<Rightarrow> ('x, int) io_m" where
  "mon_main q1 q2 v0 ls1 ls2 ks = do {
     found \<leftarrow> find_pci q1 v0 ls1;
     (case found of
        None \<Rightarrow> ret 1
      | Some (pci, boards, m) \<Rightarrow> do {
          found \<leftarrow> find_pcie q2 v0 ls2 pci boards m;
          (case found of
             None \<Rightarrow> ret 1
           | Some (boards, m) \<Rightarrow> do { _ \<leftarrow> mon_p_setup q1 q2 boards ks m; ret 0 }) }) }"

section \<open>The counters are those of the driver\<close>

text \<open>The words of the request on the serial driver.\<close>

definition counts :: "mxdrv \<Rightarrow> int list" where
  "counts d = 0 # map (uint \<circ> g_rxcnt) (d_ports d) @ map (uint \<circ> g_txcnt) (d_ports d)"

lemma counts_words:
  assumes "length (d_ports d) = 32" "i < 32"
  shows "rx_word (counts d) i = uint (g_rxcnt (d_ports d ! i))" "tx_word (counts d) i = uint (g_txcnt (d_ports d ! i))"
  using assms by (simp_all add: rx_word_def tx_word_def counts_def nth_append nth_Cons')

lemma counted_word: "counted (uint (b :: 64 word)) (uint a) = uint (b - a)"
  by (simp add: counted_def uint_word_ariths)

lemma getdatacnt_run:
  fixes d :: mxdrv
  assumes "\<not> on_pcie m" "opens d" "\<And>h. env_k (ienv d) h ''access_ok'' [] \<noteq> 0"
  shows "fst (run_state (getdatacnt mxser_ioctl_special q2 m log) d) = (0, counts d)"
proof -
  have fd: "\<not> env_k (ienv d) h ''open(/dev/mxser)'' [] < 0" for h
    using opensD [OF assms(2), of "''open(/dev/mxser)''" h] by simp
  show ?thesis
    using assms(1,3) fd
    by (simp add: getdatacnt_def case_prod_beta mxser_ioctl_special_def access_ok_def reply_def good_arg_def counts_def)
qed

lemma reset_run:
  fixes d :: mxdrv
  assumes "\<not> on_pcie m" "opens d" "\<And>h. env_k (ienv d) h ''access_ok'' [] \<noteq> 0"
    and "run_state (reset_count mxser_ioctl_special q2 m) d = (n, e)"
  shows "\<exists>t. n = m\<lparr>mo_old := counts d, mo_start := counts d, mo_t1 := t\<rparr>"
proof -
  obtain f where f: "run_state (getdatacnt mxser_ioctl_special q2 m (mo_old m)) d = ((0, counts d), f)"
    using getdatacnt_run [OF assms(1-3), of q2 "mo_old m"] by (metis prod.collapse)
  show ?thesis
    using assms(4) by (simp add: reset_count_def time_now_def f) blast
qed

lemma flush_run:
  fixes d :: mxdrv
  assumes "\<not> on_pcie m" "opens d" "\<And>h. env_k (ienv d) h ''access_ok'' [] \<noteq> 0"
    and "run_state (flush_menu_data mxser_ioctl_special q2 m) d = (n, e)"
  shows "\<exists>t. n = m\<lparr>mo_end := counts d, mo_t2 := t,
    mo_rows := map (\<lambda>i. count_row (m\<lparr>mo_end := counts d\<rparr>) (seconds (t - mo_t1 m)) (port_id m i)) [0..<mo_maxrow m],
    mo_start := counts d\<rparr>"
proof -
  obtain f where f: "run_state (getdatacnt mxser_ioctl_special q2 m (mo_end m)) d = ((0, counts d), f)"
    using getdatacnt_run [OF assms(1-3), of q2 "mo_end m"] by (metis prod.collapse)
  have [simp]: "port_id (m\<lparr>mo_end := x, mo_t2 := t\<rparr>) = port_id m" "count_row (m\<lparr>mo_end := x, mo_t2 := t\<rparr>) = count_row (m\<lparr>mo_end := x\<rparr>)" for x t
    by (simp_all add: fun_eq_iff port_id_def on_pcie_def count_row_def)
  show ?thesis
    using assms(4) by (simp add: flush_menu_data_def time_now_def f Let_def case_prod_beta) (elim conjE, rule exI, erule sym)
qed

text \<open>
  C36. The monitor on the serial driver: after the counts were reset at one state of the driver and shown at
  two later ones, every row of the page has the characters received and sent by its port since the reset,
  their number since the page before over the interval, and the average over the seconds since the reset,
  also when the driver's counters of 64 bits wrapped.
\<close>

theorem monitor_counts:
  fixes d0 d1 d2 :: mxdrv
  assumes "\<not> on_pcie m" "mo_board m < 4" "mo_maxrow m \<le> 8"
    and "\<forall>d \<in> {d0, d1, d2}. length (d_ports d) = 32 \<and> opens d \<and> (\<forall>h. env_k (ienv d) h ''access_ok'' [] \<noteq> 0)"
    and "run_state (reset_count mxser_ioctl_special q2 m) d0 = (m0, e0)"
    and "run_state (flush_menu_data mxser_ioctl_special q2 m0) d1 = (m1, e1)"
    and "run_state (flush_menu_data mxser_ioctl_special q2 m1) d2 = (m2, e2)"
  shows "mo_rows m2 = map (\<lambda>i.
    let p = \<lambda>d. d_ports d ! (8 * mo_board m + i); secs = seconds (mo_t2 m2 - mo_t1 m0) in
    [uint (g_rxcnt (p d2) - g_rxcnt (p d0)), uint (g_rxcnt (p d2) - g_rxcnt (p d1)) div mo_interval m,
     uint (g_rxcnt (p d2) - g_rxcnt (p d0)) div secs,
     uint (g_txcnt (p d2) - g_txcnt (p d0)), uint (g_txcnt (p d2) - g_txcnt (p d1)) div mo_interval m,
     uint (g_txcnt (p d2) - g_txcnt (p d0)) div secs]) [0..<mo_maxrow m]"
proof -
  obtain t0 where m0: "m0 = m\<lparr>mo_old := counts d0, mo_start := counts d0, mo_t1 := t0\<rparr>"
    using reset_run [OF assms(1) _ _ assms(5)] assms(4) by auto
  have "\<not> on_pcie m0" using assms(1) by (simp add: m0 on_pcie_def)
  then obtain t1 rows where m1: "m1 = m0\<lparr>mo_end := counts d1, mo_t2 := t1, mo_rows := rows, mo_start := counts d1\<rparr>"
    using flush_run [OF _ _ _ assms(6)] assms(4) by auto
  have "\<not> on_pcie m1" using assms(1) by (simp add: m0 m1 on_pcie_def)
  then obtain t2 where m2: "m2 = m1\<lparr>mo_end := counts d2, mo_t2 := t2,
      mo_rows := map (\<lambda>i. count_row (m1\<lparr>mo_end := counts d2\<rparr>) (seconds (t2 - mo_t1 m1)) (port_id m1 i)) [0..<mo_maxrow m1],
      mo_start := counts d2\<rparr>"
    using flush_run [OF _ _ _ assms(7)] assms(4) by auto
  have "port_id m1 i = 8 * mo_board m + i" "8 * mo_board m + i < 32" if "i < mo_maxrow m" for i
    using assms(1-3) that by (simp_all add: m0 m1 port_id_def on_pcie_def)
  then show ?thesis
    using assms(4) by (auto simp: m2 m1 m0 count_row_def counts_words counted_word Let_def)
qed

definition watch_example :: mon where
  "watch_example = mon_init\<lparr>mo_pci := 14 # replicate 167 0, mo_maxrow := 8, mo_interval := 3\<rparr>"

text \<open>The counters 1000 and 400 and 64 and 16 more at each step.\<close>

definition counting :: "nat \<Rightarrow> mxdrv" where
  "counting k = control_example\<lparr>d_ports := replicate 32 (port_example\<lparr>g_rxcnt := 1000 + 64 * of_nat k, g_txcnt := 400 + 16 * of_nat k\<rparr>)\<rparr>"

lemma monitor_counts_witness:
  "let (m0, _) = run_state (reset_count mxser_ioctl_special mxser_ioctl_special watch_example) (counting 2);
     (m1, _) = run_state (flush_menu_data mxser_ioctl_special mxser_ioctl_special m0) (counting 3);
     (m2, _) = run_state (flush_menu_data mxser_ioctl_special mxser_ioctl_special m1) (counting 4)
   in \<exists>t. mo_rows m2 ! 3 = [128, 21, 128 div seconds t, 32, 5, 32 div seconds t]"
proof -
  have place: "\<not> on_pcie watch_example" "mo_board watch_example = 0" "mo_maxrow watch_example = 8" "mo_interval watch_example = 3"
    by (simp_all add: watch_example_def mon_init_def on_pcie_def hc_MustChipFlag_def)
  have d: "\<forall>d \<in> {counting 2, counting 3, counting 4}. length (d_ports d) = 32 \<and> opens d \<and> (\<forall>h. env_k (ienv d) h ''access_ok'' [] \<noteq> 0)"
    by (simp add: counting_def control_example_def opens_def)
  have p: "g_rxcnt (d_ports (counting k) ! 3) = 1000 + 64 * of_nat k" "g_txcnt (d_ports (counting k) ! 3) = 400 + 16 * of_nat k" for k
    by (simp_all add: counting_def)
  obtain m0 e0 m1 e1 m2 e2 where
    r: "run_state (reset_count mxser_ioctl_special mxser_ioctl_special watch_example) (counting 2) = (m0, e0)"
      "run_state (flush_menu_data mxser_ioctl_special mxser_ioctl_special m0) (counting 3) = (m1, e1)"
      "run_state (flush_menu_data mxser_ioctl_special mxser_ioctl_special m1) (counting 4) = (m2, e2)"
    by (metis surj_pair)
  from monitor_counts [OF place(1) _ _ d r]
  have "mo_rows m2 ! 3 = [128, 21, 128 div seconds (mo_t2 m2 - mo_t1 m0), 32, 5, 32 div seconds (mo_t2 m2 - mo_t1 m0)]"
    by (simp add: place p Let_def)
  then show ?thesis
    by (simp add: r) blast
qed

section \<open>The moves stay on the boards\<close>

definition board_known :: "mon \<Rightarrow> nat \<Rightarrow> bool" where
  "board_known m b \<longleftrightarrow> (if hc_MustChipFlag (mo_pcie m) b = 3
     then mo_pcibrds m \<le> b \<and> b < mo_pcibrds m + 4 \<and> 1 \<le> hc_board_type (mo_pcie m) b \<and> hc_board_type (mo_pcie m) b \<le> 7
     else b < 4 \<and> 1 \<le> hc_board_type (mo_pci m) b \<and> hc_board_type (mo_pci m) b \<le> 32)"

definition good_mon :: "nat \<Rightarrow> mon \<Rightarrow> bool" where
  "good_mon boards m \<longleftrightarrow> (\<forall>b < boards. board_known m b) \<and> mo_board m < boards \<and>
     3 \<le> mo_interval m \<and> mo_interval m \<le> 10 \<and> mo_maxrow m = nat (board_ports m)"

definition same_place :: "mon \<Rightarrow> mon \<Rightarrow> bool" where
  "same_place m n \<longleftrightarrow> mo_pci n = mo_pci m \<and> mo_pcie n = mo_pcie m \<and> mo_pcibrds n = mo_pcibrds m \<and>
     mo_board n = mo_board m \<and> mo_maxrow n = mo_maxrow m \<and> mo_interval n = mo_interval m"

lemma same_place_good: "same_place m n \<Longrightarrow> good_mon boards m \<Longrightarrow> good_mon boards n"
  by (simp add: same_place_def good_mon_def board_known_def board_ports_def board_type_of_def on_pcie_def)

lemma same_place_refl [simp]: "same_place m m"
  by (simp add: same_place_def)

lemma same_place_trans: "same_place l m \<Longrightarrow> same_place m n \<Longrightarrow> same_place l n"
  by (simp add: same_place_def)

text \<open>What the result of a computation satisfies, whatever the state.\<close>

definition yields :: "('x, 'a) io_m \<Rightarrow> ('a \<Rightarrow> bool) \<Rightarrow> bool" where
  "yields c P \<longleftrightarrow> (\<forall>s. P (fst (run_state c s)))"

named_theorems yield_rules \<open>rules for \<open>yields\<close>\<close>

lemma yields_bind: "yields c Q \<Longrightarrow> (\<And>x. Q x \<Longrightarrow> yields (f x) P) \<Longrightarrow> yields (c \<bind> f) P"
  by (simp add: yields_def case_prod_beta)

lemma yields_then [yield_rules]: "(\<And>x. yields (f x) P) \<Longrightarrow> yields (c \<bind> f) P"
  by (simp add: yields_def case_prod_beta)

lemma yields_ret [yield_rules]: "P x \<Longrightarrow> yields (ret x) P"
  by (simp add: yields_def)

lemma yields_if [yield_rules]: "(b \<Longrightarrow> yields c P) \<Longrightarrow> (\<not> b \<Longrightarrow> yields d P) \<Longrightarrow> yields (if b then c else d) P"
  by simp

lemma yields_pair [yield_rules]: "(\<And>x y. p = (x, y) \<Longrightarrow> yields (f x y) P) \<Longrightarrow> yields (case p of (x, y) \<Rightarrow> f x y) P"
  by (cases p) simp

lemma reset_place: "yields (reset_count q1 q2 m) (same_place m)"
  unfolding reset_count_def by (intro yield_rules) (simp add: same_place_def)

lemma flush_place: "yields (flush_menu_data q1 q2 m) (same_place m)"
  unfolding flush_menu_data_def Let_def by (intro yield_rules) (simp add: same_place_def)

lemma refresh_place: "yields (refresh q1 q2 need m) (same_place m)"
  unfolding refresh_def by (intro yields_if yields_bind [OF flush_place] yield_rules) simp_all

text \<open>The variables that place the monitor stay, and the row of the page.\<close>

definition kept :: "mon \<Rightarrow> 'r \<times> mon \<Rightarrow> bool" where
  "kept m r \<longleftrightarrow> same_place m (snd r) \<and> mo_row (snd r) = mo_row m"

lemma yields_weaken: "yields c P \<Longrightarrow> (\<And>x. P x \<Longrightarrow> Q x) \<Longrightarrow> yields c Q"
  by (simp add: yields_def)

lemma kept_on: "kept m (x, n) \<Longrightarrow> yields c (kept n) \<Longrightarrow> yields c (kept m)"
  by (erule yields_weaken) (auto simp: kept_def elim: same_place_trans)

lemma kept_res: "kept m (x, n) \<Longrightarrow> kept m (y, n)"
  by (simp add: kept_def)

lemma pa_show_place: "yields (pa_show q1 q2 c m) (kept m)"
  unfolding pa_show_def by (intro yield_rules) (auto simp: kept_def same_place_def split: option.split)

lemma pa_loop_place: "yields (pa_loop q1 q2 c flag t ks m) (kept m)"
proof (induction q1 q2 c flag t ks m rule: pa_loop.induct)
  case (5 q1 q2 c flag t1 ks m)
  show ?case
    unfolding pa_loop.simps
    by (intro yields_then yields_if 5(1) yields_bind [OF pa_show_place] yields_pair)
      (auto intro: kept_on 5(2) yields_ret kept_res)
qed (simp_all add: yields_def kept_def)

lemma mon_pa_setup_place: "yields (mon_pa_setup q1 q2 flag c ks m) (kept m)"
  unfolding mon_pa_setup_def
  by (intro yields_then yields_if yields_bind [OF pa_show_place] yields_pair)
    (auto intro: kept_on pa_loop_place yields_ret kept_res)

text \<open>The row of the last page is one of the rows.\<close>

lemma port_pages_place:
  "yields (port_pages q1 q2 c kss m) (\<lambda>(ended, n). same_place m n \<and> (ended \<and> c < mo_maxrow m \<longrightarrow> mo_row n < mo_maxrow m))"
proof (induction kss arbitrary: c m)
  case Nil
  then show ?case by (simp add: yields_def)
next
  case (Cons ks kss)
  have "yields (case r of None \<Rightarrow> ret (False, n)
      | Some i \<Rightarrow> if i = 0 then ret (True, n\<lparr>mo_row := c\<rparr>)
        else (let c = (if i < 0 \<and> 0 < c then c - 1 else c);
            c = (if 0 < i \<and> int c < int (mo_maxrow n) - 1 then c + 1 else c) in port_pages q1 q2 c kss n))
     (\<lambda>(ended, n). same_place m n \<and> (ended \<and> c < mo_maxrow m \<longrightarrow> mo_row n < mo_maxrow m))" if "kept m (r, n)" for r n
  proof (cases r)
    case None
    then show ?thesis using that by (simp add: yields_def kept_def)
  next
    case (Some i)
    have n: "same_place m n" "mo_maxrow n = mo_maxrow m" using that by (simp_all add: kept_def same_place_def)
    define c' where "c' = (if i < 0 \<and> 0 < c then c - 1 else c)"
    define c'' where "c'' = (if 0 < i \<and> int c' < int (mo_maxrow n) - 1 then c' + 1 else c')"
    have c'': "c < mo_maxrow m \<Longrightarrow> c'' < mo_maxrow n" using n by (auto simp: c''_def c'_def)
    have "yields (port_pages q1 q2 c'' kss n) (\<lambda>(ended, l). same_place n l \<and> (ended \<and> c'' < mo_maxrow n \<longrightarrow> mo_row l < mo_maxrow n))"
      by (rule Cons.IH)
    then have "yields (port_pages q1 q2 c'' kss n) (\<lambda>(ended, l). same_place m l \<and> (ended \<and> c < mo_maxrow m \<longrightarrow> mo_row l < mo_maxrow m))"
      by (rule yields_weaken) (use n c'' in \<open>auto elim: same_place_trans\<close>)
    then show ?thesis
      unfolding Some option.case Let_def c'_def [symmetric] c''_def [symmetric]
      using n by (intro yields_if yields_ret) (auto simp: same_place_def)
  qed
  then show ?case
    unfolding port_pages.simps by (intro yields_bind [OF mon_pa_setup_place] yields_pair) auto
qed

text \<open>\<open>init_menu\<close> makes the page of the board.\<close>

lemma init_menu_good:
  assumes "\<forall>b < boards. board_known m b" "mo_board m < boards" "3 \<le> mo_interval m" "mo_interval m \<le> 10"
  shows "yields (init_menu q1 q2 m) (\<lambda>(_, n). good_mon boards n \<and> mo_interval n = mo_interval m \<and> mo_board n = mo_board m)"
  unfolding init_menu_def Let_def using assms
  by (intro yield_rules) (simp_all add: good_mon_def board_known_def board_ports_def board_type_of_def on_pcie_def)

lemma to_board_good:
  assumes "good_mon boards m" "b < boards"
  shows "yields (to_board q1 q2 b m) (\<lambda>(_, _, n). good_mon boards n)"
proof -
  have "yields (init_menu q1 q2 n) (\<lambda>(_, l). good_mon boards l)" if "same_place (m\<lparr>mo_board := b\<rparr>) n" for n
    by (rule yields_weaken [OF init_menu_good [of boards n q1 q2]])
      (use assms that in \<open>auto simp: good_mon_def same_place_def board_known_def\<close>)
  note page = yields_bind [OF this]
  show ?thesis
    unfolding to_board_def by (intro yields_bind [OF reset_place] page yields_then yields_ret yields_pair) auto
qed

lemma mon_key_good:
  assumes "good_mon boards m"
  shows "yields (mon_key q1 q2 boards k m) (\<lambda>(_, _, n). good_mon boards n)"
proof (cases k)
  case (M_enter c kss)
  show ?thesis
    unfolding mon_key_def M_enter user_key.case
    by (intro yields_then yields_bind [OF port_pages_place] yields_pair yields_ret) (auto intro: same_place_good [OF _ assms])
next
  case M_home
  show ?thesis
    unfolding mon_key_def M_home user_key.case
    by (intro yields_bind [OF reset_place] yields_ret) (simp add: same_place_good [OF _ assms])
next
  case M_other
  show ?thesis
    unfolding mon_key_def M_other user_key.case
    by (intro yields_then yields_if yields_bind [OF flush_place] yields_ret) (simp_all add: same_place_good [OF _ assms] assms)
next
  case M_pgup
  have "mo_board m - 1 < boards" using assms by (auto simp: good_mon_def)
  then show ?thesis
    unfolding mon_key_def M_pgup user_key.case by (intro yields_if yields_ret to_board_good assms) (simp_all add: assms)
next
  case M_pgdown
  show ?thesis
    unfolding mon_key_def M_pgdown user_key.case by (intro yields_if yields_ret to_board_good assms) (simp_all add: assms)
qed (use assms in \<open>auto simp: mon_key_def good_mon_def board_known_def board_ports_def board_type_of_def on_pcie_def Let_def
  intro!: yields_then yields_ret\<close>)

lemma mon_loop_good:
  assumes "good_mon boards m"
  shows "yields (mon_loop q1 q2 boards need ks m) (good_mon boards)"
  using assms
proof (induction ks arbitrary: need m)
  case Nil
  show ?case
    unfolding mon_loop.simps by (rule yields_weaken [OF refresh_place same_place_good]) (use Nil in simp_all)
next
  case (Cons k ks)
  show ?case
    unfolding mon_loop.simps
    by (intro yields_bind [OF refresh_place] yields_bind [OF mon_key_good [OF same_place_good [OF _ Cons.prems]]] yields_pair)
      (auto intro: yields_ret Cons.IH)
qed

lemma good_mon_ports:
  assumes "good_mon boards n"
  shows "1 \<le> board_type_of n" "board_type_of n \<le> 32" "int (mo_maxrow n) = board_ports n" "mo_maxrow n \<le> 8"
    "\<forall>i < mo_maxrow n. port_id n i < 32"
proof -
  have known: "board_known n (mo_board n)" and rows: "mo_maxrow n = nat (board_ports n)"
    using assms by (auto simp: good_mon_def)
  show type: "1 \<le> board_type_of n" "board_type_of n \<le> 32"
    using known by (auto simp: board_known_def board_type_of_def on_pcie_def split: if_splits)
  have "0 \<le> board_ports n \<and> board_ports n \<le> 8"
  proof (cases "on_pcie n")
    case True
    have "\<forall>x \<in> set util_mxupcie_numports. 0 \<le> x \<and> x \<le> 8" "length util_mxupcie_numports = 32"
      by (simp_all add: util_mxupcie_numports_def)
    then show ?thesis
      using True type by (simp add: board_ports_def)
  next
    case False
    then show ?thesis
      using numports_range [OF type] by (simp add: board_ports_def util_tables)
  qed
  then show "int (mo_maxrow n) = board_ports n" "mo_maxrow n \<le> 8"
    using rows by auto
  then show "\<forall>i < mo_maxrow n. port_id n i < 32"
    using known by (auto simp: port_id_def board_known_def on_pcie_def split: if_splits)
qed


definition keys_example :: "user_key list" where
  "keys_example = [M_plus, M_pgdown, M_pgdown, M_enter 3 [[Pa_other, Pa_down], [Pa_up, Pa_other], [Pa_esc]], M_minus, M_pgup, M_home]"

definition boards_example :: mon where
  "boards_example = mon_init\<lparr>mo_pci := (replicate 168 0)[0 := 14, 42 := 7], mo_pcie := (replicate 336 0)[84 := 6, 109 := 3], mo_pcibrds := 2\<rparr>"


section \<open>The names are those of the listing\<close>

text \<open>A line that \<open>ls\<close> prints for a device: mode, links, owner and group, the numbers, the date, the time and the name.\<close>

record dev_node =
  nd_mode :: string
  nd_links :: string
  nd_owner :: string
  nd_group :: string
  nd_major :: nat
  nd_minor :: nat
  nd_date :: string
  nd_time :: string
  nd_name :: string

definition is_word :: "string \<Rightarrow> bool" where
  "is_word w \<longleftrightarrow> w \<noteq> [] \<and> (\<forall>c \<in> set w. \<not> is_blank c)"

definition node_ok :: "dev_node \<Rightarrow> bool" where
  "node_ok n \<longleftrightarrow> is_word (nd_mode n) \<and> is_word (nd_links n) \<and> is_word (nd_owner n) \<and> is_word (nd_group n) \<and>
     is_word (nd_date n) \<and> is_word (nd_time n) \<and> is_word (nd_name n) \<and> nd_major n < 2 ^ 31 \<and> nd_minor n < 2 ^ 31"

definition ls_line :: "dev_node \<Rightarrow> string" where
  "ls_line n = nd_mode n @ '' '' @ nd_links n @ '' '' @ nd_owner n @ '' '' @ nd_group n @ '' '' @ show_nat (nd_major n) @ '', '' @
     show_nat (nd_minor n) @ '' '' @ nd_date n @ '' '' @ nd_time n @ '' '' @ nd_name n"

definition is_tty :: "int \<Rightarrow> nat \<Rightarrow> dev_node \<Rightarrow> bool" where
  "is_tty maj i n \<longleftrightarrow> take 1 (nd_mode n) = ''c'' \<and> int (nd_major n) = maj \<and> nd_minor n = i"

lemma scan_word_blank [simp]: "scan_word (CHR '' '' # s) = scan_word s"
  by (simp add: scan_word_def is_blank_def)

lemma scan_word_word:
  assumes "is_word w" "r = [] \<or> is_blank (hd r)"
  shows "scan_word (w @ r) = Some (w, r)"
proof -
  have "dropWhile is_blank (w @ r) = w @ r" "takeWhile (\<lambda>c. \<not> is_blank c) (w @ r) = w" "dropWhile (\<lambda>c. \<not> is_blank c) (w @ r) = r"
    using assms by (cases w; cases r; simp add: is_word_def takeWhile_append dropWhile_append)+
  then show ?thesis
    using assms(1) by (simp add: scan_word_def is_word_def)
qed

lemma scan_int_blank [simp]: "scan_int (CHR '' '' # s) = scan_int s"
  by (simp add: scan_int_def is_blank_def)

lemma ls_scan_line:
  assumes "node_ok n"
  shows "ls_scan (ls_line n) v = \<lparr>l_s1 = nd_mode n, l_major = int (nd_major n), l_minor = int (nd_minor n), l_s9 = nd_name n\<rparr>"
proof -
  have words: "scan_word (w @ CHR '' '' # r) = Some (w, CHR '' '' # r)" "scan_word w = Some (w, [])" if "is_word w" for w r
    using scan_word_word [OF that, of "CHR '' '' # r"] scan_word_word [OF that, of "[]"] by (simp_all add: is_blank_def)
  have nums: "scan_int (show_nat k @ CHR '','' # r) = Some (int k, CHR '','' # r)"
      "scan_int (show_nat k @ CHR '' '' # r) = Some (int k, CHR '' '' # r)" for k r
    by (simp_all add: scan_show_nat is_digit_def)
  have "long_to_int (int (nd_major n)) = int (nd_major n)" "long_to_int (int (nd_minor n)) = int (nd_minor n)"
    and "is_word (nd_mode n)" "is_word (nd_links n)" "is_word (nd_owner n)" "is_word (nd_group n)"
      "is_word (nd_date n)" "is_word (nd_time n)" "is_word (nd_name n)"
    using assms by (simp_all add: node_ok_def long_to_int_id)
  then show ?thesis
    by (simp add: ls_scan_def ls_line_def ls_minor_def words nums numeral_2_eq_2 numeral_3_eq_3)
qed

lemma find_append: "List.find P (xs @ ys) = (case List.find P xs of None \<Rightarrow> List.find P ys | Some x \<Rightarrow> Some x)"
  by (induction xs) auto

lemma read_listing_run:
  assumes "\<forall>n \<in> set nodes. node_ok n" "length names = 32" "i < 32"
  shows "length (fst (run_state (read_listing maj (map ls_line nodes) v names) s)) = 32 \<and>
    fst (run_state (read_listing maj (map ls_line nodes) v names) s) ! i =
      (case List.find (is_tty maj i) (rev nodes) of Some n \<Rightarrow> nd_name n | None \<Rightarrow> names ! i)"
  using assms
proof (induction nodes arbitrary: v names s)
  case (Cons n nodes)
  define taken where "taken \<longleftrightarrow> take 1 (nd_mode n) = ''c'' \<and> int (nd_major n) = maj \<and> nd_minor n < 32"
  define names' where "names' = (if taken then names[nd_minor n := nd_name n] else names)"
  let ?s = "snd (run_state (whenM (\<not> line_fits (ls_line n)) (undefined_c ''sscanf'')) s)"
  define v' where "v' = \<lparr>l_s1 = nd_mode n, l_major = int (nd_major n), l_minor = int (nd_minor n), l_s9 = nd_name n\<rparr>"
  have scan: "ls_scan (ls_line n) v = v'"
    using Cons.prems(1) unfolding v'_def by (intro ls_scan_line) simp
  have v': "l_s1 v' = nd_mode n" "l_major v' = int (nd_major n)" "l_minor v' = int (nd_minor n)" "l_s9 v' = nd_name n"
    by (simp_all add: v'_def)
  have "run_state (read_listing maj (map ls_line (n # nodes)) v names) s = run_state (read_listing maj (map ls_line nodes) v' names') ?s"
    by (cases taken) (auto simp: taken_def names'_def case_prod_beta scan v' Let_def)
  moreover have "names' ! i = (if is_tty maj i n then nd_name n else names ! i)" "length names' = 32"
    using Cons.prems by (auto simp: names'_def taken_def is_tty_def nth_list_update)
  ultimately show ?case
    using Cons.IH [of names' v' ?s] Cons.prems by (simp add: find_append split: option.splits)
qed simp


definition nodes_example :: "dev_node list" where
  "nodes_example = map (\<lambda>(maj, i, name). \<lparr>nd_mode = ''crw-rw----'', nd_links = ''1'', nd_owner = ''root'', nd_group = ''dialout'',
     nd_major = maj, nd_minor = i, nd_date = ''01-05'', nd_time = ''10:11'', nd_name = name\<rparr>)
     [(4, 3, ''tty3''), (30, 3, ''ttyM3''), (30, 5, ''ttyM5''), (35, 3, ''cum3'')]"

definition first_vars :: ls_vars where
  "first_vars = \<lparr>l_s1 = [], l_major = 0, l_minor = 0, l_s9 = []\<rparr>"


end
