(* ===== verification/Spec2Isabelle.thy ===== *)
theory Spec2Isabelle
  imports Watchdog Mxser_IoctlProps Mxser_Control Mxser_Spec Dio Uart_Mode Gpio_Power Irigb Epm3438 Mxu_Ioctl Mxu11_Device Hotswap_Daemon Dio_Events Usb_Tools
    Muestty_Conf Muestty_Term Muestty_Watch
begin

text \<open>
  Verification library for the Moxa x86 Linux drivers and tools.

  The repository holds the kernel modules (under \<open>modules\<close>) and the user programs (under
  \<open>user\<close>) of the Moxa embedded x86 computers.  The core is the multiport serial driver
  \<open>mxser\<close>; around it stand small drivers for the board controls (digital inputs and outputs,
  watchdog, serial mode switches, LEDs, relay, power lines, disk hotswap), a daemon and command
  line tools.  The
  drivers do not call each other; a user program reaches a driver through its device node, and
  several drivers share the Super I/O chip or a GPIO port.

  \<^bold>\<open>How a driver is modelled.\<close>  \<open>Prelude\<close> fixes what all parts share.  An operation is a function
  from the state of the component and the trace of events so far to a result, a new state and
  a longer trace (the monad \<open>io_m\<close> over \<open>State_Monad\<close>).  Events are port and memory-mapped
  reads and writes, calls of kernel services and copies from and to user space.  What the
  outside answers is a parameter: the record \<open>env\<close> maps the trace so far to the next value, so
  a theorem over every \<open>env\<close> covers every behaviour of the hardware and the kernel.  Where a
  property rests on documented behaviour of a device (a register that reads back what was
  written), that is a hypothesis (\<open>latches\<close>) and its witness names a concrete environment
  (\<open>latch_env\<close>).  Machine integers are words at the width of the C type.  What C leaves
  undefined (an index outside a table, a shift by a negative count, a division by zero) is the
  event \<open>undefined_c\<close> or an error value, so that its absence is a theorem.  \<open>Interfaces\<close> states
  the contracts between components as locales: a register file that keeps what is written, a
  byte queue, a masked line of a port; each is interpreted on the definitions of the component
  that provides it.

  \<^bold>\<open>The serial driver\<close>, \<open>modules/mxser/mxser.c\<close> and \<open>mxser.h\<close>.
  \<open>Must_Chip\<close> translates the register macros of the MUST chip.  \<open>Mxser_State\<close> holds the record
  of a port (\<open>struct mxser_struct\<close> with the tty it serves) and the effects.  \<open>Mxser_Tx\<close> has the transmit
  side (\<open>mxser_write\<close>, \<open>mxser_put_char\<close>, \<open>mxser_flush_chars\<close>, \<open>mxser_start\<close>, \<open>mxser_stop\<close>,
  \<open>mxser_transmit_chars\<close>): the ring buffer is a byte queue, the bulk copy of a write equals
  single characters, and the bytes sent are in order with none lost.  \<open>Mxser_Irq\<close> has the receive
  path, the modem status and the interrupt handler, whose loops are bounded by
  \<open>MXSER_ISR_PASS_LIMIT\<close> and by the character count the code tests, so that they are structural
  recursions on the count and need no fuel.  \<open>Mxser_Live\<close> makes the operations a step relation:
  the well-formedness of a port is invariant, a held transmitter is always woken, and the queue
  drains when nothing holds it back.  \<open>Mxser_Spec\<close> states an abstract transmitter (bytes waiting,
  bytes on the wire, held, enabled) and the refinement.  \<open>Mxser_Config\<close> has opening, closing,
  start-up, shut-down and the line settings; \<open>Mxser_Ioctl\<close> the requests on a port, with what they
  guarantee in \<open>Mxser_IoctlProps\<close>; \<open>Mxser_Control\<close> the control device with the monitor
  snapshots; \<open>Mxser_Probe\<close> the serial EEPROM, the probing of ISA and PCI boards, module
  initialisation and exit.  The search of the PCI bus recurses on a fuel; \<open>init_returns\<close> shows
  that \<open>26 * (N + 1) + N\<close> steps are enough for a bus of \<open>N\<close> devices (26 entries in the table of
  boards, each searched to the end of the bus).

  \<^bold>\<open>Board controls.\<close>  \<open>Superio\<close>: \<open>modules/moxa_v2100_superio\<close>, entering the configuration mode,
  selecting a logical device, reading and writing a register.  \<open>Watchdog\<close>:
  \<open>modules/moxa_v2100_wdt\<close> over it, a state machine of the device operations with the invariant
  that the hardware counter is stopped or holds the whole timeout.  \<open>Dio\<close>:
  \<open>modules/moxa_x86_dio\<close> with the board file of each product.  \<open>Uart_Mode\<close>:
  \<open>modules/moxa_v2200_uart\<close> and \<open>modules/moxa_da820_uartmode\<close>.  \<open>Leds\<close>: \<open>modules/moxa_pled\<close>
  and \<open>modules/moxa_da681a_relay\<close>.  \<open>Gpio_Power\<close>: \<open>modules/moxa_da820_usb_power\<close>,
  \<open>modules/moxa_v2616A_minipcie_reset\<close>, \<open>modules/moxa_v2403_minipciepower\<close> and
  \<open>modules/v2400a_dkcontrol\<close>.  For each: which bit of which port a request drives, that it is
  read back, that the other bits keep, and what is refused.

  \<^bold>\<open>Disk hotswap.\<close>  \<open>Hotswap\<close> models the driver \<open>modules/moxa_v2616A_hotswap\<close> (the sampling timer,
  the busy window, the button and LED requests) and the library \<open>user/mxhtspd/mxhtsp_lx.c\<close>;
  \<open>Hotswap_Daemon\<close> models \<open>user/mxhtspd/mxhtspd.c\<close> on top: the loop over the disks, the scripts
  it starts and the configuration file.  Driver, library and daemon are composed: the plug
  scripts of a disk alternate.

  \<^bold>\<open>Time code and measuring modules.\<close>  \<open>Irigb\<close>: \<open>modules/moxa_IRIG-B\<close>, the register requests, the
  interrupt handler with its masks, polling, probe and remove.  \<open>Epm3438\<close>:
  \<open>modules/v2400a_epm3438\<close>, outputs, inputs and the counter of a board, with the invariant that
  the byte the driver keeps is the byte in the output register.

  \<^bold>\<open>The serial driver for PCI Express boards\<close>, \<open>modules/mxser/mxupcie.c\<close>.  \<open>Mxu_Baud\<close>: the record of
  a port extends that of \<open>mxser\<close>; the search for divisor and clocks finds the nearest rate.
  \<open>Mxu_Board\<close>: interface and terminator switches, breaks, board configuration, module
  initialisation and exit; two ports share an interface register and do not disturb each other.
  The search of the bus recurses on a fuel as in \<open>mxser\<close>.  \<open>Mxu_Port\<close>: the ring and the bursts to
  and from the chip's memory window, the receive path, modem status and the interrupt handler,
  whose two bounded loops are recursions on the count the code tests.  The locale \<open>stream_device\<close>
  of \<open>Interfaces\<close> states what the transmit side of a serial driver promises, and each driver
  interprets it.  \<open>Mxu_Ops\<close>: start-up, shut-down, open, close, hang-up and waiting; an opened
  port starts with an empty stream.  \<open>Mxu_Ioctl\<close>: the requests; a special baud rate is read back,
  and the serial info reads the receive register where the address is meant.

  \<^bold>\<open>The USB serial driver\<close>, \<open>modules/mxu11x0/driver/mxu11x0.c\<close>.  \<open>Mxu11_Buf\<close>: the circular write
  buffer is a queue.  \<open>Mxu11_Usb\<close>: the state of a device and its port, the commands, the firmware
  download.  \<open>Mxu11_Port\<close>: sending, receiving, the URB callbacks, draining.  \<open>Mxu11_Ops\<close>: line settings,
  open, close, requests, attaching.  What the kernel delivers while a call sleeps is a list of events
  per sleep, so interleavings are explicit and a call that sleeps longer than the list says so.
  \<open>Mxu11_Frame\<close> has two locales for what every operation keeps; \<open>Mxu11_Stream\<close> interprets them for the
  bytes sent (a third \<open>stream_device\<close>, progress, and the bytes a refused URB loses),
  \<open>Mxu11_Device\<close> for the read URB over every reachable state, with the firmware download (16287 rounds
  are enough, one for each byte of the image) and the interface requests.

  \<^bold>\<open>Tools.\<close>  The command line tools are modelled on the drivers whose devices they open, so their
  theorems run from the arguments to the pins.  \<open>C_Library\<close> has what they use of C: \<open>getopt\<close>, the number
  conversions, uninitialised variables.  \<open>Dio_Library\<close> is \<open>dio.c\<close> of \<open>user/mx_dio_control\<close>: requests,
  registered input events and the polling thread, whose loop never ends and is modelled round by
  round; \<open>Dio_Events\<close> has the step relation of a polled port and shows which samples are reported;
  \<open>Dio_Tool\<close> is \<open>mx_dio_control.c\<close>.  \<open>Power_Tools\<close>: \<open>mx_usb_power\<close>, \<open>mxdkcontrol\<close>, both \<open>mx_pcie_power\<close> and
  \<open>mx_pcie_reset\<close>.  \<open>Serial_Tools\<close>: \<open>setuartmode\<close>, \<open>v2201_setinterface\<close> and \<open>setinterface\<close>; \<open>Usb_Tools\<close>:
  \<open>v2403_setinterface\<close>.  What is set by one run is what the next run prints.

  \<^bold>\<open>Serial utilities.\<close>  The four programs of \<open>user/muestty_utility\<close>, on the two serial drivers.
  \<open>Muestty_Conf\<close> is \<open>conf/conftool.c\<close>.  \<open>Muestty_Recv\<close> is the window of received data (\<open>term/recvmon.c\<close>), shown
  equal to a console that types the characters.  \<open>Muestty_Line\<close> has the line settings of the terminal
  program, the attributes it asks for and the page of the monitor that reads them back through the driver.
  \<open>Muestty_Term\<close> is the rest of \<open>term\<close>: the dumb terminal, patterns and files (a list of rounds of
  \<open>select\<close> is an argument, so every length of a run is covered), the menus as a step relation.
  \<open>Muestty_Mon\<close> is \<open>global.c\<close> and \<open>diag/diag.c\<close>, \<open>Muestty_Watch\<close> is \<open>mon\<close>: the names found in the listing of
  \<open>/dev\<close>, the counters and the moves between boards and ports, for every list of keys.  The window library
  and \<open>ls\<close> are not part of the sources: what they return is an argument.

  \<^bold>\<open>Not modelled.\<close>  The network, CAN and modem
  drivers (\<open>r8168\<close>, \<open>v2400a_epm3112\<close>, \<open>qmi_wwan\<close>) and the tools \<open>ifenslave\<close> and \<open>user/cpu\<close> are vendored.  The programs
  under \<open>user/irigb\<close> and the drawing of the menus of \<open>muestty_utility\<close> stand on libraries that are not in the
  repository.  Locking is modelled where it orders events (an operation under the lock is one
  step); preemption inside an operation that holds no lock is not.  The manifest lists every part
  with its state.
\<close>

end
